(* ===== verification/Prelude.thy ===== *)
theory Prelude
  imports Complex_Main "HOL-Library.AList" "HOL-Library.List_Lexorder" "HOL-Library.Char_ord"
begin

text \<open>
  Shared ground of the development: Python exceptions as values of a sum type and their
  sequencing, Python dictionaries as insertion-ordered association lists, Python sets of
  strings as duplicate-free lists, the dynamically typed values that reach the graph core
  through JSON documents, and the generic lemmas the component theories use.

  Strings are lists of HOL characters, that is code points below 256, so that lengths,
  slices and the lexicographic order of \<open>HOL-Library.List_Lexorder\<close> are Python's.
\<close>

named_theorems dict_simps "rewrite rules for insertion-ordered dictionaries"
named_theorems res_simps "rewrite rules for computations that may raise"

section \<open>Exceptions\<close>

text \<open>
  The exception classes the graph core raises or catches. \<open>ValidationError\<close> is the
  schema library's error and \<open>TransitionConflict\<close> the transition manager's, both subclasses of
  \<open>ValueError\<close>.
\<close>

datatype pyexc =
  ValueError | KeyError | TypeError | AttributeError | ValidationError | TransitionConflict

type_synonym 'a res = "pyexc + 'a"

definition rbind :: "'a res \<Rightarrow> ('a \<Rightarrow> 'b res) \<Rightarrow> 'b res" where
  "rbind m f = (case m of Inl e \<Rightarrow> Inl e | Inr x \<Rightarrow> f x)"

text \<open>A loop whose body may raise: the state is threaded and the first exception ends it.\<close>

fun rfold :: "('a \<Rightarrow> 's \<Rightarrow> 's res) \<Rightarrow> 'a list \<Rightarrow> 's \<Rightarrow> 's res" where
  "rfold f [] s = Inr s"
| "rfold f (x # xs) s = rbind (f x s) (rfold f xs)"

text \<open>A loop that collects what each iteration appends, in order.\<close>

fun rconcat :: "('a \<Rightarrow> 'b list res) \<Rightarrow> 'a list \<Rightarrow> 'b list res" where
  "rconcat f [] = Inr []"
| "rconcat f (x # xs) = rbind (f x) (\<lambda>ys. rbind (rconcat f xs) (\<lambda>zs. Inr (ys @ zs)))"

section \<open>Dictionaries and sets\<close>

type_synonym 'v dict = "(string \<times> 'v) list"

text \<open>
  \<open>dget\<close> is \<open>d.get(k)\<close>; \<open>dset\<close> is \<open>d[k] = v\<close>, which keeps the position of an existing key
  and appends a new one; \<open>ddel\<close> is \<open>d.pop(k, None)\<close>; \<open>dupdate\<close> is \<open>d.update(e)\<close>.
\<close>

abbreviation dget :: "'v dict \<Rightarrow> string \<Rightarrow> 'v option" where
  "dget \<equiv> map_of"

abbreviation dset :: "string \<Rightarrow> 'v \<Rightarrow> 'v dict \<Rightarrow> 'v dict" where
  "dset \<equiv> AList.update"

abbreviation ddel :: "string \<Rightarrow> 'v dict \<Rightarrow> 'v dict" where
  "ddel \<equiv> AList.delete"

definition dhas :: "string \<Rightarrow> 'v dict \<Rightarrow> bool" where
  "dhas k d \<longleftrightarrow> k \<in> set (map fst d)"

definition dvalues :: "'v dict \<Rightarrow> 'v list" where
  "dvalues d = map snd d"

definition dupdate :: "'v dict \<Rightarrow> 'v dict \<Rightarrow> 'v dict" where
  "dupdate d e = foldl (\<lambda>acc kv. dset (fst kv) (snd kv) acc) d e"

text \<open>\<open>{key(x): x for x in xs}\<close>: a later element replaces an earlier one with the same key.\<close>

definition index_by :: "('a \<Rightarrow> 'k) \<Rightarrow> 'a list \<Rightarrow> ('k \<times> 'a) list" where
  "index_by key xs = foldl (\<lambda>acc x. AList.update (key x) x acc) [] xs"

text \<open>\<open>d[k]\<close>, which raises \<open>KeyError\<close> for a missing key.\<close>

definition dindex :: "'v dict \<Rightarrow> string \<Rightarrow> 'v res" where
  "dindex d k = (case dget d k of None \<Rightarrow> Inl KeyError | Some v \<Rightarrow> Inr v)"

text \<open>\<open>sorted(set(xs))\<close> over strings.\<close>

definition sorted_set :: "string list \<Rightarrow> string list" where
  "sorted_set xs = sort (remdups xs)"

text \<open>\<open>dict.fromkeys(xs)\<close>: the first occurrence of every element, in order.\<close>

definition fromkeys :: "'a list \<Rightarrow> 'a list" where
  "fromkeys xs = rev (remdups (rev xs))"

text \<open>\<open>len(xs) != len(set(xs))\<close>.\<close>

definition has_duplicates :: "'a list \<Rightarrow> bool" where
  "has_duplicates xs \<longleftrightarrow> \<not> distinct xs"

section \<open>Dynamically typed values\<close>

text \<open>
  A \<open>datetime\<close> is naive or aware; comparing the two kinds raises \<open>TypeError\<close>. The payload
  counts microseconds from a fixed epoch.
\<close>

datatype py_time = TNaive int | TAware int

text \<open>
  What a JSON document decodes to, plus \<open>VTime\<close> for a parsed \<open>datetime\<close> and \<open>VModel\<close> for a
  validated model object, which never equals the dictionary it was made from. Finite
  floats are rationals.
\<close>

datatype pyval =
    VNone
  | VBool bool
  | VInt int
  | VFloat rat
  | VStr string
  | VTime py_time
  | VList "pyval list"
  | VDict "(string \<times> pyval) list"
  | VModel "(string \<times> pyval) list"

type_synonym doc = "pyval dict"

text \<open>Truth testing: \<open>bool(v)\<close>.\<close>

fun truthy :: "pyval \<Rightarrow> bool" where
  "truthy VNone = False"
| "truthy (VBool b) = b"
| "truthy (VInt i) = (i \<noteq> 0)"
| "truthy (VFloat q) = (q \<noteq> 0)"
| "truthy (VStr s) = (s \<noteq> [])"
| "truthy (VTime _) = True"
| "truthy (VList xs) = (xs \<noteq> [])"
| "truthy (VDict d) = (d \<noteq> [])"
| "truthy (VModel _) = True"

text \<open>Membership of a value in a set of string literals: lists and dictionaries are unhashable.\<close>

definition in_literals :: "pyval option \<Rightarrow> string list \<Rightarrow> bool res" where
  "in_literals v S = (case v of
       Some (VStr s) \<Rightarrow> Inr (s \<in> set S)
     | Some (VList _) \<Rightarrow> Inl TypeError
     | Some (VDict _) \<Rightarrow> Inl TypeError
     | _ \<Rightarrow> Inr False)"

text \<open>Iteration over a value: strings yield their characters and dictionaries their keys.\<close>

fun py_iter :: "pyval \<Rightarrow> pyval list res" where
  "py_iter (VList xs) = Inr xs"
| "py_iter (VStr s) = Inr (map (\<lambda>c. VStr [c]) s)"
| "py_iter (VDict d) = Inr (map (\<lambda>kv. VStr (fst kv)) d)"
| "py_iter (VModel d) = Inr (map (\<lambda>kv. VList [VStr (fst kv), snd kv]) d)"
| "py_iter _ = Inl TypeError"

text \<open>Python equality: booleans, integers and floats compare by value.\<close>

fun num_of :: "pyval \<Rightarrow> rat option" where
  "num_of (VBool b) = Some (of_bool b)"
| "num_of (VInt i) = Some (of_int i)"
| "num_of (VFloat q) = Some q"
| "num_of _ = None"

fun py_eq :: "pyval \<Rightarrow> pyval \<Rightarrow> bool"
  and py_eq_list :: "pyval list \<Rightarrow> pyval list \<Rightarrow> bool"
  and py_eq_items :: "(string \<times> pyval) list \<Rightarrow> (string \<times> pyval) list \<Rightarrow> bool" where
  "py_eq (VList xs) w = (case w of VList ys \<Rightarrow> py_eq_list xs ys | _ \<Rightarrow> False)"
| "py_eq (VDict d) w =
     (case w of VDict e \<Rightarrow> length d = length e \<and> py_eq_items d e | _ \<Rightarrow> False)"
| "py_eq (VModel d) w =
     (case w of VModel e \<Rightarrow> length d = length e \<and> py_eq_items d e | _ \<Rightarrow> False)"
| "py_eq v w = (case num_of v of Some p \<Rightarrow> num_of w = Some p | None \<Rightarrow> v = w)"
| "py_eq_list [] ys = (ys = [])"
| "py_eq_list (x # xs) ys = (case ys of [] \<Rightarrow> False | y # ys' \<Rightarrow> py_eq x y \<and> py_eq_list xs ys')"
| "py_eq_items [] e = True"
| "py_eq_items (kv # d) e =
     ((case map_of e (fst kv) of None \<Rightarrow> False | Some w \<Rightarrow> py_eq (snd kv) w) \<and> py_eq_items d e)"

section \<open>Strings\<close>

abbreviation is_lower :: "char \<Rightarrow> bool" where
  "is_lower c \<equiv> CHR ''a'' \<le> c \<and> c \<le> CHR ''z''"

abbreviation is_digit :: "char \<Rightarrow> bool" where
  "is_digit c \<equiv> CHR ''0'' \<le> c \<and> c \<le> CHR ''9''"

text \<open>\<open>s.startswith(p)\<close>.\<close>

definition starts_with :: "string \<Rightarrow> string \<Rightarrow> bool" where
  "starts_with s p \<longleftrightarrow> take (length p) s = p"

text \<open>\<open>c.isspace()\<close>, which is what \<open>str.strip\<close> removes.\<close>

definition is_space :: "char \<Rightarrow> bool" where
  "is_space c \<longleftrightarrow> (let n = of_char c :: nat in n = 32 \<or> (9 \<le> n \<and> n \<le> 13) \<or> (28 \<le> n \<and> n \<le> 31)
     \<or> n = 133 \<or> n = 160)"

definition py_strip :: "string \<Rightarrow> string" where
  "py_strip s = rev (dropWhile is_space (rev (dropWhile is_space s)))"

text \<open>\<open>s.split(sep, 1)\<close> for a one-character separator: one or two parts.\<close>

definition split1 :: "char \<Rightarrow> string \<Rightarrow> string list" where
  "split1 c s = (if c \<in> set s
     then [takeWhile (\<lambda>x. x \<noteq> c) s, tl (dropWhile (\<lambda>x. x \<noteq> c) s)] else [s])"

text \<open>\<open>s.split(c)\<close>, and the runs and names the schema's patterns accept.\<close>

fun split_on :: "char \<Rightarrow> string \<Rightarrow> string list" where
  "split_on c [] = [[]]"
| "split_on c (x # xs) =
     (if x = c then [] # split_on c xs
      else case split_on c xs of [] \<Rightarrow> [[x]] | y # ys \<Rightarrow> (x # y) # ys)"

definition slug_run :: "string \<Rightarrow> bool" where
  "slug_run s \<longleftrightarrow> s \<noteq> [] \<and> list_all (\<lambda>c. is_lower c \<or> is_digit c) s"

text \<open>The pattern \<open>^[a-z][a-z0-9]*(?:_[a-z0-9]+)*$\<close>.\<close>

definition name_pattern :: "string \<Rightarrow> bool" where
  "name_pattern s \<longleftrightarrow> s \<noteq> [] \<and> is_lower (hd s) \<and> list_all slug_run (split_on CHR ''_'' s)"

text \<open>A dictionary without duplicate keys whose values carry their own key.\<close>

definition keyed :: "('v \<Rightarrow> string) \<Rightarrow> 'v dict \<Rightarrow> bool" where
  "keyed key d \<longleftrightarrow> distinct (map fst d) \<and> (\<forall>kv \<in> set d. key (snd kv) = fst kv)"

section \<open>Lemmas\<close>

lemma rbind_Inl [simp, res_simps]: "rbind (Inl e) f = Inl e"
  by (simp add: rbind_def)

lemma rbind_Inr [simp, res_simps]: "rbind (Inr x) f = f x"
  by (simp add: rbind_def)

lemma rbind_eq_Inr [res_simps]: "rbind m f = Inr y \<longleftrightarrow> (\<exists>x. m = Inr x \<and> f x = Inr y)"
  by (cases m) auto

lemma rbind_eq_Inl: "rbind m f = Inl e \<longleftrightarrow> m = Inl e \<or> (\<exists>x. m = Inr x \<and> f x = Inl e)"
  by (cases m) auto

lemma rbind_assoc: "rbind (rbind m f) g = rbind m (\<lambda>x. rbind (f x) g)"
  by (cases m) auto

lemma rfold_append: "rfold f (xs @ ys) s = rbind (rfold f xs s) (rfold f ys)"
  by (induction xs arbitrary: s) (simp_all add: rbind_def split: sum.splits)

lemma rfold_invariant:
  assumes "rfold f xs s = Inr t" and "P s"
    and "\<And>x s s'. x \<in> set xs \<Longrightarrow> P s \<Longrightarrow> f x s = Inr s' \<Longrightarrow> P s'"
  shows "P t"
  using assms
proof (induction xs arbitrary: s)
  case Nil
  then show ?case by simp
next
  case (Cons x xs)
  from Cons.prems(1) obtain s' where s': "f x s = Inr s'" and rest: "rfold f xs s' = Inr t"
    by (auto simp: rbind_eq_Inr)
  have "P s'" using Cons.prems(2,3) s' by (meson list.set_intros(1))
  then show ?case using Cons.IH [OF rest] Cons.prems(3) by (meson list.set_intros(2))
qed

lemma rconcat_Inr_element:
  assumes "rconcat f xs = Inr ys" and "x \<in> set xs"
  shows "\<exists>zs. f x = Inr zs \<and> set zs \<subseteq> set ys"
  using assms by (induction xs arbitrary: ys) (fastforce simp: rbind_eq_Inr)+

lemma rconcat_append:
  "rconcat f (xs @ ys) = rbind (rconcat f xs) (\<lambda>a. rbind (rconcat f ys) (\<lambda>b. Inr (a @ b)))"
  by (induction xs) (auto simp: rbind_def split: sum.splits)

lemma dget_dset [simp, dict_simps]:
  "dget (dset k v d) k' = (if k' = k then Some v else dget d k')"
  by (simp add: update_conv)

lemma dget_ddel [simp, dict_simps]: "dget (ddel k d) k' = (if k' = k then None else dget d k')"
  by (simp add: delete_conv)

lemma dhas_iff [dict_simps]: "dhas k d \<longleftrightarrow> (\<exists>v. dget d k = Some v)"
  by (metis dhas_def domD domI dom_map_of_conv_image_fst list.set_map)

lemma dhas_dset [simp, dict_simps]: "dhas k (dset k' v d) \<longleftrightarrow> k = k' \<or> dhas k d"
  by (auto simp: dhas_iff)

lemma keys_dset: "set (map fst (dset k v d)) = insert k (set (map fst d))"
  by (induction d) auto

lemma distinct_keys_dset: "distinct (map fst d) \<Longrightarrow> distinct (map fst (dset k v d))"
  by (rule distinct_update)

lemma distinct_keys_ddel: "distinct (map fst d) \<Longrightarrow> distinct (map fst (ddel k d))"
  by (rule distinct_delete)

lemma set_dset: "set (dset k v d) \<subseteq> insert (k, v) (set d)"
  by (induction d) auto

lemma set_ddel: "set (ddel k d) = {kv \<in> set d. fst kv \<noteq> k}"
  by (auto simp: AList.delete_eq)

lemma distinct_keys_filter: "distinct (map fst d) \<Longrightarrow> distinct (map fst (filter P d))"
  by (rule distinct_map_filter)

lemma dget_filter:
  "distinct (map fst d) \<Longrightarrow>
   dget (filter P d) k = (case dget d k of None \<Rightarrow> None | Some v \<Rightarrow> if P (k, v) then Some v else None)"
  by (induction d) (auto simp: map_of_eq_None_iff image_iff split: option.splits)

lemma dget_dupdate:
  "dget (dupdate d e) k = (case dget (rev e) k of None \<Rightarrow> dget d k | Some v \<Rightarrow> Some v)"
  unfolding dupdate_def
  by (induction e arbitrary: d) (auto simp: map_add_def split: option.splits)

lemma map_of_foldl_update:
  "map_of (foldl (\<lambda>acc x. AList.update (key x) x acc) d xs) k =
     (case map_of (rev (map (\<lambda>x. (key x, x)) xs)) k of None \<Rightarrow> map_of d k | Some x \<Rightarrow> Some x)"
proof (induction xs arbitrary: d)
  case (Cons x xs)
  then show ?case by (auto simp: update_conv map_add_def split: option.splits)
qed simp

lemma map_of_index_by_Some: "map_of (index_by key xs) k = Some x \<Longrightarrow> x \<in> set xs \<and> key x = k"
  by (auto simp: index_by_def map_of_foldl_update split: option.splits dest: map_of_SomeD)

lemma map_of_index_by_distinct:
  "distinct (map key xs) \<Longrightarrow> x \<in> set xs \<Longrightarrow> map_of (index_by key xs) (key x) = Some x"
proof -
  assume d: "distinct (map key xs)" and x: "x \<in> set xs"
  have "map_of (rev (map (\<lambda>x. (key x, x)) xs)) (key x) = Some x"
    using d x by (intro map_of_is_SomeI) (auto simp: rev_map comp_def distinct_map)
  then show ?thesis by (simp add: index_by_def map_of_foldl_update)
qed

lemma map_of_index_by_None: "map_of (index_by key xs) k = None \<longleftrightarrow> k \<notin> set (map key xs)"
proof -
  have "map_of (index_by key xs) k = map_of (rev (map (\<lambda>x. (key x, x)) xs)) k"
    by (simp add: index_by_def map_of_foldl_update split: option.splits)
  then show ?thesis by (simp add: map_of_eq_None_iff image_comp comp_def)
qed

lemma set_fromkeys [simp]: "set (fromkeys xs) = set xs"
  by (simp add: fromkeys_def)

lemma set_sorted_set [simp]: "set (sorted_set xs) = set xs"
  by (simp add: sorted_set_def)

lemma sorted_sorted_set: "sorted (sorted_set xs)"
  by (simp add: sorted_set_def)

lemma distinct_sorted_set: "distinct (sorted_set xs)"
  by (simp add: sorted_set_def)

lemma sorted_set_cong: "set xs = set ys \<Longrightarrow> sorted_set xs = sorted_set ys"
  by (simp add: sorted_set_def sorted_distinct_set_unique)

lemma sorted_set_idem [simp]: "sorted_set (sorted_set xs) = sorted_set xs"
  by (rule sorted_set_cong) simp

lemma dindex_Inr [simp, res_simps]: "dindex d k = Inr v \<longleftrightarrow> dget d k = Some v"
  by (simp add: dindex_def split: option.splits)

lemma dindex_Inl [simp, res_simps]: "dindex d k = Inl e \<longleftrightarrow> dget d k = None \<and> e = KeyError"
  by (auto simp: dindex_def split: option.splits)

lemma keyed_dset: "keyed key d \<Longrightarrow> key v = k \<Longrightarrow> keyed key (dset k v d)"
  using set_dset [of k v d] by (auto simp: keyed_def distinct_keys_dset)

lemma keyed_filter: "keyed key d \<Longrightarrow> keyed key (filter P d)"
  by (auto simp: keyed_def distinct_keys_filter)

lemma keyed_ddel: "keyed key d \<Longrightarrow> keyed key (ddel k d)"
  by (auto simp: keyed_def distinct_keys_ddel set_ddel)

lemma keyed_ddel_all: "keyed key d \<Longrightarrow> keyed key (foldl (\<lambda>d i. ddel i d) d ids)"
  by (induction ids arbitrary: d) (auto intro: keyed_ddel)

lemma keyed_dget: "keyed key d \<Longrightarrow> dget d k = Some v \<Longrightarrow> key v = k"
  by (auto simp: keyed_def dest: map_of_SomeD)

end
