(* ===== verification/Models.thy ===== *)
theory Models
  imports Prelude
begin

text \<open>
  The data of the graph core: \<open>core/models.py\<close> (nodes, edges, ontology, proposals, graph
  state, Patch), \<open>core/operations.py\<close> (the operation payloads and the two operation unions)
  and \<open>core/transition_models.py\<close> (heads and transition traces).

  A pydantic class is a record with a short field prefix; a \<open>Literal\<close> of status words stays
  a string, because the code compares it with raw document values; a discriminated union
  is a datatype. \<open>exclude_unset\<close> is visible where the code relies on it: created nodes,
  proposals, coverage updates and new edges keep which fields were supplied. Message texts
  are left out of validation messages; codes, levels and related ids are kept.
\<close>

section \<open>Nodes\<close>

datatype standing = Asserted | Accepted | Contested

definition standing_name :: "standing \<Rightarrow> string" where
  "standing_name s = (case s of Asserted \<Rightarrow> ''asserted'' | Accepted \<Rightarrow> ''accepted''
     | Contested \<Rightarrow> ''contested'')"

record source_ref =
  sr_machine :: string
  sr_truth_repository :: string
  sr_source :: string
  sr_session_id :: string
  sr_record_uuid :: string
  sr_timestamp :: py_time
  sr_excerpt :: string

record decision_pin =
  pin_decision_id :: string
  pin_decision_revision :: int
  pin_selected_option :: string

record attempt_debug =
  dbg_mechanical_fault :: string
  dbg_change :: string
  dbg_predicted_effect :: string

definition active_attempt_statuses :: "string list" where
  "active_attempt_statuses = [''planned'', ''submitted'', ''running'']"

record attempt =
  at_id :: string
  at_sequence :: int
  at_purpose :: string
  at_attempt_kind :: string
  at_decision_bundle :: "decision_pin list"
  at_debug :: "attempt_debug option"
  at_configuration :: string
  at_status :: string
  at_job_refs :: "string list"
  at_source_refs :: "source_ref list"
  at_outcome :: "string option"
  at_failure_reason :: "string option"
  at_started_at :: "py_time option"
  at_finished_at :: "py_time option"

record research_question =
  rq_question :: string
  rq_motivation :: string
  rq_scope :: string
  rq_status :: string

record hypothesis =
  hyp_statement :: string
  hyp_rationale :: string
  hyp_predictions :: "string list"
  hyp_scope :: string
  hyp_status :: string

record decision =
  dec_question :: string
  dec_options :: "string list"
  dec_selected_option :: "string option"
  dec_rationale :: "string option"
  dec_consequences :: "string list"
  dec_status :: string

record experiment_node =
  exp_objective :: string
  exp_design :: string
  exp_expected_outcomes :: "string list"
  exp_interpretation_rules :: "string list"
  exp_completion_criteria :: "string list"
  exp_invocation_ceiling :: int
  exp_status :: string
  exp_attempts :: "attempt list"
  exp_current_summary :: string
  exp_next_action :: "string option"
  exp_current_summary_stale :: bool
  exp_next_action_stale :: bool

definition closed_experiment_statuses :: "string list" where
  "closed_experiment_statuses = [''completed'', ''abandoned'', ''superseded'']"

record evidence =
  ev_observation :: string
  ev_interpretation :: string
  ev_role :: string
  ev_legacy_strength :: "string option"
  ev_validity :: string
  ev_origin :: string
  ev_artifact_refs :: "string list"

record blocker =
  blk_description :: string
  blk_blocker_type :: string
  blk_status :: string
  blk_resolution_condition :: string
  blk_recommended_action :: "string option"

datatype node_body =
    ResearchQuestion research_question
  | Hypothesis hypothesis
  | Decision decision
  | Experiment experiment_node
  | Evidence evidence
  | Blocker blocker

text \<open>\<open>BaseNode\<close> with the class-specific part in \<open>n_body\<close>.\<close>

record project_node =
  n_id :: string
  n_title :: string
  n_extension_type :: "string option"
  n_extension_fields :: doc
  n_standing :: standing
  n_created_rev :: int
  n_updated_rev :: int
  n_source_refs :: "source_ref list"
  n_body :: node_body

definition body_type :: "node_body \<Rightarrow> string" where
  "body_type b = (case b of
       ResearchQuestion _ \<Rightarrow> ''research_question''
     | Hypothesis _ \<Rightarrow> ''hypothesis''
     | Decision _ \<Rightarrow> ''decision''
     | Experiment _ \<Rightarrow> ''experiment''
     | Evidence _ \<Rightarrow> ''evidence''
     | Blocker _ \<Rightarrow> ''blocker'')"

abbreviation n_type :: "project_node \<Rightarrow> string" where
  "n_type n \<equiv> body_type (n_body n)"

text \<open>\<open>getattr(node, "status", None)\<close>: Evidence has no status field.\<close>

definition node_status :: "project_node \<Rightarrow> string option" where
  "node_status n = (case n_body n of
       ResearchQuestion q \<Rightarrow> Some (rq_status q)
     | Hypothesis h \<Rightarrow> Some (hyp_status h)
     | Decision d \<Rightarrow> Some (dec_status d)
     | Experiment x \<Rightarrow> Some (exp_status x)
     | Evidence _ \<Rightarrow> None
     | Blocker b \<Rightarrow> Some (blk_status b))"

definition is_protected :: "project_node \<Rightarrow> bool" where
  "is_protected n = (case n_body n of ResearchQuestion _ \<Rightarrow> True | Hypothesis _ \<Rightarrow> True | _ \<Rightarrow> False)"

definition as_decision :: "project_node option \<Rightarrow> decision option" where
  "as_decision n = (case n of Some m \<Rightarrow> (case n_body m of Decision d \<Rightarrow> Some d | _ \<Rightarrow> None) | None \<Rightarrow> None)"

definition as_hypothesis :: "project_node option \<Rightarrow> hypothesis option" where
  "as_hypothesis n = (case n of Some m \<Rightarrow> (case n_body m of Hypothesis h \<Rightarrow> Some h | _ \<Rightarrow> None) | None \<Rightarrow> None)"

definition as_experiment :: "project_node option \<Rightarrow> experiment_node option" where
  "as_experiment n = (case n of Some m \<Rightarrow> (case n_body m of Experiment x \<Rightarrow> Some x | _ \<Rightarrow> None) | None \<Rightarrow> None)"

definition as_blocker :: "project_node option \<Rightarrow> blocker option" where
  "as_blocker n = (case n of Some m \<Rightarrow> (case n_body m of Blocker b \<Rightarrow> Some b | _ \<Rightarrow> None) | None \<Rightarrow> None)"

definition human_editable_node_fields :: "node_body \<Rightarrow> string list" where
  "human_editable_node_fields b = (case b of
       ResearchQuestion _ \<Rightarrow> [''title'', ''question'', ''motivation'', ''scope'']
     | Hypothesis _ \<Rightarrow> [''title'', ''statement'', ''rationale'', ''predictions'', ''scope'']
     | Decision _ \<Rightarrow>
         [''title'', ''question'', ''options'', ''rationale'', ''consequences'', ''status'']
     | Experiment _ \<Rightarrow>
         [''title'', ''objective'', ''design'', ''expected_outcomes'', ''interpretation_rules'',
          ''completion_criteria'', ''attempt_ceiling'', ''invocation_ceiling'',
          ''current_summary'', ''next_action'']
     | Evidence _ \<Rightarrow> [''title'', ''observation'', ''interpretation'']
     | Blocker _ \<Rightarrow>
         [''title'', ''description'', ''status'', ''resolution_condition'', ''recommended_action''])"

definition all_node_types :: "string list" where
  "all_node_types = [''research_question'', ''hypothesis'', ''decision'', ''experiment'',
     ''evidence'', ''blocker'']"

section \<open>Ontology\<close>

datatype relation_layer = Epistemic | Action | Seam | Meta

record ontology_type =
  ot_name :: string
  ot_definition :: string
  ot_base_type :: string
  ot_layer :: relation_layer
  ot_deprecated :: bool

datatype field_kind = TextKind | NumberKind | BooleanKind | TextListKind

record ontology_field =
  of_owner_type :: string
  of_name :: string
  of_definition :: string
  of_kind :: field_kind
  of_required :: bool
  of_agent_writable :: bool
  of_deprecated :: bool

record ontology_relation =
  or_name :: string
  or_definition :: string
  or_source_types :: "string list"
  or_target_types :: "string list"
  or_layer :: relation_layer
  or_deprecated :: bool

record ontology_state =
  o_types :: "ontology_type list"
  o_fields :: "ontology_field list"
  o_relations :: "ontology_relation list"

text \<open>The class validator \<open>require_unique_names\<close>: a \<open>ValueError\<close> on duplicate definitions.\<close>

definition require_unique_names :: "ontology_state \<Rightarrow> ontology_state res" where
  "require_unique_names ont =
     (if has_duplicates (map ot_name (o_types ont))
         \<or> has_duplicates (map (\<lambda>f. of_owner_type f @ ''.'' @ of_name f) (o_fields ont))
         \<or> has_duplicates (map or_name (o_relations ont))
      then Inl ValueError else Inr ont)"

definition empty_ontology :: ontology_state where
  "empty_ontology = \<lparr>o_types = [], o_fields = [], o_relations = []\<rparr>"

record relation_spec =
  rs_source_types :: "string list"
  rs_target_types :: "string list"
  rs_layer :: relation_layer
  rs_same_type :: bool

definition relation_spec_of ::
  "string list \<Rightarrow> string list \<Rightarrow> relation_layer \<Rightarrow> relation_spec" where
  "relation_spec_of ss ts l =
     \<lparr>rs_source_types = ss, rs_target_types = ts, rs_layer = l, rs_same_type = False\<rparr>"

definition RELATION_SPEC :: "relation_spec dict" where
  "RELATION_SPEC =
    [(''has_subquestion'', relation_spec_of [''research_question''] [''research_question''] Epistemic),
     (''has_hypothesis'', relation_spec_of [''research_question''] [''hypothesis''] Epistemic),
     (''supports'', relation_spec_of [''evidence''] [''hypothesis''] Epistemic),
     (''weakens'', relation_spec_of [''evidence''] [''hypothesis''] Epistemic),
     (''refutes'', relation_spec_of [''evidence''] [''hypothesis''] Epistemic),
     (''inconclusive'', relation_spec_of [''evidence''] [''hypothesis''] Epistemic),
     (''contradicts'', relation_spec_of [''evidence'', ''hypothesis''] [''hypothesis''] Epistemic),
     (''tests'', relation_spec_of [''experiment''] [''hypothesis''] Seam),
     (''produces'', relation_spec_of [''experiment''] [''evidence''] Seam),
     (''informs'', relation_spec_of [''evidence''] [''decision''] Action),
     (''addresses'', relation_spec_of [''evidence''] [''blocker''] Action),
     (''has_decision'', relation_spec_of [''research_question''] [''decision''] Action),
     (''governed_by'', relation_spec_of [''experiment''] [''decision''] Action),
     (''blocked_by'', relation_spec_of [''experiment'', ''decision'', ''research_question'']
        [''blocker''] Action),
     (''requires_decision'', relation_spec_of [''blocker''] [''decision''] Action),
     (''supersedes'', (relation_spec_of all_node_types all_node_types Meta)\<lparr>rs_same_type := True\<rparr>),
     (''duplicate_of'', (relation_spec_of all_node_types all_node_types Meta)\<lparr>rs_same_type := True\<rparr>)]"

section \<open>Edges, proposals and the other graph records\<close>

record assessment =
  as_relevance :: string
  as_weight :: string
  as_scope :: "string option"
  as_qualifications :: "string list"

record edge =
  e_id :: string
  e_source :: string
  e_target :: string
  e_relation :: string
  e_layer :: relation_layer
  e_explanation :: string
  e_assessment :: "assessment option"
  e_created_rev :: int

record gated_card =
  gc_situation_cold :: string
  gc_why_human_now :: string
  gc_consequences :: string
  gc_decision_needed :: string

record ambiguity =
  am_id :: string
  am_question :: string
  am_why_it_matters :: string
  am_candidates :: "string list"
  am_related_node_ids :: "string list"
  am_artifact_refs :: "string list"
  am_status :: string
  am_raised_rev :: int

record glossary_term =
  gt_term :: string
  gt_plain_definition :: string
  gt_where_defined :: "string option"
  gt_updated_rev :: int

record coverage_boundary =
  cov_repositories_seen :: "string list"
  cov_repositories_never_seen :: "string list"
  cov_sessions_read :: "string list"
  cov_sessions_skipped :: "string list"
  cov_earliest_timestamp :: "py_time option"
  cov_note :: string

definition default_coverage :: coverage_boundary where
  "default_coverage = \<lparr>cov_repositories_seen = [], cov_repositories_never_seen = [],
     cov_sessions_read = [], cov_sessions_skipped = [], cov_earliest_timestamp = None,
     cov_note = ''No seed has completed.''\<rparr>"

datatype msg_level = Flag | Reject

record validation_message =
  vm_level :: msg_level
  vm_code :: string
  vm_patch_revision :: "int option"
  vm_related_node_ids :: "string list"
  vm_related_edge_ids :: "string list"

section \<open>Operation payloads\<close>

datatype belief_cause =
    EvidenceEdgeCause string
  | DecisionCause string
  | ProposalResolutionCause string
  | HumanEditCause

record node_update =
  nu_id :: string
  nu_changes :: doc
  nu_cause :: "belief_cause option"
  nu_base_updated_rev :: "int option"

record supersede_node =
  sn_id :: string
  sn_superseded_by :: "string option"
  sn_explanation :: string
  sn_cause :: "belief_cause option"

record node_merge =
  nm_duplicate :: string
  nm_canonical :: string
  nm_explanation :: string
  nm_cause :: "belief_cause option"

text \<open>\<open>ne_id\<close> is \<open>None\<close> when the id was not supplied and \<open>Some None\<close> for an explicit null.\<close>

record new_edge =
  ne_id :: "string option option"
  ne_source :: string
  ne_target :: string
  ne_relation :: string
  ne_explanation :: string
  ne_assessment :: "assessment option"

record new_ambiguity =
  na_id :: string
  na_question :: string
  na_why_it_matters :: string
  na_candidates :: "string list"
  na_related_node_ids :: "string list"
  na_artifact_refs :: "string list"
  na_status :: string

record ambiguity_resolution =
  ar_id :: string
  ar_status :: string

datatype proposal_status = Pending | Approved | Rejected | Withdrawn

record proposal_resolution =
  pres_id :: string
  pres_status :: proposal_status
  pres_reason :: "string option"

record proposal_withdrawal =
  pw_id :: string
  pw_reason :: string

record new_glossary_term =
  ng_term :: string
  ng_plain_definition :: string
  ng_where_defined :: "string option"

text \<open>Each field is \<open>None\<close> when the update did not supply it.\<close>

record coverage_update =
  cu_repositories_seen :: "string list option"
  cu_repositories_never_seen :: "string list option"
  cu_sessions_read :: "string list option"
  cu_sessions_skipped :: "string list option"
  cu_earliest_timestamp :: "py_time option option"
  cu_note :: "string option"

record repository_descriptor =
  rd_alias :: string
  rd_machine :: string
  rd_path :: string

text \<open>A validated node payload together with the fields its author supplied.\<close>

record created_node =
  cn_node :: project_node
  cn_fields_set :: "string list"

text \<open>
  Operations a proposal may carry. The leading flag is \<open>True\<close> for the \<open>Legacy...\<close> subclass
  of the same shape. The protected-relation class has one constructor per \<open>op\<close>, which is
  what its class validator enforces.
\<close>

datatype proposal_op =
    PContentChange bool "node_update list"
  | PStatusChange bool "node_update list"
  | PRemoval bool "string list"
  | PSupersede bool "supersede_node list"
  | PMerge bool "node_merge list"
  | PRelationCreate bool "new_edge list"
  | PRelationRemove bool "string list"
  | PLegacySetProjectTruthScope "string list" "repository_descriptor option"
  | PLegacySetOntology ontology_state
  | PLegacyCreateNodes "created_node list"
  | PLegacyCreateAmbiguities "new_ambiguity list"
  | PLegacyResolveAmbiguities "ambiguity_resolution list"
  | PLegacyUpsertGlossary "new_glossary_term list"
  | PLegacySetCoverage coverage_update

datatype author = Agent | Human

record proposal =
  pr_id :: string
  pr_title :: string
  pr_card :: gated_card
  pr_ops :: "proposal_op list"
  pr_related_node_ids :: "string list"
  pr_related_edge_ids :: "string list"
  pr_related_config_keys :: "string list"
  pr_base_rev :: int
  pr_status :: proposal_status
  pr_created_by :: author
  pr_created_by_operation_id :: "string option"
  pr_raised_rev :: int
  pr_resolved_rev :: "int option"
  pr_resolved_by :: "author option"
  pr_resolved_by_operation_id :: "string option"
  pr_resolution_reason :: "string option"
  pr_rejection_reason :: "string option"
  pr_fields_set :: "string list"

datatype graph_op =
    CreateNodes "created_node list"
  | UpdateNodes "node_update list"
  | CreateEdges "new_edge list"
  | RemoveEdges "string list"
  | RemoveNodes "string list"
  | SupersedeNodes "supersede_node list"
  | MergeNodes "node_merge list"
  | CreateAmbiguities "new_ambiguity list"
  | ResolveAmbiguities "ambiguity_resolution list"
  | CreateProposals "proposal list"
  | ResolveProposals "proposal_resolution list"
  | WithdrawProposals "proposal_withdrawal list"
  | UpsertGlossary "new_glossary_term list"
  | SetCoverage coverage_update
  | SetStanding string standing
  | SetProjectTruthScope "string list" "repository_descriptor option"
  | SetOntology ontology_state

text \<open>Dropping the proposal-only intent at the replay boundary.\<close>

fun graph_operation_from_proposal :: "proposal_op \<Rightarrow> graph_op" where
  "graph_operation_from_proposal (PContentChange _ us) = UpdateNodes us"
| "graph_operation_from_proposal (PStatusChange _ us) = UpdateNodes us"
| "graph_operation_from_proposal (PRemoval _ ids) = RemoveNodes ids"
| "graph_operation_from_proposal (PSupersede _ ns) = SupersedeNodes ns"
| "graph_operation_from_proposal (PMerge _ ms) = MergeNodes ms"
| "graph_operation_from_proposal (PRelationCreate _ es) = CreateEdges es"
| "graph_operation_from_proposal (PRelationRemove _ ids) = RemoveEdges ids"
| "graph_operation_from_proposal (PLegacySetProjectTruthScope sc r) = SetProjectTruthScope sc r"
| "graph_operation_from_proposal (PLegacySetOntology ont) = SetOntology ont"
| "graph_operation_from_proposal (PLegacyCreateNodes ns) = CreateNodes ns"
| "graph_operation_from_proposal (PLegacyCreateAmbiguities as) = CreateAmbiguities as"
| "graph_operation_from_proposal (PLegacyResolveAmbiguities rs) = ResolveAmbiguities rs"
| "graph_operation_from_proposal (PLegacyUpsertGlossary ts) = UpsertGlossary ts"
| "graph_operation_from_proposal (PLegacySetCoverage c) = SetCoverage c"

definition graph_operations_from_proposal :: "proposal_op list \<Rightarrow> graph_op list" where
  "graph_operations_from_proposal = map graph_operation_from_proposal"

definition op_name :: "graph_op \<Rightarrow> string" where
  "op_name op = (case op of
       CreateNodes _ \<Rightarrow> ''create_nodes'' | UpdateNodes _ \<Rightarrow> ''update_nodes''
     | CreateEdges _ \<Rightarrow> ''create_edges'' | RemoveEdges _ \<Rightarrow> ''remove_edges''
     | RemoveNodes _ \<Rightarrow> ''remove_nodes'' | SupersedeNodes _ \<Rightarrow> ''supersede_nodes''
     | MergeNodes _ \<Rightarrow> ''merge_nodes'' | CreateAmbiguities _ \<Rightarrow> ''create_ambiguities''
     | ResolveAmbiguities _ \<Rightarrow> ''resolve_ambiguities'' | CreateProposals _ \<Rightarrow> ''create_proposals''
     | ResolveProposals _ \<Rightarrow> ''resolve_proposals'' | WithdrawProposals _ \<Rightarrow> ''withdraw_proposals''
     | UpsertGlossary _ \<Rightarrow> ''upsert_glossary'' | SetCoverage _ \<Rightarrow> ''set_coverage''
     | SetStanding _ _ \<Rightarrow> ''set_standing''
     | SetProjectTruthScope _ _ \<Rightarrow> ''set_project_truth_scope''
     | SetOntology _ \<Rightarrow> ''set_ontology'')"

text \<open>The derived edge id \<open>source::relation::target\<close>, and \<open>edge.id or ...\<close>.\<close>

definition derived_edge_id :: "string \<Rightarrow> string \<Rightarrow> string \<Rightarrow> string" where
  "derived_edge_id s r t = s @ ''::'' @ r @ ''::'' @ t"

definition new_edge_id :: "new_edge \<Rightarrow> string" where
  "new_edge_id e = (case ne_id e of
       Some (Some i) \<Rightarrow> if i = [] then derived_edge_id (ne_source e) (ne_relation e) (ne_target e) else i
     | _ \<Rightarrow> derived_edge_id (ne_source e) (ne_relation e) (ne_target e))"

section \<open>Transition provenance\<close>

datatype graph_target = MainTarget | BranchTarget string

record graph_head =
  gh_target :: graph_target
  gh_revision :: int
  gh_transition_id :: "string option"

datatype cause_ref = ActionCause nat | EventCause string

datatype authority_action = DecisionChoice

record initiating_group =
  ig_group_id :: string
  ig_operation_indexes :: "nat list"
  ig_summary :: string
  ig_change_summary :: "string list"
  ig_human_action :: "authority_action option"
  ig_agent_action :: "authority_action option"

record generated_action =
  ga_operation_index :: nat
  ga_rule_id :: string
  ga_cause :: cause_ref

datatype event_type = NodeStatusChanged | GuidanceInvalidated | GuidanceRefreshed

record transition_event =
  te_event_id :: string
  te_event_type :: event_type
  te_cause :: cause_ref
  te_node_id :: string
  te_field :: string
  te_before :: pyval
  te_after :: pyval

record transition_trace =
  tt_transition_id :: string
  tt_pre_head :: graph_head
  tt_ruleset_tag :: string
  tt_initiating_groups :: "initiating_group list"
  tt_generated_actions :: "generated_action list"
  tt_lifecycle_events :: "transition_event list"
  tt_expanded_ops_sha256 :: string

section \<open>Patch and graph state\<close>

datatype patch_kind = Seed | Refresh | Chat | Work | ExperimentLoop | Approval | Identity

datatype producer = AgentProducer | HumanProducer | SystemProducer

datatype profile = Ordinary | Orchestrator

datatype admission = Admitted | NotAdmitted

record authorized_human =
  ah_space_id :: string
  ah_user_id :: string
  ah_display_name :: string

datatype identity_action = IdentityCreated | IdentityAdopted

record project_identity =
  pi_project_id :: string
  pi_home_space_id :: string
  pi_action :: identity_action

record project_home_transfer =
  ht_project_id :: string
  ht_previous_home_space_id :: string
  ht_new_home_space_id :: string
  ht_source_released_by :: authorized_human
  ht_target_admitted_by :: authorized_human

record branch_merge_provenance =
  bm_merge_id :: string
  bm_branch_id :: string
  bm_episode_id :: string
  bm_branch_base_head :: graph_head
  bm_branch_head :: graph_head
  bm_rebased_main_head :: graph_head
  bm_merge_task_id :: string

record patch =
  p_schema_generation :: nat
  p_revision :: int
  p_kind :: patch_kind
  p_author :: "author option"
  p_producer :: producer
  p_created_at :: py_time
  p_summary :: string
  p_ops :: "graph_op list"
  p_run_truth_scope :: "string list"
  p_repositories_read :: "string list"
  p_processed_cursors :: "string dict"
  p_change_summary :: "string list"
  p_source_operation_id :: "string option"
  p_source_effect_id :: "string option"
  p_source_effect_sha256 :: "string option"
  p_human_action :: "authority_action option"
  p_agent_action :: "authority_action option"
  p_admission :: admission
  p_admission_messages :: "validation_message list"
  p_experiment_control_node_id :: "string option"
  p_experiment_decision_bundle :: "decision_pin list"
  p_project_identity :: "project_identity option"
  p_project_home_transfer :: "project_home_transfer option"
  p_authorized_by :: "authorized_human option"
  p_profile :: "profile option"
  p_task_id :: "string option"
  p_episode_id :: "string option"
  p_branch_merge :: "branch_merge_provenance option"
  p_transition :: "transition_trace option"

record belief_transition =
  bt_hypothesis_id :: string
  bt_from_status :: string
  bt_to_status :: string
  bt_revision :: int
  bt_cause :: belief_cause

record replay_failure =
  rf_revision :: int
  rf_created_at :: py_time
  rf_code :: string

datatype replay_status = Complete | Degraded

record graph_state =
  gs_revision :: int
  gs_project_truth_scope :: "string list"
  gs_config_revisions :: "int dict"
  gs_nodes :: "project_node dict"
  gs_edges :: "edge dict"
  gs_proposals :: "proposal dict"
  gs_ambiguities :: "ambiguity dict"
  gs_glossary :: "glossary_term dict"
  gs_ontology :: ontology_state
  gs_coverage :: coverage_boundary
  gs_validation_messages :: "validation_message list"
  gs_belief_transitions :: "belief_transition list"
  gs_replay_status :: replay_status
  gs_replay_failure :: "replay_failure option"
  gs_last_refresh_at :: "py_time option"

definition initial_graph_state :: "string list \<Rightarrow> graph_state" where
  "initial_graph_state scope = \<lparr>gs_revision = 0, gs_project_truth_scope = scope,
     gs_config_revisions = [], gs_nodes = [], gs_edges = [], gs_proposals = [],
     gs_ambiguities = [], gs_glossary = [], gs_ontology = empty_ontology,
     gs_coverage = default_coverage, gs_validation_messages = [], gs_belief_transitions = [],
     gs_replay_status = Complete, gs_replay_failure = None, gs_last_refresh_at = None\<rparr>"

text \<open>The revision a report carries: \<open>patch.revision or None\<close>.\<close>

definition rev_or_none :: "int \<Rightarrow> int option" where
  "rev_or_none r = (if r = 0 then None else Some r)"

end
