(* ===== verification/Schema.thy ===== *)
theory Schema
  imports Models
begin

text \<open>
  Node documents. \<open>model_dump\<close> and \<open>getattr_node\<close> read a node by field name, as the code
  does when it merges an update into a node. The schema library that turns a document back
  into a node is not part of the repository: it is the record \<open>adapters\<close> of parameters,
  and what the code relies on are the laws of the locale \<open>node_adapter\<close>.
  \<open>declared_node\<close> reads the class declarations of \<open>core/models.py\<close> literally (exact types,
  defaults, literals, no extra fields) and interprets the locale, so the laws can hold.
\<close>

section \<open>Dumping nodes\<close>

definition vopt :: "string option \<Rightarrow> pyval" where
  "vopt x = (case x of None \<Rightarrow> VNone | Some s \<Rightarrow> VStr s)"

definition vtime :: "py_time option \<Rightarrow> pyval" where
  "vtime x = (case x of None \<Rightarrow> VNone | Some t \<Rightarrow> VTime t)"

definition vstrs :: "string list \<Rightarrow> pyval" where
  "vstrs xs = VList (map VStr xs)"

definition dump_source_ref :: "source_ref \<Rightarrow> doc" where
  "dump_source_ref r =
    [(''machine'', VStr (sr_machine r)), (''truth_repository'', VStr (sr_truth_repository r)),
     (''source'', VStr (sr_source r)), (''session_id'', VStr (sr_session_id r)),
     (''record_uuid'', VStr (sr_record_uuid r)), (''timestamp'', VTime (sr_timestamp r)),
     (''excerpt'', VStr (sr_excerpt r))]"

definition dump_pin :: "decision_pin \<Rightarrow> doc" where
  "dump_pin p =
    [(''decision_id'', VStr (pin_decision_id p)),
     (''decision_revision'', VInt (pin_decision_revision p)),
     (''selected_option'', VStr (pin_selected_option p))]"

definition dump_debug :: "attempt_debug \<Rightarrow> doc" where
  "dump_debug g =
    [(''mechanical_fault'', VStr (dbg_mechanical_fault g)), (''change'', VStr (dbg_change g)),
     (''predicted_effect'', VStr (dbg_predicted_effect g))]"

text \<open>\<open>nest\<close> wraps a nested model: \<open>VDict\<close> in a dump, \<open>VModel\<close> when read as an attribute.\<close>

definition dump_attempt :: "(doc \<Rightarrow> pyval) \<Rightarrow> attempt \<Rightarrow> doc" where
  "dump_attempt nest a =
    [(''id'', VStr (at_id a)), (''sequence'', VInt (at_sequence a)),
     (''purpose'', VStr (at_purpose a)), (''attempt_kind'', VStr (at_attempt_kind a)),
     (''decision_bundle'', VList (map (\<lambda>p. nest (dump_pin p)) (at_decision_bundle a))),
     (''debug'', (case at_debug a of None \<Rightarrow> VNone | Some g \<Rightarrow> nest (dump_debug g))),
     (''configuration'', VStr (at_configuration a)), (''status'', VStr (at_status a)),
     (''job_refs'', vstrs (at_job_refs a)),
     (''source_refs'', VList (map (\<lambda>r. nest (dump_source_ref r)) (at_source_refs a))),
     (''outcome'', vopt (at_outcome a)), (''failure_reason'', vopt (at_failure_reason a)),
     (''started_at'', vtime (at_started_at a)), (''finished_at'', vtime (at_finished_at a))]"

definition body_fields :: "(doc \<Rightarrow> pyval) \<Rightarrow> node_body \<Rightarrow> doc" where
  "body_fields nest b = (case b of
     ResearchQuestion q \<Rightarrow>
       [(''type'', VStr ''research_question''), (''question'', VStr (rq_question q)),
        (''motivation'', VStr (rq_motivation q)), (''scope'', VStr (rq_scope q)),
        (''status'', VStr (rq_status q))]
   | Hypothesis h \<Rightarrow>
       [(''type'', VStr ''hypothesis''), (''statement'', VStr (hyp_statement h)),
        (''rationale'', VStr (hyp_rationale h)), (''predictions'', vstrs (hyp_predictions h)),
        (''scope'', VStr (hyp_scope h)), (''status'', VStr (hyp_status h))]
   | Decision d \<Rightarrow>
       [(''type'', VStr ''decision''), (''question'', VStr (dec_question d)),
        (''options'', vstrs (dec_options d)), (''selected_option'', vopt (dec_selected_option d)),
        (''rationale'', vopt (dec_rationale d)), (''consequences'', vstrs (dec_consequences d)),
        (''status'', VStr (dec_status d))]
   | Experiment x \<Rightarrow>
       [(''type'', VStr ''experiment''), (''objective'', VStr (exp_objective x)),
        (''design'', VStr (exp_design x)),
        (''expected_outcomes'', vstrs (exp_expected_outcomes x)),
        (''interpretation_rules'', vstrs (exp_interpretation_rules x)),
        (''completion_criteria'', vstrs (exp_completion_criteria x)),
        (''invocation_ceiling'', VInt (exp_invocation_ceiling x)),
        (''status'', VStr (exp_status x)),
        (''attempts'', VList (map (\<lambda>a. nest (dump_attempt nest a)) (exp_attempts x))),
        (''current_summary'', VStr (exp_current_summary x)),
        (''next_action'', vopt (exp_next_action x)),
        (''current_summary_stale'', VBool (exp_current_summary_stale x)),
        (''next_action_stale'', VBool (exp_next_action_stale x))]
   | Evidence e \<Rightarrow>
       [(''type'', VStr ''evidence''), (''observation'', VStr (ev_observation e)),
        (''interpretation'', VStr (ev_interpretation e)), (''role'', VStr (ev_role e)),
        (''legacy_strength'', vopt (ev_legacy_strength e)), (''validity'', VStr (ev_validity e)),
        (''origin'', VStr (ev_origin e)), (''artifact_refs'', vstrs (ev_artifact_refs e))]
   | Blocker k \<Rightarrow>
       [(''type'', VStr ''blocker''), (''description'', VStr (blk_description k)),
        (''blocker_type'', VStr (blk_blocker_type k)), (''status'', VStr (blk_status k)),
        (''resolution_condition'', VStr (blk_resolution_condition k)),
        (''recommended_action'', vopt (blk_recommended_action k))])"

definition node_fields :: "(doc \<Rightarrow> pyval) \<Rightarrow> project_node \<Rightarrow> doc" where
  "node_fields nest n =
    [(''id'', VStr (n_id n)), (''title'', VStr (n_title n)),
     (''extension_type'', vopt (n_extension_type n)),
     (''extension_fields'', VDict (n_extension_fields n)),
     (''standing'', VStr (standing_name (n_standing n))),
     (''created_rev'', VInt (n_created_rev n)), (''updated_rev'', VInt (n_updated_rev n)),
     (''source_refs'', VList (map (\<lambda>r. nest (dump_source_ref r)) (n_source_refs n)))]
    @ body_fields nest (n_body n)"

definition model_dump :: "project_node \<Rightarrow> doc" where
  "model_dump n = node_fields VDict n"

definition getattr_node :: "project_node \<Rightarrow> string \<Rightarrow> pyval option" where
  "getattr_node n f = dget (node_fields VModel n) f"

text \<open>\<open>node.model_dump(mode="python", exclude_unset=True)\<close> of a created node.\<close>

definition raw_of :: "created_node \<Rightarrow> doc" where
  "raw_of c = filter (\<lambda>kv. fst kv \<in> set (cn_fields_set c)) (model_dump (cn_node c))"

section \<open>Parameters for code outside the repository\<close>

text \<open>
  The schema library's validators, \<open>str()\<close> of an arbitrary value, Unicode normalisation
  with case folding, \<open>difflib\<close>'s similarity ratio, the identifier scanner's matches, and
  the JSON form of a timestamp.
\<close>

record adapters =
  ad_node :: "doc \<Rightarrow> project_node res"
  ad_node_strict :: "doc \<Rightarrow> project_node res"
  ad_datetime :: "string \<Rightarrow> py_time res"
  ad_source_ref :: "pyval \<Rightarrow> source_ref res"
  ad_attempt :: "pyval \<Rightarrow> attempt res"
  ad_str :: "pyval \<Rightarrow> string"
  ad_normalize :: "string \<Rightarrow> string"
  ad_ratio :: "string \<Rightarrow> string \<Rightarrow> rat"
  ad_identifiers :: "string \<Rightarrow> string list"
  ad_isoformat :: "py_time \<Rightarrow> string"

text \<open>\<open>_wire_datetime\<close>: only strings that look like an ISO date are parsed.\<close>

definition wire_datetime :: "adapters \<Rightarrow> pyval \<Rightarrow> pyval res" where
  "wire_datetime A v = (case v of
       VStr s \<Rightarrow> if 10 \<le> length s \<and> s ! 4 = CHR ''-'' \<and> s ! 7 = CHR ''-''
                 then rbind (ad_datetime A s) (\<lambda>t. Inr (VTime t)) else Inr v
     | _ \<Rightarrow> Inr v)"

fun rmap :: "('a \<Rightarrow> 'b res) \<Rightarrow> 'a list \<Rightarrow> 'b list res" where
  "rmap f [] = Inr []"
| "rmap f (x # xs) = rbind (f x) (\<lambda>y. rbind (rmap f xs) (\<lambda>ys. Inr (y # ys)))"

definition adapt_key :: "adapters \<Rightarrow> string \<Rightarrow> doc \<Rightarrow> doc res" where
  "adapt_key A k d = (case dget d k of
       None \<Rightarrow> Inr d
     | Some v \<Rightarrow> rbind (wire_datetime A v) (\<lambda>w. Inr (dset k w d)))"

definition adapt_source_ref_datetimes :: "adapters \<Rightarrow> pyval \<Rightarrow> pyval res" where
  "adapt_source_ref_datetimes A v = (case v of
       VList rs \<Rightarrow> rbind (rmap (\<lambda>r. case r of
            VDict d \<Rightarrow> rbind (adapt_key A ''timestamp'' d) (\<lambda>d'. Inr (VDict d'))
          | _ \<Rightarrow> Inr r) rs) (\<lambda>rs'. Inr (VList rs'))
     | _ \<Rightarrow> Inr v)"

definition adapt_refs_of :: "adapters \<Rightarrow> doc \<Rightarrow> doc res" where
  "adapt_refs_of A d = (case dget d ''source_refs'' of
       None \<Rightarrow> Inr d
     | Some v \<Rightarrow> rbind (adapt_source_ref_datetimes A v) (\<lambda>w. Inr (dset ''source_refs'' w d)))"

definition adapt_attempt :: "adapters \<Rightarrow> pyval \<Rightarrow> pyval res" where
  "adapt_attempt A v = (case v of
       VDict d \<Rightarrow> rbind (adapt_key A ''started_at'' d) (\<lambda>d1.
                  rbind (adapt_key A ''finished_at'' d1) (\<lambda>d2.
                  rbind (adapt_refs_of A d2) (\<lambda>d3. Inr (VDict d3))))
     | _ \<Rightarrow> Inr v)"

definition adapt_standing :: "doc \<Rightarrow> doc res" where
  "adapt_standing d = (case dget d ''standing'' of
       Some (VStr s) \<Rightarrow>
         if s \<in> {''asserted'', ''accepted'', ''contested''} then Inr d else Inl ValueError
     | _ \<Rightarrow> Inr d)"

definition adapt_attempts :: "adapters \<Rightarrow> doc \<Rightarrow> doc res" where
  "adapt_attempts A d =
     (if dget d ''type'' = Some (VStr ''experiment'') then
        (case dget d ''attempts'' of
           Some (VList as) \<Rightarrow>
             rbind (rmap (adapt_attempt A) as) (\<lambda>as'. Inr (dset ''attempts'' (VList as') d))
         | _ \<Rightarrow> Inr d)
      else Inr d)"

definition strict_project_node :: "adapters \<Rightarrow> doc \<Rightarrow> project_node res" where
  "strict_project_node A d =
     rbind (adapt_standing d) (\<lambda>d1.
     rbind (adapt_refs_of A d1) (\<lambda>d2.
     rbind (adapt_attempts A d2) (ad_node_strict A)))"

section \<open>The contract of a node validator\<close>

text \<open>
  Fields declared as \<open>str\<close>, \<open>str | None\<close>, \<open>Literal\<close> or \<open>list[str]\<close>: the validator has no
  conversion into these types, so a supplied value is returned as it is.
\<close>

definition exact_fields :: "node_body \<Rightarrow> string list" where
  "exact_fields b = [''id'', ''title'', ''extension_type'', ''standing'', ''type''] @ (case b of
     ResearchQuestion _ \<Rightarrow> [''question'', ''motivation'', ''scope'', ''status'']
   | Hypothesis _ \<Rightarrow> [''statement'', ''rationale'', ''predictions'', ''scope'', ''status'']
   | Decision _ \<Rightarrow> [''question'', ''options'', ''selected_option'', ''rationale'', ''consequences'',
       ''status'']
   | Experiment _ \<Rightarrow> [''objective'', ''design'', ''expected_outcomes'', ''interpretation_rules'',
       ''completion_criteria'', ''status'', ''current_summary'', ''next_action'']
   | Evidence _ \<Rightarrow> [''observation'', ''interpretation'', ''role'', ''legacy_strength'', ''validity'',
       ''origin'', ''artifact_refs'']
   | Blocker _ \<Rightarrow> [''description'', ''blocker_type'', ''status'', ''resolution_condition'',
       ''recommended_action''])"

definition declared_fields :: "node_body \<Rightarrow> string list" where
  "declared_fields b =
     [''id'', ''title'', ''extension_type'', ''extension_fields'', ''standing'', ''created_rev'',
      ''updated_rev'', ''source_refs''] @ map fst (body_fields VDict b)"

text \<open>\<open>attempt_ceiling\<close> is the retired name \<open>migrate_attempt_ceiling\<close> still accepts.\<close>

definition accepted_keys :: "node_body \<Rightarrow> string list" where
  "accepted_keys b = declared_fields b
     @ (case b of Experiment _ \<Rightarrow> [''attempt_ceiling''] | _ \<Rightarrow> [])"

locale node_adapter =
  fixes validate :: "doc \<Rightarrow> project_node res"
  assumes exact: "validate d = Inr n \<Longrightarrow> k \<in> set (exact_fields (n_body n)) \<Longrightarrow>
      dget d k = Some v \<Longrightarrow> dget (model_dump n) k = Some v"
    and created: "validate d = Inr n \<Longrightarrow> dget d ''created_rev'' = Some (VInt i) \<Longrightarrow>
      n_created_rev n = i"
    and updated: "validate d = Inr n \<Longrightarrow> dget d ''updated_rev'' = Some (VInt i) \<Longrightarrow>
      n_updated_rev n = i"
    and has_id: "validate d = Inr n \<Longrightarrow> \<exists>v. dget d ''id'' = Some v"
    and no_extra: "validate d = Inr n \<Longrightarrow> dget d k = Some v \<Longrightarrow> k \<in> set (accepted_keys (n_body n))"
begin

lemma keeps_id: "validate d = Inr n \<Longrightarrow> dget d ''id'' = Some (VStr s) \<Longrightarrow> n_id n = s"
  using exact [of d n "''id''" "VStr s"] by (simp add: exact_fields_def model_dump_def node_fields_def)

lemma keeps_type: "validate d = Inr n \<Longrightarrow> dget d ''type'' = Some (VStr s) \<Longrightarrow> n_type n = s"
  using exact [of d n "''type''" "VStr s"]
  by (auto simp: exact_fields_def model_dump_def node_fields_def body_fields_def body_type_def
      split: node_body.splits)

lemma keeps_standing:
  "validate d = Inr n \<Longrightarrow> dget d ''standing'' = Some (VStr (standing_name s)) \<Longrightarrow> n_standing n = s"
  using exact [of d n "''standing''" "VStr (standing_name s)"]
  by (cases s; cases "n_standing n")
     (auto simp: exact_fields_def model_dump_def node_fields_def standing_name_def)

lemma keeps_status:
  "validate d = Inr n \<Longrightarrow> dget d ''status'' = Some v \<Longrightarrow> \<exists>s. v = VStr s \<and> node_status n = Some s"
  using exact [of d n "''status''" v] no_extra [of d n "''status''" v]
  by (auto simp: exact_fields_def model_dump_def node_fields_def body_fields_def node_status_def
      accepted_keys_def declared_fields_def split: node_body.splits)

lemma keeps_selected_option:
  "validate d = Inr n \<Longrightarrow> dget d ''selected_option'' = Some v \<Longrightarrow>
   \<exists>dd. n_body n = Decision dd \<and> v = vopt (dec_selected_option dd)"
  using exact [of d n "''selected_option''" v] no_extra [of d n "''selected_option''" v]
  by (auto simp: exact_fields_def model_dump_def node_fields_def body_fields_def
      accepted_keys_def declared_fields_def split: node_body.splits)

end

section \<open>The declared schema, read literally\<close>

definition p_str :: "doc \<Rightarrow> string \<Rightarrow> string option \<Rightarrow> string res" where
  "p_str d k dflt = (case dget d k of
       Some (VStr s) \<Rightarrow> Inr s
     | Some _ \<Rightarrow> Inl ValidationError
     | None \<Rightarrow> (case dflt of Some s \<Rightarrow> Inr s | None \<Rightarrow> Inl ValidationError))"

definition p_lit :: "doc \<Rightarrow> string \<Rightarrow> string list \<Rightarrow> string \<Rightarrow> string res" where
  "p_lit d k allowed dflt =
     rbind (p_str d k (Some dflt)) (\<lambda>s. if s \<in> set allowed then Inr s else Inl ValidationError)"

definition p_opt :: "doc \<Rightarrow> string \<Rightarrow> string option res" where
  "p_opt d k = (case dget d k of
       Some (VStr s) \<Rightarrow> Inr (Some s) | Some VNone \<Rightarrow> Inr None
     | Some _ \<Rightarrow> Inl ValidationError | None \<Rightarrow> Inr None)"

definition p_time :: "doc \<Rightarrow> string \<Rightarrow> py_time option res" where
  "p_time d k = (case dget d k of
       Some (VTime t) \<Rightarrow> Inr (Some t) | Some VNone \<Rightarrow> Inr None
     | Some _ \<Rightarrow> Inl ValidationError | None \<Rightarrow> Inr None)"

fun as_str :: "pyval \<Rightarrow> string res" where
  "as_str (VStr s) = Inr s"
| "as_str _ = Inl ValidationError"

fun as_dict :: "pyval \<Rightarrow> doc res" where
  "as_dict (VDict d) = Inr d"
| "as_dict _ = Inl ValidationError"

definition p_list :: "doc \<Rightarrow> string \<Rightarrow> (pyval \<Rightarrow> 'a res) \<Rightarrow> 'a list res" where
  "p_list d k f = (case dget d k of
       Some (VList xs) \<Rightarrow> rmap f xs | Some _ \<Rightarrow> Inl ValidationError | None \<Rightarrow> Inr [])"

definition p_int :: "doc \<Rightarrow> string \<Rightarrow> int \<Rightarrow> int res" where
  "p_int d k dflt = (case dget d k of
       Some (VInt i) \<Rightarrow> Inr i | Some _ \<Rightarrow> Inl ValidationError | None \<Rightarrow> Inr dflt)"

definition p_bool :: "doc \<Rightarrow> string \<Rightarrow> bool res" where
  "p_bool d k = (case dget d k of
       Some (VBool b) \<Rightarrow> Inr b | Some _ \<Rightarrow> Inl ValidationError | None \<Rightarrow> Inr False)"

fun extension_value :: "pyval \<Rightarrow> pyval res" where
  "extension_value (VStr s) = Inr (VStr s)"
| "extension_value (VFloat q) = Inr (VFloat q)"
| "extension_value (VInt i) = Inr (VFloat (of_int i))"
| "extension_value (VBool b) = Inr (VBool b)"
| "extension_value (VList xs) = rbind (rmap as_str xs) (\<lambda>ss. Inr (vstrs ss))"
| "extension_value _ = Inl ValidationError"

definition p_extension :: "doc \<Rightarrow> doc res" where
  "p_extension d = (case dget d ''extension_fields'' of
       Some (VDict e) \<Rightarrow> rmap (\<lambda>kv. rbind (extension_value (snd kv)) (\<lambda>v. Inr (fst kv, v))) e
     | Some _ \<Rightarrow> Inl ValidationError | None \<Rightarrow> Inr [])"

definition declared_source_ref :: "pyval \<Rightarrow> source_ref res" where
  "declared_source_ref v =
     rbind (as_dict v) (\<lambda>d. rbind (p_str d ''machine'' None) (\<lambda>m.
     rbind (p_str d ''truth_repository'' None) (\<lambda>t.
     rbind (p_str d ''source'' None) (\<lambda>s.
     if s \<notin> {''claude'', ''codex'', ''app_chat''} then Inl ValidationError else
     rbind (p_str d ''session_id'' None) (\<lambda>i. rbind (p_str d ''record_uuid'' None) (\<lambda>u.
     rbind (p_time d ''timestamp'') (\<lambda>ts. rbind (p_str d ''excerpt'' None) (\<lambda>e.
     if 800 < length e then Inl ValidationError else
     case ts of None \<Rightarrow> Inl ValidationError
     | Some tm \<Rightarrow> Inr \<lparr>sr_machine = m, sr_truth_repository = t, sr_source = s, sr_session_id = i,
         sr_record_uuid = u, sr_timestamp = tm, sr_excerpt = e\<rparr>))))))))"

definition declared_pin :: "pyval \<Rightarrow> decision_pin res" where
  "declared_pin v =
     rbind (as_dict v) (\<lambda>d. rbind (p_str d ''decision_id'' None) (\<lambda>i.
     rbind (p_int d ''decision_revision'' (-1)) (\<lambda>r. rbind (p_str d ''selected_option'' None) (\<lambda>s.
     if r < 0 \<or> s = [] \<or> (\<exists>k \<in> set (map fst d). k \<notin> {''decision_id'', ''decision_revision'', ''selected_option''})
     then Inl ValidationError
     else Inr \<lparr>pin_decision_id = i, pin_decision_revision = r, pin_selected_option = s\<rparr>))))"

definition declared_debug :: "doc \<Rightarrow> attempt_debug option res" where
  "declared_debug a = (case dget a ''debug'' of
       None \<Rightarrow> Inr None | Some VNone \<Rightarrow> Inr None
     | Some v \<Rightarrow> rbind (as_dict v) (\<lambda>d. rbind (p_str d ''mechanical_fault'' None) (\<lambda>f.
         rbind (p_str d ''change'' None) (\<lambda>c. rbind (p_str d ''predicted_effect'' None) (\<lambda>e.
         if f = [] \<or> c = [] \<or> e = []
            \<or> (\<exists>k \<in> set (map fst d). k \<notin> {''mechanical_fault'', ''change'', ''predicted_effect''})
         then Inl ValidationError
         else Inr (Some \<lparr>dbg_mechanical_fault = f, dbg_change = c, dbg_predicted_effect = e\<rparr>))))))"

definition attempt_statuses :: "string list" where
  "attempt_statuses = [''planned'', ''submitted'', ''running'', ''failed'', ''completed'',
     ''cancelled'', ''superseded'']"

definition declared_attempt :: "pyval \<Rightarrow> attempt res" where
  "declared_attempt v =
     rbind (as_dict v) (\<lambda>d. rbind (p_str d ''id'' None) (\<lambda>i. rbind (p_int d ''sequence'' 0) (\<lambda>q.
     rbind (p_str d ''purpose'' None) (\<lambda>u.
     rbind (p_lit d ''attempt_kind'' [''external_run'', ''proposal_only''] ''external_run'') (\<lambda>k.
     rbind (p_list d ''decision_bundle'' declared_pin) (\<lambda>b. rbind (declared_debug d) (\<lambda>g.
     rbind (p_str d ''configuration'' (Some [])) (\<lambda>c.
     rbind (p_lit d ''status'' attempt_statuses ''planned'') (\<lambda>s.
     rbind (p_list d ''job_refs'' as_str) (\<lambda>j. rbind (p_list d ''source_refs'' declared_source_ref) (\<lambda>r.
     rbind (p_opt d ''outcome'') (\<lambda>oc. rbind (p_opt d ''failure_reason'') (\<lambda>fr.
     rbind (p_time d ''started_at'') (\<lambda>st. rbind (p_time d ''finished_at'') (\<lambda>fi.
     if q < 1 then Inl ValidationError else
     Inr \<lparr>at_id = i, at_sequence = q, at_purpose = u, at_attempt_kind = k, at_decision_bundle = b,
       at_debug = g, at_configuration = c, at_status = s, at_job_refs = j, at_source_refs = r,
       at_outcome = oc, at_failure_reason = fr, at_started_at = st, at_finished_at = fi\<rparr>)))))))))))))))"

definition declared_research_question :: "doc \<Rightarrow> node_body res" where
  "declared_research_question d =
        rbind (p_str d ''question'' None) (\<lambda>q. rbind (p_str d ''motivation'' (Some [])) (\<lambda>m.
     rbind (p_str d ''scope'' (Some [])) (\<lambda>sc.
     rbind (p_lit d ''status'' [''open'', ''answered'', ''abandoned'', ''superseded''] ''open'') (\<lambda>s.
     Inr (ResearchQuestion \<lparr>rq_question = q, rq_motivation = m, rq_scope = sc, rq_status = s\<rparr>)))))"

definition declared_hypothesis :: "doc \<Rightarrow> node_body res" where
  "declared_hypothesis d =
        rbind (p_str d ''statement'' None) (\<lambda>q. rbind (p_str d ''rationale'' (Some [])) (\<lambda>m.
     rbind (p_list d ''predictions'' as_str) (\<lambda>ps. rbind (p_str d ''scope'' (Some [])) (\<lambda>sc.
     rbind (p_lit d ''status'' [''proposed'', ''active'', ''supported'', ''weakened'', ''rejected'',
     ''superseded''] ''proposed'') (\<lambda>s.
     Inr (Hypothesis \<lparr>hyp_statement = q, hyp_rationale = m, hyp_predictions = ps, hyp_scope = sc,
     hyp_status = s\<rparr>))))))"

definition declared_decision :: "doc \<Rightarrow> node_body res" where
  "declared_decision d =
        rbind (p_str d ''question'' None) (\<lambda>q. rbind (p_list d ''options'' as_str) (\<lambda>os.
     rbind (p_opt d ''selected_option'') (\<lambda>so. rbind (p_opt d ''rationale'') (\<lambda>m.
     rbind (p_list d ''consequences'' as_str) (\<lambda>cs.
     rbind (p_lit d ''status'' [''open'', ''ready'', ''decided'', ''revisit'', ''superseded''] ''open'') (\<lambda>s.
     Inr (Decision \<lparr>dec_question = q, dec_options = os, dec_selected_option = so, dec_rationale = m,
     dec_consequences = cs, dec_status = s\<rparr>)))))))"

definition declared_experiment :: "doc \<Rightarrow> node_body res" where
  "declared_experiment d =
        rbind (p_str d ''objective'' None) (\<lambda>q. rbind (p_str d ''design'' (Some [])) (\<lambda>m.
     rbind (p_list d ''expected_outcomes'' as_str) (\<lambda>eo.
     rbind (p_list d ''interpretation_rules'' as_str) (\<lambda>ir.
     rbind (p_list d ''completion_criteria'' as_str) (\<lambda>cc.
     rbind (p_int d (if dhas ''attempt_ceiling'' d then ''attempt_ceiling'' else ''invocation_ceiling'') 5) (\<lambda>ic.
     rbind (p_lit d ''status'' [''proposed'', ''designing'', ''implementing'', ''debugging'', ''running'',
     ''analyzing'', ''completed'', ''unspecified'', ''abandoned'', ''superseded''] ''proposed'') (\<lambda>s.
     rbind (p_list d ''attempts'' declared_attempt) (\<lambda>as.
     rbind (p_str d ''current_summary'' (Some [])) (\<lambda>su. rbind (p_opt d ''next_action'') (\<lambda>na.
     rbind (p_bool d ''current_summary_stale'') (\<lambda>b1. rbind (p_bool d ''next_action_stale'') (\<lambda>b2.
     if ic < 1 then Inl ValidationError else
     Inr (Experiment \<lparr>exp_objective = q, exp_design = m, exp_expected_outcomes = eo,
     exp_interpretation_rules = ir, exp_completion_criteria = cc, exp_invocation_ceiling = ic,
     exp_status = s, exp_attempts = as, exp_current_summary = su, exp_next_action = na,
     exp_current_summary_stale = b1, exp_next_action_stale = b2\<rparr>)))))))))))))"

definition declared_evidence :: "doc \<Rightarrow> node_body res" where
  "declared_evidence d =
        rbind (p_str d ''observation'' None) (\<lambda>q. rbind (p_str d ''interpretation'' (Some [])) (\<lambda>m.
     rbind (p_lit d ''role'' [''result'', ''diagnostic''] ''result'') (\<lambda>r.
     rbind (p_opt d ''legacy_strength'') (\<lambda>ls.
     rbind (p_lit d ''validity'' [''valid'', ''qualified'', ''invalid'', ''superseded''] ''valid'') (\<lambda>va.
     rbind (p_lit d ''origin'' [''internal_run'', ''external_publication'', ''external_instance'',
     ''analytic'', ''unknown''] ''unknown'') (\<lambda>og. rbind (p_list d ''artifact_refs'' as_str) (\<lambda>ar.
     if ls \<notin> {None, Some ''diagnostic'', Some ''preliminary'', Some ''supporting'', Some ''confirmatory''}
     then Inl ValidationError else
     Inr (Evidence \<lparr>ev_observation = q, ev_interpretation = m, ev_role = r, ev_legacy_strength = ls,
     ev_validity = va, ev_origin = og, ev_artifact_refs = ar\<rparr>))))))))"

definition declared_blocker :: "doc \<Rightarrow> node_body res" where
  "declared_blocker d =
        rbind (p_str d ''description'' None) (\<lambda>q.
     rbind (p_lit d ''blocker_type'' [''scientific'', ''design'', ''data'', ''implementation'',
     ''infrastructure'', ''unknown''] ''unknown'') (\<lambda>bt.
     rbind (p_lit d ''status'' [''open'', ''resolved'', ''superseded''] ''open'') (\<lambda>s.
     rbind (p_str d ''resolution_condition'' (Some [])) (\<lambda>rc.
     rbind (p_opt d ''recommended_action'') (\<lambda>ra.
     Inr (Blocker \<lparr>blk_description = q, blk_blocker_type = bt, blk_status = s,
     blk_resolution_condition = rc, blk_recommended_action = ra\<rparr>))))))"

text \<open>The discriminated union: the class is chosen by the literal \<open>type\<close>.\<close>

definition declared_body :: "string \<Rightarrow> doc \<Rightarrow> node_body res" where
  "declared_body t d =
    (if t = ''research_question'' then declared_research_question d
     else if t = ''hypothesis'' then declared_hypothesis d
     else if t = ''decision'' then declared_decision d
     else if t = ''experiment'' then declared_experiment d
     else if t = ''evidence'' then declared_evidence d
     else if t = ''blocker'' then declared_blocker d
     else Inl ValidationError)"

definition standing_of :: "string \<Rightarrow> standing" where
  "standing_of s = (if s = ''accepted'' then Accepted else if s = ''contested'' then Contested else Asserted)"

definition declared_node :: "doc \<Rightarrow> project_node res" where
  "declared_node d =
     rbind (p_str d ''type'' None) (\<lambda>t. rbind (p_str d ''id'' None) (\<lambda>i.
     rbind (p_str d ''title'' None) (\<lambda>ti. rbind (p_opt d ''extension_type'') (\<lambda>et.
     rbind (p_extension d) (\<lambda>ef.
     rbind (p_lit d ''standing'' [''asserted'', ''accepted'', ''contested''] ''asserted'') (\<lambda>sg.
     rbind (p_int d ''created_rev'' 0) (\<lambda>cr. rbind (p_int d ''updated_rev'' 0) (\<lambda>ur.
     rbind (p_list d ''source_refs'' declared_source_ref) (\<lambda>sr.
     rbind (declared_body t d) (\<lambda>b.
     if list_all (\<lambda>k. k \<in> set (accepted_keys b)) (map fst d)
        \<and> (case et of None \<Rightarrow> True | Some e \<Rightarrow> name_pattern e)
     then Inr \<lparr>n_id = i, n_title = ti, n_extension_type = et, n_extension_fields = ef,
       n_standing = standing_of sg, n_created_rev = cr, n_updated_rev = ur, n_source_refs = sr,
       n_body = b\<rparr>
     else Inl ValidationError))))))))))"

end
