(* ===== verification/SchemaLaws.thy ===== *)
theory SchemaLaws
  imports Schema
begin

text \<open>
  The laws of the node validators. \<open>declared_node\<close> interprets \<open>node_adapter\<close>;
  \<open>strict_project_node\<close> inherits the laws from the strict validator it calls; a dump of a
  node that respects its class declaration validates back to the same node. The locale
  \<open>validators\<close> collects what the graph core relies on.
\<close>

section \<open>Definitions: schema-conforming nodes and a concrete parameter record\<close>

definition body_conforms :: "node_body \<Rightarrow> bool" where
  "body_conforms b = (case b of
     ResearchQuestion q \<Rightarrow> rq_status q \<in> {''open'', ''answered'', ''abandoned'', ''superseded''}
   | Hypothesis h \<Rightarrow> hyp_status h \<in> {''proposed'', ''active'', ''supported'', ''weakened'', ''rejected'',
       ''superseded''}
   | Decision d \<Rightarrow> dec_status d \<in> {''open'', ''ready'', ''decided'', ''revisit'', ''superseded''}
   | Experiment x \<Rightarrow> exp_status x \<in> {''proposed'', ''designing'', ''implementing'', ''debugging'',
       ''running'', ''analyzing'', ''completed'', ''unspecified'', ''abandoned'', ''superseded''}
       \<and> 1 \<le> exp_invocation_ceiling x
       \<and> (\<forall>a \<in> set (exp_attempts x). declared_attempt (VDict (dump_attempt VDict a)) = Inr a)
   | Evidence e \<Rightarrow> ev_role e \<in> {''result'', ''diagnostic''}
       \<and> ev_legacy_strength e \<in> {None, Some ''diagnostic'', Some ''preliminary'', Some ''supporting'',
           Some ''confirmatory''}
       \<and> ev_validity e \<in> {''valid'', ''qualified'', ''invalid'', ''superseded''}
       \<and> ev_origin e \<in> {''internal_run'', ''external_publication'', ''external_instance'', ''analytic'',
           ''unknown''}
   | Blocker k \<Rightarrow> blk_blocker_type k \<in> {''scientific'', ''design'', ''data'', ''implementation'',
       ''infrastructure'', ''unknown''} \<and> blk_status k \<in> {''open'', ''resolved'', ''superseded''})"

definition extension_conforms :: "doc \<Rightarrow> bool" where
  "extension_conforms e \<longleftrightarrow> (\<forall>kv \<in> set e. extension_value (snd kv) = Inr (snd kv))"

definition source_ref_conforms :: "source_ref \<Rightarrow> bool" where
  "source_ref_conforms r \<longleftrightarrow>
     sr_source r \<in> {''claude'', ''codex'', ''app_chat''} \<and> length (sr_excerpt r) \<le> 800"

definition node_conforms :: "project_node \<Rightarrow> bool" where
  "node_conforms n \<longleftrightarrow> body_conforms (n_body n) \<and> extension_conforms (n_extension_fields n)
     \<and> (\<forall>r \<in> set (n_source_refs n). source_ref_conforms r)
     \<and> (case n_extension_type n of None \<Rightarrow> True | Some e \<Rightarrow> name_pattern e)"

definition declared_adapters :: adapters where
  "declared_adapters = \<lparr>ad_node = declared_node, ad_node_strict = declared_node,
     ad_datetime = (\<lambda>_. Inl ValidationError), ad_source_ref = declared_source_ref,
     ad_attempt = declared_attempt, ad_str = (\<lambda>v. case v of VStr s \<Rightarrow> s | _ \<Rightarrow> []),
     ad_normalize = (\<lambda>s. s), ad_ratio = (\<lambda>a b. if a = b then 1 else 0),
     ad_identifiers = (\<lambda>_. []), ad_isoformat = (\<lambda>_. [])\<rparr>"

section \<open>Inversion of the field readers\<close>

named_theorems field_inv "what a field reader returned determines what the document held"

lemma p_str_inv [field_inv]: "p_str d k df = Inr s \<Longrightarrow> dget d k = Some v \<Longrightarrow> v = VStr s"
  by (auto simp: p_str_def split: option.splits pyval.splits)

lemma p_lit_inv [field_inv]: "p_lit d k al df = Inr s \<Longrightarrow> dget d k = Some v \<Longrightarrow> v = VStr s"
  by (auto simp: p_lit_def rbind_eq_Inr split: if_splits dest: p_str_inv)

lemma p_opt_inv [field_inv]: "p_opt d k = Inr s \<Longrightarrow> dget d k = Some v \<Longrightarrow> v = vopt s"
  by (auto simp: p_opt_def vopt_def split: option.splits pyval.splits)

lemma rmap_as_str: "rmap as_str xs = Inr ss \<Longrightarrow> xs = map VStr ss"
proof (induction xs arbitrary: ss)
  case (Cons x xs)
  then show ?case by (cases x) (auto simp: rbind_eq_Inr)
qed simp

lemma p_strs_inv [field_inv]: "p_list d k as_str = Inr ss \<Longrightarrow> dget d k = Some v \<Longrightarrow> v = vstrs ss"
  by (auto simp: p_list_def vstrs_def rmap_as_str split: option.splits pyval.splits)

lemma p_int_inv [field_inv]: "p_int d k df = Inr i \<Longrightarrow> dget d k = Some v \<Longrightarrow> v = VInt i"
  by (auto simp: p_int_def split: option.splits pyval.splits)

lemma p_standing_inv:
  "p_lit d k [''asserted'', ''accepted'', ''contested''] df = Inr s \<Longrightarrow>
   standing_name (standing_of s) = s"
  by (auto simp: p_lit_def rbind_eq_Inr standing_name_def standing_of_def split: if_splits)

lemma dget_append: "dget (xs @ ys) k = (case dget xs k of None \<Rightarrow> dget ys k | Some v \<Rightarrow> Some v)"
  by (simp add: map_add_def split: option.splits)

section \<open>The declared schema satisfies the contract\<close>

lemmas declared_class_defs = declared_research_question_def declared_hypothesis_def
  declared_decision_def declared_experiment_def declared_evidence_def declared_blocker_def

lemma declared_body_type: "declared_body t d = Inr b \<Longrightarrow> body_type b = t"
  by (auto simp: declared_body_def declared_class_defs body_type_def rbind_eq_Inr split: if_splits)

text \<open>One lemma per class: every exact field of the class is read back unchanged.\<close>

lemma declared_research_question_exact:
  "declared_research_question d = Inr b \<Longrightarrow> dget d k = Some v \<Longrightarrow>
   k \<in> set [''question'', ''motivation'', ''scope'', ''status''] \<Longrightarrow>
   dget (body_fields VDict b) k = Some v"
  by (auto simp: declared_research_question_def rbind_eq_Inr body_fields_def intro: field_inv [symmetric])

lemma declared_hypothesis_exact:
  "declared_hypothesis d = Inr b \<Longrightarrow> dget d k = Some v \<Longrightarrow>
   k \<in> set [''statement'', ''rationale'', ''predictions'', ''scope'', ''status''] \<Longrightarrow>
   dget (body_fields VDict b) k = Some v"
  by (auto simp: declared_hypothesis_def rbind_eq_Inr body_fields_def intro: field_inv [symmetric])

lemma declared_decision_exact:
  "declared_decision d = Inr b \<Longrightarrow> dget d k = Some v \<Longrightarrow>
   k \<in> set [''question'', ''options'', ''selected_option'', ''rationale'', ''consequences'', ''status''] \<Longrightarrow>
   dget (body_fields VDict b) k = Some v"
  by (auto simp: declared_decision_def rbind_eq_Inr body_fields_def intro: field_inv [symmetric])

lemma declared_evidence_exact:
  "declared_evidence d = Inr b \<Longrightarrow> dget d k = Some v \<Longrightarrow>
   k \<in> set [''observation'', ''interpretation'', ''role'', ''legacy_strength'', ''validity'',
     ''origin'', ''artifact_refs''] \<Longrightarrow>
   dget (body_fields VDict b) k = Some v"
  by (auto simp: declared_evidence_def rbind_eq_Inr body_fields_def split: if_splits intro: field_inv [symmetric])

lemma declared_blocker_exact:
  "declared_blocker d = Inr b \<Longrightarrow> dget d k = Some v \<Longrightarrow>
   k \<in> set [''description'', ''blocker_type'', ''status'', ''resolution_condition'',
     ''recommended_action''] \<Longrightarrow>
   dget (body_fields VDict b) k = Some v"
  by (auto simp: declared_blocker_def rbind_eq_Inr body_fields_def intro: field_inv [symmetric])

lemma declared_experiment_exact:
  "declared_experiment d = Inr b \<Longrightarrow> dget d k = Some v \<Longrightarrow>
   k \<in> set [''objective'', ''design'', ''expected_outcomes'', ''interpretation_rules'',
     ''completion_criteria'', ''status'', ''current_summary'', ''next_action''] \<Longrightarrow>
   dget (body_fields VDict b) k = Some v"
  by (auto simp: declared_experiment_def rbind_eq_Inr body_fields_def split: if_splits intro: field_inv [symmetric])

lemmas declared_class_exact = declared_research_question_exact declared_hypothesis_exact
  declared_decision_exact declared_experiment_exact declared_evidence_exact declared_blocker_exact

lemma declared_body_exact:
  assumes "declared_body t d = Inr b" and "k \<in> set (exact_fields b)"
    and "k \<notin> {''id'', ''title'', ''extension_type'', ''standing'', ''type''}" and "dget d k = Some v"
  shows "dget (body_fields VDict b) k = Some v"
proof -
  have t: "body_type b = t" using assms(1) by (rule declared_body_type)
  show ?thesis
  proof (cases b)
    case (ResearchQuestion x)
    then have "declared_research_question d = Inr b" using assms(1) t
      by (simp add: declared_body_def body_type_def)
    then show ?thesis using declared_research_question_exact [of d b k v] assms(2-4) ResearchQuestion
      by (simp add: exact_fields_def)
  next
    case (Hypothesis x)
    then have "declared_hypothesis d = Inr b" using assms(1) t
      by (simp add: declared_body_def body_type_def split: if_splits)
    then show ?thesis using declared_hypothesis_exact [of d b k v] assms(2-4) Hypothesis
      by (simp add: exact_fields_def)
  next
    case (Decision x)
    then have "declared_decision d = Inr b" using assms(1) t
      by (simp add: declared_body_def body_type_def split: if_splits)
    then show ?thesis using declared_decision_exact [of d b k v] assms(2-4) Decision
      by (simp add: exact_fields_def)
  next
    case (Experiment x)
    then have "declared_experiment d = Inr b" using assms(1) t
      by (simp add: declared_body_def body_type_def split: if_splits)
    then show ?thesis using declared_experiment_exact [of d b k v] assms(2-4) Experiment
      by (simp add: exact_fields_def)
  next
    case (Evidence x)
    then have "declared_evidence d = Inr b" using assms(1) t
      by (simp add: declared_body_def body_type_def split: if_splits)
    then show ?thesis using declared_evidence_exact [of d b k v] assms(2-4) Evidence
      by (simp add: exact_fields_def)
  next
    case (Blocker x)
    then have "declared_blocker d = Inr b" using assms(1) t
      by (simp add: declared_body_def body_type_def split: if_splits)
    then show ?thesis using declared_blocker_exact [of d b k v] assms(2-4) Blocker
      by (simp add: exact_fields_def)
  qed
qed

lemma declared_node_parts:
  assumes "declared_node d = Inr n"
  shows "p_str d ''type'' None = Inr (n_type n)" "p_str d ''id'' None = Inr (n_id n)"
    "p_str d ''title'' None = Inr (n_title n)" "p_opt d ''extension_type'' = Inr (n_extension_type n)"
    "\<exists>s. p_lit d ''standing'' [''asserted'', ''accepted'', ''contested''] ''asserted'' = Inr s
        \<and> n_standing n = standing_of s"
    "p_int d ''created_rev'' 0 = Inr (n_created_rev n)"
    "p_int d ''updated_rev'' 0 = Inr (n_updated_rev n)"
    "\<exists>t. declared_body t d = Inr (n_body n)"
    "list_all (\<lambda>k. k \<in> set (accepted_keys (n_body n))) (map fst d)"
  using assms by (auto simp: declared_node_def rbind_eq_Inr split: if_splits dest: declared_body_type)

lemma declared_node_exact:
  assumes "declared_node d = Inr n" and "k \<in> set (exact_fields (n_body n))" and "dget d k = Some v"
  shows "dget (model_dump n) k = Some v"
proof -
  note parts = declared_node_parts [OF assms(1)]
  obtain t where body: "declared_body t d = Inr (n_body n)" using parts(8) by blast
  have body_type: "dget (body_fields VDict (n_body n)) ''type'' = Some (VStr (n_type n))"
    by (simp add: body_fields_def body_type_def split: node_body.splits)
  consider "k = ''id''" | "k = ''title''" | "k = ''extension_type''" | "k = ''standing''" | "k = ''type''"
    | "k \<notin> {''id'', ''title'', ''extension_type'', ''standing'', ''type''}" by blast
  then show ?thesis
  proof cases
    case 6
    have "k \<notin> set [''extension_fields'', ''created_rev'', ''updated_rev'', ''source_refs'']"
      using assms(2) by (auto simp: exact_fields_def split: node_body.splits)
    then show ?thesis using 6 declared_body_exact [OF body assms(2) 6 assms(3)]
      by (simp add: model_dump_def node_fields_def)
  qed (use parts assms(3) body_type in
        \<open>auto simp: model_dump_def node_fields_def simp: p_standing_inv intro: field_inv [symmetric]\<close>)
qed

interpretation declared: node_adapter declared_node
proof
  fix d n k v i
  assume ok: "declared_node d = Inr n"
  note parts = declared_node_parts [OF ok]
  show "k \<in> set (exact_fields (n_body n)) \<Longrightarrow> dget d k = Some v \<Longrightarrow> dget (model_dump n) k = Some v"
    using declared_node_exact [OF ok] .
  show "dget d ''created_rev'' = Some (VInt i) \<Longrightarrow> n_created_rev n = i"
    using parts(6) by (auto dest: p_int_inv)
  show "dget d ''updated_rev'' = Some (VInt i) \<Longrightarrow> n_updated_rev n = i"
    using parts(7) by (auto dest: p_int_inv)
  show "\<exists>v. dget d ''id'' = Some v"
    using parts(2) by (auto simp: p_str_def split: option.splits)
  show "dget d k = Some v \<Longrightarrow> k \<in> set (accepted_keys (n_body n))"
    using parts(9) by (fastforce simp: list_all_iff dest: map_of_SomeD)
qed

section \<open>Round trip\<close>

lemma rmap_roundtrip:
  "(\<And>x. x \<in> set xs \<Longrightarrow> f (g x) = Inr x) \<Longrightarrow> rmap f (map g xs) = Inr xs"
  by (induction xs) auto

lemma rmap_identity: "(\<And>x. x \<in> set xs \<Longrightarrow> f x = Inr x) \<Longrightarrow> rmap f xs = Inr xs"
  by (induction xs) auto

lemma source_ref_roundtrip:
  "source_ref_conforms r \<Longrightarrow> declared_source_ref (VDict (dump_source_ref r)) = Inr r"
  by (auto simp: declared_source_ref_def dump_source_ref_def source_ref_conforms_def p_str_def p_time_def)

lemma p_str_VStr: "dget d k = Some (VStr s) \<Longrightarrow> p_str d k df = Inr s"
  by (simp add: p_str_def)

lemma p_lit_VStr: "dget d k = Some (VStr s) \<Longrightarrow> s \<in> set al \<Longrightarrow> p_lit d k al df = Inr s"
  by (simp add: p_lit_def p_str_def)

lemma p_opt_vopt: "dget d k = Some (vopt x) \<Longrightarrow> p_opt d k = Inr x"
  by (cases x) (simp_all add: p_opt_def vopt_def)

lemma p_list_vstrs: "dget d k = Some (vstrs xs) \<Longrightarrow> p_list d k as_str = Inr xs"
  by (simp add: p_list_def vstrs_def rmap_roundtrip)

lemmas field_read = p_str_VStr p_lit_VStr p_opt_vopt p_list_vstrs

lemma dget_model_dump:
  "dget (model_dump n) k =
     (if k = ''id'' then Some (VStr (n_id n)) else if k = ''title'' then Some (VStr (n_title n))
      else if k = ''extension_type'' then Some (vopt (n_extension_type n))
      else if k = ''extension_fields'' then Some (VDict (n_extension_fields n))
      else if k = ''standing'' then Some (VStr (standing_name (n_standing n)))
      else if k = ''created_rev'' then Some (VInt (n_created_rev n))
      else if k = ''updated_rev'' then Some (VInt (n_updated_rev n))
      else if k = ''source_refs''
        then Some (VList (map (\<lambda>r. VDict (dump_source_ref r)) (n_source_refs n)))
      else dget (body_fields VDict (n_body n)) k)"
  by (simp add: model_dump_def node_fields_def)

lemma standing_roundtrip:
  "p_lit (model_dump n) ''standing'' [''asserted'', ''accepted'', ''contested''] ''asserted''
     = Inr (standing_name (n_standing n))"
  "standing_of (standing_name s) = s"
  by (auto intro!: p_lit_VStr simp: dget_model_dump standing_name_def standing_of_def
      split: standing.splits)

lemma declared_body_roundtrip:
  assumes "body_conforms (n_body n)"
  shows "declared_body (n_type n) (model_dump n) = Inr (n_body n)"
proof (cases "n_body n")
  case (ResearchQuestion q)
  then show ?thesis using assms
    by (simp add: declared_body_def body_type_def declared_research_question_def body_conforms_def
        field_read dget_model_dump body_fields_def)
next
  case (Hypothesis h)
  then show ?thesis using assms
    by (simp add: declared_body_def body_type_def declared_hypothesis_def body_conforms_def
        field_read dget_model_dump body_fields_def)
next
  case (Decision d)
  then show ?thesis using assms
    by (simp add: declared_body_def body_type_def declared_decision_def body_conforms_def
        field_read dget_model_dump body_fields_def)
next
  case (Experiment x)
  then have "rmap declared_attempt (map (\<lambda>a. VDict (dump_attempt VDict a)) (exp_attempts x))
      = Inr (exp_attempts x)"
    using assms by (intro rmap_roundtrip) (simp add: body_conforms_def)
  then show ?thesis using assms Experiment
    by (simp add: declared_body_def body_type_def declared_experiment_def body_conforms_def
        field_read dget_model_dump body_fields_def p_list_def [of _ "''attempts''"] p_int_def
        p_bool_def dhas_iff)
next
  case (Evidence e)
  then show ?thesis using assms
    by (simp add: declared_body_def body_type_def declared_evidence_def body_conforms_def
        field_read dget_model_dump body_fields_def)
next
  case (Blocker k)
  then show ?thesis using assms
    by (simp add: declared_body_def body_type_def declared_blocker_def body_conforms_def
        field_read dget_model_dump body_fields_def)
qed

lemma model_dump_keys:
  "list_all (\<lambda>k. k \<in> set (accepted_keys (n_body n))) (map fst (model_dump n))"
  by (simp add: model_dump_def node_fields_def accepted_keys_def declared_fields_def list_all_iff)

lemma declared_node_roundtrip:
  assumes "node_conforms n"
  shows "declared_node (model_dump n) = Inr n"
proof -
  have refs: "p_list (model_dump n) ''source_refs'' declared_source_ref = Inr (n_source_refs n)"
    using assms by (auto simp: p_list_def dget_model_dump node_conforms_def
        intro!: rmap_roundtrip source_ref_roundtrip)
  have ext: "p_extension (model_dump n) = Inr (n_extension_fields n)"
    using assms by (auto simp: p_extension_def dget_model_dump node_conforms_def
        extension_conforms_def intro!: rmap_identity)
  have "p_str (model_dump n) ''type'' None = Inr (n_type n)"
    by (rule p_str_VStr)
       (simp add: dget_model_dump body_fields_def body_type_def split: node_body.splits)
  then show ?thesis
    using assms refs ext declared_body_roundtrip [of n] model_dump_keys [of n]
    by (simp add: declared_node_def node_conforms_def field_read dget_model_dump standing_roundtrip
        p_int_def)
qed

section \<open>The strict path and the collected contract\<close>

lemma adapt_refs_of_dget:
  "adapt_refs_of A d = Inr d' \<Longrightarrow> k \<noteq> ''source_refs'' \<Longrightarrow> dget d' k = dget d k"
  "adapt_refs_of A d = Inr d' \<Longrightarrow> dget d' k = None \<longleftrightarrow> dget d k = None"
  by (auto simp: adapt_refs_of_def rbind_eq_Inr split: option.splits if_splits)

lemma adapt_attempts_dget:
  "adapt_attempts A d = Inr d' \<Longrightarrow> k \<noteq> ''attempts'' \<Longrightarrow> dget d' k = dget d k"
  "adapt_attempts A d = Inr d' \<Longrightarrow> dget d' k = None \<longleftrightarrow> dget d k = None"
  by (auto simp: adapt_attempts_def rbind_eq_Inr split: option.splits pyval.splits if_splits)

lemma strict_project_node_doc:
  assumes "strict_project_node A d = Inr n"
  shows "\<exists>d'. ad_node_strict A d' = Inr n
    \<and> (\<forall>k. k \<noteq> ''source_refs'' \<longrightarrow> k \<noteq> ''attempts'' \<longrightarrow> dget d' k = dget d k)
    \<and> (\<forall>k. dget d' k = None \<longleftrightarrow> dget d k = None)"
proof -
  from assms obtain d2 d3 where "adapt_standing d = Inr d" and r: "adapt_refs_of A d = Inr d2"
    and a: "adapt_attempts A d2 = Inr d3" and v: "ad_node_strict A d3 = Inr n"
    by (auto simp: strict_project_node_def rbind_eq_Inr adapt_standing_def
        split: option.splits pyval.splits if_splits)
  then show ?thesis
    using adapt_refs_of_dget [OF r] adapt_attempts_dget [OF a] by (intro exI [of _ d3]) simp
qed

lemma exact_fields_plain:
  "k \<in> set (exact_fields b) \<Longrightarrow> k \<noteq> ''source_refs'' \<and> k \<noteq> ''attempts''"
  by (auto simp: exact_fields_def split: node_body.splits)

lemma strict_project_node_adapter:
  assumes "node_adapter (ad_node_strict A)"
  shows "node_adapter (strict_project_node A)"
proof
  fix d n k v i
  assume "strict_project_node A d = Inr n"
  then obtain d' where ok: "ad_node_strict A d' = Inr n"
    and plain: "\<And>k. k \<noteq> ''source_refs'' \<Longrightarrow> k \<noteq> ''attempts'' \<Longrightarrow> dget d' k = dget d k"
    and keys: "\<And>k. dget d' k = None \<longleftrightarrow> dget d k = None"
    using strict_project_node_doc by blast
  show "k \<in> set (exact_fields (n_body n)) \<Longrightarrow> dget d k = Some v \<Longrightarrow> dget (model_dump n) k = Some v"
    using node_adapter.exact [OF assms ok, of k v] plain [of k] exact_fields_plain [of k "n_body n"]
    by simp
  show "dget d ''created_rev'' = Some (VInt i) \<Longrightarrow> n_created_rev n = i"
    using node_adapter.created [OF assms ok] plain by simp
  show "dget d ''updated_rev'' = Some (VInt i) \<Longrightarrow> n_updated_rev n = i"
    using node_adapter.updated [OF assms ok] plain by simp
  show "\<exists>v. dget d ''id'' = Some v"
    using node_adapter.has_id [OF assms ok] plain by simp
  show "dget d k = Some v \<Longrightarrow> k \<in> set (accepted_keys (n_body n))"
    using node_adapter.no_extra [OF assms ok, of k] keys [of k] by (cases "dget d' k") simp_all
qed

locale validators =
  fixes A :: adapters
  assumes lax_ok: "node_adapter (ad_node A)"
    and strict_ok: "node_adapter (ad_node_strict A)"

sublocale validators \<subseteq> lax: node_adapter "ad_node A"
  by (rule lax_ok)

sublocale validators \<subseteq> strict: node_adapter "strict_project_node A"
  by (rule strict_project_node_adapter [OF strict_ok])

interpretation declared_validators: validators declared_adapters
  by (rule validators.intro) (simp_all add: declared_adapters_def declared.node_adapter_axioms)

end
