(* ===== verification/Report.thy ===== *)
theory Report
  imports SchemaLaws
begin

text \<open>
  \<open>core/validation/report.py\<close>: a report is the list of messages in the order the rules
  append them. A rule is modelled by the messages it appends; a rule that may raise returns
  them in the exception sum.
\<close>

type_synonym report = "validation_message list"

definition report_reject ::
  "string \<Rightarrow> int option \<Rightarrow> string list \<Rightarrow> string list \<Rightarrow> validation_message" where
  "report_reject c rv nodes edges = \<lparr>vm_level = Reject, vm_code = c, vm_patch_revision = rv,
     vm_related_node_ids = nodes, vm_related_edge_ids = edges\<rparr>"

definition report_flag ::
  "string \<Rightarrow> int option \<Rightarrow> string list \<Rightarrow> string list \<Rightarrow> validation_message" where
  "report_flag c rv nodes edges = \<lparr>vm_level = Flag, vm_code = c, vm_patch_revision = rv,
     vm_related_node_ids = nodes, vm_related_edge_ids = edges\<rparr>"

definition rejected :: "report \<Rightarrow> bool" where
  "rejected r \<longleftrightarrow> (\<exists>m \<in> set r. vm_level m = Reject)"

definition report_flags :: "report \<Rightarrow> report" where
  "report_flags r = filter (\<lambda>m. vm_level m = Flag) r"

text \<open>\<open>if condition: report.reject(code, ...)\<close>.\<close>

definition reject_if :: "bool \<Rightarrow> string \<Rightarrow> int option \<Rightarrow> string list \<Rightarrow> report" where
  "reject_if b c rv nodes = (if b then [report_reject c rv nodes []] else [])"

lemma rejected_Nil [simp]: "\<not> rejected []"
  by (simp add: rejected_def)

lemma rejected_append [simp]: "rejected (r @ r') \<longleftrightarrow> rejected r \<or> rejected r'"
  by (auto simp: rejected_def)

lemma rejected_Cons_reject [simp]: "rejected (report_reject c rv ns es # r)"
  by (simp add: rejected_def report_reject_def)

lemma rejected_Cons_flag [simp]: "rejected (report_flag c rv ns es # r) \<longleftrightarrow> rejected r"
  by (simp add: rejected_def report_flag_def)

lemma rejected_reject_if [simp]: "rejected (reject_if b c rv ns) \<longleftrightarrow> b"
  by (simp add: reject_if_def)

lemma rejected_mono: "set r \<subseteq> set r' \<Longrightarrow> rejected r \<Longrightarrow> rejected r'"
  by (auto simp: rejected_def)

lemma rejected_concat: "rejected (concat rs) \<longleftrightarrow> (\<exists>r \<in> set rs. rejected r)"
  by (auto simp: rejected_def)

lemma rejected_rconcat:
  "rconcat f xs = Inr ys \<Longrightarrow> \<not> rejected ys \<Longrightarrow> x \<in> set xs \<Longrightarrow> \<exists>zs. f x = Inr zs \<and> \<not> rejected zs"
  by (meson rconcat_Inr_element rejected_mono)

end
