(* ===== verification/Ontology.thy ===== *)
theory Ontology
  imports Report
begin

text \<open>
  \<open>core/ontology.py\<close>: the project-defined extension of the base vocabulary. The structural
  rules judge one ontology, the change rules compare it with the graph it would replace,
  the extension rules judge the custom fields of a node, and \<open>edge_layer\<close> derives the layer
  of an edge from the nodes it connects.
\<close>

section \<open>Definitions\<close>

definition BASE_TYPE_LAYERS :: "relation_layer dict" where
  "BASE_TYPE_LAYERS =
    [(''research_question'', Epistemic), (''hypothesis'', Epistemic), (''evidence'', Epistemic),
     (''decision'', Action), (''experiment'', Action), (''blocker'', Action)]"

definition BASE_FIELD_NAMES :: "string list" where
  "BASE_FIELD_NAMES =
    [''id'', ''title'', ''extension_type'', ''extension_fields'', ''standing'', ''created_rev'',
     ''updated_rev'', ''source_refs'', ''type'', ''question'', ''motivation'', ''scope'', ''status'',
     ''statement'', ''rationale'', ''predictions'', ''options'', ''selected_option'', ''consequences'',
     ''objective'', ''design'', ''expected_outcomes'', ''interpretation_rules'', ''completion_criteria'',
     ''invocation_ceiling'', ''attempts'', ''current_summary'', ''next_action'',
     ''current_summary_stale'', ''next_action_stale'', ''observation'', ''interpretation'', ''role'',
     ''legacy_strength'', ''validity'', ''origin'', ''artifact_refs'', ''description'', ''blocker_type'',
     ''resolution_condition'', ''recommended_action'']"

definition known_types :: "ontology_state \<Rightarrow> string list" where
  "known_types ont = all_node_types @ map ot_name (o_types ont)"

definition check_type_definition :: "int option \<Rightarrow> ontology_type \<Rightarrow> report res" where
  "check_type_definition rv t =
     rbind (dindex BASE_TYPE_LAYERS (ot_base_type t)) (\<lambda>expected.
     Inr (reject_if (ot_name t \<in> set all_node_types) ''base-ontology-collision'' rv []
       @ reject_if (ot_layer t \<noteq> expected) ''invalid-base-mapping'' rv []))"

definition check_field_definition ::
  "ontology_state \<Rightarrow> int option \<Rightarrow> ontology_field \<Rightarrow> report" where
  "check_field_definition ont rv f =
     reject_if (of_owner_type f \<notin> set (known_types ont)) ''unknown-ontology-owner'' rv []
     @ reject_if (of_name f \<in> set BASE_FIELD_NAMES) ''base-ontology-collision'' rv []"

definition fields_of_owner :: "ontology_state \<Rightarrow> string \<Rightarrow> string list" where
  "fields_of_owner ont t = map of_name (filter (\<lambda>f. of_owner_type f = t) (o_fields ont))"

definition check_inherited_collision :: "ontology_state \<Rightarrow> int option \<Rightarrow> ontology_type \<Rightarrow> report" where
  "check_inherited_collision ont rv t =
     reject_if (\<exists>x \<in> set (fields_of_owner ont (ot_name t)). x \<in> set (fields_of_owner ont (ot_base_type t)))
       ''ontology-field-collision'' rv []"

definition check_relation_definition ::
  "ontology_state \<Rightarrow> int option \<Rightarrow> ontology_relation \<Rightarrow> report" where
  "check_relation_definition ont rv r =
     reject_if (dhas (or_name r) RELATION_SPEC) ''base-ontology-collision'' rv []
     @ reject_if (has_duplicates (or_source_types r) \<or> has_duplicates (or_target_types r))
         ''duplicate-relation-endpoint-type'' rv []
     @ reject_if (\<exists>t \<in> set (or_source_types r @ or_target_types r). t \<notin> set (known_types ont))
         ''unknown-relation-type'' rv []"

definition validate_ontology_structure :: "ontology_state \<Rightarrow> int option \<Rightarrow> report res" where
  "validate_ontology_structure ont rv =
     rbind (rconcat (check_type_definition rv) (o_types ont)) (\<lambda>r.
     Inr (r @ concat (map (check_field_definition ont rv) (o_fields ont))
        @ concat (map (check_inherited_collision ont rv) (o_types ont))
        @ concat (map (check_relation_definition ont rv) (o_relations ont))))"

definition field_value_matches :: "ontology_field \<Rightarrow> pyval \<Rightarrow> bool" where
  "field_value_matches f v = (case of_kind f of
       TextKind \<Rightarrow> (case v of VStr _ \<Rightarrow> True | _ \<Rightarrow> False)
     | NumberKind \<Rightarrow> (case v of VInt _ \<Rightarrow> True | VFloat _ \<Rightarrow> True | _ \<Rightarrow> False)
     | BooleanKind \<Rightarrow> (case v of VBool _ \<Rightarrow> True | _ \<Rightarrow> False)
     | TextListKind \<Rightarrow> (case v of
           VList xs \<Rightarrow> list_all (\<lambda>x. case x of VStr _ \<Rightarrow> True | _ \<Rightarrow> False) xs | _ \<Rightarrow> False))"

definition field_applies :: "project_node \<Rightarrow> ontology_field \<Rightarrow> bool" where
  "field_applies n f \<longleftrightarrow> of_owner_type f = n_type n \<or> n_extension_type n = Some (of_owner_type f)"

definition semantic_type :: "project_node \<Rightarrow> string" where
  "semantic_type n = (case n_extension_type n of Some e \<Rightarrow> e | None \<Rightarrow> n_type n)"

definition semantic_type_raw :: "doc \<Rightarrow> string option" where
  "semantic_type_raw d = (case dget d ''extension_type'' of
       Some (VStr e) \<Rightarrow> Some e
     | _ \<Rightarrow> (case dget d ''type'' of Some (VStr t) \<Rightarrow> Some t | _ \<Rightarrow> None))"

text \<open>The type of an endpoint: the graph's node first, else a node the patch creates.\<close>

definition endpoint_semantic_type ::
  "graph_state \<Rightarrow> created_node list \<Rightarrow> string \<Rightarrow> string option option" where
  "endpoint_semantic_type st created i = (case dget (gs_nodes st) i of
       Some n \<Rightarrow> Some (Some (semantic_type n))
     | None \<Rightarrow> map_option (\<lambda>c. semantic_type_raw (raw_of c))
                 (map_of (index_by (\<lambda>c. n_id (cn_node c)) created) i))"

definition edge_matches_relation ::
  "graph_state \<Rightarrow> string \<Rightarrow> string \<Rightarrow> ontology_relation \<Rightarrow> created_node list \<Rightarrow> bool" where
  "edge_matches_relation st s t rel created =
     (case (endpoint_semantic_type st created s, endpoint_semantic_type st created t) of
        (Some (Some a), Some (Some b)) \<Rightarrow> a \<in> set (or_source_types rel) \<and> b \<in> set (or_target_types rel)
      | _ \<Rightarrow> False)"

definition require_deprecation_before_removal ::
  "('k \<times> 'a) list \<Rightarrow> ('k \<times> 'a) list \<Rightarrow> ('a \<Rightarrow> bool) \<Rightarrow> int option \<Rightarrow> report" where
  "require_deprecation_before_removal previous desired deprecated rv =
     concat (map (\<lambda>kv. reject_if (fst kv \<notin> set (map fst desired) \<and> \<not> deprecated (snd kv))
       ''ontology-removal-without-deprecation'' rv []) previous)"

definition check_type_remap ::
  "graph_state \<Rightarrow> (string \<times> ontology_type) list \<Rightarrow> int option \<Rightarrow> string \<times> ontology_type \<Rightarrow> report" where
  "check_type_remap st new_types rv kv = (case map_of new_types (fst kv) of
       None \<Rightarrow> []
     | Some cur \<Rightarrow> reject_if ((ot_base_type cur, ot_layer cur) \<noteq> (ot_base_type (snd kv), ot_layer (snd kv)))
         ''ontology-type-remap'' rv
         (sort (map n_id (filter (\<lambda>n. n_extension_type n = Some (fst kv)) (dvalues (gs_nodes st))))))"

definition missing_field_nodes :: "graph_state \<Rightarrow> ontology_field \<Rightarrow> string list" where
  "missing_field_nodes st f = sort (map n_id (filter
     (\<lambda>n. field_applies n f \<and> \<not> dhas (of_name f) (n_extension_fields n)) (dvalues (gs_nodes st))))"

definition mismatched_field_nodes :: "graph_state \<Rightarrow> ontology_field \<Rightarrow> string list" where
  "mismatched_field_nodes st f = sort (map n_id (filter
     (\<lambda>n. field_applies n f \<and> (case dget (n_extension_fields n) (of_name f) of
         Some v \<Rightarrow> \<not> field_value_matches f v | None \<Rightarrow> False)) (dvalues (gs_nodes st))))"

definition check_field_change ::
  "graph_state \<Rightarrow> ((string \<times> string) \<times> ontology_field) list \<Rightarrow> int option
     \<Rightarrow> (string \<times> string) \<times> ontology_field \<Rightarrow> report" where
  "check_field_change st old_fields rv kv =
     (let cur = snd kv; prev = map_of old_fields (fst kv);
          missing = missing_field_nodes st cur; mismatched = mismatched_field_nodes st cur in
      reject_if (of_required cur \<and> (case prev of None \<Rightarrow> True | Some p \<Rightarrow> \<not> of_required p) \<and> missing \<noteq> [])
        ''required-field-breaks-existing-nodes'' rv missing
      @ reject_if ((case prev of None \<Rightarrow> False | Some p \<Rightarrow> of_kind p \<noteq> of_kind cur) \<and> mismatched \<noteq> [])
        ''field-kind-breaks-existing-nodes'' rv mismatched)"

definition edge_endpoints :: "edge list \<Rightarrow> string list" where
  "edge_endpoints es = sorted_set (concat (map (\<lambda>e. [e_source e, e_target e]) es))"

definition check_relation_change ::
  "graph_state \<Rightarrow> (string \<times> ontology_relation) list \<Rightarrow> int option
     \<Rightarrow> string \<times> ontology_relation \<Rightarrow> report" where
  "check_relation_change st new_relations rv kv = (case map_of new_relations (fst kv) of
       None \<Rightarrow> []
     | Some cur \<Rightarrow>
        (let used = filter (\<lambda>e. e_relation e = fst kv) (dvalues (gs_edges st));
             excluded = filter (\<lambda>e. \<not> edge_matches_relation st (e_source e) (e_target e) cur []) used in
         (if or_layer (snd kv) \<noteq> or_layer cur \<and> used \<noteq> []
          then [report_reject ''relation-layer-breaks-existing-edges'' rv (edge_endpoints used)
                  (sort (map e_id used))] else [])
         @ (if excluded \<noteq> []
            then [report_reject ''relation-narrowing-breaks-existing-edges'' rv
                    (edge_endpoints excluded) (sort (map e_id excluded))] else [])))"

definition validate_ontology_change ::
  "graph_state \<Rightarrow> ontology_state \<Rightarrow> int option \<Rightarrow> report" where
  "validate_ontology_change st desired rv =
    (let ont = gs_ontology st; fkey = (\<lambda>f. (of_owner_type f, of_name f));
         old_types = index_by ot_name (o_types ont); new_types = index_by ot_name (o_types desired);
         old_fields = index_by fkey (o_fields ont); new_fields = index_by fkey (o_fields desired);
         old_relations = index_by or_name (o_relations ont);
         new_relations = index_by or_name (o_relations desired) in
     require_deprecation_before_removal old_types new_types ot_deprecated rv
     @ require_deprecation_before_removal old_fields new_fields of_deprecated rv
     @ require_deprecation_before_removal old_relations new_relations or_deprecated rv
     @ concat (map (check_type_remap st new_types rv) old_types)
     @ concat (map (check_field_change st old_fields rv) new_fields)
     @ concat (map (check_relation_change st new_relations rv) old_relations))"

definition custom_relation :: "ontology_state \<Rightarrow> string \<Rightarrow> ontology_relation option" where
  "custom_relation ont name = find (\<lambda>r. or_name r = name) (o_relations ont)"

definition ontology_type_of :: "ontology_state \<Rightarrow> pyval option \<Rightarrow> ontology_type option" where
  "ontology_type_of ont name = (case name of
       Some (VStr s) \<Rightarrow> find (\<lambda>t. ot_name t = s) (o_types ont) | _ \<Rightarrow> None)"

definition node_layer :: "graph_state \<Rightarrow> string \<Rightarrow> relation_layer option" where
  "node_layer st i = (case dget (gs_nodes st) i of
       None \<Rightarrow> None | Some n \<Rightarrow> dget BASE_TYPE_LAYERS (n_type n))"

definition edge_layer ::
  "graph_state \<Rightarrow> string \<Rightarrow> string \<Rightarrow> relation_layer \<Rightarrow> relation_layer" where
  "edge_layer st s t declared =
     (if declared = Meta then declared
      else case node_layer st s of
        None \<Rightarrow> declared
      | Some a \<Rightarrow> (case node_layer st t of
          None \<Rightarrow> declared
        | Some b \<Rightarrow> if a = b then a else Seam))"

definition applicable_field_definitions ::
  "ontology_state \<Rightarrow> pyval option \<Rightarrow> pyval option \<Rightarrow> ontology_field list" where
  "applicable_field_definitions ont base ext =
     filter (\<lambda>f. base = Some (VStr (of_owner_type f)) \<or> ext = Some (VStr (of_owner_type f))) (o_fields ont)"

definition validate_one_field ::
  "string \<Rightarrow> ontology_field \<Rightarrow> pyval \<Rightarrow> int option \<Rightarrow> bool \<Rightarrow> bool \<Rightarrow> bool \<Rightarrow> report" where
  "validate_one_field node_id f v rv authoring agent_authored check_kind =
     reject_if (check_kind \<and> \<not> field_value_matches f v) ''invalid-extension-field-kind'' rv [node_id]
     @ reject_if (authoring \<and> of_deprecated f) ''deprecated-extension-field'' rv [node_id]
     @ reject_if (authoring \<and> agent_authored \<and> \<not> of_agent_writable f)
         ''extension-field-human-only'' rv [node_id]"

definition required_missing :: "ontology_field list \<Rightarrow> doc \<Rightarrow> bool" where
  "required_missing defs flds \<longleftrightarrow> (\<exists>f \<in> set defs. of_required f \<and> \<not> dhas (of_name f) flds)"

definition validate_extension_fields ::
  "string \<Rightarrow> doc \<Rightarrow> ontology_field list \<Rightarrow> int option \<Rightarrow> bool \<Rightarrow> bool \<Rightarrow> bool \<Rightarrow> report" where
  "validate_extension_fields node_id flds defs rv authoring agent_authored structural =
    (let known = index_by of_name defs in
     reject_if (structural \<and> (\<exists>k \<in> set (map fst flds). k \<notin> set (map of_name defs)))
       ''unknown-extension-field'' rv [node_id]
     @ concat (map (\<lambda>kv. case map_of known (fst kv) of
          None \<Rightarrow> []
        | Some f \<Rightarrow> validate_one_field node_id f (snd kv) rv authoring agent_authored structural) flds)
     @ reject_if (structural \<and> required_missing defs flds) ''missing-required-extension-field'' rv [node_id])"

definition check_extension_type ::
  "ontology_state \<Rightarrow> doc \<Rightarrow> int option \<Rightarrow> bool \<Rightarrow> report" where
  "check_extension_type ont raw rv authoring =
    (let ext = dget raw ''extension_type''; tdef = ontology_type_of ont ext in
     if ext = None \<or> ext = Some VNone then []
     else case tdef of
       None \<Rightarrow> reject_if (\<not> authoring) ''unknown-extension-type'' rv []
     | Some t \<Rightarrow>
         if \<not> authoring \<and> dget raw ''type'' \<noteq> Some (VStr (ot_base_type t))
         then [report_reject ''invalid-extension-base'' rv [] []]
         else reject_if (authoring \<and> ot_deprecated t) ''deprecated-extension-type'' rv [])"

definition validate_new_node_extensions ::
  "graph_state \<Rightarrow> string \<Rightarrow> doc \<Rightarrow> int option \<Rightarrow> bool \<Rightarrow> bool \<Rightarrow> report" where
  "validate_new_node_extensions st node_id raw rv authoring agent_authored =
    (let ext = dget raw ''extension_type''; base = dget raw ''type'';
         flds = (case dget raw ''extension_fields'' of None \<Rightarrow> VDict [] | Some v \<Rightarrow> v) in
     check_extension_type (gs_ontology st) raw rv authoring
     @ (case flds of
          VDict fs \<Rightarrow> validate_extension_fields node_id fs
            (applicable_field_definitions (gs_ontology st) base ext) rv authoring agent_authored
            (\<not> authoring)
        | _ \<Rightarrow> []))"

definition extension_changed :: "doc \<Rightarrow> doc \<Rightarrow> string \<Rightarrow> bool" where
  "extension_changed old new k = (case (dget old k, dget new k) of
       (Some a, Some b) \<Rightarrow> \<not> py_eq a b | _ \<Rightarrow> True)"

definition validate_updated_extension_fields ::
  "graph_state \<Rightarrow> project_node \<Rightarrow> doc \<Rightarrow> int option \<Rightarrow> bool \<Rightarrow> bool \<Rightarrow> report" where
  "validate_updated_extension_fields st n changes rv authoring agent_authored =
    (case dget changes ''extension_fields'' of
       Some (VDict flds) \<Rightarrow>
        (let defs = applicable_field_definitions (gs_ontology st) (Some (VStr (n_type n)))
                      (Some (vopt (n_extension_type n)));
             known = index_by of_name defs;
             changed = sorted_set (filter (extension_changed (n_extension_fields n) flds)
                         (map fst (n_extension_fields n) @ map fst flds)) in
         concat (map (\<lambda>name. case map_of known name of
             None \<Rightarrow> reject_if (\<not> authoring) ''unknown-extension-field'' rv [n_id n]
           | Some f \<Rightarrow> (case dget flds name of
               None \<Rightarrow> []
             | Some v \<Rightarrow> validate_one_field (n_id n) f v rv authoring agent_authored (\<not> authoring)))
           changed)
         @ reject_if (\<not> authoring \<and> required_missing defs flds)
             ''missing-required-extension-field'' rv [n_id n])
     | _ \<Rightarrow> [])"

end
