(* ===== verification/Authority.thy ===== *)
theory Authority
  imports Ontology
begin

text \<open>
  \<open>core/authority.py\<close>: which producer may do what. A dispatch binds a profile to a task
  contract and an exact scope; Apply checks a patch against the live binding; every graph
  operation maps to a closed set of authority actions, and \<open>permits\<close> says which of them the
  producer of a patch may perform.
\<close>

section \<open>Dispatch and apply bindings\<close>

datatype task_contract = Discuss | WorkAuto | ScratchPatch | PaperReadonly | Orchestrate

datatype chat_scope = NodeChat | ProjectChat

record dispatch_scope =
  ds_run_truth_scope :: "string list"
  ds_episode_id :: "string option"
  ds_chat_scope :: "chat_scope option"
  ds_chat_id :: "string option"
  ds_node_id :: "string option"
  ds_patch_kind :: "patch_kind option"
  ds_control_node_id :: "string option"
  ds_control_episode_id :: "string option"

definition require_normalized_scope :: "dispatch_scope \<Rightarrow> dispatch_scope res" where
  "require_normalized_scope s =
     (if [] \<in> set (ds_run_truth_scope s) then Inl ValueError
      else if ds_run_truth_scope s \<noteq> sorted_set (ds_run_truth_scope s) then Inl ValueError
      else if ds_chat_scope s = None \<and> (ds_chat_id s \<noteq> None \<or> ds_node_id s \<noteq> None) then Inl ValueError
      else if ds_chat_scope s = Some ProjectChat \<and> ds_node_id s \<noteq> None then Inl ValueError
      else if ds_patch_kind s = Some ExperimentLoop then
        (if ds_control_node_id s = None \<or> ds_control_episode_id s = None then Inl ValueError else Inr s)
      else if ds_control_node_id s \<noteq> None \<or> ds_control_episode_id s \<noteq> None then Inl ValueError
      else Inr s)"

record dispatch_authority =
  da_profile :: profile
  da_task_contract :: task_contract
  da_scope :: dispatch_scope

record task_authority =
  ta_operation_id :: string
  ta_project_id :: string
  ta_apply_target :: graph_target
  ta_authorized_by :: "authorized_human option"
  ta_dispatch_authority :: "dispatch_authority option"
  ta_episode_id :: "string option"

definition ORDINARY_AGENT_TASK_CONTRACTS :: "task_contract list" where
  "ORDINARY_AGENT_TASK_CONTRACTS = [Discuss, WorkAuto, ScratchPatch, PaperReadonly]"

definition ORCHESTRATOR_AGENT_TASK_CONTRACTS :: "task_contract list" where
  "ORCHESTRATOR_AGENT_TASK_CONTRACTS = [Orchestrate]"

definition APPLY_CAPABLE_TASK_CONTRACTS :: "task_contract list" where
  "APPLY_CAPABLE_TASK_CONTRACTS = [WorkAuto, ScratchPatch, Orchestrate]"

text \<open>The shape an episode task needs: run scope, Work kind, no chat and no control scope.\<close>

definition episode_scope_ok :: "dispatch_scope \<Rightarrow> bool" where
  "episode_scope_ok s \<longleftrightarrow> ds_run_truth_scope s \<noteq> [] \<and> ds_patch_kind s = Some Work
     \<and> ds_chat_scope s = None \<and> ds_chat_id s = None \<and> ds_node_id s = None
     \<and> ds_control_node_id s = None \<and> ds_control_episode_id s = None"

definition require_scope_shape :: "dispatch_authority \<Rightarrow> unit res" where
  "require_scope_shape a = (let s = da_scope a in
     case da_task_contract a of
       Orchestrate \<Rightarrow>
         if ds_episode_id s = None \<or> \<not> episode_scope_ok s then Inl ValueError else Inr ()
     | ScratchPatch \<Rightarrow>
         if ds_patch_kind s \<notin> {Some Seed, Some Refresh} then Inl ValueError
         else if ds_episode_id s \<noteq> None \<or> ds_chat_scope s \<noteq> None \<or> ds_chat_id s \<noteq> None
           \<or> ds_node_id s \<noteq> None then Inl ValueError
         else Inr ()
     | PaperReadonly \<Rightarrow>
         if ds_chat_scope s \<noteq> None \<or> ds_chat_id s \<noteq> None \<or> ds_node_id s \<noteq> None
           \<or> ds_episode_id s \<noteq> None \<or> ds_patch_kind s \<noteq> None \<or> ds_control_node_id s \<noteq> None
           \<or> ds_control_episode_id s \<noteq> None then Inl ValueError
         else Inr ()
     | c \<Rightarrow>
         if c = WorkAuto \<and> ds_episode_id s \<noteq> None then
           (if \<not> episode_scope_ok s then Inl ValueError else Inr ())
         else if ds_episode_id s \<noteq> None then Inl ValueError
         else if ds_chat_scope s = None \<or> ds_chat_id s = None then Inl ValueError
         else if ds_chat_scope s = Some NodeChat \<and> ds_node_id s = None then Inl ValueError
         else if c = Discuss \<and> ds_patch_kind s \<noteq> None then Inl ValueError
         else if c = WorkAuto \<and> ds_patch_kind s \<notin> {Some Work, Some ExperimentLoop} then Inl ValueError
         else Inr ())"

definition compatible_contract :: "dispatch_authority \<Rightarrow> bool" where
  "compatible_contract a \<longleftrightarrow>
     (da_profile a = Ordinary \<and> da_task_contract a \<in> set ORDINARY_AGENT_TASK_CONTRACTS)
     \<or> (da_profile a = Orchestrator \<and> da_task_contract a \<in> set ORCHESTRATOR_AGENT_TASK_CONTRACTS)"

definition require_dispatch :: "dispatch_authority \<Rightarrow> dispatch_authority res" where
  "require_dispatch a =
     (if \<not> compatible_contract a then Inl ValueError
      else rbind (require_scope_shape a) (\<lambda>_. Inr a))"

text \<open>\<open>is_project_member\<close> is the live membership check the caller supplies.\<close>

definition require_apply ::
  "task_authority \<Rightarrow> patch \<Rightarrow> (string \<Rightarrow> string \<Rightarrow> bool) \<Rightarrow> dispatch_authority res" where
  "require_apply a p is_project_member =
    (case ta_dispatch_authority a of
       None \<Rightarrow> Inl ValueError
     | Some d \<Rightarrow> (case ta_authorized_by a of
         None \<Rightarrow> Inl ValueError
       | Some h \<Rightarrow>
         if \<not> is_project_member (ta_project_id a) (ah_user_id h) then Inl ValueError
         else if \<not> compatible_contract d then Inl ValueError
         else if p_profile p \<noteq> None \<and> p_profile p \<noteq> Some (da_profile d) then Inl ValueError
         else if p_agent_action p \<noteq> None \<and> da_profile d \<noteq> Orchestrator then Inl ValueError
         else rbind (require_scope_shape d) (\<lambda>_.
           let s = da_scope d; k = ds_patch_kind s; c = da_task_contract d in
           if c \<notin> set APPLY_CAPABLE_TASK_CONTRACTS then Inl ValueError
           else if \<not> ((c = ScratchPatch \<and> k \<in> {Some Seed, Some Refresh})
                     \<or> (c = WorkAuto \<and> k \<in> {Some Work, Some ExperimentLoop})
                     \<or> (c = Orchestrate \<and> k = Some Work)) then Inl ValueError
           else if Some (p_kind p) \<noteq> k then Inl ValueError
           else if sorted_set (p_run_truth_scope p) \<noteq> ds_run_truth_scope s then Inl ValueError
           else if p_kind p = ExperimentLoop
             \<and> p_experiment_control_node_id p \<noteq> ds_control_node_id s then Inl ValueError
           else Inr d)))"

section \<open>Authority actions\<close>

definition EVIDENCE_RELATIONS :: "string list" where
  "EVIDENCE_RELATIONS = [''supports'', ''weakens'', ''refutes'', ''inconclusive'', ''contradicts'']"

definition PROTECTED_EPISTEMIC_RELATIONS :: "string list" where
  "PROTECTED_EPISTEMIC_RELATIONS =
     [''has_subquestion'', ''has_hypothesis'', ''supersedes'', ''duplicate_of'']"

datatype graph_action =
    CREATE_NODE | UPDATE_NODE | UPDATE_PROTECTED_EPISTEMIC | DECIDE_DECISION | QUEUE_DECISION
  | REMOVE_NODE | REMOVE_PROTECTED_EPISTEMIC | SUPERSEDE_NODE | SUPERSEDE_PROTECTED_EPISTEMIC
  | MERGE_NODE | MERGE_PROTECTED_EPISTEMIC | CREATE_EDGE | REMOVE_EDGE
  | RESTRUCTURE_PROTECTED_EPISTEMIC | SET_STANDING | CREATE_PROPOSAL | RESOLVE_PROPOSAL
  | WITHDRAW_PROPOSAL | UPSERT_GLOSSARY | SET_COVERAGE | SET_PROJECT_TRUTH_SCOPE | SET_ONTOLOGY
  | CREATE_AMBIGUITY | RESOLVE_AMBIGUITY

definition ORDINARY_AGENT_GRAPH_ACTIONS :: "graph_action list" where
  "ORDINARY_AGENT_GRAPH_ACTIONS = [CREATE_NODE, UPDATE_NODE, QUEUE_DECISION, REMOVE_NODE,
     SUPERSEDE_NODE, MERGE_NODE, CREATE_EDGE, REMOVE_EDGE, CREATE_PROPOSAL, WITHDRAW_PROPOSAL]"

definition ORCHESTRATOR_AGENT_GRAPH_ACTIONS :: "graph_action list" where
  "ORCHESTRATOR_AGENT_GRAPH_ACTIONS = ORDINARY_AGENT_GRAPH_ACTIONS @ [DECIDE_DECISION, SET_STANDING]"

definition human_graph_action :: "graph_action \<Rightarrow> bool" where
  "human_graph_action a \<longleftrightarrow>
     a \<notin> {CREATE_PROPOSAL, UPSERT_GLOSSARY, SET_COVERAGE, CREATE_AMBIGUITY, RESOLVE_AMBIGUITY}"

definition permits :: "patch \<Rightarrow> graph_action \<Rightarrow> bool" where
  "permits p a =
     (if p_author p = Some Human then human_graph_action a
      else if p_author p \<noteq> Some Agent then False
      else if a = SET_COVERAGE then p_kind p \<in> {Seed, Refresh}
      else if p_profile p = Some Orchestrator then a \<in> set ORCHESTRATOR_AGENT_GRAPH_ACTIONS
      else a \<in> set ORDINARY_AGENT_GRAPH_ACTIONS)"

definition is_existing_protected_node :: "graph_state \<Rightarrow> string \<Rightarrow> bool" where
  "is_existing_protected_node st i = (case dget (gs_nodes st) i of
       Some n \<Rightarrow> is_protected n | None \<Rightarrow> False)"

fun created_nodes_of :: "graph_op \<Rightarrow> created_node list" where
  "created_nodes_of (CreateNodes ns) = ns"
| "created_nodes_of _ = []"

fun created_edges_of :: "graph_op \<Rightarrow> new_edge list" where
  "created_edges_of (CreateEdges es) = es"
| "created_edges_of _ = []"

definition patch_created_nodes :: "patch \<Rightarrow> created_node list" where
  "patch_created_nodes p = concat (map created_nodes_of (p_ops p))"

definition created_node_ids :: "patch \<Rightarrow> string list" where
  "created_node_ids p = map (\<lambda>c. n_id (cn_node c)) (patch_created_nodes p)"

definition created_edge_ids :: "patch \<Rightarrow> string list" where
  "created_edge_ids p = map new_edge_id (concat (map created_edges_of (p_ops p)))"

definition created_node_type :: "patch \<Rightarrow> string \<Rightarrow> string option" where
  "created_node_type p i =
     map_option (\<lambda>c. n_type (cn_node c)) (find (\<lambda>c. n_id (cn_node c) = i) (patch_created_nodes p))"

definition restructures_protected_relation ::
  "graph_state \<Rightarrow> string \<Rightarrow> string \<Rightarrow> string \<Rightarrow> string list \<Rightarrow> bool" where
  "restructures_protected_relation st relation s t new_node_ids \<longleftrightarrow>
     relation \<in> set PROTECTED_EPISTEMIC_RELATIONS
     \<and> s \<notin> set new_node_ids \<and> t \<notin> set new_node_ids
     \<and> (is_existing_protected_node st s \<or> is_existing_protected_node st t)"

definition new_node_ids_of :: "graph_state \<Rightarrow> patch \<Rightarrow> string list" where
  "new_node_ids_of st p = filter (\<lambda>i. \<not> dhas i (gs_nodes st)) (created_node_ids p)"

definition update_action :: "graph_state \<Rightarrow> patch \<Rightarrow> node_update \<Rightarrow> graph_action list res" where
  "update_action st p u =
     (if is_existing_protected_node st (nu_id u) then Inr [UPDATE_PROTECTED_EPISTEMIC]
      else let node = dget (gs_nodes st) (nu_id u) in
        if (as_decision node \<noteq> None \<or> created_node_type p (nu_id u) = Some ''decision'')
           \<and> (p_human_action p = Some DecisionChoice \<or> p_agent_action p = Some DecisionChoice)
        then Inr [DECIDE_DECISION]
        else if as_decision node \<noteq> None then
          rbind (in_literals (dget (nu_changes u) ''status'') [''open'', ''ready'', ''revisit'']) (\<lambda>b.
            Inr [if b then QUEUE_DECISION else UPDATE_NODE])
        else Inr [UPDATE_NODE])"

definition or_base :: "graph_action list \<Rightarrow> graph_action \<Rightarrow> graph_action list" where
  "or_base xs a = (if xs = [] then [a] else remdups xs)"

definition node_target_actions ::
  "graph_state \<Rightarrow> string list \<Rightarrow> graph_action \<Rightarrow> graph_action \<Rightarrow> graph_action list" where
  "node_target_actions st ids base prot =
     or_base (map (\<lambda>i. if is_existing_protected_node st i then prot else base) ids) base"

definition node_lifecycle_actions ::
  "graph_state \<Rightarrow> patch \<Rightarrow> string list \<Rightarrow> (string \<times> string) list \<Rightarrow> string
     \<Rightarrow> graph_action \<Rightarrow> graph_action \<Rightarrow> graph_action list" where
  "node_lifecycle_actions st p ids endpoints relation base prot =
     node_target_actions st ids base prot
     @ (if \<exists>e \<in> set endpoints.
          restructures_protected_relation st relation (fst e) (snd e) (new_node_ids_of st p)
        then [RESTRUCTURE_PROTECTED_EPISTEMIC] else [])"

definition create_edge_actions :: "graph_state \<Rightarrow> patch \<Rightarrow> new_edge list \<Rightarrow> graph_action list" where
  "create_edge_actions st p es =
     or_base (map (\<lambda>e. if restructures_protected_relation st (ne_relation e) (ne_source e) (ne_target e)
                           (new_node_ids_of st p)
                       then RESTRUCTURE_PROTECTED_EPISTEMIC else CREATE_EDGE) es) CREATE_EDGE"

definition remove_edge_actions :: "graph_state \<Rightarrow> patch \<Rightarrow> string list \<Rightarrow> graph_action list" where
  "remove_edge_actions st p ids =
     or_base (map (\<lambda>i. case dget (gs_edges st) i of
         None \<Rightarrow> REMOVE_EDGE
       | Some e \<Rightarrow>
           if i \<notin> set (filter (\<lambda>j. \<not> dhas j (gs_edges st)) (created_edge_ids p))
              \<and> e_relation e \<in> set PROTECTED_EPISTEMIC_RELATIONS
              \<and> (is_existing_protected_node st (e_source e) \<or> is_existing_protected_node st (e_target e))
           then RESTRUCTURE_PROTECTED_EPISTEMIC else REMOVE_EDGE) ids) REMOVE_EDGE"

fun operation_actions :: "graph_state \<Rightarrow> patch \<Rightarrow> graph_op \<Rightarrow> graph_action list res" where
  "operation_actions st p (CreateNodes _) = Inr [CREATE_NODE]"
| "operation_actions st p (UpdateNodes us) =
     rbind (rconcat (update_action st p) us) (\<lambda>as. Inr (or_base as UPDATE_NODE))"
| "operation_actions st p (CreateEdges es) = Inr (create_edge_actions st p es)"
| "operation_actions st p (RemoveEdges ids) = Inr (remove_edge_actions st p ids)"
| "operation_actions st p (RemoveNodes ids) =
     Inr (node_target_actions st ids REMOVE_NODE REMOVE_PROTECTED_EPISTEMIC)"
| "operation_actions st p (SupersedeNodes ns) =
     Inr (node_lifecycle_actions st p (map sn_id ns)
       (concat (map (\<lambda>n. case sn_superseded_by n of None \<Rightarrow> [] | Some t \<Rightarrow> [(sn_id n, t)]) ns))
       ''supersedes'' SUPERSEDE_NODE SUPERSEDE_PROTECTED_EPISTEMIC)"
| "operation_actions st p (MergeNodes ms) =
     Inr (node_lifecycle_actions st p (map nm_duplicate ms)
       (map (\<lambda>m. (nm_duplicate m, nm_canonical m)) ms)
       ''duplicate_of'' MERGE_NODE MERGE_PROTECTED_EPISTEMIC)"
| "operation_actions st p (SetStanding i _) =
     Inr [if is_existing_protected_node st i
            \<or> created_node_type p i \<in> {Some ''research_question'', Some ''hypothesis''}
          then UPDATE_PROTECTED_EPISTEMIC else SET_STANDING]"
| "operation_actions st p (CreateAmbiguities _) = Inr [CREATE_AMBIGUITY]"
| "operation_actions st p (ResolveAmbiguities _) = Inr [RESOLVE_AMBIGUITY]"
| "operation_actions st p (CreateProposals _) = Inr [CREATE_PROPOSAL]"
| "operation_actions st p (ResolveProposals _) = Inr [RESOLVE_PROPOSAL]"
| "operation_actions st p (WithdrawProposals _) = Inr [WITHDRAW_PROPOSAL]"
| "operation_actions st p (UpsertGlossary _) = Inr [UPSERT_GLOSSARY]"
| "operation_actions st p (SetCoverage _) = Inr [SET_COVERAGE]"
| "operation_actions st p (SetProjectTruthScope _ _) = Inr [SET_PROJECT_TRUTH_SCOPE]"
| "operation_actions st p (SetOntology _) = Inr [SET_ONTOLOGY]"

end
