(* ===== verification/Registry.thy ===== *)
theory Registry
  imports Authority
begin

text \<open>
  \<open>core/validation/registry.py\<close> with the \<open>depends_*\<close> functions of
  \<open>core/validation/ops.py\<close>: the graph objects and configuration keys whose exact state a
  proposal depends on. Node ids are kept even when no such node exists yet.
\<close>

definition depends_update_nodes :: "node_update list \<Rightarrow> string list \<times> string list" where
  "depends_update_nodes us =
     (map nu_id us, map (\<lambda>_. ''ontology'') (filter (\<lambda>u. dhas ''extension_fields'' (nu_changes u)) us))"

definition depends_create_edges :: "new_edge list \<Rightarrow> string list" where
  "depends_create_edges es = concat (map (\<lambda>e. [ne_source e, ne_target e]) es)"

definition depends_remove_edges :: "graph_state \<Rightarrow> string list \<Rightarrow> string list" where
  "depends_remove_edges st ids = concat (map (\<lambda>i. case dget (gs_edges st) i of
       None \<Rightarrow> [] | Some e \<Rightarrow> [e_source e, e_target e]) ids)"

definition depends_supersede_nodes :: "supersede_node list \<Rightarrow> string list" where
  "depends_supersede_nodes ns = concat (map (\<lambda>n. sn_id n # (case sn_superseded_by n of
       None \<Rightarrow> [] | Some t \<Rightarrow> [t])) ns)"

definition depends_merge_nodes :: "node_merge list \<Rightarrow> string list" where
  "depends_merge_nodes ms = concat (map (\<lambda>m. [nm_duplicate m, nm_canonical m]) ms)"

definition depends_create_ambiguities :: "new_ambiguity list \<Rightarrow> string list" where
  "depends_create_ambiguities as = concat (map na_related_node_ids as)"

definition depends_resolve_ambiguities ::
  "graph_state \<Rightarrow> ambiguity_resolution list \<Rightarrow> string list" where
  "depends_resolve_ambiguities st rs = concat (map (\<lambda>r. case dget (gs_ambiguities st) (ar_id r) of
       None \<Rightarrow> [] | Some a \<Rightarrow> am_related_node_ids a) rs)"

text \<open>The rule of one operation: candidate node ids and configuration keys.\<close>

fun op_dependencies :: "graph_state \<Rightarrow> proposal_op \<Rightarrow> string list \<times> string list" where
  "op_dependencies st (PContentChange _ us) = depends_update_nodes us"
| "op_dependencies st (PStatusChange _ us) = depends_update_nodes us"
| "op_dependencies st (PRemoval _ ids) = (ids, [])"
| "op_dependencies st (PSupersede _ ns) = (depends_supersede_nodes ns, [])"
| "op_dependencies st (PMerge _ ms) = (depends_merge_nodes ms, [])"
| "op_dependencies st (PRelationCreate _ es) = (depends_create_edges es, [])"
| "op_dependencies st (PRelationRemove _ ids) = (depends_remove_edges st ids, [])"
| "op_dependencies st (PLegacySetProjectTruthScope _ _) = ([], [''project_truth_scope''])"
| "op_dependencies st (PLegacySetOntology _) = ([], [''ontology''])"
| "op_dependencies st (PLegacyCreateAmbiguities as) = (depends_create_ambiguities as, [])"
| "op_dependencies st (PLegacyResolveAmbiguities rs) = (depends_resolve_ambiguities st rs, [])"
| "op_dependencies st (PLegacyCreateNodes _) = ([], [])"
| "op_dependencies st (PLegacyUpsertGlossary _) = ([], [])"
| "op_dependencies st (PLegacySetCoverage _) = ([], [])"

text \<open>The edges and nodes named by the causes of updates, and the edges a removal takes along.\<close>

definition cause_edge_ids :: "node_update list \<Rightarrow> string list" where
  "cause_edge_ids us = concat (map (\<lambda>u. case nu_cause u of
       Some (EvidenceEdgeCause i) \<Rightarrow> [i] | _ \<Rightarrow> []) us)"

definition cause_node_ids :: "node_update list \<Rightarrow> string list" where
  "cause_node_ids us = concat (map (\<lambda>u. case nu_cause u of
       Some (DecisionCause i) \<Rightarrow> [i] | _ \<Rightarrow> []) us)"

definition incident_edge_ids :: "graph_state \<Rightarrow> string list \<Rightarrow> string list" where
  "incident_edge_ids st ids = map e_id (filter (\<lambda>e. e_source e \<in> set ids \<or> e_target e \<in> set ids)
     (dvalues (gs_edges st)))"

fun op_edge_dependencies :: "graph_state \<Rightarrow> proposal_op \<Rightarrow> string list" where
  "op_edge_dependencies st (PRelationRemove _ ids) = ids"
| "op_edge_dependencies st (PRemoval _ ids) = incident_edge_ids st ids"
| "op_edge_dependencies st (PContentChange _ us) = cause_edge_ids us"
| "op_edge_dependencies st (PStatusChange _ us) = cause_edge_ids us"
| "op_edge_dependencies st _ = []"

fun op_cause_nodes :: "proposal_op \<Rightarrow> string list" where
  "op_cause_nodes (PContentChange _ us) = cause_node_ids us"
| "op_cause_nodes (PStatusChange _ us) = cause_node_ids us"
| "op_cause_nodes _ = []"

definition proposal_dependencies ::
  "graph_state \<Rightarrow> proposal_op list \<Rightarrow> string list \<times> string list \<times> string list" where
  "proposal_dependencies st ops =
     (sorted_set (concat (map (\<lambda>q. fst (op_dependencies st q) @ op_cause_nodes q) ops)),
      sorted_set (concat (map (op_edge_dependencies st) ops)),
      sorted_set (concat (map (\<lambda>q. snd (op_dependencies st q)) ops)))"

section \<open>Lemmas\<close>

text \<open>
  The derived dependencies only look at edges and ambiguities, so replacing a node, or any
  other part of the graph, leaves them alone.
\<close>

lemma op_dependencies_cong:
  "gs_edges st = gs_edges st' \<Longrightarrow> gs_ambiguities st = gs_ambiguities st' \<Longrightarrow>
   op_dependencies st q = op_dependencies st' q \<and> op_edge_dependencies st q = op_edge_dependencies st' q"
  by (cases q) (auto simp: depends_remove_edges_def depends_resolve_ambiguities_def incident_edge_ids_def)

lemma proposal_dependencies_cong:
  assumes "gs_edges st = gs_edges st'" and "gs_ambiguities st = gs_ambiguities st'"
  shows "proposal_dependencies st ops = proposal_dependencies st' ops"
proof -
  have "op_edge_dependencies st = op_edge_dependencies st'"
    and "op_dependencies st = op_dependencies st'"
    using op_dependencies_cong [OF assms] by (auto intro: ext)
  then show ?thesis by (simp add: proposal_dependencies_def)
qed

end
