(* ===== verification/Materialize.thy ===== *)
theory Materialize
  imports Registry
begin

text \<open>
  \<open>core/materialize.py\<close>: applying the operations of a patch to the graph. The code forks
  the state and mutates the fork; here every step returns a new state, and an exception
  leaves nothing behind. The adapters record \<open>A\<close> stands for the schema library.
\<close>

section \<open>Definitions\<close>

definition IMMUTABLE_NODE_UPDATE_FIELDS :: "string list" where
  "IMMUTABLE_NODE_UPDATE_FIELDS = [''id'', ''type'', ''extension_type'', ''standing'',
     ''created_rev'', ''updated_rev'', ''legacy_strength'', ''current_summary_stale'',
     ''next_action_stale'']"

definition LEGACY_COMPATIBILITY_UPDATE_FIELDS :: "string list" where
  "LEGACY_COMPATIBILITY_UPDATE_FIELDS =
     [''legacy_strength'', ''current_summary_stale'', ''next_action_stale'']"

text \<open>
  What applying a patch threads through its operations: the forked state, the ids of the
  edges created so far, and the repository descriptors collected for the caller.
\<close>

record applying =
  ap_state :: graph_state
  ap_created_edges :: "string list"
  ap_descriptors :: "repository_descriptor list"

definition on_state :: "(graph_state \<Rightarrow> graph_state) \<Rightarrow> applying \<Rightarrow> applying" where
  "on_state f a = a\<lparr>ap_state := f (ap_state a)\<rparr>"

definition put_node :: "string \<Rightarrow> project_node \<Rightarrow> graph_state \<Rightarrow> graph_state" where
  "put_node i n st = st\<lparr>gs_nodes := dset i n (gs_nodes st)\<rparr>"

definition put_edge :: "string \<Rightarrow> edge \<Rightarrow> graph_state \<Rightarrow> graph_state" where
  "put_edge i e st = st\<lparr>gs_edges := dset i e (gs_edges st)\<rparr>"

definition put_proposal :: "proposal \<Rightarrow> graph_state \<Rightarrow> graph_state" where
  "put_proposal q st = st\<lparr>gs_proposals := dset (pr_id q) q (gs_proposals st)\<rparr>"

definition created_document :: "int \<Rightarrow> created_node \<Rightarrow> doc" where
  "created_document rv c =
    (let d = dset ''updated_rev'' (VInt rv) (dset ''created_rev'' (VInt rv) (raw_of c)) in
     dset ''standing'' (case dget d ''standing'' of None \<Rightarrow> VStr ''asserted'' | Some v \<Rightarrow> v) d)"

definition apply_create_node ::
  "adapters \<Rightarrow> patch \<Rightarrow> created_node \<Rightarrow> graph_state \<Rightarrow> graph_state res" where
  "apply_create_node A p c st =
     rbind (ad_node A (created_document (p_revision p) c)) (\<lambda>n. Inr (put_node (n_id n) n st))"

definition record_belief_transition ::
  "project_node \<Rightarrow> project_node \<Rightarrow> int \<Rightarrow> belief_cause option \<Rightarrow> graph_state \<Rightarrow> graph_state" where
  "record_belief_transition previous updated rv cause st =
     (case (n_body previous, n_body updated, cause) of
        (Hypothesis h, Hypothesis h', Some c) \<Rightarrow>
          if hyp_status h = hyp_status h' then st
          else st\<lparr>gs_belief_transitions := gs_belief_transitions st @
            [\<lparr>bt_hypothesis_id = n_id previous, bt_from_status = hyp_status h,
              bt_to_status = hyp_status h', bt_revision = rv, bt_cause = c\<rparr>]\<rparr>
      | _ \<Rightarrow> st)"

text \<open>The system fields an update may not name, for the generation and origin of the operation.\<close>

definition immutable_fields_for :: "patch \<Rightarrow> bool \<Rightarrow> string list" where
  "immutable_fields_for p generated =
     filter (\<lambda>k. \<not> (if p_schema_generation p = 1 then k \<in> set LEGACY_COMPATIBILITY_UPDATE_FIELDS
                   else generated \<and> k \<in> {''current_summary_stale'', ''next_action_stale''}))
       IMMUTABLE_NODE_UPDATE_FIELDS"

definition applied_standing :: "patch \<Rightarrow> project_node \<Rightarrow> pyval" where
  "applied_standing p n =
     VStr (if p_kind p = Approval then standing_name (n_standing n) else ''asserted'')"

definition updated_document :: "patch \<Rightarrow> project_node \<Rightarrow> doc \<Rightarrow> doc" where
  "updated_document p n changes =
     dset ''standing'' (applied_standing p n)
       (dset ''updated_rev'' (VInt (p_revision p)) (dupdate (model_dump n) changes))"

definition update_validator :: "adapters \<Rightarrow> patch \<Rightarrow> doc \<Rightarrow> project_node res" where
  "update_validator A p = (if p_schema_generation p = 1 then ad_node A else strict_project_node A)"

definition apply_update_node ::
  "adapters \<Rightarrow> patch \<Rightarrow> bool \<Rightarrow> node_update \<Rightarrow> graph_state \<Rightarrow> graph_state res" where
  "apply_update_node A p generated u st =
     rbind (dindex (gs_nodes st) (nu_id u)) (\<lambda>n.
     if \<exists>k \<in> set (map fst (nu_changes u)). k \<in> set (immutable_fields_for p generated)
     then Inl ValueError
     else rbind (update_validator A p (updated_document p n (nu_changes u))) (\<lambda>n'.
       Inr (put_node (n_id n) n' (record_belief_transition n n' (p_revision p) (nu_cause u) st))))"

text \<open>
  \<open>Edge.model_validate\<close>: a base relation overrides the supplied layer; without any layer,
  or with a null id, validation fails.
\<close>

definition edge_model_validate ::
  "string option \<Rightarrow> new_edge \<Rightarrow> relation_layer option \<Rightarrow> int \<Rightarrow> edge res" where
  "edge_model_validate i e supplied rv =
     (case (i, (case dget RELATION_SPEC (ne_relation e) of
                  Some s \<Rightarrow> Some (rs_layer s) | None \<Rightarrow> supplied)) of
        (Some j, Some l) \<Rightarrow> Inr \<lparr>e_id = j, e_source = ne_source e, e_target = ne_target e,
           e_relation = ne_relation e, e_layer = l, e_explanation = ne_explanation e,
           e_assessment = ne_assessment e, e_created_rev = rv\<rparr>
      | _ \<Rightarrow> Inl ValidationError)"

text \<open>\<open>data.setdefault("id", ...)\<close>: an explicit null or empty id stays.\<close>

definition edge_document_id :: "new_edge \<Rightarrow> string option" where
  "edge_document_id e = (case ne_id e of
       None \<Rightarrow> Some (derived_edge_id (ne_source e) (ne_relation e) (ne_target e))
     | Some i \<Rightarrow> i)"

definition declared_layer :: "ontology_state \<Rightarrow> string \<Rightarrow> relation_layer option" where
  "declared_layer ont r = map_option or_layer (custom_relation ont r)"

definition narrow_layer :: "graph_state \<Rightarrow> edge \<Rightarrow> edge" where
  "narrow_layer st e = e\<lparr>e_layer := edge_layer st (e_source e) (e_target e) (e_layer e)\<rparr>"

definition apply_create_edge :: "patch \<Rightarrow> new_edge \<Rightarrow> applying \<Rightarrow> applying res" where
  "apply_create_edge p e a =
    (let st = ap_state a in
     rbind (edge_model_validate (edge_document_id e) e (declared_layer (gs_ontology st) (ne_relation e))
              (p_revision p)) (\<lambda>edge.
     Inr (a\<lparr>ap_state := put_edge (e_id edge) (narrow_layer st edge) st,
            ap_created_edges := ap_created_edges a @ [e_id edge]\<rparr>)))"

definition apply_remove_nodes :: "string list \<Rightarrow> graph_state \<Rightarrow> graph_state" where
  "apply_remove_nodes ids st =
     st\<lparr>gs_nodes := filter (\<lambda>kv. fst kv \<notin> set ids) (gs_nodes st),
        gs_edges := filter (\<lambda>kv. e_source (snd kv) \<notin> set ids \<and> e_target (snd kv) \<notin> set ids)
          (gs_edges st)\<rparr>"

definition set_node_status ::
  "adapters \<Rightarrow> string \<Rightarrow> string \<Rightarrow> int \<Rightarrow> bool \<Rightarrow> graph_state \<Rightarrow> (project_node \<times> graph_state) res" where
  "set_node_status A node_id status rv preserve_standing st =
     rbind (dindex (gs_nodes st) node_id) (\<lambda>n.
     rbind (ad_node A (dset ''standing''
              (VStr (if preserve_standing then standing_name (n_standing n) else ''asserted''))
              (dset ''updated_rev'' (VInt rv) (dset ''status'' (VStr status) (model_dump n))))) (\<lambda>n'.
     Inr (n', put_node node_id n' st)))"

text \<open>The edge superseding and merging leave behind; both relations are in the meta layer.\<close>

definition lifecycle_edge :: "string \<Rightarrow> string \<Rightarrow> string \<Rightarrow> string \<Rightarrow> int \<Rightarrow> edge" where
  "lifecycle_edge s r t explanation rv =
     \<lparr>e_id = derived_edge_id s r t, e_source = s, e_target = t, e_relation = r, e_layer = Meta,
      e_explanation = explanation, e_assessment = None, e_created_rev = rv\<rparr>"

definition apply_supersede_node ::
  "adapters \<Rightarrow> patch \<Rightarrow> supersede_node \<Rightarrow> graph_state \<Rightarrow> graph_state res" where
  "apply_supersede_node A p s st =
     rbind (dindex (gs_nodes st) (sn_id s)) (\<lambda>previous.
     rbind (set_node_status A (sn_id s) ''superseded'' (p_revision p) (p_kind p = Approval) st) (\<lambda>(n', st1).
     let st2 = record_belief_transition previous n' (p_revision p) (sn_cause s) st1 in
     Inr (case sn_superseded_by s of
            None \<Rightarrow> st2
          | Some t \<Rightarrow> if t = [] then st2
              else let e = lifecycle_edge (sn_id s) ''supersedes'' t (sn_explanation s) (p_revision p)
                   in put_edge (e_id e) e st2)))"

definition apply_merge_node ::
  "adapters \<Rightarrow> patch \<Rightarrow> node_merge \<Rightarrow> graph_state \<Rightarrow> graph_state res" where
  "apply_merge_node A p m st =
     rbind (dindex (gs_nodes st) (nm_duplicate m)) (\<lambda>previous.
     rbind (set_node_status A (nm_duplicate m) ''superseded'' (p_revision p) (p_kind p = Approval) st)
       (\<lambda>(n', st1).
     let st2 = record_belief_transition previous n' (p_revision p) (nm_cause m) st1;
         e = lifecycle_edge (nm_duplicate m) ''duplicate_of'' (nm_canonical m) (nm_explanation m)
               (p_revision p) in
     Inr (put_edge (e_id e) e st2)))"

definition apply_create_ambiguity :: "patch \<Rightarrow> new_ambiguity \<Rightarrow> graph_state \<Rightarrow> graph_state" where
  "apply_create_ambiguity p a st = st\<lparr>gs_ambiguities := dset (na_id a)
     \<lparr>am_id = na_id a, am_question = na_question a, am_why_it_matters = na_why_it_matters a,
      am_candidates = na_candidates a, am_related_node_ids = na_related_node_ids a,
      am_artifact_refs = na_artifact_refs a, am_status = na_status a, am_raised_rev = p_revision p\<rparr>
     (gs_ambiguities st)\<rparr>"

definition apply_resolve_ambiguity :: "ambiguity_resolution \<Rightarrow> graph_state \<Rightarrow> graph_state res" where
  "apply_resolve_ambiguity r st =
     rbind (dindex (gs_ambiguities st) (ar_id r)) (\<lambda>a.
     Inr (st\<lparr>gs_ambiguities := dset (am_id a) (a\<lparr>am_status := ar_status r\<rparr>) (gs_ambiguities st)\<rparr>))"

definition patch_author_side :: "patch \<Rightarrow> author" where
  "patch_author_side p = (if p_author p = Some Human then Human else Agent)"

text \<open>\<open>model_copy(update=...)\<close> also marks the updated fields as set.\<close>

definition add_fields :: "string list \<Rightarrow> string list \<Rightarrow> string list" where
  "add_fields ks fs = fs @ filter (\<lambda>k. k \<notin> set fs) ks"

definition apply_create_proposal :: "patch \<Rightarrow> proposal \<Rightarrow> graph_state \<Rightarrow> graph_state" where
  "apply_create_proposal p q st =
    (case proposal_dependencies st (pr_ops q) of (ns, es, ks) \<Rightarrow>
     put_proposal (q\<lparr>pr_base_rev := gs_revision st, pr_related_node_ids := ns,
       pr_related_edge_ids := es, pr_related_config_keys := ks,
       pr_created_by := (if ''created_by'' \<in> set (pr_fields_set q) then pr_created_by q
         else patch_author_side p),
       pr_created_by_operation_id :=
         (if ''created_by_operation_id'' \<in> set (pr_fields_set q) then pr_created_by_operation_id q
          else p_source_operation_id p),
       pr_raised_rev := p_revision p,
       pr_fields_set := add_fields [''base_rev'', ''related_node_ids'', ''related_edge_ids'',
         ''related_config_keys'', ''created_by'', ''created_by_operation_id'', ''raised_rev'']
         (pr_fields_set q)\<rparr>) st)"

definition apply_resolve_proposal ::
  "patch \<Rightarrow> proposal_resolution \<Rightarrow> graph_state \<Rightarrow> graph_state res" where
  "apply_resolve_proposal p r st =
     rbind (dindex (gs_proposals st) (pres_id r)) (\<lambda>q.
     Inr (put_proposal (q\<lparr>pr_status := pres_status r, pr_resolved_rev := Some (p_revision p),
       pr_resolved_by := Some (patch_author_side p),
       pr_resolved_by_operation_id := p_source_operation_id p,
       pr_resolution_reason := pres_reason r, pr_rejection_reason := pres_reason r,
       pr_fields_set := add_fields [''status'', ''resolved_rev'', ''resolved_by'',
         ''resolved_by_operation_id'', ''resolution_reason'', ''rejection_reason'']
         (pr_fields_set q)\<rparr>) st))"

definition apply_withdraw_proposal ::
  "patch \<Rightarrow> proposal_withdrawal \<Rightarrow> graph_state \<Rightarrow> graph_state res" where
  "apply_withdraw_proposal p w st =
     rbind (dindex (gs_proposals st) (pw_id w)) (\<lambda>q.
     Inr (put_proposal (q\<lparr>pr_status := Withdrawn, pr_resolved_rev := Some (p_revision p),
       pr_resolved_by := Some Agent, pr_resolved_by_operation_id := p_source_operation_id p,
       pr_resolution_reason := Some (pw_reason w),
       pr_fields_set := add_fields [''status'', ''resolved_rev'', ''resolved_by'',
         ''resolved_by_operation_id'', ''resolution_reason''] (pr_fields_set q)\<rparr>) st))"

definition apply_upsert_term :: "patch \<Rightarrow> new_glossary_term \<Rightarrow> graph_state \<Rightarrow> graph_state" where
  "apply_upsert_term p g st = st\<lparr>gs_glossary := dset (ng_term g)
     \<lparr>gt_term = ng_term g, gt_plain_definition = ng_plain_definition g,
      gt_where_defined = ng_where_defined g, gt_updated_rev = p_revision p\<rparr> (gs_glossary st)\<rparr>"

definition apply_coverage :: "coverage_update \<Rightarrow> graph_state \<Rightarrow> graph_state" where
  "apply_coverage u st =
    (let c = gs_coverage st; pick = (\<lambda>new old. sorted_set (case new of Some x \<Rightarrow> x | None \<Rightarrow> old)) in
     st\<lparr>gs_coverage := \<lparr>
       cov_repositories_seen = pick (cu_repositories_seen u) (cov_repositories_seen c),
       cov_repositories_never_seen =
         pick (cu_repositories_never_seen u) (cov_repositories_never_seen c),
       cov_sessions_read = pick (cu_sessions_read u) (cov_sessions_read c),
       cov_sessions_skipped = pick (cu_sessions_skipped u) (cov_sessions_skipped c),
       cov_earliest_timestamp = (case cu_earliest_timestamp u of
         Some t \<Rightarrow> t | None \<Rightarrow> cov_earliest_timestamp c),
       cov_note = (case cu_note u of Some n \<Rightarrow> n | None \<Rightarrow> cov_note c)\<rparr>\<rparr>)"

definition apply_standing :: "patch \<Rightarrow> string \<Rightarrow> standing \<Rightarrow> graph_state \<Rightarrow> graph_state res" where
  "apply_standing p i s st =
     rbind (dindex (gs_nodes st) i) (\<lambda>n.
     Inr (put_node (n_id n) (n\<lparr>n_standing := s, n_updated_rev := p_revision p\<rparr>) st))"

definition apply_truth_scope :: "patch \<Rightarrow> string list \<Rightarrow> graph_state \<Rightarrow> graph_state" where
  "apply_truth_scope p scope st =
    (let c = gs_coverage st;
         never = filter (\<lambda>r. r \<in> set scope)
           (cov_repositories_never_seen c @ filter (\<lambda>r. r \<notin> set (cov_repositories_seen c)) scope) in
     st\<lparr>gs_project_truth_scope := sorted_set scope,
        gs_config_revisions := dset ''project_truth_scope'' (p_revision p) (gs_config_revisions st),
        gs_coverage := c\<lparr>cov_repositories_never_seen := sorted_set never\<rparr>\<rparr>)"

definition apply_ontology :: "patch \<Rightarrow> ontology_state \<Rightarrow> graph_state \<Rightarrow> graph_state" where
  "apply_ontology p ont st = st\<lparr>gs_ontology := ont,
     gs_config_revisions := dset ''ontology'' (p_revision p) (gs_config_revisions st)\<rparr>"

text \<open>A loop over the items of an operation that touches only the state.\<close>

definition each :: "('a \<Rightarrow> graph_state \<Rightarrow> graph_state res) \<Rightarrow> 'a list \<Rightarrow> applying \<Rightarrow> applying res" where
  "each f xs a = rbind (rfold f xs (ap_state a)) (\<lambda>st. Inr (a\<lparr>ap_state := st\<rparr>))"

fun apply_op :: "adapters \<Rightarrow> patch \<Rightarrow> bool \<Rightarrow> graph_op \<Rightarrow> applying \<Rightarrow> applying res" where
  "apply_op A p g (CreateNodes ns) a = each (apply_create_node A p) ns a"
| "apply_op A p g (UpdateNodes us) a = each (apply_update_node A p g) us a"
| "apply_op A p g (CreateEdges es) a = rfold (apply_create_edge p) es a"
| "apply_op A p g (RemoveEdges ids) a =
     Inr (on_state (\<lambda>st. st\<lparr>gs_edges := foldl (\<lambda>d i. ddel i d) (gs_edges st) ids\<rparr>) a)"
| "apply_op A p g (RemoveNodes ids) a = Inr (on_state (apply_remove_nodes ids) a)"
| "apply_op A p g (SupersedeNodes ns) a = each (apply_supersede_node A p) ns a"
| "apply_op A p g (MergeNodes ms) a = each (apply_merge_node A p) ms a"
| "apply_op A p g (CreateAmbiguities as) a = Inr (on_state (fold (apply_create_ambiguity p) as) a)"
| "apply_op A p g (ResolveAmbiguities rs) a = each apply_resolve_ambiguity rs a"
| "apply_op A p g (CreateProposals qs) a = Inr (on_state (fold (apply_create_proposal p) qs) a)"
| "apply_op A p g (ResolveProposals rs) a = each (apply_resolve_proposal p) rs a"
| "apply_op A p g (WithdrawProposals ws) a = each (apply_withdraw_proposal p) ws a"
| "apply_op A p g (UpsertGlossary ts) a = Inr (on_state (fold (apply_upsert_term p) ts) a)"
| "apply_op A p g (SetCoverage u) a = Inr (on_state (apply_coverage u) a)"
| "apply_op A p g (SetStanding i s) a = each (\<lambda>(j, t). apply_standing p j t) [(i, s)] a"
| "apply_op A p g (SetProjectTruthScope scope r) a =
     Inr ((on_state (apply_truth_scope p scope) a)
       \<lparr>ap_descriptors := ap_descriptors a @ (case r of None \<Rightarrow> [] | Some d \<Rightarrow> [d])\<rparr>)"
| "apply_op A p g (SetOntology ont) a = Inr (on_state (apply_ontology p ont) a)"

definition generated_operation_indexes :: "patch \<Rightarrow> nat list \<Rightarrow> nat list" where
  "generated_operation_indexes p extra = extra @ (case p_transition p of
       None \<Rightarrow> [] | Some t \<Rightarrow> map ga_operation_index (tt_generated_actions t))"

definition apply_ops :: "adapters \<Rightarrow> patch \<Rightarrow> nat list \<Rightarrow> (nat \<times> graph_op) list \<Rightarrow> applying \<Rightarrow> applying res" where
  "apply_ops A p gen = rfold (\<lambda>iop. apply_op A p (fst iop \<in> set gen) (snd iop))"

text \<open>The second pass over the created edges, from the completed graph.\<close>

definition renarrow_edge :: "string \<Rightarrow> graph_state \<Rightarrow> graph_state" where
  "renarrow_edge i st = (case dget (gs_edges st) i of
       None \<Rightarrow> st | Some e \<Rightarrow> put_edge i (narrow_layer st e) st)"

definition finish_apply :: "patch \<Rightarrow> applying \<Rightarrow> applying" where
  "finish_apply p a =
     on_state (\<lambda>st. st\<lparr>gs_revision := max (gs_revision st) (p_revision p),
         gs_last_refresh_at := (if p_kind p \<in> {Seed, Refresh} then Some (p_created_at p)
           else gs_last_refresh_at st)\<rparr>)
       (on_state (fold renarrow_edge (fromkeys (ap_created_edges a))) a)"

definition begin_apply :: "graph_state \<Rightarrow> applying" where
  "begin_apply st = \<lparr>ap_state = st, ap_created_edges = [], ap_descriptors = []\<rparr>"

definition apply_patch ::
  "adapters \<Rightarrow> patch \<Rightarrow> nat list \<Rightarrow> graph_state \<Rightarrow> (graph_state \<times> repository_descriptor list) res" where
  "apply_patch A p extra st =
     rbind (apply_ops A p (generated_operation_indexes p extra) (List.enumerate 0 (p_ops p))
       (begin_apply st)) (\<lambda>a.
     let b = finish_apply p a in Inr (ap_state b, ap_descriptors b))"

definition apply_valid_patch :: "adapters \<Rightarrow> graph_state \<Rightarrow> patch \<Rightarrow> graph_state res" where
  "apply_valid_patch A st p = rbind (apply_patch A p [] st) (\<lambda>r. Inr (fst r))"

definition apply_valid_operation ::
  "adapters \<Rightarrow> graph_state \<Rightarrow> patch \<Rightarrow> graph_op \<Rightarrow> graph_state res" where
  "apply_valid_operation A st p op =
     rbind (apply_patch A (p\<lparr>p_ops := [op]\<rparr>) [] st) (\<lambda>r.
     Inr ((fst r)\<lparr>gs_revision := gs_revision st\<rparr>))"

definition apply_transition_generated_operation ::
  "adapters \<Rightarrow> graph_state \<Rightarrow> patch \<Rightarrow> graph_op \<Rightarrow> graph_state res" where
  "apply_transition_generated_operation A st p op =
     rbind (apply_patch A (p\<lparr>p_ops := [op]\<rparr>) [0] st) (\<lambda>r.
     Inr ((fst r)\<lparr>gs_revision := gs_revision st\<rparr>))"

section \<open>Proposal bookkeeping\<close>

definition prepared_proposal :: "graph_state \<Rightarrow> patch \<Rightarrow> proposal \<Rightarrow> proposal" where
  "prepared_proposal st p q =
    (case proposal_dependencies st (pr_ops q) of (ns, es, ks) \<Rightarrow>
     q\<lparr>pr_related_node_ids := ns, pr_related_edge_ids := es, pr_related_config_keys := ks,
       pr_base_rev := gs_revision st, pr_status := Pending,
       pr_created_by := patch_author_side p,
       pr_created_by_operation_id := p_source_operation_id p, pr_raised_rev := 0,
       pr_resolved_rev := None, pr_resolved_by := None, pr_resolved_by_operation_id := None,
       pr_resolution_reason := None, pr_rejection_reason := None,
       pr_fields_set := add_fields [''related_node_ids'', ''related_edge_ids'',
         ''related_config_keys'', ''base_rev'', ''status'', ''created_by'',
         ''created_by_operation_id'', ''raised_rev'', ''resolved_rev'', ''resolved_by'',
         ''resolved_by_operation_id'', ''resolution_reason'', ''rejection_reason'']
         (pr_fields_set q)\<rparr>)"

definition map_proposals :: "(proposal \<Rightarrow> proposal) \<Rightarrow> graph_op \<Rightarrow> graph_op" where
  "map_proposals f op = (case op of CreateProposals qs \<Rightarrow> CreateProposals (map f qs) | _ \<Rightarrow> op)"

definition prepare_patch_bookkeeping :: "graph_state \<Rightarrow> patch \<Rightarrow> patch" where
  "prepare_patch_bookkeeping st p =
     p\<lparr>p_ops := map (map_proposals (prepared_proposal st p)) (p_ops p)\<rparr>"

definition finalized_proposal :: "graph_state \<Rightarrow> proposal \<Rightarrow> proposal" where
  "finalized_proposal staged_state q = (case dget (gs_proposals staged_state) (pr_id q) of
       None \<Rightarrow> q
     | Some s \<Rightarrow> q\<lparr>pr_related_node_ids := pr_related_node_ids s,
         pr_related_edge_ids := pr_related_edge_ids s,
         pr_related_config_keys := pr_related_config_keys s,
         pr_fields_set := add_fields [''related_node_ids'', ''related_edge_ids'',
           ''related_config_keys''] (pr_fields_set q)\<rparr>)"

definition finalize_patch_bookkeeping :: "patch \<Rightarrow> graph_state \<Rightarrow> patch" where
  "finalize_patch_bookkeeping p staged_state =
     p\<lparr>p_ops := map (map_proposals (finalized_proposal staged_state)) (p_ops p)\<rparr>"

end
