(* ===== verification/Application.thy ===== *)
theory Application
  imports Materialize
begin

text \<open>
  What applying a patch guarantees. The locale \<open>item_relation\<close> is the induction principle of
  the apply loop: a reflexive, transitive relation between graph states that every item of
  every operation respects holds between the graph before and after the patch. Its
  instances are the coherence invariant of the graph dictionaries, the revision stamps of
  nodes and the append-only belief history.
\<close>

section \<open>Definitions\<close>

definition graph_coherent :: "graph_state \<Rightarrow> bool" where
  "graph_coherent st \<longleftrightarrow> keyed n_id (gs_nodes st) \<and> keyed e_id (gs_edges st)
     \<and> keyed pr_id (gs_proposals st) \<and> keyed am_id (gs_ambiguities st)
     \<and> keyed gt_term (gs_glossary st)"

definition stamped :: "int \<Rightarrow> graph_state \<Rightarrow> graph_state \<Rightarrow> bool" where
  "stamped rv st st' \<longleftrightarrow> (\<forall>i n'. dget (gs_nodes st') i = Some n' \<longrightarrow>
     dget (gs_nodes st) i = Some n' \<or>
     n_updated_rev n' = rv \<and> (n_created_rev n' = rv \<or>
       (\<exists>n. dget (gs_nodes st) i = Some n \<and> n_created_rev n' = n_created_rev n)))"

definition belief_extends :: "int \<Rightarrow> graph_state \<Rightarrow> graph_state \<Rightarrow> bool" where
  "belief_extends rv st st' \<longleftrightarrow>
     (\<exists>new. gs_belief_transitions st' = gs_belief_transitions st @ new
        \<and> (\<forall>b \<in> set new. bt_revision b = rv \<and> bt_from_status b \<noteq> bt_to_status b))"

section \<open>The induction principle of the apply loop\<close>

locale state_relation =
  fixes R :: "graph_state \<Rightarrow> graph_state \<Rightarrow> bool"
  assumes refl: "R st st"
    and trans: "R s t \<Longrightarrow> R t u \<Longrightarrow> R s u"
begin

lemma rfold_rel:
  assumes "rfold f xs s = Inr t"
    and "\<And>x s s'. x \<in> set xs \<Longrightarrow> f x s = Inr s' \<Longrightarrow> R s s'"
  shows "R s t"
  using rfold_invariant [OF assms(1), of "R s"] assms(2) refl trans by blast

lemma each_rel:
  assumes "each f xs a = Inr a'" and "\<And>x s s'. x \<in> set xs \<Longrightarrow> f x s = Inr s' \<Longrightarrow> R s s'"
  shows "R (ap_state a) (ap_state a')"
  using assms rfold_rel by (fastforce simp: each_def rbind_eq_Inr)

lemma fold_rel:
  assumes "\<And>x s. x \<in> set xs \<Longrightarrow> R s (f x s)"
  shows "R s (fold f xs s)"
  using assms by (induction xs arbitrary: s) (auto intro: refl trans)

lemma applying_rel:
  assumes "rfold f xs a = Inr b"
    and "\<And>x a a'. x \<in> set xs \<Longrightarrow> f x a = Inr a' \<Longrightarrow> R (ap_state a) (ap_state a')"
  shows "R (ap_state a) (ap_state b)"
  using rfold_invariant [OF assms(1), of "\<lambda>c. R (ap_state a) (ap_state c)"] assms(2) refl trans
  by blast

end

locale op_relation = state_relation R for R +
  fixes A :: adapters and p :: patch
  assumes create_node: "CreateNodes ns \<in> set (p_ops p) \<Longrightarrow> c \<in> set ns \<Longrightarrow>
      apply_create_node A p c s = Inr s' \<Longrightarrow> R s s'"
    and update_node: "UpdateNodes us \<in> set (p_ops p) \<Longrightarrow> u \<in> set us \<Longrightarrow>
      apply_update_node A p g u s = Inr s' \<Longrightarrow> R s s'"
    and create_edge: "CreateEdges es \<in> set (p_ops p) \<Longrightarrow> e \<in> set es \<Longrightarrow>
      apply_create_edge p e a = Inr a' \<Longrightarrow> R (ap_state a) (ap_state a')"
    and remove_edges: "RemoveEdges ids \<in> set (p_ops p) \<Longrightarrow>
      R s (s\<lparr>gs_edges := foldl (\<lambda>d i. ddel i d) (gs_edges s) ids\<rparr>)"
    and remove_nodes: "RemoveNodes ids \<in> set (p_ops p) \<Longrightarrow> R s (apply_remove_nodes ids s)"
    and supersede_node: "SupersedeNodes ss \<in> set (p_ops p) \<Longrightarrow> x \<in> set ss \<Longrightarrow>
      apply_supersede_node A p x s = Inr s' \<Longrightarrow> R s s'"
    and merge_node: "MergeNodes ms \<in> set (p_ops p) \<Longrightarrow> m \<in> set ms \<Longrightarrow>
      apply_merge_node A p m s = Inr s' \<Longrightarrow> R s s'"
    and create_ambiguity: "CreateAmbiguities as \<in> set (p_ops p) \<Longrightarrow> b \<in> set as \<Longrightarrow>
      R s (apply_create_ambiguity p b s)"
    and resolve_ambiguity: "ResolveAmbiguities rs \<in> set (p_ops p) \<Longrightarrow> r \<in> set rs \<Longrightarrow>
      apply_resolve_ambiguity r s = Inr s' \<Longrightarrow> R s s'"
    and create_proposal: "CreateProposals qs \<in> set (p_ops p) \<Longrightarrow> q \<in> set qs \<Longrightarrow>
      R s (apply_create_proposal p q s)"
    and resolve_proposal: "ResolveProposals prs \<in> set (p_ops p) \<Longrightarrow> pr \<in> set prs \<Longrightarrow>
      apply_resolve_proposal p pr s = Inr s' \<Longrightarrow> R s s'"
    and withdraw_proposal: "WithdrawProposals ws \<in> set (p_ops p) \<Longrightarrow> w \<in> set ws \<Longrightarrow>
      apply_withdraw_proposal p w s = Inr s' \<Longrightarrow> R s s'"
    and upsert_term: "UpsertGlossary ts \<in> set (p_ops p) \<Longrightarrow> t \<in> set ts \<Longrightarrow>
      R s (apply_upsert_term p t s)"
    and coverage: "SetCoverage cu \<in> set (p_ops p) \<Longrightarrow> R s (apply_coverage cu s)"
    and set_standing: "SetStanding i sd \<in> set (p_ops p) \<Longrightarrow>
      apply_standing p i sd s = Inr s' \<Longrightarrow> R s s'"
    and truth_scope: "SetProjectTruthScope sc d \<in> set (p_ops p) \<Longrightarrow> R s (apply_truth_scope p sc s)"
    and ontology: "SetOntology ont \<in> set (p_ops p) \<Longrightarrow> R s (apply_ontology p ont s)"
begin

lemma apply_op_rel:
  assumes "op \<in> set (p_ops p)" and "apply_op A p g op a = Inr a'"
  shows "R (ap_state a) (ap_state a')"
proof (cases op)
  case (CreateNodes ns)
  then show ?thesis using assms each_rel create_node by (metis apply_op.simps(1))
next
  case (UpdateNodes us)
  then show ?thesis using assms each_rel update_node by (metis apply_op.simps(2))
next
  case (CreateEdges es)
  then show ?thesis using assms applying_rel create_edge by (metis apply_op.simps(3))
next
  case (SupersedeNodes ns)
  then show ?thesis using assms each_rel supersede_node by (metis apply_op.simps(6))
next
  case (MergeNodes ms)
  then show ?thesis using assms each_rel merge_node by (metis apply_op.simps(7))
next
  case (CreateAmbiguities as)
  then show ?thesis using assms fold_rel [of as "apply_create_ambiguity p"] create_ambiguity
    by (auto simp: on_state_def)
next
  case (ResolveAmbiguities rs)
  then show ?thesis using assms each_rel resolve_ambiguity by (metis apply_op.simps(9))
next
  case (CreateProposals qs)
  then show ?thesis using assms fold_rel [of qs "apply_create_proposal p"] create_proposal
    by (auto simp: on_state_def)
next
  case (ResolveProposals rs)
  then show ?thesis using assms each_rel resolve_proposal by (metis apply_op.simps(11))
next
  case (WithdrawProposals ws)
  then show ?thesis using assms each_rel withdraw_proposal by (metis apply_op.simps(12))
next
  case (UpsertGlossary ts)
  then show ?thesis using assms fold_rel [of ts "apply_upsert_term p"] upsert_term
    by (auto simp: on_state_def)
next
  case (SetStanding i s)
  then show ?thesis using assms set_standing by (fastforce simp: each_def rbind_eq_Inr)
qed (use assms remove_edges remove_nodes coverage truth_scope ontology in \<open>auto simp: on_state_def\<close>)

lemma apply_ops_rel:
  assumes "apply_ops A p gen iops a = Inr b" and "set (map snd iops) \<subseteq> set (p_ops p)"
  shows "R (ap_state a) (ap_state b)"
  using assms(2) apply_op_rel
  by (intro applying_rel [OF assms(1) [unfolded apply_ops_def]]) auto

end

text \<open>The whole patch also narrows edge layers once more and stamps the revision.\<close>

locale item_relation = op_relation R A p for R A p +
  assumes renarrow: "R s (renarrow_edge i s)"
    and stamp: "R s (s\<lparr>gs_revision := max (gs_revision s) (p_revision p), gs_last_refresh_at := lr\<rparr>)"
begin

lemma finish_rel: "R (ap_state a) (ap_state (finish_apply p a))"
proof -
  let ?s = "fold renarrow_edge (fromkeys (ap_created_edges a)) (ap_state a)"
  let ?lr = "if p_kind p \<in> {Seed, Refresh} then Some (p_created_at p) else gs_last_refresh_at ?s"
  have "R (ap_state a) ?s" by (rule fold_rel) (rule renarrow)
  moreover have "ap_state (finish_apply p a)
      = ?s\<lparr>gs_revision := max (gs_revision ?s) (p_revision p), gs_last_refresh_at := ?lr\<rparr>"
    by (simp add: finish_apply_def on_state_def)
  ultimately show ?thesis using stamp [of ?s ?lr] trans by metis
qed

theorem apply_patch_rel: "apply_patch A p extra st = Inr (st', ds) \<Longrightarrow> R st st'"
  using apply_ops_rel [of "generated_operation_indexes p extra" "List.enumerate 0 (p_ops p)"
      "begin_apply st"] finish_rel trans
  by (fastforce simp: apply_patch_def rbind_eq_Inr Let_def begin_apply_def)

end

section \<open>Coherent dictionaries\<close>

lemma coherent_node_id: "graph_coherent st \<Longrightarrow> dget (gs_nodes st) i = Some n \<Longrightarrow> n_id n = i"
  by (auto simp: graph_coherent_def dest: keyed_dget)

lemma coherent_put_node: "graph_coherent st \<Longrightarrow> n_id n = i \<Longrightarrow> graph_coherent (put_node i n st)"
  by (simp add: graph_coherent_def put_node_def keyed_dset)

lemma coherent_put_edge: "graph_coherent st \<Longrightarrow> e_id e = i \<Longrightarrow> graph_coherent (put_edge i e st)"
  by (simp add: graph_coherent_def put_edge_def keyed_dset)

lemma coherent_put_proposal: "graph_coherent st \<Longrightarrow> graph_coherent (put_proposal q st)"
  by (simp add: graph_coherent_def put_proposal_def keyed_dset)

lemma record_belief_frame [simp]:
  "gs_nodes (record_belief_transition n n' rv c st) = gs_nodes st"
  "gs_edges (record_belief_transition n n' rv c st) = gs_edges st"
  "gs_proposals (record_belief_transition n n' rv c st) = gs_proposals st"
  "gs_ambiguities (record_belief_transition n n' rv c st) = gs_ambiguities st"
  "gs_glossary (record_belief_transition n n' rv c st) = gs_glossary st"
  by (simp_all add: record_belief_transition_def split: node_body.splits option.splits)

lemma coherent_record_belief:
  "graph_coherent (record_belief_transition n n' rv c st) = graph_coherent st"
  by (simp add: graph_coherent_def)

lemma narrow_layer_id [simp]: "e_id (narrow_layer st e) = e_id e"
  by (simp add: narrow_layer_def)

lemma edge_model_validate_id: "edge_model_validate i e l rv = Inr x \<Longrightarrow> i = Some (e_id x)"
  by (auto simp: edge_model_validate_def split: option.splits)

lemma dget_updated_document:
  assumes "k \<notin> set (map fst changes)" and "k \<noteq> ''standing''" and "k \<noteq> ''updated_rev''"
  shows "dget (updated_document p n changes) k = dget (model_dump n) k"
proof -
  have "dget (rev changes) k = None" using assms(1) by (simp add: map_of_eq_None_iff)
  then show ?thesis using assms(2,3) by (simp add: updated_document_def dget_dupdate)
qed

lemma immutable_always:
  "k \<in> {''id'', ''type'', ''extension_type'', ''standing'', ''created_rev'', ''updated_rev''} \<Longrightarrow>
   k \<in> set (immutable_fields_for p g)"
  unfolding immutable_fields_for_def set_filter
  by (auto simp: IMMUTABLE_NODE_UPDATE_FIELDS_def LEGACY_COMPATIBILITY_UPDATE_FIELDS_def)

lemma model_dump_base:
  "dget (model_dump n) ''id'' = Some (VStr (n_id n))"
  "dget (model_dump n) ''created_rev'' = Some (VInt (n_created_rev n))"
  "dget (model_dump n) ''extension_type'' = Some (vopt (n_extension_type n))"
  by (simp_all add: model_dump_def node_fields_def)

lemma model_dump_type: "dget (model_dump n) ''type'' = Some (VStr (n_type n))"
  by (cases "n_body n") (simp_all add: model_dump_def node_fields_def body_fields_def body_type_def)

context validators
begin

lemma update_validator_adapter: "node_adapter (update_validator A p)"
  by (simp add: update_validator_def lax.node_adapter_axioms strict.node_adapter_axioms)

text \<open>An applied update keeps id, class and creation revision and stamps the update revision.\<close>

lemma apply_update_node_result:
  assumes "apply_update_node A p g u st = Inr st'"
  obtains n n' where "dget (gs_nodes st) (nu_id u) = Some n"
    and "st' = put_node (n_id n) n'
           (record_belief_transition n n' (p_revision p) (nu_cause u) st)"
    and "update_validator A p (updated_document p n (nu_changes u)) = Inr n'"
    and "n_id n' = n_id n" and "n_type n' = n_type n" and "n_created_rev n' = n_created_rev n"
    and "n_updated_rev n' = p_revision p"
proof -
  note va = update_validator_adapter [of p]
  from assms obtain n n' where n: "dget (gs_nodes st) (nu_id u) = Some n"
    and im: "\<not> (\<exists>k \<in> set (map fst (nu_changes u)). k \<in> set (immutable_fields_for p g))"
    and n': "update_validator A p (updated_document p n (nu_changes u)) = Inr n'"
    and st': "st' = put_node (n_id n) n'
           (record_belief_transition n n' (p_revision p) (nu_cause u) st)"
    by (auto simp: apply_update_node_def rbind_eq_Inr simp del: set_map split: if_splits)
  have keep: "dget (updated_document p n (nu_changes u)) k = dget (model_dump n) k"
    if "k \<in> {''id'', ''type'', ''created_rev''}" for k
    using that im immutable_always [of k p g] by (intro dget_updated_document) auto
  have "dget (updated_document p n (nu_changes u)) ''updated_rev'' = Some (VInt (p_revision p))"
    by (simp add: updated_document_def)
  then show thesis
    using that [OF n st' n'] keep node_adapter.keeps_id [OF va n'] node_adapter.keeps_type [OF va n']
      node_adapter.created [OF va n'] node_adapter.updated [OF va n']
    by (simp add: model_dump_base model_dump_type)
qed

lemma apply_create_node_result:
  assumes "apply_create_node A p c st = Inr st'"
  obtains n where "st' = put_node (n_id n) n st"
    and "n_created_rev n = p_revision p" and "n_updated_rev n = p_revision p"
    and "ad_node A (created_document (p_revision p) c) = Inr n"
  using assms lax.created lax.updated
  by (fastforce simp: apply_create_node_def rbind_eq_Inr created_document_def Let_def)

lemma set_node_status_result:
  assumes "set_node_status A i status rv ps st = Inr (n', st')"
  obtains n where "dget (gs_nodes st) i = Some n" and "st' = put_node i n' st"
    and "n_id n' = n_id n" and "n_type n' = n_type n" and "n_created_rev n' = n_created_rev n"
    and "n_updated_rev n' = rv" and "node_status n' = Some status"
proof -
  from assms obtain n where n: "dget (gs_nodes st) i = Some n" and st': "st' = put_node i n' st"
    and v: "ad_node A (dset ''standing''
              (VStr (if ps then standing_name (n_standing n) else ''asserted''))
              (dset ''updated_rev'' (VInt rv) (dset ''status'' (VStr status) (model_dump n)))) = Inr n'"
    by (auto simp: set_node_status_def rbind_eq_Inr)
  show thesis
    by (rule that [OF n st'])
       (use lax.keeps_id [OF v] lax.keeps_type [OF v] lax.created [OF v] lax.updated [OF v]
         lax.keeps_status [OF v] in \<open>simp_all add: model_dump_base model_dump_type\<close>)
qed

text \<open>Superseding and merging share their effect: a status change, its record, at most one edge.\<close>

lemma apply_supersede_node_result:
  assumes "apply_supersede_node A p s st = Inr st'"
  obtains n n' st2 where "dget (gs_nodes st) (sn_id s) = Some n"
    and "st2 = record_belief_transition n n' (p_revision p) (sn_cause s) (put_node (sn_id s) n' st)"
    and "st' = st2 \<or> (\<exists>e. st' = put_edge (e_id e) e st2)"
    and "n_id n' = n_id n" and "n_type n' = n_type n" and "n_created_rev n' = n_created_rev n"
    and "n_updated_rev n' = p_revision p" and "node_status n' = Some ''superseded''"
proof -
  from assms obtain n n' st1 where n: "dget (gs_nodes st) (sn_id s) = Some n"
    and s1: "set_node_status A (sn_id s) ''superseded'' (p_revision p) (p_kind p = Approval) st = Inr (n', st1)"
    and st': "st' = record_belief_transition n n' (p_revision p) (sn_cause s) st1
      \<or> (\<exists>e. st' = put_edge (e_id e) e (record_belief_transition n n' (p_revision p) (sn_cause s) st1))"
    by (cases "sn_superseded_by s")
       (auto simp: apply_supersede_node_def rbind_eq_Inr Let_def split: if_splits)
  show thesis
    by (rule set_node_status_result [OF s1]) (rule that [OF n HOL.refl], use n st' in simp_all)
qed

lemma apply_merge_node_result:
  assumes "apply_merge_node A p m st = Inr st'"
  obtains n n' st2 where "dget (gs_nodes st) (nm_duplicate m) = Some n"
    and "st2 = record_belief_transition n n' (p_revision p) (nm_cause m) (put_node (nm_duplicate m) n' st)"
    and "\<exists>e. st' = put_edge (e_id e) e st2"
    and "n_id n' = n_id n" and "n_type n' = n_type n" and "n_created_rev n' = n_created_rev n"
    and "n_updated_rev n' = p_revision p" and "node_status n' = Some ''superseded''"
proof -
  from assms obtain n n' st1 where n: "dget (gs_nodes st) (nm_duplicate m) = Some n"
    and s1: "set_node_status A (nm_duplicate m) ''superseded'' (p_revision p) (p_kind p = Approval) st = Inr (n', st1)"
    and st': "\<exists>e. st' = put_edge (e_id e) e (record_belief_transition n n' (p_revision p) (nm_cause m) st1)"
    by (auto simp: apply_merge_node_def rbind_eq_Inr Let_def)
  show thesis
    by (rule set_node_status_result [OF s1]) (rule that [OF n HOL.refl], use n st' in simp_all)
qed

end

section \<open>Coherence is an invariant\<close>

lemma coherent_create_edge:
  "apply_create_edge p e a = Inr a' \<Longrightarrow> graph_coherent (ap_state a) \<Longrightarrow> graph_coherent (ap_state a')"
  by (auto simp: apply_create_edge_def Let_def rbind_eq_Inr intro!: coherent_put_edge)

lemma coherent_renarrow: "graph_coherent st \<Longrightarrow> graph_coherent (renarrow_edge i st)"
  by (auto simp: renarrow_edge_def graph_coherent_def split: option.splits
      intro!: coherent_put_edge [unfolded graph_coherent_def] dest: keyed_dget)

context validators
begin

lemma coherent_update:
  assumes "apply_update_node A p g u st = Inr st'" and "graph_coherent st"
  shows "graph_coherent st'"
  using assms(2) by (rule_tac apply_update_node_result [OF assms(1)])
    (simp add: coherent_put_node coherent_record_belief)

lemma coherent_supersede:
  assumes "apply_supersede_node A p s st = Inr st'" and "graph_coherent st"
  shows "graph_coherent st'"
  using assms(2) by (rule_tac apply_supersede_node_result [OF assms(1)])
    (auto simp: coherent_record_belief coherent_node_id intro!: coherent_put_edge coherent_put_node)

lemma coherent_merge:
  assumes "apply_merge_node A p m st = Inr st'" and "graph_coherent st"
  shows "graph_coherent st'"
  using assms(2) by (rule_tac apply_merge_node_result [OF assms(1)])
    (auto simp: coherent_record_belief coherent_node_id intro!: coherent_put_edge coherent_put_node)

end

lemma coherent_remove_edges:
  "graph_coherent s \<Longrightarrow> graph_coherent (s\<lparr>gs_edges := foldl (\<lambda>d i. ddel i d) (gs_edges s) ids\<rparr>)"
  by (simp add: graph_coherent_def keyed_ddel_all)

lemma coherent_remove_nodes: "graph_coherent s \<Longrightarrow> graph_coherent (apply_remove_nodes ids s)"
  by (simp add: graph_coherent_def apply_remove_nodes_def keyed_filter)

lemma coherent_resolve_ambiguity:
  "apply_resolve_ambiguity r s = Inr s' \<Longrightarrow> graph_coherent s \<Longrightarrow> graph_coherent s'"
  by (auto simp: apply_resolve_ambiguity_def rbind_eq_Inr graph_coherent_def intro!: keyed_dset)

lemma coherent_standing:
  "apply_standing p i sd s = Inr s' \<Longrightarrow> graph_coherent s \<Longrightarrow> graph_coherent s'"
  by (auto simp: apply_standing_def rbind_eq_Inr intro!: coherent_put_node)

lemma coherent_create_proposal: "graph_coherent s \<Longrightarrow> graph_coherent (apply_create_proposal p q s)"
  unfolding apply_create_proposal_def by (simp add: coherent_put_proposal split: prod.splits)

lemma coherent_resolve_proposal:
  "apply_resolve_proposal p r s = Inr s' \<Longrightarrow> graph_coherent s \<Longrightarrow> graph_coherent s'"
  by (auto simp: apply_resolve_proposal_def rbind_eq_Inr coherent_put_proposal)

lemma coherent_withdraw_proposal:
  "apply_withdraw_proposal p w s = Inr s' \<Longrightarrow> graph_coherent s \<Longrightarrow> graph_coherent s'"
  by (auto simp: apply_withdraw_proposal_def rbind_eq_Inr coherent_put_proposal)

lemma coherent_total:
  "graph_coherent s \<Longrightarrow> graph_coherent (apply_create_ambiguity p b s)"
  "graph_coherent s \<Longrightarrow> graph_coherent (apply_upsert_term p t s)"
  "graph_coherent s \<Longrightarrow> graph_coherent (apply_coverage cu s)"
  "graph_coherent s \<Longrightarrow> graph_coherent (apply_truth_scope p sc s)"
  "graph_coherent s \<Longrightarrow> graph_coherent (apply_ontology p ont s)"
  "graph_coherent s \<Longrightarrow> graph_coherent (s\<lparr>gs_revision := r, gs_last_refresh_at := lr\<rparr>)"
  by (simp_all add: graph_coherent_def apply_create_ambiguity_def apply_upsert_term_def
      apply_coverage_def apply_truth_scope_def apply_ontology_def Let_def keyed_dset)

lemmas coherent_steps = coherent_total coherent_remove_edges coherent_remove_nodes
  coherent_create_proposal coherent_renarrow coherent_create_edge coherent_resolve_ambiguity
  coherent_standing coherent_resolve_proposal coherent_withdraw_proposal

context validators
begin

lemma coherent_create:
  assumes "apply_create_node A p c s = Inr s'" and "graph_coherent s"
  shows "graph_coherent s'"
  using assms(2) by (rule_tac apply_create_node_result [OF assms(1)]) (simp add: coherent_put_node)

lemmas coherent_items = coherent_create coherent_update coherent_supersede coherent_merge coherent_steps

end

sublocale validators \<subseteq> coherence: item_relation "\<lambda>s t. graph_coherent s \<longrightarrow> graph_coherent t" A p for p
  by unfold_locales (auto intro: coherent_items)

section \<open>Revision stamps and belief history\<close>

text \<open>Operations that leave the nodes, or the belief history, alone.\<close>

lemma node_frame [simp]:
  "gs_nodes (put_edge i e s) = gs_nodes s"
  "gs_nodes (put_proposal q s) = gs_nodes s"
  "gs_nodes (apply_create_ambiguity p b s) = gs_nodes s"
  "gs_nodes (apply_create_proposal p q s) = gs_nodes s"
  "gs_nodes (apply_upsert_term p t s) = gs_nodes s"
  "gs_nodes (apply_coverage cu s) = gs_nodes s"
  "gs_nodes (apply_truth_scope p sc s) = gs_nodes s"
  "gs_nodes (apply_ontology p ont s) = gs_nodes s"
  "gs_nodes (renarrow_edge i s) = gs_nodes s"
  by (simp_all add: put_edge_def put_proposal_def apply_create_ambiguity_def
      apply_create_proposal_def apply_upsert_term_def apply_coverage_def apply_truth_scope_def
      apply_ontology_def renarrow_edge_def Let_def split: option.splits prod.splits)

lemma belief_frame [simp]:
  "gs_belief_transitions (put_node i n s) = gs_belief_transitions s"
  "gs_belief_transitions (put_edge i e s) = gs_belief_transitions s"
  "gs_belief_transitions (put_proposal q s) = gs_belief_transitions s"
  "gs_belief_transitions (apply_create_ambiguity p b s) = gs_belief_transitions s"
  "gs_belief_transitions (apply_create_proposal p q s) = gs_belief_transitions s"
  "gs_belief_transitions (apply_upsert_term p t s) = gs_belief_transitions s"
  "gs_belief_transitions (apply_coverage cu s) = gs_belief_transitions s"
  "gs_belief_transitions (apply_truth_scope p sc s) = gs_belief_transitions s"
  "gs_belief_transitions (apply_ontology p ont s) = gs_belief_transitions s"
  "gs_belief_transitions (apply_remove_nodes ids s) = gs_belief_transitions s"
  "gs_belief_transitions (renarrow_edge i s) = gs_belief_transitions s"
  by (simp_all add: put_node_def put_edge_def put_proposal_def apply_create_ambiguity_def
      apply_create_proposal_def apply_upsert_term_def apply_coverage_def apply_truth_scope_def
      apply_ontology_def apply_remove_nodes_def renarrow_edge_def Let_def
      split: option.splits prod.splits)

lemma partial_frame:
  "apply_create_edge p e a = Inr a' \<Longrightarrow> gs_nodes (ap_state a') = gs_nodes (ap_state a)"
  "apply_resolve_ambiguity r s = Inr s' \<Longrightarrow> gs_nodes s' = gs_nodes s"
  "apply_resolve_proposal p pr s = Inr s' \<Longrightarrow> gs_nodes s' = gs_nodes s"
  "apply_withdraw_proposal p w s = Inr s' \<Longrightarrow> gs_nodes s' = gs_nodes s"
  "apply_create_edge p e a = Inr a' \<Longrightarrow>
     gs_belief_transitions (ap_state a') = gs_belief_transitions (ap_state a)"
  "apply_resolve_ambiguity r s = Inr s' \<Longrightarrow> gs_belief_transitions s' = gs_belief_transitions s"
  "apply_resolve_proposal p pr s = Inr s' \<Longrightarrow> gs_belief_transitions s' = gs_belief_transitions s"
  "apply_withdraw_proposal p w s = Inr s' \<Longrightarrow> gs_belief_transitions s' = gs_belief_transitions s"
  "apply_create_node A p c s = Inr s' \<Longrightarrow> gs_belief_transitions s' = gs_belief_transitions s"
  "apply_standing p i sd s = Inr s' \<Longrightarrow> gs_belief_transitions s' = gs_belief_transitions s"
  by (auto simp: apply_create_edge_def apply_resolve_ambiguity_def apply_resolve_proposal_def
      apply_withdraw_proposal_def apply_create_node_def apply_standing_def rbind_eq_Inr Let_def)

lemma dget_filter_keys: "dget (filter (\<lambda>kv. fst kv \<notin> S) d) k = (if k \<in> S then None else dget d k)"
  by (induction d) auto

lemma dget_nodes_put [simp]:
  "dget (gs_nodes (put_node i n s)) k = (if k = i then Some n else dget (gs_nodes s) k)"
  by (simp add: put_node_def)

lemma dget_nodes_removed [simp]:
  "dget (gs_nodes (apply_remove_nodes ids s)) k = (if k \<in> set ids then None else dget (gs_nodes s) k)"
  by (simp add: apply_remove_nodes_def dget_filter_keys)

lemma stamped_same: "gs_nodes s' = gs_nodes s \<Longrightarrow> stamped rv s s'"
  by (simp add: stamped_def)

lemma stamped_trans: "stamped rv s t \<Longrightarrow> stamped rv t u \<Longrightarrow> stamped rv s u"
  unfolding stamped_def by metis

lemma belief_extends_same:
  "gs_belief_transitions s' = gs_belief_transitions s \<Longrightarrow> belief_extends rv s s'"
  by (simp add: belief_extends_def)

lemma belief_extends_trans: "belief_extends rv s t \<Longrightarrow> belief_extends rv t u \<Longrightarrow> belief_extends rv s u"
  by (fastforce simp: belief_extends_def)

lemma belief_extends_record:
  "gs_belief_transitions s' = gs_belief_transitions s \<Longrightarrow>
   belief_extends rv s (record_belief_transition n n' rv c s')"
  by (auto simp: belief_extends_def record_belief_transition_def split: node_body.splits option.splits)

lemma belief_extends_put_edge: "belief_extends rv s t \<Longrightarrow> belief_extends rv s (put_edge i e t)"
  by (simp add: belief_extends_def)

context validators
begin

lemma stamped_update:
  assumes "apply_update_node A p g u st = Inr st'" and "graph_coherent st"
  shows "stamped (p_revision p) st st'"
  using assms(2) by (rule_tac apply_update_node_result [OF assms(1)])
    (auto simp: stamped_def coherent_node_id split: if_splits)

lemma stamped_supersede:
  assumes "apply_supersede_node A p x st = Inr st'" shows "stamped (p_revision p) st st'"
  by (rule apply_supersede_node_result [OF assms]) (auto simp: stamped_def split: if_splits)

lemma stamped_merge:
  assumes "apply_merge_node A p m st = Inr st'" shows "stamped (p_revision p) st st'"
  by (rule apply_merge_node_result [OF assms]) (auto simp: stamped_def split: if_splits)

lemma stamped_create:
  assumes "apply_create_node A p c st = Inr st'" shows "stamped (p_revision p) st st'"
  by (rule apply_create_node_result [OF assms]) (auto simp: stamped_def split: if_splits)

lemma belief_update:
  assumes "apply_update_node A p g u st = Inr st'" shows "belief_extends (p_revision p) st st'"
  using belief_extends_record [of st st]
  by (rule_tac apply_update_node_result [OF assms]) (simp add: belief_extends_def)

lemma belief_supersede:
  assumes "apply_supersede_node A p x st = Inr st'" shows "belief_extends (p_revision p) st st'"
  by (rule apply_supersede_node_result [OF assms])
     (auto intro!: belief_extends_put_edge belief_extends_record)

lemma belief_merge:
  assumes "apply_merge_node A p m st = Inr st'" shows "belief_extends (p_revision p) st st'"
  by (rule apply_merge_node_result [OF assms])
     (auto intro!: belief_extends_put_edge belief_extends_record)

end

lemma stamped_standing:
  "apply_standing p i sd s = Inr s' \<Longrightarrow> graph_coherent s \<Longrightarrow> stamped (p_revision p) s s'"
  by (auto simp: apply_standing_def rbind_eq_Inr stamped_def coherent_node_id split: if_splits)

sublocale validators \<subseteq> stamps: item_relation
  "\<lambda>s t. graph_coherent s \<longrightarrow> graph_coherent t \<and> stamped (p_revision p) s t" A p for p
proof (unfold_locales, goal_cases)
  case (2 s t u)
  then show ?case using stamped_trans by blast
next
  case (7 ids s)
  then show ?case by (auto simp: stamped_def coherent_items)
qed (auto simp: stamped_same partial_frame stamped_update stamped_supersede stamped_merge stamped_create
    stamped_standing intro: coherent_items)

sublocale validators \<subseteq> beliefs: item_relation "belief_extends (p_revision p)" A p for p
  by unfold_locales
    (auto simp: belief_extends_same partial_frame belief_update belief_supersede belief_merge intro: belief_extends_trans)

context validators
begin

lemma coherent_apply:
  "apply_patch A p extra st = Inr (st', ds) \<Longrightarrow> graph_coherent st \<Longrightarrow> graph_coherent st'"
  using coherence.apply_patch_rel by blast

lemma stamped_apply:
  "apply_patch A p extra st = Inr (st', ds) \<Longrightarrow> graph_coherent st \<Longrightarrow> stamped (p_revision p) st st'"
  using stamps.apply_patch_rel by blast

lemmas belief_apply = beliefs.apply_patch_rel

end

end
