(* ===== verification/NodeRules.thy ===== *)
theory NodeRules
  imports Application
begin

text \<open>
  \<open>core/validation/nodes.py\<close>: the rules for new and updated nodes and for the source
  references they cite. A rule returns the messages it reports, in order, or the exception
  it raises; rules that look at source references also return the oldest timestamp seen.
\<close>

section \<open>Definitions\<close>

definition NODE_PREFIXES :: "string dict" where
  "NODE_PREFIXES = [(''research_question'', ''rq''), (''hypothesis'', ''hyp''), (''decision'', ''dec''),
     (''experiment'', ''exp''), (''evidence'', ''ev''), (''blocker'', ''blk'')]"

text \<open>
  \<open>SLUG_RE\<close>: a prefix of \<open>_\<close>-separated and a suffix of \<open>-\<close>-separated non-empty runs of
  lower-case letters and digits, the prefix starting with a letter.
\<close>

definition slug_fullmatch :: "string \<Rightarrow> bool" where
  "slug_fullmatch s = (case split_on CHR ''/'' s of
       [a, b] \<Rightarrow> name_pattern a \<and> list_all slug_run (split_on CHR ''-'' b)
     | _ \<Rightarrow> False)"

definition get_text :: "doc \<Rightarrow> string \<Rightarrow> string \<Rightarrow> string" where
  "get_text d k dflt = (case dget d k of Some (VStr s) \<Rightarrow> s | _ \<Rightarrow> dflt)"

definition get_value :: "doc \<Rightarrow> string \<Rightarrow> pyval \<Rightarrow> pyval" where
  "get_value d k dflt = (case dget d k of Some v \<Rightarrow> v | None \<Rightarrow> dflt)"

text \<open>\<open>try: ... except ValidationError: report.reject(...)\<close>; other exceptions propagate.\<close>

definition reject_invalid :: "'a res \<Rightarrow> validation_message \<Rightarrow> report res" where
  "reject_invalid r msg = (case r of Inr _ \<Rightarrow> Inr []
     | Inl e \<Rightarrow> if e = ValidationError then Inr [msg] else Inl e)"

text \<open>\<open>extension_type or NODE_PREFIXES.get(type)\<close>.\<close>

definition expected_prefix :: "doc \<Rightarrow> string option" where
  "expected_prefix raw = (case dget raw ''extension_type'' of
       Some (VStr e) \<Rightarrow> if e = [] then dget NODE_PREFIXES (get_text raw ''type'' []) else Some e
     | _ \<Rightarrow> dget NODE_PREFIXES (get_text raw ''type'' []))"

definition validate_new_node :: "adapters \<Rightarrow> graph_state \<Rightarrow> patch \<Rightarrow> doc \<Rightarrow> report res" where
  "validate_new_node A st p raw =
    (let rv = rev_or_none (p_revision p); node_id = get_text raw ''id'' [] in
     rbind (reject_invalid (ad_node A raw) (report_reject ''invalid-node'' rv [] [])) (\<lambda>inv.
     Inr (reject_if (dhas node_id (gs_nodes st)) ''duplicate-node-id'' rv []
       @ reject_if (\<not> slug_fullmatch node_id) ''malformed-slug'' rv []
       @ reject_if (case expected_prefix raw of None \<Rightarrow> False
           | Some e \<Rightarrow> \<not> starts_with node_id (e @ ''/'')) ''wrong-slug-prefix'' rv []
       @ reject_if (get_value raw ''standing'' (VStr ''asserted'') \<noteq> VStr ''asserted'' \<and> p_kind p \<noteq> Approval)
           ''agent-created-trusted-node'' rv []
       @ inv
       @ validate_new_node_extensions st node_id raw rv False False)))"

text \<open>\<open>" ".join(s.split())\<close>.\<close>

fun words :: "string \<Rightarrow> string \<Rightarrow> string list" where
  "words acc [] = (if acc = [] then [] else [acc])"
| "words acc (c # cs) =
     (if is_space c then (if acc = [] then words [] cs else acc # words [] cs)
      else words (acc @ [c]) cs)"

fun join_words :: "string list \<Rightarrow> string" where
  "join_words [] = []"
| "join_words [w] = w"
| "join_words (w # ws) = w @ '' '' @ join_words ws"

definition normalize_grounding_text :: "adapters \<Rightarrow> string \<Rightarrow> string" where
  "normalize_grounding_text A s = join_words (words [] (ad_normalize A s))"

fun is_infix :: "string \<Rightarrow> string \<Rightarrow> bool" where
  "is_infix x [] = (x = [])"
| "is_infix x (c # cs) = (starts_with (c # cs) x \<or> is_infix x cs)"

definition source_excerpts :: "adapters \<Rightarrow> pyval list \<Rightarrow> string list" where
  "source_excerpts A refs = concat (map (\<lambda>r. case r of
       VDict d \<Rightarrow> [normalize_grounding_text A (ad_str A (get_value d ''excerpt'' (VStr [])))]
     | _ \<Rightarrow> []) refs)"

definition validate_grounded_scope :: "adapters \<Rightarrow> doc \<Rightarrow> int option \<Rightarrow> report res" where
  "validate_grounded_scope A raw rv =
    (let scope = normalize_grounding_text A (ad_str A (get_value raw ''scope'' (VStr []))) in
     rbind (py_iter (get_value raw ''source_refs'' (VList []))) (\<lambda>refs.
     Inr (reject_if (scope \<noteq> [] \<and> \<not> list_ex (is_infix scope) (source_excerpts A refs))
       ''ungrounded-hypothesis-scope'' rv [get_text raw ''id'' []])))"

text \<open>The threshold is the floating point number the source writes as 0.78.\<close>

definition duplicate_threshold :: rat where
  "duplicate_threshold = 3512807709348987 / 4503599627370496"

fun duplicate_flag ::
  "adapters \<Rightarrow> string \<Rightarrow> string \<Rightarrow> int option \<Rightarrow> string list \<Rightarrow> report res" where
  "duplicate_flag A prefix suffix rv [] = Inr []"
| "duplicate_flag A prefix suffix rv (k # ks) = (case split1 CHR ''/'' k of
       [a, b] \<Rightarrow>
         if prefix = a \<and> duplicate_threshold \<le> ad_ratio A suffix b
         then Inr [report_flag ''possible-duplicate'' rv [] []]
         else duplicate_flag A prefix suffix rv ks
     | _ \<Rightarrow> Inl ValueError)"

definition new_decision_check :: "patch \<Rightarrow> doc \<Rightarrow> int option \<Rightarrow> string \<Rightarrow> report" where
  "new_decision_check p raw rv node_id =
    (let status = get_value raw ''status'' (VStr ''open'') in
     if status = VStr ''revisit'' then [report_reject ''incoherent-decision-creation'' rv [node_id] []]
     else reject_if
       (get_value raw ''selected_option'' VNone \<noteq> VNone \<or> status = VStr ''decided''
        \<or> status \<notin> {VStr ''open'', VStr ''ready''} \<or> \<not> permits p QUEUE_DECISION)
       ''agent-created-decision-action'' rv [node_id])"

definition validate_new_node_authoring ::
  "adapters \<Rightarrow> graph_state \<Rightarrow> patch \<Rightarrow> doc \<Rightarrow> report res" where
  "validate_new_node_authoring A st p raw =
    (let rv = rev_or_none (p_revision p); node_id = get_text raw ''id'' [];
         node_type = get_text raw ''type'' [];
         parts = split1 CHR ''/'' node_id;
         prefix = (if CHR ''/'' \<in> set node_id then hd parts else []) in
     rbind (if node_type = ''hypothesis'' \<and> truthy (get_value raw ''scope'' VNone)
            then validate_grounded_scope A raw rv else Inr []) (\<lambda>grounded.
     rbind (duplicate_flag A prefix (last parts) rv (map fst (gs_nodes st))) (\<lambda>dup.
     Inr (validate_new_node_extensions st node_id raw rv True (p_author p = Some Agent)
       @ reject_if (node_type = ''evidence'' \<and> \<not> dhas ''origin'' raw) ''missing-evidence-origin'' rv [node_id]
       @ grounded
       @ reject_if (p_author p = Some Agent \<and> node_type = ''hypothesis''
           \<and> get_value raw ''status'' (VStr ''proposed'') \<noteq> VStr ''proposed'')
           ''agent-created-belief-transition'' rv [node_id]
       @ (if node_type = ''decision'' then new_decision_check p raw rv node_id else [])
       @ dup))))"

definition validate_updated_node_authoring ::
  "adapters \<Rightarrow> project_node \<Rightarrow> doc \<Rightarrow> int option \<Rightarrow> report res" where
  "validate_updated_node_authoring A n changes rv =
     (if as_hypothesis (Some n) = None \<or> \<not> truthy (get_value changes ''scope'' VNone) then Inr []
      else validate_grounded_scope A (dupdate (model_dump n) changes) rv)"

definition validate_extension_update ::
  "graph_state \<Rightarrow> patch \<Rightarrow> project_node \<Rightarrow> doc \<Rightarrow> bool \<Rightarrow> report" where
  "validate_extension_update st p n changes authoring =
     validate_updated_extension_fields st n changes (rev_or_none (p_revision p)) authoring
       (p_author p = Some Agent)"

definition requires_proposal :: "project_node \<Rightarrow> doc \<Rightarrow> bool" where
  "requires_proposal n changes = (case n_body n of
       Hypothesis h \<Rightarrow> (case dget changes ''status'' of
           Some v \<Rightarrow> v \<noteq> VStr (hyp_status h) | None \<Rightarrow> False)
     | Decision d \<Rightarrow> dhas ''selected_option'' changes \<or> dget changes ''status'' = Some (VStr ''decided'')
     | _ \<Rightarrow> False)"

text \<open>\<open>min(left, right)\<close> of two timestamps; a naive and an aware one do not compare.\<close>

fun time_less :: "py_time \<Rightarrow> py_time \<Rightarrow> bool res" where
  "time_less (TNaive a) (TNaive b) = Inr (a < b)"
| "time_less (TAware a) (TAware b) = Inr (a < b)"
| "time_less _ _ = Inl TypeError"

definition older :: "py_time option \<Rightarrow> py_time option \<Rightarrow> py_time option res" where
  "older l r = (case l of None \<Rightarrow> Inr r
     | Some a \<Rightarrow> (case r of None \<Rightarrow> Inr l
         | Some b \<Rightarrow> rbind (time_less b a) (\<lambda>lt. Inr (Some (if lt then b else a)))))"

type_synonym cited = "py_time option \<times> report"

definition check_source_ref :: "adapters \<Rightarrow> patch \<Rightarrow> pyval \<Rightarrow> cited \<Rightarrow> cited res" where
  "check_source_ref A p item acc =
    (let rv = rev_or_none (p_revision p) in
     case ad_source_ref A item of
       Inl e \<Rightarrow> if e = ValidationError
         then Inr (fst acc, snd acc @ [report_reject ''invalid-source-ref'' rv [] []]) else Inl e
     | Inr ref \<Rightarrow>
         rbind (older (fst acc) (Some (sr_timestamp ref))) (\<lambda>t.
         Inr (t, snd acc
           @ reject_if (p_kind p \<noteq> Approval \<and> sr_truth_repository ref \<notin> set (p_run_truth_scope p))
               ''source-outside-run-scope'' rv []
           @ reject_if (p_kind p \<noteq> Approval \<and> sr_truth_repository ref \<notin> set (p_repositories_read p))
               ''unread-source-repository'' rv [])))"

definition oldest_source_ref :: "adapters \<Rightarrow> patch \<Rightarrow> pyval \<Rightarrow> cited res" where
  "oldest_source_ref A p refs =
     rbind (py_iter refs) (\<lambda>items. rfold (check_source_ref A p) items (None, []))"

end
