(* ===== verification/Proposals.thy ===== *)
theory Proposals
  imports NodeRules
begin

text \<open>
  \<open>core/validation/proposals.py\<close>: coherence of Decision transitions, staleness of pending
  proposals, and the shape an agent's proposal must have. The last step of
  \<open>validate_proposal\<close>, replaying the proposal's operations, belongs to the operation rules
  and is a parameter here, tied in the theory of the patch rules.
\<close>

section \<open>Decision transitions\<close>

definition py_member :: "pyval \<Rightarrow> pyval \<Rightarrow> bool" where
  "py_member v xs = (case xs of VList ys \<Rightarrow> list_ex (py_eq v) ys | _ \<Rightarrow> False)"

definition is_vlist :: "pyval \<Rightarrow> bool" where
  "is_vlist v = (case v of VList _ \<Rightarrow> True | _ \<Rightarrow> False)"

text \<open>Whether a change set would leave the Decision incoherent.\<close>

definition decision_transition_error :: "decision \<Rightarrow> doc \<Rightarrow> bool" where
  "decision_transition_error d changes \<longleftrightarrow>
    (let chosen = get_value changes ''selected_option'' VNone;
         selected = get_value changes ''selected_option'' (vopt (dec_selected_option d));
         status = get_value changes ''status'' (VStr (dec_status d));
         options = get_value changes ''options'' (vstrs (dec_options d)) in
     (chosen \<noteq> VNone \<and> is_vlist options \<and> \<not> py_member chosen options)
     \<or> (status = VStr ''decided'' \<and> (selected = VNone \<or> \<not> is_vlist options \<or> \<not> py_member selected options))
     \<or> (status = VStr ''revisit'' \<and> dec_status d \<noteq> ''revisit'' \<and> dec_selected_option d = None)
     \<or> (dec_status d \<in> {''open'', ''ready'', ''revisit''} \<and> chosen \<noteq> VNone \<and> status \<noteq> VStr ''decided''))"

definition normalize_decision_update :: "graph_state \<Rightarrow> node_update \<Rightarrow> node_update" where
  "normalize_decision_update st u = (case as_decision (dget (gs_nodes st) (nu_id u)) of
       None \<Rightarrow> u
     | Some d \<Rightarrow>
        if get_value (nu_changes u) ''selected_option'' VNone \<noteq> VNone
           \<and> \<not> dhas ''status'' (nu_changes u) \<and> dec_status d \<noteq> ''decided''
        then u\<lparr>nu_changes := dset ''status'' (VStr ''decided'') (nu_changes u)\<rparr> else u)"

definition normalize_decision_op :: "graph_state \<Rightarrow> graph_op \<Rightarrow> graph_op" where
  "normalize_decision_op st op = (case op of
       UpdateNodes us \<Rightarrow> UpdateNodes (map (normalize_decision_update st) us) | _ \<Rightarrow> op)"

definition normalized_decision_proposal_ops :: "graph_state \<Rightarrow> proposal \<Rightarrow> graph_op list" where
  "normalized_decision_proposal_ops st q =
     map (normalize_decision_op st) (graph_operations_from_proposal (pr_ops q))"

section \<open>Staleness\<close>

fun proposal_op_updates :: "proposal_op \<Rightarrow> node_update list" where
  "proposal_op_updates (PContentChange _ us) = us"
| "proposal_op_updates (PStatusChange _ us) = us"
| "proposal_op_updates _ = []"

definition proposal_updates_node :: "proposal \<Rightarrow> string \<Rightarrow> bool" where
  "proposal_updates_node q i \<longleftrightarrow> (\<exists>u \<in> set (concat (map proposal_op_updates (pr_ops q))). nu_id u = i)"

definition proposal_removal_targets :: "proposal \<Rightarrow> string list" where
  "proposal_removal_targets q = concat (map (\<lambda>op. case op of
       PRemoval legacy ids \<Rightarrow> if legacy then [] else ids | _ \<Rightarrow> []) (pr_ops q))"

definition proposal_referenced_edges :: "proposal \<Rightarrow> string list" where
  "proposal_referenced_edges q = concat (map (\<lambda>op.
     (case op of PRelationRemove _ ids \<Rightarrow> ids | _ \<Rightarrow> []) @ cause_edge_ids (proposal_op_updates op)) (pr_ops q))"

definition proposal_referenced_decisions :: "proposal \<Rightarrow> string list" where
  "proposal_referenced_decisions q = concat (map (\<lambda>op. cause_node_ids (proposal_op_updates op)) (pr_ops q))"

fun judged_edge_ids :: "proposal_op \<Rightarrow> string list" where
  "judged_edge_ids (PRelationCreate legacy es) = (if legacy then [] else map new_edge_id es)"
| "judged_edge_ids (PSupersede legacy ns) = (if legacy then [] else
     concat (map (\<lambda>n. case sn_superseded_by n of None \<Rightarrow> []
       | Some t \<Rightarrow> [derived_edge_id (sn_id n) ''supersedes'' t]) ns))"
| "judged_edge_ids (PMerge legacy ms) = (if legacy then [] else
     map (\<lambda>m. derived_edge_id (nm_duplicate m) ''duplicate_of'' (nm_canonical m)) ms)"
| "judged_edge_ids _ = []"

definition proposal_created_edge_ids :: "proposal \<Rightarrow> string list" where
  "proposal_created_edge_ids q = concat (map judged_edge_ids (pr_ops q))"

text \<open>\<open>proposal.raised_rev or proposal.base_rev\<close>.\<close>

definition dependency_revision :: "proposal \<Rightarrow> int" where
  "dependency_revision q = (if pr_raised_rev q = 0 then pr_base_rev q else pr_raised_rev q)"

definition node_moved :: "graph_state \<Rightarrow> int \<Rightarrow> string \<Rightarrow> bool" where
  "node_moved st r i = (case dget (gs_nodes st) i of None \<Rightarrow> True | Some n \<Rightarrow> n_updated_rev n > r)"

definition edge_moved :: "graph_state \<Rightarrow> int \<Rightarrow> string \<Rightarrow> bool" where
  "edge_moved st r i = (case dget (gs_edges st) i of None \<Rightarrow> True | Some e \<Rightarrow> e_created_rev e > r)"

definition config_moved :: "graph_state \<Rightarrow> int \<Rightarrow> string \<Rightarrow> bool" where
  "config_moved st r k = ((case dget (gs_config_revisions st) k of None \<Rightarrow> 0 | Some v \<Rightarrow> v) > r)"

definition decision_moved :: "graph_state \<Rightarrow> int \<Rightarrow> string \<Rightarrow> bool" where
  "decision_moved st r i \<longleftrightarrow> as_decision (dget (gs_nodes st) i) = None \<or> node_moved st r i"

definition removal_drifted :: "graph_state \<Rightarrow> proposal \<Rightarrow> bool" where
  "removal_drifted st q \<longleftrightarrow> proposal_removal_targets q \<noteq> []
     \<and> set (incident_edge_ids st (proposal_removal_targets q)) \<noteq> set (pr_related_edge_ids q)"

definition proposal_is_stale :: "graph_state \<Rightarrow> proposal \<Rightarrow> bool" where
  "proposal_is_stale st q \<longleftrightarrow> (let r = dependency_revision q in
     list_ex (node_moved st r) (pr_related_node_ids q)
     \<or> list_ex (config_moved st r) (pr_related_config_keys q)
     \<or> list_ex (edge_moved st r) (pr_related_edge_ids q @ proposal_referenced_edges q)
     \<or> list_ex (\<lambda>i. dhas i (gs_edges st)) (proposal_created_edge_ids q)
     \<or> removal_drifted st q
     \<or> list_ex (decision_moved st r) (proposal_referenced_decisions q))"

section \<open>The shape of an agent's proposal\<close>

text \<open>
  Every \<open>_validate_*_intent\<close> function returns a text or \<open>None\<close>; here \<open>True\<close> means that it
  returns a text. \<open>cp\<close> is the context patch.
\<close>

definition existing_protected_node ::
  "graph_state \<Rightarrow> patch option \<Rightarrow> string \<Rightarrow> project_node option" where
  "existing_protected_node st cp i = (case dget (gs_nodes st) i of
       None \<Rightarrow> None
     | Some n \<Rightarrow>
        if (case cp of None \<Rightarrow> False
              | Some p \<Rightarrow> i \<in> set (created_node_ids p) \<and> n_created_rev n = p_revision p)
        then None else if is_protected n then Some n else None)"

definition protected_node_type :: "graph_state \<Rightarrow> patch option \<Rightarrow> string \<Rightarrow> string option" where
  "protected_node_type st cp i =
    (let fallback = (case cp of None \<Rightarrow> None
       | Some p \<Rightarrow> (case created_node_type p i of
           Some t \<Rightarrow> if t \<in> {''research_question'', ''hypothesis''} then Some t else None
         | None \<Rightarrow> None)) in
     case dget (gs_nodes st) i of
       Some n \<Rightarrow> if is_protected n then Some (n_type n) else fallback
     | None \<Rightarrow> fallback)"

definition unchanged_field :: "project_node \<Rightarrow> string \<times> pyval \<Rightarrow> bool" where
  "unchanged_field n kv = (case getattr_node n (fst kv) of
       None \<Rightarrow> False | Some v \<Rightarrow> py_eq v (snd kv))"

definition content_change_error :: "graph_state \<Rightarrow> patch option \<Rightarrow> node_update list \<Rightarrow> bool" where
  "content_change_error st cp us = (case us of
       [u] \<Rightarrow> nu_cause u \<noteq> None \<or> nu_base_updated_rev u \<noteq> None
         \<or> (case existing_protected_node st cp (nu_id u) of
              None \<Rightarrow> True
            | Some n \<Rightarrow> nu_changes u = []
                \<or> (dhas ''status'' (nu_changes u) \<and> as_hypothesis (Some n) \<noteq> None)
                \<or> list_all (unchanged_field n) (nu_changes u))
     | _ \<Rightarrow> True)"

definition status_change_error :: "graph_state \<Rightarrow> node_update list \<Rightarrow> bool" where
  "status_change_error st us = (case us of
       [u] \<Rightarrow> (case as_hypothesis (dget (gs_nodes st) (nu_id u)) of
           None \<Rightarrow> True
         | Some h \<Rightarrow> nu_cause u = None \<or> nu_base_updated_rev u \<noteq> None
             \<or> set (map fst (nu_changes u)) \<noteq> {''status''}
             \<or> dget (nu_changes u) ''status'' = Some (VStr (hyp_status h))
             \<or> (case nu_cause u of Some (EvidenceEdgeCause r) \<Rightarrow> r = [] | _ \<Rightarrow> True))
     | _ \<Rightarrow> True)"

definition removal_error :: "graph_state \<Rightarrow> patch option \<Rightarrow> string list \<Rightarrow> bool" where
  "removal_error st cp ids = (case ids of
       [i] \<Rightarrow> existing_protected_node st cp i = None | _ \<Rightarrow> True)"

text \<open>Superseding and merging share the check of the retired node and its replacement.\<close>

definition replacement_error ::
  "graph_state \<Rightarrow> patch option \<Rightarrow> string \<Rightarrow> string option \<Rightarrow> bool" where
  "replacement_error st cp old new = (case existing_protected_node st cp old of
       None \<Rightarrow> True
     | Some n \<Rightarrow> (case new of
         None \<Rightarrow> True
       | Some t \<Rightarrow> t = [] \<or> t = old \<or> protected_node_type st cp t \<noteq> Some (n_type n)))"

definition supersede_error :: "graph_state \<Rightarrow> patch option \<Rightarrow> supersede_node list \<Rightarrow> bool" where
  "supersede_error st cp ns = (case ns of
       [s] \<Rightarrow> sn_cause s \<noteq> None \<or> replacement_error st cp (sn_id s) (sn_superseded_by s)
     | _ \<Rightarrow> True)"

definition merge_error :: "graph_state \<Rightarrow> patch option \<Rightarrow> node_merge list \<Rightarrow> bool" where
  "merge_error st cp ms = (case ms of
       [m] \<Rightarrow> nm_cause m \<noteq> None \<or> replacement_error st cp (nm_duplicate m) (Some (nm_canonical m))
     | _ \<Rightarrow> True)"

definition relation_create_error :: "graph_state \<Rightarrow> patch option \<Rightarrow> new_edge list \<Rightarrow> bool" where
  "relation_create_error st cp es = (case es of
       [e] \<Rightarrow> ne_relation e \<notin> set PROTECTED_EPISTEMIC_RELATIONS
         \<or> ne_relation e \<in> {''supersedes'', ''duplicate_of''}
         \<or> (case cp of None \<Rightarrow> False
              | Some p \<Rightarrow> ne_source e \<in> set (created_node_ids p) \<or> ne_target e \<in> set (created_node_ids p))
         \<or> (existing_protected_node st cp (ne_source e) = None
             \<and> existing_protected_node st cp (ne_target e) = None)
     | _ \<Rightarrow> True)"

definition relation_remove_error :: "graph_state \<Rightarrow> patch option \<Rightarrow> string list \<Rightarrow> bool" where
  "relation_remove_error st cp ids = (case ids of
       [i] \<Rightarrow> (case dget (gs_edges st) i of
           None \<Rightarrow> True
         | Some e \<Rightarrow> (case cp of None \<Rightarrow> False | Some p \<Rightarrow> i \<in> set (created_edge_ids p))
             \<or> e_relation e \<notin> set PROTECTED_EPISTEMIC_RELATIONS
             \<or> (existing_protected_node st cp (e_source e) = None
                 \<and> existing_protected_node st cp (e_target e) = None))
     | _ \<Rightarrow> True)"

fun intent_error :: "graph_state \<Rightarrow> patch option \<Rightarrow> proposal_op \<Rightarrow> bool" where
  "intent_error st cp (PContentChange legacy us) = (legacy \<or> content_change_error st cp us)"
| "intent_error st cp (PStatusChange legacy us) = (legacy \<or> status_change_error st us)"
| "intent_error st cp (PRemoval legacy ids) = (legacy \<or> removal_error st cp ids)"
| "intent_error st cp (PSupersede legacy ns) = (legacy \<or> supersede_error st cp ns)"
| "intent_error st cp (PMerge legacy ms) = (legacy \<or> merge_error st cp ms)"
| "intent_error st cp (PRelationCreate legacy es) = (legacy \<or> relation_create_error st cp es)"
| "intent_error st cp (PRelationRemove legacy ids) = (legacy \<or> relation_remove_error st cp ids)"
| "intent_error st cp _ = True"

definition validate_agent_proposal_boundary ::
  "proposal \<Rightarrow> graph_state \<Rightarrow> int option \<Rightarrow> patch option \<Rightarrow> report" where
  "validate_agent_proposal_boundary q st rv cp =
     reject_if (case pr_ops q of [op] \<Rightarrow> intent_error st cp op | _ \<Rightarrow> True)
       ''invalid-agent-proposal-shape'' rv []"

section \<open>Validating a proposal\<close>

datatype vmode = Admission | Replay

definition card_texts :: "gated_card \<Rightarrow> string list" where
  "card_texts c = [gc_situation_cold c, gc_why_human_now c, gc_consequences c, gc_decision_needed c]"

definition card_flags :: "adapters \<Rightarrow> graph_state \<Rightarrow> proposal \<Rightarrow> int option \<Rightarrow> report" where
  "card_flags A st q rv =
     (if list_ex (\<lambda>t. py_strip t = []) (card_texts (pr_card q))
      then [report_flag ''incomplete-gated-card'' rv [] []] else [])
     @ (if list_ex (\<lambda>t. \<not> dhas t (gs_glossary st)) (ad_identifiers A (join_words (card_texts (pr_card q))))
        then [report_flag ''missing-glossary-term'' rv [] []] else [])"

text \<open>Source references inside a proposed content change are judged against the outer patch.\<close>

definition proposal_source_refs :: "adapters \<Rightarrow> proposal \<Rightarrow> patch \<Rightarrow> report res" where
  "proposal_source_refs A q p = rconcat (\<lambda>op. case op of
       PContentChange _ us \<Rightarrow> rconcat (\<lambda>u.
         let refs = get_value (nu_changes u) ''source_refs'' VNone in
         if truthy refs then rbind (oldest_source_ref A p refs) (\<lambda>c. Inr (snd c)) else Inr []) us
     | _ \<Rightarrow> Inr []) (pr_ops q)"

text \<open>
  The patch that would replay the proposal's operations. Its creation time is never read:
  only seed and refresh patches record theirs.
\<close>

definition synthetic_patch :: "graph_state \<Rightarrow> int option \<Rightarrow> proposal \<Rightarrow> patch" where
  "synthetic_patch st rv q = \<lparr>p_schema_generation = 2,
     p_revision = (case rv of Some r \<Rightarrow> if r = 0 then gs_revision st + 1 else r
       | None \<Rightarrow> gs_revision st + 1),
     p_kind = Approval, p_author = Some Human, p_producer = HumanProducer, p_created_at = TAware 0,
     p_summary = [], p_ops = graph_operations_from_proposal (pr_ops q), p_run_truth_scope = [],
     p_repositories_read = [], p_processed_cursors = [], p_change_summary = [],
     p_source_operation_id = None, p_source_effect_id = None, p_source_effect_sha256 = None,
     p_human_action = None, p_agent_action = None, p_admission = Admitted,
     p_admission_messages = [], p_experiment_control_node_id = None,
     p_experiment_decision_bundle = [], p_project_identity = None,
     p_project_home_transfer = None, p_authorized_by = None, p_profile = None, p_task_id = None,
     p_episode_id = None, p_branch_merge = None, p_transition = None\<rparr>"

text \<open>
  \<open>replay_ops st p\<close> is the report of the operation rules for the synthetic patch \<open>p\<close>.
\<close>

definition validate_proposal_with ::
  "adapters \<Rightarrow> (graph_state \<Rightarrow> patch \<Rightarrow> report res) \<Rightarrow> proposal \<Rightarrow> graph_state \<Rightarrow> int option
     \<Rightarrow> vmode \<Rightarrow> bool \<Rightarrow> patch option \<Rightarrow> report res" where
  "validate_proposal_with A replay_ops q st rv md include_card_flags cp =
     (if dhas (pr_id q) (gs_proposals st) then Inr [report_reject ''duplicate-proposal-id'' rv [] []]
      else rbind (case cp of Some p \<Rightarrow> if md = Admission then proposal_source_refs A q p else Inr []
                   | None \<Rightarrow> Inr []) (\<lambda>refs.
        rbind (replay_ops st (synthetic_patch st rv q)) (\<lambda>replay.
        Inr (reject_if (md = Admission \<and> pr_base_rev q \<noteq> gs_revision st) ''proposal-base-revision'' rv []
          @ (if include_card_flags then card_flags A st q rv else [])
          @ (if md = Admission \<and> (case cp of None \<Rightarrow> True | Some p \<Rightarrow> p_author p = Some Agent)
             then validate_agent_proposal_boundary q st rv cp else [])
          @ refs
          @ reject_if (rejected replay) ''invalid-proposal-ops'' rv []))))"

end
