(* ===== verification/OpRules.thy ===== *)
theory OpRules
  imports Proposals
begin

text \<open>
  \<open>core/validation/ops.py\<close> and \<open>core/validation/context.py\<close>: one structural and, where the
  code has one, one authoring rule per operation. A rule returns the oldest source
  timestamp it saw together with its messages. Validating a created proposal replays the
  proposal's own operations through these rules; that validator is the parameter \<open>vp\<close>.
\<close>

section \<open>Context\<close>

record op_ctx =
  cx_state :: graph_state
  cx_initial_state :: graph_state
  cx_patch :: patch
  cx_report :: report
  cx_revision :: "int option"
  cx_project_truth_scope :: "string list"
  cx_repositories :: "string list"
  cx_machines :: "string list option"
  cx_default_run_truth_scope :: "string list"
  cx_state_repository :: "string option"
  cx_mode :: vmode
  cx_experiment_control_node_id :: "string option"
  cx_reference_patch :: "patch option"

definition context_created_nodes :: "op_ctx \<Rightarrow> created_node list" where
  "context_created_nodes ctx = patch_created_nodes (cx_patch ctx)
     @ (case cx_reference_patch ctx of None \<Rightarrow> [] | Some p \<Rightarrow> patch_created_nodes p)"

definition node_type_in :: "op_ctx \<Rightarrow> string \<Rightarrow> string option" where
  "node_type_in ctx i = (case dget (gs_nodes (cx_state ctx)) i of
       Some n \<Rightarrow> Some (n_type n)
     | None \<Rightarrow> map_option (\<lambda>c. n_type (cn_node c))
         (find (\<lambda>c. n_id (cn_node c) = i) (context_created_nodes ctx)))"

definition context_created_edges :: "op_ctx \<Rightarrow> new_edge list" where
  "context_created_edges ctx = concat (map created_edges_of (p_ops (cx_patch ctx)))
     @ (case cx_reference_patch ctx of None \<Rightarrow> []
          | Some p \<Rightarrow> concat (map created_edges_of (p_ops p)))"

definition edge_in_context :: "op_ctx \<Rightarrow> string \<Rightarrow> edge option" where
  "edge_in_context ctx i = (case dget (gs_edges (cx_state ctx)) i of
       Some e \<Rightarrow> Some e
     | None \<Rightarrow> (case find (\<lambda>e. new_edge_id e = i) (context_created_edges ctx) of
         None \<Rightarrow> None
       | Some e \<Rightarrow> (case edge_model_validate (Some i) e None 0 of Inl _ \<Rightarrow> None | Inr x \<Rightarrow> Some x)))"

definition created_node_id :: "op_ctx \<Rightarrow> string \<Rightarrow> bool" where
  "created_node_id ctx i \<longleftrightarrow> i \<in> set (created_node_ids (cx_patch ctx))"

text \<open>A loop that keeps the oldest timestamp and appends messages.\<close>

definition add_cited :: "('a \<Rightarrow> cited res) \<Rightarrow> 'a \<Rightarrow> cited \<Rightarrow> cited res" where
  "add_cited f x acc = rbind (f x) (\<lambda>c. rbind (older (fst acc) (fst c)) (\<lambda>t. Inr (t, snd acc @ snd c)))"

definition each_cited :: "('a \<Rightarrow> cited res) \<Rightarrow> 'a list \<Rightarrow> cited res" where
  "each_cited f xs = rfold (add_cited f) xs (None, [])"

definition uncited :: "report res \<Rightarrow> cited res" where
  "uncited r = rbind r (\<lambda>m. Inr (None, m))"

section \<open>Nodes\<close>

definition check_create_node :: "adapters \<Rightarrow> op_ctx \<Rightarrow> created_node \<Rightarrow> cited res" where
  "check_create_node A ctx c =
    (let i = n_id (cn_node c); raw = raw_of c in
     rbind (validate_new_node A (cx_state ctx) (cx_patch ctx) raw) (\<lambda>r.
     rbind (oldest_source_ref A (cx_patch ctx) (get_value raw ''source_refs'' (VList []))) (\<lambda>s.
     Inr (fst s,
       reject_if (cx_mode ctx = Admission \<and> dhas i (gs_nodes (cx_initial_state ctx)))
         ''initial-node-id-replacement'' (cx_revision ctx) [i]
       @ r @ snd s))))"

definition validate_create_nodes :: "adapters \<Rightarrow> op_ctx \<Rightarrow> created_node list \<Rightarrow> cited res" where
  "validate_create_nodes A ctx = each_cited (check_create_node A ctx)"

definition author_create_node :: "adapters \<Rightarrow> op_ctx \<Rightarrow> created_node \<Rightarrow> report res" where
  "author_create_node A ctx c =
    (let i = n_id (cn_node c) in
     rbind (validate_new_node_authoring A (cx_state ctx) (cx_patch ctx) (raw_of c)) (\<lambda>r.
     Inr (reject_if (case n_body (cn_node c) of Experiment x \<Rightarrow> exp_status x = ''unspecified'' | _ \<Rightarrow> False)
         ''live-legacy-experiment-phase'' (cx_revision ctx) [i]
       @ reject_if (case n_body (cn_node c) of
             Evidence _ \<Rightarrow> ''legacy_strength'' \<in> set (cn_fields_set c) | _ \<Rightarrow> False)
         ''live-legacy-evidence-strength'' (cx_revision ctx) [i]
       @ r)))"

definition author_create_nodes :: "adapters \<Rightarrow> op_ctx \<Rightarrow> created_node list \<Rightarrow> report res" where
  "author_create_nodes A ctx = rconcat (author_create_node A ctx)"

definition live_legacy_phase :: "op_ctx \<Rightarrow> project_node \<Rightarrow> doc \<Rightarrow> bool" where
  "live_legacy_phase ctx n changes \<longleftrightarrow> cx_mode ctx = Admission \<and> as_experiment (Some n) \<noteq> None
     \<and> dget changes ''status'' = Some (VStr ''unspecified'')"

definition live_legacy_strength :: "op_ctx \<Rightarrow> project_node \<Rightarrow> doc \<Rightarrow> bool" where
  "live_legacy_strength ctx n changes \<longleftrightarrow> cx_mode ctx = Admission
     \<and> (case n_body n of Evidence _ \<Rightarrow> True | _ \<Rightarrow> False) \<and> dhas ''legacy_strength'' changes"

text \<open>Historical patches are replayed with the compatibility fields allowed.\<close>

definition historical :: "op_ctx \<Rightarrow> bool" where
  "historical ctx \<longleftrightarrow> cx_mode ctx = Replay \<and> p_schema_generation (cx_patch ctx) = 1"

definition immutable_changes :: "op_ctx \<Rightarrow> project_node \<Rightarrow> doc \<Rightarrow> string list" where
  "immutable_changes ctx n changes =
     filter (\<lambda>k. k \<in> set IMMUTABLE_NODE_UPDATE_FIELDS
       \<and> \<not> (if historical ctx then k \<in> set LEGACY_COMPATIBILITY_UPDATE_FIELDS
            else live_legacy_strength ctx n changes \<and> k = ''legacy_strength'')) (map fst changes)"

definition is_control_update :: "op_ctx \<Rightarrow> string \<Rightarrow> doc \<Rightarrow> bool" where
  "is_control_update ctx i changes \<longleftrightarrow> p_kind (cx_patch ctx) = ExperimentLoop
     \<and> Some i = cx_experiment_control_node_id ctx \<and> set (map fst changes) \<subseteq> {''attempts'', ''status''}"

definition gate_update :: "op_ctx \<Rightarrow> project_node \<Rightarrow> string \<Rightarrow> doc \<Rightarrow> report res" where
  "gate_update ctx n i changes =
     (if \<not> is_control_update ctx i changes \<and> requires_proposal n changes then
        Inr (if as_decision (Some n) \<noteq> None
             then reject_if (cx_mode ctx = Admission \<and> \<not> permits (cx_patch ctx) DECIDE_DECISION)
               ''decision-action-refused'' (cx_revision ctx) [n_id n]
             else reject_if (p_kind (cx_patch ctx) \<noteq> Approval) ''gated-transition'' (cx_revision ctx) [])
      else if as_decision (Some n) \<noteq> None \<and> cx_mode ctx = Admission then
        rbind (in_literals (dget changes ''status'') [''open'', ''ready'', ''revisit'']) (\<lambda>b.
        Inr (reject_if (b \<and> \<not> permits (cx_patch ctx) QUEUE_DECISION)
          ''decision-action-refused'' (cx_revision ctx) [n_id n]))
      else Inr [])"

definition check_decision_coherence :: "op_ctx \<Rightarrow> project_node \<Rightarrow> doc \<Rightarrow> report" where
  "check_decision_coherence ctx n changes =
     reject_if (cx_mode ctx = Admission \<and> (case as_decision (Some n) of
         None \<Rightarrow> False | Some d \<Rightarrow> decision_transition_error d changes))
       ''incoherent-decision-transition'' (cx_revision ctx) [n_id n]"

definition check_changed_document :: "adapters \<Rightarrow> op_ctx \<Rightarrow> project_node \<Rightarrow> doc \<Rightarrow> report res" where
  "check_changed_document A ctx n changes =
     reject_invalid ((if historical ctx then ad_node A else strict_project_node A)
         (dupdate (model_dump n) changes))
       (report_reject ''invalid-node-update'' (cx_revision ctx) [] [])"

definition check_update_node :: "adapters \<Rightarrow> op_ctx \<Rightarrow> node_update \<Rightarrow> cited res" where
  "check_update_node A ctx u =
    (case dget (gs_nodes (cx_state ctx)) (nu_id u) of
       None \<Rightarrow> Inr (None, [report_reject ''unknown-node'' (cx_revision ctx) [] []])
     | Some n \<Rightarrow>
        (let changes = nu_changes u; rv = cx_revision ctx;
             legacy = reject_if (live_legacy_phase ctx n changes) ''live-legacy-experiment-phase'' rv [n_id n]
               @ reject_if (live_legacy_strength ctx n changes) ''live-legacy-evidence-strength'' rv [n_id n] in
         if immutable_changes ctx n changes \<noteq> []
         then Inr (None, legacy @ [report_reject ''immutable-node-field'' rv [] []])
         else if live_legacy_strength ctx n changes \<or> live_legacy_phase ctx n changes
         then Inr (None, legacy)
         else
           rbind (check_changed_document A ctx n changes) (\<lambda>inv.
           rbind (gate_update ctx n (nu_id u) changes) (\<lambda>gate.
           rbind (oldest_source_ref A (cx_patch ctx) (get_value changes ''source_refs'' (VList []))) (\<lambda>s.
           Inr (fst s, inv @ validate_extension_update (cx_state ctx) (cx_patch ctx) n changes False
             @ gate @ check_decision_coherence ctx n changes @ snd s))))))"

definition validate_update_nodes :: "adapters \<Rightarrow> op_ctx \<Rightarrow> node_update list \<Rightarrow> cited res" where
  "validate_update_nodes A ctx = each_cited (check_update_node A ctx)"

fun resolutions_of :: "graph_op \<Rightarrow> proposal_resolution list" where
  "resolutions_of (ResolveProposals rs) = rs"
| "resolutions_of _ = []"

definition resolves_proposals :: "patch \<Rightarrow> bool" where
  "resolves_proposals p \<longleftrightarrow> (\<exists>op \<in> set (p_ops p). case op of ResolveProposals _ \<Rightarrow> True | _ \<Rightarrow> False)"

definition validate_belief_cause :: "op_ctx \<Rightarrow> string \<Rightarrow> belief_cause option \<Rightarrow> report" where
  "validate_belief_cause ctx hyp cause =
    (let rv = cx_revision ctx; p = cx_patch ctx in
     case cause of
       None \<Rightarrow> [report_reject ''missing-belief-cause'' rv [hyp] []]
     | Some HumanEditCause \<Rightarrow>
         reject_if (p_kind p \<noteq> Approval \<or> p_author p \<noteq> Some Human) ''invalid-belief-cause'' rv [hyp]
     | Some (DecisionCause r) \<Rightarrow>
         reject_if (node_type_in ctx r \<noteq> Some ''decision'') ''invalid-belief-cause'' rv [hyp, r]
     | Some (ProposalResolutionCause r) \<Rightarrow>
         reject_if (r \<notin> set (map pres_id (concat (map resolutions_of (p_ops p)))))
           ''invalid-belief-cause'' rv [hyp]
     | Some (EvidenceEdgeCause r) \<Rightarrow>
         (if (case edge_in_context ctx r of
               None \<Rightarrow> True
             | Some e \<Rightarrow> e_target e \<noteq> hyp \<or> e_relation e \<notin> set EVIDENCE_RELATIONS
                 \<or> node_type_in ctx (e_source e) \<noteq> Some ''evidence'')
          then [report_reject ''invalid-belief-cause'' rv [hyp] [r]] else []))"

definition author_update_node :: "adapters \<Rightarrow> op_ctx \<Rightarrow> node_update \<Rightarrow> report res" where
  "author_update_node A ctx u =
    (case dget (gs_nodes (cx_state ctx)) (nu_id u) of
       None \<Rightarrow> Inr []
     | Some n \<Rightarrow>
        (let changes = nu_changes u; p = cx_patch ctx;
             direct_human_edit = (p_kind p = Approval \<and> cx_reference_patch ctx = None
               \<and> \<not> resolves_proposals p) in
         rbind (if direct_human_edit then Inr []
                else validate_updated_node_authoring A n changes (cx_revision ctx)) (\<lambda>r.
         Inr (r @ validate_extension_update (cx_state ctx) p n changes True
           @ (case as_hypothesis (Some n) of
                None \<Rightarrow> []
              | Some h \<Rightarrow> (case dget changes ''status'' of
                  None \<Rightarrow> []
                | Some v \<Rightarrow> if v \<noteq> VStr (hyp_status h)
                    then validate_belief_cause ctx (n_id n) (nu_cause u) else []))))))"

definition author_update_nodes :: "adapters \<Rightarrow> op_ctx \<Rightarrow> node_update list \<Rightarrow> report res" where
  "author_update_nodes A ctx = rconcat (author_update_node A ctx)"

section \<open>Edges and removals\<close>

definition check_evidence_endpoints :: "op_ctx \<Rightarrow> new_edge \<Rightarrow> report" where
  "check_evidence_endpoints ctx e =
    (let rv = cx_revision ctx; r = ne_relation e; i = new_edge_id e;
         st = node_type_in ctx (ne_source e); tt = node_type_in ctx (ne_target e);
         applies = (r \<in> set EVIDENCE_RELATIONS \<and> st = Some ''evidence'' \<and> tt = Some ''hypothesis'');
         endpoints_apply = (tt = Some ''hypothesis'' \<and>
           (st = Some ''evidence'' \<or> (r = ''contradicts'' \<and> st = Some ''hypothesis''))) in
     (if cx_mode ctx = Admission \<and> r \<in> set EVIDENCE_RELATIONS \<and> st \<noteq> None \<and> tt \<noteq> None \<and> \<not> endpoints_apply
      then [report_reject ''invalid-evidence-relation-endpoints'' rv [ne_source e, ne_target e] [i]] else [])
     @ (if ne_assessment e \<noteq> None \<and> \<not> applies
        then [report_reject ''inapplicable-evidence-assessment'' rv [ne_source e, ne_target e] [i]]
        else if cx_mode ctx = Admission \<and> applies \<and> ne_assessment e = None
        then [report_reject ''missing-evidence-assessment'' rv [ne_source e, ne_target e] [i]] else []))"

definition check_edge_ends :: "op_ctx \<Rightarrow> new_edge \<Rightarrow> report" where
  "check_edge_ends ctx e =
    (let known = (\<lambda>i. dhas i (gs_nodes (cx_state ctx)) \<or> created_node_id ctx i) in
     reject_if (\<not> known (ne_source e)) ''unknown-edge-source'' (cx_revision ctx) []
     @ reject_if (\<not> known (ne_target e)) ''unknown-edge-target'' (cx_revision ctx) [])"

text \<open>The custom relation that must vouch for a relation name outside the base vocabulary.\<close>

definition check_custom_relation :: "op_ctx \<Rightarrow> new_edge \<Rightarrow> ontology_relation \<Rightarrow> report" where
  "check_custom_relation ctx e c =
     reject_if (\<not> dhas (ne_relation e) RELATION_SPEC
         \<and> \<not> edge_matches_relation (cx_state ctx) (ne_source e) (ne_target e) c
              (patch_created_nodes (cx_patch ctx)))
       ''custom-relation-type-mismatch'' (cx_revision ctx) [ne_source e, ne_target e]"

text \<open>One edge of the loop; the accumulator is the set of edge ids seen and the messages.\<close>

definition check_create_edge ::
  "op_ctx \<Rightarrow> new_edge \<Rightarrow> string list \<times> report \<Rightarrow> string list \<times> report" where
  "check_create_edge ctx e acc =
    (let rv = cx_revision ctx; custom = custom_relation (gs_ontology (cx_state ctx)) (ne_relation e);
         ends = [ne_source e, ne_target e]; base = dhas (ne_relation e) RELATION_SPEC;
         seen = fst acc; msgs = snd acc @ check_edge_ends ctx e @ check_evidence_endpoints ctx e in
     if \<not> base \<and> custom = None then (seen, msgs @ [report_reject ''invalid-edge'' rv ends []])
     else
       let msgs' = msgs @ (case custom of None \<Rightarrow> [] | Some c \<Rightarrow> check_custom_relation ctx e c) in
       case edge_document_id e of
         None \<Rightarrow> (seen, msgs' @ [report_reject ''invalid-edge'' rv ends []])
       | Some i \<Rightarrow>
           if cx_mode ctx = Admission \<and> i \<in> set seen
           then (seen, msgs' @ [report_reject ''duplicate-edge-id'' rv [] [i]])
           else (if cx_mode ctx = Admission then i # seen else seen, msgs'))"

definition validate_create_edges :: "op_ctx \<Rightarrow> new_edge list \<Rightarrow> report" where
  "validate_create_edges ctx es =
     snd (fold (check_create_edge ctx) es (map fst (gs_edges (cx_state ctx)), []))"

definition author_create_edge :: "op_ctx \<Rightarrow> new_edge \<Rightarrow> report" where
  "author_create_edge ctx e =
     (case custom_relation (gs_ontology (cx_state ctx)) (ne_relation e) of
        None \<Rightarrow> [] | Some c \<Rightarrow> reject_if (or_deprecated c) ''deprecated-custom-relation'' (cx_revision ctx) [])
     @ (case (dget RELATION_SPEC (ne_relation e), node_type_in ctx (ne_source e),
              node_type_in ctx (ne_target e)) of
          (Some sp, Some s, Some t) \<Rightarrow>
            if s \<notin> set (rs_source_types sp) \<or> t \<notin> set (rs_target_types sp) \<or> (rs_same_type sp \<and> s \<noteq> t)
            then [report_flag ''relation-type-mismatch'' (cx_revision ctx) [ne_source e, ne_target e]
                    [new_edge_id e]] else []
        | _ \<Rightarrow> [])"

definition author_create_edges :: "op_ctx \<Rightarrow> new_edge list \<Rightarrow> report" where
  "author_create_edges ctx es = concat (map (author_create_edge ctx) es)"

definition validate_remove_edges :: "op_ctx \<Rightarrow> string list \<Rightarrow> report" where
  "validate_remove_edges ctx ids =
     reject_if (ids = [] \<or> [] \<in> set ids \<or> has_duplicates ids)
       ''invalid-remove-edges-operation'' (cx_revision ctx) []"

definition has_active_attempt :: "project_node \<Rightarrow> bool" where
  "has_active_attempt n = (case n_body n of
       Experiment x \<Rightarrow> list_ex (\<lambda>a. at_status a \<in> set active_attempt_statuses) (exp_attempts x)
     | _ \<Rightarrow> False)"

definition check_remove_node :: "op_ctx \<Rightarrow> string \<Rightarrow> report" where
  "check_remove_node ctx i =
    (let p = cx_patch ctx; rv = cx_revision ctx;
         proposal_approval = (p_kind p = Approval
           \<and> (cx_reference_patch ctx \<noteq> None \<or> resolves_proposals p)) in
     case dget (gs_nodes (cx_state ctx)) i of
       None \<Rightarrow> [report_reject ''unknown-node'' rv [i] []]
     | Some n \<Rightarrow>
        (let initial = (case dget (gs_nodes (cx_initial_state ctx)) i of Some m \<Rightarrow> m | None \<Rightarrow> n) in
         reject_if (n_standing initial = Accepted \<and> \<not> proposal_approval) ''accepted-node-removal'' rv [i]
         @ reject_if (has_active_attempt initial \<or> has_active_attempt n) ''active-experiment-removal'' rv [i]))"

definition validate_remove_nodes :: "op_ctx \<Rightarrow> string list \<Rightarrow> report" where
  "validate_remove_nodes ctx ids =
     (if ids = [] \<or> [] \<in> set ids \<or> has_duplicates ids
      then [report_reject ''invalid-remove-nodes-operation'' (cx_revision ctx) [] []]
      else concat (map (check_remove_node ctx) ids))"

section \<open>Superseding and merging\<close>

definition validate_generated_relation_endpoints :: "op_ctx \<Rightarrow> string \<Rightarrow> string \<Rightarrow> string \<Rightarrow> report" where
  "validate_generated_relation_endpoints ctx s t relation =
    (let rv = cx_revision ctx; i = derived_edge_id s relation t in
     if s = t then [report_reject ''invalid-generated-relation'' rv [s] []]
     else if cx_mode ctx = Admission \<and> dhas i (gs_edges (cx_state ctx))
     then [report_reject ''duplicate-edge-id'' rv [] [i]]
     else case (node_type_in ctx s, node_type_in ctx t) of
       (Some a, Some b) \<Rightarrow> reject_if (a \<noteq> b) ''generated-relation-type-mismatch'' rv [s, t]
     | _ \<Rightarrow> [])"

definition check_supersede_node :: "op_ctx \<Rightarrow> supersede_node \<Rightarrow> report" where
  "check_supersede_node ctx x =
     reject_if (\<not> dhas (sn_id x) (gs_nodes (cx_state ctx))) ''unknown-node'' (cx_revision ctx) []
     @ (case sn_superseded_by x of
          None \<Rightarrow> []
        | Some t \<Rightarrow>
            reject_if (t \<noteq> [] \<and> \<not> dhas t (gs_nodes (cx_state ctx)) \<and> \<not> created_node_id ctx t
                \<and> node_type_in ctx t = None) ''unknown-node'' (cx_revision ctx) []
            @ (if cx_mode ctx = Admission
               then validate_generated_relation_endpoints ctx (sn_id x) t ''supersedes'' else []))"

definition validate_supersede_nodes :: "op_ctx \<Rightarrow> supersede_node list \<Rightarrow> report" where
  "validate_supersede_nodes ctx xs = concat (map (check_supersede_node ctx) xs)"

definition check_merge_node :: "op_ctx \<Rightarrow> node_merge \<Rightarrow> report" where
  "check_merge_node ctx m =
     reject_if (\<not> dhas (nm_duplicate m) (gs_nodes (cx_state ctx))) ''unknown-node'' (cx_revision ctx) []
     @ reject_if (\<not> dhas (nm_canonical m) (gs_nodes (cx_state ctx)) \<and> node_type_in ctx (nm_canonical m) = None)
         ''unknown-node'' (cx_revision ctx) []
     @ (if cx_mode ctx = Admission
        then validate_generated_relation_endpoints ctx (nm_duplicate m) (nm_canonical m) ''duplicate_of''
        else [])"

definition validate_merge_nodes :: "op_ctx \<Rightarrow> node_merge list \<Rightarrow> report" where
  "validate_merge_nodes ctx ms = concat (map (check_merge_node ctx) ms)"

section \<open>Ambiguities, proposals, standing and configuration\<close>

definition validate_resolve_ambiguities :: "op_ctx \<Rightarrow> ambiguity_resolution list \<Rightarrow> report" where
  "validate_resolve_ambiguities ctx rs = concat (map (\<lambda>r.
     reject_if (\<not> dhas (ar_id r) (gs_ambiguities (cx_state ctx))) ''unknown-ambiguity'' (cx_revision ctx) []
     @ reject_if (ar_status r \<notin> {''resolved'', ''dismissed''})
         ''invalid-ambiguity-resolution'' (cx_revision ctx) []) rs)"

text \<open>\<open>vp ctx q md cards\<close> validates one proposal in the given mode.\<close>

type_synonym proposal_validator = "op_ctx \<Rightarrow> proposal \<Rightarrow> vmode \<Rightarrow> bool \<Rightarrow> report res"

fun check_create_proposals ::
  "proposal_validator \<Rightarrow> op_ctx \<Rightarrow> string list \<Rightarrow> proposal list \<Rightarrow> report res" where
  "check_create_proposals vp ctx seen [] = Inr []"
| "check_create_proposals vp ctx seen (q # qs) =
     rbind (vp ctx q Replay False) (\<lambda>r.
     rbind (check_create_proposals vp ctx (pr_id q # seen) qs) (\<lambda>rest.
     Inr (reject_if (cx_mode ctx = Admission \<and> pr_id q \<in> set seen)
            ''duplicate-proposal-id'' (cx_revision ctx) [] @ r @ rest)))"

definition validate_create_proposals ::
  "proposal_validator \<Rightarrow> op_ctx \<Rightarrow> proposal list \<Rightarrow> report res" where
  "validate_create_proposals vp ctx qs = check_create_proposals vp ctx [] qs"

definition author_create_proposals ::
  "proposal_validator \<Rightarrow> op_ctx \<Rightarrow> proposal list \<Rightarrow> report res" where
  "author_create_proposals vp ctx = rconcat (\<lambda>q. vp ctx q Admission True)"

definition check_pending :: "op_ctx \<Rightarrow> string \<Rightarrow> report" where
  "check_pending ctx i = (case dget (gs_proposals (cx_state ctx)) i of
       None \<Rightarrow> [report_reject ''unknown-proposal'' (cx_revision ctx) [] []]
     | Some q \<Rightarrow> reject_if (pr_status q \<noteq> Pending) ''proposal-not-pending'' (cx_revision ctx) [])"

definition validate_resolve_proposals :: "op_ctx \<Rightarrow> proposal_resolution list \<Rightarrow> report" where
  "validate_resolve_proposals ctx rs =
     reject_if (cx_mode ctx = Admission \<and> p_kind (cx_patch ctx) \<noteq> Approval)
       ''agent-resolved-proposal'' (cx_revision ctx) []
     @ concat (map (\<lambda>r. check_pending ctx (pres_id r)) rs)"

definition validate_withdraw_proposals :: "op_ctx \<Rightarrow> proposal_withdrawal list \<Rightarrow> report" where
  "validate_withdraw_proposals ctx ws =
     reject_if (p_author (cx_patch ctx) \<noteq> Some Agent \<or> p_kind (cx_patch ctx) = Approval)
       ''human-only-proposal-withdrawal'' (cx_revision ctx) []
     @ concat (map (\<lambda>w. check_pending ctx (pw_id w)) ws)"

definition validate_set_standing :: "op_ctx \<Rightarrow> string \<Rightarrow> report" where
  "validate_set_standing ctx i =
     reject_if (cx_mode ctx = Admission \<and> \<not> permits (cx_patch ctx) SET_STANDING)
       ''agent-set-standing'' (cx_revision ctx) []
     @ reject_if (\<not> dhas i (gs_nodes (cx_state ctx))) ''unknown-node'' (cx_revision ctx) []"

text \<open>A complete descriptor makes its alias known to the operations that follow.\<close>

definition descriptor_complete :: "repository_descriptor \<Rightarrow> bool" where
  "descriptor_complete d \<longleftrightarrow> rd_alias d \<noteq> [] \<and> rd_machine d \<noteq> [] \<and> rd_path d \<noteq> []"

definition repositories_after :: "op_ctx \<Rightarrow> repository_descriptor option \<Rightarrow> string list" where
  "repositories_after ctx d = (case d of
       None \<Rightarrow> cx_repositories ctx
     | Some r \<Rightarrow> if descriptor_complete r \<and> rd_alias r \<notin> set (cx_repositories ctx)
         then rd_alias r # cx_repositories ctx else cx_repositories ctx)"

definition validate_set_project_truth_scope ::
  "op_ctx \<Rightarrow> string list \<Rightarrow> repository_descriptor option \<Rightarrow> report" where
  "validate_set_project_truth_scope ctx scope d =
    (let rv = cx_revision ctx in
     reject_if (p_kind (cx_patch ctx) \<noteq> Approval) ''agent-set-project-scope'' rv []
     @ (case d of None \<Rightarrow> []
        | Some r \<Rightarrow> if \<not> descriptor_complete r then [report_reject ''incomplete-repository'' rv [] []]
            else reject_if (case cx_machines ctx of None \<Rightarrow> False | Some ms \<Rightarrow> rd_machine r \<notin> set ms)
              ''unknown-repository-machine'' rv [])
     @ reject_if (\<not> set scope \<subseteq> set (repositories_after ctx d)) ''unknown-project-repository'' rv []
     @ reject_if (case cx_state_repository ctx of None \<Rightarrow> False | Some s \<Rightarrow> s \<noteq> [] \<and> s \<notin> set scope)
         ''remove-state-repository'' rv []
     @ reject_if (\<not> set (cx_default_run_truth_scope ctx) \<subseteq> set scope) ''remove-default-run-repository'' rv [])"

definition validate_set_ontology :: "op_ctx \<Rightarrow> ontology_state \<Rightarrow> report res" where
  "validate_set_ontology ctx ont =
     rbind (validate_ontology_structure ont (cx_revision ctx)) (\<lambda>r.
     Inr (r @ reject_if (p_kind (cx_patch ctx) \<noteq> Approval) ''agent-set-ontology'' (cx_revision ctx) []
       @ (if cx_mode ctx = Admission
          then validate_ontology_change (cx_state ctx) ont (cx_revision ctx) else [])))"

section \<open>The operation registry\<close>

fun structural_validate :: "adapters \<Rightarrow> proposal_validator \<Rightarrow> op_ctx \<Rightarrow> graph_op \<Rightarrow> cited res" where
  "structural_validate A vp ctx (CreateNodes ns) = validate_create_nodes A ctx ns"
| "structural_validate A vp ctx (UpdateNodes us) = validate_update_nodes A ctx us"
| "structural_validate A vp ctx (CreateEdges es) = Inr (None, validate_create_edges ctx es)"
| "structural_validate A vp ctx (RemoveEdges ids) = Inr (None, validate_remove_edges ctx ids)"
| "structural_validate A vp ctx (RemoveNodes ids) = Inr (None, validate_remove_nodes ctx ids)"
| "structural_validate A vp ctx (SupersedeNodes xs) = Inr (None, validate_supersede_nodes ctx xs)"
| "structural_validate A vp ctx (MergeNodes ms) = Inr (None, validate_merge_nodes ctx ms)"
| "structural_validate A vp ctx (CreateAmbiguities as) = Inr (None, [])"
| "structural_validate A vp ctx (ResolveAmbiguities rs) = Inr (None, validate_resolve_ambiguities ctx rs)"
| "structural_validate A vp ctx (CreateProposals qs) = uncited (validate_create_proposals vp ctx qs)"
| "structural_validate A vp ctx (ResolveProposals rs) = Inr (None, validate_resolve_proposals ctx rs)"
| "structural_validate A vp ctx (WithdrawProposals ws) = Inr (None, validate_withdraw_proposals ctx ws)"
| "structural_validate A vp ctx (UpsertGlossary ts) = Inr (None, [])"
| "structural_validate A vp ctx (SetCoverage u) = Inr (None, [])"
| "structural_validate A vp ctx (SetStanding i s) = Inr (None, validate_set_standing ctx i)"
| "structural_validate A vp ctx (SetProjectTruthScope sc d) =
     Inr (None, validate_set_project_truth_scope ctx sc d)"
| "structural_validate A vp ctx (SetOntology ont) = uncited (validate_set_ontology ctx ont)"

fun authoring_validate :: "adapters \<Rightarrow> proposal_validator \<Rightarrow> op_ctx \<Rightarrow> graph_op \<Rightarrow> report res" where
  "authoring_validate A vp ctx (CreateNodes ns) = author_create_nodes A ctx ns"
| "authoring_validate A vp ctx (UpdateNodes us) = author_update_nodes A ctx us"
| "authoring_validate A vp ctx (CreateEdges es) = Inr (author_create_edges ctx es)"
| "authoring_validate A vp ctx (CreateProposals qs) = author_create_proposals vp ctx qs"
| "authoring_validate A vp ctx _ = Inr []"

definition legacy_only :: "graph_op \<Rightarrow> bool" where
  "legacy_only op = (case op of CreateAmbiguities _ \<Rightarrow> True | ResolveAmbiguities _ \<Rightarrow> True | _ \<Rightarrow> False)"

end
