(* ===== verification/Approval.thy ===== *)
theory Approval
  imports OpRules
begin

text \<open>
  \<open>core/validation/approval.py\<close>: the shapes a human approval patch may have. A patch either
  names the direct Decision choice, is one standalone human action, or resolves exactly one
  proposal, replaying the operations the proposal stored.
\<close>

section \<open>Equality of operations\<close>

text \<open>
  Model equality compares field values: an unset field equals its default, dictionaries
  ignore order, and numbers compare by value.
\<close>

definition update_eq :: "node_update \<Rightarrow> node_update \<Rightarrow> bool" where
  "update_eq u v \<longleftrightarrow> nu_id u = nu_id v \<and> py_eq (VDict (nu_changes u)) (VDict (nu_changes v))
     \<and> nu_cause u = nu_cause v \<and> nu_base_updated_rev u = nu_base_updated_rev v"

definition edge_eq :: "new_edge \<Rightarrow> new_edge \<Rightarrow> bool" where
  "edge_eq e f \<longleftrightarrow>
     (case ne_id e of None \<Rightarrow> None | Some i \<Rightarrow> i) = (case ne_id f of None \<Rightarrow> None | Some i \<Rightarrow> i)
     \<and> e\<lparr>ne_id := None\<rparr> = f\<lparr>ne_id := None\<rparr>"

definition created_eq :: "created_node \<Rightarrow> created_node \<Rightarrow> bool" where
  "created_eq a b \<longleftrightarrow>
     py_eq (VModel (node_fields VModel (cn_node a))) (VModel (node_fields VModel (cn_node b)))"

definition coverage_eq :: "coverage_update \<Rightarrow> coverage_update \<Rightarrow> bool" where
  "coverage_eq a b \<longleftrightarrow>
    (let dflt = (\<lambda>d x. case x of None \<Rightarrow> d | Some v \<Rightarrow> v) in
     dflt [] (cu_repositories_seen a) = dflt [] (cu_repositories_seen b)
     \<and> dflt [] (cu_repositories_never_seen a) = dflt [] (cu_repositories_never_seen b)
     \<and> dflt [] (cu_sessions_read a) = dflt [] (cu_sessions_read b)
     \<and> dflt [] (cu_sessions_skipped a) = dflt [] (cu_sessions_skipped b)
     \<and> (case cu_earliest_timestamp a of None \<Rightarrow> None | Some t \<Rightarrow> t)
        = (case cu_earliest_timestamp b of None \<Rightarrow> None | Some t \<Rightarrow> t)
     \<and> (case cu_note a of None \<Rightarrow> cov_note default_coverage | Some t \<Rightarrow> t)
        = (case cu_note b of None \<Rightarrow> cov_note default_coverage | Some t \<Rightarrow> t))"

definition op_eq :: "graph_op \<Rightarrow> graph_op \<Rightarrow> bool" where
  "op_eq x y = (case (x, y) of
       (UpdateNodes us, UpdateNodes vs) \<Rightarrow> list_all2 update_eq us vs
     | (CreateEdges es, CreateEdges fs) \<Rightarrow> list_all2 edge_eq es fs
     | (CreateNodes ns, CreateNodes ms) \<Rightarrow> list_all2 created_eq ns ms
     | (SetCoverage a, SetCoverage b) \<Rightarrow> coverage_eq a b
     | _ \<Rightarrow> x = y)"

definition ops_eq :: "graph_op list \<Rightarrow> graph_op list \<Rightarrow> bool" where
  "ops_eq xs ys = list_all2 op_eq xs ys"

section \<open>The direct Decision choice\<close>

fun updates_of :: "graph_op \<Rightarrow> node_update list list" where
  "updates_of (UpdateNodes us) = [us]"
| "updates_of _ = []"

fun standings_of :: "graph_op \<Rightarrow> string list" where
  "standings_of (SetStanding i _) = [i]"
| "standings_of _ = []"

fun resolution_ops_of :: "graph_op \<Rightarrow> proposal_resolution list list" where
  "resolution_ops_of (ResolveProposals rs) = [rs]"
| "resolution_ops_of _ = []"

definition update_ops :: "patch \<Rightarrow> node_update list list" where
  "update_ops p = concat (map updates_of (p_ops p))"

definition standing_ops :: "patch \<Rightarrow> string list" where
  "standing_ops p = concat (map standings_of (p_ops p))"

definition resolution_ops :: "patch \<Rightarrow> proposal_resolution list list" where
  "resolution_ops p = concat (map resolution_ops_of (p_ops p))"

definition refuse_if :: "bool \<Rightarrow> int option \<Rightarrow> string list \<Rightarrow> report" where
  "refuse_if b rv nodes = reject_if b ''invalid-direct-decision-choice'' rv nodes"

text \<open>One withdrawal inside a direct choice: the proposals seen so far and the messages.\<close>

definition check_withdrawal ::
  "graph_state \<Rightarrow> string \<Rightarrow> int option \<Rightarrow> proposal_resolution \<Rightarrow> string list \<times> report
     \<Rightarrow> string list \<times> report" where
  "check_withdrawal st i rv r acc =
     (pres_id r # fst acc, snd acc
       @ refuse_if (pres_id r \<in> set (fst acc)
           \<or> (case dget (gs_proposals st) (pres_id r) of
                None \<Rightarrow> True | Some q \<Rightarrow> pr_status q \<noteq> Pending \<or> \<not> proposal_updates_node q i)) rv [i]
       @ refuse_if (pres_status r \<noteq> Withdrawn) rv [i]
       @ refuse_if (case pres_reason r of None \<Rightarrow> True | Some t \<Rightarrow> py_strip t = []) rv [i])"

definition check_withdrawals ::
  "graph_state \<Rightarrow> string \<Rightarrow> int option \<Rightarrow> proposal_resolution list \<Rightarrow> string list \<times> report
     \<Rightarrow> string list \<times> report" where
  "check_withdrawals st i rv rs acc =
     (if rs = [] then (fst acc, snd acc @ refuse_if True rv [i])
      else fold (check_withdrawal st i rv) rs acc)"

definition pending_targeting :: "graph_state \<Rightarrow> string \<Rightarrow> string list" where
  "pending_targeting st i = map pr_id (filter (\<lambda>q. pr_status q = Pending \<and> proposal_updates_node q i)
     (dvalues (gs_proposals st)))"

definition choice_change_checks :: "project_node \<Rightarrow> decision \<Rightarrow> doc \<Rightarrow> int option \<Rightarrow> report" where
  "choice_change_checks n d changes rv =
    (let allowed = human_editable_node_fields (n_body n) @ [''extension_fields'', ''selected_option'', ''status''];
         selected = get_value changes ''selected_option'' (vopt (dec_selected_option d));
         options = get_value changes ''options'' (vstrs (dec_options d)) in
     refuse_if (\<exists>k \<in> set (map fst changes). k \<notin> set allowed) rv [n_id n]
     @ refuse_if (dget changes ''status'' \<noteq> Some (VStr ''decided'')) rv [n_id n]
     @ refuse_if (\<not> (case selected of VStr s \<Rightarrow> py_strip s \<noteq> [] | _ \<Rightarrow> False)
         \<or> \<not> is_vlist options \<or> \<not> py_member selected options) rv [n_id n])"

definition choice_node_checks ::
  "graph_state \<Rightarrow> patch \<Rightarrow> node_update \<Rightarrow> project_node \<Rightarrow> decision \<Rightarrow> int option \<Rightarrow> report" where
  "choice_node_checks st p u n d rv =
     refuse_if (dec_status d = ''superseded'') rv [n_id n]
     @ refuse_if (nu_base_updated_rev u \<noteq> Some (n_updated_rev n)) rv [n_id n]
     @ (if nu_changes u = [] then refuse_if True rv [n_id n]
        else
          choice_change_checks n d (nu_changes u) rv
          @ refuse_if (case standing_ops p of [] \<Rightarrow> False | s # _ \<Rightarrow> s \<noteq> n_id n) rv [n_id n]
          @ (case fold (check_withdrawals st (n_id n) rv) (resolution_ops p) ([], []) of
               (seen, msgs) \<Rightarrow> msgs
                 @ refuse_if (set seen \<noteq> set (pending_targeting st (n_id n))) rv [n_id n]))"

definition validate_direct_decision_choice :: "graph_state \<Rightarrow> patch \<Rightarrow> int option \<Rightarrow> report" where
  "validate_direct_decision_choice st p rv =
    (let names = map op_name (p_ops p) in
     if \<not> permits p DECIDE_DECISION then refuse_if True rv []
     else if names = [] \<or> \<not> set names \<subseteq> {''update_nodes'', ''resolve_proposals'', ''set_standing''}
     then refuse_if True rv []
     else case update_ops p of
       [us] \<Rightarrow>
         if length (standing_ops p) > 1 then refuse_if True rv []
         else (case us of
           [u] \<Rightarrow>
             if nu_base_updated_rev u = None \<or> nu_cause u \<noteq> None then refuse_if True rv []
             else (case dget (gs_nodes st) (nu_id u) of
               None \<Rightarrow> refuse_if True rv []
             | Some n \<Rightarrow> (case n_body n of
                 Decision d \<Rightarrow> choice_node_checks st p u n d rv
               | _ \<Rightarrow> refuse_if True rv []))
         | _ \<Rightarrow> refuse_if True rv [])
     | _ \<Rightarrow> refuse_if True rv [])"

section \<open>Direct edits\<close>

definition json_source_ref :: "adapters \<Rightarrow> source_ref \<Rightarrow> doc" where
  "json_source_ref A r = dset ''timestamp'' (VStr (ad_isoformat A (sr_timestamp r))) (dump_source_ref r)"

definition json_time :: "adapters \<Rightarrow> py_time option \<Rightarrow> pyval" where
  "json_time A t = (case t of None \<Rightarrow> VNone | Some x \<Rightarrow> VStr (ad_isoformat A x))"

definition json_attempt :: "adapters \<Rightarrow> attempt \<Rightarrow> doc" where
  "json_attempt A a =
     dset ''started_at'' (json_time A (at_started_at a))
      (dset ''finished_at'' (json_time A (at_finished_at a))
        (dset ''source_refs'' (VList (map (\<lambda>r. VDict (json_source_ref A r)) (at_source_refs a)))
          (dump_attempt VDict a)))"

definition cancelled_attempt :: "adapters \<Rightarrow> attempt \<Rightarrow> doc \<Rightarrow> doc" where
  "cancelled_attempt A before after =
     dset ''failure_reason'' (get_value after ''failure_reason'' VNone)
      (dset ''finished_at'' (get_value after ''finished_at'' VNone)
        (dset ''status'' (VStr ''cancelled'') (json_attempt A before)))"

text \<open>
  The loop over the attempt records: \<open>None\<close> when it refused and returned, otherwise the
  number of released attempts.
\<close>

fun released_attempts :: "adapters \<Rightarrow> attempt list \<Rightarrow> pyval list \<Rightarrow> nat option" where
  "released_attempts A (b # bs) (a # as) = (case a of
       VDict d \<Rightarrow>
         if py_eq (VDict d) (VDict (json_attempt A b)) then released_attempts A bs as
         else if at_status b \<notin> set active_attempt_statuses
             \<or> \<not> py_eq (VDict d) (VDict (cancelled_attempt A b d))
             \<or> get_value d ''finished_at'' VNone = VNone then None
         else map_option Suc (released_attempts A bs as)
     | _ \<Rightarrow> None)"
| "released_attempts A _ _ = Some 0"

definition validate_attempt_release ::
  "adapters \<Rightarrow> project_node \<Rightarrow> pyval \<Rightarrow> int option \<Rightarrow> report" where
  "validate_attempt_release A n raw rv =
     reject_if (case n_body n of
         Experiment x \<Rightarrow> (case raw of
             VList as \<Rightarrow> length as \<noteq> length (exp_attempts x)
               \<or> released_attempts A (exp_attempts x) as \<in> {None, Some 0}
           | _ \<Rightarrow> True)
       | _ \<Rightarrow> True) ''invalid-attempt-release'' rv [n_id n]"

definition edit_change_checks ::
  "adapters \<Rightarrow> patch \<Rightarrow> project_node \<Rightarrow> doc \<Rightarrow> int option \<Rightarrow> vmode \<Rightarrow> report" where
  "edit_change_checks A p n changes rv md =
     reject_if (md = Admission \<and> as_decision (Some n) \<noteq> None
         \<and> (dhas ''selected_option'' changes \<or> dget changes ''status'' = Some (VStr ''decided'')))
       ''unnamed-decision-action'' rv [n_id n]
     @ (if set (map fst changes) = {''attempts''}
        then validate_attempt_release A n (get_value changes ''attempts'' VNone) rv
        else
          reject_if (\<exists>k \<in> set (map fst changes).
              k \<notin> set (human_editable_node_fields (n_body n)) \<and> k \<noteq> ''extension_fields'')
            ''non-prose-node-edit'' rv []
          @ reject_if (list_all (unchanged_field n) changes) ''empty-node-edit'' rv [])"

definition validate_direct_node_edit ::
  "adapters \<Rightarrow> graph_state \<Rightarrow> patch \<Rightarrow> node_update list \<Rightarrow> int option \<Rightarrow> vmode \<Rightarrow> report" where
  "validate_direct_node_edit A st p us rv md = (case us of
       [u] \<Rightarrow>
         reject_if (nu_base_updated_rev u = None \<or> nu_cause u \<noteq> None) ''invalid-direct-node-edit'' rv []
         @ (case dget (gs_nodes st) (nu_id u) of
              None \<Rightarrow> [report_reject ''unknown-node'' rv [] []]
            | Some n \<Rightarrow>
                reject_if (nu_base_updated_rev u \<noteq> Some (n_updated_rev n)) ''stale-node-edit'' rv []
                @ (if nu_changes u = [] then [report_reject ''empty-node-edit'' rv [] []]
                   else edit_change_checks A p n (nu_changes u) rv md))
     | _ \<Rightarrow> [report_reject ''invalid-direct-node-edit'' rv [] []])"

definition check_direct_create :: "created_node list \<Rightarrow> int option \<Rightarrow> report" where
  "check_direct_create ns rv = (case ns of
       [c] \<Rightarrow> reject_if (n_extension_type (cn_node c) = None) ''invalid-direct-node-create'' rv []
         @ reject_if (n_standing (cn_node c) \<noteq> Asserted \<or> n_source_refs (cn_node c) \<noteq> [])
             ''invalid-direct-node-create'' rv []
     | _ \<Rightarrow> [report_reject ''invalid-direct-node-create'' rv [] []])"

definition standalone_op :: "vmode \<Rightarrow> graph_op \<Rightarrow> bool" where
  "standalone_op md op = (case op of
       SetStanding _ _ \<Rightarrow> True | RemoveNodes _ \<Rightarrow> True | SetOntology _ \<Rightarrow> True
     | SetProjectTruthScope _ _ \<Rightarrow> True | ResolveAmbiguities _ \<Rightarrow> md = Replay | _ \<Rightarrow> False)"

definition check_staged_edit ::
  "adapters \<Rightarrow> graph_state \<Rightarrow> patch \<Rightarrow> int option \<Rightarrow> vmode \<Rightarrow> report" where
  "check_staged_edit A st p rv md =
    (case (update_ops p, standing_ops p) of
       ([us], ss) \<Rightarrow>
         if length ss > 1 then [report_reject ''invalid-standalone-review'' rv [] []]
         else validate_direct_node_edit A st p us rv md
           @ reject_if (case (ss, us) of (s # _, u # _) \<Rightarrow> s \<noteq> nu_id u | _ \<Rightarrow> False)
               ''invalid-standalone-review'' rv []
     | _ \<Rightarrow> [report_reject ''invalid-standalone-review'' rv [] []])"

definition validate_standalone ::
  "adapters \<Rightarrow> graph_state \<Rightarrow> patch \<Rightarrow> int option \<Rightarrow> vmode \<Rightarrow> report" where
  "validate_standalone A st p rv md =
    (let names = map op_name (p_ops p);
         fallback = (if names \<noteq> [] \<and> set names \<subseteq> {''update_nodes'', ''set_standing''}
           then check_staged_edit A st p rv md
           else [report_reject ''invalid-standalone-review'' rv [] []]) in
     case p_ops p of
       [op] \<Rightarrow>
         if standalone_op md op then []
         else (case op of CreateNodes ns \<Rightarrow> check_direct_create ns rv | _ \<Rightarrow> fallback)
     | _ \<Rightarrow> fallback)"

section \<open>Resolving a proposal\<close>

definition semantic_ops :: "patch \<Rightarrow> graph_op list" where
  "semantic_ops p = filter (\<lambda>op. case op of
       ResolveProposals _ \<Rightarrow> False | SetStanding _ _ \<Rightarrow> False | _ \<Rightarrow> True) (p_ops p)"

definition op_updates :: "graph_op list \<Rightarrow> node_update list" where
  "op_updates ops = concat (concat (map updates_of ops))"

definition validate_approved_decision_result ::
  "graph_state \<Rightarrow> graph_op list \<Rightarrow> int option \<Rightarrow> report" where
  "validate_approved_decision_result st ops rv = concat (map (\<lambda>u.
     case dget (gs_nodes st) (nu_id u) of
       None \<Rightarrow> []
     | Some n \<Rightarrow> reject_if (case as_decision (Some n) of
           None \<Rightarrow> False | Some d \<Rightarrow> decision_transition_error d (nu_changes u))
         ''incoherent-decision-approval'' rv [n_id n]) (op_updates ops))"

definition writes_decision_outcome :: "graph_state \<Rightarrow> graph_op list \<Rightarrow> bool" where
  "writes_decision_outcome st ops \<longleftrightarrow> (\<exists>u \<in> set (op_updates ops).
     as_decision (dget (gs_nodes st) (nu_id u)) \<noteq> None
     \<and> (dhas ''selected_option'' (nu_changes u) \<or> dget (nu_changes u) ''status'' = Some (VStr ''decided'')))"

definition check_approved_replay ::
  "graph_state \<Rightarrow> patch \<Rightarrow> proposal \<Rightarrow> int option \<Rightarrow> vmode \<Rightarrow> report" where
  "check_approved_replay st p q rv md =
    (let sem = semantic_ops p; normalized = normalized_decision_proposal_ops st q;
         stored = graph_operations_from_proposal (pr_ops q);
         verbatim = ops_eq sem stored; requires_normalization = (\<not> ops_eq normalized stored);
         outcome = writes_decision_outcome st sem in
     (if \<not> verbatim \<and> \<not> ops_eq sem normalized
      then [report_reject ''proposal-replay-mismatch'' rv [] []]
      else if verbatim \<and> requires_normalization \<and> md = Admission
      then [report_reject ''unnormalized-decision-approval'' rv [] []]
      else if \<not> (verbatim \<and> requires_normalization)
      then validate_approved_decision_result st sem rv else [])
     @ (if md = Admission \<and> outcome then
          (if p_human_action p \<noteq> Some DecisionChoice then [report_reject ''unnamed-decision-action'' rv [] []]
           else reject_if (\<not> permits p DECIDE_DECISION) ''decision-action-refused'' rv [])
        else reject_if (p_human_action p = Some DecisionChoice \<and> \<not> outcome)
          ''invalid-direct-decision-choice'' rv []))"

definition validate_resolution ::
  "graph_state \<Rightarrow> patch \<Rightarrow> proposal_resolution \<Rightarrow> int option \<Rightarrow> vmode \<Rightarrow> report" where
  "validate_resolution st p r rv md = (case dget (gs_proposals st) (pres_id r) of
       None \<Rightarrow> [report_reject ''proposal-not-pending'' rv [] []]
     | Some q \<Rightarrow>
        if pr_status q \<noteq> Pending then [report_reject ''proposal-not-pending'' rv [] []]
        else
          (let stale = proposal_is_stale st q; status = pres_status r in
           reject_if (stale \<and> status \<noteq> Withdrawn) ''stale-proposal'' rv []
           @ (if status = Approved then check_approved_replay st p q rv md else [])
           @ reject_if (status \<in> {Rejected, Withdrawn} \<and> semantic_ops p \<noteq> []) ''rejected-proposal-has-ops'' rv []
           @ (if status = Withdrawn \<and> \<not> stale then [report_reject ''invalid-stale-withdrawal'' rv [] []]
              else reject_if (status \<notin> {Approved, Rejected, Withdrawn}) ''invalid-human-resolution'' rv [])))"

definition validate_approval_shape ::
  "adapters \<Rightarrow> graph_state \<Rightarrow> patch \<Rightarrow> vmode \<Rightarrow> report" where
  "validate_approval_shape A st p md =
    (let rv = rev_or_none (p_revision p);
         approved = (\<exists>r \<in> set (concat (resolution_ops p)). pres_status r = Approved) in
     if p_human_action p = Some DecisionChoice \<and> \<not> approved
     then validate_direct_decision_choice st p rv
     else case resolution_ops p of
       [] \<Rightarrow> validate_standalone A st p rv md
     | [[r]] \<Rightarrow> validate_resolution st p r rv md
     | _ \<Rightarrow> [report_reject ''invalid-proposal-resolution'' rv [] []])"

end
