(* ===== verification/ExperimentLoopRules.thy ===== *)
theory ExperimentLoopRules
  imports Approval
begin

text \<open>
  \<open>core/validation/experiment_loop.py\<close>: what a patch of a bounded experiment loop may do. It
  is bound to one Experiment node and a pinned bundle of governing Decisions.
\<close>

definition terminal_attempt_statuses :: "string list" where
  "terminal_attempt_statuses = [''failed'', ''completed'', ''cancelled'', ''superseded'']"

definition attempt_close_fields :: "string list" where
  "attempt_close_fields = [''status'', ''source_refs'', ''outcome'', ''failure_reason'', ''finished_at'']"

definition allowed_experiment_fields :: "patch \<Rightarrow> vmode \<Rightarrow> string list" where
  "allowed_experiment_fields p md = [''attempts'', ''status'', ''current_summary'', ''next_action'']
     @ (if md = Replay \<and> p_schema_generation p = 1 then LEGACY_COMPATIBILITY_UPDATE_FIELDS else [])"

text \<open>\<open>before.model_dump(exclude=_ATTEMPT_CLOSE_FIELDS)\<close>.\<close>

definition attempt_fixed :: "attempt \<Rightarrow> doc" where
  "attempt_fixed a = filter (\<lambda>kv. fst kv \<notin> set attempt_close_fields) (dump_attempt VDict a)"

definition check_attempt_pair :: "string \<Rightarrow> int option \<Rightarrow> attempt \<times> attempt \<Rightarrow> report" where
  "check_attempt_pair x rv ba = (case ba of (b, a) \<Rightarrow>
     if attempt_fixed b \<noteq> attempt_fixed a then [report_reject ''experiment-loop-attempt-mutation'' rv [x] []]
     else reject_if (b \<noteq> a \<and> (at_status b \<in> set terminal_attempt_statuses
         \<or> at_status a \<notin> set terminal_attempt_statuses)) ''experiment-loop-attempt-close'' rv [x])"

definition check_appended_attempt ::
  "string \<Rightarrow> decision_pin list \<Rightarrow> int option \<Rightarrow> attempt \<Rightarrow> report" where
  "check_appended_attempt x pinned rv a =
     reject_if (at_decision_bundle a \<noteq> pinned) ''experiment-loop-pinned-bundle'' rv
       (x # map pin_decision_id pinned)
     @ reject_if (at_attempt_kind a = ''proposal_only'' \<and> at_job_refs a \<noteq> []) ''experiment-loop-proposal-job'' rv [x]
     @ reject_if (at_attempt_kind a = ''proposal_only'' \<and> at_status a \<notin> set terminal_attempt_statuses)
         ''experiment-loop-proposal-status'' rv [x]"

definition check_attempt_list ::
  "string \<Rightarrow> attempt list \<Rightarrow> attempt list \<Rightarrow> decision_pin list \<Rightarrow> bool \<Rightarrow> int option \<Rightarrow> report" where
  "check_attempt_list x previous attempts pinned has_proposals rv =
    (let appended = drop (length previous) attempts in
     if length attempts < length previous then [report_reject ''experiment-loop-attempt-removal'' rv [x] []]
     else
       concat (map (check_attempt_pair x rv) (zip previous attempts))
       @ concat (map (check_appended_attempt x pinned rv) appended)
       @ reject_if ((\<exists>a \<in> set appended. at_attempt_kind a = ''proposal_only'') \<and> \<not> has_proposals)
           ''experiment-loop-proposal-attempt'' rv [x]
       @ reject_if (has_duplicates (map at_id attempts)) ''experiment-loop-duplicate-attempt'' rv [x])"

text \<open>Attempts that are not a list, or do not validate, are left to the node validator.\<close>

definition validate_attempts ::
  "adapters \<Rightarrow> string \<Rightarrow> experiment_node \<Rightarrow> pyval \<Rightarrow> decision_pin list \<Rightarrow> bool \<Rightarrow> int option \<Rightarrow> report res" where
  "validate_attempts A x e raw pinned has_proposals rv = (case raw of
       VList items \<Rightarrow> (case rmap (ad_attempt A) items of
           Inl ex \<Rightarrow> if ex = ValidationError then Inr [] else Inl ex
         | Inr attempts \<Rightarrow>
             Inr (check_attempt_list x (exp_attempts e) attempts pinned has_proposals rv))
     | _ \<Rightarrow> Inr [])"

definition check_pinned_update ::
  "graph_state \<Rightarrow> string \<Rightarrow> node_update \<Rightarrow> int option \<Rightarrow> report res" where
  "check_pinned_update st x u rv =
    (if set (map fst (nu_changes u)) \<noteq> {''status''}
     then Inr [report_reject ''experiment-loop-decision-action'' rv [x, nu_id u] []]
     else rbind (in_literals (dget (nu_changes u) ''status'') [''open'', ''ready'', ''revisit'']) (\<lambda>b.
       Inr (if \<not> b then [report_reject ''experiment-loop-decision-action'' rv [x, nu_id u] []]
            else reject_if (as_decision (dget (gs_nodes st) (nu_id u)) = None)
              ''experiment-loop-foreign-update'' rv [x, nu_id u])))"

definition check_loop_update ::
  "adapters \<Rightarrow> graph_state \<Rightarrow> string \<Rightarrow> experiment_node \<Rightarrow> decision_pin list \<Rightarrow> bool \<Rightarrow> string list
     \<Rightarrow> int option \<Rightarrow> node_update \<Rightarrow> report res" where
  "check_loop_update A st x e pinned has_proposals allowed rv u =
    (if nu_id u \<in> set (map pin_decision_id pinned) then check_pinned_update st x u rv
     else if nu_id u \<noteq> x then Inr [report_reject ''experiment-loop-foreign-update'' rv [x, nu_id u] []]
     else
       rbind (case dget (nu_changes u) ''attempts'' of
                None \<Rightarrow> Inr [] | Some v \<Rightarrow> validate_attempts A x e v pinned has_proposals rv) (\<lambda>r.
       Inr (reject_if (\<exists>k \<in> set (map fst (nu_changes u)). k \<notin> set allowed)
         ''experiment-loop-experiment-field'' rv [x] @ r)))"

definition check_loop_created :: "string \<Rightarrow> int option \<Rightarrow> created_node \<Rightarrow> report" where
  "check_loop_created x rv c = reject_if (n_type (cn_node c) \<notin> {''evidence'', ''blocker''})
     ''experiment-loop-created-node'' rv [x]"

text \<open>\<open>created[node.id] = node.type\<close>: the last created node of an id counts.\<close>

definition created_types :: "patch \<Rightarrow> string dict" where
  "created_types p = map (\<lambda>kc. (fst kc, n_type (cn_node (snd kc))))
     (index_by (\<lambda>c. n_id (cn_node c)) (patch_created_nodes p))"

definition SELF_ATTACHMENT_RELATIONS :: "string dict" where
  "SELF_ATTACHMENT_RELATIONS = [(''produces'', ''evidence''), (''blocked_by'', ''blocker'')]"

definition EVIDENCE_HANDOFF_RELATIONS :: "string dict" where
  "EVIDENCE_HANDOFF_RELATIONS = [(''informs'', ''decision''), (''addresses'', ''blocker'')]"

definition known_type :: "graph_state \<Rightarrow> string dict \<Rightarrow> string \<Rightarrow> string option" where
  "known_type st types i = (case dget (gs_nodes st) i of
       Some n \<Rightarrow> Some (n_type n) | None \<Rightarrow> dget types i)"

definition check_loop_edge ::
  "graph_state \<Rightarrow> string \<Rightarrow> string dict \<Rightarrow> int option \<Rightarrow> new_edge \<Rightarrow> report" where
  "check_loop_edge st x types rv e =
    (case dget SELF_ATTACHMENT_RELATIONS (ne_relation e) of
       Some t \<Rightarrow> reject_if (\<not> (ne_source e = x \<and> dget types (ne_target e) = Some t))
         ''experiment-loop-self-attachment'' rv [x, ne_target e]
     | None \<Rightarrow> (case dget EVIDENCE_HANDOFF_RELATIONS (ne_relation e) of
         Some t \<Rightarrow> reject_if (\<not> (dget types (ne_source e) = Some ''evidence''
             \<and> known_type st types (ne_target e) = Some t))
           ''experiment-loop-evidence-handoff'' rv [x, ne_source e, ne_target e]
       | None \<Rightarrow> reject_if ((case dget RELATION_SPEC (ne_relation e) of
             Some s \<Rightarrow> Some (rs_layer s) | None \<Rightarrow> declared_layer (gs_ontology st) (ne_relation e)) \<noteq> Some Epistemic)
           ''experiment-loop-edge-layer'' rv [x]))"

definition tested_hypothesis_ids :: "graph_state \<Rightarrow> string \<Rightarrow> string list" where
  "tested_hypothesis_ids st x = map e_target
     (filter (\<lambda>e. e_source e = x \<and> e_relation e = ''tests'') (dvalues (gs_edges st)))"

text \<open>The ids of the evidence edges this patch asserts into one target.\<close>

definition grounding_edge_ids :: "graph_state \<Rightarrow> patch \<Rightarrow> string \<Rightarrow> string list" where
  "grounding_edge_ids st p target = map new_edge_id (filter (\<lambda>e. ne_target e = target
     \<and> ne_relation e \<in> set EVIDENCE_RELATIONS
     \<and> known_type st (created_types p) (ne_source e) = Some ''evidence'')
     (concat (map created_edges_of (p_ops p))))"

fun op_update_nodes :: "proposal_op \<Rightarrow> node_update list option" where
  "op_update_nodes (PContentChange _ us) = Some us"
| "op_update_nodes (PStatusChange _ us) = Some us"
| "op_update_nodes _ = None"

definition proposal_update_targets :: "proposal_op list \<Rightarrow> string list" where
  "proposal_update_targets ops =
     (if list_ex (\<lambda>op. op_update_nodes op \<in> {None, Some []}) ops then []
      else remdups (map nu_id (concat (map proposal_op_updates ops))))"

definition check_belief_update ::
  "string list \<Rightarrow> string list \<Rightarrow> int option \<Rightarrow> node_update \<Rightarrow> report" where
  "check_belief_update related grounding rv u =
     (if set (map fst (nu_changes u)) \<noteq> {''status''}
      then [report_reject ''experiment-loop-belief-proposal-operations'' rv related []]
      else reject_if (case nu_cause u of Some (EvidenceEdgeCause r) \<Rightarrow> r \<notin> set grounding | _ \<Rightarrow> True)
        ''experiment-loop-belief-cause'' rv related)"

definition validate_belief_proposal ::
  "graph_state \<Rightarrow> patch \<Rightarrow> string \<Rightarrow> proposal \<Rightarrow> string list \<Rightarrow> int option \<Rightarrow> report" where
  "validate_belief_proposal st p x q targets rv =
    (let related = x # sort targets in
     case targets of
       [h] \<Rightarrow>
         reject_if (grounding_edge_ids st p h = []) ''experiment-loop-belief-grounding'' rv related
         @ concat (map (check_belief_update related (grounding_edge_ids st p h) rv)
             (concat (map proposal_op_updates (pr_ops q))))
     | _ \<Rightarrow> [report_reject ''experiment-loop-belief-proposal-scope'' rv related []])"

definition check_loop_proposal ::
  "graph_state \<Rightarrow> patch \<Rightarrow> string \<Rightarrow> int option \<Rightarrow> proposal \<Rightarrow> report" where
  "check_loop_proposal st p x rv q =
    (let targets = proposal_update_targets (pr_ops q) in
     if targets \<noteq> [] \<and> set targets \<subseteq> set (tested_hypothesis_ids st x)
     then validate_belief_proposal st p x q targets rv
     else [report_reject ''experiment-loop-proposal-operations'' rv (x # sort targets) []])"

definition has_proposals :: "patch \<Rightarrow> bool" where
  "has_proposals p \<longleftrightarrow> (\<exists>op \<in> set (p_ops p). case op of CreateProposals qs \<Rightarrow> qs \<noteq> [] | _ \<Rightarrow> False)"

fun check_loop_op ::
  "adapters \<Rightarrow> graph_state \<Rightarrow> patch \<Rightarrow> string \<Rightarrow> experiment_node \<Rightarrow> decision_pin list \<Rightarrow> vmode
     \<Rightarrow> int option \<Rightarrow> graph_op \<Rightarrow> report res" where
  "check_loop_op A st p x e pinned md rv (UpdateNodes us) =
     rconcat (check_loop_update A st x e pinned (has_proposals p) (allowed_experiment_fields p md) rv) us"
| "check_loop_op A st p x e pinned md rv (CreateNodes ns) = Inr (concat (map (check_loop_created x rv) ns))"
| "check_loop_op A st p x e pinned md rv (CreateEdges es) =
     Inr (concat (map (check_loop_edge st x (created_types p) rv) es))"
| "check_loop_op A st p x e pinned md rv (CreateProposals qs) =
     Inr (concat (map (check_loop_proposal st p x rv) qs))"
| "check_loop_op A st p x e pinned md rv _ = Inr [report_reject ''experiment-loop-operation'' rv [x] []]"

definition validate_experiment_loop_authority ::
  "adapters \<Rightarrow> graph_state \<Rightarrow> patch \<Rightarrow> string option \<Rightarrow> decision_pin list \<Rightarrow> vmode \<Rightarrow> report res" where
  "validate_experiment_loop_authority A st p control pinned md =
    (let rv = rev_or_none (p_revision p); bound = (case control of Some c \<Rightarrow> if c = [] then [] else [c] | None \<Rightarrow> []);
         node = (case bound of [c] \<Rightarrow> dget (gs_nodes st) c | _ \<Rightarrow> None) in
     case node of
       None \<Rightarrow> Inr [report_reject ''experiment-loop-control-node'' rv bound []]
     | Some n \<Rightarrow> (case n_body n of
         Experiment e \<Rightarrow>
           rbind (rconcat (check_loop_op A st p (n_id n) e pinned md rv) (p_ops p)) (\<lambda>r.
           Inr (reject_if (has_duplicates (map pin_decision_id pinned)) ''experiment-loop-decision-bundle'' rv
             (n_id n # map pin_decision_id pinned) @ r))
       | _ \<Rightarrow> Inr [report_reject ''experiment-loop-control-node'' rv bound []]))"

end
