(* ===== verification/PatchRules.thy ===== *)
theory PatchRules
  imports ExperimentLoopRules
begin

text \<open>
  \<open>core/validation/patch.py\<close>: validating a patch as a whole. Operations are judged in
  written order, each against the graph staged so far, and an operation that was rejected
  is not staged. An exception of a rule turns the whole report into one rejection.
\<close>

section \<open>Shape of the patch\<close>

fun producer_author :: "producer \<Rightarrow> author option" where
  "producer_author AgentProducer = Some Agent"
| "producer_author HumanProducer = Some Human"
| "producer_author SystemProducer = None"

definition validate_authorship :: "patch \<Rightarrow> int option \<Rightarrow> report" where
  "validate_authorship p rv =
    (if p_kind p = Identity then
       reject_if (p_producer p \<noteq> SystemProducer) ''wrong-producer'' rv []
       @ reject_if (p_author p \<noteq> None) ''wrong-author'' rv []
     else
       reject_if (p_author p \<noteq> Some (if p_kind p = Approval then Human else Agent)) ''wrong-author'' rv []
       @ (if p_producer p = SystemProducer then [report_reject ''system-producer-forbidden'' rv [] []]
          else reject_if (producer_author (p_producer p) \<noteq> p_author p) ''producer-author-mismatch'' rv []))"

definition validate_identity_shape :: "patch \<Rightarrow> int option \<Rightarrow> report" where
  "validate_identity_shape p rv =
    (if p_kind p \<noteq> Identity then
       reject_if (p_project_identity p \<noteq> None) ''unexpected-project-identity'' rv []
       @ reject_if (p_project_home_transfer p \<noteq> None) ''unexpected-project-home-transfer'' rv []
     else
       (if p_project_identity p = None \<and> p_project_home_transfer p = None
        then [report_reject ''missing-project-identity'' rv [] []]
        else reject_if (p_project_identity p \<noteq> None \<and> p_project_home_transfer p \<noteq> None)
          ''conflicting-identity-payloads'' rv [])
       @ reject_if (p_ops p \<noteq> []) ''identity-has-operations'' rv []
       @ reject_if (p_run_truth_scope p \<noteq> [] \<or> p_repositories_read p \<noteq> []) ''identity-has-run-scope'' rv []
       @ reject_if (p_processed_cursors p \<noteq> []) ''identity-has-cursors'' rv []
       @ reject_if (p_source_operation_id p \<noteq> None \<or> p_source_effect_id p \<noteq> None
           \<or> p_source_effect_sha256 p \<noteq> None) ''identity-has-operation-id'' rv []
       @ reject_if (p_human_action p \<noteq> None) ''identity-has-human-action'' rv []
       @ reject_if (p_agent_action p \<noteq> None) ''identity-has-agent-action'' rv []
       @ reject_if (p_experiment_control_node_id p \<noteq> None \<or> p_experiment_decision_bundle p \<noteq> [])
           ''identity-has-experiment-control'' rv []
       @ reject_if (p_authorized_by p \<noteq> None \<or> p_profile p \<noteq> None \<or> p_task_id p \<noteq> None)
           ''identity-has-attribution'' rv [])"

definition validate_attribution_shape :: "patch \<Rightarrow> int option \<Rightarrow> report" where
  "validate_attribution_shape p rv =
    (if p_kind p = Identity then []
     else
       reject_if ((p_source_effect_id p = None) \<noteq> (p_source_effect_sha256 p = None)) ''invalid-source-effect'' rv []
       @ reject_if (p_source_effect_id p \<noteq> None
           \<and> (p_author p \<noteq> Some Agent \<or> p_source_operation_id p \<in> {None, Some []})) ''invalid-source-effect'' rv []
       @ (if p_authorized_by p = None \<and> p_profile p = None \<and> p_task_id p = None then []
          else if p_kind p = Approval then
            reject_if (p_authorized_by p = None \<or> p_profile p \<noteq> None \<or> p_task_id p \<noteq> None)
              ''invalid-human-attribution'' rv []
          else reject_if (p_authorized_by p = None \<or> p_profile p = None \<or> p_task_id p \<in> {None, Some []})
            ''invalid-agent-attribution'' rv []))"

definition has_declared_decision_outcome :: "graph_state \<Rightarrow> patch \<Rightarrow> bool" where
  "has_declared_decision_outcome st p \<longleftrightarrow>
    (let ids = map n_id (filter (\<lambda>n. as_decision (Some n) \<noteq> None) (dvalues (gs_nodes st)))
       @ map (\<lambda>c. n_id (cn_node c)) (filter (\<lambda>c. n_type (cn_node c) = ''decision'') (patch_created_nodes p)) in
     \<exists>u \<in> set (op_updates (p_ops p)). nu_id u \<in> set ids
       \<and> (dget (nu_changes u) ''status'' = Some (VStr ''decided'')
          \<or> get_value (nu_changes u) ''selected_option'' VNone \<noteq> VNone))"

definition validate_declared_agent_action :: "graph_state \<Rightarrow> patch \<Rightarrow> int option \<Rightarrow> report" where
  "validate_declared_agent_action st p rv =
    (let outcome = has_declared_decision_outcome st p in
     if p_human_action p \<noteq> None \<and> p_agent_action p \<noteq> None
     then [report_reject ''conflicting-authority-actions'' rv [] []]
     else
       reject_if (p_human_action p \<noteq> None \<and> (p_kind p \<noteq> Approval \<or> p_author p \<noteq> Some Human))
         ''invalid-human-action'' rv []
       @ reject_if (p_author p = Some Agent \<and> p_profile p = Some Orchestrator \<and> outcome
           \<and> p_agent_action p \<noteq> Some DecisionChoice) ''missing-decision-action'' rv []
       @ (if p_agent_action p = None then []
          else if p_author p \<noteq> Some Agent \<or> p_profile p \<noteq> Some Orchestrator
          then [report_reject ''invalid-agent-action'' rv [] []]
          else reject_if (\<not> outcome) ''unused-agent-action'' rv []))"

definition validate_declared_scope :: "string list \<Rightarrow> patch \<Rightarrow> int option \<Rightarrow> report" where
  "validate_declared_scope scope p rv =
    (if p_kind p = Identity then []
     else if p_kind p = Approval then
       reject_if (p_run_truth_scope p \<noteq> [] \<or> p_repositories_read p \<noteq> []) ''approval-has-run-scope'' rv []
     else
       reject_if (p_run_truth_scope p = []) ''empty-run-scope'' rv []
       @ reject_if (\<not> set (p_run_truth_scope p) \<subseteq> set scope) ''run-scope-outside-project'' rv []
       @ reject_if (\<not> set (p_repositories_read p) \<subseteq> set (p_run_truth_scope p)) ''read-outside-run-scope'' rv [])"

section \<open>Operations in written order\<close>

text \<open>The name of an action, by which the code sorts a refused set.\<close>

definition action_name :: "graph_action \<Rightarrow> string" where
  "action_name a = (case a of
       CREATE_NODE \<Rightarrow> ''create_node'' | UPDATE_NODE \<Rightarrow> ''update_node''
     | UPDATE_PROTECTED_EPISTEMIC \<Rightarrow> ''update_protected_epistemic''
     | DECIDE_DECISION \<Rightarrow> ''decide_decision'' | QUEUE_DECISION \<Rightarrow> ''queue_decision''
     | REMOVE_NODE \<Rightarrow> ''remove_node'' | REMOVE_PROTECTED_EPISTEMIC \<Rightarrow> ''remove_protected_epistemic''
     | SUPERSEDE_NODE \<Rightarrow> ''supersede_node''
     | SUPERSEDE_PROTECTED_EPISTEMIC \<Rightarrow> ''supersede_protected_epistemic''
     | MERGE_NODE \<Rightarrow> ''merge_node'' | MERGE_PROTECTED_EPISTEMIC \<Rightarrow> ''merge_protected_epistemic''
     | CREATE_EDGE \<Rightarrow> ''create_edge'' | REMOVE_EDGE \<Rightarrow> ''remove_edge''
     | RESTRUCTURE_PROTECTED_EPISTEMIC \<Rightarrow> ''restructure_protected_epistemic''
     | SET_STANDING \<Rightarrow> ''set_standing'' | CREATE_PROPOSAL \<Rightarrow> ''create_proposal''
     | RESOLVE_PROPOSAL \<Rightarrow> ''resolve_proposal'' | WITHDRAW_PROPOSAL \<Rightarrow> ''withdraw_proposal''
     | UPSERT_GLOSSARY \<Rightarrow> ''upsert_glossary'' | SET_COVERAGE \<Rightarrow> ''set_coverage''
     | SET_PROJECT_TRUTH_SCOPE \<Rightarrow> ''set_project_truth_scope'' | SET_ONTOLOGY \<Rightarrow> ''set_ontology''
     | CREATE_AMBIGUITY \<Rightarrow> ''create_ambiguity'' | RESOLVE_AMBIGUITY \<Rightarrow> ''resolve_ambiguity'')"

definition validate_operation_authority :: "op_ctx \<Rightarrow> graph_op \<Rightarrow> report res" where
  "validate_operation_authority ctx op =
    (if cx_mode ctx \<noteq> Admission then Inr []
     else case operation_actions (cx_initial_state ctx) (cx_patch ctx) op of
       Inl e \<Rightarrow> if e \<in> {ValueError, ValidationError} then Inr [] else Inl e
     | Inr as \<Rightarrow> Inr (concat (map (\<lambda>a. reject_if (\<not> permits (cx_patch ctx) a)
         ''graph-action-refused'' (cx_revision ctx) []) (sort_key action_name as))))"

text \<open>Every exception of the model is one of the four classes the staging step catches.\<close>

definition stage_operation :: "adapters \<Rightarrow> graph_op \<Rightarrow> op_ctx \<Rightarrow> op_ctx" where
  "stage_operation A op ctx = (case apply_valid_operation A (cx_state ctx) (cx_patch ctx) op of
       Inl e \<Rightarrow> ctx\<lparr>cx_report := cx_report ctx @ [report_reject ''malformed-operation'' (cx_revision ctx) [] []]\<rparr>
     | Inr st \<Rightarrow> ctx\<lparr>cx_state := st\<rparr>)"

fun repositories_of_op :: "op_ctx \<Rightarrow> graph_op \<Rightarrow> string list" where
  "repositories_of_op ctx (SetProjectTruthScope _ d) = repositories_after ctx d"
| "repositories_of_op ctx _ = cx_repositories ctx"

text \<open>The context and the oldest source reference, after one operation.\<close>

definition validate_operation ::
  "adapters \<Rightarrow> proposal_validator \<Rightarrow> graph_op \<Rightarrow> py_time option \<times> op_ctx
     \<Rightarrow> (py_time option \<times> op_ctx) res" where
  "validate_operation A vp op acc =
    (let ctx = snd acc in
     if cx_mode ctx = Admission \<and> legacy_only op
     then Inr (fst acc, ctx\<lparr>cx_report := cx_report ctx @ [report_reject ''legacy-only-operation'' (cx_revision ctx) [] []]\<rparr>)
     else
       rbind (validate_operation_authority ctx op) (\<lambda>auth.
       rbind (structural_validate A vp ctx op) (\<lambda>s.
       rbind (older (fst acc) (fst s)) (\<lambda>t.
       let ctx1 = ctx\<lparr>cx_repositories := repositories_of_op ctx op\<rparr> in
       rbind (if cx_mode ctx = Admission then authoring_validate A vp ctx1 op else Inr []) (\<lambda>au.
       let msgs = auth @ snd s @ au;
           ctx2 = ctx1\<lparr>cx_report := cx_report ctx @ msgs\<rparr> in
       Inr (t, if rejected msgs then ctx2 else stage_operation A op ctx2))))))"

definition validate_operations ::
  "adapters \<Rightarrow> proposal_validator \<Rightarrow> op_ctx \<Rightarrow> (py_time option \<times> op_ctx) res" where
  "validate_operations A vp ctx = rfold (validate_operation A vp) (p_ops (cx_patch ctx)) (None, ctx)"

text \<open>
  Proposals are validated by replaying their operations. A replayed operation never creates
  a proposal, so the validator of nested proposals is never called.
\<close>

definition no_nested_proposals :: proposal_validator where
  "no_nested_proposals ctx q md cards = Inr []"

definition replay_context :: "op_ctx \<Rightarrow> vmode \<Rightarrow> graph_state \<Rightarrow> patch \<Rightarrow> op_ctx" where
  "replay_context ctx md st p = \<lparr>cx_state = st, cx_initial_state = st, cx_patch = p, cx_report = [],
     cx_revision = cx_revision ctx, cx_project_truth_scope = cx_project_truth_scope ctx,
     cx_repositories = cx_repositories ctx, cx_machines = cx_machines ctx,
     cx_default_run_truth_scope = cx_default_run_truth_scope ctx,
     cx_state_repository = cx_state_repository ctx, cx_mode = md,
     cx_experiment_control_node_id = None, cx_reference_patch = Some (cx_patch ctx)\<rparr>"

definition validate_proposal :: "adapters \<Rightarrow> proposal_validator" where
  "validate_proposal A ctx q md cards =
     validate_proposal_with A
       (\<lambda>st p. rbind (validate_operations A no_nested_proposals (replay_context ctx md st p))
          (\<lambda>r. Inr (cx_report (snd r))))
       q (cx_state ctx) (cx_revision ctx) md cards (Some (cx_patch ctx))"

section \<open>Liveness of created proposals\<close>

definition created_edge_values :: "graph_op \<Rightarrow> (string \<times> string \<times> string) list" where
  "created_edge_values op = (case op of
       CreateEdges es \<Rightarrow> map (\<lambda>e. (new_edge_id e, ne_source e, ne_target e)) es
     | SupersedeNodes ns \<Rightarrow> concat (map (\<lambda>n. case sn_superseded_by n of None \<Rightarrow> []
         | Some t \<Rightarrow> [(derived_edge_id (sn_id n) ''supersedes'' t, sn_id n, t)]) ns)
     | MergeNodes ms \<Rightarrow> map (\<lambda>m. (derived_edge_id (nm_duplicate m) ''duplicate_of'' (nm_canonical m),
         nm_duplicate m, nm_canonical m)) ms
     | _ \<Rightarrow> [])"

type_synonym presence = "string list \<times> (string \<times> string) dict"

definition update_resource_presence :: "graph_op \<Rightarrow> presence \<Rightarrow> presence" where
  "update_resource_presence op pres =
    (let (nodes, edges) = (case op of
           CreateNodes cs \<Rightarrow> (map (\<lambda>c. n_id (cn_node c)) cs @ fst pres, snd pres)
         | RemoveNodes ids \<Rightarrow> (filter (\<lambda>i. i \<notin> set ids) (fst pres),
             filter (\<lambda>kv. fst (snd kv) \<notin> set ids \<and> snd (snd kv) \<notin> set ids) (snd pres))
         | RemoveEdges ids \<Rightarrow> (fst pres, foldl (\<lambda>d i. ddel i d) (snd pres) ids)
         | _ \<Rightarrow> pres) in
     (nodes, dupdate edges (created_edge_values op)))"

definition changed_nodes_of :: "graph_op \<Rightarrow> string list" where
  "changed_nodes_of op = (case op of
       UpdateNodes us \<Rightarrow> map nu_id us | SupersedeNodes ns \<Rightarrow> map sn_id ns
     | MergeNodes ms \<Rightarrow> map nm_duplicate ms | RemoveNodes ids \<Rightarrow> ids
     | SetStanding i _ \<Rightarrow> [i] | _ \<Rightarrow> [])"

fun removed_edges_of :: "graph_op \<Rightarrow> string list" where
  "removed_edges_of (RemoveEdges ids) = ids"
| "removed_edges_of _ = []"

definition sets_ontology :: "graph_op \<Rightarrow> bool" where
  "sets_ontology op = (case op of SetOntology _ \<Rightarrow> True | _ \<Rightarrow> False)"

definition sets_truth_scope :: "graph_op \<Rightarrow> bool" where
  "sets_truth_scope op = (case op of SetProjectTruthScope _ _ \<Rightarrow> True | _ \<Rightarrow> False)"

definition presence_before :: "graph_state \<Rightarrow> patch \<Rightarrow> nat \<Rightarrow> presence" where
  "presence_before initial p position = fold update_resource_presence (take position (p_ops p))
     (map fst (gs_nodes initial),
      map (\<lambda>kv. (fst kv, (e_source (snd kv), e_target (snd kv)))) (index_by e_id (dvalues (gs_edges initial))))"

definition later_dependency_mutations ::
  "graph_state \<Rightarrow> patch \<Rightarrow> nat \<Rightarrow> proposal \<Rightarrow> string list \<times> string list \<times> string list" where
  "later_dependency_mutations initial p position q =
    (let pres = presence_before initial p position; later = drop (Suc position) (p_ops p);
         created = map (\<lambda>c. n_id (cn_node c)) (concat (map created_nodes_of later));
         changed = concat (map changed_nodes_of later);
         created_edges = map fst (concat (map created_edge_values later));
         removed_edges = concat (map removed_edges_of later) in
     (filter (\<lambda>i. i \<in> set changed \<or> (i \<in> set created \<and> i \<in> set (fst pres))) (pr_related_node_ids q),
      filter (\<lambda>i. i \<in> set removed_edges \<or> (i \<in> set created_edges \<and> dhas i (snd pres))) (pr_related_edge_ids q),
      (if ''ontology'' \<in> set (pr_related_config_keys q) \<and> list_ex sets_ontology later then [''ontology''] else [])
      @ (if ''project_truth_scope'' \<in> set (pr_related_config_keys q) \<and> list_ex sets_truth_scope later
         then [''project_truth_scope''] else [])))"

text \<open>\<open>{proposal.id: index}\<close> over the created proposals: the last position of an id counts.\<close>

definition proposal_positions :: "patch \<Rightarrow> nat dict" where
  "proposal_positions p = foldl (\<lambda>d kv. dset (fst kv) (snd kv) d) []
     (concat (map (\<lambda>iop. case snd iop of
        CreateProposals qs \<Rightarrow> map (\<lambda>q. (pr_id q, fst iop)) qs | _ \<Rightarrow> []) (List.enumerate 0 (p_ops p))))"

definition check_created_liveness :: "op_ctx \<Rightarrow> string \<Rightarrow> report" where
  "check_created_liveness ctx i =
    (case (dget (gs_proposals (cx_state ctx)) i, dget (proposal_positions (cx_patch ctx)) i) of
       (Some q, Some position) \<Rightarrow>
        (case (if cx_mode ctx = Admission
               then later_dependency_mutations (cx_initial_state ctx) (cx_patch ctx) position q
               else ([], [], [])) of
          (mn, me, mc) \<Rightarrow>
            if mn \<noteq> [] \<or> me \<noteq> [] \<or> mc \<noteq> []
            then [report_reject ''stale-created-proposal'' (cx_revision ctx) (sorted_set mn) (sorted_set me)]
            else if proposal_is_stale (cx_state ctx) q
            then [report_reject ''stale-created-proposal'' (cx_revision ctx) (pr_related_node_ids q) []]
            else [])
     | _ \<Rightarrow> [])"

definition validate_created_proposal_liveness :: "op_ctx \<Rightarrow> report" where
  "validate_created_proposal_liveness ctx =
     concat (map (check_created_liveness ctx) (sort (map fst (proposal_positions (cx_patch ctx)))))"

section \<open>Queued decisions\<close>

definition touched_ids_of :: "graph_op \<Rightarrow> string list" where
  "touched_ids_of op = (case op of
       CreateNodes cs \<Rightarrow> map (\<lambda>c. n_id (cn_node c)) cs | UpdateNodes us \<Rightarrow> map nu_id us
     | SupersedeNodes ns \<Rightarrow> map sn_id ns | MergeNodes ms \<Rightarrow> map nm_duplicate ms
     | SetStanding i _ \<Rightarrow> [i] | _ \<Rightarrow> [])"

definition incomplete_ballot :: "project_node \<Rightarrow> bool" where
  "incomplete_ballot n = (case n_body n of
       Decision d \<Rightarrow> dec_status d \<in> {''ready'', ''revisit''} \<and> card (set (dec_options d)) < 2
     | _ \<Rightarrow> False)"

definition validate_queued_decision_options :: "op_ctx \<Rightarrow> report" where
  "validate_queued_decision_options ctx =
    (if cx_mode ctx \<noteq> Admission then []
     else concat (map (\<lambda>i. case dget (gs_nodes (cx_state ctx)) i of
         None \<Rightarrow> []
       | Some n \<Rightarrow> reject_if (incomplete_ballot n) ''incomplete-decision-ballot'' (cx_revision ctx) [n_id n])
       (sorted_set (concat (map touched_ids_of (p_ops (cx_patch ctx)))))))"

section \<open>The whole patch\<close>

text \<open>The environment of a validation: what the caller knows about the project.\<close>

record validation_env =
  ve_project_truth_scope :: "string list"
  ve_repository_aliases :: "string list option"
  ve_machine_aliases :: "string list option"
  ve_default_run_truth_scope :: "string list option"
  ve_state_repository :: "string option"
  ve_mode :: vmode
  ve_experiment_control_node_id :: "string option"
  ve_experiment_decision_bundle :: "decision_pin list option"

definition control_node_id :: "validation_env \<Rightarrow> patch \<Rightarrow> string option" where
  "control_node_id env p = (case ve_experiment_control_node_id env of
       Some i \<Rightarrow> if i = [] then p_experiment_control_node_id p else Some i
     | None \<Rightarrow> p_experiment_control_node_id p)"

definition decision_bundle :: "validation_env \<Rightarrow> patch \<Rightarrow> decision_pin list" where
  "decision_bundle env p = (case ve_experiment_decision_bundle env of
       Some b \<Rightarrow> b | None \<Rightarrow> p_experiment_decision_bundle p)"

definition initial_context :: "validation_env \<Rightarrow> graph_state \<Rightarrow> patch \<Rightarrow> report \<Rightarrow> op_ctx" where
  "initial_context env st p r = \<lparr>cx_state = st, cx_initial_state = st, cx_patch = p, cx_report = r,
     cx_revision = rev_or_none (p_revision p), cx_project_truth_scope = ve_project_truth_scope env,
     cx_repositories = (case ve_repository_aliases env of
         Some rs \<Rightarrow> if rs = [] then ve_project_truth_scope env else rs
       | None \<Rightarrow> ve_project_truth_scope env),
     cx_machines = ve_machine_aliases env,
     cx_default_run_truth_scope = (case ve_default_run_truth_scope env of Some s \<Rightarrow> s | None \<Rightarrow> []),
     cx_state_repository = ve_state_repository env, cx_mode = ve_mode env,
     cx_experiment_control_node_id = control_node_id env p, cx_reference_patch = None\<rparr>"

definition validate_loop_binding :: "adapters \<Rightarrow> validation_env \<Rightarrow> graph_state \<Rightarrow> patch \<Rightarrow> report res" where
  "validate_loop_binding A env st p =
    (if p_kind p = ExperimentLoop then
       validate_experiment_loop_authority A st p (control_node_id env p) (decision_bundle env p) (ve_mode env)
     else Inr (reject_if (control_node_id env p \<notin> {None, Some []} \<or> decision_bundle env p \<noteq> [])
       ''unexpected-experiment-control'' (rev_or_none (p_revision p)) []))"

text \<open>
  The rules before the operations. No operation name starts with \<open>delete\<close>, so the rule
  that refuses such names never reports.
\<close>

definition patch_level_report ::
  "adapters \<Rightarrow> validation_env \<Rightarrow> graph_state \<Rightarrow> patch \<Rightarrow> report res" where
  "patch_level_report A env st p =
    (let rv = rev_or_none (p_revision p) in
     rbind (validate_loop_binding A env st p) (\<lambda>loop.
     Inr (reject_if (ve_mode env = Admission \<and> p_schema_generation p \<noteq> 2) ''legacy-schema-write'' rv []
       @ reject_if (p_revision p \<noteq> 0 \<and> p_revision p \<noteq> gs_revision st + 1) ''non-monotonic-revision'' rv []
       @ validate_authorship p rv @ validate_identity_shape p rv @ validate_attribution_shape p rv
       @ validate_declared_agent_action st p rv
       @ validate_declared_scope (ve_project_truth_scope env) p rv
       @ loop
       @ reject_if (list_ex (\<lambda>op. starts_with (op_name op) ''delete'') (p_ops p)) ''delete-forbidden'' rv []
       @ (if p_kind p = Approval then validate_approval_shape A st p (ve_mode env) else []))))"

definition coverage_mismatch :: "validation_env \<Rightarrow> graph_state \<Rightarrow> patch \<Rightarrow> py_time option \<Rightarrow> bool res" where
  "coverage_mismatch env st p oldest =
    (case (oldest, cov_earliest_timestamp (gs_coverage st)) of
       (Some t, Some b) \<Rightarrow>
         if ve_mode env = Admission
         then rbind (time_less t b) (\<lambda>lt. Inr (lt \<and> ''set_coverage'' \<notin> set (map op_name (p_ops p))))
         else Inr False
     | _ \<Rightarrow> Inr False)"

definition validate_patch_body ::
  "adapters \<Rightarrow> validation_env \<Rightarrow> graph_state \<Rightarrow> patch \<Rightarrow> report res" where
  "validate_patch_body A env st p =
     rbind (patch_level_report A env st p) (\<lambda>r.
     rbind (validate_operations A (validate_proposal A) (initial_context env st p r)) (\<lambda>res.
     let ctx = snd res in
     rbind (coverage_mismatch env st p (fst res)) (\<lambda>cov.
     Inr (cx_report ctx @ validate_queued_decision_options ctx @ validate_created_proposal_liveness ctx
       @ (if cov then [report_flag ''coverage-mismatch'' (rev_or_none (p_revision p)) [] []] else [])))))"

text \<open>
  \<open>validate_patch\<close> for a patch without transition provenance. A patch that carries a trace
  is refused for admission here; its replay is in the theory of transitions.
\<close>

definition validate_plain_patch ::
  "adapters \<Rightarrow> validation_env \<Rightarrow> graph_state \<Rightarrow> patch \<Rightarrow> report" where
  "validate_plain_patch A env st p = (case validate_patch_body A env st p of
       Inl _ \<Rightarrow> [report_reject ''malformed-operation'' (rev_or_none (p_revision p)) [] []]
     | Inr r \<Rightarrow> r)"

end
