(* ===== verification/Control.thy ===== *)
theory Control
  imports Proposals
begin

text \<open>
  \<open>rcp/control.py\<close>: which facts of the graph gate an Experiment's bounded loop, the pinned
  decision bundle and its drift, the control state shown to the human, the admission of an
  automatic wake, and the active-flow projection. Reasons are the texts the code writes.
\<close>

section \<open>Definitions\<close>

record drift =
  dr_decision_id :: string
  dr_pinned_option :: string
  dr_pinned_revision :: int
  dr_current_option :: "string option"
  dr_current_status :: "string option"

record session_binding =
  sb_provider :: "string option"
  sb_model :: "string option"
  sb_reasoning :: "string option"
  sb_run_on :: "string option"
  sb_execution_host :: "string option"
  sb_run_truth_scope :: "string list option"
  sb_native_session_bound :: bool
  sb_diagnostic :: "string option"

record operational_state =
  os_task_active :: bool
  os_detached_work_active :: bool
  os_watcher_degraded :: bool
  os_watcher_completion_pending :: bool
  os_episode_exited :: bool
  os_episode_live :: bool
  os_stop_requested :: bool
  os_stop_settled :: bool
  os_chat_id :: "string option"
  os_current_operation_id :: "string option"
  os_current_status :: "string option"
  os_current_queued :: bool
  os_current_active :: bool
  os_current_awaiting_human :: bool
  os_current_phase :: "string option"
  os_current_status_message :: "string option"
  os_current_last_activity_at :: "string option"
  os_current_invocation :: "int option"
  os_session :: session_binding

definition default_operational :: operational_state where
  "default_operational = \<lparr>os_task_active = False, os_detached_work_active = False,
     os_watcher_degraded = False, os_watcher_completion_pending = False, os_episode_exited = False,
     os_episode_live = False, os_stop_requested = False, os_stop_settled = False,
     os_chat_id = None, os_current_operation_id = None, os_current_status = None,
     os_current_queued = False, os_current_active = False, os_current_awaiting_human = False,
     os_current_phase = None, os_current_status_message = None, os_current_last_activity_at = None,
     os_current_invocation = None,
     os_session = \<lparr>sb_provider = None, sb_model = None, sb_reasoning = None, sb_run_on = None,
       sb_execution_host = None, sb_run_truth_scope = None, sb_native_session_bound = False,
       sb_diagnostic = None\<rparr>\<rparr>"

definition stopping :: "operational_state \<Rightarrow> bool" where
  "stopping s \<longleftrightarrow> os_stop_requested s \<and> \<not> os_stop_settled s"

definition related_targets :: "graph_state \<Rightarrow> string \<Rightarrow> string \<Rightarrow> string list" where
  "related_targets st s r = sorted_set (map e_target
     (filter (\<lambda>e. e_source e = s \<and> e_relation e = r) (dvalues (gs_edges st))))"

fun op_target_ids :: "proposal_op \<Rightarrow> string list" where
  "op_target_ids (PContentChange _ us) = map nu_id us"
| "op_target_ids (PStatusChange _ us) = map nu_id us"
| "op_target_ids (PSupersede _ ns) = depends_supersede_nodes ns"
| "op_target_ids (PMerge _ ms) = depends_merge_nodes ms"
| "op_target_ids _ = []"

definition proposal_changes :: "proposal \<Rightarrow> string \<Rightarrow> bool" where
  "proposal_changes q i \<longleftrightarrow> list_ex (\<lambda>op. i \<in> set (op_target_ids op)) (pr_ops q)"

definition has_pending_proposal :: "graph_state \<Rightarrow> string \<Rightarrow> bool" where
  "has_pending_proposal st i \<longleftrightarrow>
     list_ex (\<lambda>q. pr_status q = Pending \<and> proposal_changes q i) (dvalues (gs_proposals st))"

text \<open>\<open>decision.status == "decided" and decision.selected_option\<close>.\<close>

definition settled :: "decision \<Rightarrow> bool" where
  "settled d \<longleftrightarrow> dec_status d = ''decided'' \<and> dec_selected_option d \<notin> {None, Some []}"

definition decision_reasons :: "graph_state \<Rightarrow> string \<Rightarrow> string list" where
  "decision_reasons st i =
     (case as_decision (dget (gs_nodes st) i) of
        None \<Rightarrow> [''Governing decision '' @ i @ '' is missing.'']
      | Some d \<Rightarrow> if settled d then []
          else [''Decision '' @ i @ '' is not decided with a selected option.''])
     @ (if has_pending_proposal st i then [''Decision '' @ i @ '' has a pending proposal.''] else [])"

definition blocker_reasons :: "graph_state \<Rightarrow> string \<Rightarrow> string list" where
  "blocker_reasons st i = (case as_blocker (dget (gs_nodes st) i) of
       None \<Rightarrow> [''Blocker '' @ i @ '' is missing.'']
     | Some b \<Rightarrow> if blk_status b = ''open'' then [''Blocker '' @ i @ '' is open.''] else [])"

definition experiment_graph_precondition_reasons :: "graph_state \<Rightarrow> string \<Rightarrow> string list res" where
  "experiment_graph_precondition_reasons st x =
     (case as_experiment (dget (gs_nodes st) x) of
        None \<Rightarrow> Inl ValueError
      | Some _ \<Rightarrow> Inr (concat (map (decision_reasons st) (related_targets st x ''governed_by''))
          @ concat (map (blocker_reasons st) (related_targets st x ''blocked_by''))))"

record graph_control =
  gct_ready :: bool
  gct_reasons :: "string list"

definition experiment_graph_control :: "graph_state \<Rightarrow> string \<Rightarrow> graph_control res" where
  "experiment_graph_control st x = rbind (experiment_graph_precondition_reasons st x) (\<lambda>r.
     Inr \<lparr>gct_ready = (r = []), gct_reasons = r\<rparr>)"

record decision_dependency =
  dd_decision_id :: string
  dd_status :: "string option"
  dd_selected_option :: "string option"
  dd_pending_proposal :: bool

record blocker_dependency =
  bd_blocker_id :: string
  bd_status :: "string option"

record control_dependencies =
  cd_gate_reasons :: "string list"
  cd_governing_decisions :: "decision_dependency list"
  cd_blockers :: "blocker_dependency list"

definition decision_dependency_of :: "graph_state \<Rightarrow> string \<Rightarrow> decision_dependency" where
  "decision_dependency_of st i = (let d = as_decision (dget (gs_nodes st) i) in
     \<lparr>dd_decision_id = i, dd_status = map_option dec_status d,
      dd_selected_option = Option.bind d dec_selected_option,
      dd_pending_proposal = has_pending_proposal st i\<rparr>)"

definition blocker_dependency_of :: "graph_state \<Rightarrow> string \<Rightarrow> blocker_dependency" where
  "blocker_dependency_of st i =
     \<lparr>bd_blocker_id = i, bd_status = map_option blk_status (as_blocker (dget (gs_nodes st) i))\<rparr>"

definition experiment_control_dependencies :: "graph_state \<Rightarrow> string \<Rightarrow> control_dependencies res" where
  "experiment_control_dependencies st x = rbind (experiment_graph_precondition_reasons st x) (\<lambda>r.
     Inr \<lparr>cd_gate_reasons = r,
       cd_governing_decisions = map (decision_dependency_of st) (related_targets st x ''governed_by''),
       cd_blockers = map (blocker_dependency_of st) (related_targets st x ''blocked_by'')\<rparr>)"

section \<open>Pins and drift\<close>

definition pin_moved :: "graph_state \<Rightarrow> decision_pin \<Rightarrow> bool" where
  "pin_moved st pin = (case dget (gs_nodes st) (pin_decision_id pin) of
       None \<Rightarrow> True
     | Some n \<Rightarrow> (case n_body n of
         Decision d \<Rightarrow> dec_status d \<noteq> ''decided'' \<or> dec_selected_option d \<noteq> Some (pin_selected_option pin)
           \<or> n_updated_rev n \<noteq> pin_decision_revision pin
       | _ \<Rightarrow> True))"

definition drift_of :: "graph_state \<Rightarrow> decision_pin \<Rightarrow> drift" where
  "drift_of st pin = (let d = as_decision (dget (gs_nodes st) (pin_decision_id pin)) in
     \<lparr>dr_decision_id = pin_decision_id pin, dr_pinned_option = pin_selected_option pin,
      dr_pinned_revision = pin_decision_revision pin,
      dr_current_option = Option.bind d dec_selected_option,
      dr_current_status = map_option dec_status d\<rparr>)"

definition decision_drift :: "graph_state \<Rightarrow> decision_pin list \<Rightarrow> drift list" where
  "decision_drift st pins = map (drift_of st) (filter (pin_moved st) pins)"

text \<open>The pin's constructor refuses a negative revision.\<close>

definition governing_pin :: "graph_state \<Rightarrow> string \<Rightarrow> decision_pin list res" where
  "governing_pin st i = (case dget (gs_nodes st) i of
       None \<Rightarrow> Inr []
     | Some n \<Rightarrow> (case n_body n of
         Decision d \<Rightarrow> if \<not> settled d then Inr []
           else if n_updated_rev n < 0 then Inl ValidationError
           else Inr [\<lparr>pin_decision_id = n_id n, pin_decision_revision = n_updated_rev n,
                      pin_selected_option = the (dec_selected_option d)\<rparr>]
       | _ \<Rightarrow> Inr []))"

definition governing_decision_bundle :: "graph_state \<Rightarrow> string \<Rightarrow> decision_pin list res" where
  "governing_decision_bundle st x = rconcat (governing_pin st) (related_targets st x ''governed_by'')"

section \<open>The control state\<close>

record control_state =
  cs_ready :: bool
  cs_reasons :: "string list"
  cs_graph_reasons :: "string list"
  cs_invocations_used :: int
  cs_invocation_ceiling :: int
  cs_invocations_remaining :: int
  cs_episode_id :: "string option"
  cs_paused :: bool
  cs_active :: bool
  cs_governing_decisions :: "decision_pin list"
  cs_decision_drift :: "drift list"
  cs_operational :: operational_state

text \<open>The runtime facts the caller supplies about the loop episode.\<close>

record loop_runtime =
  lr_active_control_node_ids :: "string list"
  lr_episode_id :: "string option"
  lr_invocations_used :: int
  lr_invocation_ceiling :: "int option"
  lr_paused :: bool
  lr_detached_work_active :: bool
  lr_episode_decision_bundle :: "decision_pin list option"
  lr_operational :: "operational_state option"

text \<open>The ceiling and the pins in force: the node's own without an episode, else the pinned ones.\<close>

definition episode_binding :: "experiment_node \<Rightarrow> loop_runtime \<Rightarrow> (int \<times> decision_pin list) res" where
  "episode_binding e rt = (case lr_episode_id rt of
       None \<Rightarrow>
         if lr_invocation_ceiling rt \<noteq> None \<or> lr_invocations_used rt \<noteq> 0
            \<or> lr_episode_decision_bundle rt \<noteq> None then Inl ValueError
         else Inr (exp_invocation_ceiling e, [])
     | Some _ \<Rightarrow> (case lr_invocation_ceiling rt of
         None \<Rightarrow> Inl ValueError
       | Some c \<Rightarrow>
           if lr_invocations_used rt < 1 then Inl ValueError
           else (case lr_episode_decision_bundle rt of
             None \<Rightarrow> Inl ValueError | Some pins \<Rightarrow> Inr (c, pins))))"

definition operational_reasons :: "string \<Rightarrow> loop_runtime \<Rightarrow> int \<Rightarrow> string list" where
  "operational_reasons x rt cl =
    (let now = (if x \<in> set (lr_active_control_node_ids rt) then [''An experiment loop is already active.''] else [])
       @ (if (case lr_operational rt of None \<Rightarrow> False | Some s \<Rightarrow> stopping s)
          then [''A graceful stop is finishing the current loop turn.''] else [])
       @ (if lr_detached_work_active rt \<and> lr_invocations_used rt \<ge> cl
          then [''Detached Experiment work is still running.''] else []) in
     now @ (if (case lr_operational rt of None \<Rightarrow> False | Some s \<Rightarrow> os_episode_live s) \<and> now = []
            then [''A previous episode is still open on this Experiment.''] else []))"

definition fresh_start_reasons :: "experiment_node \<Rightarrow> string list" where
  "fresh_start_reasons e = (if exp_status e \<in> set closed_experiment_statuses
     then [''This Experiment is '' @ exp_status e @ ''. Edit its status before starting a new episode.'']
     else [])"

definition derive_experiment_control_state ::
  "graph_state \<Rightarrow> string \<Rightarrow> loop_runtime \<Rightarrow> control_state res" where
  "derive_experiment_control_state st x rt = (case as_experiment (dget (gs_nodes st) x) of
       None \<Rightarrow> Inl ValueError
     | Some e \<Rightarrow>
        rbind (experiment_graph_control st x) (\<lambda>gc.
        rbind (governing_decision_bundle st x) (\<lambda>governing.
        rbind (episode_binding e rt) (\<lambda>(cl, pins).
        let reasons = gct_reasons gc @ fresh_start_reasons e @ operational_reasons x rt cl in
        if lr_invocations_used rt < 0 \<or> cl < 1 then Inl ValidationError
        else Inr \<lparr>cs_ready = (reasons = []), cs_reasons = reasons, cs_graph_reasons = gct_reasons gc,
          cs_invocations_used = lr_invocations_used rt, cs_invocation_ceiling = cl,
          cs_invocations_remaining = max (cl - lr_invocations_used rt) 0,
          cs_episode_id = lr_episode_id rt, cs_paused = lr_paused rt,
          cs_active = (x \<in> set (lr_active_control_node_ids rt)),
          cs_governing_decisions = governing, cs_decision_drift = decision_drift st pins,
          cs_operational = (case lr_operational rt of Some s \<Rightarrow> s | None \<Rightarrow> default_operational)\<rparr>))))"

section \<open>Admission of an automatic wake\<close>

record invocation_admission =
  ia_episode_id :: string
  ia_invocation :: int
  ia_invocation_ceiling :: int
  ia_decision_bundle :: "decision_pin list"

definition admit_experiment_watcher_invocation ::
  "graph_state \<Rightarrow> string \<Rightarrow> string option \<Rightarrow> int \<Rightarrow> int option \<Rightarrow> decision_pin list option
     \<Rightarrow> bool \<Rightarrow> bool \<Rightarrow> bool \<Rightarrow> invocation_admission option res" where
  "admit_experiment_watcher_invocation st x episode used cl bundle task_active exited stop =
    (case (episode, cl) of
       (Some ep, Some c) \<Rightarrow>
         if used < 1 then Inl ValueError
         else (case bundle of
           None \<Rightarrow> Inl ValueError
         | Some pins \<Rightarrow>
             if task_active \<or> exited \<or> stop then Inr None
             else if used \<ge> c then Inr None
             else rbind (experiment_graph_precondition_reasons st x) (\<lambda>r.
               if r \<noteq> [] then Inr None
               else Inr (Some \<lparr>ia_episode_id = ep, ia_invocation = used + 1,
                 ia_invocation_ceiling = c, ia_decision_bundle = pins\<rparr>)))
     | _ \<Rightarrow> Inl ValueError)"

section \<open>Active flow\<close>

definition is_active_flow_node :: "bool \<Rightarrow> project_node \<Rightarrow> bool" where
  "is_active_flow_node include_resolved n \<longleftrightarrow> (case n_body n of
       Blocker b \<Rightarrow> blk_status b \<noteq> ''resolved'' \<or> include_resolved | _ \<Rightarrow> True)"

record active_flow =
  af_revision :: int
  af_node_ids :: "string list"
  af_edge_ids :: "string list"

definition active_flow_projection :: "graph_state \<Rightarrow> bool \<Rightarrow> active_flow" where
  "active_flow_projection st include_resolved =
    (let ids = sort (map fst (filter (\<lambda>kv. is_active_flow_node include_resolved (snd kv)) (gs_nodes st))) in
     \<lparr>af_revision = gs_revision st, af_node_ids = ids,
      af_edge_ids = sort (map fst (filter (\<lambda>kv. e_source (snd kv) \<in> set ids \<and> e_target (snd kv) \<in> set ids)
        (gs_edges st)))\<rparr>)"

end
