(* ===== verification/Attention.thy ===== *)
theory Attention
  imports Application
begin

text \<open>\<open>core/attention.py\<close>: the memberships the Inbox and Runs surfaces read.\<close>

record attention =
  att_pending_proposal_ids :: "string list"
  att_decisions_awaiting_choice_ids :: "string list"
  att_open_blocker_ids :: "string list"

definition decision_awaits_choice :: "project_node \<Rightarrow> bool" where
  "decision_awaits_choice n = (case n_body n of
       Decision d \<Rightarrow> dec_status d \<in> {''ready'', ''revisit''} | _ \<Rightarrow> False)"

definition open_blocker :: "project_node \<Rightarrow> bool" where
  "open_blocker n = (case n_body n of
       Blocker b \<Rightarrow> blk_status b = ''open'' \<and> n_standing n = Asserted | _ \<Rightarrow> False)"

definition project_graph_attention :: "graph_state \<Rightarrow> attention res" where
  "project_graph_attention st =
    (if list_ex (\<lambda>kv. fst kv \<noteq> n_id (snd kv)) (gs_nodes st)
        \<or> list_ex (\<lambda>kv. fst kv \<noteq> pr_id (snd kv)) (gs_proposals st) then Inl ValueError
     else Inr \<lparr>att_pending_proposal_ids =
         sort (map fst (filter (\<lambda>kv. pr_status (snd kv) = Pending) (gs_proposals st))),
       att_decisions_awaiting_choice_ids =
         sort (map n_id (filter decision_awaits_choice (dvalues (gs_nodes st)))),
       att_open_blocker_ids = sort (map n_id (filter open_blocker (dvalues (gs_nodes st))))\<rparr>)"

lemma coherent_attention: "graph_coherent st \<Longrightarrow> \<exists>a. project_graph_attention st = Inr a"
  by (fastforce simp: project_graph_attention_def graph_coherent_def keyed_def list_ex_iff)

end
