(* ===== verification/Transitions.thy ===== *)
theory Transitions
  imports PatchRules Control Attention "HOL-Library.Product_Lexorder"
begin

text \<open>
  \<open>core/transitions.py\<close> and the transition branch of \<open>core/validation/patch.py\<close>: preparing a
  graph transition from validated patches (staging, guidance closure, trace), validating a
  recorded trace on replay, and the chain of transition heads. Digests of JSON documents are the parameters \<open>D\<close>: one function per payload.
\<close>

section \<open>Digests\<close>

record transition_payload =
  tp_pre_head :: graph_head
  tp_ruleset_tag :: string
  tp_groups :: "initiating_group list"
  tp_envelopes :: "patch list"
  tp_operations :: "graph_op list"
  tp_generated_actions :: "generated_action list"

datatype cause_value = CauseIndex nat | CauseEvent string

record event_payload =
  ep_ordinal :: nat
  ep_event_type :: event_type
  ep_cause :: cause_value
  ep_node_id :: string
  ep_field :: string
  ep_before :: pyval
  ep_after :: pyval

record digests =
  dg_operations :: "graph_op list \<Rightarrow> string"
  dg_transition :: "transition_payload \<Rightarrow> string"
  dg_event :: "string \<Rightarrow> event_payload \<Rightarrow> string"

text \<open>The producer envelope of a patch: what is left when the per-action fields are dropped.\<close>

definition envelope :: "patch \<Rightarrow> patch" where
  "envelope p = p\<lparr>p_revision := 0, p_created_at := TAware 0, p_summary := [], p_change_summary := [],
     p_ops := [], p_admission := Admitted, p_admission_messages := [], p_human_action := None,
     p_agent_action := None, p_transition := None\<rparr>"

definition transition_id ::
  "digests \<Rightarrow> graph_head \<Rightarrow> patch list \<Rightarrow> initiating_group list \<Rightarrow> (patch \<times> graph_op) list
     \<Rightarrow> string \<Rightarrow> generated_action list \<Rightarrow> string" where
  "transition_id D h ps groups actions tag gen = dg_transition D
     \<lparr>tp_pre_head = h, tp_ruleset_tag = tag, tp_groups = groups, tp_envelopes = map envelope ps,
      tp_operations = map snd actions, tp_generated_actions = gen\<rparr>"

section \<open>Dependencies of experiment guidance\<close>

definition tests_relations :: "graph_state \<Rightarrow> string \<Rightarrow> (string \<times> string) list" where
  "tests_relations st x = sort (remdups (map (\<lambda>e. (e_id e, e_target e))
     (filter (\<lambda>e. e_source e = x \<and> e_relation e = ''tests'') (dvalues (gs_edges st)))))"

type_synonym assessment_row = "string \<times> string \<times> string \<times> string \<times> assessment option"

definition bearing_assessments :: "graph_state \<Rightarrow> string \<Rightarrow> assessment_row list" where
  "bearing_assessments st x = sort_key fst (map
     (\<lambda>e. (e_id e, e_source e, e_target e, e_relation e, e_assessment e))
     (filter (\<lambda>e. e_target e \<in> set (map snd (tests_relations st x))
         \<and> e_relation e \<in> set EVIDENCE_RELATIONS
         \<and> (case dget (gs_nodes st) (e_source e) of
              Some n \<Rightarrow> n_type n = ''evidence'' | None \<Rightarrow> False)) (dvalues (gs_edges st))))"

type_synonym signature =
  "(control_dependencies \<times> (string \<times> string) list \<times> assessment_row list) option"

definition experiment_dependency_signature :: "graph_state \<Rightarrow> string \<Rightarrow> signature" where
  "experiment_dependency_signature st x = (case experiment_control_dependencies st x of
       Inl _ \<Rightarrow> None
     | Inr cd \<Rightarrow> Some (cd, tests_relations st x, bearing_assessments st x))"

section \<open>Staging\<close>

type_synonym timeline = "(nat \<times> graph_state \<times> graph_state) list"

fun stage_actions ::
  "adapters \<Rightarrow> nat \<Rightarrow> (patch \<times> graph_op) list \<Rightarrow> graph_state \<Rightarrow> (timeline \<times> graph_state) res" where
  "stage_actions A i [] st = Inr ([], st)"
| "stage_actions A i (pa # as) st = (case apply_valid_operation A st (fst pa) (snd pa) of
       Inl _ \<Rightarrow> Inl TransitionConflict
     | Inr st' \<Rightarrow> rbind (stage_actions A (Suc i) as st') (\<lambda>r. Inr ((i, st, st') # fst r, snd r)))"

definition apply_timeline ::
  "adapters \<Rightarrow> graph_state \<Rightarrow> (patch \<times> graph_op) list \<Rightarrow> (timeline \<times> graph_state) res" where
  "apply_timeline A st as = rbind (stage_actions A 0 as st) (\<lambda>r.
     Inr (fst r, (snd r)\<lparr>gs_revision := p_revision (fst (hd as))\<rparr>))"

definition experiment_ids :: "graph_state \<Rightarrow> string list" where
  "experiment_ids st = sort (map fst (filter (\<lambda>kv. as_experiment (Some (snd kv)) \<noteq> None) (gs_nodes st)))"

definition step_causes :: "nat \<times> graph_state \<times> graph_state \<Rightarrow> nat dict \<Rightarrow> nat dict" where
  "step_causes step d = (case step of (i, prior, after) \<Rightarrow>
     foldl (\<lambda>d x. if as_experiment (dget (gs_nodes prior) x) \<noteq> None
         \<and> experiment_dependency_signature prior x \<noteq> experiment_dependency_signature after x
         \<and> \<not> dhas x d then dset x i d else d) d (experiment_ids after))"

definition dependency_change_causes :: "timeline \<Rightarrow> nat dict" where
  "dependency_change_causes steps = fold step_causes steps []"

definition guidance_fields :: "string list" where
  "guidance_fields = [''current_summary'', ''next_action'']"

definition explicit_of :: "nat \<times> patch \<times> graph_op \<Rightarrow> ((string \<times> string) \<times> nat) list" where
  "explicit_of ia = concat (map (\<lambda>u. map (\<lambda>f. ((nu_id u, f), fst ia))
     (filter (\<lambda>f. dhas f (nu_changes u)) guidance_fields)) (op_updates [snd (snd ia)]))"

text \<open>The last action that writes a guidance field of a node.\<close>

definition explicit_guidance_updates :: "(patch \<times> graph_op) list \<Rightarrow> ((string \<times> string) \<times> nat) list" where
  "explicit_guidance_updates as =
     foldl (\<lambda>d kv. AList.update (fst kv) (snd kv) d) [] (concat (map explicit_of (List.enumerate 0 as)))"

section \<open>Guidance closure\<close>

definition desired_staleness ::
  "nat option \<Rightarrow> nat option \<Rightarrow> bool \<Rightarrow> bool \<Rightarrow> (nat \<times> bool) option" where
  "desired_staleness invalidation explicit filled stale =
    (let wanted = (case invalidation of
           Some c \<Rightarrow> Some (c, filled)
         | None \<Rightarrow> map_option (\<lambda>c. (c, False)) explicit) in
     case wanted of None \<Rightarrow> None | Some (c, d) \<Rightarrow> if stale \<noteq> d then Some (c, d) else None)"

definition field_changes ::
  "string \<Rightarrow> experiment_node \<Rightarrow> nat option \<Rightarrow> ((string \<times> string) \<times> nat) list \<Rightarrow> (nat \<times> string \<times> bool) list" where
  "field_changes x e invalidation explicit =
     (case desired_staleness invalidation (map_of explicit (x, ''current_summary''))
         (exp_current_summary e \<noteq> []) (exp_current_summary_stale e) of
        None \<Rightarrow> [] | Some (c, d) \<Rightarrow> [(c, ''current_summary_stale'', d)])
     @ (case desired_staleness invalidation (map_of explicit (x, ''next_action''))
         (exp_next_action e \<notin> {None, Some []}) (exp_next_action_stale e) of
        None \<Rightarrow> [] | Some (c, d) \<Rightarrow> [(c, ''next_action_stale'', d)])"

definition guidance_update :: "string \<Rightarrow> doc \<Rightarrow> graph_op" where
  "guidance_update x ch = UpdateNodes
     [\<lparr>nu_id = x, nu_changes = ch, nu_cause = None, nu_base_updated_rev = None\<rparr>]"

definition guidance_actions ::
  "graph_state \<Rightarrow> nat dict \<Rightarrow> ((string \<times> string) \<times> nat) list \<Rightarrow> (graph_op \<times> nat) list" where
  "guidance_actions st causes explicit = concat (map (\<lambda>x.
     case as_experiment (dget (gs_nodes st) x) of
       None \<Rightarrow> []
     | Some e \<Rightarrow>
        (let fc = field_changes x e (dget causes x) explicit in
         map (\<lambda>c. (guidance_update x (map (\<lambda>t. (fst (snd t), VBool (snd (snd t))))
                (filter (\<lambda>t. fst t = c) fc)), c)) (sort (remdups (map fst fc))))) (experiment_ids st))"

definition GUIDANCE_RULE_ID :: string where
  "GUIDANCE_RULE_ID = ''experiment.guidance-validity.v1''"

definition TRANSITION_RULESET_TAG :: string where
  "TRANSITION_RULESET_TAG = ''rcp.lifecycle.v2''"

definition DEFAULT_MAX_RULE_FIRINGS :: nat where
  "DEFAULT_MAX_RULE_FIRINGS = 128"

definition generated_refs :: "nat \<Rightarrow> (graph_op \<times> nat) list \<Rightarrow> generated_action list" where
  "generated_refs base gs = map (\<lambda>ig. \<lparr>ga_operation_index = fst ig, ga_rule_id = GUIDANCE_RULE_ID,
     ga_cause = ActionCause (snd (snd ig))\<rparr>) (List.enumerate base gs)"

fun stage_generated ::
  "adapters \<Rightarrow> patch \<Rightarrow> nat \<Rightarrow> graph_op list \<Rightarrow> graph_state \<Rightarrow> (timeline \<times> graph_state) res" where
  "stage_generated A p i [] st = Inr ([], st)"
| "stage_generated A p i (op # ops) st = (case apply_transition_generated_operation A st p op of
       Inl _ \<Rightarrow> Inl TransitionConflict
     | Inr st' \<Rightarrow> rbind (stage_generated A p (Suc i) ops st') (\<lambda>r. Inr ((i, st, st') # fst r, snd r)))"

section \<open>Lifecycle events\<close>

type_synonym pending_event = "nat \<times> string \<times> string \<times> pyval \<times> pyval \<times> event_type"

definition status_events :: "nat \<times> graph_state \<times> graph_state \<Rightarrow> pending_event list" where
  "status_events step = (case step of (i, prior, after) \<Rightarrow>
     concat (map (\<lambda>k. case (dget (gs_nodes prior) k, dget (gs_nodes after) k) of
         (Some a, Some b) \<Rightarrow> if node_status a = node_status b then []
           else [(i, k, ''status'', vopt (node_status a), vopt (node_status b), NodeStatusChanged)]
       | _ \<Rightarrow> []) (sorted_set (map fst (gs_nodes prior)))))"

definition attribute_or_none :: "graph_state \<Rightarrow> string \<Rightarrow> string \<Rightarrow> pyval" where
  "attribute_or_none st i f = (case dget (gs_nodes st) i of
       None \<Rightarrow> VNone | Some n \<Rightarrow> (case getattr_node n f of None \<Rightarrow> VNone | Some v \<Rightarrow> v))"

definition guidance_events :: "graph_op list \<Rightarrow> nat \<times> graph_state \<times> graph_state \<Rightarrow> pending_event list" where
  "guidance_events ops step = (case step of (i, prior, after) \<Rightarrow>
     concat (map (\<lambda>u. map (\<lambda>f. (i, nu_id u, f, attribute_or_none prior (nu_id u) f,
         attribute_or_none after (nu_id u) f,
         if truthy (attribute_or_none after (nu_id u) f) then GuidanceInvalidated else GuidanceRefreshed))
       (sorted_set (map fst (nu_changes u)))) (op_updates [ops ! i])))"

definition event_of :: "digests \<Rightarrow> string \<Rightarrow> nat \<times> pending_event \<Rightarrow> transition_event" where
  "event_of D tid oe = (case oe of (ordinal, c, node, field, old, new, et) \<Rightarrow>
     \<lparr>te_event_id = dg_event D tid \<lparr>ep_ordinal = ordinal, ep_event_type = et, ep_cause = CauseIndex c,
        ep_node_id = node, ep_field = field, ep_before = old, ep_after = new\<rparr>,
      te_event_type = et, te_cause = ActionCause c, te_node_id = node, te_field = field,
      te_before = old, te_after = new\<rparr>)"

definition lifecycle_events ::
  "digests \<Rightarrow> string \<Rightarrow> timeline \<Rightarrow> timeline \<Rightarrow> graph_op list \<Rightarrow> transition_event list" where
  "lifecycle_events D tid steps gsteps ops = map (event_of D tid)
     (List.enumerate 0 (concat (map status_events steps) @ concat (map (guidance_events ops) gsteps)))"

section \<open>Preparing a transition\<close>

definition same_envelope :: "patch \<Rightarrow> patch \<Rightarrow> bool" where
  "same_envelope p q \<longleftrightarrow> p_schema_generation p = p_schema_generation q \<and> p_kind p = p_kind q
     \<and> p_author p = p_author q \<and> p_producer p = p_producer q
     \<and> p_source_operation_id p = p_source_operation_id q \<and> p_source_effect_id p = p_source_effect_id q
     \<and> p_source_effect_sha256 p = p_source_effect_sha256 q \<and> p_project_identity p = p_project_identity q
     \<and> p_project_home_transfer p = p_project_home_transfer q \<and> p_authorized_by p = p_authorized_by q
     \<and> p_profile p = p_profile q \<and> p_task_id p = p_task_id q \<and> p_episode_id p = p_episode_id q
     \<and> p_experiment_control_node_id p = p_experiment_control_node_id q
     \<and> p_experiment_decision_bundle p = p_experiment_decision_bundle q"

definition source_actions :: "patch list \<Rightarrow> (patch \<times> graph_op) list" where
  "source_actions ps = concat (map (\<lambda>p. map (\<lambda>op. (p, op)) (p_ops p)) ps)"

fun nat_digits :: "nat \<Rightarrow> string" where
  "nat_digits n = (if n < 10 then [char_of (48 + n)] else nat_digits (n div 10) @ [char_of (48 + n mod 10)])"

declare nat_digits.simps [simp del]

text \<open>The initiating groups: consecutive index ranges, one per patch that has operations.\<close>

fun initiating_groups :: "nat \<Rightarrow> nat \<Rightarrow> patch list \<Rightarrow> initiating_group list" where
  "initiating_groups g i [] = []"
| "initiating_groups g i (p # ps) =
     (if p_ops p = [] then [] else
        [\<lparr>ig_group_id = ''group-'' @ nat_digits (g + 1),
          ig_operation_indexes = [i ..< i + length (p_ops p)], ig_summary = p_summary p,
          ig_change_summary = p_change_summary p, ig_human_action = p_human_action p,
          ig_agent_action = p_agent_action p\<rparr>])
     @ initiating_groups (Suc g) (i + length (p_ops p)) ps"

fun merge_cursors :: "(string \<times> string) list \<Rightarrow> string dict \<Rightarrow> string dict res" where
  "merge_cursors [] d = Inr d"
| "merge_cursors (kv # kvs) d =
     (if dget d (fst kv) \<notin> {None, Some (snd kv)} then Inl ValueError
      else merge_cursors kvs (dset (fst kv) (snd kv) d))"

fun join_summaries :: "string list \<Rightarrow> string" where
  "join_summaries [] = []"
| "join_summaries [s] = s"
| "join_summaries (s # ss) = s @ ''; '' @ join_summaries ss"

definition combined_patch ::
  "patch list \<Rightarrow> graph_op list \<Rightarrow> transition_trace \<Rightarrow> patch res" where
  "combined_patch ps ops trace =
     rbind (merge_cursors (concat (map p_processed_cursors ps)) []) (\<lambda>cursors.
     Inr ((hd ps)\<lparr>p_summary := (if length ps = 1 then p_summary (hd ps)
         else ''Human Sync: '' @ join_summaries (map p_summary ps)),
       p_ops := ops,
       p_run_truth_scope := fromkeys (concat (map p_run_truth_scope ps)),
       p_repositories_read := fromkeys (concat (map p_repositories_read ps)),
       p_processed_cursors := cursors,
       p_change_summary := concat (map p_change_summary ps),
       p_human_action := None, p_agent_action := None, p_admission := Admitted,
       p_admission_messages := [], p_transition := Some trace\<rparr>))"

datatype guidance_status = GuidanceEmpty | GuidanceCurrent | GuidanceStale "string option"

definition guidance_field_validity :: "bool \<Rightarrow> bool \<Rightarrow> string option \<Rightarrow> guidance_status" where
  "guidance_field_validity filled stale event =
     (if \<not> filled then GuidanceEmpty else if stale then GuidanceStale event else GuidanceCurrent)"

record projection =
  pj_head :: graph_head
  pj_graph :: graph_state
  pj_attention :: attention
  pj_experiment_control :: "control_state dict"
  pj_guidance_validity :: "(guidance_status \<times> guidance_status) dict"
  pj_ruleset_tag :: string
  pj_transition_id :: "string option"
  pj_canonical :: bool
  pj_base_head :: "graph_head option"

definition no_runtime :: loop_runtime where
  "no_runtime = \<lparr>lr_active_control_node_ids = [], lr_episode_id = None, lr_invocations_used = 0,
     lr_invocation_ceiling = None, lr_paused = False, lr_detached_work_active = False,
     lr_episode_decision_bundle = None, lr_operational = None\<rparr>"

definition guidance_of ::
  "((string \<times> string) \<times> string) list \<Rightarrow> string \<Rightarrow> experiment_node \<Rightarrow> guidance_status \<times> guidance_status" where
  "guidance_of events x e =
     (guidance_field_validity (exp_current_summary e \<noteq> []) (exp_current_summary_stale e)
        (map_of events (x, ''current_summary_stale'')),
      guidance_field_validity (exp_next_action e \<notin> {None, Some []}) (exp_next_action_stale e)
        (map_of events (x, ''next_action_stale'')))"

definition project_projection ::
  "graph_state \<Rightarrow> graph_head \<Rightarrow> string \<Rightarrow> string option \<Rightarrow> bool \<Rightarrow> ((string \<times> string) \<times> string) list
     \<Rightarrow> graph_head option \<Rightarrow> projection res" where
  "project_projection st h tag tid canonical events base =
     rbind (rmap (\<lambda>x. rbind (derive_experiment_control_state st x no_runtime) (\<lambda>c. Inr (x, c)))
       (experiment_ids st)) (\<lambda>controls.
     rbind (project_graph_attention st) (\<lambda>att.
     Inr \<lparr>pj_head = h, pj_graph = st, pj_attention = att, pj_experiment_control = controls,
       pj_guidance_validity = concat (map (\<lambda>x. case as_experiment (dget (gs_nodes st) x) of
           None \<Rightarrow> [] | Some e \<Rightarrow> [(x, guidance_of events x e)]) (experiment_ids st)),
       pj_ruleset_tag = tag, pj_transition_id = tid, pj_canonical = canonical, pj_base_head = base\<rparr>))"

definition invalidation_events :: "transition_trace \<Rightarrow> ((string \<times> string) \<times> string) list" where
  "invalidation_events t = foldl (\<lambda>d e. AList.update (te_node_id e, te_field e) (te_event_id e) d) []
     (filter (\<lambda>e. te_event_type e = GuidanceInvalidated) (tt_lifecycle_events t))"

definition project_transition_projection :: "graph_state \<Rightarrow> transition_trace \<Rightarrow> bool \<Rightarrow> projection res" where
  "project_transition_projection st t canonical = project_projection st
     \<lparr>gh_target = gh_target (tt_pre_head t), gh_revision = gs_revision st,
      gh_transition_id = Some (tt_transition_id t)\<rparr>
     (tt_ruleset_tag t) (Some (tt_transition_id t)) canonical (invalidation_events t)
     (if canonical then None else Some (tt_pre_head t))"

definition current_project_projection ::
  "graph_state \<Rightarrow> string option \<Rightarrow> graph_target option \<Rightarrow> projection res" where
  "current_project_projection st tid target = project_projection st
     \<lparr>gh_target = (case target of Some t \<Rightarrow> t | None \<Rightarrow> MainTarget), gh_revision = gs_revision st,
      gh_transition_id = tid\<rparr> TRANSITION_RULESET_TAG tid True [] None"

definition check_prepare_inputs :: "graph_state \<Rightarrow> patch list \<Rightarrow> graph_head option \<Rightarrow> graph_head res" where
  "check_prepare_inputs st ps pre =
    (if ps = [] then Inl ValueError
     else if p_revision (hd ps) \<le> gs_revision st
       \<or> list_ex (\<lambda>p. p_revision p \<noteq> p_revision (hd ps)) ps then Inl ValueError
     else if list_ex (\<lambda>p. p_transition p \<noteq> None) ps then Inl ValueError
     else if \<not> list_all (same_envelope (hd ps)) (tl ps) then Inl ValueError
     else let h = (case pre of Some h \<Rightarrow> h
         | None \<Rightarrow> \<lparr>gh_target = MainTarget, gh_revision = gs_revision st, gh_transition_id = None\<rparr>) in
       if gh_revision h \<noteq> gs_revision st then Inl ValueError else Inr h)"

record prepared =
  pt_patch :: patch
  pt_projection :: projection

definition close_transition ::
  "adapters \<Rightarrow> digests \<Rightarrow> nat \<Rightarrow> graph_state \<Rightarrow> patch list \<Rightarrow> graph_head \<Rightarrow> (transition_trace \<times> graph_op list \<times> graph_state) res" where
  "close_transition A D max_firings st ps h =
    (let as = source_actions ps; groups = initiating_groups 0 0 ps in
     if as = [] then Inl ValueError
     else rbind (apply_timeline A st as) (\<lambda>(steps, initiated).
       let gen = guidance_actions initiated (dependency_change_causes steps) (explicit_guidance_updates as);
           refs = generated_refs (length as) gen; ops = map snd as @ map fst gen in
       if length gen > max_firings then Inl TransitionConflict
       else rbind (stage_generated A (hd ps) (length as) (map fst gen) initiated) (\<lambda>(gsteps, final).
         let tid = transition_id D h ps groups as TRANSITION_RULESET_TAG refs in
         Inr (\<lparr>tt_transition_id = tid, tt_pre_head = h, tt_ruleset_tag = TRANSITION_RULESET_TAG,
             tt_initiating_groups = groups, tt_generated_actions = refs,
             tt_lifecycle_events = lifecycle_events D tid steps gsteps ops,
             tt_expanded_ops_sha256 = dg_operations D ops\<rparr>, ops, final))))"

definition prepare_validated ::
  "adapters \<Rightarrow> digests \<Rightarrow> nat \<Rightarrow> graph_state \<Rightarrow> patch list \<Rightarrow> graph_head option \<Rightarrow> prepared res" where
  "prepare_validated A D max_firings st ps pre =
     rbind (check_prepare_inputs st ps pre) (\<lambda>h.
     rbind (close_transition A D max_firings st ps h) (\<lambda>(trace, ops, final).
     rbind (combined_patch ps ops trace) (\<lambda>combined.
     rbind (apply_valid_patch A st combined) (\<lambda>candidate.
     if candidate \<noteq> final then Inl TransitionConflict
     else rbind (project_transition_projection candidate trace True) (\<lambda>pj.
       Inr \<lparr>pt_patch = combined, pt_projection = pj\<rparr>)))))"

section \<open>Replaying a recorded trace\<close>

definition source_patch_for_group :: "patch \<Rightarrow> initiating_group \<Rightarrow> patch" where
  "source_patch_for_group p g = p\<lparr>p_summary := ig_summary g, p_change_summary := ig_change_summary g,
     p_ops := map (\<lambda>i. p_ops p ! i) (ig_operation_indexes g), p_human_action := ig_human_action g,
     p_agent_action := ig_agent_action g, p_transition := None\<rparr>"

definition guidance_operation_ok :: "graph_op \<Rightarrow> bool" where
  "guidance_operation_ok op = (case op of
       UpdateNodes us \<Rightarrow> us \<noteq> [] \<and> list_all (\<lambda>u. nu_changes u \<noteq> []
         \<and> set (map fst (nu_changes u)) \<subseteq> {''current_summary_stale'', ''next_action_stale''}
         \<and> list_all (\<lambda>kv. case snd kv of VBool _ \<Rightarrow> True | _ \<Rightarrow> False) (nu_changes u)) us
     | _ \<Rightarrow> False)"

definition trace_indexes_ok :: "patch \<Rightarrow> transition_trace \<Rightarrow> bool" where
  "trace_indexes_ok p t \<longleftrightarrow>
    (let src = concat (map ig_operation_indexes (tt_initiating_groups t));
         gen = map ga_operation_index (tt_generated_actions t) in
     distinct src \<and> distinct gen \<and> set src \<inter> set gen = {}
     \<and> sort (src @ gen) = [0 ..< length (p_ops p)] \<and> sorted src \<and> sorted gen
     \<and> (\<forall>i \<in> set src. \<forall>j \<in> set gen. i < j) \<and> (\<forall>i \<in> set src. i < length (p_ops p)))"

definition generated_action_ok :: "patch \<Rightarrow> generated_action \<Rightarrow> bool" where
  "generated_action_ok p g \<longleftrightarrow> ga_rule_id g = GUIDANCE_RULE_ID
     \<and> (case ga_cause g of ActionCause i \<Rightarrow> i < ga_operation_index g | EventCause _ \<Rightarrow> False)
     \<and> guidance_operation_ok (p_ops p ! ga_operation_index g)"

fun stage_recorded ::
  "adapters \<Rightarrow> patch \<Rightarrow> generated_action list \<Rightarrow> graph_state \<Rightarrow> (timeline \<times> graph_state) res" where
  "stage_recorded A p [] st = Inr ([], st)"
| "stage_recorded A p (g # gs) st =
     (case apply_transition_generated_operation A st p (p_ops p ! ga_operation_index g) of
        Inl _ \<Rightarrow> Inl ValueError
      | Inr st' \<Rightarrow> rbind (stage_recorded A p gs st') (\<lambda>r.
          Inr ((ga_operation_index g, st, st') # fst r, snd r)))"

text \<open>\<open>raise ValueError(...) from exc\<close>.\<close>

definition as_value_error :: "'a res \<Rightarrow> 'a res" where
  "as_value_error r = (case r of Inl _ \<Rightarrow> Inl ValueError | Inr x \<Rightarrow> Inr x)"

text \<open>The closing check of every event: its cause is known and its id is its digest.\<close>

fun events_ok :: "digests \<Rightarrow> string \<Rightarrow> nat \<Rightarrow> nat \<Rightarrow> string list \<Rightarrow> transition_event list \<Rightarrow> bool" where
  "events_ok D tid n ordinal known [] = True"
| "events_ok D tid n ordinal known (e # es) =
     ((case te_cause e of ActionCause i \<Rightarrow> i < n | EventCause k \<Rightarrow> k \<in> set known)
      \<and> te_event_id e = dg_event D tid \<lparr>ep_ordinal = ordinal, ep_event_type = te_event_type e,
          ep_cause = (case te_cause e of ActionCause i \<Rightarrow> CauseIndex i | EventCause k \<Rightarrow> CauseEvent k),
          ep_node_id = te_node_id e, ep_field = te_field e, ep_before = te_before e,
          ep_after = te_after e\<rparr>
      \<and> events_ok D tid n (Suc ordinal) (te_event_id e # known) es)"

definition validate_transition_trace ::
  "adapters \<Rightarrow> digests \<Rightarrow> graph_state \<Rightarrow> patch \<Rightarrow> patch list res" where
  "validate_transition_trace A D st p = (case p_transition p of
       None \<Rightarrow> Inl ValueError
     | Some t \<Rightarrow>
        (let ps = map (source_patch_for_group p) (tt_initiating_groups t); as = source_actions ps in
         if gh_revision (tt_pre_head t) \<noteq> gs_revision st
            \<or> dg_operations D (p_ops p) \<noteq> tt_expanded_ops_sha256 t
            \<or> \<not> trace_indexes_ok p t \<or> as = []
            \<or> transition_id D (tt_pre_head t) ps (tt_initiating_groups t) as (tt_ruleset_tag t)
                (tt_generated_actions t) \<noteq> tt_transition_id t
            \<or> \<not> list_all (generated_action_ok p) (tt_generated_actions t) then Inl ValueError
         else rbind (as_value_error (apply_timeline A st as)) (\<lambda>(steps, initiated).
           rbind (stage_recorded A p (tt_generated_actions t) initiated) (\<lambda>(gsteps, final).
           if tt_lifecycle_events t \<noteq> lifecycle_events D (tt_transition_id t) steps gsteps (p_ops p)
              \<or> \<not> events_ok D (tt_transition_id t) (length (p_ops p)) 0 [] (tt_lifecycle_events t)
           then Inl ValueError else Inr ps))))"

text \<open>
  The replay of a transition: every source patch is validated and applied against the graph
  at the transition's own head. The accumulator is the staged graph, the messages, and
  whether the loop has left early.
\<close>

definition source_env :: "validation_env \<Rightarrow> graph_state \<Rightarrow> validation_env" where
  "source_env env st = env\<lparr>ve_project_truth_scope := gs_project_truth_scope st, ve_mode := Replay,
     ve_experiment_control_node_id := None, ve_experiment_decision_bundle := None\<rparr>"

fun replay_sources ::
  "adapters \<Rightarrow> validation_env \<Rightarrow> int \<Rightarrow> patch list \<Rightarrow> graph_state \<Rightarrow> report \<Rightarrow> report \<times> bool" where
  "replay_sources A env head [] staged r = (r, True)"
| "replay_sources A env head (p # ps) staged r =
    (let st = staged\<lparr>gs_revision := head\<rparr>; own = validate_plain_patch A (source_env env st) st p in
     if rejected own then (r @ own, True)
     else case apply_valid_patch A st p of
       Inl _ \<Rightarrow> (r @ own, False)
     | Inr st' \<Rightarrow> replay_sources A env head ps (st'\<lparr>gs_revision := head\<rparr>) (r @ own))"

definition validate_transition_patch ::
  "adapters \<Rightarrow> digests \<Rightarrow> validation_env \<Rightarrow> graph_state \<Rightarrow> patch \<Rightarrow> report" where
  "validate_transition_patch A D env st p =
    (let rv = rev_or_none (p_revision p); invalid = [report_reject ''transition-trace-invalid'' rv [] []] in
     if ve_mode env \<noteq> Replay then [report_reject ''reserved-transition-trace'' rv [] []]
     else case validate_transition_trace A D st p of
       Inl _ \<Rightarrow> invalid
     | Inr ps \<Rightarrow> (case replay_sources A env (gs_revision st) ps st [] of
         (r, ok) \<Rightarrow> if ok then r else r @ invalid))"

definition validate_patch ::
  "adapters \<Rightarrow> digests \<Rightarrow> validation_env \<Rightarrow> graph_state \<Rightarrow> patch \<Rightarrow> report" where
  "validate_patch A D env st p = (case p_transition p of
       Some _ \<Rightarrow> validate_transition_patch A D env st p
     | None \<Rightarrow> validate_plain_patch A env st p)"

section \<open>The chain of heads\<close>

fun head_chain_failure ::
  "graph_target \<Rightarrow> string option \<Rightarrow> patch list \<Rightarrow> replay_failure option" where
  "head_chain_failure target tid [] = None"
| "head_chain_failure target tid (p # ps) = (case p_transition p of
       None \<Rightarrow> head_chain_failure target tid ps
     | Some t \<Rightarrow>
        if p_admission p \<noteq> Admitted then head_chain_failure target tid ps
        else if gh_target (tt_pre_head t) \<noteq> target \<or> gh_transition_id (tt_pre_head t) \<noteq> tid
        then Some \<lparr>rf_revision = p_revision p, rf_created_at = p_created_at p,
                   rf_code = ''transition-head-mismatch''\<rparr>
        else head_chain_failure target (Some (tt_transition_id t)) ps)"

end
