(* ===== verification/Replay.thy ===== *)
theory Replay
  imports Transitions
begin

text \<open>
  \<open>materialize_patches\<close> of \<open>core/materialize.py\<close>: replaying the log of patches. A patch that
  was rejected at admission only advances the revision and keeps its messages; the first
  patch that does not validate or does not apply degrades the replay and ends it.
\<close>

section \<open>Definitions\<close>

record replay_options =
  ro_initial_truth_scope :: "string list"
  ro_repository_aliases :: "string list option"
  ro_machine_aliases :: "string list option"
  ro_default_run_truth_scope :: "string list option"
  ro_state_repository :: "string option"

record materialization =
  mz_state :: graph_state
  mz_reports :: "(int \<times> report) list"
  mz_repository_descriptors :: "repository_descriptor list"
  mz_processed_cursors :: "string dict"
  mz_observed :: "(graph_state \<times> patch \<times> graph_state) list"

definition replay_env :: "replay_options \<Rightarrow> graph_state \<Rightarrow> validation_env" where
  "replay_env opts st = \<lparr>ve_project_truth_scope = gs_project_truth_scope st,
     ve_repository_aliases = ro_repository_aliases opts, ve_machine_aliases = ro_machine_aliases opts,
     ve_default_run_truth_scope = ro_default_run_truth_scope opts,
     ve_state_repository = ro_state_repository opts, ve_mode = Replay,
     ve_experiment_control_node_id = None, ve_experiment_decision_bundle = None\<rparr>"

definition degrade :: "patch \<Rightarrow> string \<Rightarrow> graph_state \<Rightarrow> graph_state" where
  "degrade p code st = st\<lparr>gs_replay_status := Degraded,
     gs_replay_failure := Some \<lparr>rf_revision = p_revision p, rf_created_at = p_created_at p,
       rf_code = code\<rparr>\<rparr>"

definition first_reject :: "report \<Rightarrow> string" where
  "first_reject r = (case find (\<lambda>m. vm_level m = Reject) r of Some m \<Rightarrow> vm_code m | None \<Rightarrow> [])"

definition put_report :: "patch \<Rightarrow> report \<Rightarrow> materialization \<Rightarrow> materialization" where
  "put_report p r m = m\<lparr>mz_reports := AList.update (p_revision p) r (mz_reports m)\<rparr>"

definition skip_rejected :: "patch \<Rightarrow> materialization \<Rightarrow> materialization" where
  "skip_rejected p m = (put_report p (p_admission_messages p) m)\<lparr>mz_state :=
     (mz_state m)\<lparr>gs_revision := max (gs_revision (mz_state m)) (p_revision p),
       gs_validation_messages := gs_validation_messages (mz_state m) @ p_admission_messages p\<rparr>\<rparr>"

text \<open>One accepted patch of the log: the result, and whether the replay goes on.\<close>

definition replay_accepted ::
  "adapters \<Rightarrow> digests \<Rightarrow> replay_options \<Rightarrow> patch \<Rightarrow> materialization \<Rightarrow> materialization \<times> bool" where
  "replay_accepted A D opts p m =
    (let st = mz_state m;
         r = validate_patch A D (replay_env opts st) st p @ p_admission_messages p in
     if rejected r then ((put_report p r m)\<lparr>mz_state := degrade p (first_reject r) st\<rparr>, False)
     else case apply_patch A p [] st of
       Inl _ \<Rightarrow> ((put_report p (r @ [report_reject ''malformed-operation'' (Some (p_revision p)) [] []]) m)
           \<lparr>mz_state := degrade p ''malformed-operation'' st\<rparr>, False)
     | Inr (st', ds) \<Rightarrow>
        (let final = st'\<lparr>gs_validation_messages := gs_validation_messages st' @ p_admission_messages p\<rparr> in
         ((put_report p r m)\<lparr>mz_state := final,
            mz_repository_descriptors := mz_repository_descriptors m @ ds,
            mz_processed_cursors := dupdate (mz_processed_cursors m) (p_processed_cursors p),
            mz_observed := mz_observed m @ [(st, p, final)]\<rparr>, True)))"

fun replay_patches ::
  "adapters \<Rightarrow> digests \<Rightarrow> replay_options \<Rightarrow> patch list \<Rightarrow> materialization \<Rightarrow> materialization" where
  "replay_patches A D opts [] m = m"
| "replay_patches A D opts (p # ps) m =
     (if p_admission p = NotAdmitted then replay_patches A D opts ps (skip_rejected p m)
      else case replay_accepted A D opts p m of
        (m', go) \<Rightarrow> if go then replay_patches A D opts ps m' else m')"

definition replay_start :: "replay_options \<Rightarrow> materialization" where
  "replay_start opts = (let st = initial_graph_state (ro_initial_truth_scope opts) in
     \<lparr>mz_state = st\<lparr>gs_coverage := (gs_coverage st)
        \<lparr>cov_repositories_never_seen := sort (ro_initial_truth_scope opts)\<rparr>\<rparr>,
      mz_reports = [], mz_repository_descriptors = [], mz_processed_cursors = [], mz_observed = []\<rparr>)"

definition materialize_patches ::
  "adapters \<Rightarrow> digests \<Rightarrow> replay_options \<Rightarrow> patch list \<Rightarrow> materialization" where
  "materialize_patches A D opts ps = replay_patches A D opts ps (replay_start opts)"

end
