(* ===== verification/History.thy ===== *)
theory History
  imports Replay
begin

text \<open>
  \<open>history/manager.py\<close>: the append-only log of patches and its single writer. The patch
  directory is the list of its files, each decoded or not, of which only those with a name of
  exactly six digits are ever read; locks, the remote
  workspace and the derived output files are left out, so an operation runs alone, as it does
  under the append lock. A rejected patch may be written before its rejection is raised, so
  the operations that write return the history beside their outcome.
\<close>

section \<open>The log on disk\<close>

datatype file_content = Decoded patch | Undecodable string py_time

record patch_file =
  pf_revision :: int
  pf_content :: file_content

text \<open>\<open>scope-base.json\<close>: readable, unreadable (with the file's time) or absent.\<close>

datatype scope_base = ScopeBase "string list" | ScopeInvalid py_time | ScopeMissing

record manifest =
  mf_truth_scope :: "string list"
  mf_repositories :: "string list"
  mf_machines :: "string list"
  mf_default_run_truth_scope :: "string list"
  mf_state_repository :: string

record history =
  h_files :: "patch_file list"
  h_scope_base :: scope_base
  h_manifest :: manifest

text \<open>
  The manager's own settings. The resolver raises \<open>KeyError\<close> for an unknown task, here
  \<open>None\<close>; \<open>hm_human\<close> is the schema library's validation of an authorizer snapshot and
  \<open>hm_scope_update\<close> the rewriting of the manifest document, which may refuse a scope.
\<close>

record history_manager =
  hm_expected_space_id :: "string option"
  hm_project_id :: "string option"
  hm_require_attribution :: bool
  hm_resolver :: "(string \<Rightarrow> string \<Rightarrow> task_authority option) option"
  hm_membership :: "(string \<Rightarrow> string \<Rightarrow> bool) option"
  hm_human :: "authorized_human \<Rightarrow> authorized_human res"
  hm_scope_update :: "manifest \<Rightarrow> string list \<Rightarrow> repository_descriptor option \<Rightarrow> unit res"

datatype history_error =
    Raised pyexc
  | PatchRejected report
  | RevisionConflict
  | ReplayHalted
  | ProjectIdentityConflict
  | BranchMergeAlreadyCommitted patch

type_synonym 'a hres = "history_error + 'a"

definition hbind :: "'a hres \<Rightarrow> ('a \<Rightarrow> 'b hres) \<Rightarrow> 'b hres" where
  "hbind m f = (case m of Inl e \<Rightarrow> Inl e | Inr x \<Rightarrow> f x)"

definition raising :: "'a res \<Rightarrow> 'a hres" where
  "raising r = (case r of Inl e \<Rightarrow> Inl (Raised e) | Inr x \<Rightarrow> Inr x)"

section \<open>Replaying the files\<close>

text \<open>
  \<open>_patch_paths\<close>: the files whose name has exactly six digits, in revision order. The name of a
  revision is written with at least six digits, so revision 1000000 and every later one is stored
  under a name that is never listed.
\<close>

definition six_digits :: "int \<Rightarrow> bool" where
  "six_digits rv \<longleftrightarrow> 0 \<le> rv \<and> rv \<le> 999999"

definition patch_paths :: "history \<Rightarrow> patch_file list" where
  "patch_paths h = sort_key pf_revision (filter (\<lambda>f. six_digits (pf_revision f)) (h_files h))"

text \<open>Loading stops at the first file that cannot be read or decoded.\<close>

fun decode_files :: "patch_file list \<Rightarrow> patch list \<times> replay_failure option" where
  "decode_files [] = ([], None)"
| "decode_files (f # fs) = (case pf_content f of
       Decoded p \<Rightarrow> (p # fst (decode_files fs), snd (decode_files fs))
     | Undecodable code t \<Rightarrow> ([], Some \<lparr>rf_revision = pf_revision f, rf_created_at = t, rf_code = code\<rparr>))"

definition first_replay_revision :: "patch_file list \<Rightarrow> int" where
  "first_replay_revision fs = (case fs of [] \<Rightarrow> 0 | f # _ \<Rightarrow> pf_revision f)"

definition first_replay_created_at :: "patch_file list \<Rightarrow> patch list \<Rightarrow> py_time \<Rightarrow> py_time" where
  "first_replay_created_at fs ps fallback = (case ps of
       p # _ \<Rightarrow> p_created_at p
     | [] \<Rightarrow> (case fs of
         f # _ \<Rightarrow> (case pf_content f of Undecodable _ t \<Rightarrow> t | Decoded p \<Rightarrow> p_created_at p)
       | [] \<Rightarrow> fallback))"

text \<open>The truth scope the log starts from, or why it cannot be known.\<close>

definition scope_provenance ::
  "history \<Rightarrow> patch_file list \<Rightarrow> patch list \<Rightarrow> string list \<times> replay_failure option" where
  "scope_provenance h fs ps = (case h_scope_base h of
       ScopeBase sc \<Rightarrow> (sc, None)
     | ScopeInvalid t \<Rightarrow> (mf_truth_scope (h_manifest h),
         Some \<lparr>rf_revision = first_replay_revision fs, rf_created_at = first_replay_created_at fs ps t,
               rf_code = ''scope-provenance-invalid''\<rparr>)
     | ScopeMissing \<Rightarrow> (mf_truth_scope (h_manifest h),
         if fs = [] then None
         else Some \<lparr>rf_revision = first_replay_revision fs,
                    rf_created_at = first_replay_created_at fs ps (TAware 0),
                    rf_code = ''scope-provenance-missing''\<rparr>))"

definition earlier_failure ::
  "replay_failure option \<Rightarrow> replay_failure option \<Rightarrow> replay_failure option" where
  "earlier_failure a b = (case (a, b) of
       (Some x, Some y) \<Rightarrow> if rf_revision y < rf_revision x then Some y else Some x
     | (None, y) \<Rightarrow> y
     | (x, None) \<Rightarrow> x)"

definition first_failure ::
  "replay_failure option \<Rightarrow> replay_failure option \<Rightarrow> replay_failure option" where
  "first_failure a b = (case a of Some x \<Rightarrow> Some x | None \<Rightarrow> b)"

record replayed =
  rp_result :: materialization
  rp_patches :: "patch list"

definition replay_options_of :: "manifest \<Rightarrow> string list \<Rightarrow> replay_options" where
  "replay_options_of mf scope = \<lparr>ro_initial_truth_scope = scope,
     ro_repository_aliases = Some (sort (mf_repositories mf)),
     ro_machine_aliases = Some (sort (mf_machines mf)),
     ro_default_run_truth_scope = Some (mf_default_run_truth_scope mf),
     ro_state_repository = Some (mf_state_repository mf)\<rparr>"

definition fail_replay :: "replay_failure option \<Rightarrow> materialization \<Rightarrow> materialization" where
  "fail_replay failure m = (case failure of
       None \<Rightarrow> m
     | Some f \<Rightarrow> if gs_replay_status (mz_state m) = Complete
         then m\<lparr>mz_state := (mz_state m)\<lparr>gs_replay_status := Degraded, gs_replay_failure := Some f\<rparr>\<rparr>
         else m)"

definition replay_history :: "adapters \<Rightarrow> digests \<Rightarrow> history \<Rightarrow> replayed" where
  "replay_history A D h =
    (let files = patch_paths h;
         (ps, structural) = decode_files files;
         (scope, scope_failure) = scope_provenance h files ps;
         chain = head_chain_failure MainTarget None ps;
         prefix = (case chain of None \<Rightarrow> ps | Some f \<Rightarrow> takeWhile (\<lambda>p. p_revision p \<noteq> rf_revision f) ps);
         replayable = (if scope_failure = None then prefix else []);
         m = materialize_patches A D (replay_options_of (h_manifest h) scope) replayable in
     \<lparr>rp_result = fail_replay (first_failure scope_failure (earlier_failure structural chain)) m,
      rp_patches = replayable\<rparr>)"

abbreviation rp_state :: "replayed \<Rightarrow> graph_state" where
  "rp_state r \<equiv> mz_state (rp_result r)"

definition require_writable :: "replayed \<Rightarrow> unit hres" where
  "require_writable r = (if gs_replay_status (rp_state r) = Degraded then Inl ReplayHalted else Inr ())"

definition next_revision :: "history \<Rightarrow> int" where
  "next_revision h = (let fs = patch_paths h in if fs = [] then 1 else pf_revision (last fs) + 1)"

section \<open>Project identity\<close>

fun identity_scan ::
  "(int \<times> report) list \<Rightarrow> int option \<Rightarrow> patch list \<Rightarrow> project_identity option \<Rightarrow> project_identity option
     \<Rightarrow> project_identity option hres" where
  "identity_scan reports through [] initial current = Inr current"
| "identity_scan reports through (p # ps) initial current =
    (if (case through of Some r \<Rightarrow> p_revision p > r | None \<Rightarrow> False) then Inr current
     else if p_kind p \<noteq> Identity
       \<or> (case map_of reports (p_revision p) of None \<Rightarrow> True | Some r \<Rightarrow> rejected r)
     then identity_scan reports through ps initial current
     else case p_project_identity p of
       Some c \<Rightarrow> (case initial of
           None \<Rightarrow> identity_scan reports through ps (Some c) (Some c)
         | Some i \<Rightarrow> if c \<noteq> i then Inl ProjectIdentityConflict
             else identity_scan reports through ps initial current)
     | None \<Rightarrow> (case p_project_home_transfer p of
           None \<Rightarrow> identity_scan reports through ps initial current
         | Some t \<Rightarrow> (case current of
             None \<Rightarrow> Inl ProjectIdentityConflict
           | Some c \<Rightarrow>
               if ht_project_id t \<noteq> pi_project_id c \<or> ht_previous_home_space_id t \<noteq> pi_home_space_id c
               then Inl ProjectIdentityConflict
               else identity_scan reports through ps initial
                 (Some (c\<lparr>pi_home_space_id := ht_new_home_space_id t\<rparr>)))))"

definition project_identity_from_replay :: "replayed \<Rightarrow> int option \<Rightarrow> project_identity option hres" where
  "project_identity_from_replay r through =
     identity_scan (mz_reports (rp_result r)) through (rp_patches r) None None"

definition require_expected_home :: "history_manager \<Rightarrow> project_identity \<Rightarrow> unit hres" where
  "require_expected_home hm i = (case hm_expected_space_id hm of
       None \<Rightarrow> Inr ()
     | Some s \<Rightarrow> if pi_home_space_id i \<noteq> s then Inl ProjectIdentityConflict else Inr ())"

definition require_writable_home ::
  "history_manager \<Rightarrow> replayed \<Rightarrow> project_identity option \<Rightarrow> unit hres" where
  "require_writable_home hm r claim =
    (if hm_expected_space_id hm = None then Inr ()
     else hbind (project_identity_from_replay r None) (\<lambda>identity.
       case identity of
         Some i \<Rightarrow> hbind (require_expected_home hm i) (\<lambda>_.
           if claim \<noteq> None then Inl ProjectIdentityConflict else Inr ())
       | None \<Rightarrow> (case claim of
           Some c \<Rightarrow> require_expected_home hm c
         | None \<Rightarrow> Inl ProjectIdentityConflict)))"


section \<open>Attribution\<close>

definition canonical_authorizer :: "history_manager \<Rightarrow> authorized_human \<Rightarrow> authorized_human res" where
  "canonical_authorizer hm h = (case hm_human hm h of
       Inl _ \<Rightarrow> Inl ValueError
     | Inr s \<Rightarrow> if py_strip (ah_display_name s) = [] then Inl ValueError else Inr s)"

definition with_attribution ::
  "patch \<Rightarrow> authorized_human option \<Rightarrow> profile option \<Rightarrow> string option \<Rightarrow> string option \<Rightarrow> patch" where
  "with_attribution p h pr t e = p\<lparr>p_authorized_by := h, p_profile := pr, p_task_id := t, p_episode_id := e\<rparr>"

text \<open>The agent branch: the live task, its target, its authority and its own attribution.\<close>

definition stamp_agent :: "history_manager \<Rightarrow> patch \<Rightarrow> graph_target \<Rightarrow> patch res" where
  "stamp_agent hm p target = (case p_source_operation_id p of
       None \<Rightarrow> Inl ValueError
     | Some i \<Rightarrow> if py_strip i = [] then Inl ValueError
         else (case (hm_project_id hm, hm_resolver hm, hm_membership hm) of
           (Some project, Some resolver, Some member) \<Rightarrow> (case resolver project i of
               None \<Rightarrow> Inl ValueError
             | Some a \<Rightarrow>
                if ta_operation_id a \<noteq> i \<or> ta_project_id a \<noteq> project then Inl ValueError
                else if ta_apply_target a \<noteq> target then Inl ValueError
                else rbind (require_apply a p member) (\<lambda>d.
                  if da_profile d = Orchestrator \<and> ta_episode_id a = None then Inl ValueError
                  else rbind (canonical_authorizer hm (the (ta_authorized_by a))) (\<lambda>h.
                    if (p_authorized_by p \<noteq> None \<or> p_profile p \<noteq> None \<or> p_task_id p \<noteq> None \<or> p_episode_id p \<noteq> None)
                       \<and> (p_authorized_by p, p_profile p, p_task_id p, p_episode_id p)
                          \<noteq> (Some h, Some (da_profile d), Some i, ta_episode_id a) then Inl ValueError
                    else Inr (with_attribution p (Some h) (Some (da_profile d)) (Some i) (ta_episode_id a)))))
         | _ \<Rightarrow> Inl ValueError))"

definition stamp_attribution_for_admission ::
  "history_manager \<Rightarrow> patch \<Rightarrow> authorized_human option \<Rightarrow> graph_target \<Rightarrow> patch res" where
  "stamp_attribution_for_admission hm p authorized target =
    (if \<not> hm_require_attribution hm then Inr p
     else if p_kind p = Identity then
       (if authorized \<noteq> None \<or> p_authorized_by p \<noteq> None \<or> p_profile p \<noteq> None \<or> p_task_id p \<noteq> None
           \<or> p_episode_id p \<noteq> None then Inl ValueError else Inr p)
     else if p_kind p = Approval then (case authorized of
         None \<Rightarrow> Inl ValueError
       | Some h \<Rightarrow> rbind (canonical_authorizer hm h) (\<lambda>s. Inr (with_attribution p (Some s) None None None)))
     else if authorized \<noteq> None then Inl ValueError
     else stamp_agent hm p target)"

section \<open>Preparing a transition for the log\<close>

definition admission_env :: "manifest \<Rightarrow> graph_state \<Rightarrow> validation_env" where
  "admission_env mf st = \<lparr>ve_project_truth_scope = gs_project_truth_scope st,
     ve_repository_aliases = Some (mf_repositories mf), ve_machine_aliases = Some (mf_machines mf),
     ve_default_run_truth_scope = Some (mf_default_run_truth_scope mf),
     ve_state_repository = Some (mf_state_repository mf), ve_mode = Admission,
     ve_experiment_control_node_id = None, ve_experiment_decision_bundle = None\<rparr>"

definition scope_descriptor :: "patch \<Rightarrow> repository_descriptor option" where
  "scope_descriptor p = (case concat (map (\<lambda>op. case op of
         SetProjectTruthScope _ (Some d) \<Rightarrow> [d] | _ \<Rightarrow> []) (p_ops p)) of
       [] \<Rightarrow> None | d # _ \<Rightarrow> Some d)"

text \<open>A source patch is stopped with the messages so far, or goes on to the next one.\<close>

datatype sources = Stopped patch report | Ready "patch list" report

record admission_request =
  rq_manager :: history_manager
  rq_manifest :: manifest
  rq_head :: int
  rq_revision :: int
  rq_authorized :: "authorized_human option"
  rq_target :: graph_target

definition admit_source ::
  "adapters \<Rightarrow> digests \<Rightarrow> admission_request \<Rightarrow> patch \<Rightarrow> graph_state \<Rightarrow> report \<Rightarrow> (patch \<times> report \<times> graph_state option) res" where
  "admit_source A D rq raw staged aggregate =
     rbind (stamp_attribution_for_admission (rq_manager rq) raw (rq_authorized rq) (rq_target rq)) (\<lambda>stamped.
     let st = staged\<lparr>gs_revision := rq_head rq\<rparr>;
         p = prepare_patch_bookkeeping st (stamped\<lparr>p_revision := rq_revision rq\<rparr>);
         r = validate_patch A D (admission_env (rq_manifest rq) st) st p in
     if rejected r then Inr (p, aggregate @ r, None)
     else case apply_valid_patch A st p of
       Inl _ \<Rightarrow> Inr (p, aggregate @ r @ [report_reject ''malformed-operation'' (Some (rq_revision rq)) [] []], None)
     | Inr candidate \<Rightarrow>
         if gs_project_truth_scope candidate \<noteq> gs_project_truth_scope st
            \<and> isl (hm_scope_update (rq_manager rq) (rq_manifest rq) (gs_project_truth_scope candidate) (scope_descriptor p))
         then Inr (p, aggregate @ r @ [report_reject ''invalid-project-scope'' (Some (rq_revision rq)) [] []], None)
         else Inr (finalize_patch_bookkeeping p candidate, aggregate @ r, Some (candidate\<lparr>gs_revision := rq_head rq\<rparr>)))"

fun admit_sources ::
  "adapters \<Rightarrow> digests \<Rightarrow> admission_request \<Rightarrow> patch list \<Rightarrow> graph_state \<Rightarrow> report \<Rightarrow> patch list \<Rightarrow> sources res" where
  "admit_sources A D rq [] staged aggregate ready = Inr (Ready ready aggregate)"
| "admit_sources A D rq (raw # raws) staged aggregate ready =
     rbind (admit_source A D rq raw staged aggregate) (\<lambda>(p, r, next).
     case next of
       None \<Rightarrow> Inr (Stopped p r)
     | Some st \<Rightarrow> admit_sources A D rq raws st r (ready @ [p]))"

definition last_transition_id :: "patch list \<Rightarrow> string option" where
  "last_transition_id ps = foldl (\<lambda>i p. if p_admission p = Admitted
     then (case p_transition p of Some t \<Rightarrow> Some (tt_transition_id t) | None \<Rightarrow> i) else i) None ps"

text \<open>A conflict of the transition manager becomes a rejection; its details are not carried.\<close>

definition prepare_transition ::
  "adapters \<Rightarrow> digests \<Rightarrow> admission_request \<Rightarrow> replayed \<Rightarrow> patch list \<Rightarrow> graph_head option
     \<Rightarrow> (patch \<times> report \<times> graph_state option) res" where
  "prepare_transition A D rq current raws pre =
    (if (case pre of Some h \<Rightarrow> gh_target h \<noteq> rq_target rq | None \<Rightarrow> False) then Inl ValueError
     else rbind (admit_sources A D rq raws (rp_state current) [] []) (\<lambda>srcs.
       case srcs of
         Stopped p r \<Rightarrow> Inr (p, r, None)
       | Ready ps r \<Rightarrow>
           (let h = (case pre of Some h \<Rightarrow> h
                | None \<Rightarrow> \<lparr>gh_target = MainTarget, gh_revision = gs_revision (rp_state current),
                           gh_transition_id = last_transition_id (rp_patches current)\<rparr>) in
            case prepare_validated A D DEFAULT_MAX_RULE_FIRINGS (rp_state current) ps (Some h) of
              Inl e \<Rightarrow> if e = TransitionConflict
                then Inr (hd ps, r @ [report_reject ''transition-conflict'' (Some (rq_revision rq)) [] []], None)
                else Inl e
            | Inr t \<Rightarrow> Inr ((pt_patch t)\<lparr>p_admission_messages := r\<rparr>, r, Some (pj_graph (pt_projection t))))))"

definition admission_of ::
  "history_manager \<Rightarrow> history \<Rightarrow> replayed \<Rightarrow> authorized_human option \<Rightarrow> admission_request" where
  "admission_of hm h current authorized = \<lparr>rq_manager = hm, rq_manifest = h_manifest h,
     rq_head = gs_revision (rp_state current), rq_revision = next_revision h,
     rq_authorized = authorized, rq_target = MainTarget\<rparr>"

definition validate_candidate ::
  "adapters \<Rightarrow> digests \<Rightarrow> admission_request \<Rightarrow> replayed \<Rightarrow> patch \<Rightarrow> (patch \<times> report \<times> graph_state option) res" where
  "validate_candidate A D rq current p =
    (if p_kind p = Identity \<and> p_ops p = [] then
       rbind (stamp_attribution_for_admission (rq_manager rq) p (rq_authorized rq) (rq_target rq)) (\<lambda>stamped.
       let q = stamped\<lparr>p_revision := rq_revision rq\<rparr>; st = rp_state current;
           r = validate_patch A D (admission_env (rq_manifest rq) st) st q in
       if rejected r then Inr (q, r, None)
       else rbind (apply_valid_patch A st q) (\<lambda>candidate. Inr (q, r, Some candidate)))
     else prepare_transition A D rq current [p] None)"

section \<open>Appending\<close>

record append_options =
  ao_raise_on_reject :: bool
  ao_discard_on_reject :: bool
  ao_expected_revision :: "int option"
  ao_allow_identity_claim :: bool
  ao_authorized_by :: "authorized_human option"

text \<open>Writing a file replaces the file of the same name.\<close>

definition write_patch :: "int \<Rightarrow> patch \<Rightarrow> history \<Rightarrow> history" where
  "write_patch rv p h = h\<lparr>h_files := filter (\<lambda>f. pf_revision f \<noteq> rv) (h_files h)
     @ [\<lparr>pf_revision = rv, pf_content = Decoded p\<rparr>]\<rparr>"

text \<open>\<open>_synchronize_manifest_scope\<close>: the manifest follows the replayed truth scope.\<close>

definition synchronize_manifest_scope ::
  "history_manager \<Rightarrow> replayed \<Rightarrow> patch \<Rightarrow> history \<Rightarrow> history res" where
  "synchronize_manifest_scope hm r p h =
    (let scope = gs_project_truth_scope (rp_state r) in
     if scope = mf_truth_scope (h_manifest h) then Inr h
     else rbind (hm_scope_update hm (h_manifest h) scope (scope_descriptor p)) (\<lambda>_.
       Inr (h\<lparr>h_manifest := (h_manifest h)\<lparr>mf_truth_scope := scope,
         mf_repositories := (case scope_descriptor p of
             None \<Rightarrow> mf_repositories (h_manifest h)
           | Some d \<Rightarrow> if rd_alias d \<in> set (mf_repositories (h_manifest h)) then mf_repositories (h_manifest h)
               else mf_repositories (h_manifest h) @ [rd_alias d])\<rparr>\<rparr>)))"

text \<open>What is checked before anything is written; branch merges have their own receipts.\<close>

definition check_append ::
  "history_manager \<Rightarrow> replayed \<Rightarrow> append_options \<Rightarrow> patch \<Rightarrow> unit hres" where
  "check_append hm current opts p =
     hbind (require_writable current) (\<lambda>_.
     hbind (require_writable_home hm current
       (if ao_allow_identity_claim opts then p_project_identity p else None)) (\<lambda>_.
     hbind (case p_branch_merge p of
         None \<Rightarrow> Inr ()
       | Some b \<Rightarrow> (case filter (\<lambda>q. p_admission q = Admitted
             \<and> (case p_branch_merge q of Some c \<Rightarrow> bm_merge_id c = bm_merge_id b | None \<Rightarrow> False))
             (rp_patches current) of
           [] \<Rightarrow> Inr ()
         | [q] \<Rightarrow> Inl (BranchMergeAlreadyCommitted q)
         | _ \<Rightarrow> Inl (Raised ValueError))) (\<lambda>_.
     case ao_expected_revision opts of
       Some e \<Rightarrow> if gs_revision (rp_state current) \<noteq> e then Inl RevisionConflict else Inr ()
     | None \<Rightarrow> Inr ())))"

definition append_patch ::
  "adapters \<Rightarrow> digests \<Rightarrow> history_manager \<Rightarrow> append_options \<Rightarrow> patch \<Rightarrow> history
     \<Rightarrow> history \<times> (patch \<times> replayed) hres" where
  "append_patch A D hm opts raw h =
    (let current = replay_history A D h; rv = next_revision h in
     case hbind (check_append hm current opts raw) (\<lambda>_.
       raising (validate_candidate A D (admission_of hm h current (ao_authorized_by opts)) current raw)) of
       Inl e \<Rightarrow> (h, Inl e)
     | Inr (p, r, _) \<Rightarrow>
         if ao_discard_on_reject opts \<and> rejected r then (h, Inl (PatchRejected r))
         else
          (let q = p\<lparr>p_admission := (if rejected r then NotAdmitted else Admitted), p_admission_messages := r\<rparr>;
               h1 = write_patch rv q h; result = replay_history A D h1 in
           case map_of (mz_reports (rp_result result)) rv of
             None \<Rightarrow> (h1, Inl (Raised KeyError))
           | Some own \<Rightarrow>
               if rejected own then
                 (h1, if ao_raise_on_reject opts then Inl (PatchRejected own) else Inr (q, result))
               else (case synchronize_manifest_scope hm result q h1 of
                   Inl e \<Rightarrow> (h1, Inl (Raised e))
                 | Inr h2 \<Rightarrow> (h2, Inr (q, result)))))"

text \<open>\<open>append_batch_from_state\<close>: a human transaction, built from the state it is appended to.\<close>

definition append_batch ::
  "adapters \<Rightarrow> digests \<Rightarrow> history_manager \<Rightarrow> int option \<Rightarrow> authorized_human option
     \<Rightarrow> (graph_state \<Rightarrow> patch list) \<Rightarrow> history \<Rightarrow> history \<times> (patch list \<times> replayed) hres" where
  "append_batch A D hm expected authorized build h =
    (let current = replay_history A D h; rv = next_revision h in
     case hbind (require_writable current) (\<lambda>_. hbind (require_writable_home hm current None) (\<lambda>_.
       if expected \<noteq> None \<and> expected \<noteq> Some (gs_revision (rp_state current)) then Inl (Raised ValueError) else Inr ())) of
       Inl e \<Rightarrow> (h, Inl e)
     | Inr _ \<Rightarrow>
        (let raws = build (rp_state current) in
         if raws = [] then (h, Inr ([], current))
         else case prepare_transition A D (admission_of hm h current authorized) current raws None of
           Inl e \<Rightarrow> (h, Inl (Raised e))
         | Inr (p, r, _) \<Rightarrow>
             if rejected r then (h, Inl (PatchRejected r))
             else
              (let q = p\<lparr>p_admission := Admitted, p_admission_messages := r\<rparr>;
                   h1 = write_patch rv q h; result = replay_history A D h1 in
               case synchronize_manifest_scope hm result q h1 of
                 Inl e \<Rightarrow> (h1, Inl (Raised e))
               | Inr h2 \<Rightarrow> (h2, Inr ([q], result)))))"

section \<open>Reading the log\<close>

definition head_ref :: "replayed \<Rightarrow> graph_head hres" where
  "head_ref r =
    (if gs_replay_status (rp_state r) \<noteq> Complete then Inl ReplayHalted
     else if head_chain_failure MainTarget None (rp_patches r) \<noteq> None then Inl (Raised ValueError)
     else Inr \<lparr>gh_target = MainTarget, gh_revision = gs_revision (rp_state r),
               gh_transition_id = last_transition_id (rp_patches r)\<rparr>)"

definition accepted_revision :: "replayed \<Rightarrow> int" where
  "accepted_revision r = (let rs = map fst (filter (\<lambda>kv. \<not> rejected (snd kv)) (mz_reports (rp_result r))) in
     if rs = [] then 0 else Max (set rs))"

definition transition_events_after :: "replayed \<Rightarrow> int \<Rightarrow> (graph_head \<times> transition_event) list" where
  "transition_events_after r rv = concat (map (\<lambda>p.
     if p_revision p \<le> rv \<or> p_admission p \<noteq> Admitted then []
     else case p_transition p of
       None \<Rightarrow> []
     | Some t \<Rightarrow> map (Pair \<lparr>gh_target = gh_target (tt_pre_head t), gh_revision = p_revision p,
         gh_transition_id = Some (tt_transition_id t)\<rparr>) (tt_lifecycle_events t)) (rp_patches r))"

end
