(* ===== verification/Samples.thy ===== *)
theory Samples
  imports Application
begin

text \<open>
  Small concrete graphs and patches, with the literal schema \<open>declared_adapters\<close> as the
  parameter record, on which the properties of the development are instantiated.
\<close>

definition sample_node :: "string \<Rightarrow> node_body \<Rightarrow> project_node" where
  "sample_node i b = \<lparr>n_id = i, n_title = ''t'', n_extension_type = None, n_extension_fields = [],
     n_standing = Asserted, n_created_rev = 1, n_updated_rev = 1, n_source_refs = [], n_body = b\<rparr>"

definition sample_hypothesis :: "string \<Rightarrow> project_node" where
  "sample_hypothesis s = sample_node ''hyp/a'' (Hypothesis \<lparr>hyp_statement = ''s'', hyp_rationale = [],
     hyp_predictions = [], hyp_scope = [], hyp_status = s\<rparr>)"

definition sample_evidence :: project_node where
  "sample_evidence = sample_node ''ev/a'' (Evidence \<lparr>ev_observation = ''o'', ev_interpretation = [],
     ev_role = ''result'', ev_legacy_strength = None, ev_validity = ''valid'', ev_origin = ''unknown'',
     ev_artifact_refs = []\<rparr>)"

definition sample_blocker :: project_node where
  "sample_blocker = sample_node ''blk/a'' (Blocker \<lparr>blk_description = ''d'', blk_blocker_type = ''data'',
     blk_status = ''open'', blk_resolution_condition = ''c'', blk_recommended_action = None\<rparr>)"

definition sample_decision :: project_node where
  "sample_decision = sample_node ''dec/a'' (Decision \<lparr>dec_question = ''q'', dec_options = [''x'', ''y''],
     dec_selected_option = None, dec_rationale = None, dec_consequences = [], dec_status = ''open''\<rparr>)"

definition sample_edge :: edge where
  "sample_edge = \<lparr>e_id = ''ev/a::supports::hyp/a'', e_source = ''ev/a'', e_target = ''hyp/a'',
     e_relation = ''supports'', e_layer = Epistemic, e_explanation = [], e_assessment = None,
     e_created_rev = 1\<rparr>"

definition sample_state :: graph_state where
  "sample_state = (initial_graph_state [''repo''])\<lparr>gs_revision := 1,
     gs_nodes := [(''hyp/a'', sample_hypothesis ''active''), (''ev/a'', sample_evidence),
       (''blk/a'', sample_blocker), (''dec/a'', sample_decision)],
     gs_edges := [(''ev/a::supports::hyp/a'', sample_edge)]\<rparr>"

definition sample_patch :: "patch_kind \<Rightarrow> author \<Rightarrow> graph_op list \<Rightarrow> patch" where
  "sample_patch k who ops = \<lparr>p_schema_generation = 2, p_revision = 2, p_kind = k, p_author = Some who,
     p_producer = (if who = Human then HumanProducer else AgentProducer), p_created_at = TAware 0,
     p_summary = [], p_ops = ops, p_run_truth_scope = [''repo''], p_repositories_read = [],
     p_processed_cursors = [], p_change_summary = [], p_source_operation_id = None,
     p_source_effect_id = None, p_source_effect_sha256 = None, p_human_action = None,
     p_agent_action = None, p_admission = Admitted, p_admission_messages = [],
     p_experiment_control_node_id = None, p_experiment_decision_bundle = [],
     p_project_identity = None, p_project_home_transfer = None, p_authorized_by = None,
     p_profile = (if who = Agent then Some Ordinary else None), p_task_id = None,
     p_episode_id = None, p_branch_merge = None, p_transition = None\<rparr>"

definition sample_update :: "string \<Rightarrow> doc \<Rightarrow> belief_cause option \<Rightarrow> graph_op" where
  "sample_update i ch c = UpdateNodes
     [\<lparr>nu_id = i, nu_changes = ch, nu_cause = c, nu_base_updated_rev = None\<rparr>]"

text \<open>A human weakens the hypothesis, naming the evidence edge.\<close>

definition sample_belief_patch :: patch where
  "sample_belief_patch = sample_patch Approval Human
     [sample_update ''hyp/a'' [(''status'', VStr ''weakened'')]
        (Some (EvidenceEdgeCause ''ev/a::supports::hyp/a''))]"

definition sample_belief_result :: graph_state where
  "sample_belief_result = sample_state\<lparr>gs_revision := 2,
     gs_nodes := [(''hyp/a'', (sample_hypothesis ''weakened'')\<lparr>n_updated_rev := 2\<rparr>),
       (''ev/a'', sample_evidence), (''blk/a'', sample_blocker), (''dec/a'', sample_decision)],
     gs_belief_transitions := [\<lparr>bt_hypothesis_id = ''hyp/a'', bt_from_status = ''active'',
       bt_to_status = ''weakened'', bt_revision = 2,
       bt_cause = EvidenceEdgeCause ''ev/a::supports::hyp/a''\<rparr>]\<rparr>"

lemma sample_state_coherent: "graph_coherent sample_state"
  by code_simp

lemma sample_belief_applies:
  "apply_valid_patch declared_adapters sample_state sample_belief_patch = Inr sample_belief_result"
  by code_simp

end
