(* ===== verification/ApplyProps.thy ===== *)
theory ApplyProps
  imports Samples
begin

text \<open>
  Properties of \<open>apply_valid_patch\<close> and the operations it stages, each an instance of the
  apply loop's induction principle or of the second edge pass.
\<close>

section \<open>Revision of the applied graph\<close>

definition revision_bounded :: "int \<Rightarrow> graph_state \<Rightarrow> graph_state \<Rightarrow> bool" where
  "revision_bounded rv s t \<longleftrightarrow>
     gs_revision s \<le> gs_revision t \<and> gs_revision t \<le> max (gs_revision s) rv"

lemma revision_frame [simp]:
  "gs_revision (put_node i n s) = gs_revision s"
  "gs_revision (put_edge i e s) = gs_revision s"
  "gs_revision (put_proposal q s) = gs_revision s"
  "gs_revision (record_belief_transition n n' rv c s) = gs_revision s"
  "gs_revision (apply_create_ambiguity p b s) = gs_revision s"
  "gs_revision (apply_create_proposal p q s) = gs_revision s"
  "gs_revision (apply_upsert_term p t s) = gs_revision s"
  "gs_revision (apply_coverage cu s) = gs_revision s"
  "gs_revision (apply_truth_scope p sc s) = gs_revision s"
  "gs_revision (apply_ontology p ont s) = gs_revision s"
  "gs_revision (apply_remove_nodes ids s) = gs_revision s"
  "gs_revision (renarrow_edge i s) = gs_revision s"
  by (simp_all add: put_node_def put_edge_def put_proposal_def apply_create_ambiguity_def
      apply_create_proposal_def apply_upsert_term_def apply_coverage_def apply_truth_scope_def
      apply_ontology_def apply_remove_nodes_def renarrow_edge_def Let_def
      record_belief_transition_def split: option.splits prod.splits node_body.splits)

lemma revision_partial:
  "apply_create_edge p e a = Inr a' \<Longrightarrow> gs_revision (ap_state a') = gs_revision (ap_state a)"
  "apply_resolve_ambiguity r s = Inr s' \<Longrightarrow> gs_revision s' = gs_revision s"
  "apply_resolve_proposal p pr s = Inr s' \<Longrightarrow> gs_revision s' = gs_revision s"
  "apply_withdraw_proposal p w s = Inr s' \<Longrightarrow> gs_revision s' = gs_revision s"
  "apply_create_node A p c s = Inr s' \<Longrightarrow> gs_revision s' = gs_revision s"
  "apply_standing p i sd s = Inr s' \<Longrightarrow> gs_revision s' = gs_revision s"
  by (auto simp: apply_create_edge_def apply_resolve_ambiguity_def apply_resolve_proposal_def
      apply_withdraw_proposal_def apply_create_node_def apply_standing_def rbind_eq_Inr Let_def)

lemma revision_update:
  assumes "apply_update_node A p g u s = Inr s'" shows "gs_revision s' = gs_revision s"
proof -
  have "(if b then Inl e else rbind m f) = Inr y \<Longrightarrow> \<exists>x. m = Inr x \<and> f x = Inr y"
    for b e y and m :: "project_node res" and f :: "project_node \<Rightarrow> graph_state res"
    by (auto simp: rbind_eq_Inr split: if_splits)
  then show ?thesis using assms unfolding apply_update_node_def rbind_eq_Inr by fastforce
qed

lemma revision_set_node_status:
  "set_node_status A i status rv ps s = Inr (n, s') \<Longrightarrow> gs_revision s' = gs_revision s"
  by (auto simp: set_node_status_def rbind_eq_Inr)

lemma revision_lifecycle:
  "apply_supersede_node A p x s = Inr s' \<Longrightarrow> gs_revision s' = gs_revision s"
  "apply_merge_node A p m s = Inr s' \<Longrightarrow> gs_revision s' = gs_revision s"
  by (cases "sn_superseded_by x")
     (auto simp: apply_supersede_node_def apply_merge_node_def rbind_eq_Inr Let_def
       revision_set_node_status split: if_splits)

interpretation revisions: item_relation "revision_bounded (p_revision p)" A p for A p
  by unfold_locales
    (auto simp: revision_bounded_def revision_partial revision_update revision_lifecycle)

lemma finish_revision: "gs_revision (ap_state (finish_apply p a)) = max (gs_revision (ap_state a)) (p_revision p)"
proof -
  have "gs_revision (fold renarrow_edge xs s) = gs_revision s" for xs s
    by (induction xs arbitrary: s) simp_all
  then show ?thesis by (simp add: finish_apply_def on_state_def)
qed

lemma apply_valid_patch_parts:
  assumes "apply_valid_patch A st p = Inr st'"
  obtains a where "apply_ops A p (generated_operation_indexes p []) (List.enumerate 0 (p_ops p))
      (begin_apply st) = Inr a" and "st' = ap_state (finish_apply p a)"
  using assms by (auto simp: apply_valid_patch_def apply_patch_def rbind_eq_Inr Let_def)

lemma enumerated_ops: "set (map snd (List.enumerate k ops)) = set ops"
  by simp

text \<open>Applying a patch moves the graph revision to the larger of the graph's and the
  patch's revision, whatever the operations do in between.\<close>

lemma apply_advances_revision:
  assumes "apply_valid_patch A st p = Inr st'"
  shows "gs_revision st' = max (gs_revision st) (p_revision p)"
proof -
  obtain a where a: "apply_ops A p (generated_operation_indexes p []) (List.enumerate 0 (p_ops p))
      (begin_apply st) = Inr a" and st': "st' = ap_state (finish_apply p a)"
    by (rule apply_valid_patch_parts [OF assms])
  have "revision_bounded (p_revision p) st (ap_state a)"
    using revisions.apply_ops_rel [OF a] by (simp add: begin_apply_def)
  then show ?thesis by (auto simp: st' finish_revision revision_bounded_def)
qed

section \<open>Coherence, stamps, belief history\<close>

text \<open>the graph dictionaries stay coherent. When every node, edge, proposal, ambiguity
  and glossary term of the graph is stored once under its own id, the same holds after any
  patch that applies, whatever its operations are.\<close>

theorem apply_keeps_coherence:
  assumes "validators A" and "graph_coherent st" and "apply_valid_patch A st p = Inr st'"
  shows "graph_coherent st'"
  using validators.coherent_apply [OF assms(1)] assms(2,3)
  by (fastforce simp: apply_valid_patch_def rbind_eq_Inr)

theorem apply_keeps_coherence_witness:
  "graph_coherent sample_state \<and> graph_coherent sample_belief_result"
  using apply_keeps_coherence [OF declared_validators.validators_axioms sample_state_coherent
      sample_belief_applies] sample_state_coherent by simp

text \<open>every node of the applied graph is either the node stored before or carries the
  patch revision as its update revision, and its creation revision is the patch's own or
  that of the node it replaces: creation revisions are never rewritten.\<close>

lemma apply_stamps_nodes:
  assumes "validators A" and "graph_coherent st" and "apply_valid_patch A st p = Inr st'"
    and "dget (gs_nodes st') i = Some n'"
  shows "dget (gs_nodes st) i = Some n' \<or>
     n_updated_rev n' = p_revision p \<and> (n_created_rev n' = p_revision p \<or>
       (\<exists>n. dget (gs_nodes st) i = Some n \<and> n_created_rev n' = n_created_rev n))"
  using validators.stamped_apply [OF assms(1)] assms(2-)
  by (fastforce simp: apply_valid_patch_def rbind_eq_Inr stamped_def)

text \<open>the belief history is append-only. Applying a patch keeps every recorded belief
  transition in place, and every transition it adds is stamped with the patch revision and
  joins two different hypothesis statuses.\<close>

lemma apply_extends_belief_history:
  assumes "validators A" and "apply_valid_patch A st p = Inr st'"
  shows "\<exists>new. gs_belief_transitions st' = gs_belief_transitions st @ new
     \<and> (\<forall>b \<in> set new. bt_revision b = p_revision p \<and> bt_from_status b \<noteq> bt_to_status b)"
  using validators.belief_apply [OF assms(1)] assms(2)
  by (fastforce simp: apply_valid_patch_def rbind_eq_Inr belief_extends_def)

end
