(* ===== verification/Staging.thy ===== *)
theory Staging
  imports Transitions ApplyProps
begin

text \<open>
  Staging an operation at a time, as the validator does, against applying the whole patch.
  \<open>core\<close> forgets what the two may disagree on: edge layers, which the whole-patch pass derives
  once more at its end, and the refresh time. Every item of every operation respects it, so
  the graph a validated patch was staged to is, up to \<open>core\<close>, the graph it produces.
\<close>

section \<open>Definitions\<close>

definition unlayered :: "edge \<Rightarrow> edge" where
  "unlayered e = e\<lparr>e_layer := Meta\<rparr>"

definition core :: "graph_state \<Rightarrow> graph_state" where
  "core st = st\<lparr>gs_edges := map (map_prod id unlayered) (gs_edges st), gs_last_refresh_at := None\<rparr>"

definition res_core :: "graph_state res \<Rightarrow> graph_state res" where
  "res_core = map_sum id core"

text \<open>A state transformer that may raise and does not look at what \<open>core\<close> forgets.\<close>

definition respectful :: "(graph_state \<Rightarrow> graph_state res) \<Rightarrow> bool" where
  "respectful f \<longleftrightarrow> (\<forall>s t. core s = core t \<longrightarrow> res_core (f s) = res_core (f t))"

text \<open>One accepted operation: what the validator knows when it stages it.\<close>

definition same_frame :: "op_ctx \<Rightarrow> op_ctx \<Rightarrow> bool" where
  "same_frame c d \<longleftrightarrow> cx_initial_state c = cx_initial_state d \<and> cx_patch c = cx_patch d
     \<and> cx_mode c = cx_mode d \<and> cx_revision c = cx_revision d
     \<and> cx_experiment_control_node_id c = cx_experiment_control_node_id d
     \<and> cx_reference_patch c = cx_reference_patch d"

definition accepted_step :: "adapters \<Rightarrow> proposal_validator \<Rightarrow> op_ctx \<Rightarrow> graph_op \<Rightarrow> op_ctx \<Rightarrow> bool" where
  "accepted_step A vp ctx op ctx' \<longleftrightarrow>
     same_frame ctx ctx' \<and> \<not> (cx_mode ctx = Admission \<and> legacy_only op)
     \<and> (\<exists>auth. validate_operation_authority ctx op = Inr auth \<and> \<not> rejected auth)
     \<and> (\<exists>c. structural_validate A vp ctx op = Inr c \<and> \<not> rejected (snd c))
     \<and> (cx_mode ctx = Admission \<longrightarrow>
          (\<exists>au. authoring_validate A vp (ctx\<lparr>cx_repositories := repositories_of_op ctx op\<rparr>) op = Inr au
             \<and> \<not> rejected au))
     \<and> apply_valid_operation A (cx_state ctx) (cx_patch ctx) op = Inr (cx_state ctx')"

inductive staged :: "adapters \<Rightarrow> proposal_validator \<Rightarrow> op_ctx \<Rightarrow> graph_op list \<Rightarrow> op_ctx \<Rightarrow> bool"
  for A vp where
  staged_done: "staged A vp ctx [] ctx"
| staged_step: "accepted_step A vp ctx op mid \<Longrightarrow> staged A vp mid ops ctx' \<Longrightarrow> staged A vp ctx (op # ops) ctx'"

inductive_cases staged_NilE: "staged A vp ctx [] ctx'"
inductive_cases staged_ConsE: "staged A vp ctx (op # ops) ctx'"

section \<open>Acceptance is staging\<close>

lemma same_frame_trans: "same_frame a b \<Longrightarrow> same_frame b c \<Longrightarrow> same_frame a c"
  by (simp add: same_frame_def)

lemma stage_operation_accepts:
  assumes "\<not> rejected (cx_report (stage_operation A op ctx))"
  shows "\<not> rejected (cx_report ctx) \<and> same_frame ctx (stage_operation A op ctx)
    \<and> apply_valid_operation A (cx_state ctx) (cx_patch ctx) op = Inr (cx_state (stage_operation A op ctx))"
  using assms by (cases "apply_valid_operation A (cx_state ctx) (cx_patch ctx) op")
    (simp_all add: stage_operation_def same_frame_def)

lemma validate_operation_accepts:
  assumes "validate_operation A vp op (t, ctx) = Inr (t', ctx')" and "\<not> rejected (cx_report ctx')"
  shows "accepted_step A vp ctx op ctx' \<and> \<not> rejected (cx_report ctx)"
proof -
  have legacy: "\<not> (cx_mode ctx = Admission \<and> legacy_only op)"
    using assms by (auto simp: validate_operation_def Let_def)
  with assms(1) obtain auth c au where
    auth: "validate_operation_authority ctx op = Inr auth"
    and c: "structural_validate A vp ctx op = Inr c"
    and au: "(if cx_mode ctx = Admission
       then authoring_validate A vp (ctx\<lparr>cx_repositories := repositories_of_op ctx op\<rparr>) op else Inr []) = Inr au"
    and ctx': "ctx' = (let ctx2 = ctx\<lparr>cx_repositories := repositories_of_op ctx op,
        cx_report := cx_report ctx @ auth @ snd c @ au\<rparr> in
        if rejected (auth @ snd c @ au) then ctx2 else stage_operation A op ctx2)"
    by (auto simp: validate_operation_def rbind_eq_Inr Let_def)
  let ?ctx2 = "ctx\<lparr>cx_repositories := repositories_of_op ctx op,
        cx_report := cx_report ctx @ auth @ snd c @ au\<rparr>"
  have ok: "\<not> rejected (auth @ snd c @ au)" and eq: "ctx' = stage_operation A op ?ctx2"
    using ctx' assms(2) by (auto simp: Let_def split: if_splits)
  note st = stage_operation_accepts [of A op ?ctx2, folded eq, OF assms(2)]
  show ?thesis
    using st ok auth c au legacy
    by (auto simp: accepted_step_def same_frame_def split: if_splits)
qed

lemma validate_ops_staged:
  assumes "rfold (validate_operation A vp) ops (t, ctx) = Inr (t', ctx')"
    and "\<not> rejected (cx_report ctx')"
  shows "staged A vp ctx ops ctx' \<and> \<not> rejected (cx_report ctx)"
  using assms
proof (induction ops arbitrary: t ctx)
  case Nil
  then show ?case by (auto intro: staged_done)
next
  case (Cons op ops)
  then obtain t1 mid where "validate_operation A vp op (t, ctx) = Inr (t1, mid)"
    and "rfold (validate_operation A vp) ops (t1, mid) = Inr (t', ctx')"
    by (auto simp: rbind_eq_Inr)
  then show ?case
    using Cons.IH Cons.prems(2) validate_operation_accepts staged_step by blast
qed

text \<open>A plain patch whose report has no rejection was staged to its last operation.\<close>

lemma accepted_plain_patch:
  assumes "\<not> rejected (validate_plain_patch A env st p)"
  obtains r ctx where "patch_level_report A env st p = Inr r" and "\<not> rejected r"
    and "staged A (validate_proposal A) (initial_context env st p r) (p_ops p) ctx"
    and "\<not> rejected (validate_queued_decision_options ctx)"
    and "\<not> rejected (validate_created_proposal_liveness ctx)"
proof -
  obtain rep where rep: "validate_patch_body A env st p = Inr rep" and nr: "\<not> rejected rep"
    using assms by (cases "validate_patch_body A env st p") (auto simp: validate_plain_patch_def)
  from rep obtain r t ctx cov where r: "patch_level_report A env st p = Inr r"
    and ops: "validate_operations A (validate_proposal A) (initial_context env st p r) = Inr (t, ctx)"
    and rep': "rep = cx_report ctx @ validate_queued_decision_options ctx
       @ validate_created_proposal_liveness ctx @ cov"
    by (auto simp: validate_patch_body_def rbind_eq_Inr Let_def)
  have "\<not> rejected (cx_report ctx)" using nr rep' by simp
  moreover have "cx_patch (initial_context env st p r) = p" by (simp add: initial_context_def)
  ultimately have st: "staged A (validate_proposal A) (initial_context env st p r) (p_ops p) ctx"
    and "\<not> rejected (cx_report (initial_context env st p r))"
    using ops validate_ops_staged by (metis validate_operations_def)+
  then have "\<not> rejected r" by (simp add: initial_context_def)
  then show thesis using that r st nr rep' by simp
qed

section \<open>Every item respects the core\<close>

lemma map_values_dset:
  "map (map_prod id f) (dset k v d) = dset k (f v) (map (map_prod id f) d)"
  by (induction d) auto

lemma map_values_ddel: "map (map_prod id f) (ddel k d) = ddel k (map (map_prod id f) d)"
  by (induction d) auto

lemma map_values_ddel_all:
  "map (map_prod id f) (foldl (\<lambda>d i. ddel i d) d ids) = foldl (\<lambda>d i. ddel i d) (map (map_prod id f) d) ids"
  by (induction ids arbitrary: d) (simp_all add: map_values_ddel)

lemma core_fields:
  "gs_nodes (core s) = gs_nodes s" "gs_revision (core s) = gs_revision s"
  "gs_project_truth_scope (core s) = gs_project_truth_scope s"
  "gs_config_revisions (core s) = gs_config_revisions s" "gs_proposals (core s) = gs_proposals s"
  "gs_ambiguities (core s) = gs_ambiguities s" "gs_glossary (core s) = gs_glossary s"
  "gs_ontology (core s) = gs_ontology s" "gs_coverage (core s) = gs_coverage s"
  "gs_belief_transitions (core s) = gs_belief_transitions s"
  by (simp_all add: core_def)

lemma core_eqD:
  assumes "core s = core t"
  shows "gs_nodes s = gs_nodes t" "gs_revision s = gs_revision t" "gs_proposals s = gs_proposals t"
    "gs_ambiguities s = gs_ambiguities t" "gs_ontology s = gs_ontology t"
    "gs_coverage s = gs_coverage t" "gs_config_revisions s = gs_config_revisions t"
    "gs_glossary s = gs_glossary t" "gs_belief_transitions s = gs_belief_transitions t"
    "gs_project_truth_scope s = gs_project_truth_scope t"
    "gs_validation_messages s = gs_validation_messages t"
    "map (map_prod id unlayered) (gs_edges s) = map (map_prod id unlayered) (gs_edges t)"
  using arg_cong [OF assms, of gs_nodes] arg_cong [OF assms, of gs_revision]
    arg_cong [OF assms, of gs_proposals] arg_cong [OF assms, of gs_ambiguities]
    arg_cong [OF assms, of gs_ontology] arg_cong [OF assms, of gs_coverage]
    arg_cong [OF assms, of gs_config_revisions] arg_cong [OF assms, of gs_glossary]
    arg_cong [OF assms, of gs_belief_transitions] arg_cong [OF assms, of gs_project_truth_scope]
    arg_cong [OF assms, of gs_validation_messages] arg_cong [OF assms, of gs_edges]
  by (simp_all add: core_def)

lemma core_put_node: "core (put_node i n s) = put_node i n (core s)"
  by (simp add: core_def put_node_def)

lemma core_put_edge: "core (put_edge i e s) = put_edge i (unlayered e) (core s)"
  by (simp add: core_def put_edge_def map_values_dset)

lemma core_put_proposal: "core (put_proposal q s) = put_proposal q (core s)"
  by (simp add: core_def put_proposal_def)

lemma core_record_belief:
  "core (record_belief_transition n n' rv c s) = record_belief_transition n n' rv c (core s)"
  by (simp add: core_def record_belief_transition_def split: node_body.splits option.splits)

lemma filter_edge_ends:
  "map (map_prod id unlayered) (filter (\<lambda>kv. e_source (snd kv) \<notin> S \<and> e_target (snd kv) \<notin> S) d) =
   filter (\<lambda>kv. e_source (snd kv) \<notin> S \<and> e_target (snd kv) \<notin> S) (map (map_prod id unlayered) d)"
  by (induction d) (auto simp: unlayered_def)

lemma core_remove_nodes: "core (apply_remove_nodes ids s) = apply_remove_nodes ids (core s)"
  by (simp add: core_def apply_remove_nodes_def filter_edge_ends)

lemma unlayered_narrow: "unlayered (narrow_layer st e) = unlayered e"
  by (simp add: unlayered_def narrow_layer_def)

lemma core_renarrow: "core (renarrow_edge i s) = core s"
proof (cases "dget (gs_edges s) i")
  case (Some e)
  have same: "map (map_prod id unlayered) (dset i (narrow_layer s e) d) = map (map_prod id unlayered) d"
    if "dget d i = Some e" for d
    using that by (induction d) (auto simp: unlayered_narrow split: if_splits)
  show ?thesis using same [OF Some] Some by (simp add: renarrow_edge_def core_def put_edge_def)
qed (simp add: renarrow_edge_def)

lemma dget_unlayered:
  "dget (map (map_prod id unlayered) d) k = map_option unlayered (dget d k)"
  by (induction d) auto

text \<open>Proposal dependencies read only the ends and ids of edges.\<close>

lemma op_dependencies_core:
  "op_dependencies (core s) q = op_dependencies s q" "op_edge_dependencies (core s) q = op_edge_dependencies s q"
proof -
  have ends: "depends_remove_edges (core s) ids = depends_remove_edges s ids" for ids
    unfolding depends_remove_edges_def
    by (rule arg_cong [where f = concat], rule map_cong [OF HOL.refl])
       (simp add: core_def dget_unlayered unlayered_def split: option.splits)
  have inc: "incident_edge_ids (core s) ids = incident_edge_ids s ids" for ids
    by (simp add: incident_edge_ids_def core_def dvalues_def filter_map comp_def unlayered_def)
  show "op_dependencies (core s) q = op_dependencies s q"
    by (cases q) (simp_all add: ends depends_resolve_ambiguities_def core_fields)
  show "op_edge_dependencies (core s) q = op_edge_dependencies s q"
    by (cases q) (simp_all add: inc)
qed

lemma proposal_dependencies_core: "proposal_dependencies (core s) ops = proposal_dependencies s ops"
proof -
  have "op_edge_dependencies (core s) = op_edge_dependencies s"
    and "op_dependencies (core s) = op_dependencies s"
    by (auto intro: ext simp: op_dependencies_core)
  then show ?thesis by (simp add: proposal_dependencies_def)
qed

lemma core_create_proposal: "core (apply_create_proposal p q s) = apply_create_proposal p q (core s)"
  by (simp add: apply_create_proposal_def proposal_dependencies_core core_put_proposal core_fields
      split: prod.splits)

lemma core_total:
  "core (apply_create_ambiguity p a s) = apply_create_ambiguity p a (core s)"
  "core (apply_upsert_term p t s) = apply_upsert_term p t (core s)"
  "core (apply_coverage u s) = apply_coverage u (core s)"
  "core (apply_truth_scope p sc s) = apply_truth_scope p sc (core s)"
  "core (apply_ontology p ont s) = apply_ontology p ont (core s)"
  by (simp_all add: core_def apply_create_ambiguity_def apply_upsert_term_def apply_coverage_def
      apply_truth_scope_def apply_ontology_def Let_def)

lemma res_core_simps [simp]: "res_core (Inl e) = Inl e" "res_core (Inr s) = Inr (core s)"
  by (simp_all add: res_core_def)

lemma respectful_commute: "(\<And>s. res_core (f s) = f (core s)) \<Longrightarrow> respectful f"
  by (simp add: respectful_def)

lemma respectfulD:
  assumes "respectful f" and "core s = core t"
  shows "(\<exists>e. f s = Inl e \<and> f t = Inl e) \<or> (\<exists>s' t'. f s = Inr s' \<and> f t = Inr t' \<and> core s' = core t')"
proof -
  have "res_core (f s) = res_core (f t)" using assms unfolding respectful_def by blast
  then show ?thesis by (cases "f s"; cases "f t") simp_all
qed

lemma respectful_rfold:
  assumes "\<And>x. x \<in> set xs \<Longrightarrow> respectful (f x)"
  shows "respectful (rfold f xs)"
  using assms
proof (induction xs)
  case (Cons x xs)
  have step: "respectful (f x)" and rest: "respectful (rfold f xs)" using Cons by simp_all
  show ?case
    unfolding respectful_def
  proof (intro allI impI)
    fix s t assume eq: "core s = core t"
    from respectfulD [OF step eq] show "res_core (rfold f (x # xs) s) = res_core (rfold f (x # xs) t)"
    proof (elim disjE exE conjE)
      fix s' t' assume f: "f x s = Inr s'" "f x t = Inr t'" and eq': "core s' = core t'"
      have "res_core (rfold f xs s') = res_core (rfold f xs t')"
        using rest eq' unfolding respectful_def by blast
      then show ?thesis by (simp add: f)
    qed simp
  qed
qed (simp add: respectful_def)

lemma respectful_create_node: "respectful (apply_create_node A p c)"
  by (rule respectful_commute)
     (cases "ad_node A (created_document (p_revision p) c)"; simp add: apply_create_node_def core_put_node)

lemma respectful_bind_lookup:
  assumes "\<And>s. look s = look (core s)" and "\<And>x s. res_core (g x s) = g x (core s)"
  shows "respectful (\<lambda>s. rbind (look s) (\<lambda>x. g x s))"
proof (rule respectful_commute)
  fix s show "res_core (rbind (look s) (\<lambda>x. g x s)) = rbind (look (core s)) (\<lambda>x. g x (core s))"
    unfolding assms(1) [of s] by (cases "look (core s)") (simp_all add: assms(2))
qed

lemma respectful_update_node: "respectful (apply_update_node A p g u)"
  unfolding apply_update_node_def [abs_def]
proof (rule respectful_bind_lookup)
  show "res_core (if \<exists>k\<in>set (map fst (nu_changes u)). k \<in> set (immutable_fields_for p g) then Inl ValueError
      else rbind (update_validator A p (updated_document p n (nu_changes u))) (\<lambda>n'.
        Inr (put_node (n_id n) n' (record_belief_transition n n' (p_revision p) (nu_cause u) s)))) =
    (if \<exists>k\<in>set (map fst (nu_changes u)). k \<in> set (immutable_fields_for p g) then Inl ValueError
      else rbind (update_validator A p (updated_document p n (nu_changes u))) (\<lambda>n'.
        Inr (put_node (n_id n) n' (record_belief_transition n n' (p_revision p) (nu_cause u) (core s)))))"
    for n s
    by (cases "update_validator A p (updated_document p n (nu_changes u))")
       (simp_all add: core_put_node core_record_belief)
qed (simp add: core_fields)

lemma set_node_status_core:
  "set_node_status A i status rv ps (core s) =
   map_sum id (map_prod id core) (set_node_status A i status rv ps s)"
  unfolding set_node_status_def
  by (simp add: core_fields rbind_def core_put_node split: sum.splits)

lemma unlayered_lifecycle: "unlayered (lifecycle_edge a r b x rv) = lifecycle_edge a r b x rv"
  by (simp add: unlayered_def lifecycle_edge_def)

lemma respectful_supersede: "respectful (apply_supersede_node A p x)"
proof (rule respectful_commute)
  fix s
  let ?r = "set_node_status A (sn_id x) ''superseded'' (p_revision p) (p_kind p = Approval) s"
  show "res_core (apply_supersede_node A p x s) = apply_supersede_node A p x (core s)"
    unfolding apply_supersede_node_def set_node_status_core core_fields rbind_def Let_def dindex_def
    by (cases "dget (gs_nodes s) (sn_id x)"; cases ?r; cases "sn_superseded_by x")
       (simp_all add: core_put_edge core_record_belief unlayered_lifecycle split: prod.splits)
qed

lemma respectful_merge: "respectful (apply_merge_node A p m)"
proof (rule respectful_commute)
  fix s
  let ?r = "set_node_status A (nm_duplicate m) ''superseded'' (p_revision p) (p_kind p = Approval) s"
  show "res_core (apply_merge_node A p m s) = apply_merge_node A p m (core s)"
    unfolding apply_merge_node_def set_node_status_core core_fields rbind_def Let_def dindex_def
    by (cases "dget (gs_nodes s) (nm_duplicate m)"; cases ?r)
       (simp_all add: core_put_edge core_record_belief unlayered_lifecycle split: prod.splits)
qed

lemma respectful_lookups:
  "respectful (apply_resolve_ambiguity r)" "respectful (apply_resolve_proposal p pr)"
  "respectful (apply_withdraw_proposal p w)" "respectful (apply_standing p i sd)"
  unfolding apply_resolve_ambiguity_def [abs_def] apply_resolve_proposal_def [abs_def]
    apply_withdraw_proposal_def [abs_def] apply_standing_def [abs_def]
  by (rule respectful_bind_lookup; simp add: core_fields core_put_proposal core_put_node; simp add: core_def)+

lemma respectful_total:
  "respectful (\<lambda>s. Inr (apply_remove_nodes ids s))"
  "respectful (\<lambda>s. Inr (fold (apply_create_ambiguity p) as s))"
  "respectful (\<lambda>s. Inr (fold (apply_create_proposal p) qs s))"
  "respectful (\<lambda>s. Inr (fold (apply_upsert_term p) ts s))"
  "respectful (\<lambda>s. Inr (apply_coverage u s))"
  "respectful (\<lambda>s. Inr (apply_truth_scope p sc s))"
  "respectful (\<lambda>s. Inr (apply_ontology p ont s))"
  "respectful (\<lambda>s. Inr (s\<lparr>gs_edges := foldl (\<lambda>d i. ddel i d) (gs_edges s) ids\<rparr>))"
proof -
  have fold: "respectful (\<lambda>s. Inr (fold f xs s))" if "\<And>x s. core (f x s) = f x (core s)"
    for f :: "'a \<Rightarrow> graph_state \<Rightarrow> graph_state" and xs
  proof (rule respectful_commute)
    have "core (fold f xs s) = fold f xs (core s)" for s
      by (induction xs arbitrary: s) (simp_all add: that)
    then show "res_core (Inr (fold f xs s)) = Inr (fold f xs (core s))" for s by simp
  qed
  show "respectful (\<lambda>s. Inr (fold (apply_create_ambiguity p) as s))"
    by (rule fold) (rule core_total)
  show "respectful (\<lambda>s. Inr (fold (apply_create_proposal p) qs s))"
    by (rule fold) (rule core_create_proposal)
  show "respectful (\<lambda>s. Inr (fold (apply_upsert_term p) ts s))"
    by (rule fold) (rule core_total)
qed (rule respectful_commute;
     simp add: core_total core_remove_nodes; simp add: core_def map_values_ddel_all)+

section \<open>Operations and whole patches\<close>

interpretation revision_kept: op_relation "\<lambda>s t. gs_revision t = gs_revision s" A p for A p
  by unfold_locales (auto simp: revision_partial revision_update revision_lifecycle)

text \<open>Two runs of the apply loop that agree up to the core.\<close>

definition agree :: "applying \<Rightarrow> applying \<Rightarrow> bool" where
  "agree a b \<longleftrightarrow> core (ap_state a) = core (ap_state b)"

definition agreeing :: "(applying \<Rightarrow> applying res) \<Rightarrow> bool" where
  "agreeing f \<longleftrightarrow> (\<forall>a b. agree a b \<longrightarrow> (\<exists>e. f a = Inl e \<and> f b = Inl e)
     \<or> (\<exists>a' b'. f a = Inr a' \<and> f b = Inr b' \<and> agree a' b'))"

lemma agreeing_Inr:
  assumes "agreeing f" and "agree a b" and "f a = Inr a'"
  obtains b' where "f b = Inr b'" and "agree a' b'"
  using assms unfolding agreeing_def by force

lemma agreeing_each: "(\<And>x. respectful (f x)) \<Longrightarrow> agreeing (each f xs)"
  unfolding agreeing_def agree_def
proof (intro allI impI)
  fix a b :: applying assume f: "\<And>x. respectful (f x)" and eq: "core (ap_state a) = core (ap_state b)"
  from f have "respectful (rfold f xs)" by (rule respectful_rfold)
  from respectfulD [OF this eq]
  show "(\<exists>e. each f xs a = Inl e \<and> each f xs b = Inl e) \<or>
    (\<exists>a' b'. each f xs a = Inr a' \<and> each f xs b = Inr b' \<and> core (ap_state a') = core (ap_state b'))"
    by (auto simp: each_def)
qed

lemma agreeing_on_state:
  assumes "respectful (\<lambda>s. Inr (f s))"
  shows "agreeing (\<lambda>a. Inr (on_state f a))"
    and "agreeing (\<lambda>a. Inr ((on_state f a)\<lparr>ap_descriptors := ap_descriptors a @ d\<rparr>))"
proof -
  have "core (f s) = core (f t)" if "core s = core t" for s t
    using respectfulD [OF assms that] by simp
  note same = this
  have "agree (on_state f a) (on_state f b)"
    and "agree ((on_state f a)\<lparr>ap_descriptors := x\<rparr>) ((on_state f b)\<lparr>ap_descriptors := y\<rparr>)"
    if "agree a b" for a b x y
    using that same [of "ap_state a" "ap_state b"] by (simp_all add: agree_def on_state_def)
  then show "agreeing (\<lambda>a. Inr (on_state f a))"
    and "agreeing (\<lambda>a. Inr ((on_state f a)\<lparr>ap_descriptors := ap_descriptors a @ d\<rparr>))"
    by (simp_all add: agreeing_def)
qed

lemma agreeing_create_edges: "agreeing (rfold (apply_create_edge p) es)"
proof (induction es)
  case (Cons e es)
  show ?case
    unfolding agreeing_def
  proof (intro allI impI)
    fix a b assume ab: "agree a b"
    then have eq: "core (ap_state a) = core (ap_state b)" by (simp add: agree_def)
    have un: "unlayered (narrow_layer s x) = unlayered x" for s x by (simp add: unlayered_narrow)
    let ?v = "edge_model_validate (edge_document_id e) e
      (declared_layer (gs_ontology (ap_state b)) (ne_relation e)) (p_revision p)"
    have step: "(\<exists>err. apply_create_edge p e a = Inl err \<and> apply_create_edge p e b = Inl err)
      \<or> (\<exists>a' b'. apply_create_edge p e a = Inr a' \<and> apply_create_edge p e b = Inr b' \<and> agree a' b')"
      by (cases ?v)
         (simp_all add: apply_create_edge_def Let_def core_eqD(5) [OF eq] agree_def core_put_edge un eq)
    then show "(\<exists>err. rfold (apply_create_edge p) (e # es) a = Inl err
          \<and> rfold (apply_create_edge p) (e # es) b = Inl err)
      \<or> (\<exists>a' b'. rfold (apply_create_edge p) (e # es) a = Inr a'
          \<and> rfold (apply_create_edge p) (e # es) b = Inr b' \<and> agree a' b')"
      using Cons.IH unfolding agreeing_def by fastforce
  qed
qed (simp add: agreeing_def)

lemma agreeing_cong: "(\<And>a. f a = g a) \<Longrightarrow> agreeing g \<Longrightarrow> agreeing f"
  by (simp add: agreeing_def)

lemmas agreeing_items = agreeing_each agreeing_on_state agreeing_create_edges respectful_total
  respectful_lookups respectful_create_node respectful_update_node respectful_supersede respectful_merge

lemma agreeing_apply_op: "agreeing (apply_op A p g op)"
proof -
  have standing: "respectful (case x of (j, t) \<Rightarrow> apply_standing p j t)" for x
    by (simp add: respectful_lookups split_beta)
  show ?thesis
    by (cases op; hypsubst; rule agreeing_cong, rule apply_op.simps)
       (rule agreeing_items standing)+
qed

text \<open>An item is applied from the patch's header alone, not from its operation list.\<close>

lemma apply_op_header: "apply_op A (p\<lparr>p_ops := x\<rparr>) g op = apply_op A p g op"
proof -
  have items:
    "apply_create_node A (p\<lparr>p_ops := x\<rparr>) = apply_create_node A p"
    "apply_update_node A (p\<lparr>p_ops := x\<rparr>) g = apply_update_node A p g"
    "apply_supersede_node A (p\<lparr>p_ops := x\<rparr>) = apply_supersede_node A p"
    "apply_merge_node A (p\<lparr>p_ops := x\<rparr>) = apply_merge_node A p"
    "apply_create_ambiguity (p\<lparr>p_ops := x\<rparr>) = apply_create_ambiguity p"
    "apply_create_proposal (p\<lparr>p_ops := x\<rparr>) = apply_create_proposal p"
    "apply_resolve_proposal (p\<lparr>p_ops := x\<rparr>) = apply_resolve_proposal p"
    "apply_withdraw_proposal (p\<lparr>p_ops := x\<rparr>) = apply_withdraw_proposal p"
    "apply_upsert_term (p\<lparr>p_ops := x\<rparr>) = apply_upsert_term p"
    "apply_standing (p\<lparr>p_ops := x\<rparr>) = apply_standing p"
    "apply_truth_scope (p\<lparr>p_ops := x\<rparr>) = apply_truth_scope p"
    "apply_ontology (p\<lparr>p_ops := x\<rparr>) = apply_ontology p"
    "apply_create_edge (p\<lparr>p_ops := x\<rparr>) = apply_create_edge p"
    by (auto intro!: ext simp: apply_create_node_def apply_update_node_def apply_supersede_node_def
        apply_merge_node_def apply_create_ambiguity_def apply_create_proposal_def
        apply_resolve_proposal_def apply_withdraw_proposal_def apply_upsert_term_def
        apply_standing_def apply_truth_scope_def apply_ontology_def apply_create_edge_def
        immutable_fields_for_def update_validator_def updated_document_def applied_standing_def
        patch_author_side_def Let_def cong: if_cong option.case_cong)
  show ?thesis by (rule ext, cases op) (simp_all add: items)
qed

lemma core_finish: "core (ap_state (finish_apply p a)) =
  (core (ap_state a))\<lparr>gs_revision := max (gs_revision (ap_state a)) (p_revision p)\<rparr>"
proof -
  have "core (fold renarrow_edge xs s) = core s" for xs s
    by (induction xs arbitrary: s) (simp_all add: core_renarrow)
  then have c: "core (fold renarrow_edge xs (ap_state a)) = core (ap_state a)" for xs .
  have "core (s\<lparr>gs_revision := r, gs_last_refresh_at := t\<rparr>) = (core s)\<lparr>gs_revision := r\<rparr>" for s r t
    by (simp add: core_def)
  then show ?thesis
    using c core_eqD(2) [OF c] by (simp add: finish_apply_def on_state_def)
qed

lemma apply_op_revision:
  assumes "apply_op A p g op a = Inr a'"
  shows "gs_revision (ap_state a') = gs_revision (ap_state a)"
proof -
  have "apply_op A (p\<lparr>p_ops := [op]\<rparr>) g op a = Inr a'" using assms by (simp add: apply_op_header)
  from revision_kept.apply_op_rel [OF _ this] show ?thesis by simp
qed

text \<open>The operation the validator stages is the operation the whole patch applies.\<close>

lemma apply_valid_operation_single:
  assumes "apply_valid_operation A st p op = Inr st'" and "p_transition p = None"
  obtains a where "apply_op A p False op (begin_apply st) = Inr a" and "core st' = core (ap_state a)"
proof -
  from assms obtain a where a: "apply_op A p False op (begin_apply st) = Inr a"
    and st': "st' = (ap_state (finish_apply (p\<lparr>p_ops := [op]\<rparr>) a))\<lparr>gs_revision := gs_revision st\<rparr>"
    by (auto simp: apply_valid_operation_def apply_patch_def apply_ops_def rbind_eq_Inr Let_def
        generated_operation_indexes_def apply_op_header)
  have "core (s\<lparr>gs_revision := r\<rparr>) = (core s)\<lparr>gs_revision := r\<rparr>" for s r by (simp add: core_def)
  then have "core st' = (core (ap_state a))\<lparr>gs_revision := gs_revision st\<rparr>"
    by (simp add: st' core_finish)
  also have "\<dots> = core (ap_state a)"
    using apply_op_revision [OF a] by (simp add: begin_apply_def core_fields core_def)
  finally show thesis using that a by blast
qed

text \<open>Refinement: staging operation by operation and applying the list agree up to the core.\<close>

lemma staged_applies:
  assumes "staged A vp ctx ops ctx'" and "cx_patch ctx = p" and "p_transition p = None"
    and "core (ap_state a) = core (cx_state ctx)"
  shows "\<exists>a'. apply_ops A p [] (List.enumerate k ops) a = Inr a'
    \<and> core (ap_state a') = core (cx_state ctx')"
  using assms
proof (induction arbitrary: a k rule: staged.induct)
  case (staged_done ctx)
  then show ?case by (simp add: apply_ops_def)
next
  case (staged_step ctx op mid ops ctx')
  have acc: "apply_valid_operation A (cx_state ctx) p op = Inr (cx_state mid)" "cx_patch mid = p"
    using staged_step by (auto simp: accepted_step_def same_frame_def)
  then obtain b where b: "apply_op A p False op (begin_apply (cx_state ctx)) = Inr b"
    and mid: "core (cx_state mid) = core (ap_state b)"
    using apply_valid_operation_single staged_step.prems(2) by blast
  have "agree (begin_apply (cx_state ctx)) a"
    using staged_step.prems(3) by (simp add: agree_def begin_apply_def)
  from agreeing_Inr [OF agreeing_apply_op this b] obtain a1
    where a1: "apply_op A p False op a = Inr a1" and "agree b a1" .
  then have "core (ap_state a1) = core (cx_state mid)" by (simp add: agree_def mid)
  from staged_step.IH [OF acc(2) staged_step.prems(2) this, of "Suc k"] a1
  show ?case by (simp add: apply_ops_def)
qed

end
