(* ===== verification/Frame.thy ===== *)
theory Frame
  imports PatchRules ApplyProps
begin

text \<open>
  The footprint of a patch: the ids of the nodes its operations name. Applying the patch
  leaves every other node as it was.
\<close>

section \<open>Definitions\<close>

definition node_footprint :: "graph_op \<Rightarrow> string list" where
  "node_footprint op = touched_ids_of op @ (case op of RemoveNodes ids \<Rightarrow> ids | _ \<Rightarrow> [])"

definition patch_footprint :: "patch \<Rightarrow> string list" where
  "patch_footprint p = concat (map node_footprint (p_ops p))"

definition framed :: "patch \<Rightarrow> graph_state \<Rightarrow> graph_state \<Rightarrow> bool" where
  "framed p s t \<longleftrightarrow> (graph_coherent s \<longrightarrow> graph_coherent t
     \<and> (\<forall>i. i \<notin> set (patch_footprint p) \<longrightarrow> dget (gs_nodes t) i = dget (gs_nodes s) i))"

section \<open>Items and their footprints\<close>

lemma footprint_member:
  "op \<in> set (p_ops p) \<Longrightarrow> i \<in> set (node_footprint op) \<Longrightarrow> i \<in> set (patch_footprint p)"
  by (auto simp: patch_footprint_def)

lemma framed_refl: "framed p s s"
  by (simp add: framed_def)

lemma framed_trans: "framed p s t \<Longrightarrow> framed p t u \<Longrightarrow> framed p s u"
  by (simp add: framed_def)

lemma framed_nodes:
  "gs_nodes t = gs_nodes s \<Longrightarrow> (graph_coherent s \<Longrightarrow> graph_coherent t) \<Longrightarrow> framed p s t"
  by (simp add: framed_def)

lemma dget_raw_of_id: "dget (raw_of c) ''id'' = Some v \<Longrightarrow> v = VStr (n_id (cn_node c))"
proof -
  have filtered: "dget (filter (\<lambda>kv. fst kv \<in> S) d) k = (if k \<in> S then dget d k else None)"
    for S and d :: doc and k by (induction d) auto
  show "dget (raw_of c) ''id'' = Some v \<Longrightarrow> v = VStr (n_id (cn_node c))"
    by (auto simp: raw_of_def filtered model_dump_base split: if_splits)
qed

lemma dget_created_document_id: "dget (created_document rv c) ''id'' = dget (raw_of c) ''id''"
  by (simp add: created_document_def Let_def)

context validators
begin

text \<open>A created node is stored under the id its payload declares.\<close>

lemma created_node_id_kept:
  assumes "ad_node A (created_document rv c) = Inr n" shows "n_id n = n_id (cn_node c)"
proof -
  obtain v where "dget (raw_of c) ''id'' = Some v"
    using lax.has_id [OF assms] by (auto simp: dget_created_document_id)
  then have "dget (created_document rv c) ''id'' = Some (VStr (n_id (cn_node c)))"
    using dget_raw_of_id by (simp add: dget_created_document_id)
  then show ?thesis by (rule lax.keeps_id [OF assms])
qed

lemma framed_create:
  assumes "apply_create_node A p c s = Inr s'" and "n_id (cn_node c) \<in> set (patch_footprint p)"
  shows "framed p s s'"
  using coherent_create [OF assms(1)] assms(2) created_node_id_kept
  by (rule_tac apply_create_node_result [OF assms(1)]) (auto simp: framed_def)

lemma framed_update:
  assumes "apply_update_node A p g u s = Inr s'" and "nu_id u \<in> set (patch_footprint p)"
  shows "framed p s s'"
  using coherent_update [OF assms(1)] assms(2)
  by (rule_tac apply_update_node_result [OF assms(1)]) (auto simp: framed_def coherent_node_id)

lemma framed_supersede:
  assumes "apply_supersede_node A p x s = Inr s'" and "sn_id x \<in> set (patch_footprint p)"
  shows "framed p s s'"
  using coherent_supersede [OF assms(1)] assms(2)
  by (rule_tac apply_supersede_node_result [OF assms(1)]) (auto simp: framed_def)

lemma framed_merge:
  assumes "apply_merge_node A p m s = Inr s'" and "nm_duplicate m \<in> set (patch_footprint p)"
  shows "framed p s s'"
  using coherent_merge [OF assms(1)] assms(2)
  by (rule_tac apply_merge_node_result [OF assms(1)]) (auto simp: framed_def)

end

lemma framed_standing:
  assumes "apply_standing p i sd s = Inr s'" and "i \<in> set (patch_footprint p)"
  shows "framed p s s'"
proof -
  from assms(1) obtain n where "dget (gs_nodes s) i = Some n"
    and "s' = put_node (n_id n) (n\<lparr>n_standing := sd, n_updated_rev := p_revision p\<rparr>) s"
    by (auto simp: apply_standing_def rbind_eq_Inr)
  then show ?thesis
    using coherent_standing [OF assms(1)] assms(2) coherent_node_id [of s i n] by (auto simp: framed_def)
qed

lemma framed_remove_nodes:
  assumes "set ids \<subseteq> set (patch_footprint p)" shows "framed p s (apply_remove_nodes ids s)"
  unfolding framed_def using assms coherent_remove_nodes [of s ids] by (simp add: subset_iff)

lemma footprint_items:
  "CreateNodes ns \<in> set (p_ops p) \<Longrightarrow> c \<in> set ns \<Longrightarrow> n_id (cn_node c) \<in> set (patch_footprint p)"
  "UpdateNodes us \<in> set (p_ops p) \<Longrightarrow> u \<in> set us \<Longrightarrow> nu_id u \<in> set (patch_footprint p)"
  "SupersedeNodes xs \<in> set (p_ops p) \<Longrightarrow> x \<in> set xs \<Longrightarrow> sn_id x \<in> set (patch_footprint p)"
  "MergeNodes ms \<in> set (p_ops p) \<Longrightarrow> m \<in> set ms \<Longrightarrow> nm_duplicate m \<in> set (patch_footprint p)"
  "SetStanding i sd \<in> set (p_ops p) \<Longrightarrow> i \<in> set (patch_footprint p)"
  "RemoveNodes ids \<in> set (p_ops p) \<Longrightarrow> set ids \<subseteq> set (patch_footprint p)"
  by (auto simp: node_footprint_def touched_ids_of_def dest!: footprint_member)

sublocale validators \<subseteq> frames: item_relation "framed p" A p for p
  by unfold_locales
    (auto intro: framed_trans framed_refl framed_create framed_update framed_supersede framed_merge
      framed_standing framed_remove_nodes [OF footprint_items(6)] footprint_items framed_nodes coherent_items
      simp: partial_frame)

context validators
begin

lemmas framed_apply = frames.apply_patch_rel

end

section \<open>The frame property\<close>

text \<open>a patch changes only the nodes its operations name. Every node whose id is named by
  no create, update, supersede, merge, standing or remove operation is stored unchanged, and
  no node appears under an id the operations do not name.\<close>

theorem apply_frame:
  assumes "validators A" and "graph_coherent st" and "apply_valid_patch A st p = Inr st'"
    and "i \<notin> set (patch_footprint p)"
  shows "dget (gs_nodes st') i = dget (gs_nodes st) i"
  using validators.framed_apply [OF assms(1)] assms(2-)
  by (fastforce simp: apply_valid_patch_def rbind_eq_Inr framed_def)

theorem apply_frame_witness:
  "''dec/a'' \<notin> set (patch_footprint sample_belief_patch)
   \<and> dget (gs_nodes sample_belief_result) ''dec/a'' = dget (gs_nodes sample_state) ''dec/a''"
proof -
  have out: "''dec/a'' \<notin> set (patch_footprint sample_belief_patch)" by code_simp
  show ?thesis
    using out apply_frame [OF declared_validators.validators_axioms sample_state_coherent
        sample_belief_applies out] by blast
qed

end
