(* ===== verification/AdmissionSamples.thy ===== *)
theory AdmissionSamples
  imports Transitions Samples
begin

text \<open>
  A concrete admission: the environment of an ordinary agent run, digests that read off a
  part of their payload, and a patch that creates a blocker, edits another one and queues a
  decision. The witnesses of the admission properties evaluate the validator on it.
\<close>

definition sample_env :: "vmode \<Rightarrow> validation_env" where
  "sample_env md = \<lparr>ve_project_truth_scope = [''repo''], ve_repository_aliases = Some [''repo''],
     ve_machine_aliases = None, ve_default_run_truth_scope = None, ve_state_repository = Some ''repo'',
     ve_mode = md, ve_experiment_control_node_id = None, ve_experiment_decision_bundle = None\<rparr>"

definition sample_digests :: digests where
  "sample_digests = \<lparr>dg_operations = concat \<circ> map op_name, dg_transition = (\<lambda>t. tp_ruleset_tag t),
     dg_event = (\<lambda>t e. t @ ep_node_id e)\<rparr>"

definition sample_human :: authorized_human where
  "sample_human = \<lparr>ah_space_id = ''s'', ah_user_id = ''u'', ah_display_name = ''U''\<rparr>"

definition sample_agent :: "graph_op list \<Rightarrow> patch" where
  "sample_agent ops = (sample_patch Work Agent ops)
     \<lparr>p_authorized_by := Some sample_human, p_task_id := Some ''t''\<rparr>"

definition sample_new_blocker :: created_node where
  "sample_new_blocker = \<lparr>cn_node = (sample_node ''blk/new-data'' (Blocker \<lparr>blk_description = ''d'',
       blk_blocker_type = ''data'', blk_status = ''open'', blk_resolution_condition = ''c'',
       blk_recommended_action = None\<rparr>))\<lparr>n_title := ''New data''\<rparr>,
     cn_fields_set = [''id'', ''type'', ''title'', ''description'', ''blocker_type'', ''status'',
       ''resolution_condition'']\<rparr>"

definition sample_new_edge :: new_edge where
  "sample_new_edge = \<lparr>ne_id = None, ne_source = ''dec/a'', ne_target = ''blk/new-data'',
     ne_relation = ''blocked_by'', ne_explanation = [], ne_assessment = None\<rparr>"

definition sample_agent_patch :: patch where
  "sample_agent_patch = sample_agent
     [CreateNodes [sample_new_blocker], CreateEdges [sample_new_edge],
      sample_update ''dec/a'' [(''status'', VStr ''ready'')] None]"

lemma sample_agent_patch_admitted:
  "validate_patch declared_adapters sample_digests (sample_env Admission) sample_state
     sample_agent_patch = []"
  by code_simp

definition sample_agent_result :: graph_state where
  "sample_agent_result = projr (apply_valid_patch declared_adapters sample_state sample_agent_patch)"

lemma sample_agent_applies:
  "apply_valid_patch declared_adapters sample_state sample_agent_patch = Inr sample_agent_result"
proof -
  have "\<not> isl (apply_valid_patch declared_adapters sample_state sample_agent_patch)" by code_simp
  then show ?thesis by (simp add: sample_agent_result_def)
qed

lemma sample_agent_header:
  "p_transition sample_agent_patch = None" "p_author sample_agent_patch = Some Agent"
  "p_profile sample_agent_patch = Some Ordinary" "ve_mode (sample_env md) = md"
  by (simp_all add: sample_agent_patch_def sample_agent_def sample_patch_def sample_env_def)

text \<open>A graph with a rejected and a pending proposal, and a human who approves the pending one.\<close>

definition sample_proposal_ops :: "proposal_op list" where
  "sample_proposal_ops = [PContentChange False
     [\<lparr>nu_id = ''hyp/a'', nu_changes = [(''statement'', VStr ''better'')], nu_cause = None,
       nu_base_updated_rev = None\<rparr>]]"

definition sample_proposal :: "string \<Rightarrow> proposal_status \<Rightarrow> proposal" where
  "sample_proposal i status = \<lparr>pr_id = i, pr_title = ''t'', pr_card = \<lparr>gc_situation_cold = ''s'',
     gc_why_human_now = ''w'', gc_consequences = ''c'', gc_decision_needed = ''d''\<rparr>,
     pr_ops = sample_proposal_ops, pr_related_node_ids = [''hyp/a''], pr_related_edge_ids = [],
     pr_related_config_keys = [], pr_base_rev = 1, pr_status = status, pr_created_by = Agent,
     pr_created_by_operation_id = None, pr_raised_rev = 1, pr_resolved_rev = None,
     pr_resolved_by = None, pr_resolved_by_operation_id = None, pr_resolution_reason = None,
     pr_rejection_reason = None, pr_fields_set = []\<rparr>"

definition sample_governed_state :: graph_state where
  "sample_governed_state = sample_state\<lparr>gs_proposals :=
     [(''prop/a'', sample_proposal ''prop/a'' Rejected), (''prop/b'', sample_proposal ''prop/b'' Pending)]\<rparr>"

definition sample_approval_patch :: patch where
  "sample_approval_patch = (sample_patch Approval Human
     (graph_operations_from_proposal sample_proposal_ops
       @ [ResolveProposals [\<lparr>pres_id = ''prop/b'', pres_status = Approved, pres_reason = None\<rparr>]]))
     \<lparr>p_run_truth_scope := []\<rparr>"

definition sample_approval_result :: graph_state where
  "sample_approval_result =
     projr (apply_valid_patch declared_adapters sample_governed_state sample_approval_patch)"

lemma sample_governed_coherent: "graph_coherent sample_governed_state"
  by code_simp

lemma sample_approval_admitted:
  "validate_patch declared_adapters sample_digests (sample_env Admission) sample_governed_state
     sample_approval_patch = []"
  by code_simp

lemma sample_approval_applies:
  "apply_valid_patch declared_adapters sample_governed_state sample_approval_patch
     = Inr sample_approval_result"
proof -
  have "\<not> isl (apply_valid_patch declared_adapters sample_governed_state sample_approval_patch)"
    by code_simp
  then show ?thesis by (simp add: sample_approval_result_def)
qed

end
