(* ===== verification/Admission.thy ===== *)
theory Admission
  imports Staging Frame AdmissionSamples
begin

text \<open>
  What admission guarantees: a patch the validator accepts applies, to the graph it was
  staged to; and the authority an accepted operation needed was held by the patch's author.
\<close>

section \<open>Accepted patches apply\<close>

lemma accepted_staging:
  assumes "\<not> rejected (validate_plain_patch A env st p)" and "p_transition p = None"
  obtains r ctx a where "patch_level_report A env st p = Inr r" and "\<not> rejected r"
    and "staged A (validate_proposal A) (initial_context env st p r) (p_ops p) ctx"
    and "apply_ops A p [] (List.enumerate 0 (p_ops p)) (begin_apply st) = Inr a"
    and "core (ap_state a) = core (cx_state ctx)"
    and "\<not> rejected (validate_queued_decision_options ctx)"
    and "\<not> rejected (validate_created_proposal_liveness ctx)"
proof -
  obtain r ctx where r: "patch_level_report A env st p = Inr r" "\<not> rejected r"
    and s: "staged A (validate_proposal A) (initial_context env st p r) (p_ops p) ctx"
    and tail: "\<not> rejected (validate_queued_decision_options ctx)"
      "\<not> rejected (validate_created_proposal_liveness ctx)"
    by (rule accepted_plain_patch [OF assms(1)])
  have "\<exists>a. apply_ops A p [] (List.enumerate 0 (p_ops p)) (begin_apply st) = Inr a
      \<and> core (ap_state a) = core (cx_state ctx)"
    by (rule staged_applies [OF s _ assms(2)]) (simp_all add: initial_context_def begin_apply_def)
  then show thesis using that r s tail by blast
qed

text \<open>C1: every patch the validator accepts, for admission or for replay, applies. No
  operation of an accepted patch raises once the operations are run as one list.\<close>

theorem accepted_patch_applies:
  assumes "p_transition p = None" and "\<not> rejected (validate_patch A D env st p)"
  shows "\<exists>st'. apply_valid_patch A st p = Inr st'"
proof -
  have "\<not> rejected (validate_plain_patch A env st p)" using assms by (simp add: validate_patch_def)
  then obtain a where "apply_ops A p [] (List.enumerate 0 (p_ops p)) (begin_apply st) = Inr a"
    by (rule accepted_staging [OF _ assms(1)])
  then show ?thesis
    using assms(1) by (simp add: apply_valid_patch_def apply_patch_def generated_operation_indexes_def Let_def)
qed

theorem accepted_patch_applies_witness:
  "validate_patch declared_adapters sample_digests (sample_env Admission) sample_state sample_agent_patch = []
   \<and> (\<exists>st'. apply_valid_patch declared_adapters sample_state sample_agent_patch = Inr st')"
  using accepted_patch_applies [OF sample_agent_header(1)] sample_agent_patch_admitted
  by (metis rejected_Nil)

text \<open>The graph an accepted patch produces is, up to edge layers and the refresh time, the
  graph the validator staged, at the patch's revision.\<close>

lemma accepted_result:
  assumes "\<not> rejected (validate_plain_patch A env st p)" and "p_transition p = None"
    and "apply_valid_patch A st p = Inr st'"
  obtains r ctx where "patch_level_report A env st p = Inr r" and "\<not> rejected r"
    and "staged A (validate_proposal A) (initial_context env st p r) (p_ops p) ctx"
    and "core st' = (core (cx_state ctx))\<lparr>gs_revision := max (gs_revision st) (p_revision p)\<rparr>"
    and "\<not> rejected (validate_queued_decision_options ctx)"
    and "\<not> rejected (validate_created_proposal_liveness ctx)"
proof -
  obtain r ctx a where r: "patch_level_report A env st p = Inr r" "\<not> rejected r"
    and s: "staged A (validate_proposal A) (initial_context env st p r) (p_ops p) ctx"
    and a: "apply_ops A p [] (List.enumerate 0 (p_ops p)) (begin_apply st) = Inr a"
    and c: "core (ap_state a) = core (cx_state ctx)"
    and tail: "\<not> rejected (validate_queued_decision_options ctx)"
      "\<not> rejected (validate_created_proposal_liveness ctx)"
    by (rule accepted_staging [OF assms(1,2)])
  have st': "st' = ap_state (finish_apply p a)"
    using assms(2,3) a by (auto simp: apply_valid_patch_def apply_patch_def generated_operation_indexes_def Let_def)
  have "gs_revision (ap_state a) = gs_revision st"
    using revision_kept.apply_ops_rel [OF a] by (simp add: begin_apply_def)
  then have "core st' = (core (cx_state ctx))\<lparr>gs_revision := max (gs_revision st) (p_revision p)\<rparr>"
    by (simp add: st' core_finish c)
  then show thesis using that r s tail by blast
qed

text \<open>What the staged graph and the result share.\<close>

lemma core_stamped_eqD:
  assumes "core st' = (core s)\<lparr>gs_revision := rv\<rparr>"
  shows "gs_nodes st' = gs_nodes s" "gs_proposals st' = gs_proposals s"
    "gs_config_revisions st' = gs_config_revisions s"
    "map (map_prod id unlayered) (gs_edges st') = map (map_prod id unlayered) (gs_edges s)"
    "gs_revision st' = rv"
  using arg_cong [OF assms, of gs_nodes] arg_cong [OF assms, of gs_proposals]
    arg_cong [OF assms, of gs_config_revisions] arg_cong [OF assms, of gs_edges]
    arg_cong [OF assms, of gs_revision]
  by (simp_all add: core_def)

section \<open>Authority of accepted operations\<close>

lemma staged_frame: "staged A vp ctx ops ctx' \<Longrightarrow> same_frame ctx ctx'"
  by (induction rule: staged.induct)
     (auto simp: accepted_step_def same_frame_def)

lemma staged_member:
  assumes "staged A vp ctx ops ctx'" and "op \<in> set ops"
  obtains before after where "same_frame ctx before" and "accepted_step A vp before op after"
  using assms
proof (induction rule: staged.induct)
  case (staged_step ctx op' mid ops ctx')
  then show ?case using same_frame_trans by (auto simp: accepted_step_def same_frame_def)
qed simp

text \<open>Reading off the actions of an operation only ever raises for an unhashable status.\<close>

lemma rconcat_error:
  "rconcat f xs = Inl e \<Longrightarrow> (\<And>x e. x \<in> set xs \<Longrightarrow> f x = Inl e \<Longrightarrow> P e) \<Longrightarrow> P e"
  by (induction xs) (auto simp: rbind_eq_Inl)

lemma operation_actions_error: "operation_actions st p op = Inl e \<Longrightarrow> e = TypeError"
proof (induction st p op rule: operation_actions.induct)
  case (2 st p us)
  have "update_action st p u = Inl e' \<Longrightarrow> e' = TypeError" for u e'
    by (auto simp: update_action_def in_literals_def Let_def rbind_eq_Inl
        split: if_splits option.splits pyval.splits)
  then show ?case using 2 rconcat_error [of "update_action st p" us e "\<lambda>e. e = TypeError"]
    by (auto simp: rbind_eq_Inl)
qed auto

lemma accepted_actions:
  assumes "accepted_step A vp ctx op ctx'" and "cx_mode ctx = Admission"
  obtains as where "operation_actions (cx_initial_state ctx) (cx_patch ctx) op = Inr as"
    and "\<forall>a \<in> set as. permits (cx_patch ctx) a"
proof -
  obtain auth where auth: "validate_operation_authority ctx op = Inr auth" "\<not> rejected auth"
    using assms(1) by (auto simp: accepted_step_def)
  show thesis
  proof (cases "operation_actions (cx_initial_state ctx) (cx_patch ctx) op")
    case (Inl e)
    with operation_actions_error [OF Inl] auth(1) assms(2) show ?thesis
      by (simp add: validate_operation_authority_def)
  next
    case (Inr as)
    with auth assms(2) have "\<forall>a \<in> set as. permits (cx_patch ctx) a"
      by (auto simp: validate_operation_authority_def rejected_concat)
    with Inr that show ?thesis by blast
  qed
qed

text \<open>The actions no agent holds, whatever its profile.\<close>

lemma agent_never_permitted:
  assumes "p_author p = Some Agent"
    and "a \<in> {UPDATE_PROTECTED_EPISTEMIC, REMOVE_PROTECTED_EPISTEMIC, SUPERSEDE_PROTECTED_EPISTEMIC,
      MERGE_PROTECTED_EPISTEMIC, RESTRUCTURE_PROTECTED_EPISTEMIC, RESOLVE_PROPOSAL, UPSERT_GLOSSARY,
      SET_PROJECT_TRUTH_SCOPE, SET_ONTOLOGY, CREATE_AMBIGUITY, RESOLVE_AMBIGUITY}"
  shows "\<not> permits p a"
  using assms by (auto simp: permits_def ORCHESTRATOR_AGENT_GRAPH_ACTIONS_def ORDINARY_AGENT_GRAPH_ACTIONS_def)

lemma target_actions_member:
  "i \<in> set ids \<Longrightarrow> is_existing_protected_node st i \<Longrightarrow> prot \<in> set (node_target_actions st ids base prot)"
  by (auto simp: node_target_actions_def or_base_def)

definition protected_actions :: "graph_action list" where
  "protected_actions = [UPDATE_PROTECTED_EPISTEMIC, REMOVE_PROTECTED_EPISTEMIC,
     SUPERSEDE_PROTECTED_EPISTEMIC, MERGE_PROTECTED_EPISTEMIC]"

lemma protected_update_action:
  assumes "rconcat (update_action st p) us = Inr bs" and "u \<in> set us"
    and "is_existing_protected_node st (nu_id u)"
  shows "UPDATE_PROTECTED_EPISTEMIC \<in> set (or_base bs UPDATE_NODE)"
  using rconcat_Inr_element [OF assms(1,2)] assms(3) by (auto simp: update_action_def or_base_def)

text \<open>An operation that names a protected node of the graph needs a protected action.\<close>

lemma protected_footprint_actions:
  assumes "operation_actions st p op = Inr as" and "is_existing_protected_node st i"
    and "i \<in> set (node_footprint op)" and "\<And>cs. op \<noteq> CreateNodes cs"
  shows "set as \<inter> set protected_actions \<noteq> {}"
proof (cases op)
  case (UpdateNodes us)
  with assms(3) obtain u where "u \<in> set us" "nu_id u = i"
    by (auto simp: node_footprint_def touched_ids_of_def)
  with assms(1,2) UpdateNodes have "UPDATE_PROTECTED_EPISTEMIC \<in> set as"
    using protected_update_action by (auto simp: rbind_eq_Inr)
  then show ?thesis by (auto simp: protected_actions_def)
next
  case (RemoveNodes ids)
  then show ?thesis using assms target_actions_member [of i ids st REMOVE_PROTECTED_EPISTEMIC REMOVE_NODE]
    by (auto simp: protected_actions_def node_footprint_def touched_ids_of_def)
next
  case (SupersedeNodes xs)
  then show ?thesis
    using assms target_actions_member [of i "map sn_id xs" st SUPERSEDE_PROTECTED_EPISTEMIC SUPERSEDE_NODE]
    by (auto simp: protected_actions_def node_footprint_def touched_ids_of_def node_lifecycle_actions_def)
next
  case (MergeNodes ms)
  then show ?thesis
    using assms target_actions_member [of i "map nm_duplicate ms" st MERGE_PROTECTED_EPISTEMIC MERGE_NODE]
    by (auto simp: protected_actions_def node_footprint_def touched_ids_of_def node_lifecycle_actions_def)
next
  case (SetStanding j sd)
  then show ?thesis using assms
    by (auto simp: protected_actions_def node_footprint_def touched_ids_of_def)
qed (use assms(3,4) in \<open>simp_all add: node_footprint_def touched_ids_of_def\<close>)

lemma each_cited_accepts:
  assumes "each_cited f xs = Inr c" and "\<not> rejected (snd c)" and "x \<in> set xs"
  obtains d where "f x = Inr d" and "\<not> rejected (snd d)"
proof -
  have "\<exists>d. f x = Inr d \<and> \<not> rejected (snd d)"
    if "rfold (add_cited f) xs acc = Inr c" "x \<in> set xs" for acc
    using that
  proof (induction xs arbitrary: acc)
    case (Cons y ys)
    from Cons.prems(1) obtain mid where mid: "add_cited f y acc = Inr mid"
      and rest: "rfold (add_cited f) ys mid = Inr c" by (auto simp: rbind_eq_Inr)
    have grows: "rejected (snd mid) \<Longrightarrow> rejected (snd c)"
      by (rule rfold_invariant [OF rest, of "\<lambda>m. rejected (snd m)"])
         (auto simp: add_cited_def rbind_eq_Inr)
    show ?case
    proof (cases "x = y")
      case True
      then show ?thesis using mid grows assms(2) by (fastforce simp: add_cited_def rbind_eq_Inr)
    qed (use Cons.prems(2) Cons.IH [OF rest] in simp)
  qed simp
  then show thesis using assms that unfolding each_cited_def by blast
qed

text \<open>Admission never lets a created node take the id of a node of the initial graph.\<close>

lemma accepted_create_fresh:
  assumes "accepted_step A vp ctx (CreateNodes cs) ctx'" and "cx_mode ctx = Admission" and "c \<in> set cs"
  shows "\<not> dhas (n_id (cn_node c)) (gs_nodes (cx_initial_state ctx))"
proof -
  obtain d where "validate_create_nodes A ctx cs = Inr d" and "\<not> rejected (snd d)"
    using assms(1) by (auto simp: accepted_step_def)
  then obtain e where "check_create_node A ctx c = Inr e" and "\<not> rejected (snd e)"
    unfolding validate_create_nodes_def by (rule each_cited_accepts [OF _ _ assms(3)])
  then show ?thesis using assms(2) by (auto simp: check_create_node_def rbind_eq_Inr Let_def)
qed

lemma admitted_frame:
  assumes "staged A vp (initial_context env st p r) (p_ops p) ctx" and "ve_mode env = Admission"
    and "op \<in> set (p_ops p)"
  obtains c c' where "accepted_step A vp c op c'" and "cx_initial_state c = st" and "cx_patch c = p"
    and "cx_mode c = Admission" and "cx_experiment_control_node_id c = control_node_id env p"
  by (rule staged_member [OF assms(1,3)]) (use assms(2) in \<open>auto simp: same_frame_def initial_context_def\<close>)

lemma admitted_agent_avoids_protected:
  assumes "staged A vp (initial_context env st p r) (p_ops p) ctx" and "ve_mode env = Admission"
    and "p_author p = Some Agent" and "is_existing_protected_node st i"
  shows "i \<notin> set (patch_footprint p)"
proof
  assume "i \<in> set (patch_footprint p)"
  then obtain op where op: "op \<in> set (p_ops p)" and foot: "i \<in> set (node_footprint op)"
    by (auto simp: patch_footprint_def)
  obtain c c' where acc: "accepted_step A vp c op c'" and c: "cx_initial_state c = st" "cx_patch c = p"
    "cx_mode c = Admission" by (rule admitted_frame [OF assms(1,2) op])
  obtain as where as: "operation_actions st p op = Inr as" "\<forall>a \<in> set as. permits p a"
    by (rule accepted_actions [OF acc c(3)]) (simp add: c)
  have "op \<noteq> CreateNodes cs" for cs
    using accepted_create_fresh [of A vp c cs c'] acc c assms(4) foot
    by (auto simp: is_existing_protected_node_def dhas_iff node_footprint_def touched_ids_of_def
        split: option.splits)
  from protected_footprint_actions [OF as(1) assms(4) foot this] obtain a
    where "a \<in> set as" and "a \<in> set protected_actions" by blast
  then show False using as(2) agent_never_permitted [OF assms(3), of a] by (auto simp: protected_actions_def)
qed

text \<open>C2: agents never touch the questions and hypotheses of the graph. An admitted patch
  written by an agent, of either profile, leaves every existing ResearchQuestion and
  Hypothesis node exactly as it was, standing and status included.\<close>

theorem admitted_agent_keeps_protected:
  assumes "validators A" and "graph_coherent st" and "p_transition p = None"
    and "ve_mode env = Admission" and "p_author p = Some Agent"
    and "\<not> rejected (validate_patch A D env st p)" and "apply_valid_patch A st p = Inr st'"
    and "dget (gs_nodes st) i = Some n" and "is_protected n"
  shows "dget (gs_nodes st') i = Some n"
proof -
  have "\<not> rejected (validate_plain_patch A env st p)" using assms(3,6) by (simp add: validate_patch_def)
  then obtain r ctx where s: "staged A (validate_proposal A) (initial_context env st p r) (p_ops p) ctx"
    by (rule accepted_plain_patch)
  have "is_existing_protected_node st i" using assms(8,9) by (simp add: is_existing_protected_node_def)
  then have "i \<notin> set (patch_footprint p)"
    by (rule admitted_agent_avoids_protected [OF s assms(4,5)])
  then have "dget (gs_nodes st') i = dget (gs_nodes st) i"
    using validators.framed_apply [OF assms(1)] assms(2,7)
    by (fastforce simp: apply_valid_patch_def rbind_eq_Inr framed_def)
  then show ?thesis using assms(8) by simp
qed

theorem admitted_agent_keeps_protected_witness:
  "dget (gs_nodes sample_agent_result) ''hyp/a'' = Some (sample_hypothesis ''active'')"
proof -
  have get: "dget (gs_nodes sample_state) ''hyp/a'' = Some (sample_hypothesis ''active'')"
    and prot: "is_protected (sample_hypothesis ''active'')" by code_simp+
  have ok: "\<not> rejected (validate_patch declared_adapters sample_digests (sample_env Admission)
      sample_state sample_agent_patch)" by (simp add: sample_agent_patch_admitted)
  show ?thesis
    by (rule admitted_agent_keeps_protected [OF declared_validators.validators_axioms
          sample_state_coherent sample_agent_header(1) sample_agent_header(4) sample_agent_header(2)
          ok sample_agent_applies get prot])
qed

end
