(* ===== verification/ReplayProps.thy ===== *)
theory ReplayProps
  imports Replay Admission
begin

text \<open>
  Properties of \<open>materialize_patches\<close>: what the replay of a log keeps, when it goes on, what
  a degraded replay leaves behind, and how a log is replayed in two parts.
\<close>

section \<open>The induction principle of the replay loop\<close>

locale replay_relation =
  fixes R :: "materialization \<Rightarrow> materialization \<Rightarrow> bool"
    and A :: adapters and D :: digests and opts :: replay_options
  assumes refl: "R m m"
    and trans: "R l m \<Longrightarrow> R m n \<Longrightarrow> R l n"
    and skip: "R m (skip_rejected p m)"
    and accepted: "R m (fst (replay_accepted A D opts p m))"
begin

lemma replay_rel: "R m (replay_patches A D opts ps m)"
proof (induction ps arbitrary: m)
  case (Cons p ps)
  then show ?case
    using trans [OF skip [of m p]] trans [OF accepted [of m p]] accepted [of m p]
    by (auto split: prod.splits)
qed (simp add: refl)

end

section \<open>Operations leave the replay status alone\<close>

definition same_status :: "graph_state \<Rightarrow> graph_state \<Rightarrow> bool" where
  "same_status s t \<longleftrightarrow> gs_replay_status t = gs_replay_status s \<and> gs_replay_failure t = gs_replay_failure s
     \<and> gs_validation_messages t = gs_validation_messages s"

lemma status_frame [simp]:
  "same_status s (put_node i n t) = same_status s t"
  "same_status s (put_edge i e t) = same_status s t"
  "same_status s (put_proposal q t) = same_status s t"
  "same_status s (record_belief_transition n n' rv c t) = same_status s t"
  "same_status s (apply_create_ambiguity p b t) = same_status s t"
  "same_status s (apply_create_proposal p q t) = same_status s t"
  "same_status s (apply_upsert_term p g t) = same_status s t"
  "same_status s (apply_coverage cu t) = same_status s t"
  "same_status s (apply_truth_scope p sc t) = same_status s t"
  "same_status s (apply_ontology p ont t) = same_status s t"
  "same_status s (apply_remove_nodes ids t) = same_status s t"
  "same_status s (renarrow_edge i t) = same_status s t"
  by (simp_all add: same_status_def put_node_def put_edge_def put_proposal_def apply_create_ambiguity_def
      apply_create_proposal_def apply_upsert_term_def apply_coverage_def apply_truth_scope_def
      apply_ontology_def apply_remove_nodes_def renarrow_edge_def Let_def
      record_belief_transition_def split: option.splits prod.splits node_body.splits)

lemma status_same [simp]:
  "same_status s s"
  "same_status s (t\<lparr>gs_edges := es\<rparr>) = same_status s t"
  "same_status s (t\<lparr>gs_revision := rv, gs_last_refresh_at := lr\<rparr>) = same_status s t"
  by (simp_all add: same_status_def)

lemma status_trans: "same_status s t \<Longrightarrow> same_status t u \<Longrightarrow> same_status s u"
  by (simp add: same_status_def)

lemma status_partial:
  "apply_create_edge p e a = Inr a' \<Longrightarrow> same_status (ap_state a) (ap_state a')"
  "apply_resolve_ambiguity r s = Inr s' \<Longrightarrow> same_status s s'"
  "apply_resolve_proposal p pr s = Inr s' \<Longrightarrow> same_status s s'"
  "apply_withdraw_proposal p w s = Inr s' \<Longrightarrow> same_status s s'"
  "apply_create_node A p c s = Inr s' \<Longrightarrow> same_status s s'"
  "apply_standing p i sd s = Inr s' \<Longrightarrow> same_status s s'"
  by (auto simp: apply_create_edge_def apply_resolve_ambiguity_def apply_resolve_proposal_def
      apply_withdraw_proposal_def apply_create_node_def apply_standing_def rbind_eq_Inr Let_def)
     (simp add: same_status_def)

lemma status_update:
  assumes "apply_update_node A p g u s = Inr s'" shows "same_status s s'"
proof -
  have "(if b then Inl e else rbind m f) = Inr y \<Longrightarrow> \<exists>x. m = Inr x \<and> f x = Inr y"
    for b e y and m :: "project_node res" and f :: "project_node \<Rightarrow> graph_state res"
    by (auto simp: rbind_eq_Inr split: if_splits)
  then show ?thesis using assms unfolding apply_update_node_def rbind_eq_Inr by fastforce
qed

lemma status_set_node_status:
  "set_node_status A i st rv ps s = Inr (n, s') \<Longrightarrow> same_status s s'"
  by (auto simp: set_node_status_def rbind_eq_Inr)

lemma status_lifecycle:
  "apply_supersede_node A p x s = Inr s' \<Longrightarrow> same_status s s'"
  "apply_merge_node A p m s = Inr s' \<Longrightarrow> same_status s s'"
  by (cases "sn_superseded_by x")
     (auto simp: apply_supersede_node_def apply_merge_node_def rbind_eq_Inr Let_def
       status_set_node_status split: if_splits)

interpretation status: item_relation same_status A p for A p
  by unfold_locales
    (auto simp: status_partial status_update status_lifecycle intro: status_trans)

lemma apply_patch_revision:
  assumes "apply_patch A p extra st = Inr (st', ds)"
  shows "gs_revision st' = max (gs_revision st) (p_revision p)"
proof -
  from assms obtain a where a: "apply_ops A p (generated_operation_indexes p extra)
      (List.enumerate 0 (p_ops p)) (begin_apply st) = Inr a" and st': "st' = ap_state (finish_apply p a)"
    by (auto simp: apply_patch_def rbind_eq_Inr Let_def)
  have "gs_revision (ap_state a) = gs_revision st"
    using revision_kept.apply_ops_rel [OF a] by (simp add: begin_apply_def)
  then show ?thesis by (simp add: st' finish_revision)
qed

section \<open>One accepted patch\<close>

text \<open>The three ways the replay of an accepted patch ends.\<close>

lemma replay_accepted_cases:
  obtains (stops) code r where "replay_accepted A D opts p m
      = ((put_report p r m)\<lparr>mz_state := degrade p code (mz_state m)\<rparr>, False)"
    and "rejected r"
  | (continues) r st' ds m' where "replay_accepted A D opts p m = (m', True)"
    and "\<not> rejected (validate_patch A D (replay_env opts (mz_state m)) (mz_state m) p)"
    and "apply_patch A p [] (mz_state m) = Inr (st', ds)"
    and "mz_state m' = st'\<lparr>gs_validation_messages := gs_validation_messages st' @ p_admission_messages p\<rparr>"
    and "mz_observed m' = mz_observed m @ [(mz_state m, p, mz_state m')]"
proof -
  let ?r = "validate_patch A D (replay_env opts (mz_state m)) (mz_state m) p @ p_admission_messages p"
  show thesis
  proof (cases "rejected ?r")
    case True
    then show thesis using stops [of "first_reject ?r" ?r] by (simp add: replay_accepted_def Let_def)
  next
    case False
    show thesis
    proof (cases "apply_patch A p [] (mz_state m)")
      case (Inl e)
      then show thesis using False stops [of "''malformed-operation''"
          "?r @ [report_reject ''malformed-operation'' (Some (p_revision p)) [] []]"]
        by (simp add: replay_accepted_def Let_def rejected_append)
    next
      case (Inr b)
      obtain st' ds where b: "b = (st', ds)" by (cases b)
      show thesis
        by (rule continues) (use False Inr b in \<open>auto simp: replay_accepted_def Let_def rejected_append\<close>)
    qed
  qed
qed


lemma accepted_status:
  assumes "gs_replay_status (mz_state m) \<noteq> Degraded" and "replay_accepted A D opts p m = (m', go)"
  shows "gs_replay_status (mz_state m') = Degraded \<longleftrightarrow> \<not> go"
proof (rule replay_accepted_cases [of A D opts p m])
  fix st' ds m'' assume r: "replay_accepted A D opts p m = (m'', True)"
    and a: "apply_patch A p [] (mz_state m) = Inr (st', ds)"
    and m'': "mz_state m'' = st'\<lparr>gs_validation_messages := gs_validation_messages st' @ p_admission_messages p\<rparr>"
  show ?thesis using assms r m'' status.apply_patch_rel [OF a] by (simp add: same_status_def)
qed (use assms in \<open>simp add: degrade_def\<close>)

lemma skip_status: "gs_replay_status (mz_state (skip_rejected p m)) = gs_replay_status (mz_state m)"
  by (simp add: skip_rejected_def)

lemma start_status: "gs_replay_status (mz_state (replay_start opts)) \<noteq> Degraded"
  by (simp add: replay_start_def initial_graph_state_def Let_def)

section \<open>Replaying in two parts\<close>

lemma replay_append:
  assumes "gs_replay_status (mz_state m) \<noteq> Degraded"
  shows "replay_patches A D opts (ps @ qs) m =
    (let m' = replay_patches A D opts ps m in
     if gs_replay_status (mz_state m') = Degraded then m' else replay_patches A D opts qs m')"
  using assms
proof (induction ps arbitrary: m)
  case (Cons p ps)
  obtain m' go where r: "replay_accepted A D opts p m = (m', go)" by force
  show ?case
    using Cons.IH [of "skip_rejected p m"] Cons.IH [of m'] accepted_status [OF Cons.prems r] Cons.prems
    by (cases go) (simp_all add: r skip_status)
qed simp

text \<open>a log can be replayed in two parts. Replaying the log and then a suffix from the
  state reached is the replay of the whole log; after a degraded first part nothing of the
  suffix is looked at.\<close>

theorem replay_in_two_parts:
  "materialize_patches A D opts (ps @ qs) =
    (let m = materialize_patches A D opts ps in
     if gs_replay_status (mz_state m) = Degraded then m else replay_patches A D opts qs m)"
  unfolding materialize_patches_def by (rule replay_append [OF start_status])

section \<open>Degraded replay\<close>

lemma degraded_split:
  assumes "gs_replay_status (mz_state m) \<noteq> Degraded"
    and "gs_replay_status (mz_state (replay_patches A D opts ps m)) = Degraded"
  shows "\<exists>pre p post code. ps = pre @ p # post \<and> p_admission p \<noteq> NotAdmitted
    \<and> gs_replay_status (mz_state (replay_patches A D opts pre m)) \<noteq> Degraded
    \<and> mz_state (replay_patches A D opts ps m) = degrade p code (mz_state (replay_patches A D opts pre m))"
  using assms
proof (induction ps arbitrary: m)
  case (Cons p ps)
  let ?goal = "\<lambda>ps m. \<exists>pre p post code. ps = pre @ p # post \<and> p_admission p \<noteq> NotAdmitted
    \<and> gs_replay_status (mz_state (replay_patches A D opts pre m)) \<noteq> Degraded
    \<and> mz_state (replay_patches A D opts ps m) = degrade p code (mz_state (replay_patches A D opts pre m))"
  have step: "?goal (p # ps) m" if "?goal ps m'"
    and "\<And>qs. replay_patches A D opts (p # qs) m = replay_patches A D opts qs m'" for m'
    using that by (metis append_Cons)
  show ?case
  proof (cases "p_admission p = NotAdmitted")
    case True
    then show ?thesis using Cons.IH [of "skip_rejected p m"] Cons.prems
      by (intro step [of "skip_rejected p m"]) (simp_all add: skip_status)
  next
    case False
    show ?thesis
    proof (rule replay_accepted_cases [of A D opts p m])
      fix code r assume "replay_accepted A D opts p m
          = ((put_report p r m)\<lparr>mz_state := degrade p code (mz_state m)\<rparr>, False)"
      then have "mz_state (replay_patches A D opts (p # ps) m) = degrade p code (mz_state m)"
        using False by simp
      then show ?thesis using False Cons.prems(1)
        by (intro exI [of _ "[]"] exI [of _ p] exI [of _ ps] exI [of _ code]) simp
    next
      fix m' assume r: "replay_accepted A D opts p m = (m', True)"
      then show ?thesis
        using False Cons.IH [of m'] Cons.prems accepted_status [OF Cons.prems(1) r]
        by (intro step [of m']) simp_all
    qed
  qed
qed simp

text \<open>a degraded replay keeps the graph of the last good prefix. When the replay of a log
  degrades, some accepted patch of the log is the culprit, the patches before it replay
  completely, and the graph left behind is theirs with only the status and the failure
  record set.\<close>

theorem degraded_replay_keeps_prefix:
  assumes "gs_replay_status (mz_state (materialize_patches A D opts ps)) = Degraded"
  shows "\<exists>pre p post code. ps = pre @ p # post \<and> p_admission p \<noteq> NotAdmitted
    \<and> gs_replay_status (mz_state (materialize_patches A D opts pre)) = Complete
    \<and> mz_state (materialize_patches A D opts ps) =
        (mz_state (materialize_patches A D opts pre))\<lparr>gs_replay_status := Degraded,
          gs_replay_failure := Some \<lparr>rf_revision = p_revision p, rf_created_at = p_created_at p,
            rf_code = code\<rparr>\<rparr>"
proof -
  obtain pre p post code where split: "ps = pre @ p # post" "p_admission p \<noteq> NotAdmitted"
    and ok: "gs_replay_status (mz_state (materialize_patches A D opts pre)) \<noteq> Degraded"
    and st: "mz_state (materialize_patches A D opts ps) = degrade p code (mz_state (materialize_patches A D opts pre))"
    using degraded_split [OF start_status assms [unfolded materialize_patches_def]]
    unfolding materialize_patches_def by blast
  have "gs_replay_status (mz_state (materialize_patches A D opts pre)) = Complete"
    using ok replay_status.exhaust by blast
  with split st show ?thesis unfolding degrade_def by blast
qed

section \<open>Revision and history\<close>

lemma replay_revision_step:
  assumes "gs_replay_status (mz_state m) \<noteq> Degraded"
    and "gs_replay_status (mz_state (replay_patches A D opts ps m)) \<noteq> Degraded"
  shows "gs_revision (mz_state (replay_patches A D opts ps m))
    = foldl max (gs_revision (mz_state m)) (map p_revision ps)"
  using assms
proof (induction ps arbitrary: m)
  case (Cons p ps)
  show ?case
  proof (cases "p_admission p = NotAdmitted")
    case True
    have "gs_revision (mz_state (skip_rejected p m)) = max (gs_revision (mz_state m)) (p_revision p)"
      by (simp add: skip_rejected_def)
    then show ?thesis using True Cons.IH [of "skip_rejected p m"] Cons.prems by (simp add: skip_status)
  next
    case False
    show ?thesis
    proof (rule replay_accepted_cases [of A D opts p m])
      fix m' st' ds assume r: "replay_accepted A D opts p m = (m', True)"
        and a: "apply_patch A p [] (mz_state m) = Inr (st', ds)"
        and m': "mz_state m' = st'\<lparr>gs_validation_messages := gs_validation_messages st' @ p_admission_messages p\<rparr>"
      then show ?thesis
        using False Cons.IH [of m'] Cons.prems accepted_status [OF Cons.prems(1) r]
          apply_patch_revision [OF a] by simp
    qed (use False Cons.prems in \<open>simp add: degrade_def\<close>)
  qed
qed simp

text \<open>a complete replay ends at the largest revision of the log. Rejected patches count:
  the revision they were refused at is never reused.\<close>

lemma complete_replay_revision:
  assumes "gs_replay_status (mz_state (materialize_patches A D opts ps)) = Complete"
  shows "gs_revision (mz_state (materialize_patches A D opts ps)) = Max (set (0 # map p_revision ps))"
proof -
  have "foldl max a xs = Max (set (a # xs))" for a :: int and xs
    unfolding Max.set_eq_fold foldl_conv_fold by (simp add: max.commute)
  then show ?thesis
    using replay_revision_step [OF start_status, of A D opts ps opts] assms
    by (simp add: materialize_patches_def replay_start_def initial_graph_state_def Let_def)
qed


section \<open>Invariants of the replayed graph\<close>

sublocale validators \<subseteq> replayed: replay_relation
  "\<lambda>m m'. graph_coherent (mz_state m) \<longrightarrow> graph_coherent (mz_state m')" A D opts for D opts
proof
  fix m p
  have messages: "graph_coherent (st\<lparr>gs_validation_messages := x\<rparr>) = graph_coherent st" for st x
    by (simp add: graph_coherent_def)
  show "graph_coherent (mz_state m) \<longrightarrow> graph_coherent (mz_state (skip_rejected p m))"
    by (simp add: skip_rejected_def graph_coherent_def)
  show "graph_coherent (mz_state m) \<longrightarrow> graph_coherent (mz_state (fst (replay_accepted A D opts p m)))"
  proof (rule replay_accepted_cases [of A D opts p m])
    fix m' st' ds assume r: "replay_accepted A D opts p m = (m', True)"
      and a: "apply_patch A p [] (mz_state m) = Inr (st', ds)"
      and m': "mz_state m' = st'\<lparr>gs_validation_messages := gs_validation_messages st' @ p_admission_messages p\<rparr>"
    then show ?thesis using coherent_apply [OF a] by (simp add: messages)
  qed (simp add: degrade_def graph_coherent_def)
qed blast+

lemma start_coherent: "graph_coherent (mz_state (replay_start opts))"
  by (simp add: replay_start_def initial_graph_state_def graph_coherent_def keyed_def Let_def)

definition history_grows :: "materialization \<Rightarrow> materialization \<Rightarrow> bool" where
  "history_grows m m' \<longleftrightarrow>
     (\<exists>new. gs_belief_transitions (mz_state m') = gs_belief_transitions (mz_state m) @ new)
     \<and> (\<exists>seen. mz_observed m' = mz_observed m @ seen)"

lemma history_accepted:
  assumes "validators A" shows "history_grows m (fst (replay_accepted A D opts p m))"
proof (rule replay_accepted_cases [of A D opts p m])
  fix m' st' ds assume r: "replay_accepted A D opts p m = (m', True)"
    and a: "apply_patch A p [] (mz_state m) = Inr (st', ds)"
    and m': "mz_state m' = st'\<lparr>gs_validation_messages := gs_validation_messages st' @ p_admission_messages p\<rparr>"
    and seen: "mz_observed m' = mz_observed m @ [(mz_state m, p, mz_state m')]"
  have "belief_extends (p_revision p) (mz_state m) st'" using validators.belief_apply [OF assms a] .
  then show ?thesis using r m' seen by (auto simp: history_grows_def belief_extends_def)
qed (simp add: history_grows_def degrade_def put_report_def)

sublocale validators \<subseteq> grown: replay_relation history_grows A D opts for D opts
proof
  fix m p show "history_grows m (fst (replay_accepted A D opts p m))"
    by (rule history_accepted [OF validators_axioms])
qed (auto simp: history_grows_def skip_rejected_def put_report_def)

context validators
begin

lemma coherent_replay:
  "graph_coherent (mz_state m) \<Longrightarrow> graph_coherent (mz_state (replay_patches A D opts ps m))"
  using replayed.replay_rel by blast

lemmas history_refl = grown.refl
lemmas history_replay = grown.replay_rel

end

text \<open>the graph replayed from any log, complete or degraded, is coherent, so the
  attention projection of the Inbox is defined on it.\<close>

theorem replayed_graph_is_coherent:
  assumes "validators A"
  shows "graph_coherent (mz_state (materialize_patches A D opts ps))
    \<and> (\<exists>att. project_graph_attention (mz_state (materialize_patches A D opts ps)) = Inr att)"
proof -
  have "graph_coherent (mz_state (materialize_patches A D opts ps))"
    unfolding materialize_patches_def by (rule validators.coherent_replay [OF assms start_coherent])
  then show ?thesis using coherent_attention by blast
qed

text \<open>replaying a longer log never rewrites the history a shorter one produced: the belief
  transitions and the observed steps of a prefix of the log are a prefix of those of the
  whole log.\<close>

lemma replay_extends_history:
  assumes "validators A"
  shows "\<exists>new seen.
     gs_belief_transitions (mz_state (materialize_patches A D opts (ps @ qs)))
       = gs_belief_transitions (mz_state (materialize_patches A D opts ps)) @ new
     \<and> mz_observed (materialize_patches A D opts (ps @ qs))
       = mz_observed (materialize_patches A D opts ps) @ seen"
proof -
  let ?m = "replay_patches A D opts ps (replay_start opts)"
  have "history_grows ?m (replay_patches A D opts (ps @ qs) (replay_start opts))"
    using validators.history_refl [OF assms] validators.history_replay [OF assms, of ?m]
    by (simp add: replay_append [OF start_status] Let_def)
  then show ?thesis unfolding history_grows_def materialize_patches_def by blast
qed

text \<open>on a coherent graph the replay of an accepted patch without a trace goes on exactly
  when the validator, in replay mode, and the messages recorded at admission hold no
  rejection: such a patch is never found malformed while it is applied.\<close>

theorem plain_replay_stops_iff_rejected:
  assumes "p_transition p = None"
  shows "snd (replay_accepted A D opts p m) \<longleftrightarrow>
     \<not> rejected (validate_patch A D (replay_env opts (mz_state m)) (mz_state m) p)
     \<and> \<not> rejected (p_admission_messages p)"
proof -
  let ?v = "validate_patch A D (replay_env opts (mz_state m)) (mz_state m) p"
  have "\<exists>r. apply_patch A p [] (mz_state m) = Inr r" if "\<not> rejected ?v"
  proof -
    have "\<not> rejected (validate_plain_patch A (replay_env opts (mz_state m)) (mz_state m) p)"
      using that assms by (simp add: validate_patch_def)
    then obtain a where "apply_ops A p [] (List.enumerate 0 (p_ops p)) (begin_apply (mz_state m)) = Inr a"
      by (rule accepted_staging [OF _ assms])
    then show ?thesis using assms by (simp add: apply_patch_def generated_operation_indexes_def Let_def)
  qed
  then show ?thesis by (auto simp: replay_accepted_def Let_def split: prod.splits)
qed

section \<open>A concrete log\<close>

definition sample_options :: replay_options where
  "sample_options = \<lparr>ro_initial_truth_scope = [''repo''], ro_repository_aliases = Some [''repo''],
     ro_machine_aliases = None, ro_default_run_truth_scope = None, ro_state_repository = Some ''repo''\<rparr>"

text \<open>A refused patch, one that creates a blocker, one that edits a node nobody created.\<close>

definition sample_refused :: patch where
  "sample_refused = (sample_agent [])\<lparr>p_revision := 1, p_admission := NotAdmitted\<rparr>"

definition sample_first :: patch where
  "sample_first = sample_agent [CreateNodes [sample_new_blocker]]"

definition sample_stray :: patch where
  "sample_stray = (sample_agent [sample_update ''dec/a'' [(''status'', VStr ''ready'')] None])\<lparr>p_revision := 3\<rparr>"

abbreviation sample_replay :: "patch list \<Rightarrow> materialization" where
  "sample_replay \<equiv> materialize_patches declared_adapters sample_digests sample_options"

theorem replayed_graph_is_coherent_witness:
  "graph_coherent (mz_state (sample_replay [sample_refused, sample_first]))"
  using replayed_graph_is_coherent [OF declared_validators.validators_axioms] by blast

theorem degraded_replay_keeps_prefix_witness:
  "\<exists>pre p post. [sample_refused, sample_first, sample_stray] = pre @ p # post
     \<and> gs_replay_status (mz_state (sample_replay pre)) = Complete"
proof -
  have "gs_replay_status (mz_state (sample_replay [sample_refused, sample_first, sample_stray])) = Degraded"
    by code_simp
  from degraded_replay_keeps_prefix [OF this] show ?thesis by blast
qed

theorem plain_replay_stops_iff_rejected_witness:
  "snd (replay_accepted declared_adapters sample_digests sample_options sample_first
     (sample_replay [sample_refused]))"
proof -
  have none: "p_transition sample_first = None" "p_admission_messages sample_first = []"
    by (simp_all add: sample_first_def sample_agent_def sample_patch_def)
  have "\<not> rejected (validate_patch declared_adapters sample_digests
      (replay_env sample_options (mz_state (sample_replay [sample_refused])))
      (mz_state (sample_replay [sample_refused])) sample_first)" by code_simp
  then show ?thesis
    using plain_replay_stops_iff_rejected [OF none(1), of declared_adapters sample_digests sample_options
        "sample_replay [sample_refused]"] none(2) by simp
qed

end
