(* ===== verification/Governance.thy ===== *)
theory Governance
  imports Admission
begin

text \<open>
  What no agent changes (configuration, glossary, open questions) and what nobody changes
  (closed proposals), for patches the validator accepted.
\<close>

section \<open>Definitions\<close>

text \<open>The configuration of a project: what only a human approval may set.\<close>

definition same_configuration :: "graph_state \<Rightarrow> graph_state \<Rightarrow> bool" where
  "same_configuration s t \<longleftrightarrow> gs_ontology t = gs_ontology s
     \<and> gs_project_truth_scope t = gs_project_truth_scope s
     \<and> gs_config_revisions t = gs_config_revisions s \<and> gs_glossary t = gs_glossary s
     \<and> gs_ambiguities t = gs_ambiguities s"

definition proposal_footprint :: "graph_op \<Rightarrow> string list" where
  "proposal_footprint op = (case op of
       CreateProposals qs \<Rightarrow> map pr_id qs | ResolveProposals rs \<Rightarrow> map pres_id rs
     | WithdrawProposals ws \<Rightarrow> map pw_id ws | _ \<Rightarrow> [])"

definition proposals_framed :: "patch \<Rightarrow> graph_state \<Rightarrow> graph_state \<Rightarrow> bool" where
  "proposals_framed p s t \<longleftrightarrow> (graph_coherent s \<longrightarrow> graph_coherent t
     \<and> (\<forall>i. i \<notin> set (concat (map proposal_footprint (p_ops p))) \<longrightarrow>
          dget (gs_proposals t) i = dget (gs_proposals s) i))"

section \<open>Configuration\<close>

lemma configuration_frame:
  "same_configuration s (put_node i n s)" "same_configuration s (put_edge i e s)"
  "same_configuration s (put_proposal q s)" "same_configuration s (record_belief_transition n n' rv c s)"
  "same_configuration s (apply_create_proposal p q s)" "same_configuration s (apply_coverage cu s)"
  "same_configuration s (apply_remove_nodes ids s)" "same_configuration s (renarrow_edge i s)"
  "same_configuration s (s\<lparr>gs_edges := es\<rparr>)"
  "same_configuration s (s\<lparr>gs_revision := rv, gs_last_refresh_at := lr\<rparr>)"
  by (simp_all add: same_configuration_def put_node_def put_edge_def put_proposal_def
      apply_create_proposal_def apply_coverage_def apply_remove_nodes_def renarrow_edge_def Let_def
      record_belief_transition_def split: option.splits prod.splits node_body.splits)

lemma configuration_trans:
  "same_configuration s t \<Longrightarrow> same_configuration t u \<Longrightarrow> same_configuration s u"
  by (simp add: same_configuration_def)

lemma configuration_put:
  "same_configuration s (put_node i n (record_belief_transition m m' rv c s))"
  by (rule configuration_trans [OF configuration_frame(4) configuration_frame(1)])

lemma configuration_partial:
  "apply_create_node A p c s = Inr s' \<Longrightarrow> same_configuration s s'"
  "apply_create_edge p e a = Inr a' \<Longrightarrow> same_configuration (ap_state a) (ap_state a')"
  "apply_resolve_proposal p pr s = Inr s' \<Longrightarrow> same_configuration s s'"
  "apply_withdraw_proposal p w s = Inr s' \<Longrightarrow> same_configuration s s'"
  "apply_standing p i sd s = Inr s' \<Longrightarrow> same_configuration s s'"
  by (auto simp: apply_create_edge_def apply_resolve_proposal_def apply_withdraw_proposal_def
      apply_create_node_def apply_standing_def rbind_eq_Inr Let_def intro: configuration_frame)

lemma configuration_update: "apply_update_node A p g u s = Inr s' \<Longrightarrow> same_configuration s s'"
  by (auto simp: apply_update_node_def rbind_eq_Inr configuration_put simp del: set_map split: if_splits)

lemma configuration_status:
  "set_node_status A i status rv ps s = Inr (n, s') \<Longrightarrow> same_configuration s s'"
  by (auto simp: set_node_status_def rbind_eq_Inr intro: configuration_frame)

lemma configuration_lifecycle:
  "apply_supersede_node A p x s = Inr s' \<Longrightarrow> same_configuration s s'"
  "apply_merge_node A p m s = Inr s' \<Longrightarrow> same_configuration s s'"
proof -
  have rec: "same_configuration s (record_belief_transition n n' rv c s1)"
    if "same_configuration s s1" for s1 n n' rv c
    using that configuration_frame(4) by (rule configuration_trans)
  have edge: "same_configuration s (put_edge i e (record_belief_transition n n' rv c s1))"
    if "same_configuration s s1" for s1 i e n n' rv c
    using rec [OF that] configuration_frame(2) by (rule configuration_trans)
  show "apply_supersede_node A p x s = Inr s' \<Longrightarrow> same_configuration s s'"
    by (cases "sn_superseded_by x")
       (auto simp: apply_supersede_node_def rbind_eq_Inr Let_def split: if_splits
         dest!: configuration_status intro: edge rec)
  show "apply_merge_node A p m s = Inr s' \<Longrightarrow> same_configuration s s'"
    by (auto simp: apply_merge_node_def rbind_eq_Inr Let_def dest!: configuration_status intro: edge)
qed

text \<open>A patch without configuration operations leaves the configuration alone.\<close>

definition configures :: "graph_op \<Rightarrow> bool" where
  "configures op = (case op of CreateAmbiguities _ \<Rightarrow> True | ResolveAmbiguities _ \<Rightarrow> True
     | UpsertGlossary _ \<Rightarrow> True | SetProjectTruthScope _ _ \<Rightarrow> True | SetOntology _ \<Rightarrow> True | _ \<Rightarrow> False)"

lemma configuration_relation:
  assumes "\<forall>op \<in> set (p_ops p). \<not> configures op"
  shows "item_relation same_configuration A p"
proof -
  have "False" if "op \<in> set (p_ops p)" "configures op" for op using assms that by blast
  then have no: "CreateAmbiguities as \<notin> set (p_ops p)" "ResolveAmbiguities rs \<notin> set (p_ops p)"
    "UpsertGlossary ts \<notin> set (p_ops p)" "SetProjectTruthScope sc d \<notin> set (p_ops p)"
    "SetOntology ont \<notin> set (p_ops p)" for as rs ts sc d ont
    by (force simp: configures_def)+
  show ?thesis
    by unfold_locales
      (auto simp: no configuration_frame configuration_partial configuration_update configuration_lifecycle
        intro: configuration_trans, simp add: same_configuration_def)
qed

lemma agent_never_configures:
  assumes "operation_actions st p op = Inr as" and "\<forall>a \<in> set as. permits p a" and "p_author p = Some Agent"
  shows "\<not> configures op"
proof -
  have "\<not> permits p CREATE_AMBIGUITY" "\<not> permits p RESOLVE_AMBIGUITY" "\<not> permits p UPSERT_GLOSSARY"
    "\<not> permits p SET_PROJECT_TRUTH_SCOPE" "\<not> permits p SET_ONTOLOGY"
    by (rule agent_never_permitted [OF assms(3)], simp)+
  then show ?thesis using assms(1,2) by (cases op) (auto simp: configures_def)
qed

text \<open>C5: agents never change the project's configuration. An admitted patch of an agent
  leaves the ontology, the project truth scope, the configuration revisions, the glossary and
  the ambiguities as they were.\<close>

theorem admitted_agent_keeps_configuration:
  assumes "p_transition p = None" and "ve_mode env = Admission" and "p_author p = Some Agent"
    and "\<not> rejected (validate_patch A D env st p)" and "apply_valid_patch A st p = Inr st'"
  shows "gs_ontology st' = gs_ontology st \<and> gs_project_truth_scope st' = gs_project_truth_scope st
     \<and> gs_config_revisions st' = gs_config_revisions st \<and> gs_glossary st' = gs_glossary st
     \<and> gs_ambiguities st' = gs_ambiguities st"
proof -
  have "\<not> rejected (validate_plain_patch A env st p)" using assms(1,4) by (simp add: validate_patch_def)
  then obtain r ctx where s: "staged A (validate_proposal A) (initial_context env st p r) (p_ops p) ctx"
    by (rule accepted_plain_patch)
  have "\<forall>op \<in> set (p_ops p). \<not> configures op"
  proof
    fix op assume op: "op \<in> set (p_ops p)"
    obtain c c' where acc: "accepted_step A (validate_proposal A) c op c'"
      and c: "cx_initial_state c = st" "cx_patch c = p" "cx_mode c = Admission"
      by (rule admitted_frame [OF s assms(2) op])
    obtain as where "operation_actions st p op = Inr as" "\<forall>a \<in> set as. permits p a"
      by (rule accepted_actions [OF acc c(3)]) (simp add: c)
    then show "\<not> configures op" using assms(3) by (rule agent_never_configures)
  qed
  then have rel: "item_relation same_configuration A p" by (rule configuration_relation)
  obtain ds where "apply_patch A p [] st = Inr (st', ds)"
    using assms(5) by (auto simp: apply_valid_patch_def rbind_eq_Inr)
  from item_relation.apply_patch_rel [OF rel this] show ?thesis by (simp add: same_configuration_def)
qed

theorem admitted_agent_keeps_configuration_witness:
  "gs_ontology sample_agent_result = gs_ontology sample_state
   \<and> gs_project_truth_scope sample_agent_result = [''repo'']"
proof -
  have ok: "\<not> rejected (validate_patch declared_adapters sample_digests (sample_env Admission)
      sample_state sample_agent_patch)" by (simp add: sample_agent_patch_admitted)
  show ?thesis
    using admitted_agent_keeps_configuration [OF sample_agent_header(1) sample_agent_header(4)
        sample_agent_header(2) ok sample_agent_applies]
    by (simp add: sample_state_def initial_graph_state_def)
qed

section \<open>Closed proposals\<close>

lemma proposals_framed_same:
  "gs_proposals t = gs_proposals s \<Longrightarrow> (graph_coherent s \<Longrightarrow> graph_coherent t) \<Longrightarrow> proposals_framed p s t"
  by (simp add: proposals_framed_def)

lemma proposals_framed_trans: "proposals_framed p s t \<Longrightarrow> proposals_framed p t u \<Longrightarrow> proposals_framed p s u"
  by (simp add: proposals_framed_def)

lemma proposal_frame [simp]:
  "gs_proposals (put_node i n s) = gs_proposals s" "gs_proposals (put_edge i e s) = gs_proposals s"
  "gs_proposals (apply_create_ambiguity p b s) = gs_proposals s"
  "gs_proposals (apply_upsert_term p t s) = gs_proposals s"
  "gs_proposals (apply_coverage cu s) = gs_proposals s"
  "gs_proposals (apply_truth_scope p sc s) = gs_proposals s"
  "gs_proposals (apply_ontology p ont s) = gs_proposals s"
  "gs_proposals (apply_remove_nodes ids s) = gs_proposals s"
  "gs_proposals (renarrow_edge i s) = gs_proposals s"
  by (simp_all add: put_node_def put_edge_def apply_create_ambiguity_def apply_upsert_term_def
      apply_coverage_def apply_truth_scope_def apply_ontology_def apply_remove_nodes_def
      renarrow_edge_def Let_def split: option.splits)

lemma proposal_partial:
  "apply_create_edge p e a = Inr a' \<Longrightarrow> gs_proposals (ap_state a') = gs_proposals (ap_state a)"
  "apply_resolve_ambiguity r s = Inr s' \<Longrightarrow> gs_proposals s' = gs_proposals s"
  "apply_create_node A p c s = Inr s' \<Longrightarrow> gs_proposals s' = gs_proposals s"
  "apply_standing p i sd s = Inr s' \<Longrightarrow> gs_proposals s' = gs_proposals s"
  "apply_update_node A p g u s = Inr s' \<Longrightarrow> gs_proposals s' = gs_proposals s"
  by (auto simp: apply_create_edge_def apply_resolve_ambiguity_def apply_create_node_def
      apply_standing_def apply_update_node_def rbind_eq_Inr Let_def simp del: set_map split: if_splits)

lemma proposal_lifecycle:
  "apply_supersede_node A p x s = Inr s' \<Longrightarrow> gs_proposals s' = gs_proposals s"
  "apply_merge_node A p m s = Inr s' \<Longrightarrow> gs_proposals s' = gs_proposals s"
  by (cases "sn_superseded_by x")
     (auto simp: apply_supersede_node_def apply_merge_node_def set_node_status_def rbind_eq_Inr Let_def
       split: if_splits)

lemma proposal_footprint_items:
  "CreateProposals qs \<in> set (p_ops p) \<Longrightarrow> q \<in> set qs \<Longrightarrow> pr_id q \<in> set (concat (map proposal_footprint (p_ops p)))"
  "ResolveProposals rs \<in> set (p_ops p) \<Longrightarrow> r \<in> set rs \<Longrightarrow> pres_id r \<in> set (concat (map proposal_footprint (p_ops p)))"
  "WithdrawProposals ws \<in> set (p_ops p) \<Longrightarrow> w \<in> set ws \<Longrightarrow> pw_id w \<in> set (concat (map proposal_footprint (p_ops p)))"
  by (force simp: proposal_footprint_def)+

lemma coherent_proposal_id: "graph_coherent s \<Longrightarrow> dget (gs_proposals s) i = Some q \<Longrightarrow> pr_id q = i"
  by (auto simp: graph_coherent_def dest: keyed_dget)

lemma proposals_framed_put:
  assumes "graph_coherent s \<Longrightarrow> pr_id q \<in> set (concat (map proposal_footprint (p_ops p)))"
  shows "proposals_framed p s (put_proposal q s)"
  using assms coherent_put_proposal [of s q] by (auto simp: proposals_framed_def put_proposal_def)

lemma proposals_framed_create:
  assumes "pr_id q \<in> set (concat (map proposal_footprint (p_ops p)))"
  shows "proposals_framed p s (apply_create_proposal p q s)"
  using assms unfolding apply_create_proposal_def by (auto intro!: proposals_framed_put split: prod.splits)

lemma proposals_framed_resolve:
  assumes "apply_resolve_proposal p r s = Inr s'" and "pres_id r \<in> set (concat (map proposal_footprint (p_ops p)))"
  shows "proposals_framed p s s'"
  using assms coherent_proposal_id
  by (force simp: apply_resolve_proposal_def rbind_eq_Inr intro!: proposals_framed_put)

lemma proposals_framed_withdraw:
  assumes "apply_withdraw_proposal p w s = Inr s'" and "pw_id w \<in> set (concat (map proposal_footprint (p_ops p)))"
  shows "proposals_framed p s s'"
  using assms coherent_proposal_id
  by (force simp: apply_withdraw_proposal_def rbind_eq_Inr intro!: proposals_framed_put)

sublocale validators \<subseteq> proposal_frames: item_relation "proposals_framed p" A p for p
  by unfold_locales
    (auto intro: proposals_framed_trans proposals_framed_create [OF proposal_footprint_items(1)]
      proposals_framed_resolve [OF _ proposal_footprint_items(2)]
      proposals_framed_withdraw [OF _ proposal_footprint_items(3)] proposals_framed_same coherent_items
      simp: proposal_partial proposal_lifecycle)

lemma accepted_create_proposals_fresh:
  assumes "accepted_step A (validate_proposal A) ctx (CreateProposals qs) ctx'" and "q \<in> set qs"
  shows "\<not> dhas (pr_id q) (gs_proposals (cx_state ctx))"
proof -
  have each: "\<exists>rr. vp ctx q Replay False = Inr rr \<and> \<not> rejected rr"
    if "check_create_proposals vp ctx seen qs = Inr r" "\<not> rejected r" "q \<in> set qs" for vp seen qs r
    using that by (induction qs arbitrary: seen r) (auto simp: rbind_eq_Inr)
  obtain r where "check_create_proposals (validate_proposal A) ctx [] qs = Inr r" "\<not> rejected r"
    using assms(1) by (auto simp: accepted_step_def uncited_def rbind_eq_Inr validate_create_proposals_def)
  then obtain rr where "validate_proposal A ctx q Replay False = Inr rr" "\<not> rejected rr"
    using each assms(2) by blast
  then show ?thesis by (auto simp: validate_proposal_def validate_proposal_with_def split: if_splits)
qed

lemma pending_checked:
  assumes "\<not> rejected (check_pending ctx i)" and "dget (gs_proposals (cx_state ctx)) i = Some q"
  shows "pr_status q = Pending"
  using assms by (simp add: check_pending_def)

text \<open>An accepted operation names only pending proposals and fresh ids.\<close>

lemma accepted_proposal_footprint:
  assumes "accepted_step A (validate_proposal A) ctx op ctx'" and "i \<in> set (proposal_footprint op)"
    and "dget (gs_proposals (cx_state ctx)) i = Some q"
  shows "pr_status q = Pending"
proof (cases op)
  case (CreateProposals qs)
  then obtain q' where "q' \<in> set qs" "pr_id q' = i" using assms(2) by (auto simp: proposal_footprint_def)
  then show ?thesis
    using accepted_create_proposals_fresh [of A ctx qs ctx' q'] assms(1,3) CreateProposals
    by (auto simp: dhas_iff)
next
  case (ResolveProposals rs)
  then have "\<not> rejected (check_pending ctx i)"
    using assms(1,2)
    by (auto simp: accepted_step_def proposal_footprint_def validate_resolve_proposals_def rejected_concat)
  then show ?thesis using assms(3) by (rule pending_checked)
next
  case (WithdrawProposals ws)
  then have "\<not> rejected (check_pending ctx i)"
    using assms(1,2)
    by (auto simp: accepted_step_def proposal_footprint_def validate_withdraw_proposals_def rejected_concat)
  then show ?thesis using assms(3) by (rule pending_checked)
qed (use assms(2) in \<open>simp_all add: proposal_footprint_def\<close>)

context validators
begin

lemma accepted_step_closed:
  assumes "accepted_step A (validate_proposal A) ctx op ctx'" and "graph_coherent (cx_state ctx)"
  shows "graph_coherent (cx_state ctx')"
    and "dget (gs_proposals (cx_state ctx)) i = Some q \<Longrightarrow> pr_status q \<noteq> Pending \<Longrightarrow>
      dget (gs_proposals (cx_state ctx')) i = Some q"
proof -
  let ?p = "(cx_patch ctx)\<lparr>p_ops := [op]\<rparr>"
  obtain s' ds where "apply_patch A ?p [] (cx_state ctx) = Inr (s', ds)"
    and a: "cx_state ctx' = s'\<lparr>gs_revision := gs_revision (cx_state ctx)\<rparr>"
    using assms(1) by (auto simp: accepted_step_def apply_valid_operation_def rbind_eq_Inr)
  from proposal_frames.apply_patch_rel [OF this(1)] have fr: "proposals_framed ?p (cx_state ctx) s'" .
  show "graph_coherent (cx_state ctx')"
    using fr assms(2) by (simp add: proposals_framed_def a graph_coherent_def)
  assume q: "dget (gs_proposals (cx_state ctx)) i = Some q" "pr_status q \<noteq> Pending"
  then have "i \<notin> set (proposal_footprint op)" using accepted_proposal_footprint [OF assms(1)] by blast
  then show "dget (gs_proposals (cx_state ctx')) i = Some q"
    using fr assms(2) q(1) by (simp add: proposals_framed_def a)
qed

lemma staged_closed:
  assumes "staged A (validate_proposal A) ctx ops ctx'" and "graph_coherent (cx_state ctx)"
    and "dget (gs_proposals (cx_state ctx)) i = Some q" and "pr_status q \<noteq> Pending"
  shows "dget (gs_proposals (cx_state ctx')) i = Some q"
  using assms by (induction rule: staged.induct) (auto dest: accepted_step_closed)

end

text \<open>C6: a closed proposal is final for patches that carry no transition trace. Whoever wrote such
  a patch, and for admission as well as for replay, a proposal that is no longer pending is the
  same proposal after the patch, once the validator accepted it: it is never resolved again,
  withdrawn or overwritten. Patches replayed with their trace are not covered.\<close>

theorem closed_proposal_is_final:
  assumes "validators A" and "graph_coherent st" and "p_transition p = None"
    and "\<not> rejected (validate_patch A D env st p)" and "apply_valid_patch A st p = Inr st'"
    and "dget (gs_proposals st) i = Some q" and "pr_status q \<noteq> Pending"
  shows "dget (gs_proposals st') i = Some q"
proof -
  have "\<not> rejected (validate_plain_patch A env st p)" using assms(3,4) by (simp add: validate_patch_def)
  then obtain r ctx where s: "staged A (validate_proposal A) (initial_context env st p r) (p_ops p) ctx"
    and c: "core st' = (core (cx_state ctx))\<lparr>gs_revision := max (gs_revision st) (p_revision p)\<rparr>"
    by (rule accepted_result [OF _ assms(3,5)])
  have "dget (gs_proposals (cx_state ctx)) i = Some q"
    by (rule validators.staged_closed [OF assms(1) s _ _ assms(7)])
       (use assms(2,6) in \<open>simp_all add: initial_context_def\<close>)
  then show ?thesis by (simp add: core_stamped_eqD(2) [OF c])
qed

theorem closed_proposal_is_final_witness:
  "dget (gs_proposals sample_approval_result) ''prop/a'' = Some (sample_proposal ''prop/a'' Rejected)"
proof -
  have get: "dget (gs_proposals sample_governed_state) ''prop/a'' = Some (sample_proposal ''prop/a'' Rejected)"
    and closed: "pr_status (sample_proposal ''prop/a'' Rejected) \<noteq> Pending"
    and none: "p_transition sample_approval_patch = None"
    by code_simp+
  have ok: "\<not> rejected (validate_patch declared_adapters sample_digests (sample_env Admission)
      sample_governed_state sample_approval_patch)" by (simp add: sample_approval_admitted)
  show ?thesis
    by (rule closed_proposal_is_final [OF declared_validators.validators_axioms
          sample_governed_coherent none ok sample_approval_applies get closed])
qed

end
