(* ===== verification/Decisions.thy ===== *)
theory Decisions
  imports Admission
begin

text \<open>
  Node classes never change after creation, and an ordinary agent never settles a Decision.
\<close>

section \<open>Definitions\<close>

definition typed :: "patch \<Rightarrow> graph_state \<Rightarrow> graph_state \<Rightarrow> bool" where
  "typed p s t \<longleftrightarrow> (graph_coherent s \<longrightarrow> graph_coherent t
     \<and> (\<forall>i m. i \<notin> set (created_node_ids p) \<longrightarrow> dget (gs_nodes t) i = Some m \<longrightarrow>
          (\<exists>n. dget (gs_nodes s) i = Some n \<and> n_type m = n_type n)))"

text \<open>The choice a Decision records: the second node keeps it and is decided only if the first was.\<close>

definition choice_kept :: "project_node \<Rightarrow> project_node \<Rightarrow> bool" where
  "choice_kept n n' \<longleftrightarrow> (\<forall>d. n_body n = Decision d \<longrightarrow> (\<exists>d'. n_body n' = Decision d'
     \<and> dec_selected_option d' = dec_selected_option d
     \<and> (dec_status d' = ''decided'' \<longrightarrow> dec_status d = ''decided'')))"

definition choices_kept :: "string set \<Rightarrow> graph_state \<Rightarrow> graph_state \<Rightarrow> bool" where
  "choices_kept K s t \<longleftrightarrow> (graph_coherent s \<longrightarrow> graph_coherent t
     \<and> (\<forall>i \<in> K. \<forall>n'. dget (gs_nodes t) i = Some n' \<longrightarrow>
          (\<exists>n. dget (gs_nodes s) i = Some n \<and> choice_kept n n')))"

text \<open>The changes of an update are a dictionary: no key occurs twice.\<close>

definition changes_are_dicts :: "patch \<Rightarrow> bool" where
  "changes_are_dicts p \<longleftrightarrow> list_all (\<lambda>u. distinct (map fst (nu_changes u))) (op_updates (p_ops p))"

section \<open>Node classes\<close>

lemma typed_trans: "typed p s t \<Longrightarrow> typed p t u \<Longrightarrow> typed p s u"
  unfolding typed_def by metis

lemma typed_nodes:
  "gs_nodes t = gs_nodes s \<Longrightarrow> (graph_coherent s \<Longrightarrow> graph_coherent t) \<Longrightarrow> typed p s t"
  by (simp add: typed_def)

lemma created_ids_member:
  "CreateNodes cs \<in> set (p_ops p) \<Longrightarrow> c \<in> set cs \<Longrightarrow> n_id (cn_node c) \<in> set (created_node_ids p)"
  by (fastforce simp: created_node_ids_def patch_created_nodes_def)

lemma typed_put:
  assumes "graph_coherent s \<Longrightarrow> graph_coherent t" and "graph_coherent s \<Longrightarrow> dget (gs_nodes s) i = Some n"
    and "gs_nodes t = dset i n' (gs_nodes s)" and "n_type n' = n_type n"
  shows "typed p s t"
  using assms by (simp add: typed_def)

context validators
begin

lemma typed_create:
  assumes "apply_create_node A p c s = Inr s'" and "n_id (cn_node c) \<in> set (created_node_ids p)"
  shows "typed p s s'"
  using coherent_create [OF assms(1)] assms(2) created_node_id_kept
  by (rule_tac apply_create_node_result [OF assms(1)]) (auto simp: typed_def)

lemma typed_update: assumes "apply_update_node A p g u s = Inr s'" shows "typed p s s'"
proof (rule apply_update_node_result [OF assms])
  fix n n' assume n: "dget (gs_nodes s) (nu_id u) = Some n"
    and s': "s' = put_node (n_id n) n' (record_belief_transition n n' (p_revision p) (nu_cause u) s)"
    and ty: "n_type n' = n_type n"
  show ?thesis
    by (rule typed_put [OF coherent_update [OF assms], where i = "n_id n" and n = n and n' = n'])
       (use n coherent_node_id in \<open>auto simp: s' ty put_node_def\<close>)
qed

lemma typed_supersede: assumes "apply_supersede_node A p x s = Inr s'" shows "typed p s s'"
proof (rule apply_supersede_node_result [OF assms])
  fix n n' s2 assume n: "dget (gs_nodes s) (sn_id x) = Some n"
    and s2: "s2 = record_belief_transition n n' (p_revision p) (sn_cause x) (put_node (sn_id x) n' s)"
    and s': "s' = s2 \<or> (\<exists>e. s' = put_edge (e_id e) e s2)" and ty: "n_type n' = n_type n"
  show ?thesis
    by (rule typed_put [OF coherent_supersede [OF assms] n _ ty])
       (use s' in \<open>auto simp: s2 put_node_def\<close>)
qed

lemma typed_merge: assumes "apply_merge_node A p m s = Inr s'" shows "typed p s s'"
proof (rule apply_merge_node_result [OF assms])
  fix n n' s2 assume n: "dget (gs_nodes s) (nm_duplicate m) = Some n"
    and s2: "s2 = record_belief_transition n n' (p_revision p) (nm_cause m) (put_node (nm_duplicate m) n' s)"
    and s': "\<exists>e. s' = put_edge (e_id e) e s2" and ty: "n_type n' = n_type n"
  show ?thesis
    by (rule typed_put [OF coherent_merge [OF assms] n _ ty])
       (use s' in \<open>auto simp: s2 put_node_def\<close>)
qed

end

lemma typed_standing: assumes "apply_standing p i sd s = Inr s'" shows "typed p s s'"
proof -
  from assms obtain n where n: "dget (gs_nodes s) i = Some n"
    and s': "s' = put_node (n_id n) (n\<lparr>n_standing := sd, n_updated_rev := p_revision p\<rparr>) s"
    by (auto simp: apply_standing_def rbind_eq_Inr)
  show ?thesis
    by (rule typed_put [OF coherent_standing [OF assms], where i = "n_id n" and n = n
          and n' = "n\<lparr>n_standing := sd, n_updated_rev := p_revision p\<rparr>"])
       (use n coherent_node_id in \<open>auto simp: s' put_node_def\<close>)
qed

lemma typed_remove: "typed p s (apply_remove_nodes ids s)"
  unfolding typed_def using coherent_remove_nodes [of s ids] by simp

sublocale validators \<subseteq> types: item_relation "typed p" A p for p
  by unfold_locales
    (auto intro: typed_trans typed_create [OF _ created_ids_member] typed_update typed_supersede
      typed_merge typed_standing typed_remove typed_nodes coherent_items simp: partial_frame)

context validators
begin

lemmas typed_apply = types.apply_patch_rel
lemmas typed_apply_op = types.apply_op_rel

end

text \<open>C40: the class of a node is fixed when it is created. Applying a patch introduces nodes
  only through its create operations, and every other node of the result is a node of the
  graph before, of the same class.\<close>

theorem apply_keeps_node_types:
  assumes "validators A" and "graph_coherent st" and "apply_valid_patch A st p = Inr st'"
    and "i \<notin> set (created_node_ids p)" and "dget (gs_nodes st') i = Some m"
  shows "\<exists>n. dget (gs_nodes st) i = Some n \<and> n_type m = n_type n"
  using validators.typed_apply [OF assms(1)] assms(2-)
  by (fastforce simp: apply_valid_patch_def rbind_eq_Inr typed_def)

theorem apply_keeps_node_types_witness:
  "\<exists>m n. dget (gs_nodes sample_agent_result) ''dec/a'' = Some m
     \<and> dget (gs_nodes sample_state) ''dec/a'' = Some n \<and> n_type m = n_type n"
proof -
  have "dhas ''dec/a'' (gs_nodes sample_agent_result)" and new: "''dec/a'' \<notin> set (created_node_ids sample_agent_patch)"
    by code_simp+
  then obtain m where m: "dget (gs_nodes sample_agent_result) ''dec/a'' = Some m" by (auto simp: dhas_iff)
  show ?thesis
    using m apply_keeps_node_types [OF declared_validators.validators_axioms sample_state_coherent
        sample_agent_applies new m] by blast
qed

section \<open>Ordinary agents and decisions\<close>

text \<open>An operation of a staged patch, with an invariant of the graph it was judged against.\<close>

lemma staged_member_invariant:
  assumes "staged A vp ctx ops ctx'" and "op \<in> set ops" and "P (cx_state ctx)"
    and "\<And>op b a. op \<in> set ops \<Longrightarrow> same_frame ctx b \<Longrightarrow> accepted_step A vp b op a \<Longrightarrow>
      P (cx_state b) \<Longrightarrow> P (cx_state a)"
  shows "\<exists>b a. same_frame ctx b \<and> accepted_step A vp b op a \<and> P (cx_state b)"
  using assms
proof (induction rule: staged.induct)
  case (staged_step ctx op' mid ops ctx')
  have frame: "same_frame ctx mid" using staged_step.hyps(1) by (simp add: accepted_step_def)
  show ?case
  proof (cases "op = op'")
    case True
    then show ?thesis using staged_step.hyps(1) staged_step.prems(2) by (auto simp: same_frame_def)
  next
    case False
    have "P (cx_state mid)"
      using staged_step.prems(3) [of op' ctx mid] staged_step.hyps(1) staged_step.prems(2)
      by (simp add: same_frame_def)
    then have "\<exists>b a. same_frame mid b \<and> accepted_step A vp b op a \<and> P (cx_state b)"
      using False staged_step.prems(1,3) frame same_frame_trans
      by (intro staged_step.IH) (auto, blast)
    then show ?thesis using frame same_frame_trans by blast
  qed
qed simp

context validators
begin

text \<open>Staging keeps the classes of the initial nodes, since created nodes are fresh.\<close>

lemma staged_types:
  assumes "staged A vp (initial_context env st p r) (p_ops p) ctx" and "ve_mode env = Admission"
    and "graph_coherent st" and "op \<in> set (p_ops p)"
  shows "\<exists>b a. accepted_step A vp b op a \<and> cx_initial_state b = st \<and> cx_patch b = p
    \<and> cx_mode b = Admission \<and> cx_experiment_control_node_id b = control_node_id env p
    \<and> (\<forall>i n m. dget (gs_nodes st) i = Some n \<longrightarrow> dget (gs_nodes (cx_state b)) i = Some m \<longrightarrow>
         n_type m = n_type n)"
proof -
  let ?P = "\<lambda>s. graph_coherent s \<and> (\<forall>i n m. dget (gs_nodes st) i = Some n \<longrightarrow>
    dget (gs_nodes s) i = Some m \<longrightarrow> n_type m = n_type n)"
  have step: "?P (cx_state a)"
    if fr: "same_frame (initial_context env st p r) b" and acc: "accepted_step A vp b op a" and P: "?P (cx_state b)"
    for op b a
  proof -
    have b: "cx_initial_state b = st" "cx_patch b = p" "cx_mode b = Admission"
      using fr assms(2) by (auto simp: same_frame_def initial_context_def)
    let ?p = "p\<lparr>p_ops := [op]\<rparr>"
    obtain s' ds where "apply_patch A ?p [] (cx_state b) = Inr (s', ds)"
      and a: "cx_state a = s'\<lparr>gs_revision := gs_revision (cx_state b)\<rparr>"
      using acc b by (auto simp: accepted_step_def apply_valid_operation_def rbind_eq_Inr)
    from types.apply_patch_rel [OF this(1)] have ty: "typed ?p (cx_state b) s'" .
    have fresh: "i \<notin> set (created_node_ids ?p)" if "dget (gs_nodes st) i = Some n" for i n
      using accepted_create_fresh [of A vp b _ a] acc b that
      by (cases op) (auto simp: created_node_ids_def patch_created_nodes_def dhas_iff)
    have "graph_coherent (cx_state a)" using ty P by (simp add: typed_def a graph_coherent_def)
    moreover have "n_type m = n_type n"
      if "dget (gs_nodes st) i = Some n" "dget (gs_nodes (cx_state a)) i = Some m" for i n m
      using ty P fresh [OF that(1)] that by (fastforce simp: typed_def a)
    ultimately show ?thesis by blast
  qed
  have init: "?P (cx_state (initial_context env st p r))"
    using assms(3) by (simp add: initial_context_def)
  have "\<exists>b a. same_frame (initial_context env st p r) b \<and> accepted_step A vp b op a \<and> ?P (cx_state b)"
    by (rule staged_member_invariant [OF assms(1,4), of ?P, OF init]) (rule step)
  then show ?thesis using assms(2) by (fastforce simp: same_frame_def initial_context_def)
qed

end

text \<open>What the gate on updates leaves of an ordinary agent's update of a Decision.\<close>

lemma ordinary_gate:
  assumes "gate_update ctx m i changes = Inr g" and "\<not> rejected g" and "cx_mode ctx = Admission"
    and "\<not> permits (cx_patch ctx) DECIDE_DECISION" and "\<not> is_control_update ctx i changes"
    and "n_type m = ''decision''"
  shows "\<not> dhas ''selected_option'' changes" and "dget changes ''status'' \<noteq> Some (VStr ''decided'')"
proof -
  obtain d where d: "n_body m = Decision d" using assms(6) by (cases "n_body m") (auto simp: body_type_def)
  have "\<not> requires_proposal m changes"
    using assms by (auto simp: gate_update_def as_decision_def d split: if_splits)
  then show "\<not> dhas ''selected_option'' changes" and "dget changes ''status'' \<noteq> Some (VStr ''decided'')"
    by (simp_all add: requires_proposal_def d)
qed

lemma accepted_update_gate:
  assumes "accepted_step A vp ctx (UpdateNodes us) ctx'" and "u \<in> set us"
  obtains m g where "dget (gs_nodes (cx_state ctx)) (nu_id u) = Some m"
    and "gate_update ctx m (nu_id u) (nu_changes u) = Inr g" and "\<not> rejected g"
proof -
  obtain d where "validate_update_nodes A ctx us = Inr d" and "\<not> rejected (snd d)"
    using assms(1) by (auto simp: accepted_step_def)
  then obtain e where e: "check_update_node A ctx u = Inr e" and ok: "\<not> rejected (snd e)"
    unfolding validate_update_nodes_def by (rule each_cited_accepts [OF _ _ assms(2)])
  obtain m where m: "dget (gs_nodes (cx_state ctx)) (nu_id u) = Some m"
    using e ok by (cases "dget (gs_nodes (cx_state ctx)) (nu_id u)") (auto simp: check_update_node_def)
  have "\<exists>g. gate_update ctx m (nu_id u) (nu_changes u) = Inr g \<and> \<not> rejected g"
    using e ok m by (auto simp: check_update_node_def Let_def rbind_eq_Inr split: if_splits)
  then show thesis using that m by blast
qed

text \<open>A bound experiment loop controls an Experiment of the initial graph.\<close>

lemma loop_control_is_experiment:
  assumes "patch_level_report A env st p = Inr r" and "\<not> rejected r" and "p_kind p = ExperimentLoop"
    and "control_node_id env p = Some x" and "dget (gs_nodes st) x = Some n"
  shows "\<exists>e. n_body n = Experiment e"
proof -
  obtain loop where "validate_experiment_loop_authority A st p (Some x) (decision_bundle env p) (ve_mode env) = Inr loop"
    and "\<not> rejected loop"
    using assms(1-4) by (auto simp: patch_level_report_def validate_loop_binding_def rbind_eq_Inr Let_def)
  then show ?thesis
    using assms(5) by (cases "n_body n")
      (auto simp: validate_experiment_loop_authority_def Let_def split: if_splits)
qed

context validators
begin

lemma ordinary_decision_update:
  assumes "staged A vp (initial_context env st p r) (p_ops p) ctx" and "ve_mode env = Admission"
    and "patch_level_report A env st p = Inr r" and "\<not> rejected r" and "graph_coherent st"
    and "\<not> permits p DECIDE_DECISION" and "UpdateNodes us \<in> set (p_ops p)" and "u \<in> set us"
    and "dget (gs_nodes st) (nu_id u) = Some n" and "n_type n = ''decision''"
  shows "\<not> dhas ''selected_option'' (nu_changes u) \<and> dget (nu_changes u) ''status'' \<noteq> Some (VStr ''decided'')"
proof -
  obtain b a where acc: "accepted_step A vp b (UpdateNodes us) a"
    and b: "cx_patch b = p" "cx_mode b = Admission" "cx_experiment_control_node_id b = control_node_id env p"
    and ty: "\<And>i n m. dget (gs_nodes st) i = Some n \<Longrightarrow> dget (gs_nodes (cx_state b)) i = Some m \<Longrightarrow>
      n_type m = n_type n"
    using staged_types [OF assms(1,2,5,7)] by blast
  obtain m g where m: "dget (gs_nodes (cx_state b)) (nu_id u) = Some m"
    and g: "gate_update b m (nu_id u) (nu_changes u) = Inr g" "\<not> rejected g"
    by (rule accepted_update_gate [OF acc assms(8)])
  have "\<not> is_control_update b (nu_id u) (nu_changes u)"
    using loop_control_is_experiment [OF assms(3,4) _ _ assms(9)] assms(10) b
    by (auto simp: is_control_update_def body_type_def)
  then show ?thesis
    using ordinary_gate [OF g b(2)] assms(6,10) ty [OF assms(9) m] b(1) by simp
qed

end

lemma decision_type: "n_type n = ''decision'' \<Longrightarrow> \<exists>d. n_body n = Decision d"
  by (cases "n_body n") (auto simp: body_type_def)

lemma choice_kept_trans:
  assumes "choice_kept a b" and "choice_kept b c" shows "choice_kept a c"
  unfolding choice_kept_def
proof (intro allI impI)
  fix d assume "n_body a = Decision d"
  with assms(1) obtain e where "n_body b = Decision e" "dec_selected_option e = dec_selected_option d"
    "dec_status e = ''decided'' \<longrightarrow> dec_status d = ''decided''" by (auto simp: choice_kept_def)
  with assms(2) show "\<exists>d'. n_body c = Decision d' \<and> dec_selected_option d' = dec_selected_option d
    \<and> (dec_status d' = ''decided'' \<longrightarrow> dec_status d = ''decided'')" by (auto simp: choice_kept_def)
qed

lemma vopt_inject: "vopt a = vopt b \<longleftrightarrow> a = b"
  by (simp add: vopt_def split: option.splits)

lemma decision_dump:
  assumes "n_body n = Decision d"
  shows "dget (model_dump n) ''type'' = Some (VStr ''decision'')"
    and "dget (model_dump n) ''selected_option'' = Some (vopt (dec_selected_option d))"
    and "dget (model_dump n) ''status'' = Some (VStr (dec_status d))"
  using assms by (simp_all add: model_dump_def node_fields_def body_fields_def)

context node_adapter
begin

text \<open>A document that carries a Decision's own choice and no new \<open>decided\<close> keeps the choice.\<close>

lemma choice_kept_validated:
  assumes v: "validate d = Inr n'"
    and ty: "dget d ''type'' = dget (model_dump n) ''type''"
    and sel: "dget d ''selected_option'' = dget (model_dump n) ''selected_option''"
    and st: "dget d ''status'' = dget (model_dump n) ''status''
      \<or> (\<exists>w. dget d ''status'' = Some w \<and> w \<noteq> VStr ''decided'')"
  shows "choice_kept n n'"
  unfolding choice_kept_def
proof (intro allI impI)
  fix dd assume n: "n_body n = Decision dd"
  note dump = decision_dump [OF n]
  obtain d' where n': "n_body n' = Decision d'"
    using keeps_type [OF v, of "''decision''"] ty dump(1) decision_type by auto
  have "dec_selected_option d' = dec_selected_option dd"
    using keeps_selected_option [OF v] sel dump(2) n' by (auto simp: vopt_inject)
  moreover have "dec_status dd = ''decided''" if "dec_status d' = ''decided''"
    using that st dump(3) n' keeps_status [OF v] by (auto simp: node_status_def)
  ultimately show "\<exists>d'. n_body n' = Decision d' \<and> dec_selected_option d' = dec_selected_option dd
      \<and> (dec_status d' = ''decided'' \<longrightarrow> dec_status dd = ''decided'')" using n' by blast
qed

end

lemma choice_kept_refl: "choice_kept n n"
  by (simp add: choice_kept_def)

lemma choices_kept_trans:
  assumes "choices_kept K s t" and "choices_kept K t u" shows "choices_kept K s u"
proof -
  have "\<exists>n. dget (gs_nodes s) i = Some n \<and> choice_kept n n''"
    if "graph_coherent s" "i \<in> K" "dget (gs_nodes u) i = Some n''" for i n''
    using assms that choice_kept_trans unfolding choices_kept_def by blast
  then show ?thesis using assms unfolding choices_kept_def by blast
qed

lemma choices_kept_nodes:
  "gs_nodes t = gs_nodes s \<Longrightarrow> (graph_coherent s \<Longrightarrow> graph_coherent t) \<Longrightarrow> choices_kept K s t"
  by (simp add: choices_kept_def choice_kept_refl)

lemma choices_kept_put:
  assumes "graph_coherent s \<Longrightarrow> graph_coherent t" and "graph_coherent s \<Longrightarrow> dget (gs_nodes s) i = Some n"
    and "gs_nodes t = dset i n' (gs_nodes s)" and "graph_coherent s \<Longrightarrow> i \<in> K \<Longrightarrow> choice_kept n n'"
  shows "choices_kept K s t"
  using assms by (auto simp: choices_kept_def choice_kept_refl)

lemma choices_kept_remove: "choices_kept K s (apply_remove_nodes ids s)"
  unfolding choices_kept_def using coherent_remove_nodes [of s ids] by (simp add: choice_kept_refl)

lemma choices_kept_standing: assumes "apply_standing p i sd s = Inr s'" shows "choices_kept K s s'"
proof -
  from assms obtain n where n: "dget (gs_nodes s) i = Some n"
    and s': "s' = put_node (n_id n) (n\<lparr>n_standing := sd, n_updated_rev := p_revision p\<rparr>) s"
    by (auto simp: apply_standing_def rbind_eq_Inr)
  show ?thesis
    by (rule choices_kept_put [OF coherent_standing [OF assms], where i = "n_id n" and n = n
          and n' = "n\<lparr>n_standing := sd, n_updated_rev := p_revision p\<rparr>"])
       (use n coherent_node_id in \<open>auto simp: s' put_node_def choice_kept_def\<close>)
qed

context validators
begin

lemma choices_kept_create:
  assumes "apply_create_node A p c s = Inr s'" and "n_id (cn_node c) \<notin> K"
  shows "choices_kept K s s'"
  using coherent_create [OF assms(1)] assms(2) created_node_id_kept
  by (rule_tac apply_create_node_result [OF assms(1)]) (auto simp: choices_kept_def choice_kept_refl)

lemma choices_kept_update:
  assumes "apply_update_node A p g u s = Inr s'"
    and "nu_id u \<in> K \<Longrightarrow> \<not> dhas ''selected_option'' (nu_changes u)
      \<and> dget (rev (nu_changes u)) ''status'' \<noteq> Some (VStr ''decided'')"
  shows "choices_kept K s s'"
proof -
  note va = update_validator_adapter [of p]
  from assms(1) obtain n n' where n: "dget (gs_nodes s) (nu_id u) = Some n"
    and im: "\<not> (\<exists>k \<in> set (map fst (nu_changes u)). k \<in> set (immutable_fields_for p g))"
    and n': "update_validator A p (updated_document p n (nu_changes u)) = Inr n'"
    and s': "s' = put_node (n_id n) n' (record_belief_transition n n' (p_revision p) (nu_cause u) s)"
    by (auto simp: apply_update_node_def rbind_eq_Inr simp del: set_map split: if_splits)
  let ?d = "updated_document p n (nu_changes u)"
  have "choice_kept n n'" if K: "nu_id u \<in> K"
  proof (rule node_adapter.choice_kept_validated [OF va n'])
    show "dget ?d ''type'' = dget (model_dump n) ''type''"
      using im immutable_always [of "''type''" p g] by (intro dget_updated_document) auto
    show "dget ?d ''selected_option'' = dget (model_dump n) ''selected_option''"
      using assms(2) [OF K] by (intro dget_updated_document) (auto simp: dhas_def)
    show "dget ?d ''status'' = dget (model_dump n) ''status''
        \<or> (\<exists>w. dget ?d ''status'' = Some w \<and> w \<noteq> VStr ''decided'')"
      using assms(2) [OF K] by (auto simp: updated_document_def dget_dupdate split: option.splits)
  qed
  moreover have "n_id n = nu_id u" if "graph_coherent s" using coherent_node_id [OF that n] .
  ultimately show ?thesis
    by (intro choices_kept_put [OF coherent_update [OF assms(1)], where i = "n_id n" and n = n and n' = n'])
       (use n in \<open>auto simp: s' put_node_def choice_kept_refl\<close>)
qed

lemma choice_kept_status:
  assumes "set_node_status A i ''superseded'' rv ps s = Inr (n', s')"
  obtains n where "dget (gs_nodes s) i = Some n" and "choice_kept n n'" and "s' = put_node i n' s"
proof -
  from assms obtain n where n: "dget (gs_nodes s) i = Some n" and s': "s' = put_node i n' s"
    and v: "ad_node A (dset ''standing'' (VStr (if ps then standing_name (n_standing n) else ''asserted''))
      (dset ''updated_rev'' (VInt rv) (dset ''status'' (VStr ''superseded'') (model_dump n)))) = Inr n'"
    by (auto simp: set_node_status_def rbind_eq_Inr)
  have "choice_kept n n'" by (rule lax.choice_kept_validated [OF v]) simp_all
  then show thesis using that n s' by blast
qed

lemma choices_kept_supersede:
  assumes "apply_supersede_node A p x s = Inr s'" shows "choices_kept K s s'"
proof -
  from assms obtain n0 n' s1 where s1: "set_node_status A (sn_id x) ''superseded'' (p_revision p)
      (p_kind p = Approval) s = Inr (n', s1)" and s': "gs_nodes s' = gs_nodes s1"
    by (cases "sn_superseded_by x")
       (auto simp: apply_supersede_node_def rbind_eq_Inr Let_def split: if_splits)
  obtain n where "dget (gs_nodes s) (sn_id x) = Some n" "choice_kept n n'" "s1 = put_node (sn_id x) n' s"
    by (rule choice_kept_status [OF s1])
  then show ?thesis
    by (intro choices_kept_put [OF coherent_supersede [OF assms], where i = "sn_id x" and n = n and n' = n'])
       (simp_all add: s' put_node_def)
qed

lemma choices_kept_merge:
  assumes "apply_merge_node A p m s = Inr s'" shows "choices_kept K s s'"
proof -
  from assms obtain n0 n' s1 where s1: "set_node_status A (nm_duplicate m) ''superseded'' (p_revision p)
      (p_kind p = Approval) s = Inr (n', s1)" and s': "gs_nodes s' = gs_nodes s1"
    by (auto simp: apply_merge_node_def rbind_eq_Inr Let_def)
  obtain n where "dget (gs_nodes s) (nm_duplicate m) = Some n" "choice_kept n n'"
    "s1 = put_node (nm_duplicate m) n' s"
    by (rule choice_kept_status [OF s1])
  then show ?thesis
    by (intro choices_kept_put [OF coherent_merge [OF assms], where i = "nm_duplicate m" and n = n and n' = n'])
       (simp_all add: s' put_node_def)
qed

text \<open>The apply loop of a patch whose creations are fresh and whose updates leave choices alone.\<close>

lemma choices_kept_relation:
  assumes "\<And>cs c. CreateNodes cs \<in> set (p_ops p) \<Longrightarrow> c \<in> set cs \<Longrightarrow> n_id (cn_node c) \<notin> K"
    and "\<And>us u. UpdateNodes us \<in> set (p_ops p) \<Longrightarrow> u \<in> set us \<Longrightarrow> nu_id u \<in> K \<Longrightarrow>
      \<not> dhas ''selected_option'' (nu_changes u)
      \<and> dget (rev (nu_changes u)) ''status'' \<noteq> Some (VStr ''decided'')"
  shows "item_relation (choices_kept K) A p"
  by unfold_locales
    (auto intro: choices_kept_trans choices_kept_create [OF _ assms(1)] choices_kept_update [OF _ assms(2)]
      choices_kept_supersede choices_kept_merge choices_kept_standing choices_kept_remove
      choices_kept_nodes coherent_items simp: partial_frame)

end

lemma dget_rev: "distinct (map fst d) \<Longrightarrow> dget (rev d) k = dget d k"
  by (induction d) (force simp: map_add_def split: option.splits dest: map_of_SomeD)+

lemma updates_member: "UpdateNodes us \<in> set (p_ops p) \<Longrightarrow> u \<in> set us \<Longrightarrow> u \<in> set (op_updates (p_ops p))"
  by (force simp: op_updates_def)

lemma ordinary_never_decides:
  "p_author p = Some Agent \<Longrightarrow> p_profile p \<noteq> Some Orchestrator \<Longrightarrow> \<not> permits p DECIDE_DECISION"
  by (simp add: permits_def ORDINARY_AGENT_GRAPH_ACTIONS_def)

text \<open>C3: an ordinary agent never settles a Decision. After an admitted patch of an agent
  without the orchestrator profile, every Decision of the graph that still exists is a
  Decision with the same selected option, and it is decided only if it was decided before.\<close>

theorem admitted_ordinary_agent_keeps_choices:
  assumes "validators A" and "graph_coherent st" and "changes_are_dicts p" and "p_transition p = None"
    and "ve_mode env = Admission" and "p_author p = Some Agent" and "p_profile p \<noteq> Some Orchestrator"
    and "\<not> rejected (validate_patch A D env st p)" and "apply_valid_patch A st p = Inr st'"
    and "dget (gs_nodes st) i = Some n" and "n_body n = Decision d" and "dget (gs_nodes st') i = Some n'"
  shows "\<exists>d'. n_body n' = Decision d' \<and> dec_selected_option d' = dec_selected_option d
    \<and> (dec_status d' = ''decided'' \<longrightarrow> dec_status d = ''decided'')"
proof -
  let ?K = "{i. \<exists>n. dget (gs_nodes st) i = Some n \<and> n_type n = ''decision''}"
  have "\<not> rejected (validate_plain_patch A env st p)" using assms(4,8) by (simp add: validate_patch_def)
  then obtain r ctx where r: "patch_level_report A env st p = Inr r" "\<not> rejected r"
    and s: "staged A (validate_proposal A) (initial_context env st p r) (p_ops p) ctx"
    by (rule accepted_plain_patch)
  have rel: "item_relation (choices_kept ?K) A p"
  proof (rule validators.choices_kept_relation [OF assms(1)], goal_cases)
    case (1 cs c)
    then show ?case
      using accepted_create_fresh by (rule_tac admitted_frame [OF s assms(5) 1(1)]) (fastforce simp: dhas_iff)
  next
    case (2 us u)
    then have "distinct (map fst (nu_changes u))"
      using assms(3) updates_member by (auto simp: changes_are_dicts_def list_all_iff)
    then show ?case
      using validators.ordinary_decision_update [OF assms(1) s assms(5) r assms(2)
          ordinary_never_decides [OF assms(6,7)] 2(1,2)] 2(3) by (auto simp: dget_rev)
  qed
  obtain ds where "apply_patch A p [] st = Inr (st', ds)"
    using assms(9) by (auto simp: apply_valid_patch_def rbind_eq_Inr)
  from item_relation.apply_patch_rel [OF rel this] have "choices_kept ?K st st'" .
  moreover have "i \<in> ?K" using assms(10,11) by (simp add: body_type_def)
  ultimately show ?thesis using assms(2,10-12) by (fastforce simp: choices_kept_def choice_kept_def)
qed

theorem admitted_ordinary_agent_keeps_choices_witness:
  "\<exists>n' d'. dget (gs_nodes sample_agent_result) ''dec/a'' = Some n' \<and> n_body n' = Decision d'
     \<and> dec_selected_option d' = None \<and> dec_status d' \<noteq> ''decided''"
proof -
  have "dhas ''dec/a'' (gs_nodes sample_agent_result)" and dicts: "changes_are_dicts sample_agent_patch"
    and get: "dget (gs_nodes sample_state) ''dec/a'' = Some sample_decision"
    by code_simp+
  then obtain m where m: "dget (gs_nodes sample_agent_result) ''dec/a'' = Some m" by (auto simp: dhas_iff)
  have ok: "\<not> rejected (validate_patch declared_adapters sample_digests (sample_env Admission)
      sample_state sample_agent_patch)" by (simp add: sample_agent_patch_admitted)
  have profile: "p_profile sample_agent_patch \<noteq> Some Orchestrator" by (simp add: sample_agent_header)
  obtain d where d: "n_body sample_decision = Decision d" "dec_selected_option d = None" "dec_status d = ''open''"
    by (simp add: sample_decision_def sample_node_def)
  show ?thesis
    using m d(2,3) admitted_ordinary_agent_keeps_choices [OF declared_validators.validators_axioms
        sample_state_coherent dicts sample_agent_header(1) sample_agent_header(4) sample_agent_header(2)
        profile ok sample_agent_applies get d(1) m] by auto
qed

end
