(* ===== verification/Outcomes.thy ===== *)
theory Outcomes
  imports Governance Decisions
begin

text \<open>
  What holds of the graph after an accepted patch: approvals replayed what the proposal
  stored and closed it, queued ballots offer a choice, and proposals raised by the patch are
  not stale on arrival.
\<close>

section \<open>Approvals\<close>

lemma staged_split:
  assumes "staged A vp ctx (xs @ op # ys) ctx'"
  obtains b a where "staged A vp ctx xs b" and "accepted_step A vp b op a" and "staged A vp a ys ctx'"
  using assms
proof (induction xs arbitrary: ctx thesis)
  case Nil
  then show ?case by (auto elim!: staged_ConsE intro: staged_done)
next
  case (Cons x xs)
  from Cons.prems(2) obtain m where m: "accepted_step A vp ctx x m" "staged A vp m (xs @ op # ys) ctx'"
    by (auto elim: staged_ConsE)
  obtain b a where "staged A vp m xs b" "accepted_step A vp b op a" "staged A vp a ys ctx'"
    using Cons.IH m(2) by blast
  then show ?case using Cons.prems(1) staged_step [OF m(1)] by blast
qed

context validators
begin

lemma staged_coherent:
  "staged A (validate_proposal A) ctx ops ctx' \<Longrightarrow> graph_coherent (cx_state ctx) \<Longrightarrow> graph_coherent (cx_state ctx')"
  by (induction rule: staged.induct) (auto dest: accepted_step_closed)

text \<open>The step that resolves a proposal closes it.\<close>

lemma resolution_step:
  assumes "accepted_step A (validate_proposal A) b (ResolveProposals [r]) a" and "graph_coherent (cx_state b)"
    and "p_transition (cx_patch b) = None"
  shows "\<exists>q. dget (gs_proposals (cx_state a)) (pres_id r) = Some q \<and> pr_status q = pres_status r
    \<and> pr_resolved_rev q = Some (p_revision (cx_patch b))
    \<and> pr_resolved_by q = Some (patch_author_side (cx_patch b))"
proof -
  have "apply_valid_operation A (cx_state b) (cx_patch b) (ResolveProposals [r]) = Inr (cx_state a)"
    using assms(1) by (simp add: accepted_step_def)
  then obtain c where c: "apply_op A (cx_patch b) False (ResolveProposals [r]) (begin_apply (cx_state b)) = Inr c"
    and eq: "core (cx_state a) = core (ap_state c)"
    by (rule apply_valid_operation_single [OF _ assms(3)])
  from c obtain q where q: "dget (gs_proposals (cx_state b)) (pres_id r) = Some q"
    and put: "apply_resolve_proposal (cx_patch b) r (cx_state b) = Inr (ap_state c)"
    by (auto simp: each_def rbind_eq_Inr begin_apply_def apply_resolve_proposal_def)
  then show ?thesis
    using coherent_proposal_id [OF assms(2) q]
    by (auto simp: core_eqD(3) [OF eq] apply_resolve_proposal_def put_proposal_def rbind_eq_Inr
        dest!: sym [of _ "ap_state c"])
qed

end

text \<open>a proposal is resolved once and its resolution is recorded. When an accepted patch
  resolves one proposal with a closing status, the stored proposal carries that status, the
  patch's revision and the author's side in the resulting graph, whatever else the patch does.\<close>

theorem resolution_is_recorded:
  assumes "validators A" and "graph_coherent st" and "p_transition p = None"
    and "\<not> rejected (validate_patch A D env st p)" and "apply_valid_patch A st p = Inr st'"
    and "ResolveProposals [r] \<in> set (p_ops p)" and "pres_status r \<noteq> Pending"
  shows "\<exists>q. dget (gs_proposals st') (pres_id r) = Some q \<and> pr_status q = pres_status r
    \<and> pr_resolved_rev q = Some (p_revision p) \<and> pr_resolved_by q = Some (patch_author_side p)"
proof -
  let ?c0 = "initial_context env st p"
  have "\<not> rejected (validate_plain_patch A env st p)" using assms(3,4) by (simp add: validate_patch_def)
  then obtain rr ctx where s: "staged A (validate_proposal A) (?c0 rr) (p_ops p) ctx"
    and c: "core st' = (core (cx_state ctx))\<lparr>gs_revision := max (gs_revision st) (p_revision p)\<rparr>"
    by (rule accepted_result [OF _ assms(3,5)])
  obtain xs ys where ops: "p_ops p = xs @ ResolveProposals [r] # ys" using assms(6) by (meson split_list)
  obtain b a where pre: "staged A (validate_proposal A) (?c0 rr) xs b"
    and step: "accepted_step A (validate_proposal A) b (ResolveProposals [r]) a"
    and post: "staged A (validate_proposal A) a ys ctx"
    using s by (auto simp: ops elim: staged_split)
  have b: "graph_coherent (cx_state b)" "cx_patch b = p"
    using validators.staged_coherent [OF assms(1) pre] assms(2) staged_frame [OF pre]
    by (simp_all add: initial_context_def same_frame_def)
  obtain q where q: "dget (gs_proposals (cx_state a)) (pres_id r) = Some q" "pr_status q = pres_status r"
    "pr_resolved_rev q = Some (p_revision p)" "pr_resolved_by q = Some (patch_author_side p)"
    using validators.resolution_step [OF assms(1) step b(1)] assms(3) by (auto simp: b(2))
  have "dget (gs_proposals (cx_state ctx)) (pres_id r) = Some q"
    using validators.staged_closed [OF assms(1) post _ q(1)] q(2) assms(7)
      validators.accepted_step_closed(1) [OF assms(1) step b(1)] by simp
  then show ?thesis using q by (simp add: core_stamped_eqD(2) [OF c])
qed

theorem resolution_is_recorded_witness:
  "\<exists>q. dget (gs_proposals sample_approval_result) ''prop/b'' = Some q \<and> pr_status q = Approved
    \<and> pr_resolved_rev q = Some 2 \<and> pr_resolved_by q = Some Human"
proof -
  let ?r = "\<lparr>pres_id = ''prop/b'', pres_status = Approved, pres_reason = None\<rparr>"
  have none: "p_transition sample_approval_patch = None" by code_simp
  have ok: "\<not> rejected (validate_patch declared_adapters sample_digests (sample_env Admission)
      sample_governed_state sample_approval_patch)" by (simp add: sample_approval_admitted)
  have mem: "ResolveProposals [?r] \<in> set (p_ops sample_approval_patch)"
    by (simp add: sample_approval_patch_def sample_patch_def)
  show ?thesis
    using resolution_is_recorded [OF declared_validators.validators_axioms sample_governed_coherent
        none ok sample_approval_applies mem]
    by (simp add: sample_approval_patch_def sample_patch_def patch_author_side_def)
qed



section \<open>Queued decisions\<close>

text \<open>a queued Decision offers a choice. After an admitted patch, every Decision the patch
  created or changed that is ready or to be revisited has at least two different options.\<close>

lemma queued_decisions_have_options:
  assumes "p_transition p = None" and "ve_mode env = Admission"
    and "\<not> rejected (validate_patch A D env st p)" and "apply_valid_patch A st p = Inr st'"
    and "op \<in> set (p_ops p)" and "i \<in> set (touched_ids_of op)"
    and "dget (gs_nodes st') i = Some n" and "n_body n = Decision d"
    and "dec_status d \<in> {''ready'', ''revisit''}"
  shows "2 \<le> card (set (dec_options d))"
proof -
  have "\<not> rejected (validate_plain_patch A env st p)" using assms(1,3) by (simp add: validate_patch_def)
  then obtain r ctx where s: "staged A (validate_proposal A) (initial_context env st p r) (p_ops p) ctx"
    and c: "core st' = (core (cx_state ctx))\<lparr>gs_revision := max (gs_revision st) (p_revision p)\<rparr>"
    and q: "\<not> rejected (validate_queued_decision_options ctx)"
    by (rule accepted_result [OF _ assms(1,4)])
  have ctx: "cx_patch ctx = p" "cx_mode ctx = Admission"
    using staged_frame [OF s] assms(2) by (simp_all add: same_frame_def initial_context_def)
  have "dget (gs_nodes (cx_state ctx)) i = Some n" using assms(7) by (simp add: core_stamped_eqD(1) [OF c])
  moreover have "i \<in> set (sorted_set (concat (map touched_ids_of (p_ops p))))"
    using assms(5,6) by (auto simp: set_sorted_set)
  ultimately have "\<not> incomplete_ballot n"
    using q by (fastforce simp: validate_queued_decision_options_def ctx rejected_concat)
  then show ?thesis using assms(8,9) by (auto simp: incomplete_ballot_def)
qed

section \<open>Proposals raised by the patch\<close>

lemma created_proposal_position:
  assumes "CreateProposals qs \<in> set (p_ops p)" and "q \<in> set qs"
  shows "\<exists>k. dget (proposal_positions p) (pr_id q) = Some k"
proof -
  have keys: "set (map fst (foldl (\<lambda>d kv. dset (fst kv) (snd kv) d) d xs)) = set (map fst d) \<union> set (map fst xs)"
    for d :: "nat dict" and xs by (induction xs arbitrary: d) (auto simp: keys_dset simp del: set_map)
  obtain k where "k < length (p_ops p)" "p_ops p ! k = CreateProposals qs"
    using assms(1) by (auto simp: in_set_conv_nth)
  then have "(k, CreateProposals qs) \<in> set (List.enumerate 0 (p_ops p))"
    by (auto simp: in_set_enumerate_eq)
  then have "pr_id q \<in> set (map fst (proposal_positions p))"
    unfolding proposal_positions_def keys using assms(2) by force
  then show ?thesis by (metis dhas_def dhas_iff)
qed

lemma edge_moved_core: "edge_moved (core s) r i = edge_moved s r i"
  by (auto simp: edge_moved_def core_def dget_unlayered unlayered_def split: option.splits)

lemma incident_core: "incident_edge_ids (core s) ids = incident_edge_ids s ids"
  by (simp add: incident_edge_ids_def core_def dvalues_def filter_map comp_def unlayered_def)

lemma stale_core: "proposal_is_stale (core s) q = proposal_is_stale s q"
proof -
  have "edge_moved (core s) = edge_moved s" by (intro ext) (rule edge_moved_core)
  moreover have "node_moved (core s) = node_moved s" "config_moved (core s) = config_moved s"
    "decision_moved (core s) = decision_moved s"
    by (auto intro!: ext simp: node_moved_def config_moved_def decision_moved_def core_fields)
  moreover have "dhas i (gs_edges (core s)) = dhas i (gs_edges s)" for i
    by (simp add: dhas_iff core_def dget_unlayered)
  ultimately show ?thesis
    by (simp add: proposal_is_stale_def removal_drifted_def incident_core)
qed

lemma stale_stamped: "proposal_is_stale (s\<lparr>gs_revision := rv\<rparr>) q = proposal_is_stale s q"
proof -
  have "node_moved (s\<lparr>gs_revision := rv\<rparr>) = node_moved s" "config_moved (s\<lparr>gs_revision := rv\<rparr>) = config_moved s"
    "decision_moved (s\<lparr>gs_revision := rv\<rparr>) = decision_moved s" "edge_moved (s\<lparr>gs_revision := rv\<rparr>) = edge_moved s"
    by (auto intro!: ext simp: node_moved_def config_moved_def decision_moved_def edge_moved_def)
  then show ?thesis by (simp add: proposal_is_stale_def removal_drifted_def incident_edge_ids_def)
qed

text \<open>no proposal is stale on arrival. Every proposal an accepted patch raises can still
  be approved in the graph the patch produces: nothing it depends on moved after it.\<close>

theorem raised_proposals_are_live:
  assumes "p_transition p = None" and "\<not> rejected (validate_patch A D env st p)"
    and "apply_valid_patch A st p = Inr st'"
    and "CreateProposals qs \<in> set (p_ops p)" and "q0 \<in> set qs"
    and "dget (gs_proposals st') (pr_id q0) = Some q"
  shows "\<not> proposal_is_stale st' q"
proof -
  have "\<not> rejected (validate_plain_patch A env st p)" using assms(1,2) by (simp add: validate_patch_def)
  then obtain r ctx where s: "staged A (validate_proposal A) (initial_context env st p r) (p_ops p) ctx"
    and c: "core st' = (core (cx_state ctx))\<lparr>gs_revision := max (gs_revision st) (p_revision p)\<rparr>"
    and live: "\<not> rejected (validate_created_proposal_liveness ctx)"
    by (rule accepted_result [OF _ assms(1,3)])
  have p: "cx_patch ctx = p" using staged_frame [OF s] by (simp add: same_frame_def initial_context_def)
  obtain k where k: "dget (proposal_positions p) (pr_id q0) = Some k"
    using created_proposal_position [OF assms(4,5)] by blast
  have q: "dget (gs_proposals (cx_state ctx)) (pr_id q0) = Some q"
    using assms(6) by (simp add: core_stamped_eqD(2) [OF c])
  have "pr_id q0 \<in> set (sort (map fst (proposal_positions p)))"
    using map_of_SomeD [OF k] by force
  then have "\<not> rejected (check_created_liveness ctx (pr_id q0))"
    using live unfolding validate_created_proposal_liveness_def p rejected_concat set_map by blast
  then have "\<not> proposal_is_stale (cx_state ctx) q"
    unfolding check_created_liveness_def p q k by (simp split: prod.splits if_splits)
  then show ?thesis by (metis c stale_core stale_stamped)
qed

definition sample_raising_patch :: patch where
  "sample_raising_patch = sample_agent [CreateProposals [sample_proposal ''prop/c'' Pending]]"

theorem raised_proposals_are_live_witness:
  "\<exists>q st'. apply_valid_patch declared_adapters sample_governed_state sample_raising_patch = Inr st'
     \<and> dget (gs_proposals st') ''prop/c'' = Some q \<and> \<not> proposal_is_stale st' q"
proof -
  let ?res = "apply_valid_patch declared_adapters sample_governed_state sample_raising_patch"
  have "\<not> isl ?res" and has: "dhas ''prop/c'' (gs_proposals (projr ?res))" by code_simp+
  then have ap: "?res = Inr (projr ?res)" by simp
  obtain q where q: "dget (gs_proposals (projr ?res)) ''prop/c'' = Some q" using has by (auto simp: dhas_iff)
  have none: "p_transition sample_raising_patch = None" by code_simp
  have ok: "\<not> rejected (validate_patch declared_adapters sample_digests (sample_env Admission)
      sample_governed_state sample_raising_patch)" by code_simp
  have mem: "CreateProposals [sample_proposal ''prop/c'' Pending] \<in> set (p_ops sample_raising_patch)"
    "sample_proposal ''prop/c'' Pending \<in> set [sample_proposal ''prop/c'' Pending]"
    by (simp_all add: sample_raising_patch_def sample_agent_def sample_patch_def)
  have "dget (gs_proposals (projr ?res)) (pr_id (sample_proposal ''prop/c'' Pending)) = Some q"
    using q by (simp add: sample_proposal_def)
  from raised_proposals_are_live [OF none ok ap mem this] show ?thesis using ap q by blast
qed

end
