(* ===== verification/LoopProps.thy ===== *)
theory LoopProps
  imports Outcomes
begin

text \<open>What a bounded experiment loop can reach in the graph.\<close>

section \<open>Confinement\<close>

lemma loop_report:
  assumes "patch_level_report A env st p = Inr r" and "\<not> rejected r" and "p_kind p = ExperimentLoop"
    and "control_node_id env p = Some x" and "graph_coherent st"
  obtains e where "\<And>op. op \<in> set (p_ops p) \<Longrightarrow>
      \<exists>m. check_loop_op A st p x e (decision_bundle env p) (ve_mode env) (rev_or_none (p_revision p)) op = Inr m
        \<and> \<not> rejected m"
proof -
  let ?b = "decision_bundle env p"
  obtain loop where loop: "validate_experiment_loop_authority A st p (Some x) ?b (ve_mode env) = Inr loop"
    and ok: "\<not> rejected loop"
    using assms(1-4) by (auto simp: patch_level_report_def validate_loop_binding_def rbind_eq_Inr Let_def)
  obtain n where n: "dget (gs_nodes st) x = Some n"
    using loop ok by (cases "dget (gs_nodes st) x")
      (auto simp: validate_experiment_loop_authority_def Let_def split: if_splits)
  obtain e where e: "n_body n = Experiment e"
    using loop_control_is_experiment [OF assms(1-4) n] by blast
  have x: "n_id n = x" using coherent_node_id [OF assms(5) n] .
  obtain m where m: "rconcat (check_loop_op A st p x e ?b (ve_mode env) (rev_or_none (p_revision p))) (p_ops p) = Inr m"
    and ok': "\<not> rejected m"
    using loop ok n e x by (auto simp: validate_experiment_loop_authority_def Let_def rbind_eq_Inr split: if_splits)
  show thesis by (rule that [of e]) (rule rejected_rconcat [OF m ok'])
qed

lemma loop_op_reach:
  assumes "check_loop_op A st p x e pinned md rv op = Inr m" and "\<not> rejected m"
    and "i \<in> set (node_footprint op)" and "\<And>cs. op \<noteq> CreateNodes cs"
  shows "i = x \<or> i \<in> set (map pin_decision_id pinned)"
proof (cases op)
  case (UpdateNodes us)
  with assms(3) obtain u where u: "u \<in> set us" "nu_id u = i"
    by (auto simp: node_footprint_def touched_ids_of_def)
  have "rconcat (check_loop_update A st x e pinned (has_proposals p) (allowed_experiment_fields p md) rv) us = Inr m"
    using assms(1) UpdateNodes by simp
  from rejected_rconcat [OF this assms(2) u(1)] show ?thesis
    using u(2) by (auto simp: check_loop_update_def split: if_splits)
qed (use assms in \<open>auto simp: node_footprint_def touched_ids_of_def\<close>)

lemma loop_created_types:
  assumes "check_loop_op A st p x e pinned md rv (CreateNodes cs) = Inr m" and "\<not> rejected m" and "c \<in> set cs"
  shows "n_type (cn_node c) \<in> {''evidence'', ''blocker''}"
  using assms by (auto simp: check_loop_created_def rejected_concat)

text \<open>C4: a bounded experiment loop is confined. An admitted loop patch leaves every node of
  the graph as it was, except the bound Experiment and the Decisions pinned for the episode,
  and it creates only Evidence and Blocker nodes.\<close>

theorem experiment_loop_is_confined:
  assumes "validators A" and "graph_coherent st" and "p_transition p = None"
    and "ve_mode env = Admission" and "p_kind p = ExperimentLoop" and "control_node_id env p = Some x"
    and "\<not> rejected (validate_patch A D env st p)" and "apply_valid_patch A st p = Inr st'"
  shows "(\<forall>i n. dget (gs_nodes st) i = Some n \<longrightarrow> i \<noteq> x \<longrightarrow>
        i \<notin> set (map pin_decision_id (decision_bundle env p)) \<longrightarrow> dget (gs_nodes st') i = Some n)
     \<and> (\<forall>c \<in> set (patch_created_nodes p). n_type (cn_node c) \<in> {''evidence'', ''blocker''})"
proof -
  have "\<not> rejected (validate_plain_patch A env st p)" using assms(3,7) by (simp add: validate_patch_def)
  then obtain r ctx where r: "patch_level_report A env st p = Inr r" "\<not> rejected r"
    and s: "staged A (validate_proposal A) (initial_context env st p r) (p_ops p) ctx"
    by (rule accepted_plain_patch)
  obtain e where ops: "\<And>op. op \<in> set (p_ops p) \<Longrightarrow>
      \<exists>m. check_loop_op A st p x e (decision_bundle env p) (ve_mode env) (rev_or_none (p_revision p)) op = Inr m
        \<and> \<not> rejected m"
    using loop_report [OF r assms(5,6,2)] by blast
  have frame: "i \<notin> set (patch_footprint p)"
    if i: "dget (gs_nodes st) i = Some n" "i \<noteq> x" "i \<notin> set (map pin_decision_id (decision_bundle env p))" for i n
  proof
    assume "i \<in> set (patch_footprint p)"
    then obtain op where op: "op \<in> set (p_ops p)" and foot: "i \<in> set (node_footprint op)"
      by (auto simp: patch_footprint_def)
    obtain c c' where acc: "accepted_step A (validate_proposal A) c op c'" "cx_initial_state c = st"
      "cx_mode c = Admission" by (rule admitted_frame [OF s assms(4) op])
    have "op \<noteq> CreateNodes cs" for cs
      using accepted_create_fresh [of A "validate_proposal A" c cs c'] acc foot i(1)
      by (auto simp: dhas_iff node_footprint_def touched_ids_of_def)
    then show False using ops [OF op] loop_op_reach foot i(2,3) by blast
  qed
  obtain ds where "apply_patch A p [] st = Inr (st', ds)"
    using assms(8) by (auto simp: apply_valid_patch_def rbind_eq_Inr)
  from validators.framed_apply [OF assms(1) this] have "framed p st st'" .
  then have "\<forall>i n. dget (gs_nodes st) i = Some n \<longrightarrow> i \<noteq> x \<longrightarrow>
        i \<notin> set (map pin_decision_id (decision_bundle env p)) \<longrightarrow> dget (gs_nodes st') i = Some n"
    using frame assms(2) by (simp add: framed_def)
  moreover have "\<forall>c \<in> set (patch_created_nodes p). n_type (cn_node c) \<in> {''evidence'', ''blocker''}"
  proof
    fix c assume "c \<in> set (patch_created_nodes p)"
    then obtain op where op: "op \<in> set (p_ops p)" and c: "c \<in> set (created_nodes_of op)"
      by (auto simp: patch_created_nodes_def)
    from c have "\<exists>cs. op = CreateNodes cs \<and> c \<in> set cs" by (cases op) auto
    then obtain cs where cs: "op = CreateNodes cs" "c \<in> set cs" by blast
    show "n_type (cn_node c) \<in> {''evidence'', ''blocker''}"
      using ops [OF op] loop_created_types cs by blast
  qed
  ultimately show ?thesis by blast
qed

section \<open>A concrete loop\<close>

definition sample_experiment :: project_node where
  "sample_experiment = sample_node ''exp/a'' (Experiment \<lparr>exp_objective = ''o'', exp_design = ''d'',
     exp_expected_outcomes = [], exp_interpretation_rules = [], exp_completion_criteria = [],
     exp_invocation_ceiling = 3, exp_status = ''running'', exp_attempts = [],
     exp_current_summary = ''so far'', exp_next_action = None, exp_current_summary_stale = False,
     exp_next_action_stale = False\<rparr>)"

definition sample_governed_edge :: edge where
  "sample_governed_edge = \<lparr>e_id = ''exp/a::governed_by::dec/a'', e_source = ''exp/a'',
     e_target = ''dec/a'', e_relation = ''governed_by'', e_layer = Action, e_explanation = [],
     e_assessment = None, e_created_rev = 1\<rparr>"

definition sample_loop_state :: graph_state where
  "sample_loop_state = sample_state
     \<lparr>gs_nodes := gs_nodes sample_state @ [(''exp/a'', sample_experiment)],
      gs_edges := gs_edges sample_state @ [(''exp/a::governed_by::dec/a'', sample_governed_edge)]\<rparr>"

definition sample_loop_patch :: patch where
  "sample_loop_patch = (sample_agent [CreateNodes [sample_new_blocker],
     CreateEdges [sample_new_edge\<lparr>ne_source := ''exp/a''\<rparr>],
     sample_update ''exp/a'' [(''current_summary'', VStr ''stuck'')] None])
     \<lparr>p_kind := ExperimentLoop, p_experiment_control_node_id := Some ''exp/a''\<rparr>"

definition sample_loop_result :: graph_state where
  "sample_loop_result = projr (apply_valid_patch declared_adapters sample_loop_state sample_loop_patch)"

lemma sample_loop_coherent: "graph_coherent sample_loop_state"
  by code_simp

lemma sample_loop_applies:
  "apply_valid_patch declared_adapters sample_loop_state sample_loop_patch = Inr sample_loop_result"
proof -
  have "\<not> isl (apply_valid_patch declared_adapters sample_loop_state sample_loop_patch)" by code_simp
  then show ?thesis by (simp add: sample_loop_result_def)
qed

lemma sample_loop_admitted:
  "validate_patch declared_adapters sample_digests (sample_env Admission) sample_loop_state
     sample_loop_patch = []"
  by code_simp

theorem experiment_loop_is_confined_witness:
  "dget (gs_nodes sample_loop_result) ''dec/a'' = Some sample_decision"
proof -
  have none: "p_transition sample_loop_patch = None" and kind: "p_kind sample_loop_patch = ExperimentLoop"
    and x: "control_node_id (sample_env Admission) sample_loop_patch = Some ''exp/a''"
    and get: "dget (gs_nodes sample_loop_state) ''dec/a'' = Some sample_decision"
    and bdl: "decision_bundle (sample_env Admission) sample_loop_patch = []"
    by code_simp+
  have ok: "\<not> rejected (validate_patch declared_adapters sample_digests (sample_env Admission)
      sample_loop_state sample_loop_patch)" by (simp add: sample_loop_admitted)
  show ?thesis
    using experiment_loop_is_confined [OF declared_validators.validators_axioms sample_loop_coherent none
        sample_agent_header(4) kind x ok sample_loop_applies] get
    by (simp add: bdl)
qed

end
