(* ===== verification/ControlProps.thy ===== *)
theory ControlProps
  imports LoopProps
begin

text \<open>
  Properties of the experiment control and of the read-side projections: when a loop is
  ready, how often it wakes, what a drift of its pinned decisions means, and what the
  attention and active-flow projections list.
\<close>

section \<open>Readiness\<close>

lemma set_related_targets: "i \<in> set (related_targets st s r) \<longleftrightarrow>
  (\<exists>e \<in> set (dvalues (gs_edges st)). e_source e = s \<and> e_relation e = r \<and> e_target e = i)"
  by (auto simp: related_targets_def)

lemma decision_reasons_Nil: "decision_reasons st i = [] \<longleftrightarrow>
  (\<exists>d. as_decision (dget (gs_nodes st) i) = Some d \<and> settled d) \<and> \<not> has_pending_proposal st i"
  by (auto simp: decision_reasons_def split: option.splits)

lemma blocker_reasons_Nil: "blocker_reasons st i = [] \<longleftrightarrow>
  (\<exists>b. as_blocker (dget (gs_nodes st) i) = Some b \<and> blk_status b \<noteq> ''open'')"
  by (auto simp: blocker_reasons_def split: option.splits)

lemma precondition_reasons_Nil:
  assumes "experiment_graph_precondition_reasons st x = Inr r"
  shows "r = [] \<longleftrightarrow> (\<forall>i \<in> set (related_targets st x ''governed_by'').
        (\<exists>d. as_decision (dget (gs_nodes st) i) = Some d \<and> settled d) \<and> \<not> has_pending_proposal st i)
     \<and> (\<forall>i \<in> set (related_targets st x ''blocked_by'').
        \<exists>b. as_blocker (dget (gs_nodes st) i) = Some b \<and> blk_status b \<noteq> ''open'')"
  using assms by (auto simp: experiment_graph_precondition_reasons_def decision_reasons_Nil
      blocker_reasons_Nil split: option.splits)

text \<open>an Experiment is ready exactly when every Decision that governs it is settled with a
  chosen option and has no pending proposal against it, and every Blocker on it is closed;
  a dangling \<open>governed_by\<close> or \<open>blocked_by\<close> edge also keeps it from being ready.\<close>

lemma experiment_ready_iff:
  assumes "experiment_graph_control st x = Inr gc"
  shows "gct_ready gc \<longleftrightarrow> (\<forall>e \<in> set (dvalues (gs_edges st)). e_source e = x \<longrightarrow>
      (e_relation e = ''governed_by'' \<longrightarrow>
        (\<exists>d. as_decision (dget (gs_nodes st) (e_target e)) = Some d \<and> settled d)
        \<and> (\<forall>q \<in> set (dvalues (gs_proposals st)). pr_status q = Pending \<longrightarrow> \<not> proposal_changes q (e_target e)))
      \<and> (e_relation e = ''blocked_by'' \<longrightarrow>
        (\<exists>b. as_blocker (dget (gs_nodes st) (e_target e)) = Some b \<and> blk_status b \<noteq> ''open'')))"
proof -
  obtain r where r: "experiment_graph_precondition_reasons st x = Inr r" "gct_ready gc = (r = [])"
    using assms by (auto simp: experiment_graph_control_def rbind_eq_Inr)
  have pending: "has_pending_proposal st i \<longleftrightarrow>
      (\<exists>q \<in> set (dvalues (gs_proposals st)). pr_status q = Pending \<and> proposal_changes q i)" for i
    by (simp add: has_pending_proposal_def list_ex_iff)
  show ?thesis unfolding r(2) precondition_reasons_Nil [OF r(1)] set_related_targets Ball_def pending by blast
qed

section \<open>Wakes\<close>

text \<open>an automatic wake is admitted exactly when the episode is pinned, no task, exit or
  stop stands against it, the ceiling is not reached and the graph has no reason against it;
  it is the next invocation and stays within the ceiling the episode was started with.\<close>

lemma wake_admitted_iff:
  "admit_experiment_watcher_invocation st x episode used cl pins task exited stop = Inr (Some a)
   \<longleftrightarrow> episode = Some (ia_episode_id a) \<and> cl = Some (ia_invocation_ceiling a)
     \<and> pins = Some (ia_decision_bundle a) \<and> 1 \<le> used \<and> ia_invocation a = used + 1
     \<and> ia_invocation a \<le> ia_invocation_ceiling a \<and> \<not> task \<and> \<not> exited \<and> \<not> stop
     \<and> experiment_graph_precondition_reasons st x = Inr []"
  by (cases a) (auto simp: admit_experiment_watcher_invocation_def rbind_eq_Inr split: option.splits)

text \<open>The wakes of one episode: each attempt sees a graph and runtime flags of its own, and an
  admitted one moves the count of invocations.\<close>

fun episode_invocations ::
  "string \<Rightarrow> string \<Rightarrow> int \<Rightarrow> decision_pin list \<Rightarrow> (graph_state \<times> bool \<times> bool \<times> bool) list \<Rightarrow> int \<Rightarrow> int" where
  "episode_invocations x ep c pins [] used = used"
| "episode_invocations x ep c pins ((st, task, exited, stop) # ws) used =
     episode_invocations x ep c pins ws
       (case admit_experiment_watcher_invocation st x (Some ep) used (Some c) (Some pins) task exited stop of
          Inr (Some a) \<Rightarrow> ia_invocation a | _ \<Rightarrow> used)"

text \<open>however often a watcher fires during an episode, and whatever happens to the graph in
  between, the invocations never exceed the ceiling pinned at its start.\<close>

lemma episode_is_bounded:
  assumes "used \<le> c"
  shows "episode_invocations x ep c pins ws used \<le> c"
  using assms
proof (induction x ep c pins ws used rule: episode_invocations.induct)
  case (2 x ep c pins st task exited stop ws used)
  let ?a = "admit_experiment_watcher_invocation st x (Some ep) used (Some c) (Some pins) task exited stop"
  have "(case ?a of Inr (Some a) \<Rightarrow> ia_invocation a | _ \<Rightarrow> used) \<le> c"
    using 2(2) by (auto simp: admit_experiment_watcher_invocation_def rbind_eq_Inr rbind_def
        split: sum.splits option.splits if_splits)
  then show ?case using 2(1) by simp
qed simp

section \<open>Pinned decisions\<close>

lemma rconcat_set: "rconcat f xs = Inr ys \<Longrightarrow> y \<in> set ys \<Longrightarrow> \<exists>x \<in> set xs. \<exists>zs. f x = Inr zs \<and> y \<in> set zs"
  by (induction xs arbitrary: ys) (auto simp: rbind_eq_Inr)

lemma governing_pinD:
  assumes "governing_pin st i = Inr pins" and "pin \<in> set pins"
  obtains n d where "dget (gs_nodes st) i = Some n" and "n_body n = Decision d" and "settled d"
    and "pin = \<lparr>pin_decision_id = n_id n, pin_decision_revision = n_updated_rev n,
       pin_selected_option = the (dec_selected_option d)\<rparr>"
  using assms by (auto simp: governing_pin_def split: option.splits node_body.splits if_splits)

lemma fresh_pin:
  assumes "graph_coherent st" and "governing_decision_bundle st x = Inr pins" and "pin \<in> set pins"
  shows "\<not> pin_moved st pin"
proof -
  obtain i own where own: "governing_pin st i = Inr own" "pin \<in> set own"
    using rconcat_set [OF assms(2) [unfolded governing_decision_bundle_def] assms(3)] by blast
  show ?thesis
    by (rule governing_pinD [OF own])
       (auto simp: pin_moved_def settled_def coherent_node_id [OF assms(1)])
qed

lemma drift_Nil: "decision_drift st pins = [] \<longleftrightarrow> (\<forall>pin \<in> set pins. \<not> pin_moved st pin)"
  by (auto simp: decision_drift_def filter_empty_conv)

lemma unmoved_pinD:
  assumes "\<not> pin_moved st pin"
  obtains n where "dget (gs_nodes st) (pin_decision_id pin) = Some n"
    and "n_updated_rev n = pin_decision_revision pin"
  using assms by (auto simp: pin_moved_def split: option.splits node_body.splits)

lemma pin_moved_same:
  "dget (gs_nodes st') (pin_decision_id pin) = dget (gs_nodes st) (pin_decision_id pin)
     \<Longrightarrow> pin_moved st' pin = pin_moved st pin"
  by (simp add: pin_moved_def)

text \<open>C35: drift is exact. The bundle pinned at the start of an episode has no drift in its own
  graph, and after a later patch it has none exactly when that patch left every pinned
  Decision as it was: any rewrite or removal of a pinned Decision is reported.\<close>

theorem drift_is_exact:
  assumes "validators A" and "graph_coherent st" and "governing_decision_bundle st x = Inr pins"
    and "apply_valid_patch A st p = Inr st'"
    and "\<forall>pin \<in> set pins. pin_decision_revision pin < p_revision p"
  shows "decision_drift st pins = [] \<and> (decision_drift st' pins = [] \<longleftrightarrow>
     (\<forall>pin \<in> set pins. dget (gs_nodes st') (pin_decision_id pin) = dget (gs_nodes st) (pin_decision_id pin)))"
proof -
  obtain ds where "apply_patch A p [] st = Inr (st', ds)"
    using assms(4) by (auto simp: apply_valid_patch_def rbind_eq_Inr)
  then have stamped: "stamped (p_revision p) st st'"
    by (rule validators.stamped_apply [OF assms(1) _ assms(2)])
  have fresh: "\<not> pin_moved st pin" if "pin \<in> set pins" for pin
    by (rule fresh_pin [OF assms(2,3) that])
  have "dget (gs_nodes st') (pin_decision_id pin) = dget (gs_nodes st) (pin_decision_id pin)"
    if pin: "pin \<in> set pins" and unmoved: "\<not> pin_moved st' pin" for pin
  proof -
    obtain n where n: "dget (gs_nodes st') (pin_decision_id pin) = Some n"
      "n_updated_rev n = pin_decision_revision pin" by (rule unmoved_pinD [OF unmoved])
    then have "n_updated_rev n \<noteq> p_revision p" using assms(5) pin by fastforce
    then have "dget (gs_nodes st) (pin_decision_id pin) = Some n"
      using n(1) stamped unfolding stamped_def by blast
    then show ?thesis by (simp add: n(1))
  qed
  then show ?thesis using fresh pin_moved_same unfolding drift_Nil by blast
qed

section \<open>The control state\<close>

lemma derived_control:
  assumes "derive_experiment_control_state st x rt = Inr cs"
  obtains e r cl where "as_experiment (dget (gs_nodes st) x) = Some e"
    and "experiment_graph_precondition_reasons st x = Inr r"
    and "cs_reasons cs = r @ fresh_start_reasons e @ operational_reasons x rt cl"
    and "cs_ready cs \<longleftrightarrow> cs_reasons cs = []" and "cs_active cs \<longleftrightarrow> x \<in> set (lr_active_control_node_ids rt)"
    and "0 \<le> cs_invocations_used cs" and "1 \<le> cl" and "cs_invocation_ceiling cs = cl"
    and "cs_invocations_remaining cs = max (cl - cs_invocations_used cs) 0"
proof -
  obtain e gc governing cl pins where e: "as_experiment (dget (gs_nodes st) x) = Some e"
    and gc: "experiment_graph_control st x = Inr gc" and "governing_decision_bundle st x = Inr governing"
    and "episode_binding e rt = Inr (cl, pins)"
    using assms by (auto simp: derive_experiment_control_state_def rbind_eq_Inr split: option.splits)
  moreover obtain r where "experiment_graph_precondition_reasons st x = Inr r" "gct_reasons gc = r"
    using gc by (auto simp: experiment_graph_control_def rbind_eq_Inr)
  ultimately show thesis
    using assms by (intro that [of e r cl])
      (auto simp: derive_experiment_control_state_def Let_def split: if_splits)
qed

text \<open>the control state shown to the human is within bounds and consistent. The remaining
  invocations lie between zero and the ceiling in force; the loop is shown ready exactly when
  no reason is listed; and then the graph gates are open, the Experiment is not closed, and no
  loop is active on it.\<close>

lemma control_state_is_bounded:
  assumes "derive_experiment_control_state st x rt = Inr cs"
  shows "0 \<le> cs_invocations_remaining cs \<and> 1 \<le> cs_invocation_ceiling cs
     \<and> cs_invocations_remaining cs = max 0 (cs_invocation_ceiling cs - cs_invocations_used cs)
     \<and> cs_invocations_remaining cs \<le> cs_invocation_ceiling cs
     \<and> (cs_ready cs \<longleftrightarrow> cs_reasons cs = [])
     \<and> (cs_ready cs \<longrightarrow> experiment_graph_precondition_reasons st x = Inr [] \<and> \<not> cs_active cs
        \<and> (\<exists>e. as_experiment (dget (gs_nodes st) x) = Some e \<and> exp_status e \<notin> set closed_experiment_statuses))"
  by (rule derived_control [OF assms])
     (auto simp: fresh_start_reasons_def operational_reasons_def Let_def split: if_splits)


section \<open>Projections\<close>

lemma keyed_entry: "keyed key d \<Longrightarrow> (k, v) \<in> set d \<longleftrightarrow> dget d k = Some v"
  by (simp add: keyed_def)

lemma keyed_filter_keys:
  "keyed key d \<Longrightarrow> set (map fst (filter (\<lambda>kv. P (snd kv)) d)) = {i. \<exists>v. dget d i = Some v \<and> P v}"
  using keyed_entry by force

lemma distinct_filtered_keys: "keyed key d \<Longrightarrow> distinct (map fst (filter P d))"
  by (simp add: keyed_def distinct_map_filter)

lemma coherent_map_id:
  assumes "graph_coherent st"
  shows "map n_id (filter P (dvalues (gs_nodes st))) = map fst (filter (\<lambda>kv. P (snd kv)) (gs_nodes st))"
proof -
  have "n_id (snd kv) = fst kv" if "kv \<in> set (gs_nodes st)" for kv
    using assms that by (auto simp: graph_coherent_def keyed_def)
  then show ?thesis by (induction "gs_nodes st") (simp_all add: dvalues_def filter_map comp_def)
qed


text \<open>the attention projection is exact. On a coherent graph it is defined, and its three
  lists are, sorted and without repetition, the pending proposals, the Decisions that await a
  human choice and the open asserted Blockers.\<close>

lemma attention_is_exact:
  assumes "graph_coherent st"
  shows "\<exists>a. project_graph_attention st = Inr a
     \<and> sorted (att_pending_proposal_ids a) \<and> distinct (att_pending_proposal_ids a)
     \<and> set (att_pending_proposal_ids a) = {i. \<exists>q. dget (gs_proposals st) i = Some q \<and> pr_status q = Pending}
     \<and> sorted (att_decisions_awaiting_choice_ids a) \<and> distinct (att_decisions_awaiting_choice_ids a)
     \<and> set (att_decisions_awaiting_choice_ids a) = {i. \<exists>n d. dget (gs_nodes st) i = Some n
         \<and> n_body n = Decision d \<and> dec_status d \<in> {''ready'', ''revisit''}}
     \<and> sorted (att_open_blocker_ids a) \<and> distinct (att_open_blocker_ids a)
     \<and> set (att_open_blocker_ids a) = {i. \<exists>n b. dget (gs_nodes st) i = Some n
         \<and> n_body n = Blocker b \<and> blk_status b = ''open'' \<and> n_standing n = Asserted}"
proof -
  have nodes: "keyed n_id (gs_nodes st)" and props: "keyed pr_id (gs_proposals st)"
    using assms by (simp_all add: graph_coherent_def)
  obtain a where a: "project_graph_attention st = Inr a" using coherent_attention [OF assms] by blast
  have lists: "att_pending_proposal_ids a = sort (map fst (filter (\<lambda>kv. pr_status (snd kv) = Pending) (gs_proposals st)))"
    "att_decisions_awaiting_choice_ids a = sort (map fst (filter (\<lambda>kv. decision_awaits_choice (snd kv)) (gs_nodes st)))"
    "att_open_blocker_ids a = sort (map fst (filter (\<lambda>kv. open_blocker (snd kv)) (gs_nodes st)))"
    using a by (auto simp: project_graph_attention_def coherent_map_id [OF assms] split: if_splits)
  have "decision_awaits_choice n \<longleftrightarrow> (\<exists>d. n_body n = Decision d \<and> dec_status d \<in> {''ready'', ''revisit''})"
    and "open_blocker n \<longleftrightarrow> (\<exists>b. n_body n = Blocker b \<and> blk_status b = ''open'' \<and> n_standing n = Asserted)" for n
    by (auto simp: decision_awaits_choice_def open_blocker_def split: node_body.splits)
  then show ?thesis
    using a keyed_filter_keys [OF props, of "\<lambda>q. pr_status q = Pending"] keyed_filter_keys [OF nodes, of decision_awaits_choice]
      keyed_filter_keys [OF nodes, of open_blocker]
    by (intro exI [of _ a]) (simp add: lists distinct_filtered_keys [OF nodes] distinct_filtered_keys [OF props])
qed

text \<open>the active flow is the induced subgraph on the nodes it keeps. It lists every node but,
  unless asked for, the resolved Blockers, and exactly the edges between listed nodes.\<close>

lemma active_flow_is_induced:
  assumes "graph_coherent st"
  shows "set (af_node_ids (active_flow_projection st r)) = {i. \<exists>n. dget (gs_nodes st) i = Some n
        \<and> (r \<or> (\<forall>b. n_body n = Blocker b \<longrightarrow> blk_status b \<noteq> ''resolved''))}
     \<and> set (af_edge_ids (active_flow_projection st r)) = {i. \<exists>e. dget (gs_edges st) i = Some e
        \<and> e_source e \<in> set (af_node_ids (active_flow_projection st r))
        \<and> e_target e \<in> set (af_node_ids (active_flow_projection st r))}
     \<and> sorted (af_node_ids (active_flow_projection st r)) \<and> distinct (af_node_ids (active_flow_projection st r))"
proof -
  have nodes: "keyed n_id (gs_nodes st)" and edges: "keyed e_id (gs_edges st)"
    using assms by (simp_all add: graph_coherent_def)
  have active: "is_active_flow_node r n \<longleftrightarrow> r \<or> (\<forall>b. n_body n = Blocker b \<longrightarrow> blk_status b \<noteq> ''resolved'')" for n
    by (auto simp: is_active_flow_node_def split: node_body.splits)
  show ?thesis
    using keyed_filter_keys [OF nodes, of "is_active_flow_node r"] keyed_filter_keys [OF edges]
    by (simp add: active_flow_projection_def Let_def active distinct_filtered_keys [OF nodes])
qed


section \<open>A settled experiment\<close>

definition sample_settled_state :: graph_state where
  "sample_settled_state = sample_loop_state\<lparr>gs_nodes := dset ''dec/a''
     (sample_decision\<lparr>n_body := Decision \<lparr>dec_question = ''q'', dec_options = [''x'', ''y''],
       dec_selected_option = Some ''x'', dec_rationale = None, dec_consequences = [],
       dec_status = ''decided''\<rparr>\<rparr>) (gs_nodes sample_loop_state)\<rparr>"

definition sample_pin :: decision_pin where
  "sample_pin = \<lparr>pin_decision_id = ''dec/a'', pin_decision_revision = 1, pin_selected_option = ''x''\<rparr>"

lemma sample_settled_coherent: "graph_coherent sample_settled_state"
  by code_simp

theorem drift_is_exact_witness:
  "decision_drift (projr (apply_valid_patch declared_adapters sample_settled_state sample_loop_patch)) [sample_pin] = []"
proof -
  have pins: "governing_decision_bundle sample_settled_state ''exp/a'' = Inr [sample_pin]"
    and ok: "\<not> isl (apply_valid_patch declared_adapters sample_settled_state sample_loop_patch)"
    and same: "dget (gs_nodes (projr (apply_valid_patch declared_adapters sample_settled_state sample_loop_patch))) ''dec/a''
      = dget (gs_nodes sample_settled_state) ''dec/a''"
    by code_simp+
  then obtain st' where st': "apply_valid_patch declared_adapters sample_settled_state sample_loop_patch = Inr st'"
    by (metis isl_def sum.exhaust)
  have later: "\<forall>pin \<in> set [sample_pin]. pin_decision_revision pin < p_revision sample_loop_patch"
    by (simp add: sample_pin_def sample_loop_patch_def sample_agent_def sample_patch_def)
  from drift_is_exact [OF declared_validators.validators_axioms sample_settled_coherent pins st' later]
  show ?thesis using same st' by (simp add: sample_pin_def)
qed

end
