(* ===== verification/TransitionProps.thy ===== *)
theory TransitionProps
  imports ReplayProps ControlProps
begin

text \<open>
  Properties of prepared transitions: what the guidance closure may write, that the recorded
  trace is the one the replay accepts, and the chain of transition heads.
\<close>

section \<open>Operations are applied from the header\<close>

definition same_header :: "patch \<Rightarrow> patch \<Rightarrow> bool" where
  "same_header p q \<longleftrightarrow> p_revision p = p_revision q \<and> p_kind p = p_kind q \<and> p_author p = p_author q
     \<and> p_source_operation_id p = p_source_operation_id q \<and> p_schema_generation p = p_schema_generation q
     \<and> p_created_at p = p_created_at q"

lemma apply_op_same_header:
  assumes "same_header p q" shows "apply_op A p g op = apply_op A q g op"
proof -
  have items:
    "apply_create_node A p = apply_create_node A q"
    "apply_update_node A p g = apply_update_node A q g"
    "apply_supersede_node A p = apply_supersede_node A q"
    "apply_merge_node A p = apply_merge_node A q"
    "apply_create_ambiguity p = apply_create_ambiguity q"
    "apply_create_proposal p = apply_create_proposal q"
    "apply_resolve_proposal p = apply_resolve_proposal q"
    "apply_withdraw_proposal p = apply_withdraw_proposal q"
    "apply_upsert_term p = apply_upsert_term q"
    "apply_standing p = apply_standing q"
    "apply_truth_scope p = apply_truth_scope q"
    "apply_ontology p = apply_ontology q"
    "apply_create_edge p = apply_create_edge q"
    using assms by (auto intro!: ext simp: same_header_def apply_create_node_def apply_update_node_def
        apply_supersede_node_def apply_merge_node_def apply_create_ambiguity_def apply_create_proposal_def
        apply_resolve_proposal_def apply_withdraw_proposal_def apply_upsert_term_def
        apply_standing_def apply_truth_scope_def apply_ontology_def apply_create_edge_def
        immutable_fields_for_def update_validator_def updated_document_def applied_standing_def
        patch_author_side_def Let_def cong: if_cong option.case_cong)
  show ?thesis by (rule ext, cases op) (simp_all add: items)
qed

lemma generated_same_header:
  assumes "same_header p q"
  shows "apply_transition_generated_operation A st p op = apply_transition_generated_operation A st q op"
proof -
  have h: "same_header (p\<lparr>p_ops := [op]\<rparr>) (q\<lparr>p_ops := [op]\<rparr>)" using assms by (simp add: same_header_def)
  have f: "finish_apply (p\<lparr>p_ops := [op]\<rparr>) a = finish_apply (q\<lparr>p_ops := [op]\<rparr>) a" for a
    using assms by (simp add: finish_apply_def same_header_def cong: if_cong)
  have nil: "rfold c [] = Inr" for c :: "nat \<times> graph_op \<Rightarrow> applying \<Rightarrow> applying res" by (rule ext) simp
  show ?thesis
    by (simp add: nil apply_transition_generated_operation_def apply_patch_def apply_ops_def f
        generated_operation_indexes_def apply_op_same_header [OF h])
qed

section \<open>Ranges of indexes\<close>

lemma fromkeys_distinct: "distinct xs \<Longrightarrow> fromkeys xs = xs"
  by (simp add: fromkeys_def distinct_remdups_id)

lemma remdups_absorb: "set zs \<subseteq> set xs \<Longrightarrow> distinct xs \<Longrightarrow> remdups (zs @ xs) = xs"
  by (induction zs) (auto simp: distinct_remdups_id)

lemma fromkeys_repeated:
  assumes "ps \<noteq> []" and "\<And>p. p \<in> set ps \<Longrightarrow> f p = xs" and "distinct xs"
  shows "fromkeys (concat (map f ps)) = xs"
proof -
  obtain p qs where ps: "ps = p # qs" using assms(1) by (cases ps) auto
  have "remdups (rev (concat (map f qs)) @ rev xs) = rev xs"
    using assms(2,3) ps by (intro remdups_absorb) auto
  then show ?thesis using ps assms(2) by (simp add: fromkeys_def)
qed

lemma merge_known:
  "(\<And>kv. kv \<in> set kvs \<Longrightarrow> dget d (fst kv) = Some (snd kv)) \<Longrightarrow> merge_cursors kvs d = Inr d"
  by (induction kvs) (auto simp: update_triv)

lemma dset_new: "k \<notin> set (map fst d) \<Longrightarrow> dset k v d = d @ [(k, v)]"
  by (induction d) auto

lemma merge_new: "distinct (map fst (acc @ d)) \<Longrightarrow> merge_cursors (d @ kvs) acc = merge_cursors kvs (acc @ d)"
proof (induction d arbitrary: acc)
  case (Cons kv d)
  have "fst kv \<notin> set (map fst acc)" using Cons.prems by auto
  then have "dget acc (fst kv) = None" "dset (fst kv) (snd kv) acc = acc @ [kv]"
    by (simp_all add: map_of_eq_None_iff dset_new)
  then show ?case using Cons by simp
qed simp

lemma merge_repeated:
  assumes "ps \<noteq> []" and "\<And>p. p \<in> set ps \<Longrightarrow> f p = d" and "distinct (map fst d)"
  shows "merge_cursors (concat (map f ps)) [] = Inr d"
proof -
  obtain p qs where ps: "ps = p # qs" using assms(1) by (cases ps) auto
  have "merge_cursors (concat (map f qs)) d = Inr d"
    using assms(2,3) ps by (intro merge_known) (auto split: if_splits)
  then show ?thesis using merge_new [of "[]" d "concat (map f qs)"] ps assms(2,3) by simp
qed

lemma group_indexes:
  "concat (map ig_operation_indexes (initiating_groups g i ps)) = [i ..< i + length (concat (map p_ops ps))]"
proof (induction ps arbitrary: g i)
  case (Cons p ps)
  have "[i ..< i + (m + n)] = [i ..< i + m] @ [i + m ..< i + m + n]" for m n
    using upt_add_eq_append [of i "i + m" n] by (simp add: add.assoc)
  then show ?case using Cons.IH [of "Suc g" "i + length (p_ops p)"] by simp
qed simp

lemma generated_indexes: "map ga_operation_index (generated_refs b gs) = [b ..< b + length gs]"
  by (simp add: generated_refs_def comp_def map_fst_enumerate)


section \<open>Source patches of a trace\<close>

text \<open>What the patches of one transition have in common: all but their own summary, operations
  and declared action.\<close>

definition shared :: "patch \<Rightarrow> patch" where
  "shared p = p\<lparr>p_summary := [], p_change_summary := [], p_ops := [], p_human_action := None,
     p_agent_action := None\<rparr>"

lemma source_patch_shared:
  assumes "shared (c\<lparr>p_transition := None\<rparr>) = shared p"
  shows "c\<lparr>p_summary := p_summary p, p_change_summary := p_change_summary p, p_ops := p_ops p,
      p_human_action := p_human_action p, p_agent_action := p_agent_action p, p_transition := None\<rparr> = p"
  using assms by (cases c; cases p) (simp add: shared_def)

lemma nth_segment:
  assumes "xs = pre @ ys @ post"
  shows "map (\<lambda>i. xs ! i) [length pre ..< length pre + length ys] = ys"
  by (rule nth_equalityI) (simp_all add: assms nth_append)

lemma group_sources:
  assumes "p_ops c = pre @ concat (map p_ops ps) @ post" and "i = length pre"
    and "\<And>p. p \<in> set ps \<Longrightarrow> p_ops p \<noteq> [] \<and> shared (c\<lparr>p_transition := None\<rparr>) = shared p"
  shows "map (source_patch_for_group c) (initiating_groups g i ps) = ps"
  using assms
proof (induction ps arbitrary: g i pre)
  case (Cons p ps)
  have "map (\<lambda>j. p_ops c ! j) [i ..< i + length (p_ops p)] = p_ops p"
    unfolding Cons.prems(2) by (rule nth_segment) (simp add: Cons.prems(1))
  moreover have "map (source_patch_for_group c) (initiating_groups (Suc g) (i + length (p_ops p)) ps) = ps"
    using Cons.prems by (intro Cons.IH [of "pre @ p_ops p"]) auto
  moreover have "source_patch_for_group c \<lparr>ig_group_id = k, ig_operation_indexes = is, ig_summary = p_summary p,
      ig_change_summary = p_change_summary p, ig_human_action = p_human_action p,
      ig_agent_action = p_agent_action p\<rparr> = p" if "map (\<lambda>j. p_ops c ! j) is = p_ops p" for k "is"
    using that Cons.prems(3) [of p] source_patch_shared [of c p] by (simp add: source_patch_for_group_def)
  ultimately show ?case using Cons.prems(3) [of p] by simp
qed simp

section \<open>Causes and generated operations\<close>

lemma stage_indexes:
  assumes "stage_actions A i as st = Inr (steps, st')" and "s \<in> set steps"
  shows "i \<le> fst s \<and> fst s < i + length as"
  using assms
proof (induction A i as st arbitrary: steps st' rule: stage_actions.induct)
  case (2 A i pa as st)
  then obtain st1 r where st1: "apply_valid_operation A st (fst pa) (snd pa) = Inr st1"
    and r: "stage_actions A (Suc i) as st1 = Inr r" and steps: "steps = (i, st, st1) # fst r"
    by (auto simp: rbind_eq_Inr split: sum.splits)
  have "Suc i \<le> fst s \<and> fst s < Suc i + length as" if "s \<in> set (fst r)"
    using "2.IH" [OF st1, of "fst r" "snd r"] r that by simp
  then show ?case using "2.prems"(2) steps by auto
qed simp

lemma timeline_indexes:
  assumes "apply_timeline A st as = Inr (steps, st')" and "s \<in> set steps"
  shows "fst s < length as"
proof -
  obtain st1 where "stage_actions A 0 as st = Inr (steps, st1)"
    using assms(1) by (auto simp: apply_timeline_def rbind_eq_Inr)
  from stage_indexes [OF this assms(2)] show ?thesis by simp
qed

lemma update_values: "map_of (AList.update k v d) j = Some w \<Longrightarrow> w = v \<or> map_of d j = Some w"
  by (simp add: update_conv' split: if_splits)

lemma step_cause_values:
  assumes "dget (step_causes s d) x = Some c" shows "c = fst s \<or> dget d x = Some c"
proof -
  obtain i a b where s: "s = (i, a, b)" by (cases s)
  have "dget (foldl (\<lambda>d x. if P x d then dset x i d else d) d xs) x = Some c \<Longrightarrow> c = i \<or> dget d x = Some c"
    for P xs
    by (induction xs arbitrary: d) (simp, fastforce dest: update_values split: if_splits)
  from this [of "\<lambda>x d. as_experiment (dget (gs_nodes a) x) \<noteq> None
      \<and> experiment_dependency_signature a x \<noteq> experiment_dependency_signature b x \<and> \<not> dhas x d" "experiment_ids b"]
  show ?thesis using assms by (simp add: s step_causes_def)
qed

lemma cause_values:
  assumes "dget (dependency_change_causes steps) x = Some c" shows "\<exists>s \<in> set steps. c = fst s"
proof -
  have "dget (fold step_causes steps d) x = Some c \<Longrightarrow> (\<exists>s \<in> set steps. c = fst s) \<or> dget d x = Some c" for d
    by (induction steps arbitrary: d) (auto dest: step_cause_values)
  then show ?thesis using assms by (fastforce simp: dependency_change_causes_def)
qed

lemma explicit_values:
  assumes "map_of (explicit_guidance_updates as) k = Some c" shows "c < length as"
proof -
  have fold: "map_of (foldl (\<lambda>d kv. AList.update (fst kv) (snd kv) d) d kvs) k = Some c \<Longrightarrow>
      c \<in> snd ` set kvs \<or> map_of d k = Some c" for kvs and d :: "((string \<times> string) \<times> nat) list"
    by (induction kvs arbitrary: d) (simp, fastforce dest: update_values)
  have "c \<in> snd ` set (concat (map explicit_of (List.enumerate 0 as)))"
    using fold [OF assms [unfolded explicit_guidance_updates_def]] by simp
  then show ?thesis by (auto simp: explicit_of_def in_set_enumerate_eq)
qed

lemma field_change_entry:
  assumes "(c, f, b) \<in> set (field_changes x e iv ex)"
  shows "f \<in> {''current_summary_stale'', ''next_action_stale''}
    \<and> (iv = Some c \<or> (\<exists>g. map_of ex (x, g) = Some c))"
  using assms by (fastforce simp: field_changes_def desired_staleness_def Let_def
      split: option.splits if_splits)

text \<open>The closure only writes the two staleness flags of Experiments, and every firing cites
  an initiating action.\<close>

lemma guidance_action_ok:
  assumes "apply_timeline A st as = Inr (steps, st')"
    and "(op, c) \<in> set (guidance_actions st' (dependency_change_causes steps) (explicit_guidance_updates as))"
  shows "guidance_operation_ok op \<and> c < length as"
proof -
  let ?fc = "\<lambda>x e. field_changes x e (dget (dependency_change_causes steps) x) (explicit_guidance_updates as)"
  obtain x e where op: "op = guidance_update x (map (\<lambda>t. (fst (snd t), VBool (snd (snd t))))
        (filter (\<lambda>t. fst t = c) (?fc x e)))" and c: "c \<in> fst ` set (?fc x e)"
    using assms(2) by (auto simp: guidance_actions_def Let_def split: option.splits)
  obtain f b where fb: "(c, f, b) \<in> set (?fc x e)" using c by force
  have "c < length as"
    using field_change_entry [OF fb] cause_values timeline_indexes [OF assms(1)] explicit_values by blast
  moreover have "guidance_operation_ok op"
  proof -
    have "filter (\<lambda>t. fst t = c) (?fc x e) \<noteq> []" using fb by (force simp: filter_empty_conv)
    moreover have "fst (snd t) \<in> {''current_summary_stale'', ''next_action_stale''}" if "t \<in> set (?fc x e)" for t
      using field_change_entry [of "fst t" "fst (snd t)" "snd (snd t)"] that by auto
    ultimately show ?thesis
      unfolding op guidance_update_def guidance_operation_ok_def list_all_iff by fastforce
  qed
  ultimately show ?thesis by simp
qed


section \<open>The recorded trace\<close>

lemma recorded_is_generated:
  assumes "same_header c p" and "p_ops c = pre @ map fst gen" and "i = length pre"
  shows "stage_recorded A c (generated_refs i gen) st = as_value_error (stage_generated A p i (map fst gen) st)"
  using assms(2,3)
proof (induction gen arbitrary: pre i st)
  case (Cons g gen)
  have rest: "stage_recorded A c (generated_refs (Suc i) gen) s
      = as_value_error (stage_generated A p (Suc i) (map fst gen) s)" for s
    using Cons.prems by (intro Cons.IH [of "pre @ [fst g]"]) simp_all
  have "p_ops c ! i = fst g" using Cons.prems by (simp add: nth_append)
  moreover have "generated_refs i (g # gen) = \<lparr>ga_operation_index = i, ga_rule_id = GUIDANCE_RULE_ID,
      ga_cause = ActionCause (snd g)\<rparr> # generated_refs (Suc i) gen"
    by (simp add: generated_refs_def)
  ultimately show ?case
    by (simp add: rest generated_same_header [OF assms(1)] as_value_error_def rbind_def split: sum.splits)
qed (simp add: generated_refs_def as_value_error_def)

lemma generated_step_indexes:
  assumes "stage_generated A p i ops st = Inr (steps, st')" and "s \<in> set steps"
  shows "fst s < i + length ops"
  using assms
proof (induction A p i ops st arbitrary: steps st' rule: stage_generated.induct)
  case (2 A p i op ops st)
  then obtain st1 r where st1: "apply_transition_generated_operation A st p op = Inr st1"
    and r: "stage_generated A p (Suc i) ops st1 = Inr r" and steps: "steps = (i, st, st1) # fst r"
    by (auto simp: rbind_eq_Inr split: sum.splits)
  have "fst s < Suc i + length ops" if "s \<in> set (fst r)"
    using "2.IH" [OF st1, of "fst r" "snd r"] r that by simp
  then show ?case using "2.prems"(2) steps by auto
qed simp

lemma event_causes:
  "e \<in> set (status_events s) \<Longrightarrow> fst e = fst s" "e \<in> set (guidance_events ops s) \<Longrightarrow> fst e = fst s"
  by (auto simp: status_events_def guidance_events_def split: prod.splits option.splits if_splits)

lemma digested_events_ok:
  "(\<And>e. e \<in> set evs \<Longrightarrow> fst e < n) \<Longrightarrow>
     events_ok D tid n k known (map (event_of D tid) (List.enumerate k evs))"
proof (induction evs arbitrary: k known)
  case (Cons e evs)
  have "events_ok D tid n (Suc k) known' (map (event_of D tid) (List.enumerate (Suc k) evs))" for known'
    using Cons by simp
  moreover have "fst e < n" using Cons.prems by simp
  moreover have "te_cause (event_of D tid (k, e)) = ActionCause (fst e)"
    "te_event_id (event_of D tid (k, e)) = dg_event D tid \<lparr>ep_ordinal = k,
       ep_event_type = te_event_type (event_of D tid (k, e)), ep_cause = CauseIndex (fst e),
       ep_node_id = te_node_id (event_of D tid (k, e)), ep_field = te_field (event_of D tid (k, e)),
       ep_before = te_before (event_of D tid (k, e)), ep_after = te_after (event_of D tid (k, e))\<rparr>"
    by (simp_all add: event_of_def split: prod.splits)
  ultimately show ?case by simp
qed simp

lemma lifecycle_events_ok:
  assumes "\<And>s. s \<in> set steps \<Longrightarrow> fst s < n" and "\<And>s. s \<in> set gsteps \<Longrightarrow> fst s < n"
  shows "events_ok D tid n 0 [] (lifecycle_events D tid steps gsteps ops)"
  unfolding lifecycle_events_def
  using assms event_causes by (intro digested_events_ok) fastforce

lemma indexes_ok:
  assumes "concat (map ig_operation_indexes (tt_initiating_groups t)) = [0 ..< m]"
    and "map ga_operation_index (tt_generated_actions t) = [m ..< m + n]" and "length (p_ops p) = m + n"
  shows "trace_indexes_ok p t"
proof -
  have "[0 ..< m] @ [m ..< m + n] = [0 ..< m + n]" using upt_add_eq_append [of 0 m n] by simp
  then show ?thesis
    unfolding trace_indexes_ok_def Let_def assms by (auto simp: sorted_sort_id)
qed

section \<open>Prepared transitions\<close>

text \<open>What closing a transition produces, in one elimination rule.\<close>

lemma close_transition_result:
  assumes "close_transition A D k st ps h = Inr (t, ops, final)"
  obtains steps initiated gen gsteps where "apply_timeline A st (source_actions ps) = Inr (steps, initiated)"
    and "gen = guidance_actions initiated (dependency_change_causes steps)
        (explicit_guidance_updates (source_actions ps))"
    and "length gen \<le> k" and "source_actions ps \<noteq> []"
    and "ops = map snd (source_actions ps) @ map fst gen"
    and "stage_generated A (hd ps) (length (source_actions ps)) (map fst gen) initiated = Inr (gsteps, final)"
    and "tt_pre_head t = h" and "tt_ruleset_tag t = TRANSITION_RULESET_TAG"
    and "tt_initiating_groups t = initiating_groups 0 0 ps"
    and "tt_generated_actions t = generated_refs (length (source_actions ps)) gen"
    and "tt_transition_id t = transition_id D h ps (initiating_groups 0 0 ps) (source_actions ps)
        TRANSITION_RULESET_TAG (tt_generated_actions t)"
    and "tt_lifecycle_events t = lifecycle_events D (tt_transition_id t) steps gsteps ops"
    and "tt_expanded_ops_sha256 t = dg_operations D ops"
proof -
  let ?as = "source_actions ps"
  have as: "?as \<noteq> []" using assms by (auto simp: close_transition_def Let_def)
  obtain steps initiated where tl: "apply_timeline A st ?as = Inr (steps, initiated)"
    using assms as by (auto simp: close_transition_def Let_def rbind_eq_Inr)
  let ?gen = "guidance_actions initiated (dependency_change_causes steps) (explicit_guidance_updates ?as)"
  have k: "length ?gen \<le> k"
    using assms as tl by (auto simp: close_transition_def Let_def split: if_splits)
  obtain gsteps where "stage_generated A (hd ps) (length ?as) (map fst ?gen) initiated = Inr (gsteps, final)"
    using assms as tl k by (auto simp: close_transition_def Let_def rbind_eq_Inr)
  with as tl k show thesis
    using assms by (intro that [OF tl refl]) (auto simp: close_transition_def Let_def)
qed

lemma source_actions_ops: "map snd (source_actions ps) = concat (map p_ops ps)"
  by (simp add: source_actions_def map_concat comp_def)

lemma projection_graph: "project_projection st h tag tid canonical events base = Inr pj \<Longrightarrow> pj_graph pj = st"
  by (auto simp: project_projection_def rbind_eq_Inr dest!: sym [of _ pj])

lemma prepare_inputs_ok:
  assumes "check_prepare_inputs st ps pre = Inr h"
  shows "ps \<noteq> []" "\<forall>p \<in> set ps. p_transition p = None" "gh_revision h = gs_revision st"
    "gs_revision st < p_revision (hd ps)"
proof -
  let ?h = "case pre of Some h \<Rightarrow> h
    | None \<Rightarrow> \<lparr>gh_target = MainTarget, gh_revision = gs_revision st, gh_transition_id = None\<rparr>"
  show "ps \<noteq> []" using assms by (auto simp: check_prepare_inputs_def)
  have traces: "\<not> list_ex (\<lambda>p. p_transition p \<noteq> None) ps"
    by (rule notI) (use assms in \<open>simp add: check_prepare_inputs_def split: if_splits\<close>)
  then show "\<forall>p \<in> set ps. p_transition p = None" unfolding list_ex_iff by blast
  have "gh_revision ?h = gs_revision st \<and> h = ?h"
    using assms by (simp add: check_prepare_inputs_def Let_def del: option.case_eq_if split: if_splits)
  then show "gh_revision h = gs_revision st" by simp
  show "gs_revision st < p_revision (hd ps)"
    by (rule ccontr) (use assms in \<open>simp add: check_prepare_inputs_def split: if_splits\<close>)
qed

lemma combined_basic:
  "combined_patch ps ops t = Inr c \<Longrightarrow> p_ops c = ops \<and> p_revision c = p_revision (hd ps)"
  by (auto simp: combined_patch_def rbind_eq_Inr)

lemma prepared_result:
  assumes "prepare_validated A D k st ps pre = Inr r"
  obtains h t ops final where "check_prepare_inputs st ps pre = Inr h"
    and "close_transition A D k st ps h = Inr (t, ops, final)"
    and "combined_patch ps ops t = Inr (pt_patch r)"
    and "apply_valid_patch A st (pt_patch r) = Inr final"
    and "project_transition_projection final t True = Inr (pt_projection r)"
  using assms by (auto simp: prepare_validated_def rbind_eq_Inr split: if_splits)


text \<open>C9: a prepared transition adds to the operations it was given only bounded guidance
  updates, that is boolean values of the two staleness flags, and the graph it announces is
  the one its recorded operations produce from the current graph, at the new revision.\<close>

theorem prepared_transition_is_guarded:
  assumes "prepare_validated A D k st ps pre = Inr r"
  shows "\<exists>gen. p_ops (pt_patch r) = concat (map p_ops ps) @ gen \<and> length gen \<le> k
     \<and> (\<forall>op \<in> set gen. guidance_operation_ok op)
     \<and> apply_valid_patch A st (pt_patch r) = Inr (pj_graph (pt_projection r))
     \<and> gs_revision st < gs_revision (pj_graph (pt_projection r))
     \<and> gs_revision (pj_graph (pt_projection r)) = p_revision (hd ps)"
proof -
  obtain h t ops final where inputs: "check_prepare_inputs st ps pre = Inr h"
    and close: "close_transition A D k st ps h = Inr (t, ops, final)"
    and comb: "combined_patch ps ops t = Inr (pt_patch r)"
    and run: "apply_valid_patch A st (pt_patch r) = Inr final"
    and pj: "project_transition_projection final t True = Inr (pt_projection r)"
    by (rule prepared_result [OF assms])
  obtain steps initiated gen where tl: "apply_timeline A st (source_actions ps) = Inr (steps, initiated)"
    and gen: "gen = guidance_actions initiated (dependency_change_causes steps)
        (explicit_guidance_updates (source_actions ps))"
    and k: "length gen \<le> k" and ops: "ops = map snd (source_actions ps) @ map fst gen"
    by (rule close_transition_result [OF close])
  have graph: "pj_graph (pt_projection r) = final"
    using pj projection_graph unfolding project_transition_projection_def by blast
  have p: "p_ops (pt_patch r) = ops" "p_revision (pt_patch r) = p_revision (hd ps)"
    using combined_basic [OF comb] by simp_all
  have "gs_revision st < p_revision (hd ps)"
    by (rule prepare_inputs_ok [OF inputs])
  moreover have "gs_revision final = max (gs_revision st) (p_revision (hd ps))"
    using run apply_patch_revision by (fastforce simp: apply_valid_patch_def rbind_eq_Inr p)
  moreover have "\<forall>op \<in> set (map fst gen). guidance_operation_ok op"
    using guidance_action_ok [OF tl] gen by fastforce
  ultimately show ?thesis
    using k run graph p(1) ops by (intro exI [of _ "map fst gen"]) (simp add: source_actions_ops)
qed

lemma combined_fields:
  assumes "combined_patch ps ops t = Inr c" and "ps \<noteq> []" and "\<And>p. p \<in> set ps \<Longrightarrow> shared p = shared (hd ps)"
    and "distinct (p_run_truth_scope (hd ps))" and "distinct (p_repositories_read (hd ps))"
    and "distinct (map fst (p_processed_cursors (hd ps)))"
    and "p_admission (hd ps) = Admitted" and "p_admission_messages (hd ps) = []" and "p_transition (hd ps) = None"
  shows "shared (c\<lparr>p_transition := None\<rparr>) = shared (hd ps)" "p_ops c = ops" "p_transition c = Some t"
    "same_header c (hd ps)"
proof -
  let ?q = "hd ps"
  have fields: "p_run_truth_scope p = p_run_truth_scope ?q" "p_repositories_read p = p_repositories_read ?q"
    "p_processed_cursors p = p_processed_cursors ?q" if "p \<in> set ps" for p
    using arg_cong [OF assms(3) [OF that], of p_run_truth_scope] arg_cong [OF assms(3) [OF that], of p_repositories_read]
      arg_cong [OF assms(3) [OF that], of p_processed_cursors] by (simp_all add: shared_def)
  have merged: "merge_cursors (concat (map p_processed_cursors ps)) [] = Inr (p_processed_cursors ?q)"
    using merge_repeated [OF assms(2) _ assms(6), of p_processed_cursors] fields by blast
  have keys: "fromkeys (concat (map p_run_truth_scope ps)) = p_run_truth_scope ?q"
    "fromkeys (concat (map p_repositories_read ps)) = p_repositories_read ?q"
    using fromkeys_repeated [OF assms(2) _ assms(4), of p_run_truth_scope]
      fromkeys_repeated [OF assms(2) _ assms(5), of p_repositories_read] fields by blast+
  obtain s cs where c: "c = ?q\<lparr>p_summary := s, p_ops := ops, p_change_summary := cs, p_human_action := None,
      p_agent_action := None, p_transition := Some t\<rparr>"
    using assms(1,7,8) by (cases ?q) (auto simp: combined_patch_def merged keys)
  show "shared (c\<lparr>p_transition := None\<rparr>) = shared ?q" using assms(9) by (cases ?q) (simp add: c shared_def)
  show "p_ops c = ops" "p_transition c = Some t" "same_header c ?q" by (simp_all add: c same_header_def)
qed


lemma generated_actions_ok:
  assumes "apply_timeline A st as = Inr (steps, st')"
    and "gen = guidance_actions st' (dependency_change_causes steps) (explicit_guidance_updates as)"
    and "p_ops c = map snd as @ map fst gen"
  shows "\<forall>g \<in> set (generated_refs (length as) gen). generated_action_ok c g"
proof
  fix g assume "g \<in> set (generated_refs (length as) gen)"
  then obtain j x where j: "(j, x) \<in> set (List.enumerate (length as) gen)"
    and g: "g = \<lparr>ga_operation_index = j, ga_rule_id = GUIDANCE_RULE_ID, ga_cause = ActionCause (snd x)\<rparr>"
    unfolding generated_refs_def by fastforce
  have x: "gen ! (j - length as) = x" "length as \<le> j" "j < length as + length gen"
    using j by (auto simp: in_set_enumerate_eq)
  then have "x \<in> set gen" using nth_mem [of "j - length as" gen] by auto
  then have "guidance_operation_ok (fst x) \<and> snd x < length as"
    using guidance_action_ok [OF assms(1), of "fst x" "snd x"] assms(2) by simp
  moreover have "p_ops c ! j = fst x" using x by (auto simp: assms(3) nth_append)
  ultimately show "generated_action_ok c g" using x(2) by (simp add: generated_action_ok_def g)
qed

text \<open>C8: for initiating patches with one header, the trace a transition records is the trace the
  replay accepts. When the initiating patches share everything but their summaries, operations and
  declared actions (so the same truth scope, repositories and cursors), list no repository or
  cursor twice, are marked admitted without messages, and each has an operation, validating the
  recorded trace against the same graph succeeds and returns exactly the initiating patches.
  Nothing is said of patches with different truth scopes, whose trace is refused.\<close>

theorem prepared_trace_replays:
  assumes "prepare_validated A D k st ps pre = Inr r"
    and "\<forall>p \<in> set ps. p_ops p \<noteq> [] \<and> shared p = shared (hd ps)"
    and "distinct (p_run_truth_scope (hd ps))" and "distinct (p_repositories_read (hd ps))"
    and "distinct (map fst (p_processed_cursors (hd ps)))"
    and "p_admission (hd ps) = Admitted" and "p_admission_messages (hd ps) = []"
  shows "validate_transition_trace A D st (pt_patch r) = Inr ps"
proof -
  obtain h t ops final where inputs: "check_prepare_inputs st ps pre = Inr h"
    and close: "close_transition A D k st ps h = Inr (t, ops, final)"
    and comb: "combined_patch ps ops t = Inr (pt_patch r)"
    by (rule prepared_result [OF assms(1)])
  obtain steps initiated gen gsteps where tl: "apply_timeline A st (source_actions ps) = Inr (steps, initiated)"
    and gen: "gen = guidance_actions initiated (dependency_change_causes steps)
        (explicit_guidance_updates (source_actions ps))"
    and as: "source_actions ps \<noteq> []" and ops: "ops = map snd (source_actions ps) @ map fst gen"
    and staged: "stage_generated A (hd ps) (length (source_actions ps)) (map fst gen) initiated = Inr (gsteps, final)"
    and t: "tt_pre_head t = h" "tt_ruleset_tag t = TRANSITION_RULESET_TAG"
      "tt_initiating_groups t = initiating_groups 0 0 ps"
      "tt_generated_actions t = generated_refs (length (source_actions ps)) gen"
      "tt_transition_id t = transition_id D h ps (initiating_groups 0 0 ps) (source_actions ps)
        TRANSITION_RULESET_TAG (tt_generated_actions t)"
      "tt_lifecycle_events t = lifecycle_events D (tt_transition_id t) steps gsteps ops"
      "tt_expanded_ops_sha256 t = dg_operations D ops"
    by (rule close_transition_result [OF close])
  let ?c = "pt_patch r" and ?n = "length (source_actions ps)"
  have ps: "ps \<noteq> []" "p_transition (hd ps) = None" "gh_revision h = gs_revision st"
    using prepare_inputs_ok [OF inputs] hd_in_set by blast+
  have c: "shared (?c\<lparr>p_transition := None\<rparr>) = shared (hd ps)" "p_ops ?c = ops" "p_transition ?c = Some t"
    "same_header ?c (hd ps)"
    by (rule combined_fields [OF comb ps(1) _ assms(3-7) ps(2)]; simp add: assms(2) [rule_format])+
  have sources: "map (source_patch_for_group ?c) (tt_initiating_groups t) = ps"
    unfolding t(3) using c(1) assms(2)
    by (intro group_sources [of ?c "[]" ps "map fst gen"]) (simp_all add: c(2) ops source_actions_ops)
  have n: "?n = length (concat (map p_ops ps))" by (simp flip: source_actions_ops)
  have indexes: "trace_indexes_ok ?c t"
    by (rule indexes_ok [of _ ?n "length gen"]) (simp_all add: t(3,4) group_indexes generated_indexes c(2) ops n)
  have recorded: "stage_recorded A ?c (tt_generated_actions t) initiated = Inr (gsteps, final)"
    using recorded_is_generated [OF c(4), of "map snd (source_actions ps)" gen] staged
    by (simp add: c(2) ops t(4) as_value_error_def)
  have "\<forall>g \<in> set (tt_generated_actions t). generated_action_ok ?c g"
    unfolding t(4) by (rule generated_actions_ok [OF tl gen]) (simp add: c(2) ops)
  moreover have "events_ok D (tt_transition_id t) (length ops) 0 [] (tt_lifecycle_events t)"
    unfolding t(6) using timeline_indexes [OF tl] generated_step_indexes [OF staged]
    by (intro lifecycle_events_ok) (auto simp: ops intro: trans_less_add1)
  ultimately show ?thesis
    using c(2,3) sources indexes as recorded tl ps(3) t
    by (simp add: validate_transition_trace_def as_value_error_def Let_def list_all_iff)
qed


section \<open>The chain of heads\<close>

definition accepted_traces :: "patch list \<Rightarrow> transition_trace list" where
  "accepted_traces ps = List.map_filter p_transition (filter (\<lambda>p. p_admission p = Admitted) ps)"

text \<open>C37: the log has no head failure exactly when the accepted transitions form one chain: each
  was prepared on the target's head, and its pre-head names the transition accepted just
  before it, the first one the transition the target started from.\<close>

theorem head_chain_is_exact:
  "head_chain_failure target tid ps = None \<longleftrightarrow>
     map (\<lambda>t. (gh_target (tt_pre_head t), gh_transition_id (tt_pre_head t))) (accepted_traces ps)
     = map (Pair target) (butlast (tid # map (Some \<circ> tt_transition_id) (accepted_traces ps)))"
proof (induction ps arbitrary: tid)
  case Nil
  then show ?case by (simp add: accepted_traces_def map_filter_simps)
next
  case (Cons p ps)
  show ?case
  proof (cases "p_transition p")
    case None
    then show ?thesis using Cons [of tid] by (simp add: accepted_traces_def map_filter_simps)
  next
    case (Some t)
    then show ?thesis
      using Cons [of tid] Cons [of "Some (tt_transition_id t)"]
      by (auto simp: accepted_traces_def map_filter_simps)
  qed
qed

section \<open>Unequal producer envelopes\<close>


section \<open>A concrete transition\<close>

definition sample_initiating :: "string list \<Rightarrow> graph_op list \<Rightarrow> patch" where
  "sample_initiating scope ops = (sample_agent ops)\<lparr>p_run_truth_scope := scope\<rparr>"

definition sample_block :: patch where
  "sample_block = sample_initiating [''repo''] [CreateNodes [sample_new_blocker],
     CreateEdges [sample_new_edge\<lparr>ne_source := ''exp/a''\<rparr>]]"


abbreviation sample_prepare :: "digests \<Rightarrow> patch list \<Rightarrow> prepared res" where
  "sample_prepare D ps \<equiv> prepare_validated declared_adapters D DEFAULT_MAX_RULE_FIRINGS sample_loop_state ps None"

theorem prepared_transition_is_guarded_witness:
  "length (p_ops (pt_patch (projr (sample_prepare sample_digests [sample_block])))) \<le> 2 + DEFAULT_MAX_RULE_FIRINGS"
proof -
  have "\<not> isl (sample_prepare sample_digests [sample_block])" by code_simp
  then obtain r where r: "sample_prepare sample_digests [sample_block] = Inr r" by (metis isl_def sum.exhaust)
  have "length (p_ops sample_block) = 2" by (simp add: sample_block_def sample_initiating_def sample_agent_def sample_patch_def)
  then show ?thesis using prepared_transition_is_guarded [OF r] r by auto
qed

theorem prepared_trace_replays_witness:
  "validate_transition_trace declared_adapters sample_digests sample_loop_state
     (pt_patch (projr (sample_prepare sample_digests [sample_block]))) = Inr [sample_block]"
proof -
  have "\<not> isl (sample_prepare sample_digests [sample_block])" by code_simp
  then obtain r where r: "sample_prepare sample_digests [sample_block] = Inr r" by (metis isl_def sum.exhaust)
  show ?thesis
    using prepared_trace_replays [OF r] r
    by (simp add: sample_block_def sample_initiating_def sample_agent_def sample_patch_def)
qed






end
