(* ===== verification/HistoryProps.thy ===== *)
theory HistoryProps
  imports History TransitionProps
begin

text \<open>
  Properties of the log and its writer: the log is append-only and numbered, a damaged log or
  a foreign home is never written, and no agent patch enters it without a live authority.
\<close>

lemma hbind_Inr [simp]: "hbind (Inr x) f = f x"
  by (simp add: hbind_def)

lemma hbind_eq_Inr: "hbind m f = Inr y \<longleftrightarrow> (\<exists>x. m = Inr x \<and> f x = Inr y)"
  by (cases m) (simp_all add: hbind_def)

section \<open>A damaged log\<close>

lemma decode_failure: "f \<in> set fs \<Longrightarrow> pf_content f = Undecodable code t \<Longrightarrow> snd (decode_files fs) \<noteq> None"
  by (induction fs) (auto split: file_content.splits)

lemma failed_replay: "gs_replay_status (mz_state (fail_replay (Some x) m)) = Degraded"
  by (cases "gs_replay_status (mz_state m)") (simp_all add: fail_replay_def)

lemma replay_failure_degrades:
  assumes "decode_files (patch_paths h) = (ps, a)"
    and "scope_provenance h (patch_paths h) ps = (sc, b)" and "a \<noteq> None \<or> b \<noteq> None"
  shows "gs_replay_status (rp_state (replay_history A D h)) = Degraded"
proof -
  let ?chain = "head_chain_failure MainTarget None ps"
  have "first_failure b (earlier_failure a ?chain) \<noteq> None"
    using assms(3) by (auto simp: first_failure_def earlier_failure_def split: option.splits)
  then obtain x where "first_failure b (earlier_failure a ?chain) = Some x" by blast
  then show ?thesis by (simp add: replay_history_def assms(1,2) Let_def failed_replay)
qed

text \<open>C33: a damaged log is read-only. When a listed patch file cannot be read or decoded, or the
  scope the log started from is unknown, every append and every batch is refused and the log is
  left as it is.\<close>

theorem damaged_log_is_read_only:
  assumes "(\<exists>f \<in> set (patch_paths h). \<exists>code t. pf_content f = Undecodable code t)
     \<or> (\<exists>t. h_scope_base h = ScopeInvalid t) \<or> (h_scope_base h = ScopeMissing \<and> patch_paths h \<noteq> [])"
  shows "append_patch A D hm opts p h = (h, Inl ReplayHalted)
     \<and> append_batch A D hm expected authorized build h = (h, Inl ReplayHalted)"
proof -
  let ?fs = "patch_paths h"
  obtain ps a where d: "decode_files ?fs = (ps, a)" by force
  obtain sc b where sp: "scope_provenance h ?fs ps = (sc, b)" by force
  have "a \<noteq> None" if "f \<in> set ?fs" "pf_content f = Undecodable code t" for f code t
    using decode_failure [of f ?fs code t] that d by simp
  moreover have "b \<noteq> None" if "(\<exists>t. h_scope_base h = ScopeInvalid t) \<or> (h_scope_base h = ScopeMissing \<and> ?fs \<noteq> [])"
    using that sp by (auto simp: scope_provenance_def)
  ultimately have "a \<noteq> None \<or> b \<noteq> None" using assms by blast
  from replay_failure_degrades [OF d sp this]
  have "gs_replay_status (rp_state (replay_history A D h)) = Degraded" .
  then have "require_writable (replay_history A D h) = Inl ReplayHalted" by (simp add: require_writable_def)
  then show ?thesis by (simp add: append_patch_def append_batch_def check_append_def hbind_def Let_def)
qed

section \<open>What an append writes\<close>

lemma synchronize_files: "synchronize_manifest_scope hm r p h = Inr h' \<Longrightarrow> h_files h' = h_files h \<and> h_scope_base h' = h_scope_base h"
  by (auto simp: synchronize_manifest_scope_def Let_def rbind_eq_Inr split: if_splits)

text \<open>The two ways an append ends: nothing is written, or the admitted candidate is.\<close>

lemma append_cases:
  assumes "append_patch A D hm opts raw h = (h', out)"
  obtains (unwritten) e where "h' = h" and "out = Inl e"
  | (written) p r g where "check_append hm (replay_history A D h) opts raw = Inr ()"
    and "validate_candidate A D (admission_of hm h (replay_history A D h) (ao_authorized_by opts))
      (replay_history A D h) raw = Inr (p, r, g)"
    and "\<not> (ao_discard_on_reject opts \<and> rejected r)"
    and "h_files h' = h_files (write_patch (next_revision h) (p\<lparr>p_admission :=
      (if rejected r then NotAdmitted else Admitted), p_admission_messages := r\<rparr>) h)"
    and "h_scope_base h' = h_scope_base h"
proof -
  let ?c = "replay_history A D h" and ?rq = "admission_of hm h (replay_history A D h) (ao_authorized_by opts)"
  show thesis
  proof (cases "hbind (check_append hm ?c opts raw) (\<lambda>_. raising (validate_candidate A D ?rq ?c raw))")
    case (Inl e)
    then show thesis using assms by (intro unwritten [of e]) (simp_all add: append_patch_def Let_def)
  next
    case (Inr b)
    obtain p r g where b: "b = (p, r, g)" by (cases b)
    have ok: "check_append hm ?c opts raw = Inr ()" and v: "validate_candidate A D ?rq ?c raw = Inr (p, r, g)"
      using Inr by (auto simp: hbind_eq_Inr b raising_def split: sum.splits)
    show thesis
    proof (cases "ao_discard_on_reject opts \<and> rejected r")
      case True
      then show thesis using assms Inr by (intro unwritten [of "PatchRejected r"]) (simp_all add: append_patch_def b Let_def)
    next
      case False
      let ?q = "p\<lparr>p_admission := (if rejected r then NotAdmitted else Admitted), p_admission_messages := r\<rparr>"
      have "h_files h' = h_files (write_patch (next_revision h) ?q h)
          \<and> h_scope_base h' = h_scope_base (write_patch (next_revision h) ?q h)"
        using assms Inr False
        by (auto simp: append_patch_def b Let_def dest: synchronize_files split: option.splits if_splits sum.splits)
      then show thesis using written [OF ok v False] by (simp add: write_patch_def)
    qed
  qed
qed

lemma batch_cases:
  assumes "append_batch A D hm expected authorized build h = (h', out)"
  obtains (unwritten) "h' = h"
  | (written) p r g where "require_writable (replay_history A D h) = Inr ()"
    and "require_writable_home hm (replay_history A D h) None = Inr ()"
    and "prepare_transition A D (admission_of hm h (replay_history A D h) authorized)
      (replay_history A D h) (build (rp_state (replay_history A D h))) None = Inr (p, r, g)"
    and "\<not> rejected r"
    and "h_files h' = h_files (write_patch (next_revision h) (p\<lparr>p_admission :=
      Admitted, p_admission_messages := r\<rparr>) h)"
    and "h_scope_base h' = h_scope_base h"
proof -
  let ?c = "replay_history A D h"
  let ?guard = "hbind (require_writable ?c) (\<lambda>_. hbind (require_writable_home hm ?c None) (\<lambda>_.
      if expected \<noteq> None \<and> expected \<noteq> Some (gs_revision (rp_state ?c)) then Inl (Raised ValueError) else Inr ()))"
  let ?t = "prepare_transition A D (admission_of hm h ?c authorized) ?c (build (rp_state ?c)) None"
  show thesis
  proof (cases "\<exists>p r g. ?guard = Inr () \<and> build (rp_state ?c) \<noteq> [] \<and> ?t = Inr (p, r, g) \<and> \<not> rejected r")
    case False
    then have "h' = h"
      using assms by (auto simp: append_batch_def Let_def split: sum.splits if_splits)
    then show thesis by (rule unwritten)
  next
    case True
    then obtain p r g where g: "?guard = Inr ()" "build (rp_state ?c) \<noteq> []" "?t = Inr (p, r, g)" "\<not> rejected r" by blast
    let ?q = "p\<lparr>p_admission := Admitted, p_admission_messages := r\<rparr>"
    have "h_files h' = h_files (write_patch (next_revision h) ?q h)
        \<and> h_scope_base h' = h_scope_base (write_patch (next_revision h) ?q h)"
      using assms g by (auto simp: append_batch_def Let_def dest: synchronize_files split: sum.splits)
    moreover have "require_writable ?c = Inr ()" "require_writable_home hm ?c None = Inr ()"
      using g(1) by (auto simp: hbind_eq_Inr)
    ultimately show thesis using written g(3,4) by (simp add: write_patch_def)
  qed
qed


section \<open>What the candidate keeps of the source\<close>

definition attribution :: "patch \<Rightarrow> authorized_human option \<times> profile option \<times> string option \<times> string option" where
  "attribution p = (p_authorized_by p, p_profile p, p_task_id p, p_episode_id p)"

lemma bookkeeping_keeps:
  "p_revision (prepare_patch_bookkeeping st p) = p_revision p"
  "p_revision (finalize_patch_bookkeeping p st) = p_revision p"
  "attribution (prepare_patch_bookkeeping st p) = attribution p"
  "attribution (finalize_patch_bookkeeping p st) = attribution p"
  "attribution (p\<lparr>p_revision := rv\<rparr>) = attribution p"
  by (simp_all add: prepare_patch_bookkeeping_def finalize_patch_bookkeeping_def attribution_def)

lemma admit_source_keeps:
  assumes "admit_source A D rq raw st agg = Inr (p, r, g)"
  shows "p_revision p = rq_revision rq \<and> (\<exists>s. stamp_attribution_for_admission (rq_manager rq) raw
      (rq_authorized rq) (rq_target rq) = Inr s \<and> attribution p = attribution s)"
proof -
  obtain s where s: "stamp_attribution_for_admission (rq_manager rq) raw (rq_authorized rq) (rq_target rq) = Inr s"
    using assms by (auto simp: admit_source_def rbind_eq_Inr)
  have "p_revision p = rq_revision rq \<and> attribution p = attribution s"
    using assms by (auto simp: admit_source_def s Let_def bookkeeping_keeps split: if_splits sum.splits)
  with s show ?thesis by blast
qed

lemma admit_sources_revisions:
  assumes "admit_sources A D rq raws st agg ready = Inr srcs" and "\<forall>p \<in> set ready. p_revision p = rv"
    and "rq_revision rq = rv"
  shows "case srcs of Stopped p r \<Rightarrow> p_revision p = rv | Ready ps r \<Rightarrow> \<forall>p \<in> set ps. p_revision p = rv"
  using assms
proof (induction A D rq raws st agg ready rule: admit_sources.induct)
  case (2 A D rq raw raws st agg ready)
  then obtain p r g where a: "admit_source A D rq raw st agg = Inr (p, r, g)" by (auto simp: rbind_eq_Inr)
  have "p_revision p = rv" using admit_source_keeps [OF a] "2.prems"(3) by simp
  then show ?case using 2 a by (cases g) auto
qed auto

lemma combined_attribution: "combined_patch ps ops t = Inr c \<Longrightarrow> attribution c = attribution (hd ps)"
  by (auto simp: combined_patch_def rbind_eq_Inr attribution_def)

lemma prepared_from_first:
  assumes "prepare_validated A D k st ps pre = Inr t"
  shows "p_revision (pt_patch t) = p_revision (hd ps)" "attribution (pt_patch t) = attribution (hd ps)" "ps \<noteq> []"
proof -
  obtain h tr ops final where "check_prepare_inputs st ps pre = Inr h" "combined_patch ps ops tr = Inr (pt_patch t)"
    by (rule prepared_result [OF assms])
  then show "p_revision (pt_patch t) = p_revision (hd ps)" "attribution (pt_patch t) = attribution (hd ps)" "ps \<noteq> []"
    using combined_basic combined_attribution prepare_inputs_ok(1) by blast+
qed

lemma conflict_has_sources: "prepare_validated A D k st ps pre = Inl TransitionConflict \<Longrightarrow> ps \<noteq> []"
  by (auto simp: prepare_validated_def check_prepare_inputs_def)

text \<open>The patch the manager hands back is one of the admitted sources, or made from the first.\<close>

lemma prepare_transition_cases:
  assumes "prepare_transition A D rq c raws pre = Inr (p, r, g)"
  obtains (stopped) "admit_sources A D rq raws (rp_state c) [] [] = Inr (Stopped p r)"
  | (admitted) ps agg where "admit_sources A D rq raws (rp_state c) [] [] = Inr (Ready ps agg)" and "ps \<noteq> []"
    and "p_revision p = p_revision (hd ps)" and "attribution p = attribution (hd ps)"
proof -
  obtain srcs where s: "admit_sources A D rq raws (rp_state c) [] [] = Inr srcs"
    using assms by (auto simp: prepare_transition_def rbind_eq_Inr split: if_splits)
  show thesis
  proof (cases srcs)
    case (Stopped q m)
    then show thesis using assms s stopped by (auto simp: prepare_transition_def split: if_splits)
  next
    case (Ready ps agg)
    let ?h = "case pre of Some h \<Rightarrow> h | None \<Rightarrow> \<lparr>gh_target = MainTarget, gh_revision = gs_revision (rp_state c),
        gh_transition_id = last_transition_id (rp_patches c)\<rparr>"
    let ?t = "prepare_validated A D DEFAULT_MAX_RULE_FIRINGS (rp_state c) ps (Some ?h)"
    show thesis
    proof (cases ?t)
      case (Inl e)
      then have "e = TransitionConflict \<and> p = hd ps"
        using assms s Ready by (auto simp: prepare_transition_def Let_def split: if_splits)
      then show thesis using admitted [of ps agg] s Ready Inl conflict_has_sources by simp
    next
      case (Inr t)
      then have "p = (pt_patch t)\<lparr>p_admission_messages := r\<rparr>"
        using assms s Ready by (auto simp: prepare_transition_def Let_def split: if_splits)
      then show thesis using admitted [of ps agg] s Ready prepared_from_first [OF Inr]
        by (simp add: attribution_def)
    qed
  qed
qed

lemma prepare_transition_revision:
  assumes "prepare_transition A D rq c raws pre = Inr (p, r, g)" shows "p_revision p = rq_revision rq"
  using assms
proof (cases rule: prepare_transition_cases)
  case stopped
  then show ?thesis using admit_sources_revisions [OF stopped] by simp
next
  case (admitted ps agg)
  then show ?thesis using admit_sources_revisions [OF admitted(1)] hd_in_set by fastforce
qed

lemma prepare_transition_attribution:
  assumes "prepare_transition A D rq c [raw] pre = Inr (p, r, g)"
  shows "\<exists>s. stamp_attribution_for_admission (rq_manager rq) raw (rq_authorized rq) (rq_target rq) = Inr s
    \<and> attribution p = attribution s"
proof -
  obtain q m n where a: "admit_source A D rq raw (rp_state c) [] = Inr (q, m, n)"
    using assms by (auto simp: prepare_transition_def rbind_eq_Inr split: if_splits)
  have "attribution p = attribution q"
    using assms by (cases rule: prepare_transition_cases) (use a in \<open>cases n; auto\<close>)+
  with admit_source_keeps [OF a] show ?thesis by simp
qed

lemma validate_candidate_keeps:
  assumes "validate_candidate A D rq c raw = Inr (p, r, g)"
  shows "p_revision p = rq_revision rq \<and> (\<exists>s. stamp_attribution_for_admission (rq_manager rq) raw
      (rq_authorized rq) (rq_target rq) = Inr s \<and> attribution p = attribution s)"
proof (cases "p_kind raw = Identity \<and> p_ops raw = []")
  case True
  then show ?thesis using assms
    by (auto simp: validate_candidate_def rbind_eq_Inr Let_def bookkeeping_keeps split: if_splits)
next
  case False
  then have "prepare_transition A D rq c [raw] None = Inr (p, r, g)"
    using assms unfolding validate_candidate_def if_not_P [OF False] by simp
  then show ?thesis using prepare_transition_revision prepare_transition_attribution by blast
qed


section \<open>The log is numbered and append-only\<close>

definition numbered :: "patch_file list \<Rightarrow> bool" where
  "numbered fs \<longleftrightarrow> sorted_wrt (<) (map pf_revision fs)
     \<and> (\<forall>f \<in> set fs. 1 \<le> pf_revision f \<and> (\<forall>p. pf_content f = Decoded p \<longrightarrow> p_revision p = pf_revision f))"

lemma listed_file: "f \<in> set (patch_paths h) \<longleftrightarrow> f \<in> set (h_files h) \<and> six_digits (pf_revision f)"
  by (simp add: patch_paths_def)

lemma next_revision_fresh:
  shows "1 \<le> next_revision h" "\<forall>f \<in> set (patch_paths h). pf_revision f < next_revision h"
proof -
  let ?fs = "patch_paths h"
  have sorted: "sorted (map pf_revision ?fs)" by (simp add: patch_paths_def)
  have last: "pf_revision f \<le> pf_revision (last ?fs)" if mem: "f \<in> set ?fs" for f
  proof -
    obtain i where i: "i < length ?fs" "?fs ! i = f" using mem by (auto simp: in_set_conv_nth)
    then show ?thesis
      using sorted_nth_mono [OF sorted, of i "length ?fs - 1"]
      by (cases "?fs = []") (auto simp: last_conv_nth)
  qed
  have "0 \<le> pf_revision (last ?fs)" if "?fs \<noteq> []"
    using last_in_set [OF that] listed_file [of "last ?fs" h] by (simp add: six_digits_def)
  then show "1 \<le> next_revision h" by (cases "?fs = []") (simp_all add: next_revision_def)
  show "\<forall>f \<in> set ?fs. pf_revision f < next_revision h"
  proof
    fix f assume mem: "f \<in> set ?fs"
    then have "?fs \<noteq> []" by auto
    then show "pf_revision f < next_revision h" using last [OF mem] by (simp add: next_revision_def)
  qed
qed

text \<open>Below the last six-digit name the next revision is a new file, and it is listed last.\<close>

lemma write_next_patch:
  assumes "next_revision h \<le> 999999"
  shows "h_files (write_patch (next_revision h) p h) = h_files h @ [\<lparr>pf_revision = next_revision h, pf_content = Decoded p\<rparr>]"
proof -
  have "pf_revision f \<noteq> next_revision h" if "f \<in> set (h_files h)" for f
    using next_revision_fresh [of h] listed_file [of f h] that assms by (auto simp: six_digits_def)
  then show ?thesis by (auto simp: write_patch_def filter_id_conv)
qed

lemma insort_key_snoc: "f y \<le> f x \<Longrightarrow> insort_key f y (zs @ [x]) = insort_key f y zs @ [x]"
  by (induction zs) auto

lemma sort_key_snoc: "\<forall>y \<in> set xs. f y \<le> f x \<Longrightarrow> sort_key f (xs @ [x]) = sort_key f xs @ [x]"
  by (induction xs) (simp_all add: insort_key_snoc)

lemma listed_after_write:
  assumes "h_files h' = h_files (write_patch (next_revision h) p h)"
  shows "patch_paths h' = patch_paths h @ (if next_revision h \<le> 999999
    then [\<lparr>pf_revision = next_revision h, pf_content = Decoded p\<rparr>] else [])"
proof (cases "next_revision h \<le> 999999")
  case True
  let ?fs = "filter (\<lambda>f. six_digits (pf_revision f)) (h_files h)"
  let ?new = "\<lparr>pf_revision = next_revision h, pf_content = Decoded p\<rparr>"
  have "six_digits (next_revision h)" using True next_revision_fresh(1) [of h] by (simp add: six_digits_def)
  then have p: "patch_paths h' = sort_key pf_revision (?fs @ [?new])"
    by (simp add: patch_paths_def assms write_next_patch [OF True])
  have "sort_key pf_revision (?fs @ [?new]) = sort_key pf_revision ?fs @ [?new]"
    using next_revision_fresh(2) [of h] listed_file [of _ h] by (intro sort_key_snoc) (auto simp: less_imp_le)
  then show ?thesis using True p by (simp add: patch_paths_def)
next
  case False
  have "filter (\<lambda>f. six_digits (pf_revision f)) (filter (\<lambda>f. pf_revision f \<noteq> next_revision h) (h_files h))
      = filter (\<lambda>f. six_digits (pf_revision f)) (h_files h)"
    using False by (auto simp: six_digits_def intro: filter_cong)
  then show ?thesis using False by (simp add: patch_paths_def assms write_patch_def six_digits_def)
qed

lemma numbered_snoc:
  assumes "numbered (patch_paths h)" and "p_revision p = next_revision h"
  shows "numbered (patch_paths h @ (if next_revision h \<le> 999999
    then [\<lparr>pf_revision = next_revision h, pf_content = Decoded p\<rparr>] else []))"
  using assms next_revision_fresh [of h] by (auto simp: numbered_def sorted_wrt_append)

text \<open>A full log: no report carries the revision that would come next, so no append succeeds.\<close>

lemma decoded_files: "p \<in> set (fst (decode_files fs)) \<Longrightarrow> \<exists>f \<in> set fs. pf_content f = Decoded p"
  by (induction fs) (auto split: file_content.splits)

lemma reported_revisions:
  "fst ` set (mz_reports (replay_patches A D opts ps m)) \<subseteq> fst ` set (mz_reports m) \<union> p_revision ` set ps"
proof (induction ps arbitrary: m)
  case (Cons p ps)
  have put: "fst ` set (mz_reports (put_report p r m)) = insert (p_revision p) (fst ` set (mz_reports m))" for r
    by (simp add: put_report_def dom_update)
  have "fst ` set (mz_reports (fst (replay_accepted A D opts p m))) = insert (p_revision p) (fst ` set (mz_reports m))"
    by (auto simp: replay_accepted_def Let_def put split: sum.splits)
  moreover have "fst ` set (mz_reports (skip_rejected p m)) = insert (p_revision p) (fst ` set (mz_reports m))"
    by (simp add: skip_rejected_def put)
  ultimately show ?case
    using Cons [of "skip_rejected p m"] Cons [of "fst (replay_accepted A D opts p m)"]
    by (cases "replay_accepted A D opts p m") auto
qed simp

lemma replay_reports_listed:
  assumes "numbered (patch_paths h)" and "map_of (mz_reports (rp_result (replay_history A D h))) rv \<noteq> None"
  shows "rv \<le> 999999"
proof -
  obtain ps a where d: "decode_files (patch_paths h) = (ps, a)" by force
  obtain sc b where sp: "scope_provenance h (patch_paths h) ps = (sc, b)" by force
  have reports: "mz_reports (fail_replay x m) = mz_reports m" for x m
    by (simp add: fail_replay_def split: option.splits)
  obtain qs where qs: "set qs \<subseteq> set ps"
      "mz_reports (rp_result (replay_history A D h)) = mz_reports (materialize_patches A D (replay_options_of (h_manifest h) sc) qs)"
    by (rule that [of "if b = None then (case head_chain_failure MainTarget None ps of None \<Rightarrow> ps
        | Some f \<Rightarrow> takeWhile (\<lambda>p. p_revision p \<noteq> rf_revision f) ps) else []"])
      (auto simp: replay_history_def d sp reports Let_def split: option.splits dest: set_takeWhileD)
  have "rv \<in> fst ` set (mz_reports (rp_result (replay_history A D h)))"
    using assms(2) by (metis map_of_eq_None_iff)
  then obtain p where p: "p \<in> set ps" "rv = p_revision p"
    using reported_revisions [of A D "replay_options_of (h_manifest h) sc" qs] qs
    by (fastforce simp: materialize_patches_def replay_start_def Let_def)
  then obtain f where "f \<in> set (patch_paths h)" "pf_content f = Decoded p" using decoded_files [of p "patch_paths h"] d by auto
  then show ?thesis using assms(1) p(2) listed_file by (auto simp: numbered_def six_digits_def)
qed

lemma full_log_refuses:
  assumes "numbered (patch_paths h)" and "999999 < next_revision h"
  shows "snd (append_patch A D hm opts raw h) \<noteq> Inr x"
proof -
  have "map_of (mz_reports (rp_result (replay_history A D (write_patch (next_revision h) q h)))) (next_revision h) = None" for q
  proof (rule ccontr)
    assume "map_of (mz_reports (rp_result (replay_history A D (write_patch (next_revision h) q h)))) (next_revision h) \<noteq> None"
    moreover have "patch_paths (write_patch (next_revision h) q h) = patch_paths h"
      using listed_after_write [OF refl] assms(2) by simp
    ultimately have "next_revision h \<le> 999999" using assms(1) by (intro replay_reports_listed) simp_all
    then show False using assms(2) by simp
  qed
  then show ?thesis by (auto simp: append_patch_def Let_def split: sum.splits)
qed

text \<open>C34: the listed log is append-only and numbered. The log is what \<open>_patch_paths\<close> lists, the patch
  files whose name has exactly six digits. Whatever the outcome, an append or a batch leaves every
  listed file in place and adds at most one, under the next revision; the listed files stay in
  strictly increasing revision order, each holding the patch of its own revision. Once the log is
  full, with revision 999999 listed, neither operation adds anything, and no append returns normally.\<close>

theorem log_stays_numbered:
  assumes "numbered (patch_paths h)" and "h' = fst (append_patch A D hm opts raw h)
      \<or> h' = fst (append_batch A D hm expected authorized build h)"
  shows "numbered (patch_paths h')
     \<and> (\<exists>fs. patch_paths h' = patch_paths h @ fs \<and> length fs \<le> 1
          \<and> (\<forall>f \<in> set fs. pf_revision f = next_revision h \<and> next_revision h \<le> 999999))
     \<and> (999999 < next_revision h \<longrightarrow> patch_paths h' = patch_paths h
          \<and> (\<forall>x. snd (append_patch A D hm opts raw h) \<noteq> Inr x))"
proof -
  have kept: ?thesis if "h' = h"
    using that assms(1) full_log_refuses [OF assms(1)] by auto
  have grown: ?thesis if w: "h_files h' = h_files (write_patch (next_revision h) q h)" and rv: "p_revision q = next_revision h" for q
    using listed_after_write [OF w] numbered_snoc [OF assms(1) rv] full_log_refuses [OF assms(1)] by auto
  obtain g out where a: "append_patch A D hm opts raw h = (g, out)" by force
  obtain g' out' where b: "append_batch A D hm expected authorized build h = (g', out')" by force
  from assms(2) show ?thesis
  proof
    assume h': "h' = fst (append_patch A D hm opts raw h)"
    show ?thesis using a
    proof (cases rule: append_cases)
      case (unwritten e)
      then show ?thesis using kept h' a by simp
    next
      case (written p r u)
      have "p_revision p = next_revision h" using validate_candidate_keeps [OF written(2)] by (simp add: admission_of_def)
      then show ?thesis using grown written(4) h' a by simp
    qed
  next
    assume h': "h' = fst (append_batch A D hm expected authorized build h)"
    show ?thesis using b
    proof (cases rule: batch_cases)
      case unwritten
      then show ?thesis using kept h' b by simp
    next
      case (written p r u)
      have "p_revision p = next_revision h" using prepare_transition_revision [OF written(3)] by (simp add: admission_of_def)
      then show ?thesis using grown written(5) h' b by simp
    qed
  qed
qed

section \<open>Who may write\<close>

text \<open>only the project's own home writes, and only on the state it saw. Whenever an append
  changes the log, the log replayed completely, the canonical identity lives in the space
  this manager expects, or is being claimed for it, and a caller that named a revision named
  the current one.\<close>

theorem append_is_fenced:
  assumes "append_patch A D hm opts raw h = (h', out)" and "h' \<noteq> h"
  shows "gs_replay_status (rp_state (replay_history A D h)) = Complete
     \<and> (\<forall>s. hm_expected_space_id hm = Some s \<longrightarrow>
         (\<exists>i. project_identity_from_replay (replay_history A D h) None = Inr (Some i) \<and> pi_home_space_id i = s)
         \<or> (\<exists>c. project_identity_from_replay (replay_history A D h) None = Inr None
              \<and> ao_allow_identity_claim opts \<and> p_project_identity raw = Some c \<and> pi_home_space_id c = s))
     \<and> (\<forall>e. ao_expected_revision opts = Some e \<longrightarrow> e = gs_revision (rp_state (replay_history A D h)))"
  using assms(1)
proof (cases rule: append_cases)
  case (written p r g)
  let ?c = "replay_history A D h"
  have w: "require_writable ?c = Inr ()"
    and home: "require_writable_home hm ?c (if ao_allow_identity_claim opts then p_project_identity raw else None) = Inr ()"
    and e: "\<forall>e. ao_expected_revision opts = Some e \<longrightarrow> e = gs_revision (rp_state ?c)"
    using written(1) by (auto simp: check_append_def hbind_eq_Inr split: option.splits if_splits)
  have "gs_replay_status (rp_state ?c) = Complete"
    using w by (cases "gs_replay_status (rp_state ?c)") (simp_all add: require_writable_def)
  moreover have "(\<exists>i. project_identity_from_replay ?c None = Inr (Some i) \<and> pi_home_space_id i = s)
      \<or> (\<exists>c. project_identity_from_replay ?c None = Inr None
           \<and> ao_allow_identity_claim opts \<and> p_project_identity raw = Some c \<and> pi_home_space_id c = s)"
    if s: "hm_expected_space_id hm = Some s" for s
    using home s by (auto simp: require_writable_home_def require_expected_home_def hbind_eq_Inr
        split: option.splits if_splits)
  ultimately show ?thesis using e by blast
qed (use assms(2) in blast)

lemma require_applyD:
  "require_apply a p member = Inr d \<Longrightarrow>
     \<exists>h. ta_authorized_by a = Some h \<and> member (ta_project_id a) (ah_user_id h)"
  by (auto simp: require_apply_def split: option.splits if_splits)

lemma canonical_authorizerD: "canonical_authorizer hm h = Inr s \<Longrightarrow> hm_human hm h = Inr s"
  by (auto simp: canonical_authorizer_def split: sum.splits if_splits)

lemma stamp_agent_result:
  assumes "stamp_agent hm p target = Inr s"
  obtains project resolver member i a d who where "hm_project_id hm = Some project"
    and "hm_resolver hm = Some resolver" and "hm_membership hm = Some member"
    and "p_source_operation_id p = Some i" and "resolver project i = Some a" and "ta_operation_id a = i"
    and "ta_project_id a = project" and "ta_apply_target a = target" and "require_apply a p member = Inr d"
    and "canonical_authorizer hm (the (ta_authorized_by a)) = Inr who"
    and "s = with_attribution p (Some who) (Some (da_profile d)) (Some i) (ta_episode_id a)"
proof -
  obtain i where i: "p_source_operation_id p = Some i" "py_strip i \<noteq> []"
    using assms by (cases "p_source_operation_id p") (auto simp: stamp_agent_def split: if_splits)
  obtain project resolver member where m: "hm_project_id hm = Some project" "hm_resolver hm = Some resolver"
    "hm_membership hm = Some member"
    using assms i by (cases "hm_project_id hm"; cases "hm_resolver hm"; cases "hm_membership hm")
      (simp_all add: stamp_agent_def)
  obtain a where a: "resolver project i = Some a"
    using assms i m by (cases "resolver project i") (simp_all add: stamp_agent_def)
  have t: "ta_operation_id a = i" "ta_project_id a = project" "ta_apply_target a = target"
    using assms i m a by (simp_all add: stamp_agent_def split: if_splits)
  obtain d who where "require_apply a p member = Inr d"
    "canonical_authorizer hm (the (ta_authorized_by a)) = Inr who"
    "s = with_attribution p (Some who) (Some (da_profile d)) (Some i) (ta_episode_id a)"
    using assms i m a t by (auto simp: stamp_agent_def rbind_eq_Inr split: if_splits)
  with i m a t show thesis using that by blast
qed

text \<open>C7: no agent patch enters the log without a live authority. With attribution required, a
  patch that is neither a human approval nor an identity record is written only when its task
  resolves in this project, is bound to this target, passes the apply check, and a current
  member authorized it; the written patch carries exactly that member, profile, task and
  episode. It is the file of the next revision, and every other file is kept; up to revision
  999999 that file is a new one.\<close>

theorem agent_appends_are_attributed:
  assumes "append_patch A D hm opts raw h = (h', out)" and "h' \<noteq> h" and "hm_require_attribution hm"
    and "p_kind raw \<notin> {Identity, Approval}"
  shows "\<exists>q project resolver member i a d human who.
     h_files h' = filter (\<lambda>f. pf_revision f \<noteq> next_revision h) (h_files h)
         @ [\<lparr>pf_revision = next_revision h, pf_content = Decoded q\<rparr>]
     \<and> (next_revision h \<le> 999999 \<longrightarrow>
          h_files h' = h_files h @ [\<lparr>pf_revision = next_revision h, pf_content = Decoded q\<rparr>])
     \<and> hm_project_id hm = Some project \<and> hm_resolver hm = Some resolver \<and> hm_membership hm = Some member
     \<and> p_source_operation_id raw = Some i \<and> resolver project i = Some a \<and> ta_operation_id a = i
     \<and> ta_apply_target a = MainTarget \<and> require_apply a raw member = Inr d
     \<and> ta_authorized_by a = Some human \<and> member project (ah_user_id human) \<and> hm_human hm human = Inr who
     \<and> attribution q = (Some who, Some (da_profile d), Some i, ta_episode_id a)"
  using assms(1)
proof (cases rule: append_cases)
  case (written p r g)
  let ?rq = "admission_of hm h (replay_history A D h) (ao_authorized_by opts)"
  obtain s where s: "stamp_attribution_for_admission hm raw (ao_authorized_by opts) MainTarget = Inr s"
    "attribution p = attribution s"
    using validate_candidate_keeps [OF written(2)] by (auto simp: admission_of_def)
  have stamp: "stamp_agent hm raw MainTarget = Inr s"
    using s(1) assms(3,4) by (simp add: stamp_attribution_for_admission_def split: if_splits)
  show ?thesis
  proof (rule stamp_agent_result [OF stamp])
    fix project resolver member i a d who
    assume m: "hm_project_id hm = Some project" "hm_resolver hm = Some resolver" "hm_membership hm = Some member"
      "p_source_operation_id raw = Some i" "resolver project i = Some a" "ta_operation_id a = i"
      "ta_apply_target a = MainTarget" "require_apply a raw member = Inr d"
      and project: "ta_project_id a = project"
      and who: "canonical_authorizer hm (the (ta_authorized_by a)) = Inr who"
      and s': "s = with_attribution raw (Some who) (Some (da_profile d)) (Some i) (ta_episode_id a)"
    obtain human where human: "ta_authorized_by a = Some human" "member project (ah_user_id human)"
      using require_applyD [OF m(8)] project by blast
    have "hm_human hm human = Inr who" using canonical_authorizerD [OF who] human(1) by simp
    moreover have "attribution (p\<lparr>p_admission := x, p_admission_messages := r\<rparr>)
        = (Some who, Some (da_profile d), Some i, ta_episode_id a)" for x
      using s(2) s' by (simp add: attribution_def with_attribution_def)
    moreover let ?q = "p\<lparr>p_admission := (if rejected r then NotAdmitted else Admitted), p_admission_messages := r\<rparr>"
    have "h_files h' = filter (\<lambda>f. pf_revision f \<noteq> next_revision h) (h_files h)
        @ [\<lparr>pf_revision = next_revision h, pf_content = Decoded ?q\<rparr>]"
      using written(4) by (simp add: write_patch_def)
    moreover have "next_revision h \<le> 999999 \<longrightarrow>
        h_files h' = h_files h @ [\<lparr>pf_revision = next_revision h, pf_content = Decoded ?q\<rparr>]"
      using written(4) write_next_patch [of h] by simp
    ultimately show ?thesis using m human by blast
  qed
qed (use assms(2) in blast)


section \<open>A concrete log\<close>

definition sample_manifest :: manifest where
  "sample_manifest = \<lparr>mf_truth_scope = [''repo''], mf_repositories = [''repo''], mf_machines = [],
     mf_default_run_truth_scope = [''repo''], mf_state_repository = ''repo''\<rparr>"

definition sample_log :: history where
  "sample_log = \<lparr>h_files = [], h_scope_base = ScopeBase [''repo''], h_manifest = sample_manifest\<rparr>"

definition sample_task :: task_authority where
  "sample_task = \<lparr>ta_operation_id = ''t'', ta_project_id = ''p'', ta_apply_target = MainTarget,
     ta_authorized_by = Some sample_human,
     ta_dispatch_authority = Some \<lparr>da_profile = Ordinary, da_task_contract = WorkAuto,
       da_scope = \<lparr>ds_run_truth_scope = [''repo''], ds_episode_id = None, ds_chat_scope = Some ProjectChat,
         ds_chat_id = Some ''c'', ds_node_id = None, ds_patch_kind = Some Work, ds_control_node_id = None,
         ds_control_episode_id = None\<rparr>\<rparr>,
     ta_episode_id = None\<rparr>"

definition sample_manager :: history_manager where
  "sample_manager = \<lparr>hm_expected_space_id = None, hm_project_id = Some ''p'', hm_require_attribution = True,
     hm_resolver = Some (\<lambda>_ i. if i = ''t'' then Some sample_task else None),
     hm_membership = Some (\<lambda>_ u. u = ''u''), hm_human = Inr, hm_scope_update = (\<lambda>_ _ _. Inr ())\<rparr>"

definition sample_append_options :: append_options where
  "sample_append_options = \<lparr>ao_raise_on_reject = True, ao_discard_on_reject = True,
     ao_expected_revision = Some 0, ao_allow_identity_claim = False, ao_authorized_by = None\<rparr>"

definition sample_submission :: patch where
  "sample_submission = (sample_agent [CreateNodes [sample_new_blocker]])\<lparr>p_source_operation_id := Some ''t''\<rparr>"

abbreviation sample_append :: "history \<times> (patch \<times> replayed) hres" where
  "sample_append \<equiv> append_patch declared_adapters sample_digests sample_manager sample_append_options
     sample_submission sample_log"

lemma sample_append_writes: "fst sample_append \<noteq> sample_log"
  by code_simp

theorem agent_appends_are_attributed_witness:
  "\<exists>q. h_files (fst sample_append) = [\<lparr>pf_revision = 1, pf_content = Decoded q\<rparr>]
     \<and> p_authorized_by q = Some sample_human \<and> p_task_id q = Some ''t''"
proof -
  have kind: "hm_require_attribution sample_manager" "p_kind sample_submission \<notin> {Identity, Approval}"
    "h_files sample_log = []" "next_revision sample_log = 1"
    by code_simp+
  have split: "sample_append = (fst sample_append, snd sample_append)" by simp
  obtain q project resolver i a human who and d :: dispatch_authority
    where q: "h_files (fst sample_append) = filter (\<lambda>f. pf_revision f \<noteq> next_revision sample_log) (h_files sample_log)
        @ [\<lparr>pf_revision = next_revision sample_log, pf_content = Decoded q\<rparr>]"
    and r: "hm_resolver sample_manager = Some resolver" "p_source_operation_id sample_submission = Some i"
      "resolver project i = Some a" "ta_authorized_by a = Some human" "hm_human sample_manager human = Inr who"
    and at: "attribution q = (Some who, Some (da_profile d), Some i, ta_episode_id a)"
    using agent_appends_are_attributed [OF split sample_append_writes kind(1,2)] by blast
  have i: "i = ''t''" using r(2) by (simp add: sample_submission_def)
  have "a = sample_task" using r(1,3) i by (auto simp: sample_manager_def)
  then have "who = sample_human" using r(4,5) by (simp add: sample_task_def sample_manager_def)
  then show ?thesis using q at i kind(3,4) by (simp add: attribution_def)
qed

theorem append_is_fenced_witness:
  "gs_replay_status (rp_state (replay_history declared_adapters sample_digests sample_log)) = Complete"
proof -
  have "sample_append = (fst sample_append, snd sample_append)" by simp
  from append_is_fenced [OF this sample_append_writes] show ?thesis by blast
qed

theorem log_stays_numbered_witness: "numbered (patch_paths (fst sample_append)) \<and> length (patch_paths (fst sample_append)) = 1"
proof -
  have one: "length (patch_paths (fst sample_append)) = 1" by code_simp
  have "numbered (patch_paths sample_log)" by (simp add: numbered_def sample_log_def patch_paths_def)
  then have "numbered (patch_paths (fst sample_append))"
    by (rule log_stays_numbered [OF _ disjI1 [OF refl], THEN conjunct1])
  then show ?thesis using one by simp
qed

theorem damaged_log_is_read_only_witness:
  "append_patch declared_adapters sample_digests sample_manager sample_append_options sample_submission
     (sample_log\<lparr>h_files := [\<lparr>pf_revision = 1, pf_content = Undecodable ''patch-schema-invalid'' (TAware 0)\<rparr>]\<rparr>)
   = (sample_log\<lparr>h_files := [\<lparr>pf_revision = 1, pf_content = Undecodable ''patch-schema-invalid'' (TAware 0)\<rparr>]\<rparr>,
      Inl ReplayHalted)"
  by (intro damaged_log_is_read_only [THEN conjunct1] disjI1) (simp add: patch_paths_def six_digits_def)

end
