(* ===== verification/RefreshDelta.thy ===== *)
theory RefreshDelta
  imports Replay
begin

text \<open>
  The refresh delta of \<open>history/delta.py\<close>: a bounded index of what happened to the graph since
  the last ingest. The fields a writer set on a payload are recorded by the schema library, so
  they are read through the parameter \<open>F\<close>; the size of the encoded delta is computed from the
  compact JSON the code writes.
\<close>

section \<open>Compact JSON\<close>

datatype json = JNull | JInt int | JStr string | JList "json list" | JDict "(string \<times> json) list"

text \<open>Bytes of one character inside a JSON string: escapes, and UTF-8 above 127.\<close>

definition char_bytes :: "char \<Rightarrow> nat" where
  "char_bytes c = (let n = of_char c :: nat in
     if n = 34 \<or> n = 92 \<or> n \<in> {8, 9, 10, 12, 13} then 2 else if n < 32 then 6 else if n < 128 then 1 else 2)"

definition string_bytes :: "string \<Rightarrow> nat" where
  "string_bytes s = 2 + sum_list (map char_bytes s)"

definition int_bytes :: "int \<Rightarrow> nat" where
  "int_bytes i = (if i < 0 then 1 else 0) + length (nat_digits (nat \<bar>i\<bar>))"

definition commas :: "nat \<Rightarrow> nat" where
  "commas n = n - 1"

fun json_bytes :: "json \<Rightarrow> nat" where
  "json_bytes JNull = 4"
| "json_bytes (JInt i) = int_bytes i"
| "json_bytes (JStr s) = string_bytes s"
| "json_bytes (JList xs) = 2 + commas (length xs) + sum_list (map json_bytes xs)"
| "json_bytes (JDict kvs) = 2 + commas (length kvs)
     + sum_list (map (\<lambda>kv. string_bytes (fst kv) + 1 + json_bytes (snd kv)) kvs)"

section \<open>Entries\<close>

definition REFRESH_DELTA_MAX_ENTRIES :: nat where
  "REFRESH_DELTA_MAX_ENTRIES = 50"

definition REFRESH_DELTA_MAX_BYTES :: nat where
  "REFRESH_DELTA_MAX_BYTES = 16 * 1024"

definition MAX_TITLE_CHARS :: nat where
  "MAX_TITLE_CHARS = 240"

record delta_entry =
  de_category :: string
  de_target_id :: string
  de_target_type :: string
  de_title :: string
  de_revision :: int
  de_author :: author
  de_field_names :: "string list"
  de_previous_standing :: "standing option"
  de_current_standing :: "standing option"
  de_decision :: "string option"

text \<open>The entry constructor: an author is required and the revision is not negative.\<close>

definition make_entry ::
  "string \<Rightarrow> string \<Rightarrow> string \<Rightarrow> string \<Rightarrow> int \<Rightarrow> author option \<Rightarrow> string list \<Rightarrow> standing option
     \<Rightarrow> standing option \<Rightarrow> string option \<Rightarrow> delta_entry res" where
  "make_entry category target_id target_type title rv who fs previous current decision =
     (case who of
        None \<Rightarrow> Inl ValidationError
      | Some a \<Rightarrow>
          if rv < 0 \<or> length title > MAX_TITLE_CHARS
             \<or> decision \<notin> {None, Some ''approved'', Some ''rejected'', Some ''withdrawn'', Some ''resolved'',
                 Some ''dismissed''} then Inl ValidationError
          else Inr \<lparr>de_category = category, de_target_id = target_id, de_target_type = target_type,
            de_title = title, de_revision = rv, de_author = a, de_field_names = fs,
            de_previous_standing = previous, de_current_standing = current, de_decision = decision\<rparr>)"

definition bounded_title :: "string \<Rightarrow> string" where
  "bounded_title t = take MAX_TITLE_CHARS t"

definition type_or_node :: "project_node option \<Rightarrow> string" where
  "type_or_node n = (case n of Some m \<Rightarrow> n_type m | None \<Rightarrow> ''node'')"

definition title_or_empty :: "project_node option \<Rightarrow> string" where
  "title_or_empty n = (case n of Some m \<Rightarrow> n_title m | None \<Rightarrow> [])"

record fields_set =
  fs_update :: "node_update \<Rightarrow> string list"
  fs_resolution :: "proposal_resolution \<Rightarrow> string list"
  fs_withdrawal :: "proposal_withdrawal \<Rightarrow> string list"
  fs_edge :: "new_edge \<Rightarrow> string list"
  fs_ambiguity :: "new_ambiguity \<Rightarrow> string list"
  fs_term :: "new_glossary_term \<Rightarrow> string list"

section \<open>Standing transitions\<close>

fun nodes_reset_by_operation :: "graph_op \<Rightarrow> string list" where
  "nodes_reset_by_operation (UpdateNodes us) = map nu_id us"
| "nodes_reset_by_operation (SupersedeNodes ns) = map sn_id ns"
| "nodes_reset_by_operation (MergeNodes ms) = map nm_duplicate ms"
| "nodes_reset_by_operation _ = []"

definition standing_entry ::
  "graph_state \<Rightarrow> patch \<Rightarrow> string \<Rightarrow> standing \<Rightarrow> standing \<Rightarrow> delta_entry res" where
  "standing_entry st p i previous current = (let n = dget (gs_nodes st) i in
     make_entry ''standing_transition'' i (type_or_node n) (bounded_title (title_or_empty n)) (p_revision p)
       (p_author p) [''standing''] (Some previous) (Some current) None)"

type_synonym standings = "standing dict \<times> delta_entry list"

definition tracked_standing :: "standing dict \<Rightarrow> string \<Rightarrow> standing" where
  "tracked_standing d i = (case dget d i of Some s \<Rightarrow> s | None \<Rightarrow> Asserted)"

definition move_standing ::
  "graph_state \<Rightarrow> patch \<Rightarrow> standing \<Rightarrow> string \<Rightarrow> standings \<Rightarrow> standings res" where
  "move_standing st p current i s = (let previous = tracked_standing (fst s) i in
     rbind (if previous = current then Inr [] else rbind (standing_entry st p i previous current) (\<lambda>e. Inr [e])) (\<lambda>es.
     Inr (dset i current (fst s), snd s @ es)))"

definition standing_operation ::
  "graph_state \<Rightarrow> patch \<times> graph_op \<Rightarrow> standings \<Rightarrow> standings res" where
  "standing_operation st po s = (case snd po of
       CreateNodes ns \<Rightarrow>
         Inr (foldl (\<lambda>d c. dset (n_id (cn_node c)) (n_standing (cn_node c)) d) (fst s) ns, snd s)
     | SetStanding i sd \<Rightarrow> move_standing st (fst po) sd i s
     | op \<Rightarrow> if p_kind (fst po) = Approval then Inr s
         else rfold (move_standing st (fst po) Asserted) (nodes_reset_by_operation op) s)"

definition standing_transition_entries :: "patch list \<Rightarrow> graph_state \<Rightarrow> delta_entry list res" where
  "standing_transition_entries ps st =
     rbind (rfold (standing_operation st) (source_actions ps) ([], [])) (\<lambda>s. Inr (snd s))"

definition contested_entry :: "delta_entry list \<Rightarrow> project_node \<Rightarrow> delta_entry res" where
  "contested_entry transitions n =
    (let t = find (\<lambda>e. de_target_id e = n_id n \<and> de_current_standing e = Some Contested) (rev transitions) in
     make_entry ''current_contested'' (n_id n) (n_type n) (bounded_title (n_title n))
       (case t of Some e \<Rightarrow> de_revision e | None \<Rightarrow> n_updated_rev n)
       (Some (case t of Some e \<Rightarrow> de_author e | None \<Rightarrow> Human)) [''standing'']
       (case t of Some e \<Rightarrow> de_previous_standing e | None \<Rightarrow> None) (Some (n_standing n)) None)"

definition current_contested_entries :: "graph_state \<Rightarrow> delta_entry list \<Rightarrow> delta_entry list res" where
  "current_contested_entries st transitions =
     rmap (contested_entry transitions)
       (filter (\<lambda>n. n_standing n = Contested) (sort_key n_id (dvalues (gs_nodes st))))"


section \<open>Recent events\<close>

definition node_entry ::
  "graph_state \<Rightarrow> patch \<Rightarrow> string \<Rightarrow> string \<Rightarrow> string list \<Rightarrow> delta_entry res" where
  "node_entry st p category i fs = (let n = dget (gs_nodes st) i in
     make_entry category i (type_or_node n) (bounded_title (title_or_empty n)) (p_revision p) (p_author p) fs
       None (map_option n_standing n) None)"

definition proposal_title :: "graph_state \<Rightarrow> string \<Rightarrow> string" where
  "proposal_title st i = (case dget (gs_proposals st) i of Some q \<Rightarrow> pr_title q | None \<Rightarrow> [])"

definition proposal_status_name :: "proposal_status \<Rightarrow> string" where
  "proposal_status_name s = (case s of Pending \<Rightarrow> ''pending'' | Approved \<Rightarrow> ''approved''
     | Rejected \<Rightarrow> ''rejected'' | Withdrawn \<Rightarrow> ''withdrawn'')"

text \<open>The first half of the loop body: the human-authority events.\<close>

definition decision_entries :: "fields_set \<Rightarrow> graph_state \<Rightarrow> patch \<Rightarrow> graph_op \<Rightarrow> delta_entry list res" where
  "decision_entries F st p op = (case op of
       UpdateNodes us \<Rightarrow>
         if p_kind p \<noteq> Approval then Inr []
         else rmap (\<lambda>u. node_entry st p ''human_prose_edit'' (nu_id u) (sort (map fst (nu_changes u))))
           (filter (\<lambda>u. ''base_updated_rev'' \<in> set (fs_update F u)) us)
     | ResolveProposals rs \<Rightarrow> rmap (\<lambda>r. make_entry ''proposal_decision'' (pres_id r) ''proposal''
           (bounded_title (proposal_title st (pres_id r))) (p_revision p) (p_author p)
           (sorted_set (''status'' # (if ''reason'' \<in> set (fs_resolution F r) then [''rejection_reason''] else [])))
           None None (Some (proposal_status_name (pres_status r)))) rs
     | WithdrawProposals ws \<Rightarrow> rmap (\<lambda>w. make_entry ''proposal_decision'' (pw_id w) ''proposal''
           (bounded_title (proposal_title st (pw_id w))) (p_revision p) (p_author p)
           (sorted_set (''status'' # (if ''reason'' \<in> set (fs_withdrawal F w) then [''resolution_reason''] else [])))
           None None (Some ''withdrawn'')) ws
     | ResolveAmbiguities rs \<Rightarrow>
         if p_author p \<noteq> Some Human then Inr []
         else rmap (\<lambda>r. make_entry ''ambiguity_decision'' (ar_id r) ''ambiguity'' [] (p_revision p) (p_author p)
           [''status''] None None (Some (ar_status r))) rs
     | RemoveNodes ids \<Rightarrow> rmap (\<lambda>i. make_entry ''node_removal'' i ''node'' [] (p_revision p) (p_author p)
           [''removed''] None None None) ids
     | _ \<Rightarrow> Inr [])"

type_synonym chat_target = "string \<times> string \<times> string \<times> string list"

definition chat_node :: "graph_state \<Rightarrow> string \<Rightarrow> string list \<Rightarrow> chat_target" where
  "chat_node st i fs = (let n = dget (gs_nodes st) i in (i, type_or_node n, title_or_empty n, fs))"

fun chat_targets :: "fields_set \<Rightarrow> graph_state \<Rightarrow> graph_op \<Rightarrow> chat_target list" where
  "chat_targets F st (CreateNodes ns) = map (\<lambda>c. (n_id (cn_node c), n_type (cn_node c), n_title (cn_node c),
     sorted_set (cn_fields_set c))) ns"
| "chat_targets F st (UpdateNodes us) = map (\<lambda>u. chat_node st (nu_id u) (sort (map fst (nu_changes u)))) us"
| "chat_targets F st (CreateEdges es) = map (\<lambda>e. (case ne_id e of
       Some (Some i) \<Rightarrow> if i = [] then derived_edge_id (ne_source e) (ne_relation e) (ne_target e) else i
     | _ \<Rightarrow> derived_edge_id (ne_source e) (ne_relation e) (ne_target e),
     ''edge'', ne_relation e, sorted_set (fs_edge F e))) es"
| "chat_targets F st (RemoveEdges ids) = map (\<lambda>i. (i, ''edge'', [], [''removed''])) ids"
| "chat_targets F st (SupersedeNodes ns) = map (\<lambda>x. chat_node st (sn_id x) [''status'']) ns"
| "chat_targets F st (MergeNodes ms) = map (\<lambda>x. chat_node st (nm_duplicate x) [''status'']) ms"
| "chat_targets F st (CreateAmbiguities as) = map (\<lambda>a. (na_id a, ''ambiguity'', [], sorted_set (fs_ambiguity F a))) as"
| "chat_targets F st (ResolveAmbiguities rs) = map (\<lambda>r. (ar_id r, ''ambiguity'', [], [''status''])) rs"
| "chat_targets F st (CreateProposals qs) = map (\<lambda>q. (pr_id q, ''proposal'', pr_title q, sorted_set (pr_fields_set q))) qs"
| "chat_targets F st (UpsertGlossary ts) = map (\<lambda>t. (ng_term t, ''glossary_term'', ng_term t, sorted_set (fs_term F t))) ts"
| "chat_targets F st (SetProjectTruthScope sc r) = [(''project_truth_scope'', ''project'', [], [''truth_scope''])]"
| "chat_targets F st _ = []"

definition chat_entry :: "graph_state \<Rightarrow> patch \<Rightarrow> chat_target \<Rightarrow> delta_entry res" where
  "chat_entry st p t = (case t of (i, ty, title, fs) \<Rightarrow>
     make_entry ''chat_graph_update'' i ty (bounded_title title) (p_revision p) (p_author p) fs None
       (map_option n_standing (dget (gs_nodes st) i)) None)"

definition chat_entries :: "fields_set \<Rightarrow> patch \<Rightarrow> graph_op \<Rightarrow> graph_state \<Rightarrow> delta_entry list res" where
  "chat_entries F p op st = rmap (chat_entry st p) (filter (\<lambda>t. fst t \<noteq> []) (chat_targets F st op))"

definition operation_entries ::
  "fields_set \<Rightarrow> graph_state \<Rightarrow> patch \<times> graph_op \<Rightarrow> delta_entry list res" where
  "operation_entries F st po = (case po of (p, op) \<Rightarrow>
     rbind (decision_entries F st p op) (\<lambda>es.
     rbind (if p_kind p \<in> {Chat, Work} \<and> (case op of RemoveNodes _ \<Rightarrow> False | _ \<Rightarrow> True) then chat_entries F p op st else Inr [])
       (\<lambda>cs. Inr (es @ cs))))"

definition entry_order :: "delta_entry \<Rightarrow> int \<times> string \<times> string \<times> string \<times> string list" where
  "entry_order e = (- de_revision e, de_category e, de_target_type e, de_target_id e, de_field_names e)"

definition recent_entries :: "fields_set \<Rightarrow> patch list \<Rightarrow> graph_state \<Rightarrow> delta_entry list res" where
  "recent_entries F ps st =
     rbind (rconcat (operation_entries F st) (source_actions ps)) (\<lambda>es. Inr (sort_key entry_order es))"

section \<open>The delta\<close>

fun join_commas :: "string list \<Rightarrow> string" where
  "join_commas [] = []"
| "join_commas [s] = s"
| "join_commas (s # ss) = s @ '','' @ join_commas ss"

definition entry_identity :: "delta_entry \<Rightarrow> string \<times> int \<times> string" where
  "entry_identity e = (de_target_id e, de_revision e, join_commas (de_field_names e))"

definition omitted_revision_range :: "delta_entry list \<Rightarrow> (int \<times> int) option" where
  "omitted_revision_range es = (if es = [] then None
     else Some (Min (set (map de_revision es)), Max (set (map de_revision es))))"

definition json_opt :: "string option \<Rightarrow> json" where
  "json_opt s = (case s of None \<Rightarrow> JNull | Some x \<Rightarrow> JStr x)"

definition author_name :: "author \<Rightarrow> string" where
  "author_name a = (case a of Agent \<Rightarrow> ''agent'' | Human \<Rightarrow> ''human'')"

definition entry_json :: "delta_entry \<Rightarrow> json" where
  "entry_json e = JDict [(''author'', JStr (author_name (de_author e))), (''category'', JStr (de_category e)),
     (''current_standing'', json_opt (map_option standing_name (de_current_standing e))),
     (''decision'', json_opt (de_decision e)), (''field_names'', JList (map JStr (de_field_names e))),
     (''previous_standing'', json_opt (map_option standing_name (de_previous_standing e))),
     (''revision'', JInt (de_revision e)), (''target_id'', JStr (de_target_id e)),
     (''target_type'', JStr (de_target_type e)), (''title'', JStr (de_title e))]"

record refresh_delta =
  rd_after_revision :: int
  rd_through_revision :: int
  rd_entries :: "delta_entry list"
  rd_omitted_count :: int
  rd_omitted_from_revision :: "int option"
  rd_omitted_through_revision :: "int option"

definition json_int_opt :: "int option \<Rightarrow> json" where
  "json_int_opt i = (case i of None \<Rightarrow> JNull | Some x \<Rightarrow> JInt x)"

text \<open>The document is written with sorted keys, by the model and by the candidate check alike.\<close>

definition encoded_size :: "refresh_delta \<Rightarrow> nat" where
  "encoded_size d = json_bytes (JDict [(''after_revision'', JInt (rd_after_revision d)),
     (''entries'', JList (map entry_json (rd_entries d))), (''omitted_count'', JInt (rd_omitted_count d)),
     (''omitted_from_revision'', json_int_opt (rd_omitted_from_revision d)),
     (''omitted_through_revision'', json_int_opt (rd_omitted_through_revision d)),
     (''through_revision'', JInt (rd_through_revision d))])"

definition delta_document :: "int \<Rightarrow> int \<Rightarrow> delta_entry list \<Rightarrow> delta_entry list \<Rightarrow> refresh_delta" where
  "delta_document after through selected omitted = \<lparr>rd_after_revision = after, rd_through_revision = through,
     rd_entries = selected, rd_omitted_count = int (length omitted),
     rd_omitted_from_revision = map_option fst (omitted_revision_range omitted),
     rd_omitted_through_revision = map_option snd (omitted_revision_range omitted)\<rparr>"

text \<open>\<open>RefreshDelta\<close>: the field bounds and \<open>enforce_bounds\<close>.\<close>

definition nonnegative :: "int option \<Rightarrow> bool" where
  "nonnegative i \<longleftrightarrow> (case i of None \<Rightarrow> True | Some x \<Rightarrow> 0 \<le> x)"

definition refresh_delta_model :: "refresh_delta \<Rightarrow> refresh_delta res" where
  "refresh_delta_model d =
    (if rd_after_revision d < 0 \<or> rd_through_revision d < 0
        \<or> length (rd_entries d) > REFRESH_DELTA_MAX_ENTRIES \<or> rd_omitted_count d < 0
        \<or> \<not> nonnegative (rd_omitted_from_revision d) \<or> \<not> nonnegative (rd_omitted_through_revision d)
        \<or> rd_through_revision d < rd_after_revision d
        \<or> encoded_size d > REFRESH_DELTA_MAX_BYTES then Inl ValidationError
     else Inr d)"

text \<open>The selection loop: \<open>rest\<close> are the candidates not looked at yet.\<close>

fun select_entries :: "int \<Rightarrow> int \<Rightarrow> delta_entry list \<Rightarrow> delta_entry list \<Rightarrow> delta_entry list \<times> delta_entry list" where
  "select_entries after through selected [] = (selected, [])"
| "select_entries after through selected (e # rest) =
    (if length selected \<ge> REFRESH_DELTA_MAX_ENTRIES
        \<or> encoded_size (delta_document after through (selected @ [e]) rest) > REFRESH_DELTA_MAX_BYTES
     then (selected, e # rest)
     else select_entries after through (selected @ [e]) rest)"

definition accepted_patches :: "patch list \<Rightarrow> materialization \<Rightarrow> patch list" where
  "accepted_patches ps m = filter (\<lambda>p. case map_of (mz_reports m) (p_revision p) of
       None \<Rightarrow> False | Some r \<Rightarrow> \<not> rejected r) (sort_key p_revision ps)"

definition delta_baseline :: "patch list \<Rightarrow> int" where
  "delta_baseline ps = (let rs = map p_revision (filter (\<lambda>p. p_kind p \<in> {Seed, Refresh}) ps) in
     if rs = [] then 0 else Max (set rs))"

definition delta_candidates :: "fields_set \<Rightarrow> patch list \<Rightarrow> graph_state \<Rightarrow> delta_entry list res" where
  "delta_candidates F accepted st =
    (let baseline = delta_baseline accepted in
     rbind (standing_transition_entries accepted st) (\<lambda>transitions.
     rbind (current_contested_entries st transitions) (\<lambda>mandatory.
     rbind (recent_entries F (filter (\<lambda>p. p_revision p > baseline) accepted) st) (\<lambda>events.
     let recent = sort_key entry_order (filter (\<lambda>e. de_revision e > baseline) transitions @ events) in
     Inr (mandatory @ filter (\<lambda>e. entry_identity e \<notin> set (map entry_identity mandatory)) recent)))))"

definition build_refresh_delta :: "fields_set \<Rightarrow> patch list \<Rightarrow> materialization \<Rightarrow> refresh_delta res" where
  "build_refresh_delta F ps m =
    (let accepted = accepted_patches ps m; st = mz_state m in
     rbind (delta_candidates F accepted st) (\<lambda>candidates.
     case select_entries (delta_baseline accepted) (gs_revision st) [] candidates of
       (selected, omitted) \<Rightarrow>
         refresh_delta_model (delta_document (delta_baseline accepted) (gs_revision st) selected omitted)))"

end
