(* ===== verification/DeltaProps.thy ===== *)
theory DeltaProps
  imports RefreshDelta AdmissionSamples
begin

text \<open>The refresh delta is always within its budget, contested nodes first.\<close>

section \<open>Computations that succeed\<close>

definition yields :: "('a \<Rightarrow> bool) \<Rightarrow> 'a res \<Rightarrow> bool" where
  "yields P r \<longleftrightarrow> (\<exists>x. r = Inr x \<and> P x)"

lemma yields_Inr [simp]: "yields P (Inr x) = P x"
  by (simp add: yields_def)

lemma yields_bind: "yields P r \<Longrightarrow> (\<And>x. P x \<Longrightarrow> yields Q (f x)) \<Longrightarrow> yields Q (rbind r f)"
  by (auto simp: yields_def)

lemma yields_rmap: "(\<And>x. x \<in> set xs \<Longrightarrow> yields P (f x)) \<Longrightarrow> yields (list_all P) (rmap f xs)"
  by (induction xs) (fastforce simp: yields_def)+

lemma yields_rconcat: "(\<And>x. x \<in> set xs \<Longrightarrow> yields (list_all P) (f x)) \<Longrightarrow> yields (list_all P) (rconcat f xs)"
  by (induction xs) (fastforce simp: yields_def)+

lemma yields_rfold:
  "(\<And>x s. x \<in> set xs \<Longrightarrow> P s \<Longrightarrow> yields P (f x s)) \<Longrightarrow> P s \<Longrightarrow> yields P (rfold f xs s)"
proof (induction xs arbitrary: s)
  case (Cons x xs)
  then show ?case by (auto intro!: yields_bind [of P "f x s"])
qed simp

section \<open>Entries within the revisions of the graph\<close>

definition dated :: "int \<Rightarrow> delta_entry \<Rightarrow> bool" where
  "dated hi e \<longleftrightarrow> 0 \<le> de_revision e \<and> de_revision e \<le> hi"

text \<open>A patch of the log as its loader types it: within the graph's revision, with an author
  whenever it has operations, and with the resolution statuses the payload classes allow.\<close>

fun well_typed_op :: "graph_op \<Rightarrow> bool" where
  "well_typed_op (ResolveProposals rs) = list_all (\<lambda>r. pres_status r \<noteq> Pending) rs"
| "well_typed_op (ResolveAmbiguities rs) = list_all (\<lambda>r. ar_status r \<in> {''resolved'', ''dismissed''}) rs"
| "well_typed_op _ = True"

definition logged :: "int \<Rightarrow> patch \<Rightarrow> bool" where
  "logged hi p \<longleftrightarrow> 0 \<le> p_revision p \<and> p_revision p \<le> hi \<and> (p_ops p \<noteq> [] \<longrightarrow> p_author p \<noteq> None)
     \<and> list_all well_typed_op (p_ops p)"

definition logged_action :: "int \<Rightarrow> patch \<times> graph_op \<Rightarrow> bool" where
  "logged_action hi po \<longleftrightarrow> 0 \<le> p_revision (fst po) \<and> p_revision (fst po) \<le> hi
     \<and> (\<exists>a. p_author (fst po) = Some a) \<and> well_typed_op (snd po)"

lemma logged_actions: "\<forall>p \<in> set ps. logged hi p \<Longrightarrow> po \<in> set (source_actions ps) \<Longrightarrow> logged_action hi po"
  by (fastforce simp: logged_def logged_action_def source_actions_def list_all_iff)

lemma make_entry_dated:
  assumes "0 \<le> rv" and "rv \<le> hi" and "length t \<le> MAX_TITLE_CHARS"
    and "d \<in> {None, Some ''approved'', Some ''rejected'', Some ''withdrawn'', Some ''resolved'', Some ''dismissed''}"
  shows "yields (dated hi) (make_entry c i ty t rv (Some a) fs pr cu d)"
  using assms by (auto simp: make_entry_def yields_def dated_def)

lemma bounded_title_length: "length (bounded_title t) \<le> MAX_TITLE_CHARS" "length [] \<le> MAX_TITLE_CHARS"
  by (simp_all add: bounded_title_def)

lemma move_standing_dated:
  assumes "logged_action hi (p, op)" and "list_all (dated hi) (snd s)"
  shows "yields (\<lambda>s. list_all (dated hi) (snd s)) (move_standing st p c i s)"
proof -
  obtain a where "p_author p = Some a" "0 \<le> p_revision p" "p_revision p \<le> hi"
    using assms(1) by (auto simp: logged_action_def)
  then have entry: "yields (dated hi) (standing_entry st p i b c)" for b
    by (simp add: standing_entry_def Let_def make_entry_dated bounded_title_length)
  show ?thesis unfolding move_standing_def Let_def
  proof (rule yields_bind)
    show "yields (list_all (dated hi)) (if tracked_standing (fst s) i = c then Inr []
        else rbind (standing_entry st p i (tracked_standing (fst s) i) c) (\<lambda>e. Inr [e]))"
      by (auto intro!: yields_bind [OF entry])
  qed (use assms(2) in simp)
qed

lemma standing_operation_dated:
  assumes "logged_action hi po" and "list_all (dated hi) (snd s)"
  shows "yields (\<lambda>s. list_all (dated hi) (snd s)) (standing_operation st po s)"
proof -
  obtain p op where po: "po = (p, op)" by (cases po)
  have "yields (\<lambda>s. list_all (dated hi) (snd s)) (rfold (move_standing st p Asserted) xs s)" for xs
    using assms move_standing_dated unfolding po by (intro yields_rfold) blast+
  moreover have "yields (\<lambda>s. list_all (dated hi) (snd s)) (move_standing st p c i s)" for c i
    using assms move_standing_dated unfolding po by blast
  ultimately show ?thesis using assms(2) by (cases op) (simp_all add: standing_operation_def po)
qed

lemma transitions_dated:
  assumes "\<forall>p \<in> set ps. logged hi p"
  shows "yields (list_all (dated hi)) (standing_transition_entries ps st)"
  unfolding standing_transition_entries_def
proof (rule yields_bind)
  show "yields (\<lambda>s. list_all (dated hi) (snd s)) (rfold (standing_operation st) (source_actions ps) ([], []))"
    using standing_operation_dated logged_actions [OF assms] by (intro yields_rfold) auto
qed simp

lemma contested_dated:
  assumes "list_all (dated hi) ts" and "\<forall>n \<in> set (dvalues (gs_nodes st)). 0 \<le> n_updated_rev n \<and> n_updated_rev n \<le> hi"
  shows "yields (list_all (dated hi)) (current_contested_entries st ts)"
  unfolding current_contested_entries_def
proof (rule yields_rmap)
  fix n assume "n \<in> set (filter (\<lambda>n. n_standing n = Contested) (sort_key n_id (dvalues (gs_nodes st))))"
  then have n: "0 \<le> n_updated_rev n \<and> n_updated_rev n \<le> hi" using assms(2) by simp
  have "dated hi e" if "find P (rev ts) = Some e" for e P
    using that assms(1) by (auto simp: find_Some_iff list_all_iff in_set_conv_nth)
      (metis length_rev nth_mem set_rev)
  then show "yields (dated hi) (contested_entry ts n)"
    using n by (auto simp: contested_entry_def Let_def dated_def bounded_title_length
        intro!: make_entry_dated split: option.splits)
qed


lemma operation_entries_dated:
  assumes "logged_action hi po" shows "yields (list_all (dated hi)) (operation_entries F st po)"
proof -
  obtain p op where po: "po = (p, op)" by (cases po)
  obtain a where p: "p_author p = Some a" "0 \<le> p_revision p" "p_revision p \<le> hi" "well_typed_op op"
    using assms by (auto simp: logged_action_def po)
  note entry = make_entry_dated [OF p(2,3)]
  have status: "Some (proposal_status_name x) \<in> {None, Some ''approved'', Some ''rejected'', Some ''withdrawn'',
      Some ''resolved'', Some ''dismissed''}" if "x \<noteq> Pending" for x
    using that by (cases x) (simp_all add: proposal_status_name_def)
  have "yields (list_all (dated hi)) (decision_entries F st p op)"
  proof (cases op)
    case (ResolveProposals rs)
    then show ?thesis using p(1,4) status
      by (auto simp: decision_entries_def list_all_iff intro!: yields_rmap entry bounded_title_length)
  next
    case (ResolveAmbiguities rs)
    then show ?thesis using p(1,4)
      by (auto simp: decision_entries_def list_all_iff intro!: yields_rmap entry bounded_title_length)
  qed (use p(1) in \<open>auto simp: decision_entries_def node_entry_def Let_def
        intro!: yields_rmap entry bounded_title_length\<close>)
  moreover have "yields (list_all (dated hi)) (chat_entries F p op st)"
    using p(1) by (auto simp: chat_entries_def chat_entry_def intro!: yields_rmap entry bounded_title_length)
  ultimately show ?thesis
    by (auto simp: operation_entries_def po yields_def)
qed

lemma recent_dated:
  assumes "\<forall>p \<in> set ps. logged hi p" shows "yields (list_all (dated hi)) (recent_entries F ps st)"
  unfolding recent_entries_def
proof (rule yields_bind)
  show "yields (list_all (dated hi)) (rconcat (operation_entries F st) (source_actions ps))"
    using operation_entries_dated logged_actions [OF assms] by (intro yields_rconcat) blast
qed (simp add: list_all_iff)

lemma candidates_dated:
  assumes "\<forall>p \<in> set ps. logged hi p"
    and "\<forall>n \<in> set (dvalues (gs_nodes st)). 0 \<le> n_updated_rev n \<and> n_updated_rev n \<le> hi"
  shows "yields (list_all (dated hi)) (delta_candidates F ps st)"
  unfolding delta_candidates_def Let_def
proof (rule yields_bind [OF transitions_dated [OF assms(1)]])
  fix ts assume ts: "list_all (dated hi) ts"
  show "yields (list_all (dated hi)) (rbind (current_contested_entries st ts) (\<lambda>mandatory.
      rbind (recent_entries F (filter (\<lambda>p. p_revision p > delta_baseline ps) ps) st) (\<lambda>events.
      Inr (mandatory @ filter (\<lambda>e. entry_identity e \<notin> set (map entry_identity mandatory))
        (sort_key entry_order (filter (\<lambda>e. de_revision e > delta_baseline ps) ts @ events))))))"
    using ts assms(1)
    by (intro yields_bind [OF contested_dated [OF ts assms(2)]] yields_bind [OF recent_dated [of _ hi]])
       (auto simp: list_all_iff)
qed

section \<open>Contested nodes first\<close>

text \<open>Every result of a computation, where it has one, satisfies the predicate.\<close>

definition results :: "('a \<Rightarrow> bool) \<Rightarrow> 'a res \<Rightarrow> bool" where
  "results P r \<longleftrightarrow> (\<forall>x. r = Inr x \<longrightarrow> P x)"

lemma results_bind: "results P r \<Longrightarrow> (\<And>x. P x \<Longrightarrow> results Q (f x)) \<Longrightarrow> results Q (rbind r f)"
  by (auto simp: results_def rbind_eq_Inr)

lemma results_Inr [simp]: "results P (Inr x) = P x"
  by (simp add: results_def)

lemma results_rmap: "(\<And>x. x \<in> set xs \<Longrightarrow> results P (f x)) \<Longrightarrow> results (list_all P) (rmap f xs)"
proof (induction xs)
  case (Cons x xs)
  have "results P (f x)" "results (list_all P) (rmap f xs)" using Cons by simp_all
  then show ?case by (auto simp: results_def rbind_eq_Inr)
qed simp

lemma results_rconcat: "(\<And>x. x \<in> set xs \<Longrightarrow> results (list_all P) (f x)) \<Longrightarrow> results (list_all P) (rconcat f xs)"
proof (induction xs)
  case (Cons x xs)
  have "results (list_all P) (f x)" "results (list_all P) (rconcat f xs)" using Cons by simp_all
  then show ?case by (auto simp: results_def rbind_eq_Inr)
qed simp

lemma results_rfold: "(\<And>x s. P s \<Longrightarrow> results P (f x s)) \<Longrightarrow> P s \<Longrightarrow> results P (rfold f xs s)"
proof (induction xs arbitrary: s)
  case (Cons x xs)
  then show ?case by (auto intro!: results_bind [of P "f x s"])
qed simp

definition uncontested :: "delta_entry \<Rightarrow> bool" where
  "uncontested e \<longleftrightarrow> de_category e \<noteq> ''current_contested''"

lemma make_entry_uncontested:
  "c \<noteq> ''current_contested'' \<Longrightarrow> results uncontested (make_entry c i ty t rv who fs pr cu d)"
  by (auto simp: make_entry_def results_def uncontested_def split: option.splits)

lemma transitions_uncontested: "results (list_all uncontested) (standing_transition_entries ps st)"
proof -
  let ?P = "\<lambda>s :: standings. list_all uncontested (snd s)"
  have move: "results ?P (move_standing st p c i s)" if "?P s" for p c i s
    unfolding move_standing_def Let_def
  proof (rule results_bind)
    show "results (list_all uncontested) (if tracked_standing (fst s) i = c then Inr []
        else rbind (standing_entry st p i (tracked_standing (fst s) i) c) (\<lambda>e. Inr [e]))"
      unfolding standing_entry_def Let_def by (auto intro!: results_bind [OF make_entry_uncontested])
  qed (use that in simp)
  have "results ?P (standing_operation st po s)" if "?P s" for po s
  proof (cases "snd po")
    case (CreateNodes ns)
    then show ?thesis using that by (simp add: standing_operation_def)
  next
    case (SetStanding i sd)
    then show ?thesis using move [OF that] by (simp add: standing_operation_def)
  qed (use that in \<open>auto simp: standing_operation_def intro!: results_rfold [of ?P] move\<close>)
  then have "results ?P (rfold (standing_operation st) (source_actions ps) ([], []))"
    by (intro results_rfold) simp_all
  then show ?thesis unfolding standing_transition_entries_def by (rule results_bind) simp
qed

lemma operation_uncontested: "results (list_all uncontested) (operation_entries F st po)"
proof -
  obtain p op where po: "po = (p, op)" by (cases po)
  have "results (list_all uncontested) (decision_entries F st p op)"
    by (cases op) (auto simp: decision_entries_def node_entry_def Let_def intro!: results_rmap make_entry_uncontested)
  moreover have "results (list_all uncontested) (chat_entries F p op st)"
    by (auto simp: chat_entries_def chat_entry_def intro!: results_rmap make_entry_uncontested split: prod.splits)
  ultimately show ?thesis by (auto simp: operation_entries_def po results_def rbind_eq_Inr split: if_splits)
qed

lemma recent_uncontested: "results (list_all uncontested) (recent_entries F ps st)"
  unfolding recent_entries_def
  by (rule results_bind [OF results_rconcat [OF operation_uncontested]]) (simp add: list_all_iff)

lemma rmap_images:
  "rmap f xs = Inr ys \<Longrightarrow> (\<And>x y. f x = Inr y \<Longrightarrow> g y = h x) \<Longrightarrow> map g ys = map h xs"
  by (induction xs arbitrary: ys) (auto simp: rbind_eq_Inr)

text \<open>The nodes whose standing is contested, in the order of their ids.\<close>

definition contested_ids :: "graph_state \<Rightarrow> string list" where
  "contested_ids st = map n_id (filter (\<lambda>n. n_standing n = Contested) (sort_key n_id (dvalues (gs_nodes st))))"

lemma contested_entry_target:
  "contested_entry ts n = Inr e \<Longrightarrow> (de_category e, de_target_id e) = (''current_contested'', n_id n)"
  by (auto simp: contested_entry_def make_entry_def Let_def split: if_splits)

lemma candidates_contested_first:
  assumes "delta_candidates F ps st = Inr cs"
  obtains contested recent where "cs = contested @ recent"
    "map (\<lambda>e. (de_category e, de_target_id e)) contested = map (Pair ''current_contested'') (contested_ids st)"
    "list_all uncontested recent" "sorted (map entry_order recent)"
proof -
  let ?b = "delta_baseline ps"
  obtain ts contested events where ts: "standing_transition_entries ps st = Inr ts"
    and c: "current_contested_entries st ts = Inr contested"
    and ev: "recent_entries F (filter (\<lambda>p. p_revision p > ?b) ps) st = Inr events"
    and cs: "cs = contested @ filter (\<lambda>e. entry_identity e \<notin> set (map entry_identity contested))
      (sort_key entry_order (filter (\<lambda>e. de_revision e > ?b) ts @ events))"
    using assms by (auto simp: delta_candidates_def Let_def rbind_eq_Inr)
  show thesis
  proof (rule that [OF cs])
    show "map (\<lambda>e. (de_category e, de_target_id e)) contested = map (Pair ''current_contested'') (contested_ids st)"
      using rmap_images [OF c [unfolded current_contested_entries_def] contested_entry_target]
      by (simp add: contested_ids_def comp_def)
    have "list_all uncontested ts" "list_all uncontested events"
      using transitions_uncontested [of ps st] recent_uncontested [of F "filter (\<lambda>p. p_revision p > ?b) ps" st] ts ev
      by (simp_all add: results_def)
    then show "list_all uncontested (filter (\<lambda>e. entry_identity e \<notin> set (map entry_identity contested))
        (sort_key entry_order (filter (\<lambda>e. de_revision e > ?b) ts @ events)))"
      by (auto simp: list_all_iff)
    show "sorted (map entry_order (filter (\<lambda>e. entry_identity e \<notin> set (map entry_identity contested))
        (sort_key entry_order (filter (\<lambda>e. de_revision e > ?b) ts @ events))))"
      by (rule sorted_filter) (rule sorted_sort_key)
  qed
qed

section \<open>The byte budget\<close>

lemma digits_bound: "n < 10 ^ k \<Longrightarrow> 0 < k \<Longrightarrow> length (nat_digits n) \<le> k"
proof (induction n arbitrary: k rule: nat_digits.induct)
  case (1 n)
  show ?case
  proof (cases "n < 10")
    case True
    then show ?thesis using 1 by (simp add: nat_digits.simps [of n])
  next
    case False
    obtain j where k: "k = Suc j" using "1.prems"(2) by (cases k) auto
    have j: "0 < j" using "1.prems"(1) False k by (cases j) auto
    have "n div 10 < 10 ^ j" using "1.prems"(1) by (simp add: k less_mult_imp_div_less mult.commute)
    then have "length (nat_digits (n div 10)) \<le> j" using "1.IH" False j by blast
    then show ?thesis using False by (simp add: nat_digits.simps [of n] k)
  qed
qed

lemma int_bytes_bound: "0 \<le> i \<Longrightarrow> i < 10 ^ k \<Longrightarrow> 0 < k \<Longrightarrow> int_bytes i \<le> k"
  by (simp add: int_bytes_def digits_bound nat_less_iff)

lemma selection_within_budget:
  assumes "select_entries after through selected rest = (s, omitted)"
    and "length selected \<le> REFRESH_DELTA_MAX_ENTRIES"
    and "encoded_size (delta_document after through selected rest) \<le> REFRESH_DELTA_MAX_BYTES"
  shows "s @ omitted = selected @ rest \<and> length s \<le> REFRESH_DELTA_MAX_ENTRIES
    \<and> encoded_size (delta_document after through s omitted) \<le> REFRESH_DELTA_MAX_BYTES"
  using assms
  by (induction after through selected rest rule: select_entries.induct) (auto split: if_splits)


lemma omitted_range_dated:
  assumes "list_all (dated hi) es" and "omitted_revision_range es = Some (lo, up)"
  shows "0 \<le> lo \<and> lo \<le> hi \<and> 0 \<le> up \<and> up \<le> hi"
proof -
  have es: "es \<noteq> []" "lo = Min (set (map de_revision es))" "up = Max (set (map de_revision es))"
    using assms(2) by (auto simp: omitted_revision_range_def split: if_splits)
  have "lo \<in> set (map de_revision es)" "up \<in> set (map de_revision es)"
    unfolding es(2,3) using es(1) by (intro Min_in Max_in; simp)+
  then show ?thesis using assms(1) by (auto simp: list_all_iff dated_def)
qed

lemma empty_selection_fits:
  assumes "0 \<le> after" and "after \<le> through" and "through < 10 ^ 100" and "list_all (dated through) cs"
    and "int (length cs) < 10 ^ 100"
  shows "encoded_size (delta_document after through [] cs) \<le> REFRESH_DELTA_MAX_BYTES"
proof -
  have num: "int_bytes i \<le> 100" if "0 \<le> i" "i \<le> through" for i
    using int_bytes_bound [of i 100] that assms(3) by simp
  have count: "int_bytes (int (length cs)) \<le> 100"
    by (rule int_bytes_bound [OF _ assms(5)]) simp_all
  have range: "json_bytes (json_int_opt (map_option f (omitted_revision_range cs))) \<le> 100"
    if "f \<in> {fst, snd}" for f
    using that omitted_range_dated [OF assms(4)] num
    by (cases "omitted_revision_range cs") (auto simp: json_int_opt_def)
  have keys: "string_bytes ''after_revision'' + string_bytes ''entries'' + string_bytes ''omitted_count''
      + string_bytes ''omitted_from_revision'' + string_bytes ''omitted_through_revision''
      + string_bytes ''through_revision'' \<le> 200" by code_simp
  have "int_bytes after \<le> 100" "int_bytes through \<le> 100" using num assms(1,2) by simp_all
  then show ?thesis
    using count range [of fst] range [of snd] keys
    by (simp add: encoded_size_def delta_document_def commas_def REFRESH_DELTA_MAX_BYTES_def)
qed

lemma baseline_range:
  assumes "\<forall>p \<in> set ps. logged hi p" and "0 \<le> hi" shows "0 \<le> delta_baseline ps \<and> delta_baseline ps \<le> hi"
proof -
  let ?rs = "map p_revision (filter (\<lambda>p. p_kind p \<in> {Seed, Refresh}) ps)"
  have "\<forall>r \<in> set ?rs. 0 \<le> r \<and> r \<le> hi" using assms(1) by (auto simp: logged_def)
  moreover have "Max (set ?rs) \<in> set ?rs" if "?rs \<noteq> []"
    using that Max_in [OF finite_set, of ?rs] by (metis set_empty)
  ultimately have "?rs \<noteq> [] \<longrightarrow> 0 \<le> Max (set ?rs) \<and> Max (set ?rs) \<le> hi" by blast
  then show ?thesis using assms(2) unfolding delta_baseline_def Let_def by (simp only: split: if_split) blast
qed

text \<open>C36: the refresh delta is always built, always within its budget, and contested nodes come
  first. For any log whose patches and nodes lie within the graph's revision, with fewer than
  10^100 revisions and candidates, the delta has at most 50 entries and encodes to at most 16 KiB.
  Its candidates are one entry for each node whose standing is contested, in the order of the node
  ids, and after all of them the recent events, newest revision first, none of which is such an
  entry; its entries are the first of these, and the ones left out are counted exactly.\<close>

theorem refresh_delta_is_bounded:
  assumes "\<forall>p \<in> set ps. logged (gs_revision (mz_state m)) p"
    and "\<forall>n \<in> set (dvalues (gs_nodes (mz_state m))). 0 \<le> n_updated_rev n \<and> n_updated_rev n \<le> gs_revision (mz_state m)"
    and "0 \<le> gs_revision (mz_state m)" and "gs_revision (mz_state m) < 10 ^ 100"
    and "\<forall>cs. delta_candidates F (accepted_patches ps m) (mz_state m) = Inr cs \<longrightarrow> int (length cs) < 10 ^ 100"
  shows "\<exists>d contested recent. build_refresh_delta F ps m = Inr d
     \<and> delta_candidates F (accepted_patches ps m) (mz_state m) = Inr (contested @ recent)
     \<and> map (\<lambda>e. (de_category e, de_target_id e)) contested
         = map (Pair ''current_contested'') (contested_ids (mz_state m))
     \<and> (\<forall>e \<in> set recent. de_category e \<noteq> ''current_contested'') \<and> sorted (map entry_order recent)
     \<and> length (rd_entries d) \<le> 50 \<and> encoded_size d \<le> 16384
     \<and> rd_entries d = take (length (rd_entries d)) (contested @ recent)
     \<and> rd_omitted_count d = int (length (contested @ recent)) - int (length (rd_entries d))"
proof -
  let ?ps = "accepted_patches ps m" and ?st = "mz_state m"
  let ?b = "delta_baseline ?ps" and ?hi = "gs_revision ?st"
  have logged: "\<forall>p \<in> set ?ps. logged ?hi p" using assms(1) by (auto simp: accepted_patches_def)
  obtain cs where cs: "delta_candidates F ?ps ?st = Inr cs" "list_all (dated ?hi) cs"
    using candidates_dated [OF logged assms(2)] by (auto simp: yields_def)
  have b: "0 \<le> ?b \<and> ?b \<le> ?hi"
    by (rule baseline_range [OF logged assms(3)])
  obtain s omitted where sel: "select_entries ?b ?hi [] cs = (s, omitted)" by force
  have fits: "s @ omitted = cs" "length s \<le> REFRESH_DELTA_MAX_ENTRIES"
    "encoded_size (delta_document ?b ?hi s omitted) \<le> REFRESH_DELTA_MAX_BYTES"
    using selection_within_budget [OF sel] empty_selection_fits [of ?b ?hi cs] b assms(4,5) cs by auto
  let ?d = "delta_document ?b ?hi s omitted"
  have "list_all (dated ?hi) omitted" using cs(2) fits(1) by auto
  then have "nonnegative (rd_omitted_from_revision ?d)" "nonnegative (rd_omitted_through_revision ?d)"
    using omitted_range_dated by (fastforce simp: nonnegative_def delta_document_def split: option.splits)+
  then have "refresh_delta_model ?d = Inr ?d"
    using fits b by (simp add: refresh_delta_model_def) (simp add: delta_document_def)
  then have "build_refresh_delta F ps m = Inr ?d"
    by (simp add: build_refresh_delta_def cs(1) sel)
  moreover have "rd_entries ?d = s" "rd_omitted_count ?d = int (length omitted)" by (simp_all add: delta_document_def)
  moreover have "length s \<le> 50" "encoded_size ?d \<le> 16384"
    using fits(2,3) by (simp_all add: REFRESH_DELTA_MAX_ENTRIES_def REFRESH_DELTA_MAX_BYTES_def)
  moreover obtain contested recent where first: "cs = contested @ recent"
    "map (\<lambda>e. (de_category e, de_target_id e)) contested = map (Pair ''current_contested'') (contested_ids ?st)"
    "list_all uncontested recent" "sorted (map entry_order recent)"
    by (rule candidates_contested_first [OF cs(1)])
  moreover have "s = take (length s) (contested @ recent)"
    "int (length omitted) = int (length (contested @ recent)) - int (length s)"
    unfolding first(1) [symmetric] fits(1) [symmetric] by simp_all
  ultimately show ?thesis
    using cs(1) by (intro exI [of _ ?d] exI [of _ contested] exI [of _ recent])
      (simp add: list_all_iff uncontested_def)
qed


section \<open>A concrete delta\<close>

definition sample_fields :: fields_set where
  "sample_fields = \<lparr>fs_update = (\<lambda>_. [''id'', ''changes'']), fs_resolution = (\<lambda>_. [''id'', ''status'']),
     fs_withdrawal = (\<lambda>_. [''id'']), fs_edge = (\<lambda>_. [''source'', ''target'', ''relation'']),
     fs_ambiguity = (\<lambda>_. [''id'']), fs_term = (\<lambda>_. [''term''])\<rparr>"

definition sample_materialization :: materialization where
  "sample_materialization = \<lparr>mz_state = sample_agent_result\<lparr>gs_nodes := map (\<lambda>(i, n).
       (i, if i = ''dec/a'' then n\<lparr>n_standing := Contested\<rparr> else n)) (gs_nodes sample_agent_result)\<rparr>, mz_reports = [(2, [])],
     mz_repository_descriptors = [], mz_processed_cursors = [], mz_observed = []\<rparr>"

theorem refresh_delta_is_bounded_witness:
  "\<exists>d contested recent. build_refresh_delta sample_fields [sample_agent_patch] sample_materialization = Inr d
     \<and> encoded_size d \<le> 16384 \<and> rd_entries d = take (length (rd_entries d)) (contested @ recent)
     \<and> map (\<lambda>e. (de_category e, de_target_id e)) contested = [(''current_contested'', ''dec/a'')]"
proof -
  let ?m = sample_materialization
  have rv: "gs_revision (mz_state ?m) = 2" and p: "logged 2 sample_agent_patch"
    and nodes: "\<forall>n \<in> set (dvalues (gs_nodes (mz_state ?m))). 0 \<le> n_updated_rev n \<and> n_updated_rev n \<le> 2"
    and c: "map_sum id length (delta_candidates sample_fields (accepted_patches [sample_agent_patch] ?m) (mz_state ?m)) = Inr 4"
    and contested: "contested_ids (mz_state ?m) = [''dec/a'']"
    by code_simp+
  have "\<forall>cs. delta_candidates sample_fields (accepted_patches [sample_agent_patch] ?m) (mz_state ?m) = Inr cs
      \<longrightarrow> int (length cs) < 10 ^ 100" using c by auto
  then show ?thesis
    using refresh_delta_is_bounded [of "[sample_agent_patch]" ?m sample_fields] rv p nodes contested by fastforce
qed

end
