(* ===== verification/Lifecycle.thy ===== *)
theory Lifecycle
  imports Outcomes
begin

text \<open>
  Superseding and merging nodes, what the validator stages, and the round trip of a node
  through its document.
\<close>

section \<open>Evidence has no status\<close>

text \<open>Every item of a fold that succeeds is reached through the items before it.\<close>

lemma rfold_reaches:
  assumes "rfold f xs s = Inr t" and "x \<in> set xs"
  shows "\<exists>ys u v. rfold f ys s = Inr u \<and> set ys \<subseteq> set xs \<and> f x u = Inr v"
proof -
  obtain ys zs where xs: "xs = ys @ x # zs" using assms(2) by (meson split_list)
  then obtain u where u: "rfold f ys s = Inr u" "rfold f (x # zs) u = Inr t"
    using assms(1) by (auto simp: rfold_append rbind_eq_Inr)
  then show ?thesis using xs by (auto simp: rbind_eq_Inr)
qed

lemma evidence_keys: "''status'' \<notin> set (accepted_keys (Evidence e))"
  by code_simp

context validators
begin

lemma evidence_status_refused:
  assumes "dget (gs_nodes st) i = Some n" and "n_body n = Evidence e"
  shows "\<exists>err. set_node_status A i status rv preserve st = Inl err"
proof -
  let ?d = "dset ''standing'' (VStr (if preserve then standing_name (n_standing n) else ''asserted''))
      (dset ''updated_rev'' (VInt rv) (dset ''status'' (VStr status) (model_dump n)))"
  have False if ok: "ad_node A ?d = Inr m" for m
  proof -
    have "dget (model_dump n) ''type'' = Some (VStr ''evidence'')"
      using model_dump_type [of n] assms(2) by (simp add: body_type_def)
    then have "n_type m = ''evidence''" using lax.keeps_type [OF ok] by (simp add: dget_dset)
    then obtain e' where "n_body m = Evidence e'" by (cases "n_body m") (simp_all add: body_type_def)
    moreover have "''status'' \<in> set (accepted_keys (n_body m))"
      using lax.no_extra [OF ok, of "''status''" "VStr status"] by (simp add: dget_dset)
    ultimately show False using evidence_keys by simp
  qed
  then show ?thesis using assms(1) by (cases "ad_node A ?d") (auto simp: set_node_status_def dindex_def)
qed

lemma evidence_survives:
  assumes "typed p st t" and "graph_coherent st" and "dget (gs_nodes st) i = Some n" and "n_body n = Evidence e"
    and "i \<notin> set (created_node_ids p)" and "dget (gs_nodes t) i = Some m"
  obtains e' where "n_body m = Evidence e'"
proof -
  have "n_type m = n_type n" using assms by (fastforce simp: typed_def)
  then have "n_type m = ''evidence''" using assms(4) by (simp add: body_type_def)
  then show thesis using that by (cases "n_body m") (simp_all add: body_type_def)
qed

lemma evidence_supersede_raises:
  assumes "typed p st t" and "graph_coherent st" and "dget (gs_nodes st) i = Some n" and "n_body n = Evidence e"
    and "i \<notin> set (created_node_ids p)"
  shows "sn_id s = i \<Longrightarrow> apply_supersede_node A p s t \<noteq> Inr u"
    and "nm_duplicate m = i \<Longrightarrow> apply_merge_node A p m t \<noteq> Inr u"
proof -
  have "\<exists>err. set_node_status A i ''superseded'' (p_revision p) (p_kind p = Approval) t = Inl err"
    if m: "dget (gs_nodes t) i = Some m" for m
    by (rule evidence_survives [OF assms m], rule evidence_status_refused [OF m])
  then show "sn_id s = i \<Longrightarrow> apply_supersede_node A p s t \<noteq> Inr u"
    "nm_duplicate m = i \<Longrightarrow> apply_merge_node A p m t \<noteq> Inr u"
    by (fastforce simp: apply_supersede_node_def apply_merge_node_def dindex_def rbind_eq_Inr split: option.splits)+
qed

text \<open>Wherever in a patch the operation stands, and whatever else the patch does.\<close>

lemma superseding_evidence_raises:
  assumes "graph_coherent st" and "dget (gs_nodes st) i = Some n" and "n_body n = Evidence e"
    and "i \<notin> set (created_node_ids p)"
    and op: "SupersedeNodes ss \<in> set (p_ops p) \<and> s \<in> set ss \<and> sn_id s = i
      \<or> MergeNodes ms \<in> set (p_ops p) \<and> m \<in> set ms \<and> nm_duplicate m = i"
  shows "apply_ops A p gen (List.enumerate 0 (p_ops p)) (begin_apply st) \<noteq> Inr b"
proof
  assume run: "apply_ops A p gen (List.enumerate 0 (p_ops p)) (begin_apply st) = Inr b"
  have stops: False
    if o': "o' \<in> set (p_ops p)" and item: "x \<in> set xs" and f: "\<And>a g. apply_op A p g o' a = each f xs a"
      and keep: "\<And>y t u. y \<in> set xs \<Longrightarrow> f y t = Inr u \<Longrightarrow> typed p t u"
      and raises: "\<And>t u. typed p st t \<Longrightarrow> f x t \<noteq> Inr u" for o' x xs and f :: "'x \<Rightarrow> graph_state \<Rightarrow> graph_state res"
  proof -
    have "o' \<in> snd ` set (List.enumerate 0 (p_ops p))" using o' by (metis list.set_map map_snd_enumerate)
    then obtain k where "(k, o') \<in> set (List.enumerate 0 (p_ops p))" by force
    then obtain pre a c where pre: "apply_ops A p gen pre (begin_apply st) = Inr a"
        "set pre \<subseteq> set (List.enumerate 0 (p_ops p))"
      and step: "apply_op A p (k \<in> set gen) o' a = Inr c"
      using rfold_reaches [OF run [unfolded apply_ops_def]] by (fastforce simp: apply_ops_def)
    have "set (map snd pre) \<subseteq> set (p_ops p)"
      using image_mono [OF pre(2), of snd] by (metis list.set_map map_snd_enumerate)
    then have a: "typed p st (ap_state a)"
      using types.apply_ops_rel [OF pre(1)] by (simp add: begin_apply_def)
    obtain t where "rfold f xs (ap_state a) = Inr t" using step f by (auto simp: each_def rbind_eq_Inr)
    then obtain ys t1 u where ys: "rfold f ys (ap_state a) = Inr t1" "set ys \<subseteq> set xs" and u: "f x t1 = Inr u"
      using rfold_reaches item by metis
    have "typed p (ap_state a) t1" by (rule types.rfold_rel [OF ys(1)]) (use ys(2) keep in blast)
    then show False using raises u typed_trans [OF a] by blast
  qed
  note raises = evidence_supersede_raises [OF _ assms(1-4)]
  from op show False
  proof (elim disjE conjE)
    assume "SupersedeNodes ss \<in> set (p_ops p)" "s \<in> set ss" "sn_id s = i"
    then show False using raises(1) typed_supersede by (intro stops [of _ s ss "apply_supersede_node A p"]) auto
  next
    assume "MergeNodes ms \<in> set (p_ops p)" "m \<in> set ms" "nm_duplicate m = i"
    then show False using raises(2) typed_merge by (intro stops [of _ m ms "apply_merge_node A p"]) auto
  qed
qed

end

text \<open>C39: Evidence can be neither superseded nor merged away. Superseding writes a \<open>status\<close> field,
  which Evidence does not have. So a patch that supersedes an existing Evidence node or merges it
  into another one, in any of its operations and whatever else it does short of creating a node
  with the same id, raises when it is applied, with or without a transition trace; and the
  validator refuses it when it carries no trace.\<close>

theorem evidence_cannot_be_superseded:
  assumes "validators A" and "graph_coherent st" and "dget (gs_nodes st) i = Some n" and "n_body n = Evidence e"
    and "i \<notin> set (created_node_ids p)"
    and "SupersedeNodes ss \<in> set (p_ops p) \<and> s \<in> set ss \<and> sn_id s = i
      \<or> MergeNodes ms \<in> set (p_ops p) \<and> m \<in> set ms \<and> nm_duplicate m = i"
  shows "(\<exists>err. apply_valid_patch A st p = Inl err)
    \<and> (p_transition p = None \<longrightarrow> rejected (validate_patch A D env st p))"
proof -
  note raises = validators.superseding_evidence_raises [OF assms]
  have "apply_valid_patch A st p \<noteq> Inr st'" for st'
    using raises by (auto simp: apply_valid_patch_def apply_patch_def rbind_eq_Inr)
  then have "\<exists>err. apply_valid_patch A st p = Inl err" by (metis sum.exhaust)
  moreover have "rejected (validate_patch A D env st p)" if none: "p_transition p = None"
  proof (rule ccontr)
    assume "\<not> rejected (validate_patch A D env st p)"
    then have "\<not> rejected (validate_plain_patch A env st p)" using none by (simp add: validate_patch_def)
    from accepted_staging [OF this none] show False using raises by metis
  qed
  ultimately show ?thesis by blast
qed

theorem evidence_cannot_be_superseded_witness:
  "rejected (validate_patch declared_adapters sample_digests (sample_env Admission) sample_state
     (sample_agent [sample_update ''dec/a'' [(''status'', VStr ''ready'')] None,
        SupersedeNodes [\<lparr>sn_id = ''ev/a'', sn_superseded_by = None, sn_explanation = [], sn_cause = None\<rparr>]]))"
proof -
  let ?s = "\<lparr>sn_id = ''ev/a'', sn_superseded_by = None, sn_explanation = [], sn_cause = None\<rparr>"
  let ?p = "sample_agent [sample_update ''dec/a'' [(''status'', VStr ''ready'')] None, SupersedeNodes [?s]]"
  have n: "dget (gs_nodes sample_state) ''ev/a'' = Some sample_evidence" by code_simp
  obtain e where e: "n_body sample_evidence = Evidence e" by (simp add: sample_evidence_def sample_node_def)
  have new: "''ev/a'' \<notin> set (created_node_ids ?p)" by code_simp
  have p: "p_transition ?p = None" "SupersedeNodes [?s] \<in> set (p_ops ?p) \<and> ?s \<in> set [?s] \<and> sn_id ?s = ''ev/a''"
    by (simp_all add: sample_agent_def sample_patch_def)
  show ?thesis
    using evidence_cannot_be_superseded [OF declared_validators.validators_axioms sample_state_coherent n e new
        disjI1 [OF p(2)]] p(1) by blast
qed

section \<open>Staging refines application\<close>

text \<open>C10: for a patch that carries no transition trace, the graph it produces when the validator
  accepts it is the graph the validator staged operation by operation, at the patch's revision, up
  to the layers of edges and the time of the last refresh. Validating against the staged graph
  therefore speaks about the graph that is written.\<close>

theorem application_refines_staging:
  assumes "p_transition p = None" and "\<not> rejected (validate_patch A D env st p)"
    and "apply_valid_patch A st p = Inr st'"
  shows "\<exists>r ctx. patch_level_report A env st p = Inr r
     \<and> staged A (validate_proposal A) (initial_context env st p r) (p_ops p) ctx
     \<and> core st' = (core (cx_state ctx))\<lparr>gs_revision := max (gs_revision st) (p_revision p)\<rparr>"
proof -
  have "\<not> rejected (validate_plain_patch A env st p)" using assms(1,2) by (simp add: validate_patch_def)
  from accepted_result [OF this assms(1,3)] show ?thesis by blast
qed

theorem application_refines_staging_witness:
  "\<exists>r ctx. staged declared_adapters (validate_proposal declared_adapters)
       (initial_context (sample_env Admission) sample_state sample_agent_patch r) (p_ops sample_agent_patch) ctx
     \<and> gs_nodes sample_agent_result = gs_nodes (cx_state ctx)"
proof -
  have ok: "\<not> rejected (validate_patch declared_adapters sample_digests (sample_env Admission) sample_state sample_agent_patch)"
    by (simp add: sample_agent_patch_admitted)
  from application_refines_staging [OF sample_agent_header(1) ok sample_agent_applies]
  show ?thesis using core_stamped_eqD(1) by blast
qed

section \<open>Documents\<close>

text \<open>a node survives its document. Dumping a node that meets its class declaration and
  validating the document gives the node back, so the \<open>model_dump\<close> that every update starts
  from loses nothing.\<close>

lemma node_document_roundtrip:
  assumes "node_conforms n"
  shows "declared_node (model_dump n) = Inr n"
  by (rule declared_node_roundtrip [OF assms])

end
