(* ===== verification/JsonText.thy ===== *)
theory JsonText
  imports Prelude "HOL-Library.Multiset"
begin

text \<open>
  \<open>json.dumps\<close> of the Python standard library as the storage layer calls it: \<open>sort_keys\<close>, the
  compact separators or \<open>indent=2\<close>, with and without \<open>ensure_ascii\<close>. Floats are printed by the
  function the caller passes (\<open>float.__repr__\<close>); values that are not JSON raise, here \<open>None\<close>.
  A character of a string is a code point below 256, encoded by UTF-8 in one or two bytes.
\<close>

section \<open>Numbers and strings\<close>

definition digit_char :: "nat \<Rightarrow> char" where
  "digit_char n = ''0123456789abcdef'' ! n"

fun nat_text :: "nat \<Rightarrow> string" where
  "nat_text n = (if n < 10 then [digit_char n] else nat_text (n div 10) @ [digit_char (n mod 10)])"

declare nat_text.simps [simp del]

definition int_text :: "int \<Rightarrow> string" where
  "int_text i = (if i < 0 then ''-'' @ nat_text (nat (- i)) else nat_text (nat i))"

text \<open>
  The code points that are escaped: controls below 32 and, under \<open>ensure_ascii\<close>, everything past the
  tilde. They are read off the bits of a character.
\<close>

definition is_control :: "char \<Rightarrow> bool" where
  "is_control c = (case c of Char _ _ _ _ _ b5 b6 b7 \<Rightarrow> \<not> b5 \<and> \<not> b6 \<and> \<not> b7)"

definition past_tilde :: "char \<Rightarrow> bool" where
  "past_tilde c = (case c of Char b0 b1 b2 b3 b4 b5 b6 b7 \<Rightarrow> b7 \<or> b0 \<and> b1 \<and> b2 \<and> b3 \<and> b4 \<and> b5 \<and> b6)"

definition two_bytes :: "char \<Rightarrow> bool" where
  "two_bytes c = (case c of Char _ _ _ _ _ _ _ b7 \<Rightarrow> b7)"

definition json_escape :: "char \<Rightarrow> string" where
  "json_escape c =
    (let n = (of_char c :: nat) in
     if n = 10 then [CHR 0x5C, CHR ''n''] else if n = 13 then [CHR 0x5C, CHR ''r'']
     else if n = 9 then [CHR 0x5C, CHR ''t''] else if n = 12 then [CHR 0x5C, CHR ''f'']
     else if n = 8 then [CHR 0x5C, CHR ''b'']
     else [CHR 0x5C] @ ''u00'' @ [digit_char (n div 16), digit_char (n mod 16)])"

definition json_char :: "bool \<Rightarrow> char \<Rightarrow> string" where
  "json_char ascii c =
    (if c = CHR 0x22 \<or> c = CHR 0x5C then [CHR 0x5C, c]
     else if is_control c \<or> ascii \<and> past_tilde c then json_escape c else [c])"

definition json_string :: "bool \<Rightarrow> string \<Rightarrow> string" where
  "json_string ascii s = [CHR 0x22] @ concat (map (json_char ascii) s) @ [CHR 0x22]"

section \<open>Values\<close>

text \<open>The layout: \<open>None\<close> for the compact separators, \<open>Some n\<close> at depth \<open>n\<close> of \<open>indent=2\<close>.\<close>

definition line_break :: "nat option \<Rightarrow> string" where
  "line_break l = (case l of None \<Rightarrow> [] | Some n \<Rightarrow> CHR 0x0A # replicate (2 * n) CHR '' '')"

definition key_separator :: "nat option \<Rightarrow> string" where
  "key_separator l = (case l of None \<Rightarrow> '':'' | Some _ \<Rightarrow> '': '')"

fun separated :: "string \<Rightarrow> string list \<Rightarrow> string" where
  "separated sep [] = []"
| "separated sep [x] = x"
| "separated sep (x # y # ys) = x @ sep @ separated sep (y # ys)"

definition enclosed :: "string \<Rightarrow> string \<Rightarrow> nat option \<Rightarrow> string list \<Rightarrow> string" where
  "enclosed a b l ts = (if ts = [] then a @ b
     else a @ line_break (map_option Suc l) @ separated ('','' @ line_break (map_option Suc l)) ts
       @ line_break l @ b)"

fun json_sorted :: "pyval \<Rightarrow> pyval" where
  "json_sorted (VList xs) = VList (map json_sorted xs)"
| "json_sorted (VDict d) = VDict (sort_key fst (map (\<lambda>kv. (fst kv, json_sorted (snd kv))) d))"
| "json_sorted v = v"

fun json_text :: "(pyval \<Rightarrow> string) \<Rightarrow> bool \<Rightarrow> nat option \<Rightarrow> pyval \<Rightarrow> string option" where
  "json_text F ascii l VNone = Some ''null''"
| "json_text F ascii l (VBool b) = Some (if b then ''true'' else ''false'')"
| "json_text F ascii l (VInt i) = Some (int_text i)"
| "json_text F ascii l (VFloat q) = Some (F (VFloat q))"
| "json_text F ascii l (VStr s) = Some (json_string ascii s)"
| "json_text F ascii l (VTime _) = None"
| "json_text F ascii l (VList xs) = map_option (enclosed ''['' '']'' l)
     (those (map (json_text F ascii (map_option Suc l)) xs))"
| "json_text F ascii l (VDict d) = map_option (enclosed ''{'' ''}'' l)
     (those (map (\<lambda>kv. map_option (\<lambda>t. json_string ascii (fst kv) @ key_separator l @ t)
        (json_text F ascii (map_option Suc l) (snd kv))) d))"
| "json_text F ascii l (VModel _) = None"

definition utf8_length :: "string \<Rightarrow> nat" where
  "utf8_length s = foldr (\<lambda>c n. if two_bytes c then n + 2 else n + 1) s 0"

section \<open>What is printed\<close>

lemma code_points:
  "is_control c \<longleftrightarrow> (of_char c :: nat) < 32" "past_tilde c \<longleftrightarrow> 126 < (of_char c :: nat)"
  "two_bytes c \<longleftrightarrow> 128 \<le> (of_char c :: nat)"
proof -
  obtain b0 b1 b2 b3 b4 b5 b6 b7 where "c = Char b0 b1 b2 b3 b4 b5 b6 b7" by (cases c)
  then show "is_control c \<longleftrightarrow> (of_char c :: nat) < 32" "past_tilde c \<longleftrightarrow> 126 < (of_char c :: nat)"
    "two_bytes c \<longleftrightarrow> 128 \<le> (of_char c :: nat)"
    by (cases b0; cases b1; cases b2; cases b3; cases b4; cases b5; cases b6; cases b7;
        simp add: is_control_def past_tilde_def two_bytes_def)+
qed

text \<open>The values \<open>json.dumps\<close> accepts, and that it accepts them in every layout, sorted or not.\<close>

fun jsonable :: "pyval \<Rightarrow> bool" where
  "jsonable (VList xs) = list_all jsonable xs"
| "jsonable (VDict d) = list_all (\<lambda>kv. jsonable (snd kv)) d"
| "jsonable (VTime _) = False"
| "jsonable (VModel _) = False"
| "jsonable v = True"

lemma those_Some: "(\<exists>ys. those xs = Some ys) \<longleftrightarrow> None \<notin> set xs"
  by (induction xs) (auto split: option.splits)

lemma json_text_defined: "(\<exists>t. json_text F ascii l v = Some t) \<longleftrightarrow> jsonable v"
proof (induction F ascii l v rule: json_text.induct)
  case (7 F ascii l xs)
  have "None \<notin> set (map (json_text F ascii (map_option Suc l)) xs) \<longleftrightarrow> list_all jsonable xs"
    using "7" by (force simp: list_all_iff image_iff)
  then show ?case by (simp add: those_Some)
next
  case (8 F ascii l d)
  let ?f = "\<lambda>kv. map_option (\<lambda>t. json_string ascii (fst kv) @ key_separator l @ t)
        (json_text F ascii (map_option Suc l) (snd kv))"
  have "None \<notin> set (map ?f d) \<longleftrightarrow> list_all (\<lambda>kv. jsonable (snd kv)) d"
    using "8" by (force simp: list_all_iff image_iff)
  then show ?case by (simp add: those_Some)
qed auto

lemma jsonable_sorted [simp]: "jsonable (json_sorted v) = jsonable v"
  by (induction v rule: json_sorted.induct) (auto simp: list_all_iff)


section \<open>How long it is\<close>

lemma utf8_simps [simp]: "utf8_length [] = 0" "utf8_length (c # cs) = (if two_bytes c then 2 else 1) + utf8_length cs"
  by (simp_all add: utf8_length_def)

lemma utf8_append [simp]: "utf8_length (xs @ ys) = utf8_length xs + utf8_length ys"
  by (induction xs) auto

lemma utf8_at_least: "length xs \<le> utf8_length xs"
  by (induction xs) auto

lemma json_string_length: "length s \<le> utf8_length (json_string ascii s)"
proof -
  have "1 \<le> length (json_char ascii c)" for c by (simp add: json_char_def json_escape_def Let_def)
  then have "length s \<le> length (concat (map (json_char ascii) s))"
  proof (induction s)
    case (Cons c s)
    then show ?case using add_mono [of 1 "length (json_char ascii c)"] by simp
  qed simp
  then show ?thesis using utf8_at_least [of "json_string ascii s"] by (simp add: json_string_def)
qed

lemma those_bound:
  assumes "those (map f xs) = Some ts" and "\<And>x t. x \<in> set xs \<Longrightarrow> f x = Some t \<Longrightarrow> g x \<le> h t"
  shows "sum_list (map g xs) \<le> sum_list (map (h :: _ \<Rightarrow> nat) ts)"
  using assms by (induction xs arbitrary: ts) (fastforce split: option.splits intro: add_mono)+

text \<open>
  A bound that needs no printing: a character takes at most six bytes, an element a separator and
  a line break. It holds for values without floats, printed at depth \<open>n\<close> or less.
\<close>

fun sized :: "pyval \<Rightarrow> bool" where
  "sized (VList xs) = list_all sized xs"
| "sized (VDict d) = list_all (\<lambda>kv. sized (snd kv)) d"
| "sized (VFloat _) = False"
| "sized (VTime _) = False"
| "sized (VModel _) = False"
| "sized v = True"

fun json_cost :: "nat \<Rightarrow> pyval \<Rightarrow> nat" where
  "json_cost n (VStr s) = 6 * length s + 2"
| "json_cost n (VInt i) = 2 * length (int_text i)"
| "json_cost n (VList xs) = sum_list (map (json_cost (n + 1)) xs) + (length xs + 2) * (2 * n + 4) + 2"
| "json_cost n (VDict d) = sum_list (map (\<lambda>kv. 6 * length (fst kv) + 4 + json_cost (n + 1) (snd kv)) d)
     + (length d + 2) * (2 * n + 4) + 2"
| "json_cost n v = 5"

lemma utf8_at_most: "utf8_length xs \<le> 2 * length xs"
  by (induction xs) auto

lemma json_char_bytes: "utf8_length (json_char ascii c) \<le> 6"
proof (cases "json_char ascii c = [c]")
  case False
  have "list_all (\<lambda>c. \<not> two_bytes c) ''0123456789abcdef''" by (simp add: two_bytes_def)
  then have "\<not> two_bytes (digit_char n)" if "n < 16" for n
    using that by (simp only: list_all_length digit_char_def) simp
  moreover have "(of_char c :: nat) div 16 < 16" by (simp add: less_mult_imp_div_less)
  moreover have "\<not> two_bytes (CHR 0x5C)" "\<not> two_bytes (CHR 0x22)" "\<not> two_bytes (CHR ''u'')" "\<not> two_bytes (CHR ''0'')"
    by (simp_all add: two_bytes_def)
  ultimately show ?thesis
    using False by (auto simp: json_char_def json_escape_def Let_def)
qed simp

lemma json_string_bytes: "utf8_length (json_string ascii s) \<le> 6 * length s + 2"
proof -
  have "utf8_length (concat (map (json_char ascii) s)) \<le> 6 * length s"
  proof (induction s)
    case (Cons c s)
    then show ?case using json_char_bytes [of ascii c] by simp
  qed simp
  moreover have "utf8_length [CHR 0x22] = 1" by (simp add: two_bytes_def)
  ultimately show ?thesis unfolding json_string_def utf8_append by simp
qed

lemma line_break_bytes: "(\<And>m. l = Some m \<Longrightarrow> m \<le> n) \<Longrightarrow> utf8_length (line_break l) \<le> 2 * n + 1"
proof (cases l)
  case (Some m)
  have "utf8_length (replicate k CHR '' '') = k" for k
    by (induction k) (simp_all add: two_bytes_def)
  moreover assume "\<And>m. l = Some m \<Longrightarrow> m \<le> n"
  ultimately show ?thesis using Some utf8_append [of "[CHR 0x0A]"] by (simp add: line_break_def two_bytes_def)
qed (simp add: line_break_def)

lemma separated_bytes: "utf8_length (separated sep ts) \<le> sum_list (map utf8_length ts) + length ts * utf8_length sep"
  by (induction sep ts rule: separated.induct) auto

lemma enclosed_bytes:
  assumes "utf8_length a = 1" and "utf8_length b = 1" and n: "\<And>m. l = Some m \<Longrightarrow> m \<le> n"
  shows "utf8_length (enclosed a b l ts) \<le> sum_list (map utf8_length ts) + (length ts + 2) * (2 * n + 4) + 2"
proof -
  let ?br = "line_break (map_option Suc l)"
  have "utf8_length ?br \<le> 2 * Suc n + 1" by (rule line_break_bytes) (use n in auto)
  then have br: "utf8_length ?br \<le> 2 * n + 3" by simp
  have sep: "utf8_length ('','' @ ?br) \<le> 2 * n + 4" using br by (simp add: two_bytes_def)
  have "utf8_length (separated ('','' @ ?br) ts) \<le> sum_list (map utf8_length ts) + length ts * (2 * n + 4)"
    by (rule le_trans [OF separated_bytes]) (use sep in simp)
  moreover have "utf8_length (line_break l) \<le> 2 * n + 1" by (rule line_break_bytes [OF n])
  ultimately show ?thesis using assms(1,2) br by (simp add: enclosed_def)
qed

lemma those_length: "those xs = Some ys \<Longrightarrow> length ys = length xs"
  by (induction xs arbitrary: ys) (auto split: option.splits)

lemma those_upper:
  assumes "those (map f xs) = Some ts" and "\<And>x t. x \<in> set xs \<Longrightarrow> f x = Some t \<Longrightarrow> h t \<le> (g x :: nat)"
  shows "sum_list (map h ts) \<le> sum_list (map g xs)"
  using assms by (induction xs arbitrary: ts) (fastforce split: option.splits intro: add_mono)+

lemma json_text_cost:
  "json_text F ascii l v = Some t \<Longrightarrow> sized v \<Longrightarrow> (\<And>m. l = Some m \<Longrightarrow> m \<le> n) \<Longrightarrow> utf8_length t \<le> json_cost n v"
proof (induction F ascii l v arbitrary: t n rule: json_text.induct)
  case (7 F ascii l xs)
  then obtain ts where ts: "those (map (json_text F ascii (map_option Suc l)) xs) = Some ts" "t = enclosed ''['' '']'' l ts"
    by auto
  have "sum_list (map utf8_length ts) \<le> sum_list (map (json_cost (n + 1)) xs)"
    by (rule those_upper [OF ts(1)], rule "7.IH") (use "7.prems" in \<open>auto simp: list_all_iff\<close>)
  moreover have "utf8_length t \<le> sum_list (map utf8_length ts) + (length ts + 2) * (2 * n + 4) + 2"
    unfolding ts(2) by (rule enclosed_bytes) (use "7.prems" in \<open>auto simp: two_bytes_def\<close>)
  ultimately show ?case using those_length [OF ts(1)] by simp
next
  case (8 F ascii l d)
  let ?f = "\<lambda>kv. map_option (\<lambda>t. json_string ascii (fst kv) @ key_separator l @ t) (json_text F ascii (map_option Suc l) (snd kv))"
  obtain ts where ts: "those (map ?f d) = Some ts" "t = enclosed ''{'' ''}'' l ts" using "8.prems"(1) by auto
  have sep: "utf8_length (key_separator l) \<le> 2"
    by (cases l) (simp_all add: key_separator_def two_bytes_def)
  have "sum_list (map utf8_length ts) \<le> sum_list (map (\<lambda>kv. 6 * length (fst kv) + 4 + json_cost (n + 1) (snd kv)) d)"
  proof (rule those_upper [OF ts(1)])
    fix kv y assume kv: "kv \<in> set d" "?f kv = Some y"
    then obtain z where z: "json_text F ascii (map_option Suc l) (snd kv) = Some z"
      "y = json_string ascii (fst kv) @ key_separator l @ z" by auto
    have "utf8_length z \<le> json_cost (n + 1) (snd kv)"
      by (rule "8.IH" [OF kv(1) z(1)]) (use "8.prems"(2,3) kv(1) in \<open>auto simp: list_all_iff\<close>)
    then show "utf8_length y \<le> 6 * length (fst kv) + 4 + json_cost (n + 1) (snd kv)"
      using json_string_bytes [of ascii "fst kv"] sep by (simp add: z(2))
  qed
  moreover have "utf8_length t \<le> sum_list (map utf8_length ts) + (length ts + 2) * (2 * n + 4) + 2"
    unfolding ts(2) by (rule enclosed_bytes) (use "8.prems" in \<open>auto simp: two_bytes_def\<close>)
  ultimately show ?case using those_length [OF ts(1)] by simp
qed (use json_string_bytes in \<open>auto simp: utf8_at_most two_bytes_def\<close>)

lemma sum_sort_key: "sum_list (map f (sort_key k xs)) = (sum_list (map f xs) :: nat)"
  by (metis mset_map mset_sort sum_mset_sum_list)

lemma cost_sorted [simp]: "json_cost n (json_sorted v) = json_cost n v"
  by (induction v arbitrary: n rule: json_sorted.induct)
     (auto simp: sum_sort_key comp_def cong: map_cong)

lemma sized_sorted [simp]: "sized (json_sorted v) = sized v"
  by (induction v rule: json_sorted.induct) (auto simp: list_all_iff)

lemma sized_jsonable: "sized v \<Longrightarrow> jsonable v"
  by (induction v rule: jsonable.induct) (auto simp: list_all_iff)

lemma json_text_sized:
  assumes "sized v" and "\<And>m. l = Some m \<Longrightarrow> m \<le> n"
  obtains t where "json_text F ascii l v = Some t" "utf8_length t \<le> json_cost n v"
  using json_text_defined [of F ascii l v] sized_jsonable [OF assms(1)] json_text_cost [OF _ assms] by metis


text \<open>The same bound over integers, which the simplifier computes in binary.\<close>

fun json_weight :: "int \<Rightarrow> pyval \<Rightarrow> int" where
  "json_weight n (VStr s) = 6 * int (length s) + 2"
| "json_weight n (VInt i) = 2 * int (length (int_text i))"
| "json_weight n (VList xs) = sum_list (map (json_weight (n + 1)) xs) + (int (length xs) + 2) * (2 * n + 4) + 2"
| "json_weight n (VDict d) = sum_list (map (\<lambda>kv. 6 * int (length (fst kv)) + 4 + json_weight (n + 1) (snd kv)) d)
     + (int (length d) + 2) * (2 * n + 4) + 2"
| "json_weight n v = 5"

lemma int_sum_list: "int (sum_list xs) = sum_list (map int xs)"
  by (induction xs) simp_all

lemma json_weight: "int (json_cost n v) = json_weight (int n) v"
proof (induction n v rule: json_cost.induct)
  case (3 n xs)
  then show ?case by (simp add: int_sum_list comp_def algebra_simps cong: map_cong)
next
  case (4 n d)
  then show ?case by (simp add: int_sum_list comp_def algebra_simps cong: map_cong)
qed simp_all

end
