(* ===== verification/EpisodeStore.thy ===== *)
theory EpisodeStore
  imports Authority JsonText
begin

text \<open>
  The tables behind \<open>storage/episodes.py\<close>: the record classes of \<open>storage/models.py\<close>, the
  constraints of the schema in \<open>storage/base.py\<close>, and the shared steps that read a row back
  through its validator or insert one. A transaction either commits a new store or leaves
  the old one; the schema's foreign keys are declared but never switched on.
\<close>

section \<open>Errors and transactions\<close>

datatype store_error =
    StoreValueError | StoreKeyError | StoreTypeError | StoreRuntimeError | StoreAssertionError
  | StoreIntegrityError | StoreValidationError
  | EpisodeNotRunning | EpisodeInvocationCeilingReached
  | EpisodeReportAttemptLimitReached | EpisodeReportConflict
  | AutoResearchExperimentAllowanceReached | AutoResearchInboxClearTooLarge
  | AutoResearchInboxHarvestTooLarge | AutoResearchInboxNoticeUnacknowledgeable
  | AutoResearchActorBusy string string

type_synonym 'a sres = "store_error + 'a"

definition sbind :: "'a sres \<Rightarrow> ('a \<Rightarrow> 'b sres) \<Rightarrow> 'b sres" where
  "sbind m f = (case m of Inl e \<Rightarrow> Inl e | Inr x \<Rightarrow> f x)"

definition sguard :: "bool \<Rightarrow> store_error \<Rightarrow> unit sres" where
  "sguard ok e = (if ok then Inr () else Inl e)"

section \<open>Records\<close>

datatype episode_mode = AutoResearchMode | ExperimentLoopMode

datatype episode_status =
  EQueued | ERunning | EStopping | EWrappingUp | ENeedsAction | ECompleted | EStopped | EFailed

datatype episode_ending = EndCompleted | EndExhausted | EndStopped | EndFailed | EndHumanPause

datatype wrapup_state =
  WNotStarted | WPending | WRunning | WReady | WFailed | WSkipped | WLegacyUnavailable

datatype report_attempt_status = AQueued | ARunning | ASucceeded | AFailed

datatype task_kind =
    SeedTask | RefreshTask | NodeChatTask | ProjectChatTask | PaperCoachTask | AutoResearchTask
  | BranchMergeTask | EpisodeReportTask

datatype task_status = TQueued | TRunning | TPausing | TPaused | TSucceeded | TFailed | TInterrupted

record episode_record =
  ep_episode_id :: string
  ep_project_id :: string
  ep_mode :: episode_mode
  ep_control_node_id :: "string option"
  ep_graph_target :: graph_target
  ep_graph_base_head :: "graph_head option"
  ep_root_operation_id :: "string option"
  ep_status :: episode_status
  ep_invocation_ceiling :: int
  ep_invocations_used :: int
  ep_authorized_by :: "authorized_human option"
  ep_stop_requested_at :: "string option"
  ep_stop_settled_at :: "string option"
  ep_ending :: "episode_ending option"
  ep_ending_diagnostic :: "string option"
  ep_wrapup_state :: wrapup_state
  ep_wrapup_error :: "string option"
  ep_report_attempts_used :: int
  ep_created_at :: string
  ep_updated_at :: string
  ep_ended_at :: "string option"

record invocation_record =
  iv_episode_id :: string
  iv_operation_id :: string
  iv_invocation_number :: int
  iv_created_at :: string

record report_attempt =
  ra_attempt_id :: string
  ra_episode_id :: string
  ra_attempt_number :: int
  ra_allocation_operation_id :: string
  ra_status :: report_attempt_status
  ra_error :: "string option"
  ra_created_at :: string
  ra_updated_at :: string
  ra_finished_at :: "string option"

record report_record =
  rr_report_id :: string
  rr_episode_id :: string
  rr_attempt_id :: string
  rr_allocation_operation_id :: string
  rr_ending :: episode_ending
  rr_sha256 :: string
  rr_html :: string
  rr_created_at :: string

record wrapup_record =
  wu_episode_id :: string
  wu_ending :: "episode_ending option"
  wu_partial :: bool
  wu_concluding_operation_id :: "string option"
  wu_allocation_operation_id :: "string option"
  wu_provider :: "string option"
  wu_run_on :: "string option"
  wu_execution_host :: "string option"
  wu_native_session_id :: "string option"
  wu_stage_host :: "string option"
  wu_stage_root :: "string option"
  wu_skill_id :: "string option"
  wu_skill_version :: "string option"
  wu_output_name :: "string option"
  wu_output_path :: "string option"
  wu_receipt_json :: string
  wu_receipt_sha256 :: string
  wu_state :: wrapup_state
  wu_diagnostic :: "string option"
  wu_created_at :: string
  wu_updated_at :: string
  wu_finished_at :: "string option"

text \<open>
  The columns of \<open>graph_runs\<close>; the projections \<open>AGENT_TASK_PROJECTION_FIELDS\<close> are computed on read.
  \<open>tk_rest\<close> holds the columns no episode operation reads: applied revision, runtime,
  the history flag and the estimates.
\<close>

record agent_task =
  tk_operation_id :: string
  tk_project_id :: string
  tk_episode_id :: "string option"
  tk_kind :: task_kind
  tk_status :: task_status
  tk_request :: doc
  tk_created_at :: string
  tk_updated_at :: string
  tk_started_at :: "string option"
  tk_finished_at :: "string option"
  tk_status_message :: string
  tk_error :: "string option"
  tk_attempt :: int
  tk_parent_operation_id :: "string option"
  tk_native_session_id :: "string option"
  tk_stage_host :: "string option"
  tk_stage_root :: "string option"
  tk_graph_target :: graph_target
  tk_write_scope_fingerprint :: "string option"
  tk_phase :: string
  tk_last_activity_at :: "string option"
  tk_dispatch_authority :: "dispatch_authority option"
  tk_authorized_by :: "authorized_human option"
  tk_visible :: bool
  tk_result :: "pyval option"
  tk_rest :: doc

text \<open>A child Experiment routed to an Auto-research parent, and the notices the parent gets.\<close>

datatype child_state = ChildPending | ChildRunning | ChildCancelled | ChildTerminal

record child_route =
  cr_child_episode_id :: string
  cr_parent_episode_id :: string
  cr_project_id :: string
  cr_control_node_id :: string
  cr_state :: child_state
  cr_replaces_episode_id :: "string option"
  cr_request :: doc
  cr_goal_sha256 :: "string option"
  cr_parent_operation_id :: string
  cr_terminal_diagnostic :: "string option"
  cr_created_at :: string
  cr_updated_at :: string

datatype notice_state = NoticePending | NoticeDelivered | NoticeAcknowledged

record lifecycle_notice =
  ln_notice_id :: string
  ln_episode_id :: string
  ln_source_kind :: string
  ln_source_id :: string
  ln_source_event :: string
  ln_source_attempt :: int
  ln_state :: notice_state
  ln_payload :: doc
  ln_created_at :: string
  ln_delivered_at :: "string option"
  ln_delivery_operation_id :: "string option"
  ln_acknowledged_at :: "string option"
  ln_acknowledged_by :: "string option"

text \<open>The receipt of a keyed inbox command: the notices it acknowledged.\<close>

datatype inbox_mode = Harvest | Clear

record inbox_receipt =
  ir_effect_id :: string
  ir_episode_id :: string
  ir_mode :: inbox_mode
  ir_notice_ids :: "string list"
  ir_count :: nat
  ir_notices :: "lifecycle_notice list"
  ir_acknowledged_by :: string
  ir_created_at :: string

text \<open>A command's admission of a child, and the paid invocations charged to a parent.\<close>

datatype admission_kind = WorkChild | ExperimentChild

datatype admission_state = Accepted | Reflected | AdmissionCancelled

record child_admission =
  ca_admission_id :: string
  ca_episode_id :: string
  ca_project_id :: string
  ca_child_kind :: admission_kind
  ca_child_id :: string
  ca_state :: admission_state
  ca_created_at :: string
  ca_updated_at :: string

record spend_row =
  sp_operation_id :: string
  sp_parent_episode_id :: string
  sp_child_episode_id :: string
  sp_created_at :: string

text \<open>A Work actor spawned by an Auto-research parent, and the attempts of its task.\<close>

record child_work =
  cw_worker_id :: string
  cw_episode_id :: string
  cw_project_id :: string
  cw_control_node_id :: string
  cw_root_operation_id :: string
  cw_current_operation_id :: string
  cw_admitted_by_operation_id :: string
  cw_instruction :: string
  cw_instruction_sha256 :: string
  cw_stop_requested_at :: "string option"
  cw_created_at :: string
  cw_updated_at :: string

record work_attempt =
  wa_operation_id :: string
  wa_worker_id :: string
  wa_allocation_operation_id :: string
  wa_created_at :: string

datatype finish_disposition = Blocked | Completed

record finish_receipt =
  fr_effect_id :: string
  fr_episode_id :: string
  fr_actor_operation_id :: string
  fr_disposition :: finish_disposition
  fr_blocker_count :: nat
  fr_result :: doc
  fr_result_sha256 :: string
  fr_created_at :: string

text \<open>
  The watchers, as far as the stage binding of a chat turn reads them and the end of their
  episode writes them.
\<close>

datatype watcher_status = WatcherActive | WatcherDegraded | WatcherCompleted | WatcherStopped

record watcher_origin =
  wo_watcher_id :: string
  wo_project_id :: string
  wo_origin_task_kind :: task_kind
  wo_chat_id :: string
  wo_origin_operation_id :: string
  wo_episode_id :: "string option"
  wo_status :: watcher_status
  wo_notified :: bool
  wo_next_check_at :: "string option"
  wo_stopped_by :: "string option"
  wo_stop_reason :: "string option"
  wo_stopped_at :: "string option"

text \<open>The row of \<open>experiment_episode_state\<close>: the native session of a loop and its last turn.\<close>

record session_binding =
  sb_provider :: "string option"
  sb_execution_machine :: "string option"
  sb_execution_host :: string
  sb_native_session_id :: "string option"
  sb_stage_host :: "string option"
  sb_stage_root :: "string option"
  sb_chat_id :: "string option"
  sb_last_turn_operation_id :: "string option"
  sb_updated_at :: string

text \<open>The mode-specific state of an Auto-research episode, and its mail.\<close>

record auto_research_state =
  as_episode_id :: string
  as_starting_instruction :: "string option"
  as_created_at :: string
  as_updated_at :: string

datatype message_role = HumanSender | OrchestratorSender | WorkerSender

record auto_message =
  am_message_id :: string
  am_episode_id :: string
  am_sender_role :: message_role
  am_sender_task_id :: "string option"
  am_authorized_by :: "authorized_human option"
  am_recipient_task_id :: string
  am_control_node_id :: "string option"
  am_body :: string
  am_created_at :: string
  am_delivered_at :: "string option"
  am_delivery_operation_id :: "string option"

text \<open>
  The row of \<open>auto_research_invocations\<close>: the role and the actor of a task, and the paid
  invocation it is charged to.
\<close>

datatype auto_research_role = OrchestratorRole | WorkerRole

record auto_invocation =
  ai_episode_id :: string
  ai_operation_id :: string
  ai_allocation_operation_id :: string
  ai_role :: auto_research_role
  ai_actor_operation_id :: string
  ai_control_node_id :: "string option"
  ai_handoffs_cleared_at :: "string option"
  ai_created_at :: string

record usage_row =
  us_operation_id :: string
  us_processed_input_tokens :: int
  us_generated_tokens :: int
  us_counted :: bool

text \<open>A transfer of a project out of its space: side, project and phase.\<close>

type_synonym transfer_row = "string \<times> string \<times> string"

record store =
  st_episodes :: "episode_record dict"
  st_invocations :: "invocation_record list"
  st_wrapups :: "wrapup_record dict"
  st_attempts :: "report_attempt dict"
  st_reports :: "report_record list"
  st_tasks :: "agent_task dict"
  st_receipts :: "(string \<times> string) list"
  st_routes :: "child_route dict"
  st_notices :: "lifecycle_notice list"
  st_admissions :: "child_admission dict"
  st_spend :: "spend_row dict"
  st_child_work :: "child_work dict"
  st_inbox_receipts :: "inbox_receipt dict"
  st_finish_receipts :: "finish_receipt dict"
  st_work_attempts :: "work_attempt dict"
  st_auto_research :: "auto_research_state dict"
  st_auto_invocations :: "auto_invocation dict"
  st_messages :: "auto_message list"
  st_watchers :: "watcher_origin list"
  st_bindings :: "session_binding dict"
  st_usage :: "usage_row list"
  st_transfers :: "transfer_row list"

definition empty_store :: store where
  "empty_store = \<lparr>st_episodes = [], st_invocations = [], st_wrapups = [], st_attempts = [], st_reports = [],
     st_tasks = [], st_receipts = [], st_routes = [], st_notices = [], st_admissions = [], st_spend = [],
     st_child_work = [], st_inbox_receipts = [], st_finish_receipts = [], st_work_attempts = [], st_auto_research = [],
     st_auto_invocations = [], st_messages = [], st_watchers = [], st_bindings = [], st_usage = [], st_transfers = []\<rparr>"

text \<open>
  Functions of the Python library: \<open>str\<close> of a value that is not a string, the hexadecimal digest of
  \<open>hashlib.sha256\<close>, \<open>uuid.uuid5\<close> of a name in the URL namespace, and whether \<open>datetime.fromisoformat\<close> reads
  a time with a zone.
\<close>

record store_env =
  se_str :: "pyval \<Rightarrow> string"
  se_sha256 :: "string \<Rightarrow> string"
  se_uuid5 :: "string \<Rightarrow> string"
  se_timestamp :: "string \<Rightarrow> bool"

section \<open>Rows and their validators\<close>

text \<open>\<open>UPDATE ... WHERE key = ?\<close>.\<close>

definition dmodify :: "string \<Rightarrow> ('v \<Rightarrow> 'v) \<Rightarrow> 'v dict \<Rightarrow> 'v dict" where
  "dmodify k f d = map (\<lambda>kv. if fst kv = k then (fst kv, f (snd kv)) else kv) d"

definition coalesce :: "'a option \<Rightarrow> 'a \<Rightarrow> 'a option" where
  "coalesce x y = (case x of None \<Rightarrow> Some y | Some v \<Rightarrow> Some v)"

definition is_main :: "graph_target \<Rightarrow> bool" where
  "is_main t = (case t of MainTarget \<Rightarrow> True | BranchTarget _ \<Rightarrow> False)"

text \<open>The field bounds and \<open>lifecycle_is_coherent\<close> of \<open>EpisodeRecord\<close>.\<close>

definition episode_coherent :: "episode_record \<Rightarrow> bool" where
  "episode_coherent e \<longleftrightarrow>
     1 \<le> ep_invocation_ceiling e \<and> 0 \<le> ep_invocations_used e
     \<and> 0 \<le> ep_report_attempts_used e \<and> ep_report_attempts_used e \<le> 3
     \<and> ep_invocations_used e \<le> ep_invocation_ceiling e
     \<and> (ep_ending e = Some EndStopped \<longrightarrow> ep_wrapup_state e = WSkipped)
     \<and> (ep_wrapup_state e = WSkipped \<longrightarrow> ep_ending e = Some EndStopped)
     \<and> (ep_mode e = ExperimentLoopMode \<longrightarrow> ep_control_node_id e \<notin> {None, Some []})
     \<and> (ep_mode e = AutoResearchMode \<longrightarrow> ep_control_node_id e = None)
     \<and> (is_main (ep_graph_target e) \<longrightarrow> ep_graph_base_head e = None)
     \<and> (\<not> is_main (ep_graph_target e) \<longrightarrow>
          (case ep_graph_base_head e of None \<Rightarrow> False | Some h \<Rightarrow> gh_target h = MainTarget)
          \<and> (ep_mode e = AutoResearchMode \<longrightarrow> ep_graph_target e = BranchTarget (ep_episode_id e)))
     \<and> (ep_wrapup_state e \<in> {WReady, WFailed} \<longrightarrow> ep_ending e \<noteq> None)"

text \<open>
  \<open>restart_fence_is_coherent\<close> of \<open>EpisodeWrapupRecord\<close>, as far as a later update can touch it: the
  receipt, its digest and the output name are checked when a record is built and never
  rewritten except by a freshly built receipt.
\<close>

definition wrapup_coherent :: "wrapup_record \<Rightarrow> bool" where
  "wrapup_coherent w \<longleftrightarrow>
     (wu_state w = WSkipped \<longrightarrow> wu_ending w = Some EndStopped)
     \<and> (wu_ending w = Some EndStopped \<longrightarrow> wu_state w = WSkipped)
     \<and> (wu_state w \<noteq> WLegacyUnavailable \<longrightarrow> wu_ending w \<noteq> None)"

definition episode_row :: "episode_record \<Rightarrow> episode_record sres" where
  "episode_row e = (if episode_coherent e then Inr e else Inl StoreValidationError)"

definition wrapup_row :: "wrapup_record \<Rightarrow> wrapup_record sres" where
  "wrapup_row w = (if wrapup_coherent w then Inr w else Inl StoreValidationError)"

definition attempt_row :: "report_attempt \<Rightarrow> report_attempt sres" where
  "attempt_row a = (if 1 \<le> ra_attempt_number a \<and> ra_attempt_number a \<le> 3 then Inr a
     else Inl StoreValidationError)"

definition invocation_row :: "invocation_record \<Rightarrow> invocation_record sres" where
  "invocation_row i = (if 1 \<le> iv_invocation_number i then Inr i else Inl StoreValidationError)"

text \<open>\<open>SELECT * FROM episodes WHERE episode_id = ?\<close>, or \<open>KeyError\<close>.\<close>

definition load_episode :: "store \<Rightarrow> string \<Rightarrow> episode_record sres" where
  "load_episode s i = (case dget (st_episodes s) i of
       None \<Rightarrow> Inl StoreKeyError | Some e \<Rightarrow> episode_row e)"

definition episode :: "store \<Rightarrow> string \<Rightarrow> episode_record option sres" where
  "episode s i = (case dget (st_episodes s) i of
       None \<Rightarrow> Inr None | Some e \<Rightarrow> sbind (episode_row e) (\<lambda>r. Inr (Some r)))"

definition episode_wrapup :: "store \<Rightarrow> string \<Rightarrow> wrapup_record option sres" where
  "episode_wrapup s i = (case dget (st_wrapups s) i of
       None \<Rightarrow> Inr None | Some w \<Rightarrow> sbind (wrapup_row w) (\<lambda>r. Inr (Some r)))"

text \<open>A read after the commit: \<open>stored = self.episode(...); assert stored is not None\<close>.\<close>

definition reread :: "'a option sres \<Rightarrow> 'a sres" where
  "reread m = sbind m (\<lambda>r. case r of None \<Rightarrow> Inl StoreAssertionError | Some x \<Rightarrow> Inr x)"

definition reread_task :: "store \<Rightarrow> string \<Rightarrow> agent_task sres" where
  "reread_task s i = (case dget (st_tasks s) i of None \<Rightarrow> Inl StoreAssertionError | Some t \<Rightarrow> Inr t)"

definition transact ::
  "store \<Rightarrow> (store \<times> 'a) sres \<Rightarrow> (store \<Rightarrow> 'a \<Rightarrow> 'b sres) \<Rightarrow> store \<times> 'b sres" where
  "transact s body after = (case body of
       Inl e \<Rightarrow> (s, Inl e) | Inr r \<Rightarrow> (fst r, after (fst r) (snd r)))"

definition status_for_ending :: "episode_ending option \<Rightarrow> episode_status sres" where
  "status_for_ending ending = (case ending of
       Some EndCompleted \<Rightarrow> Inr ECompleted
     | Some EndExhausted \<Rightarrow> Inr ENeedsAction
     | Some EndHumanPause \<Rightarrow> Inr ENeedsAction
     | Some EndFailed \<Rightarrow> Inr EFailed
     | Some EndStopped \<Rightarrow> Inr EStopped
     | None \<Rightarrow> Inl StoreValueError)"

section \<open>Insertions\<close>

definition LIVE_EPISODE_STATUSES :: "episode_status list" where
  "LIVE_EPISODE_STATUSES = [EQueued, ERunning, EStopping, EWrappingUp]"

definition is_live :: "episode_record \<Rightarrow> bool" where
  "is_live e \<longleftrightarrow> ep_status e \<in> set LIVE_EPISODE_STATUSES"

text \<open>The key of the partial unique indexes: one live episode per project or per control node.\<close>

definition same_live_key :: "episode_record \<Rightarrow> episode_record \<Rightarrow> bool" where
  "same_live_key e f \<longleftrightarrow> is_live f \<and> ep_project_id e = ep_project_id f \<and> ep_mode e = ep_mode f
     \<and> (ep_mode e = AutoResearchMode
        \<or> (ep_control_node_id e \<noteq> None \<and> ep_control_node_id e = ep_control_node_id f))"

definition live_episode_row :: "store \<Rightarrow> episode_record \<Rightarrow> bool" where
  "live_episode_row s e \<longleftrightarrow> (\<exists>f \<in> set (dvalues (st_episodes s)). same_live_key e f)"

definition insert_episode :: "store \<Rightarrow> episode_record \<Rightarrow> store sres" where
  "insert_episode s e =
     (if dhas (ep_episode_id e) (st_episodes s) \<or> (is_live e \<and> live_episode_row s e)
        \<or> \<not> (1 \<le> ep_invocation_ceiling e \<and> 0 \<le> ep_invocations_used e
            \<and> ep_invocations_used e \<le> ep_invocation_ceiling e
            \<and> 0 \<le> ep_report_attempts_used e \<and> ep_report_attempts_used e \<le> 3)
      then Inl StoreIntegrityError
      else Inr (s\<lparr>st_episodes := dset (ep_episode_id e) e (st_episodes s)\<rparr>))"

definition insert_invocation :: "store \<Rightarrow> invocation_record \<Rightarrow> store sres" where
  "insert_invocation s i =
     (if iv_invocation_number i < 1
        \<or> (\<exists>j \<in> set (st_invocations s). iv_operation_id j = iv_operation_id i
             \<or> (iv_episode_id j = iv_episode_id i \<and> iv_invocation_number j = iv_invocation_number i))
      then Inl StoreIntegrityError
      else Inr (s\<lparr>st_invocations := st_invocations s @ [i]\<rparr>))"

definition insert_episode_wrapup :: "store \<Rightarrow> wrapup_record \<Rightarrow> store sres" where
  "insert_episode_wrapup s w =
     (if dhas (wu_episode_id w) (st_wrapups s)
        \<or> (wu_allocation_operation_id w \<noteq> None
           \<and> (\<exists>v \<in> set (dvalues (st_wrapups s)). wu_allocation_operation_id v = wu_allocation_operation_id w))
      then Inl StoreIntegrityError
      else Inr (s\<lparr>st_wrapups := dset (wu_episode_id w) w (st_wrapups s)\<rparr>))"

definition insert_attempt :: "store \<Rightarrow> report_attempt \<Rightarrow> store sres" where
  "insert_attempt s a =
     (if dhas (ra_attempt_id a) (st_attempts s) \<or> ra_attempt_number a < 1 \<or> 3 < ra_attempt_number a
        \<or> (\<exists>b \<in> set (dvalues (st_attempts s)). ra_episode_id b = ra_episode_id a
             \<and> ra_attempt_number b = ra_attempt_number a)
      then Inl StoreIntegrityError
      else Inr (s\<lparr>st_attempts := dset (ra_attempt_id a) a (st_attempts s)\<rparr>))"

definition insert_report :: "store \<Rightarrow> report_record \<Rightarrow> store sres" where
  "insert_report s r =
     (if (\<exists>q \<in> set (st_reports s). rr_report_id q = rr_report_id r \<or> rr_episode_id q = rr_episode_id r
          \<or> rr_attempt_id q = rr_attempt_id r
          \<or> rr_allocation_operation_id q = rr_allocation_operation_id r)
      then Inl StoreIntegrityError
      else Inr (s\<lparr>st_reports := st_reports s @ [r]\<rparr>))"

definition require_project_accepts_new_work :: "store \<Rightarrow> string \<Rightarrow> unit sres" where
  "require_project_accepts_new_work s p = sguard (\<not> (\<exists>t \<in> set (st_transfers s).
       fst t = ''source'' \<and> fst (snd t) = p
       \<and> snd (snd t) \<in> {''source_released'', ''source_fenced'', ''archive_bound'',
           ''cleanup_acknowledged'', ''completed''})) StoreValueError"

section \<open>Closing a routed child\<close>

definition ending_name :: "episode_ending \<Rightarrow> string" where
  "ending_name e = (case e of EndCompleted \<Rightarrow> ''completed'' | EndExhausted \<Rightarrow> ''exhausted''
     | EndStopped \<Rightarrow> ''stopped'' | EndFailed \<Rightarrow> ''failed'' | EndHumanPause \<Rightarrow> ''human_pause'')"

definition status_name :: "episode_status \<Rightarrow> string" where
  "status_name x = (case x of EQueued \<Rightarrow> ''queued'' | ERunning \<Rightarrow> ''running'' | EStopping \<Rightarrow> ''stopping''
     | EWrappingUp \<Rightarrow> ''wrapping_up'' | ENeedsAction \<Rightarrow> ''needs_action'' | ECompleted \<Rightarrow> ''completed''
     | EStopped \<Rightarrow> ''stopped'' | EFailed \<Rightarrow> ''failed'')"

definition source_event :: "episode_ending \<Rightarrow> string" where
  "source_event e = (if e = EndHumanPause then ''needs_action'' else ending_name e)"

definition compact_episode_receipt :: "store_env \<Rightarrow> doc \<Rightarrow> string \<times> string" where
  "compact_episode_receipt E d = (case json_text (se_str E) True None (json_sorted (VDict d)) of
       Some t \<Rightarrow> (t, se_sha256 E t) | None \<Rightarrow> ([], []))"

section \<open>Lifecycle notices\<close>

definition AGENT_COMMAND_EVENT_MAX_BYTES :: int where
  "AGENT_COMMAND_EVENT_MAX_BYTES = 32 * 1024"

text \<open>The projection of an inbox command and its two encodings, measured before it is acknowledged.\<close>

definition notice_projection :: "lifecycle_notice \<Rightarrow> pyval" where
  "notice_projection n = VDict [(''notice_id'', VStr (ln_notice_id n)), (''source_kind'', VStr (ln_source_kind n)),
     (''source_id'', VStr (ln_source_id n)), (''source_event'', VStr (ln_source_event n)),
     (''source_attempt'', VInt (ln_source_attempt n)), (''payload'', VDict (ln_payload n)),
     (''created_at'', VStr (ln_created_at n))]"

definition inbox_projection :: "inbox_mode \<Rightarrow> lifecycle_notice list \<Rightarrow> doc \<times> string" where
  "inbox_projection m ns = (case m of
       Harvest \<Rightarrow> ([(''action'', VStr ''harvest''), (''count'', VInt (int (length ns))),
           (''notices'', VList (map notice_projection ns))],
         ''Harvested and acknowledged '' @ nat_text (length ns) @ '' lifecycle notice(s).'')
     | Clear \<Rightarrow> ([(''action'', VStr ''clear''), (''count'', VInt (int (length ns))),
           (''notice_ids'', VList (map (VStr \<circ> ln_notice_id) ns))],
         ''Cleared '' @ nat_text (length ns) @ '' lifecycle notice(s).''))"

definition exit_document :: "doc \<times> string \<Rightarrow> pyval" where
  "exit_document p = VDict [(''status'', VStr ''ok''), (''result'', VDict (fst p)), (''diagnostic'', VStr (snd p))]"

definition response_document :: "doc \<times> string \<Rightarrow> pyval" where
  "response_document p = VDict [(''version'', VInt 1), (''request_id'', VStr (replicate 32 CHR ''0'')),
     (''status'', VStr ''ok''), (''message'', VStr (snd p)), (''result'', VDict (fst p))]"

definition effect_fits :: "store_env \<Rightarrow> doc \<times> string \<Rightarrow> bool" where
  "effect_fits E p =
    (case (json_text (se_str E) False None (json_sorted (exit_document p)),
       json_text (se_str E) False (Some 0) (response_document p)) of
       (Some exit_text, Some response) \<Rightarrow>
         max (int (utf8_length exit_text)) (int (utf8_length response) + 1) \<le> AGENT_COMMAND_EVENT_MAX_BYTES
     | _ \<Rightarrow> False)"

definition inbox_effect_fits :: "store_env \<Rightarrow> inbox_mode \<Rightarrow> lifecycle_notice list \<Rightarrow> bool" where
  "inbox_effect_fits E m ns = effect_fits E (inbox_projection m ns)"

definition bounded_notice :: "store_env \<Rightarrow> lifecycle_notice \<Rightarrow> lifecycle_notice sres" where
  "bounded_notice E n =
    (if inbox_effect_fits E Harvest [n] then Inr n
     else case dget (ln_payload n) ''diagnostic'' of
       Some (VStr x) \<Rightarrow>
         (let b = n\<lparr>ln_payload := dset ''diagnostic_truncated'' (VBool True)
            (dset ''diagnostic'' (VStr (take 2000 x)) (ln_payload n))\<rparr> in
          if inbox_effect_fits E Harvest [b] then Inr b else Inl StoreValueError)
     | _ \<Rightarrow> Inl StoreValueError)"

definition notice_coherent :: "lifecycle_notice \<Rightarrow> bool" where
  "notice_coherent n \<longleftrightarrow> (ln_delivered_at n = None) = (ln_delivery_operation_id n = None)
     \<and> (ln_acknowledged_at n = None) = (ln_acknowledged_by n = None)
     \<and> ln_state n = (if ln_acknowledged_at n \<noteq> None then NoticeAcknowledged
         else if ln_delivered_at n \<noteq> None then NoticeDelivered else NoticePending)
     \<and> 1 \<le> ln_source_attempt n"

definition notice_row :: "lifecycle_notice \<Rightarrow> lifecycle_notice sres" where
  "notice_row n = (if notice_coherent n then Inr n else Inl StoreValidationError)"

definition notice_id :: "store_env \<Rightarrow> string \<Rightarrow> string \<Rightarrow> string \<Rightarrow> string \<Rightarrow> int \<Rightarrow> string" where
  "notice_id E episode_id kind source event attempt = se_uuid5 E (separated '':''
     [''rcp'', ''auto-research-lifecycle'', episode_id, kind, source, event, int_text attempt])"

definition new_notice :: "store_env \<Rightarrow> string \<Rightarrow> string \<Rightarrow> string \<Rightarrow> string \<Rightarrow> doc \<Rightarrow> string \<Rightarrow> lifecycle_notice" where
  "new_notice E parent kind source event payload now = \<lparr>ln_notice_id = notice_id E parent kind source event 1,
     ln_episode_id = parent, ln_source_kind = kind, ln_source_id = source, ln_source_event = event,
     ln_source_attempt = 1, ln_state = NoticePending, ln_payload = payload, ln_created_at = now,
     ln_delivered_at = None, ln_delivery_operation_id = None, ln_acknowledged_at = None, ln_acknowledged_by = None\<rparr>"

definition load_auto_research_episode :: "store \<Rightarrow> string \<Rightarrow> episode_record sres" where
  "load_auto_research_episode s i = (case dget (st_episodes s) i of
       Some e \<Rightarrow> if dhas i (st_auto_research s) \<and> ep_mode e = AutoResearchMode then episode_row e
         else Inl StoreKeyError
     | None \<Rightarrow> Inl StoreKeyError)"

definition same_payload :: "doc \<Rightarrow> doc \<Rightarrow> bool" where
  "same_payload d e \<longleftrightarrow> py_eq (VDict d) (VDict e)"

definition same_source :: "lifecycle_notice \<Rightarrow> lifecycle_notice \<Rightarrow> bool" where
  "same_source n m \<longleftrightarrow> ln_episode_id m = ln_episode_id n \<and> ln_source_kind m = ln_source_kind n
     \<and> ln_source_id m = ln_source_id n \<and> ln_source_event m = ln_source_event n
     \<and> ln_source_attempt m = ln_source_attempt n"

text \<open>The row written holds no delivery and no acknowledgment, whatever the record said.\<close>

definition insert_lifecycle_notice ::
  "store_env \<Rightarrow> store \<Rightarrow> lifecycle_notice \<Rightarrow> (store \<times> lifecycle_notice) sres" where
  "insert_lifecycle_notice E s n =
     sbind (sguard (ln_state n = NoticePending) StoreValueError) (\<lambda>_.
     sbind (load_auto_research_episode s (ln_episode_id n)) (\<lambda>_.
     case find (same_source n) (st_notices s) of
       Some m \<Rightarrow> sbind (notice_row m) (\<lambda>m.
         if same_payload (ln_payload m) (ln_payload n) then Inr (s, m)
         else (case bounded_notice E n of
             Inr b \<Rightarrow> if same_payload (ln_payload m) (ln_payload b) then Inr (s, m) else Inl StoreValueError
           | Inl _ \<Rightarrow> Inl StoreValueError))
     | None \<Rightarrow> sbind (bounded_notice E n) (\<lambda>b.
         sbind (sguard (\<not> (\<exists>m \<in> set (st_notices s). ln_notice_id m = ln_notice_id b)) StoreIntegrityError) (\<lambda>_.
         Inr (s\<lparr>st_notices := st_notices s @ [b\<lparr>ln_delivered_at := None, ln_delivery_operation_id := None,
           ln_acknowledged_at := None, ln_acknowledged_by := None\<rparr>]\<rparr>, b)))))"

definition terminalize_child ::
  "store_env \<Rightarrow> store \<Rightarrow> string \<Rightarrow> episode_status \<Rightarrow> episode_ending \<Rightarrow> string option \<Rightarrow> string \<Rightarrow> store sres" where
  "terminalize_child E s child status ending diagnostic now =
    (case dget (st_routes s) child of
       None \<Rightarrow> Inr s
     | Some r \<Rightarrow>
        if cr_state r \<notin> {ChildRunning, ChildTerminal} then Inl StoreValueError
        else
          (let s1 = (if cr_state r = ChildRunning
                 then s\<lparr>st_routes := dmodify child (\<lambda>r. r\<lparr>cr_state := ChildTerminal,
                   cr_terminal_diagnostic := diagnostic, cr_updated_at := now\<rparr>) (st_routes s)\<rparr>
                 else s);
               payload = [(''episode_id'', VStr child), (''status'', VStr (status_name status)),
                   (''ending'', VStr (ending_name ending))]
                 @ (case diagnostic of
                      Some d \<Rightarrow> if d = [] then [] else [(''diagnostic'', VStr d)] | None \<Rightarrow> []) in
           sbind (insert_lifecycle_notice E s1 (new_notice E (cr_parent_episode_id r) ''experiment_episode'' child
             (source_event ending) payload now)) (\<lambda>r. Inr (fst r))))"


section \<open>Deciding that a response fits\<close>

text \<open>A bound on both encodings decides most cases without printing them.\<close>

lemma effect_fits_cheap:
  assumes "sized (VDict (fst p))" and "json_weight 0 (exit_document p) \<le> AGENT_COMMAND_EVENT_MAX_BYTES"
    and "json_weight 0 (response_document p) < AGENT_COMMAND_EVENT_MAX_BYTES"
  shows "effect_fits E p"
proof -
  have "sized (json_sorted (exit_document p))" "sized (response_document p)"
    unfolding sized_sorted using assms(1) by (simp_all add: exit_document_def response_document_def)
  then obtain x y where "json_text (se_str E) False None (json_sorted (exit_document p)) = Some x"
      "utf8_length x \<le> json_cost 0 (exit_document p)"
      "json_text (se_str E) False (Some 0) (response_document p) = Some y"
      "utf8_length y \<le> json_cost 0 (response_document p)"
    using json_text_sized [of "json_sorted (exit_document p)" None 0 "se_str E" False]
      json_text_sized [of "response_document p" "Some 0" 0 "se_str E" False] by (metis cost_sorted le_refl option.sel option.distinct(1))
  then show ?thesis using assms(2,3) json_weight [of 0 "exit_document p"] json_weight [of 0 "response_document p"]
    by (simp add: effect_fits_def)
qed

lemma effect_fits_code [code]:
  "effect_fits E p =
    (if sized (VDict (fst p)) \<and> json_weight 0 (exit_document p) \<le> AGENT_COMMAND_EVENT_MAX_BYTES
       \<and> json_weight 0 (response_document p) < AGENT_COMMAND_EVENT_MAX_BYTES then True
     else (case (json_text (se_str E) False None (json_sorted (exit_document p)),
       json_text (se_str E) False (Some 0) (response_document p)) of
       (Some exit_text, Some response) \<Rightarrow>
         max (int (utf8_length exit_text)) (int (utf8_length response) + 1) \<le> AGENT_COMMAND_EVENT_MAX_BYTES
     | _ \<Rightarrow> False))"
  using effect_fits_cheap [of p E] by (simp add: effect_fits_def)

end
