(* ===== verification/TaskAdmission.thy ===== *)
theory TaskAdmission
  imports EpisodeStore
begin

text \<open>
  Admitting an agent task to the store: \<open>_insert_agent_task\<close> of \<open>storage/agent_tasks.py\<close> with the
  checks it runs in its transaction. The dispatch authority of Auto-research actors and of
  continuations, the stage of a conversation, the control binding of bounded experiment loops
  (\<open>storage/experiments.py\<close>) and the graph target.
\<close>

section \<open>Values of a request\<close>

definition smap :: "('a \<Rightarrow> 'b sres) \<Rightarrow> 'a list \<Rightarrow> 'b list sres" where
  "smap f xs = foldr (\<lambda>x acc. sbind (f x) (\<lambda>y. sbind acc (\<lambda>ys. Inr (y # ys)))) xs (Inr [])"

definition filled :: "string option \<Rightarrow> bool" where
  "filled x \<longleftrightarrow> x \<notin> {None, Some []}"

definition or_empty :: "string option \<Rightarrow> string" where
  "or_empty x = (case x of None \<Rightarrow> [] | Some v \<Rightarrow> v)"

definition vopt_str :: "string option \<Rightarrow> pyval" where
  "vopt_str x = (case x of None \<Rightarrow> VNone | Some v \<Rightarrow> VStr v)"

text \<open>\<open>request.get(field)\<close>, and a field that earlier checks have shown to be a string or an integer.\<close>

definition rget :: "doc \<Rightarrow> string \<Rightarrow> pyval" where
  "rget r k = (case dget r k of None \<Rightarrow> VNone | Some v \<Rightarrow> v)"

definition str_field :: "doc \<Rightarrow> string \<Rightarrow> string" where
  "str_field r k = (case dget r k of Some (VStr x) \<Rightarrow> x | _ \<Rightarrow> [])"

definition int_field :: "doc \<Rightarrow> string \<Rightarrow> int" where
  "int_field r k = (case dget r k of Some (VInt n) \<Rightarrow> n | _ \<Rightarrow> 0)"

text \<open>
  \<open>json_extract(request_json, '$.field') = ?\<close> for a string and for a number: a string equals only
  a string, and a number, true or false equals by value.
\<close>

definition has_text :: "doc \<Rightarrow> string \<Rightarrow> string \<Rightarrow> bool" where
  "has_text r k x \<longleftrightarrow> dget r k = Some (VStr x)"

definition has_number :: "doc \<Rightarrow> string \<Rightarrow> pyval \<Rightarrow> bool" where
  "has_number r k v \<longleftrightarrow> num_of v \<noteq> None \<and> num_of (rget r k) = num_of v"

text \<open>\<open>int(s, base)\<close>: surrounding space, a sign, the prefix of base 16, single underscores between digits.\<close>

definition digit_value :: "char \<Rightarrow> int option" where
  "digit_value c = (let n = of_char c in
     if 48 \<le> n \<and> n \<le> 57 then Some (n - 48) else if 65 \<le> n \<and> n \<le> 90 then Some (n - 55)
     else if 97 \<le> n \<and> n \<le> 122 then Some (n - 87) else None)"

fun digits_value :: "int \<Rightarrow> int \<Rightarrow> string \<Rightarrow> int option" where
  "digits_value b acc [] = Some acc"
| "digits_value b acc (c # cs) =
     (if c = CHR ''_'' then
        (case cs of [] \<Rightarrow> None | d # _ \<Rightarrow> if d = CHR ''_'' then None else digits_value b acc cs)
      else case digit_value c of
          None \<Rightarrow> None
        | Some v \<Rightarrow> if v < b then digits_value b (acc * b + v) cs else None)"

definition signed :: "string \<Rightarrow> int \<times> string" where
  "signed s = (case s of [] \<Rightarrow> (1, [])
     | c # cs \<Rightarrow> if c = CHR ''-'' then (-1, cs) else if c = CHR ''+'' then (1, cs) else (1, s))"

definition unprefixed :: "int \<Rightarrow> string \<Rightarrow> string" where
  "unprefixed b s = (if b = 16 \<and> (starts_with s ''0x'' \<or> starts_with s ''0X'')
     then (if starts_with (drop 2 s) ''_'' then drop 3 s else drop 2 s) else s)"

definition py_int :: "int \<Rightarrow> string \<Rightarrow> int option" where
  "py_int b s = (let (sign, u) = signed (py_strip s); v = unprefixed b u in
     if v = [] \<or> hd v = CHR ''_'' then None else map_option (\<lambda>n. sign * n) (digits_value b 0 v))"

text \<open>\<open>int(item["control_invocation"])\<close>.\<close>

definition int_of :: "doc \<Rightarrow> string \<Rightarrow> int sres" where
  "int_of r k = (case dget r k of
       None \<Rightarrow> Inl StoreKeyError
     | Some (VInt n) \<Rightarrow> Inr n
     | Some (VBool b) \<Rightarrow> Inr (of_bool b)
     | Some (VFloat q) \<Rightarrow> Inr (if 0 \<le> q then floor q else - floor (- q))
     | Some (VStr x) \<Rightarrow> (case py_int 10 x of None \<Rightarrow> Inl StoreValueError | Some n \<Rightarrow> Inr n)
     | Some _ \<Rightarrow> Inl StoreTypeError)"

text \<open>\<open>uuid.UUID(text)\<close> succeeds.\<close>

fun without :: "string \<Rightarrow> nat \<Rightarrow> string \<Rightarrow> string" where
  "without p k [] = []"
| "without p (Suc k) (c # cs) = without p k cs"
| "without p 0 (c # cs) = (if starts_with (c # cs) p then without p (length p - 1) cs else c # without p 0 cs)"

definition uuid_text :: "string \<Rightarrow> bool" where
  "uuid_text x \<longleftrightarrow> (let brace = (\<lambda>c. c \<in> {CHR ''{'', CHR ''}''});
       plain = without ''uuid:'' 0 (without ''urn:'' 0 x);
       h = filter (\<lambda>c. c \<noteq> CHR ''-'') (rev (dropWhile brace (rev (dropWhile brace plain)))) in
     length h = 32 \<and> (case py_int 16 h of None \<Rightarrow> False | Some n \<Rightarrow> 0 \<le> n))"

section \<open>Authority and stage\<close>

definition AGENT_TASK_CONTINUATION_CAUSES :: "string list" where
  "AGENT_TASK_CONTINUATION_CAUSES = [''fresh'', ''resume'', ''retry'', ''handoff'', ''graph_repair'',
     ''watcher_wake'', ''graph_condition_wake'', ''message_wake'', ''lifecycle_wake'',
     ''auto_research_continuation'', ''episode_report'']"

fun contains_legacy_lineage_key :: "pyval \<Rightarrow> bool" where
  "contains_legacy_lineage_key (VDict d) = (''campaign_id'' \<in> set (map fst d)
     \<or> list_ex (\<lambda>kv. contains_legacy_lineage_key (snd kv)) d)"
| "contains_legacy_lineage_key (VList xs) = list_ex contains_legacy_lineage_key xs"
| "contains_legacy_lineage_key _ = False"

definition validate_report_authority :: "store \<Rightarrow> agent_task \<Rightarrow> unit sres" where
  "validate_report_authority s t = (case (tk_episode_id t, tk_parent_operation_id t) of
       (Some e, Some p) \<Rightarrow>
         if tk_dispatch_authority t \<noteq> None then Inl StoreValueError
         else sguard (case dget (st_tasks s) p of
             None \<Rightarrow> False
           | Some q \<Rightarrow> tk_episode_id q = Some e \<and> tk_visible q \<and> tk_kind q \<noteq> EpisodeReportTask
               \<and> tk_project_id q = tk_project_id t) StoreValueError
     | _ \<Rightarrow> Inl StoreValueError)"

text \<open>The role of a request, and \<open>sorted(set(request.get("run_truth_scope") or ()))\<close>.\<close>

definition role_of :: "doc \<Rightarrow> auto_research_role sres" where
  "role_of r = (case dget r ''role'' of
       Some (VStr x) \<Rightarrow> if x = ''orchestrator'' then Inr OrchestratorRole
         else if x = ''worker'' then Inr WorkerRole else Inl StoreValidationError
     | _ \<Rightarrow> Inl StoreValidationError)"

definition truth_scope_of :: "doc \<Rightarrow> string list sres" where
  "truth_scope_of r = (let v = rget r ''run_truth_scope'' in
     if \<not> truthy v then Inr []
     else case py_iter v of
         Inl _ \<Rightarrow> Inl StoreTypeError
       | Inr xs \<Rightarrow> if list_all (\<lambda>x. case x of VStr _ \<Rightarrow> True | _ \<Rightarrow> False) xs
           then Inr (sorted_set (map (\<lambda>x. case x of VStr y \<Rightarrow> y | _ \<Rightarrow> []) xs))
           else Inl StoreValidationError)"

definition expected_authority :: "auto_research_role \<Rightarrow> string list \<Rightarrow> string \<Rightarrow> dispatch_authority" where
  "expected_authority role scope i =
     \<lparr>da_profile = (if role = OrchestratorRole then Orchestrator else Ordinary),
      da_task_contract = (if role = OrchestratorRole then Orchestrate else WorkAuto),
      da_scope = \<lparr>ds_run_truth_scope = scope, ds_episode_id = Some i, ds_chat_scope = None,
        ds_chat_id = None, ds_node_id = None, ds_patch_kind = Some Work, ds_control_node_id = None,
        ds_control_episode_id = None\<rparr>\<rparr>"

text \<open>A task of the episode joined with its row of \<open>auto_research_invocations\<close>.\<close>

definition auto_row :: "store \<Rightarrow> string \<Rightarrow> string \<Rightarrow> (agent_task \<times> auto_invocation) option" where
  "auto_row s op i = (case (dget (st_tasks s) op, dget (st_auto_invocations s) op) of
       (Some q, Some a) \<Rightarrow> if tk_episode_id q = Some i then Some (q, a) else None
     | _ \<Rightarrow> None)"

text \<open>A new worker inherits the orchestrator's scope.\<close>

definition worker_inherits :: "agent_task \<Rightarrow> dispatch_authority \<Rightarrow> bool" where
  "worker_inherits q d \<longleftrightarrow> (case tk_dispatch_authority q of
       None \<Rightarrow> False
     | Some a \<Rightarrow> da_profile a = Orchestrator \<and> da_task_contract a = Orchestrate
         \<and> ds_episode_id (da_scope d) = ds_episode_id (da_scope a)
         \<and> ds_run_truth_scope (da_scope d) = ds_run_truth_scope (da_scope a))"

text \<open>
  A continuation keeps the authority of its actor's first task. Only where that task was
  recorded before authority existed may the next attempt of the same actor bind today's.
\<close>

definition continues_actor ::
  "store \<Rightarrow> agent_task \<Rightarrow> string \<Rightarrow> string \<Rightarrow> auto_research_role \<Rightarrow> agent_task \<times> auto_invocation \<Rightarrow> bool" where
  "continues_actor s t i actor role parent \<longleftrightarrow> (case auto_row s actor i of
       None \<Rightarrow> False
     | Some (o', a) \<Rightarrow> ai_role a = role
         \<and> (case tk_dispatch_authority o' of
              Some d \<Rightarrow> tk_dispatch_authority t = Some d
            | None \<Rightarrow> tk_attempt t = tk_attempt (fst parent) + 1
                \<and> ai_actor_operation_id (snd parent) = actor
                \<and> tk_dispatch_authority (fst parent) = None))"

definition validate_actor ::
  "store \<Rightarrow> agent_task \<Rightarrow> string \<Rightarrow> string \<Rightarrow> auto_research_role \<Rightarrow> dispatch_authority \<Rightarrow> unit sres" where
  "validate_actor s t i actor role d = (case tk_parent_operation_id t of
       None \<Rightarrow> sguard (role = OrchestratorRole \<and> actor = tk_operation_id t) StoreValueError
     | Some p \<Rightarrow> (case auto_row s p i of
         None \<Rightarrow> Inl StoreValueError
       | Some parent \<Rightarrow>
           if tk_project_id (fst parent) \<noteq> tk_project_id t \<or> tk_kind (fst parent) \<noteq> tk_kind t then Inl StoreValueError
           else if actor = tk_operation_id t
           then sguard (role = WorkerRole \<and> ai_role (snd parent) = OrchestratorRole
             \<and> worker_inherits (fst parent) d) StoreValueError
           else sguard (continues_actor s t i actor role parent) StoreValueError))"

definition validate_auto_research_authority :: "store \<Rightarrow> agent_task \<Rightarrow> unit sres" where
  "validate_auto_research_authority s t = (case tk_episode_id t of
       None \<Rightarrow> Inl StoreValueError
     | Some i \<Rightarrow>
         if \<not> dhas i (st_auto_research s) then Inl StoreValueError
         else sbind (role_of (tk_request t)) (\<lambda>role.
           case dget (tk_request t) ''actor_operation_id'' of
             Some (VStr raw) \<Rightarrow>
               if py_strip raw = [] then Inl StoreValueError
               else sbind (truth_scope_of (tk_request t)) (\<lambda>scope.
                 let d = expected_authority role scope i in
                 if i = [] then Inl StoreValidationError
                 else case require_normalized_scope (da_scope d) of
                     Inl _ \<Rightarrow> Inl StoreValidationError
                   | Inr _ \<Rightarrow> (case require_dispatch d of
                       Inl _ \<Rightarrow> Inl StoreValueError
                     | Inr _ \<Rightarrow> if tk_dispatch_authority t \<noteq> Some d then Inl StoreValueError
                         else validate_actor s t i (py_strip raw) role d))
           | _ \<Rightarrow> Inl StoreValueError))"

definition validate_continuation_authority :: "store \<Rightarrow> agent_task \<Rightarrow> unit sres" where
  "validate_continuation_authority s t = (case tk_parent_operation_id t of
       None \<Rightarrow> Inr ()
     | Some p \<Rightarrow> (case dget (st_tasks s) p of
         None \<Rightarrow> Inl StoreValueError
       | Some q \<Rightarrow>
           if tk_project_id q \<noteq> tk_project_id t \<or> tk_kind q \<noteq> tk_kind t then Inl StoreValueError
           else sguard (tk_dispatch_authority q = None
             \<or> tk_dispatch_authority t = tk_dispatch_authority q) StoreValueError))"

definition validate_dispatch_authority_insert :: "store \<Rightarrow> agent_task \<Rightarrow> unit sres" where
  "validate_dispatch_authority_insert s t =
     (if tk_kind t = EpisodeReportTask then validate_report_authority s t
      else if tk_kind t = AutoResearchTask then validate_auto_research_authority s t
      else validate_continuation_authority s t)"

definition nonempty_str :: "pyval option \<Rightarrow> string option" where
  "nonempty_str v = (case v of Some (VStr x) \<Rightarrow> if x = [] then None else Some x | _ \<Rightarrow> None)"

text \<open>A list of watcher ids all of which are non-empty strings.\<close>

definition watcher_id_list :: "pyval option \<Rightarrow> string list" where
  "watcher_id_list v = (case v of
       Some (VList xs) \<Rightarrow> if list_all (\<lambda>x. nonempty_str (Some x) \<noteq> None) xs
         then map (\<lambda>x. the (nonempty_str (Some x))) xs else []
     | _ \<Rightarrow> [])"

definition same_chat :: "agent_task \<Rightarrow> agent_task \<Rightarrow> bool" where
  "same_chat t q \<longleftrightarrow> tk_project_id q = tk_project_id t \<and> tk_kind q = tk_kind t"

definition stage_pair :: "agent_task \<Rightarrow> string \<times> string" where
  "stage_pair q = ((case tk_stage_host q of None \<Rightarrow> [] | Some h \<Rightarrow> h), the (tk_stage_root q))"

definition has_stage :: "agent_task \<Rightarrow> bool" where
  "has_stage q \<longleftrightarrow> tk_stage_root q \<notin> {None, Some []}"

definition session_runs :: "store \<Rightarrow> agent_task \<Rightarrow> string \<Rightarrow> agent_task list" where
  "session_runs s t sid = filter (\<lambda>q. same_chat t q \<and> tk_native_session_id q = Some sid)
     (dvalues (st_tasks s))"

definition watcher_runs :: "store \<Rightarrow> agent_task \<Rightarrow> string \<Rightarrow> string list \<Rightarrow> agent_task list" where
  "watcher_runs s t chat ids = filter (\<lambda>q. \<exists>w \<in> set (st_watchers s).
       wo_watcher_id w \<in> set ids \<and> wo_project_id w = tk_project_id t
       \<and> wo_origin_task_kind w = tk_kind t \<and> wo_chat_id w = chat
       \<and> wo_origin_operation_id w = tk_operation_id q) (dvalues (st_tasks s))"

definition bind_saved :: "agent_task \<Rightarrow> agent_task list \<Rightarrow> agent_task sres" where
  "bind_saved t runs = (case remdups (map stage_pair (filter has_stage runs)) of
       [] \<Rightarrow> Inr t
     | [b] \<Rightarrow> Inr (t\<lparr>tk_stage_host := (if fst b = [] then None else Some (fst b)),
         tk_stage_root := Some (snd b)\<rparr>)
     | _ \<Rightarrow> Inl StoreValueError)"

definition bind_chat_stage :: "store \<Rightarrow> agent_task \<Rightarrow> agent_task sres" where
  "bind_chat_stage s t =
    (if tk_kind t \<notin> {NodeChatTask, ProjectChatTask} \<or> tk_stage_root t \<noteq> None then Inr t
     else case nonempty_str (dget (tk_request t) ''chat_id'') of
       None \<Rightarrow> Inr t
     | Some chat \<Rightarrow>
        (let of_chat = (\<lambda>q. dget (tk_request q) ''chat_id'' = Some (VStr chat)) in
         if list_ex (\<lambda>q. same_chat t q \<and> of_chat q \<and> tk_graph_target q \<noteq> tk_graph_target t)
              (dvalues (st_tasks s)) then Inl StoreValueError
         else case nonempty_str (dget (tk_request t) ''session_id'') of
           Some sid \<Rightarrow>
             if list_ex (\<lambda>q. tk_graph_target q \<noteq> tk_graph_target t \<or> \<not> of_chat q) (session_runs s t sid)
             then Inl StoreValueError
             else bind_saved t (session_runs s t sid)
         | None \<Rightarrow>
             if dget (tk_request t) ''trigger'' = Some (VStr ''watcher'')
                \<and> watcher_id_list (dget (tk_request t) ''watcher_ids'') \<noteq> []
             then bind_saved t (watcher_runs s t chat
               (watcher_id_list (dget (tk_request t) ''watcher_ids'')))
             else Inr t))"

section \<open>Bounded experiment loops\<close>

definition EXPERIMENT_EPISODE_PINNED_FIELDS :: "string list" where
  "EXPERIMENT_EPISODE_PINNED_FIELDS = [''run_on'', ''run_truth_scope'', ''chat_id'', ''control_node_id'',
     ''control_revision'', ''control_episode_id'', ''control_invocation_ceiling'',
     ''control_decision_bundle'', ''control_completion_criteria'']"

definition py_str :: "store_env \<Rightarrow> pyval \<Rightarrow> string" where
  "py_str E v = (case v of VStr x \<Rightarrow> x | _ \<Rightarrow> se_str E v)"

definition experiment_pinned_value :: "store_env \<Rightarrow> doc \<Rightarrow> string \<Rightarrow> pyval" where
  "experiment_pinned_value E r k = (case rget r k of
       VList xs \<Rightarrow> if k = ''run_truth_scope'' then VList (map VStr (sorted_set (map (py_str E) xs))) else VList xs
     | v \<Rightarrow> v)"

definition same_pinned :: "store_env \<Rightarrow> string list \<Rightarrow> doc \<Rightarrow> doc \<Rightarrow> bool" where
  "same_pinned E ks a b \<longleftrightarrow>
     list_all (\<lambda>k. py_eq (experiment_pinned_value E a k) (experiment_pinned_value E b k)) ks"

definition is_loop :: "doc \<Rightarrow> bool" where
  "is_loop r \<longleftrightarrow> dget r ''patch_kind'' = Some (VStr ''experiment_loop'')"

definition is_text :: "pyval \<Rightarrow> bool" where
  "is_text v \<longleftrightarrow> (case v of VStr _ \<Rightarrow> True | _ \<Rightarrow> False)"

text \<open>The binding every loop task pins. A boolean is an \<open>int\<close> of Python and is excluded by name.\<close>

definition loop_shape :: "agent_task \<Rightarrow> bool" where
  "loop_shape t \<longleftrightarrow> (let r = tk_request t in
     (case dget r ''control_node_id'' of Some (VStr n) \<Rightarrow> n \<noteq> [] | _ \<Rightarrow> False)
     \<and> (case dget r ''control_revision'' of Some (VInt _) \<Rightarrow> True | _ \<Rightarrow> False)
     \<and> (case dget r ''control_decision_bundle'' of Some (VList _) \<Rightarrow> True | _ \<Rightarrow> False)
     \<and> (case dget r ''control_completion_criteria'' of Some (VList xs) \<Rightarrow> list_all is_text xs | _ \<Rightarrow> False)
     \<and> (case dget r ''control_episode_id'' of
          Some (VStr x) \<Rightarrow> uuid_text x \<and> tk_episode_id t = Some x | _ \<Rightarrow> False)
     \<and> (case (dget r ''control_invocation'', dget r ''control_invocation_ceiling'') of
          (Some (VInt n), Some (VInt c)) \<Rightarrow> 1 \<le> n \<and> 1 \<le> c \<and> n \<le> c | _ \<Rightarrow> False))"

definition loop_tasks :: "store \<Rightarrow> string \<Rightarrow> string \<Rightarrow> agent_task list" where
  "loop_tasks s p n = filter (\<lambda>q. tk_project_id q = p \<and> is_loop (tk_request q)
     \<and> has_text (tk_request q) ''control_node_id'' n) (dvalues (st_tasks s))"

definition loop_roots :: "store \<Rightarrow> string \<Rightarrow> string \<Rightarrow> agent_task list" where
  "loop_roots s p n = filter (\<lambda>q. tk_parent_operation_id q = None) (loop_tasks s p n)"

definition episode_roots :: "store \<Rightarrow> string \<Rightarrow> string \<Rightarrow> string \<Rightarrow> agent_task list" where
  "episode_roots s p n x = filter (\<lambda>q. has_text (tk_request q) ''control_episode_id'' x) (loop_roots s p n)"

text \<open>\<open>ORDER BY created_at DESC, rowid DESC LIMIT 1\<close>.\<close>

definition newest_root :: "store \<Rightarrow> string \<Rightarrow> string \<Rightarrow> agent_task option" where
  "newest_root s p n = (case sort_key tk_created_at (loop_roots s p n) of [] \<Rightarrow> None | qs \<Rightarrow> Some (last qs))"

definition experiment_episode_row :: "store \<Rightarrow> string \<Rightarrow> (session_binding \<times> episode_record) option" where
  "experiment_episode_row s i = (case (dget (st_bindings s) i, dget (st_episodes s) i) of
       (Some b, Some e) \<Rightarrow> if ep_mode e = ExperimentLoopMode then Some (b, e) else None
     | _ \<Rightarrow> None)"

definition wake_binding_matches :: "agent_task \<Rightarrow> string \<Rightarrow> session_binding \<Rightarrow> episode_record \<Rightarrow> doc \<Rightarrow> bool" where
  "wake_binding_matches t sid b e q \<longleftrightarrow> (let r = tk_request t in
     ep_project_id e = tk_project_id t
     \<and> py_eq (vopt_str (ep_control_node_id e)) (rget r ''control_node_id'')
     \<and> py_eq (vopt_str (sb_provider b)) (rget r ''provider'')
     \<and> py_eq (vopt_str (sb_execution_machine b)) (rget r ''run_on'')
     \<and> sb_native_session_id b = Some sid
     \<and> or_empty (sb_stage_host b) = or_empty (tk_stage_host t)
     \<and> sb_stage_root b = tk_stage_root t
     \<and> py_eq (vopt_str (sb_chat_id b)) (rget r ''chat_id'')
     \<and> py_eq (rget q ''model'') (rget r ''model'')
     \<and> py_eq (rget q ''reasoning'') (rget r ''reasoning'')
     \<and> sb_execution_host b = or_empty (tk_stage_host t))"

definition validate_experiment_wake_binding :: "store \<Rightarrow> agent_task \<Rightarrow> unit sres" where
  "validate_experiment_wake_binding s t = (case dget (tk_request t) ''session_id'' of
       Some (VStr sid) \<Rightarrow>
         if sid = [] then Inl StoreValueError
         else if tk_native_session_id t \<noteq> Some sid \<or> \<not> filled (tk_stage_root t) then Inl StoreValueError
         else (case experiment_episode_row s (str_field (tk_request t) ''control_episode_id'') of
             None \<Rightarrow> Inl StoreValueError
           | Some (b, e) \<Rightarrow>
               if ep_stop_requested_at e \<noteq> None then Inl StoreValueError
               else (case Option.bind (sb_last_turn_operation_id b) (dget (st_tasks s)) of
                   None \<Rightarrow> Inl StoreValueError
                 | Some q \<Rightarrow> sguard (wake_binding_matches t sid b e (tk_request q)) StoreValueError))
     | _ \<Rightarrow> Inl StoreValueError)"

definition newer_attempt :: "store \<Rightarrow> agent_task \<Rightarrow> agent_task \<Rightarrow> bool" where
  "newer_attempt s t q \<longleftrightarrow> (let r = tk_request q in
     list_ex (\<lambda>c. has_text (tk_request c) ''control_episode_id'' (str_field r ''control_episode_id'')
         \<and> has_number (tk_request c) ''control_invocation'' (rget r ''control_invocation'')
         \<and> tk_attempt c > tk_attempt q)
       (loop_tasks s (tk_project_id t) (str_field r ''control_node_id'')))"

text \<open>\<open>q\<close> is the parent of the recovery task \<open>t\<close>.\<close>

definition validate_experiment_recovery_claim :: "store \<Rightarrow> agent_task \<Rightarrow> string \<Rightarrow> agent_task \<Rightarrow> unit sres" where
  "validate_experiment_recovery_claim s t p q = sguard
     ((p, ''experiment_recovery_abandoned'') \<notin> set (st_receipts s)
      \<and> tk_status q \<in> {TPaused, TInterrupted, TFailed}
      \<and> tk_attempt t = tk_attempt q + 1
      \<and> \<not> list_ex (\<lambda>c. tk_parent_operation_id c = Some p) (dvalues (st_tasks s))
      \<and> (case newest_root s (tk_project_id t) (str_field (tk_request q) ''control_node_id'') of
           None \<Rightarrow> False
         | Some root_task \<Rightarrow>
             py_eq (rget (tk_request root_task) ''control_episode_id'') (rget (tk_request q) ''control_episode_id'')
             \<and> py_eq (rget (tk_request root_task) ''control_invocation'') (rget (tk_request q) ''control_invocation''))
      \<and> \<not> newer_attempt s t q) StoreValueError"

text \<open>
  \<open>ORDER BY CAST(control_invocation AS INTEGER) DESC, attempt DESC, created_at DESC, rowid DESC\<close>. The rows
  are loop tasks, so the invocation is an integer.
\<close>

definition latest_attempt :: "store \<Rightarrow> string \<Rightarrow> string \<Rightarrow> string \<Rightarrow> agent_task option" where
  "latest_attempt s p n x = (case sort_key (\<lambda>q. int_field (tk_request q) ''control_invocation'')
       (sort_key tk_attempt (sort_key tk_created_at
         (filter (\<lambda>q. has_text (tk_request q) ''control_episode_id'' x) (loop_tasks s p n)))) of
     [] \<Rightarrow> None | qs \<Rightarrow> Some (last qs))"

definition validate_current_experiment_graph_repair ::
  "store \<Rightarrow> string \<Rightarrow> string \<Rightarrow> string \<Rightarrow> int \<Rightarrow> string \<Rightarrow> unit sres" where
  "validate_current_experiment_graph_repair s p n x k op = sguard
     ((case newest_root s p n of
         None \<Rightarrow> False | Some q \<Rightarrow> has_text (tk_request q) ''control_episode_id'' x)
      \<and> (case dget (st_episodes s) x of
           None \<Rightarrow> True | Some e \<Rightarrow> ep_mode e = ExperimentLoopMode \<longrightarrow> ep_stop_requested_at e = None)
      \<and> (case latest_attempt s p n x of
           None \<Rightarrow> False
         | Some q \<Rightarrow> has_number (tk_request q) ''control_invocation'' (VInt k) \<and> tk_operation_id q = op))
     StoreValueError"

text \<open>The parent ended well but its graph update was rejected for good.\<close>

definition patch_only_repair :: "agent_task \<Rightarrow> agent_task \<Rightarrow> bool" where
  "patch_only_repair t q \<longleftrightarrow> rget (tk_request t) ''message'' = VNone \<and> tk_status q = TSucceeded
     \<and> (case tk_result q of
          Some (VDict res) \<Rightarrow> (case dget res ''graph_update'' of
              Some (VDict u) \<Rightarrow> dget u ''status'' = Some (VStr ''rejected'') \<and> dget u ''repairable'' = Some (VBool False)
            | _ \<Rightarrow> False)
        | _ \<Rightarrow> False)"

definition validate_loop_recovery :: "store_env \<Rightarrow> store \<Rightarrow> agent_task \<Rightarrow> string \<Rightarrow> unit sres" where
  "validate_loop_recovery E s t p = (let r = tk_request t in
     case dget (st_tasks s) p of
       None \<Rightarrow> Inl StoreValueError
     | Some q \<Rightarrow>
         if tk_project_id q \<noteq> tk_project_id t \<or> tk_kind q \<noteq> tk_kind t then Inl StoreValueError
         else if \<not> same_pinned E (EXPERIMENT_EPISODE_PINNED_FIELDS @ [''control_invocation'']) (tk_request q) r
         then Inl StoreValueError
         else if patch_only_repair t q
         then validate_current_experiment_graph_repair s (tk_project_id t) (str_field r ''control_node_id'')
           (str_field r ''control_episode_id'') (int_field r ''control_invocation'') p
         else validate_experiment_recovery_claim s t p q)"

definition expected_invocation :: "int list \<Rightarrow> int" where
  "expected_invocation ns = (case ns of [] \<Rightarrow> 0 | k # ks \<Rightarrow> fold max ks k) + 1"

definition routed_start :: "store \<Rightarrow> agent_task \<Rightarrow> bool" where
  "routed_start s t \<longleftrightarrow> (let r = tk_request t in
     case dget (st_routes s) (str_field r ''control_episode_id'') of
       None \<Rightarrow> False
     | Some c \<Rightarrow> cr_project_id c = tk_project_id t \<and> cr_control_node_id c = str_field r ''control_node_id''
         \<and> cr_state c = ChildRunning)"

definition validate_loop_root :: "store_env \<Rightarrow> store \<Rightarrow> agent_task \<Rightarrow> string \<Rightarrow> unit sres" where
  "validate_loop_root E s t trigger = (let r = tk_request t; k = int_field r ''control_invocation'';
       prior = map tk_request (episode_roots s (tk_project_id t) (str_field r ''control_node_id'')
         (str_field r ''control_episode_id'')) in
     if trigger \<notin> {''experiment_run'', ''orchestrator'', ''watcher''} then Inl StoreValueError
     else if trigger = ''orchestrator'' \<and> \<not> routed_start s t then Inl StoreValueError
     else if list_ex (\<lambda>q. \<not> same_pinned E EXPERIMENT_EPISODE_PINNED_FIELDS q r) prior then Inl StoreValueError
     else sbind (smap (\<lambda>q. int_of q ''control_invocation'') prior) (\<lambda>ns.
       if k \<noteq> expected_invocation ns then Inl StoreValueError
       else if k = 1 \<and> prior \<noteq> [] then Inl StoreValueError
       else if trigger \<in> {''experiment_run'', ''orchestrator''} \<and> k \<noteq> 1 then Inl StoreValueError
       else if trigger = ''watcher'' \<and> prior = [] then Inl StoreValueError
       else if trigger = ''watcher'' then validate_experiment_wake_binding s t
       else Inr ()))"

definition validate_experiment_task_insert :: "store_env \<Rightarrow> store \<Rightarrow> agent_task \<Rightarrow> unit sres" where
  "validate_experiment_task_insert E s t =
    (if \<not> is_loop (tk_request t) then Inr ()
     else if \<not> loop_shape t then Inl StoreValueError
     else if filled (tk_parent_operation_id t) then validate_loop_recovery E s t (or_empty (tk_parent_operation_id t))
     else case rget (tk_request t) ''trigger'' of
         VStr x \<Rightarrow> validate_loop_root E s t x
       | VList _ \<Rightarrow> Inl StoreTypeError
       | VDict _ \<Rightarrow> Inl StoreTypeError
       | _ \<Rightarrow> Inl StoreValueError)"

section \<open>Inserting\<close>

definition validate_graph_target_insert :: "store \<Rightarrow> agent_task \<Rightarrow> unit sres" where
  "validate_graph_target_insert s t =
     sbind (case tk_episode_id t of
         None \<Rightarrow> sguard (is_main (tk_graph_target t)) StoreValueError
       | Some i \<Rightarrow> (case dget (st_episodes s) i of
           None \<Rightarrow> Inl StoreValueError
         | Some e \<Rightarrow> sguard (ep_project_id e = tk_project_id t \<and> ep_graph_target e = tk_graph_target t)
             StoreValueError)) (\<lambda>_.
     case tk_parent_operation_id t of
       None \<Rightarrow> Inr ()
     | Some p \<Rightarrow> (case dget (st_tasks s) p of
         None \<Rightarrow> Inr ()
       | Some q \<Rightarrow> sguard (tk_graph_target q = tk_graph_target t) StoreValueError))"

definition insert_agent_task :: "store_env \<Rightarrow> store \<Rightarrow> agent_task \<Rightarrow> string \<Rightarrow> store sres" where
  "insert_agent_task E s t cause =
    (if cause \<notin> set AGENT_TASK_CONTINUATION_CAUSES then Inl StoreValueError
     else if contains_legacy_lineage_key (VDict (tk_request t)) then Inl StoreValueError
     else sbind (validate_dispatch_authority_insert s t) (\<lambda>_.
       sbind (bind_chat_stage s t) (\<lambda>u.
       sbind (validate_experiment_task_insert E s u) (\<lambda>_.
       sbind (validate_graph_target_insert s u) (\<lambda>_.
       if dhas (tk_operation_id u) (st_tasks s) then Inl StoreIntegrityError
       else Inr (s\<lparr>st_tasks := dset (tk_operation_id u) u (st_tasks s),
         st_receipts := st_receipts s @ [(tk_operation_id u, ''operation_admitted'')]\<rparr>))))))"

end
