(* ===== verification/Episodes.thy ===== *)
theory Episodes
  imports TaskAdmission
begin

text \<open>
  \<open>storage/episodes.py\<close>: the lifecycle of a bounded episode, its operational budget and its report
  ledger. One definition per method of \<open>EpisodeStoreMixin\<close>. A method takes the store and returns the
  committed store with its result; it raises before the commit (the store is unchanged) or
  while it reads its result back (the store is the new one). The clock's reading and fresh
  identifiers are arguments.
\<close>

definition REPORT_ATTEMPT_LIMIT :: int where
  "REPORT_ATTEMPT_LIMIT = 3"

text \<open>\<open>UPDATE\<close> of one row of a table.\<close>

definition on_episode :: "string \<Rightarrow> (episode_record \<Rightarrow> episode_record) \<Rightarrow> store \<Rightarrow> store" where
  "on_episode i f s = s\<lparr>st_episodes := dmodify i f (st_episodes s)\<rparr>"

definition on_wrapup :: "string \<Rightarrow> (wrapup_record \<Rightarrow> wrapup_record) \<Rightarrow> store \<Rightarrow> store" where
  "on_wrapup i f s = s\<lparr>st_wrapups := dmodify i f (st_wrapups s)\<rparr>"

definition on_attempt :: "string \<Rightarrow> (report_attempt \<Rightarrow> report_attempt) \<Rightarrow> store \<Rightarrow> store" where
  "on_attempt i f s = s\<lparr>st_attempts := dmodify i f (st_attempts s)\<rparr>"

definition on_task :: "string \<Rightarrow> (agent_task \<Rightarrow> agent_task) \<Rightarrow> store \<Rightarrow> store" where
  "on_task i f s = s\<lparr>st_tasks := dmodify i f (st_tasks s)\<rparr>"

section \<open>Creating an episode\<close>

definition validate_new_episode :: "episode_record \<Rightarrow> unit sres" where
  "validate_new_episode e = sguard (ep_authorized_by e \<noteq> None
     \<and> (ep_mode e = AutoResearchMode \<longrightarrow> \<not> is_main (ep_graph_target e))
     \<and> ep_status e = EQueued \<and> ep_root_operation_id e = None \<and> ep_invocations_used e = 0
     \<and> ep_ending e = None \<and> ep_wrapup_state e = WNotStarted \<and> ep_report_attempts_used e = 0
     \<and> ep_stop_requested_at e = None \<and> ep_stop_settled_at e = None \<and> ep_ended_at e = None)
     StoreValueError"

definition create_episode :: "store \<Rightarrow> episode_record \<Rightarrow> store \<times> episode_record sres" where
  "create_episode s e = transact s
     (sbind (validate_new_episode e) (\<lambda>_.
      sbind (require_project_accepts_new_work s (ep_project_id e)) (\<lambda>_.
      if live_episode_row s e then Inl StoreValueError
      else case insert_episode s e of
          Inl x \<Rightarrow> Inl (if x = StoreIntegrityError then StoreValueError else x)
        | Inr s1 \<Rightarrow> Inr (s1, ()))))
     (\<lambda>s1 _. reread (episode s1 (ep_episode_id e)))"

definition started_episode :: "episode_record \<Rightarrow> agent_task \<Rightarrow> episode_record" where
  "started_episode e t = e\<lparr>ep_root_operation_id := Some (tk_operation_id t), ep_status := ERunning,
     ep_invocations_used := 1, ep_updated_at := tk_created_at t\<rparr>"

definition created_episode_pair_matches ::
  "store \<Rightarrow> episode_record \<Rightarrow> episode_record \<Rightarrow> invocation_record option \<Rightarrow> agent_task \<Rightarrow> bool" where
  "created_episode_pair_matches s stored e i1 t \<longleftrightarrow> stored = started_episode e t
     \<and> (case i1 of None \<Rightarrow> False
          | Some i \<Rightarrow> iv_operation_id i = tk_operation_id t \<and> iv_created_at i = tk_created_at t)
     \<and> dget (st_tasks s) (tk_operation_id t) = Some t"

definition first_invocation :: "store \<Rightarrow> string \<Rightarrow> invocation_record option" where
  "first_invocation s i = find (\<lambda>j. iv_episode_id j = i \<and> iv_invocation_number j = 1) (st_invocations s)"

definition root_task_shape :: "episode_record \<Rightarrow> agent_task \<Rightarrow> bool" where
  "root_task_shape e t \<longleftrightarrow> tk_episode_id t = Some (ep_episode_id e) \<and> tk_project_id t = ep_project_id e
     \<and> tk_graph_target t = ep_graph_target e \<and> tk_kind t \<noteq> EpisodeReportTask \<and> tk_status t = TQueued
     \<and> tk_visible t \<and> tk_parent_operation_id t = None"

definition create_episode_with_invocation ::
  "store_env \<Rightarrow> store \<Rightarrow> episode_record \<Rightarrow> agent_task
     \<Rightarrow> store \<times> (episode_record \<times> invocation_record \<times> agent_task) sres" where
  "create_episode_with_invocation E s e t = transact s
     (sbind (validate_new_episode e) (\<lambda>_.
      if ep_mode e = AutoResearchMode then Inl StoreValueError
      else if \<not> root_task_shape e t then Inl StoreValueError
      else case dget (st_episodes s) (ep_episode_id e) of
        Some row \<Rightarrow>
          sbind (episode_row row) (\<lambda>stored.
          if created_episode_pair_matches s stored e (first_invocation s (ep_episode_id e)) t
          then Inr (s, stored) else Inl EpisodeReportConflict)
      | None \<Rightarrow>
          sbind (require_project_accepts_new_work s (ep_project_id e)) (\<lambda>_.
          if live_episode_row s e then Inl StoreValueError
          else
            sbind (insert_episode s (started_episode e t)) (\<lambda>s1.
            sbind (insert_agent_task E s1 t ''fresh'') (\<lambda>s2.
            sbind (insert_invocation s2 \<lparr>iv_episode_id = ep_episode_id e,
                iv_operation_id = tk_operation_id t, iv_invocation_number = 1,
                iv_created_at = tk_created_at t\<rparr>) (\<lambda>s3.
            Inr (s3, started_episode e t)))))))
     (\<lambda>s1 stored. sbind (reread_task s1 (tk_operation_id t)) (\<lambda>u.
        case first_invocation s1 (ep_episode_id e) of
          None \<Rightarrow> Inl StoreAssertionError
        | Some i \<Rightarrow> sbind (invocation_row i) (\<lambda>j. Inr (stored, j, u))))"

section \<open>Reading\<close>

text \<open>\<open>ORDER BY created_at DESC, episode_id DESC LIMIT ?\<close>.\<close>

definition episodes :: "store \<Rightarrow> string \<Rightarrow> int \<Rightarrow> episode_record list sres" where
  "episodes s p limit = smap episode_row (take (nat (max 1 (min limit 500)))
     (rev (sort_key ep_created_at (sort_key ep_episode_id
       (filter (\<lambda>e. ep_project_id e = p) (dvalues (st_episodes s)))))))"

definition awaits_report :: "store \<Rightarrow> episode_record \<Rightarrow> bool" where
  "awaits_report s e \<longleftrightarrow> ep_status e = EWrappingUp \<and> ep_wrapup_state e \<in> {WPending, WRunning}
     \<and> (case dget (st_wrapups s) (ep_episode_id e) of
          None \<Rightarrow> False
        | Some w \<Rightarrow> wu_state w \<in> {WPending, WRunning} \<and> wu_allocation_operation_id w \<noteq> None)"

definition episodes_awaiting_report :: "store \<Rightarrow> episode_record list sres" where
  "episodes_awaiting_report s = smap episode_row
     (sort_key ep_created_at (sort_key ep_episode_id (filter (awaits_report s) (dvalues (st_episodes s)))))"

definition invocations_remaining :: "episode_record \<Rightarrow> int" where
  "invocations_remaining e = max 0 (ep_invocation_ceiling e - ep_invocations_used e)"

record budget_meter =
  bm_invocation_ceiling :: int
  bm_invocations_used :: int
  bm_invocations_remaining :: int
  bm_observed_input_tokens :: int
  bm_observed_generated_tokens :: int

definition metered :: "store \<Rightarrow> string \<Rightarrow> usage_row list" where
  "metered s i = filter (\<lambda>u. us_counted u \<and> (case dget (st_tasks s) (us_operation_id u) of
       None \<Rightarrow> False | Some t \<Rightarrow> tk_episode_id t = Some i \<and> tk_kind t \<noteq> EpisodeReportTask)) (st_usage s)"

definition episode_budget_meter :: "store \<Rightarrow> string \<Rightarrow> budget_meter sres" where
  "episode_budget_meter s i = sbind (load_episode s i) (\<lambda>e. Inr
     \<lparr>bm_invocation_ceiling = ep_invocation_ceiling e, bm_invocations_used = ep_invocations_used e,
      bm_invocations_remaining = invocations_remaining e,
      bm_observed_input_tokens = sum_list (map us_processed_input_tokens (metered s i)),
      bm_observed_generated_tokens = sum_list (map us_generated_tokens (metered s i))\<rparr>)"

definition episode_invocations :: "store \<Rightarrow> string \<Rightarrow> invocation_record list sres" where
  "episode_invocations s i = smap invocation_row (sort_key iv_invocation_number
     (filter (\<lambda>j. iv_episode_id j = i) (st_invocations s)))"

definition episode_attempts :: "store \<Rightarrow> string \<Rightarrow> report_attempt list" where
  "episode_attempts s i = sort_key ra_attempt_number
     (filter (\<lambda>a. ra_episode_id a = i) (dvalues (st_attempts s)))"

definition episode_report_attempts :: "store \<Rightarrow> string \<Rightarrow> report_attempt list sres" where
  "episode_report_attempts s i = smap attempt_row (episode_attempts s i)"

definition episode_report_attempt :: "store \<Rightarrow> string \<Rightarrow> report_attempt option sres" where
  "episode_report_attempt s a = (case dget (st_attempts s) a of
       None \<Rightarrow> Inr None | Some r \<Rightarrow> sbind (attempt_row r) (\<lambda>x. Inr (Some x)))"

text \<open>The live attempt with the largest number.\<close>

definition current_attempt :: "store \<Rightarrow> string \<Rightarrow> report_attempt option" where
  "current_attempt s i = (case filter (\<lambda>a. ra_status a \<in> {AQueued, ARunning}) (episode_attempts s i) of
       [] \<Rightarrow> None | as \<Rightarrow> Some (last as))"

definition current_episode_report_attempt :: "store \<Rightarrow> string \<Rightarrow> report_attempt option sres" where
  "current_episode_report_attempt s i = (case current_attempt s i of
       None \<Rightarrow> Inr None | Some a \<Rightarrow> sbind (attempt_row a) (\<lambda>x. Inr (Some x)))"

definition episode_report :: "store \<Rightarrow> string \<Rightarrow> report_record option" where
  "episode_report s i = find (\<lambda>r. rr_episode_id r = i) (st_reports s)"

definition episode_report_by_id :: "store \<Rightarrow> string \<Rightarrow> report_record option" where
  "episode_report_by_id s i = find (\<lambda>r. rr_report_id r = i) (st_reports s)"

section \<open>Stop and ending fences\<close>

definition request_episode_stop_in_connection :: "store \<Rightarrow> string \<Rightarrow> string \<Rightarrow> store sres" where
  "request_episode_stop_in_connection s i now = sbind (load_episode s i) (\<lambda>e.
     if ep_ending e = Some EndStopped \<and> ep_wrapup_state e = WSkipped then Inr s
     else if ep_status e \<notin> {EQueued, ERunning, EStopping} then Inl EpisodeNotRunning
     else if dhas i (st_wrapups s) then Inl EpisodeNotRunning
     else if ep_stop_requested_at e \<noteq> None then Inr s
     else Inr (on_episode i (\<lambda>e. e\<lparr>ep_status := EStopping, ep_stop_requested_at := Some now,
       ep_updated_at := now\<rparr>) s))"

definition request_episode_stop :: "store \<Rightarrow> string \<Rightarrow> string \<Rightarrow> store \<times> episode_record sres" where
  "request_episode_stop s i now = transact s
     (sbind (request_episode_stop_in_connection s i now) (\<lambda>s1. Inr (s1, ())))
     (\<lambda>s1 _. reread (episode s1 i))"

definition fence_episode_ending_in_connection ::
  "store \<Rightarrow> string \<Rightarrow> episode_ending \<Rightarrow> string option \<Rightarrow> string \<Rightarrow> store sres" where
  "fence_episode_ending_in_connection s i ending diagnostic now =
    (if ending = EndStopped then Inl StoreValueError
     else sbind (load_episode s i) (\<lambda>e.
       if ep_ending e \<noteq> None then
         (if ep_ending e \<noteq> Some ending \<or> ep_ending_diagnostic e \<noteq> diagnostic
          then Inl EpisodeReportConflict else Inr s)
       else if ep_stop_requested_at e \<noteq> None \<or> ep_status e = EStopping then Inl EpisodeNotRunning
       else if ep_status e \<notin> {EQueued, ERunning} then Inl EpisodeNotRunning
       else Inr (on_episode i (\<lambda>e. e\<lparr>ep_status := EWrappingUp, ep_ending := Some ending,
         ep_ending_diagnostic := diagnostic, ep_updated_at := now\<rparr>) s)))"

definition fence_episode_ending ::
  "store \<Rightarrow> string \<Rightarrow> episode_ending \<Rightarrow> string option \<Rightarrow> string \<Rightarrow> store \<times> episode_record sres" where
  "fence_episode_ending s i ending diagnostic now = transact s
     (sbind (fence_episode_ending_in_connection s i ending diagnostic now) (\<lambda>s1. Inr (s1, ())))
     (\<lambda>s1 _. reread (episode s1 i))"

section \<open>Operational invocations\<close>

definition spend_invocation ::
  "store_env \<Rightarrow> store \<Rightarrow> string \<Rightarrow> agent_task \<Rightarrow> string \<Rightarrow> string \<Rightarrow> (store \<times> invocation_record) sres" where
  "spend_invocation E s i t cause now = sbind (load_episode s i) (\<lambda>e.
     if ep_mode e = AutoResearchMode then Inl StoreValueError
     else if ep_status e \<notin> {EQueued, ERunning} then Inl EpisodeNotRunning
     else if ep_invocations_used e \<ge> ep_invocation_ceiling e then Inl EpisodeInvocationCeilingReached
     else if tk_project_id t \<noteq> ep_project_id e then Inl StoreValueError
     else
       (let number = ep_invocations_used e + 1;
            spent = \<lparr>iv_episode_id = i, iv_operation_id = tk_operation_id t,
              iv_invocation_number = number, iv_created_at = tk_created_at t\<rparr> in
        sbind (insert_agent_task E s t cause) (\<lambda>s1.
        sbind (insert_invocation s1 spent) (\<lambda>s2.
        Inr (on_episode i (\<lambda>e. e\<lparr>ep_root_operation_id := coalesce (ep_root_operation_id e) (tk_operation_id t),
          ep_status := ERunning, ep_invocations_used := number, ep_updated_at := now\<rparr>) s2, spent)))))"

definition allocate_episode_invocation ::
  "store_env \<Rightarrow> store \<Rightarrow> string \<Rightarrow> agent_task \<Rightarrow> string \<Rightarrow> string
     \<Rightarrow> store \<times> (episode_record \<times> invocation_record \<times> agent_task) sres" where
  "allocate_episode_invocation E s i t cause now = transact s
     (if tk_kind t = EpisodeReportTask \<or> \<not> tk_visible t then Inl StoreValueError
      else if tk_episode_id t \<noteq> Some i then Inl StoreValueError
      else case find (\<lambda>j. iv_operation_id j = tk_operation_id t) (st_invocations s) of
        Some j \<Rightarrow>
          if iv_episode_id j \<noteq> i then Inl StoreValueError
          else if \<not> dhas (tk_operation_id t) (st_tasks s) then Inl StoreRuntimeError
          else sbind (invocation_row j) (\<lambda>spent. Inr (s, spent))
      | None \<Rightarrow> spend_invocation E s i t cause now)
     (\<lambda>s1 spent. sbind (reread (episode s1 i)) (\<lambda>e.
        sbind (reread_task s1 (tk_operation_id t)) (\<lambda>u. Inr (e, spent, u))))"

section \<open>Beginning and skipping the wrap-up\<close>

text \<open>\<open>request.get(field) == value\<close> for an optional string.\<close>

definition request_names :: "agent_task \<Rightarrow> string \<Rightarrow> string option \<Rightarrow> bool" where
  "request_names t k x \<longleftrightarrow> (case dget (tk_request t) k of
       None \<Rightarrow> x = None | Some VNone \<Rightarrow> x = None | Some (VStr v) \<Rightarrow> x = Some v | Some _ \<Rightarrow> False)"

definition validate_new_wrapup :: "string \<Rightarrow> wrapup_record \<Rightarrow> agent_task \<Rightarrow> unit sres" where
  "validate_new_wrapup i w t = sguard
     (wu_episode_id w = i \<and> wu_ending w \<noteq> Some EndStopped
      \<and> wu_state w = WPending \<and> wu_finished_at w = None
      \<and> filled (wu_allocation_operation_id w) \<and> filled (wu_provider w) \<and> filled (wu_run_on w)
      \<and> filled (wu_native_session_id w) \<and> filled (wu_stage_root w) \<and> filled (wu_skill_id w)
      \<and> filled (wu_skill_version w) \<and> filled (wu_output_name w) \<and> filled (wu_output_path w)
      \<and> wu_execution_host w \<noteq> None
      \<and> tk_kind t = EpisodeReportTask \<and> \<not> tk_visible t
      \<and> Some (tk_operation_id t) = wu_allocation_operation_id w
      \<and> wu_concluding_operation_id w \<noteq> None
      \<and> tk_parent_operation_id t = wu_concluding_operation_id w
      \<and> tk_native_session_id t = wu_native_session_id w
      \<and> or_empty (tk_stage_host t) = or_empty (wu_stage_host w)
      \<and> tk_stage_root t = wu_stage_root w \<and> tk_episode_id t = Some i
      \<and> request_names t ''provider'' (wu_provider w) \<and> request_names t ''run_on'' (wu_run_on w)
      \<and> request_names t ''execution_host'' (wu_execution_host w)) StoreValueError"

text \<open>The fields of a wrap-up that its restart fence freezes.\<close>

definition wrapup_fence :: "wrapup_record \<Rightarrow> wrapup_record" where
  "wrapup_fence w = w\<lparr>wu_state := WPending, wu_diagnostic := None, wu_updated_at := [],
     wu_finished_at := None\<rparr>"

definition wrapup_fence_matches :: "wrapup_record \<Rightarrow> wrapup_record \<Rightarrow> bool" where
  "wrapup_fence_matches stored requested \<longleftrightarrow> wrapup_fence stored = wrapup_fence requested"

definition concluding_visible :: "store \<Rightarrow> string \<Rightarrow> string option \<Rightarrow> bool" where
  "concluding_visible s i c \<longleftrightarrow> (case c of None \<Rightarrow> True | Some o' \<Rightarrow>
     (case dget (st_tasks s) o' of None \<Rightarrow> False
      | Some t \<Rightarrow> tk_episode_id t = Some i \<and> tk_visible t \<and> tk_kind t \<noteq> EpisodeReportTask))"

definition begin_new_wrapup ::
  "store_env \<Rightarrow> store \<Rightarrow> episode_record \<Rightarrow> wrapup_record \<Rightarrow> agent_task \<Rightarrow> string \<Rightarrow> store sres" where
  "begin_new_wrapup E s e w t now =
    (if ep_ending e \<noteq> None \<and> (ep_ending e \<noteq> wu_ending w \<or> ep_ending_diagnostic e \<noteq> wu_diagnostic w)
     then Inl EpisodeReportConflict
     else if \<not> concluding_visible s (ep_episode_id e) (wu_concluding_operation_id w) then Inl StoreValueError
     else
       sbind (insert_agent_task E s t ''episode_report'') (\<lambda>s1.
       sbind (insert_episode_wrapup s1 w) (\<lambda>s2.
       Inr (on_episode (ep_episode_id e) (\<lambda>e. e\<lparr>ep_status := EWrappingUp, ep_ending := wu_ending w,
         ep_ending_diagnostic := wu_diagnostic w, ep_wrapup_state := WPending,
         ep_wrapup_error := None, ep_updated_at := now\<rparr>) s2))))"

definition begin_episode_wrapup ::
  "store_env \<Rightarrow> store \<Rightarrow> string \<Rightarrow> wrapup_record \<Rightarrow> agent_task \<Rightarrow> string
     \<Rightarrow> store \<times> (episode_record \<times> wrapup_record \<times> agent_task) sres" where
  "begin_episode_wrapup E s i w t now = transact s
     (sbind (validate_new_wrapup i w t) (\<lambda>_.
      sbind (load_episode s i) (\<lambda>e.
      if ep_status e \<notin> {EQueued, ERunning, EWrappingUp} then Inl EpisodeNotRunning
      else if tk_project_id t \<noteq> ep_project_id e then Inl StoreValueError
      else case dget (st_wrapups s) i of
        Some row \<Rightarrow> sbind (wrapup_row row) (\<lambda>stored.
          if \<not> wrapup_fence_matches stored w then Inl EpisodeReportConflict
          else case wu_allocation_operation_id stored of
            None \<Rightarrow> Inl StoreAssertionError | Some op \<Rightarrow> Inr (s, stored, op))
      | None \<Rightarrow> sbind (begin_new_wrapup E s e w t now) (\<lambda>s1. Inr (s1, w, tk_operation_id t)))))
     (\<lambda>s1 r. sbind (reread (episode s1 i)) (\<lambda>e.
        sbind (reread_task s1 (snd r)) (\<lambda>u. Inr (e, fst r, u))))"

definition end_episode_without_report ::
  "store_env \<Rightarrow> store \<Rightarrow> string \<Rightarrow> episode_ending \<Rightarrow> string option \<Rightarrow> string
     \<Rightarrow> store \<times> episode_record sres" where
  "end_episode_without_report E s i ending diagnostic now = transact s
     (if ending = EndStopped then Inl StoreValueError
      else sbind (load_episode s i) (\<lambda>e.
        if dhas i (st_wrapups s) then Inl EpisodeReportConflict
        else if ep_ending e \<noteq> None \<and> (ep_ending e \<noteq> Some ending \<or> ep_ending_diagnostic e \<noteq> diagnostic)
        then Inl EpisodeReportConflict
        else if ep_stop_requested_at e \<noteq> None \<or> ep_status e = EStopping then Inl EpisodeNotRunning
        else sbind (status_for_ending (Some ending)) (\<lambda>final.
          if ep_status e = final then Inr (s, ())
          else if ep_status e \<notin> {EQueued, ERunning, EWrappingUp} then Inl EpisodeNotRunning
          else
            sbind (terminalize_child E (on_episode i (\<lambda>e. e\<lparr>ep_status := final, ep_ending := Some ending,
                ep_ending_diagnostic := diagnostic, ep_wrapup_state := WNotStarted,
                ep_wrapup_error := None, ep_updated_at := now,
                ep_ended_at := coalesce (ep_ended_at e) now\<rparr>) s) i final ending diagnostic now)
              (\<lambda>s1. Inr (s1, ())))))
     (\<lambda>s1 _. reread (episode s1 i))"

definition fail_episode_wrapup_unlaunchable ::
  "store_env \<Rightarrow> store \<Rightarrow> string \<Rightarrow> wrapup_record \<Rightarrow> string option \<Rightarrow> string
     \<Rightarrow> store \<times> (episode_record \<times> wrapup_record) sres" where
  "fail_episode_wrapup_unlaunchable E s i w ending_diagnostic now = transact s
     (case wu_ending w of
        None \<Rightarrow> Inl StoreValueError
      | Some ending \<Rightarrow>
        if wu_episode_id w \<noteq> i \<or> ending = EndStopped \<or> wu_state w \<noteq> WFailed
          \<or> wu_allocation_operation_id w \<noteq> None \<or> \<not> filled (wu_diagnostic w) \<or> wu_finished_at w = None
        then Inl StoreValueError
        else sbind (load_episode s i) (\<lambda>e.
          case dget (st_wrapups s) i of
            Some row \<Rightarrow> sbind (wrapup_row row) (\<lambda>stored.
              if stored \<noteq> w then Inl EpisodeReportConflict else Inr (s, w))
          | None \<Rightarrow>
              if ep_status e \<notin> {EQueued, ERunning, EWrappingUp} then Inl EpisodeNotRunning
              else if \<not> concluding_visible s i (wu_concluding_operation_id w) then Inl StoreValueError
              else
                sbind (insert_episode_wrapup s w) (\<lambda>s1.
                sbind (status_for_ending (Some ending)) (\<lambda>final.
                sbind (terminalize_child E (on_episode i (\<lambda>e. e\<lparr>ep_status := final, ep_ending := Some ending,
                    ep_ending_diagnostic := ending_diagnostic, ep_wrapup_state := WFailed,
                    ep_wrapup_error := wu_diagnostic w, ep_updated_at := now,
                    ep_ended_at := coalesce (ep_ended_at e) now\<rparr>) s1) i final ending
                    (wu_diagnostic w) now) (\<lambda>s2. Inr (s2, w))))))
     (\<lambda>s1 stored. sbind (reread (episode s1 i)) (\<lambda>e. Inr (e, stored)))"

text \<open>The last invocation of an episode.\<close>

definition concluding_operation :: "store \<Rightarrow> string \<Rightarrow> string option" where
  "concluding_operation s i = (case sort_key iv_invocation_number
       (filter (\<lambda>j. iv_episode_id j = i) (st_invocations s)) of
     [] \<Rightarrow> None | js \<Rightarrow> Some (iv_operation_id (last js)))"

text \<open>The wrap-up record of a stopped episode, which carries no report allocation.\<close>

definition skipped_wrapup ::
  "string \<Rightarrow> string option \<Rightarrow> string \<times> string \<Rightarrow> string option \<Rightarrow> string \<Rightarrow> wrapup_record" where
  "skipped_wrapup i concluding receipt diagnostic now =
     \<lparr>wu_episode_id = i, wu_ending = Some EndStopped, wu_partial = True,
      wu_concluding_operation_id = concluding, wu_allocation_operation_id = None,
      wu_provider = None, wu_run_on = None, wu_execution_host = None, wu_native_session_id = None,
      wu_stage_host = None, wu_stage_root = None, wu_skill_id = None, wu_skill_version = None,
      wu_output_name = None, wu_output_path = None, wu_receipt_json = fst receipt,
      wu_receipt_sha256 = snd receipt, wu_state = WSkipped, wu_diagnostic = diagnostic,
      wu_created_at = now, wu_updated_at = now, wu_finished_at = Some now\<rparr>"

definition stopped_episode :: "string option \<Rightarrow> string \<Rightarrow> episode_record \<Rightarrow> episode_record" where
  "stopped_episode diagnostic now e = e\<lparr>ep_status := EStopped,
     ep_stop_requested_at := coalesce (ep_stop_requested_at e) now,
     ep_stop_settled_at := coalesce (ep_stop_settled_at e) now, ep_ending := Some EndStopped,
     ep_ending_diagnostic := diagnostic, ep_wrapup_state := WSkipped, ep_wrapup_error := None,
     ep_updated_at := now, ep_ended_at := coalesce (ep_ended_at e) now\<rparr>"

definition mark_episode_stop_skipped ::
  "store_env \<Rightarrow> store \<Rightarrow> string \<Rightarrow> string option \<Rightarrow> string \<Rightarrow> store \<times> episode_record sres" where
  "mark_episode_stop_skipped E s i diagnostic now = transact s
     (sbind (load_episode s i) (\<lambda>e.
      if ep_ending e = Some EndStopped \<and> ep_wrapup_state e = WSkipped then Inr (s, ())
      else if dhas i (st_wrapups s) then Inl EpisodeNotRunning
      else if ep_status e \<notin> {EQueued, ERunning, EStopping} then Inl EpisodeNotRunning
      else
        sbind (insert_episode_wrapup s (skipped_wrapup i (concluding_operation s i)
            (compact_episode_receipt E [(''diagnostic'', vopt_str diagnostic), (''ending'', VStr ''stopped''),
               (''episode_id'', VStr i)]) diagnostic now)) (\<lambda>s1.
        sbind (terminalize_child E (on_episode i (stopped_episode diagnostic now) s1)
            i EStopped EndStopped diagnostic now) (\<lambda>s2. Inr (s2, ())))))
     (\<lambda>s1 _. reread (episode s1 i))"

section \<open>Report attempts\<close>

definition new_attempt :: "string \<Rightarrow> string \<Rightarrow> int \<Rightarrow> string \<Rightarrow> string \<Rightarrow> report_attempt" where
  "new_attempt a i number op now = \<lparr>ra_attempt_id = a, ra_episode_id = i, ra_attempt_number = number,
     ra_allocation_operation_id = op, ra_status = AQueued, ra_error = None, ra_created_at = now,
     ra_updated_at = now, ra_finished_at = None\<rparr>"

definition allocate_episode_report_attempt ::
  "store \<Rightarrow> string \<Rightarrow> string \<Rightarrow> string \<Rightarrow> store \<times> report_attempt sres" where
  "allocate_episode_report_attempt s i fresh_id now = transact s
     (sbind (load_episode s i) (\<lambda>e.
      case dget (st_wrapups s) i of
        None \<Rightarrow> Inl EpisodeNotRunning
      | Some row \<Rightarrow> sbind (wrapup_row row) (\<lambda>w.
          case (if ep_status e = EWrappingUp \<and> ep_wrapup_state e \<in> {WPending, WRunning}
                  \<and> wu_state w \<in> {WPending, WRunning} then wu_allocation_operation_id w else None) of
            None \<Rightarrow> Inl EpisodeNotRunning
          | Some op \<Rightarrow> (case current_attempt s i of
              Some a \<Rightarrow> Inr (s, ra_attempt_id a)
            | None \<Rightarrow>
                if ep_report_attempts_used e \<ge> REPORT_ATTEMPT_LIMIT
                then Inl EpisodeReportAttemptLimitReached
                else
                  (let number = ep_report_attempts_used e + 1 in
                   sbind (insert_attempt s (new_attempt fresh_id i number op now)) (\<lambda>s1.
                   Inr (on_wrapup i (\<lambda>w. w\<lparr>wu_state := WRunning, wu_updated_at := now\<rparr>)
                     (on_episode i (\<lambda>e. e\<lparr>ep_wrapup_state := WRunning,
                       ep_report_attempts_used := number, ep_updated_at := now\<rparr>) s1), fresh_id)))))))
     (\<lambda>s1 a. reread (episode_report_attempt s1 a))"

definition failed_attempt :: "string \<Rightarrow> string \<Rightarrow> report_attempt \<Rightarrow> report_attempt" where
  "failed_attempt error now a = a\<lparr>ra_status := AFailed, ra_error := Some error, ra_updated_at := now,
     ra_finished_at := Some now\<rparr>"

text \<open>The three updates that close a wrap-up as failed: episode, wrap-up and hidden task.\<close>

definition failed_report_episode :: "episode_status \<Rightarrow> string \<Rightarrow> string \<Rightarrow> episode_record \<Rightarrow> episode_record" where
  "failed_report_episode final error now e = e\<lparr>ep_status := final, ep_wrapup_state := WFailed,
     ep_wrapup_error := Some error, ep_updated_at := now, ep_ended_at := coalesce (ep_ended_at e) now\<rparr>"

definition failed_wrapup :: "string \<Rightarrow> string \<Rightarrow> wrapup_record \<Rightarrow> wrapup_record" where
  "failed_wrapup error now w = w\<lparr>wu_state := WFailed, wu_diagnostic := Some error,
     wu_updated_at := now, wu_finished_at := Some now\<rparr>"

definition failed_report_task :: "bool \<Rightarrow> string \<Rightarrow> string \<Rightarrow> agent_task \<Rightarrow> agent_task" where
  "failed_report_task keep error now t = t\<lparr>tk_status := TFailed, tk_status_message := error,
     tk_error := Some error, tk_updated_at := now,
     tk_finished_at := (if keep then coalesce (tk_finished_at t) now else Some now), tk_phase := ''failed''\<rparr>"

definition close_report_failed ::
  "store_env \<Rightarrow> store \<Rightarrow> string \<Rightarrow> episode_ending option \<Rightarrow> (store \<Rightarrow> store) \<Rightarrow> string \<Rightarrow> string \<Rightarrow> store sres" where
  "close_report_failed E s i ending task_update error now =
     sbind (status_for_ending ending) (\<lambda>final.
     terminalize_child E (task_update (on_wrapup i (failed_wrapup error now)
       (on_episode i (failed_report_episode final error now) s))) i final (the ending) (Some error) now)"

definition interruption_diagnostic :: "task_status \<Rightarrow> string" where
  "interruption_diagnostic st = (if st = TInterrupted
     then ''The report provider call was interrupted by an RCP restart.''
     else ''The report provider call was paused during RCP shutdown.'')"

definition requeued_task :: "string \<Rightarrow> agent_task \<Rightarrow> agent_task" where
  "requeued_task now t = t\<lparr>tk_status := TQueued, tk_status_message := ''Wrapping up visualization and report'',
     tk_error := None, tk_updated_at := now, tk_started_at := None, tk_finished_at := None,
     tk_last_activity_at := None, tk_phase := ''queued'', tk_write_scope_fingerprint := None\<rparr>"

text \<open>The hidden task of a wrap-up, as its restart fence names it.\<close>

definition hidden_allocation :: "store \<Rightarrow> string \<Rightarrow> string \<Rightarrow> agent_task sres" where
  "hidden_allocation s i op = (case dget (st_tasks s) op of
       None \<Rightarrow> Inl EpisodeReportConflict
     | Some t \<Rightarrow> if tk_episode_id t \<noteq> Some i \<or> tk_kind t \<noteq> EpisodeReportTask \<or> tk_visible t
         then Inl EpisodeReportConflict else Inr t)"

definition wrapup_allocation :: "store \<Rightarrow> string \<Rightarrow> string sres" where
  "wrapup_allocation s i = (case dget (st_wrapups s) i of
       None \<Rightarrow> Inl EpisodeNotRunning
     | Some w \<Rightarrow> (case wu_allocation_operation_id w of
         None \<Rightarrow> Inl EpisodeNotRunning | Some op \<Rightarrow> Inr op))"

text \<open>
  The call that was running when the allocation stopped has failed. With its attempts spent
  the wrap-up is closed; otherwise the hidden task is queued again.
\<close>

definition restart_report ::
  "store_env \<Rightarrow> store \<Rightarrow> string \<Rightarrow> episode_record \<Rightarrow> string \<Rightarrow> task_status \<Rightarrow> string \<Rightarrow> store sres" where
  "restart_report E s i e op prior now =
    (let diagnostic = interruption_diagnostic prior; cur = current_attempt s i in
     if ep_report_attempts_used e \<ge> REPORT_ATTEMPT_LIMIT
        \<and> (case cur of None \<Rightarrow> True | Some a \<Rightarrow> ra_status a \<noteq> AQueued)
     then (case cur of
         None \<Rightarrow> Inl EpisodeNotRunning
       | Some a \<Rightarrow>
           close_report_failed E (on_attempt (ra_attempt_id a) (failed_attempt diagnostic now) s)
             i (ep_ending e) (on_task op (failed_report_task True diagnostic now)) diagnostic now)
     else
       (let s1 = (case cur of
              Some a \<Rightarrow> if ra_status a = ARunning
                then on_attempt (ra_attempt_id a) (failed_attempt diagnostic now) s else s
            | None \<Rightarrow> s);
            s2 = (on_task op (requeued_task now) s1)\<lparr>st_receipts :=
              st_receipts s1 @ [(op, ''operation_dispatch_reset'')]\<rparr> in
        Inr (on_wrapup i (\<lambda>w. w\<lparr>wu_state := WPending, wu_diagnostic := None,
            wu_updated_at := now, wu_finished_at := None\<rparr>)
          (on_episode i (\<lambda>e. e\<lparr>ep_wrapup_state := WPending, ep_wrapup_error := None,
            ep_updated_at := now\<rparr>) s2))))"

definition requeue_interrupted_episode_report_allocation ::
  "store_env \<Rightarrow> store \<Rightarrow> string \<Rightarrow> string \<Rightarrow> store \<times> agent_task sres" where
  "requeue_interrupted_episode_report_allocation E s i now = transact s
     (case dget (st_episodes s) i of
        None \<Rightarrow> Inl StoreKeyError
      | Some row \<Rightarrow>
        sbind (wrapup_allocation s i) (\<lambda>op.
        sbind (episode_row row) (\<lambda>e.
        if ep_status e \<noteq> EWrappingUp \<or> ep_wrapup_state e \<notin> {WPending, WRunning} then Inl EpisodeNotRunning
        else sbind (hidden_allocation s i op) (\<lambda>t.
          if tk_status t = TQueued then Inr (s, op)
          else if tk_status t \<notin> {TInterrupted, TPaused} then Inl EpisodeNotRunning
          else sbind (restart_report E s i e op (tk_status t) now) (\<lambda>s1. Inr (s1, op))))))
     (\<lambda>s1 op. reread_task s1 op)"

definition between_provider_calls :: "store \<Rightarrow> episode_record \<Rightarrow> bool" where
  "between_provider_calls s e \<longleftrightarrow> (let as = episode_attempts s (ep_episode_id e) in
     int (length as) = ep_report_attempts_used e
     \<and> length (filter (\<lambda>a. ra_status a = AQueued) as) \<le> 1
     \<and> list_all (\<lambda>a. ra_status a \<notin> {ARunning, ASucceeded}) as)"

definition fail_queued_attempts :: "string \<Rightarrow> string \<Rightarrow> string \<Rightarrow> store \<Rightarrow> store" where
  "fail_queued_attempts i error now s = s\<lparr>st_attempts := map (\<lambda>kv.
     if ra_episode_id (snd kv) = i \<and> ra_status (snd kv) = AQueued
     then (fst kv, failed_attempt error now (snd kv)) else kv) (st_attempts s)\<rparr>"

text \<open>The three rows the method returns, read inside its transaction.\<close>

definition report_rows ::
  "store \<Rightarrow> string \<Rightarrow> string \<Rightarrow> (store \<times> episode_record \<times> wrapup_record \<times> agent_task) sres" where
  "report_rows s i op = (case (dget (st_episodes s) i, dget (st_wrapups s) i, dget (st_tasks s) op) of
       (Some e, Some w, Some t) \<Rightarrow> sbind (episode_row e) (\<lambda>e. sbind (wrapup_row w) (\<lambda>w. Inr (s, e, w, t)))
     | _ \<Rightarrow> Inl StoreAssertionError)"

definition fail_allocation ::
  "store_env \<Rightarrow> store \<Rightarrow> string \<Rightarrow> episode_record \<Rightarrow> wrapup_record \<Rightarrow> agent_task \<Rightarrow> string \<Rightarrow> string \<Rightarrow> store sres" where
  "fail_allocation E s i e w t diagnostic now =
    (if \<not> between_provider_calls s e then Inl EpisodeNotRunning
     else if ep_wrapup_state e = WFailed \<and> wu_state w = WFailed \<and> tk_status t = TFailed
     then (if ep_wrapup_error e \<noteq> Some diagnostic \<or> wu_diagnostic w \<noteq> Some diagnostic
           then Inl EpisodeReportConflict else Inr s)
     else if ep_status e \<noteq> EWrappingUp \<or> ep_wrapup_state e \<notin> {WPending, WRunning}
         \<or> wu_state w \<notin> {WPending, WRunning}
         \<or> tk_status t \<notin> {TQueued, TRunning, TPausing, TPaused, TInterrupted}
     then Inl EpisodeNotRunning
     else close_report_failed E (fail_queued_attempts i diagnostic now s) i (ep_ending e)
       (on_task (tk_operation_id t) (failed_report_task True diagnostic now)) diagnostic now)"

definition fail_episode_report_allocation_unlaunchable ::
  "store_env \<Rightarrow> store \<Rightarrow> string \<Rightarrow> string \<Rightarrow> string
     \<Rightarrow> store \<times> (episode_record \<times> wrapup_record \<times> agent_task) sres" where
  "fail_episode_report_allocation_unlaunchable E s i raw now = transact s
    (if py_strip raw = [] then Inl StoreValueError
     else case dget (st_episodes s) i of
        None \<Rightarrow> Inl StoreKeyError
      | Some row \<Rightarrow>
        sbind (wrapup_allocation s i) (\<lambda>op.
        sbind (episode_row row) (\<lambda>e.
        sbind (hidden_allocation s i op) (\<lambda>t.
        case dget (st_wrapups s) i of
          None \<Rightarrow> Inl EpisodeNotRunning
        | Some w \<Rightarrow>
            sbind (fail_allocation E s i e w t (py_strip raw) now) (\<lambda>s1. report_rows s1 i op)))))
     (\<lambda>_ r. Inr r)"

definition mark_episode_report_attempt_running ::
  "store \<Rightarrow> string \<Rightarrow> string \<Rightarrow> store \<times> report_attempt sres" where
  "mark_episode_report_attempt_running s a now = transact s
     (case dget (st_attempts s) a of
        None \<Rightarrow> Inl StoreKeyError
      | Some r \<Rightarrow>
          if ra_status r \<notin> {AQueued, ARunning} then Inl EpisodeNotRunning
          else Inr (on_task (ra_allocation_operation_id r)
              (\<lambda>t. t\<lparr>tk_status := TRunning, tk_started_at := coalesce (tk_started_at t) now,
                tk_updated_at := now, tk_phase := ''running''\<rparr>)
              (on_attempt a (\<lambda>r. r\<lparr>ra_status := ARunning, ra_updated_at := now\<rparr>) s), ()))
     (\<lambda>s1 _. reread (episode_report_attempt s1 a))"

definition finish_episode_report_attempt_error ::
  "store_env \<Rightarrow> store \<Rightarrow> string \<Rightarrow> string \<Rightarrow> bool \<Rightarrow> string
     \<Rightarrow> store \<times> (episode_record \<times> report_attempt) sres" where
  "finish_episode_report_attempt_error E s a error force_final now = transact s
     (if py_strip error = [] then Inl StoreValueError
      else case dget (st_attempts s) a of
        None \<Rightarrow> Inl StoreKeyError
      | Some r \<Rightarrow>
          if ra_status r = ASucceeded then Inl EpisodeReportConflict
          else
            (let i = ra_episode_id r;
                 s1 = (if ra_status r \<noteq> AFailed then on_attempt a (failed_attempt error now) s else s) in
             if force_final \<or> ra_attempt_number r \<ge> REPORT_ATTEMPT_LIMIT
             then (case dget (st_episodes s1) i of
                 None \<Rightarrow> Inl StoreRuntimeError
               | Some e \<Rightarrow> sbind (close_report_failed E s1 i (ep_ending e)
                   (on_task (ra_allocation_operation_id r) (failed_report_task False error now)) error now)
                   (\<lambda>s2. Inr (s2, i)))
             else Inr (on_wrapup i (\<lambda>w. w\<lparr>wu_state := WPending, wu_updated_at := now\<rparr>)
                 (on_episode i (\<lambda>e. e\<lparr>ep_wrapup_state := WPending, ep_wrapup_error := None,
                   ep_updated_at := now\<rparr>) s1), i)))
     (\<lambda>s1 i. sbind (reread (episode s1 i)) (\<lambda>e.
        sbind (reread (episode_report_attempt s1 a)) (\<lambda>r. Inr (e, r))))"

definition record_episode_report_attempt_error ::
  "store_env \<Rightarrow> store \<Rightarrow> string \<Rightarrow> string \<Rightarrow> string \<Rightarrow> store \<times> (episode_record \<times> report_attempt) sres" where
  "record_episode_report_attempt_error E s a error now =
     finish_episode_report_attempt_error E s a error False now"

definition finish_episode_report_error ::
  "store_env \<Rightarrow> store \<Rightarrow> string \<Rightarrow> string \<Rightarrow> string \<Rightarrow> store \<times> (episode_record \<times> report_attempt) sres" where
  "finish_episode_report_error E s a error now =
     finish_episode_report_attempt_error E s a error True now"

definition publish_report ::
  "store_env \<Rightarrow> store \<Rightarrow> string \<Rightarrow> episode_record \<Rightarrow> report_record \<Rightarrow> string \<Rightarrow> store sres" where
  "publish_report E s a e r now =
     sbind (insert_report s r) (\<lambda>s1.
     sbind (status_for_ending (Some (rr_ending r))) (\<lambda>final.
     terminalize_child E
       (on_episode (ep_episode_id e) (\<lambda>e. e\<lparr>ep_status := final, ep_wrapup_state := WReady,
          ep_wrapup_error := None, ep_updated_at := now, ep_ended_at := coalesce (ep_ended_at e) now\<rparr>)
       (on_wrapup (ep_episode_id e) (\<lambda>w. w\<lparr>wu_state := WReady, wu_diagnostic := None,
          wu_updated_at := now, wu_finished_at := Some now\<rparr>)
       (on_task (rr_allocation_operation_id r) (\<lambda>t. t\<lparr>tk_status := TSucceeded,
          tk_status_message := ''Report ready'', tk_error := None, tk_updated_at := now,
          tk_finished_at := Some now, tk_phase := ''completed''\<rparr>)
       (on_attempt a (\<lambda>x. x\<lparr>ra_status := ASucceeded, ra_error := None, ra_updated_at := now,
          ra_finished_at := Some now\<rparr>) s1))))
       (ep_episode_id e) final (rr_ending r) (ep_ending_diagnostic e) now))"

definition finish_episode_report_ready ::
  "store_env \<Rightarrow> store \<Rightarrow> string \<Rightarrow> report_record \<Rightarrow> string \<Rightarrow> store \<times> (episode_record \<times> report_record) sres" where
  "finish_episode_report_ready E s a r now = transact s
     (case dget (st_attempts s) a of
        None \<Rightarrow> Inl StoreKeyError
      | Some row \<Rightarrow> (case (dget (st_episodes s) (ra_episode_id row), dget (st_wrapups s) (ra_episode_id row)) of
          (Some e0, Some w0) \<Rightarrow>
            sbind (episode_row e0) (\<lambda>e.
            sbind (wrapup_row w0) (\<lambda>w.
            if rr_attempt_id r \<noteq> a \<or> rr_episode_id r \<noteq> ep_episode_id e
              \<or> rr_allocation_operation_id r \<noteq> ra_allocation_operation_id row
              \<or> Some (rr_allocation_operation_id r) \<noteq> wu_allocation_operation_id w
              \<or> Some (rr_ending r) \<noteq> ep_ending e
            then Inl EpisodeReportConflict
            else if ep_ending e = Some EndStopped then Inl EpisodeReportConflict
            else case episode_report s (ep_episode_id e) of
              Some stored \<Rightarrow> if stored \<noteq> r then Inl EpisodeReportConflict else Inr (s, ())
            | None \<Rightarrow>
                if ra_status row \<notin> {AQueued, ARunning} then Inl EpisodeReportConflict
                else sbind (publish_report E s a e r now) (\<lambda>s1. Inr (s1, ()))))
        | _ \<Rightarrow> Inl StoreRuntimeError))
     (\<lambda>s1 _. sbind (reread (episode s1 (rr_episode_id r))) (\<lambda>e.
        case episode_report s1 (rr_episode_id r) of
          None \<Rightarrow> Inl StoreAssertionError | Some q \<Rightarrow> Inr (e, q)))"

section \<open>Detaching restored episodes\<close>

text \<open>\<open>" ".join(text.split())[:2000]\<close>.\<close>

fun py_words :: "string \<Rightarrow> string \<Rightarrow> string list" where
  "py_words w [] = (if w = [] then [] else [w])"
| "py_words w (c # cs) = (if is_space c then (if w = [] then py_words [] cs else w # py_words [] cs)
     else py_words (w @ [c]) cs)"

fun spaced :: "string list \<Rightarrow> string" where
  "spaced [] = []"
| "spaced [w] = w"
| "spaced (w # ws) = w @ '' '' @ spaced ws"

definition restore_detail :: "string \<Rightarrow> string" where
  "restore_detail diagnostic = take 2000 (spaced (py_words [] diagnostic))"

definition detach_episode_reports_for_restore :: "store_env \<Rightarrow> store \<Rightarrow> string \<Rightarrow> string \<Rightarrow> store sres" where
  "detach_episode_reports_for_restore E s diagnostic now =
    (let detail = restore_detail diagnostic in
     if detail = [] \<or> \<not> se_timestamp E now then Inl StoreValueError
     else Inr (s\<lparr>
       st_attempts := map (\<lambda>kv. if ra_status (snd kv) \<in> {AQueued, ARunning}
           then (fst kv, (snd kv)\<lparr>ra_status := AFailed, ra_error := Some detail, ra_updated_at := now,
             ra_finished_at := coalesce (ra_finished_at (snd kv)) now\<rparr>) else kv) (st_attempts s),
       st_wrapups := map (\<lambda>kv. if wu_state (snd kv) \<in> {WPending, WRunning}
             \<and> (wu_native_session_id (snd kv) \<noteq> None \<or> wu_stage_host (snd kv) \<noteq> None
                \<or> wu_stage_root (snd kv) \<noteq> None)
           then (fst kv, (snd kv)\<lparr>wu_native_session_id := None, wu_stage_host := None,
             wu_stage_root := None, wu_updated_at := now\<rparr>) else kv) (st_wrapups s)\<rparr>))"

definition detach_bindings :: "string \<Rightarrow> store \<Rightarrow> store" where
  "detach_bindings now s = s\<lparr>st_bindings := map (\<lambda>kv.
     if sb_native_session_id (snd kv) \<noteq> None \<or> sb_stage_host (snd kv) \<noteq> None \<or> sb_stage_root (snd kv) \<noteq> None
     then (fst kv, (snd kv)\<lparr>sb_native_session_id := None, sb_stage_host := None, sb_stage_root := None,
       sb_updated_at := now\<rparr>) else kv) (st_bindings s)\<rparr>"

definition stop_restored :: "store_env \<Rightarrow> string \<Rightarrow> string \<Rightarrow> string \<Rightarrow> store \<Rightarrow> store sres" where
  "stop_restored E detail now i s =
    (let receipt = compact_episode_receipt E [(''diagnostic'', VStr detail), (''ending'', VStr ''stopped''),
           (''episode_id'', VStr i), (''reason'', VStr ''restore'')] in
     sbind (case dget (st_wrapups s) i of
         None \<Rightarrow> insert_episode_wrapup s
           (skipped_wrapup i (concluding_operation s i) receipt (Some detail) now)
       | Some w \<Rightarrow>
           if wu_state w \<notin> {WPending, WRunning} then Inl EpisodeReportConflict
           else Inr (on_wrapup i (\<lambda>w. w\<lparr>wu_ending := Some EndStopped, wu_partial := True,
             wu_native_session_id := None, wu_stage_host := None, wu_stage_root := None,
             wu_receipt_json := fst receipt, wu_receipt_sha256 := snd receipt, wu_state := WSkipped,
             wu_diagnostic := Some detail, wu_updated_at := now,
             wu_finished_at := coalesce (wu_finished_at w) now\<rparr>) s)) (\<lambda>s1.
     Inr (on_episode i (stopped_episode (Some detail) now) s1)))"

fun sfold :: "('a \<Rightarrow> 's \<Rightarrow> 's sres) \<Rightarrow> 'a list \<Rightarrow> 's \<Rightarrow> 's sres" where
  "sfold f [] s = Inr s"
| "sfold f (x # xs) s = sbind (f x s) (sfold f xs)"

definition detach_experiment_episodes_for_restore ::
  "store_env \<Rightarrow> store \<Rightarrow> string \<Rightarrow> string \<Rightarrow> store sres" where
  "detach_experiment_episodes_for_restore E s diagnostic now =
    (let detail = restore_detail diagnostic in
     if detail = [] \<or> \<not> se_timestamp E now then Inl StoreValueError
     else sfold (stop_restored E detail now)
       (sort (map ep_episode_id (filter (\<lambda>e. ep_mode e = ExperimentLoopMode \<and> is_live e)
         (dvalues (st_episodes s))))) (detach_bindings now s))"

end
