(* ===== verification/EpisodeViews.thy ===== *)
theory EpisodeViews
  imports Episodes
begin

text \<open>
  The store seen one episode at a time. A view collects the rows that belong to an episode,
  and every primitive write of the store changes at most one view, in the way its simp rule
  says. The moves a view can make, and the phases an episode goes through, are the abstract
  machine that the store operations implement.
\<close>

section \<open>Sequencing\<close>

named_theorems view_simps
named_theorems store_frames

lemma sbind_Inr [simp]: "sbind (Inr x) f = f x"
  by (simp add: sbind_def)

lemma sbind_Inl [simp]: "sbind (Inl e) f = Inl e"
  by (simp add: sbind_def)

lemma sbind_eq_Inr: "sbind m f = Inr y \<longleftrightarrow> (\<exists>x. m = Inr x \<and> f x = Inr y)"
  by (cases m) auto

lemma sguard_eq_Inr [simp]: "sguard b e = Inr u \<longleftrightarrow> b"
  by (simp add: sguard_def)

lemma transact_state:
  "fst (transact s body after) = (case body of Inl _ \<Rightarrow> s | Inr r \<Rightarrow> fst r)"
  by (simp add: transact_def split: sum.splits)

section \<open>Keyed tables\<close>

lemma keyed_value: "keyed key d \<Longrightarrow> v \<in> set (dvalues d) \<Longrightarrow> dget d (key v) = Some v"
  by (fastforce simp: keyed_def dvalues_def intro: map_of_is_SomeI)

lemma dget_value: "dget d k = Some v \<Longrightarrow> v \<in> set (dvalues d)"
  by (force simp: dvalues_def dest: map_of_SomeD)

lemma keys_dmodify [simp]: "map fst (dmodify k f d) = map fst d"
  by (simp add: dmodify_def comp_def if_distrib cong: if_cong)

lemma dget_dmodify: "dget (dmodify k f d) j = (if j = k then map_option f (dget d j) else dget d j)"
  by (induction d) (auto simp: dmodify_def)

lemma dhas_dmodify [simp]: "dhas j (dmodify k f d) = dhas j d"
  unfolding dhas_def keys_dmodify ..

lemma keyed_dmodify: "keyed key d \<Longrightarrow> (\<And>v. key (f v) = key v) \<Longrightarrow> keyed key (dmodify k f d)"
  by (auto simp: keyed_def dmodify_def comp_def if_distrib cong: if_cong)

lemmas keyed_row_dset = keyed_dset [OF _ refl]

lemma dset_fresh: "\<not> dhas k d \<Longrightarrow> dset k v d = d @ [(k, v)]"
  by (induction d) (auto simp: dhas_def)

lemma dvalues_dmodify:
  "keyed key d \<Longrightarrow> dvalues (dmodify k f d) = map (\<lambda>v. if key v = k then f v else v) (dvalues d)"
  by (auto simp: keyed_def dmodify_def dvalues_def)

lemma filter_dmodify:
  assumes "keyed key d" and "\<And>v. P (f v) = P v"
  shows "filter P (dvalues (dmodify k f d))
    = map (\<lambda>v. if key v = k then f v else v) (filter P (dvalues d))"
  unfolding dvalues_dmodify [OF assms(1)] filter_map comp_def
  by (rule arg_cong [where f = "map _"], rule filter_cong) (auto simp: assms(2))

section \<open>Views\<close>

record episode_view =
  vw_episode :: episode_record
  vw_numbers :: "int list"
  vw_attempts :: "report_attempt list"
  vw_wrapup :: "wrapup_record option"
  vw_reports :: "report_record list"

definition attempts_for :: "store \<Rightarrow> string \<Rightarrow> report_attempt list" where
  "attempts_for s i = filter (\<lambda>a. ra_episode_id a = i) (dvalues (st_attempts s))"

definition view_of :: "store \<Rightarrow> string \<Rightarrow> episode_view option" where
  "view_of s i = map_option (\<lambda>e. \<lparr>vw_episode = e,
     vw_numbers = map iv_invocation_number (filter (\<lambda>j. iv_episode_id j = i) (st_invocations s)),
     vw_attempts = attempts_for s i, vw_wrapup = dget (st_wrapups s) i,
     vw_reports = filter (\<lambda>r. rr_episode_id r = i) (st_reports s)\<rparr>) (dget (st_episodes s) i)"

definition is_live_attempt :: "report_attempt \<Rightarrow> bool" where
  "is_live_attempt a \<longleftrightarrow> ra_status a \<in> {AQueued, ARunning}"

definition live_attempts :: "report_attempt list \<Rightarrow> report_attempt list" where
  "live_attempts = filter is_live_attempt"

definition change_attempt ::
  "string \<Rightarrow> (report_attempt \<Rightarrow> report_attempt) \<Rightarrow> report_attempt list \<Rightarrow> report_attempt list" where
  "change_attempt a f = map (\<lambda>r. if ra_attempt_id r = a then f r else r)"

text \<open>What the view of an episode reads of the store.\<close>

definition ledger :: "store \<Rightarrow> episode_record dict \<times> invocation_record list \<times> report_attempt dict
    \<times> wrapup_record dict \<times> report_record list" where
  "ledger s = (st_episodes s, st_invocations s, st_attempts s, st_wrapups s, st_reports s)"

lemma view_of_ledger: "ledger s = ledger t \<Longrightarrow> view_of s = view_of t"
  by (auto simp: ledger_def view_of_def attempts_for_def fun_eq_iff)

lemma ledger_frames [simp]:
  "ledger (s\<lparr>st_tasks := ts\<rparr>) = ledger s" "ledger (s\<lparr>st_receipts := rs\<rparr>) = ledger s"
  "ledger (s\<lparr>st_routes := cs\<rparr>) = ledger s" "ledger (s\<lparr>st_notices := ns\<rparr>) = ledger s"
  "ledger (s\<lparr>st_bindings := bs\<rparr>) = ledger s" "ledger (on_task i f s) = ledger s"
  by (simp_all add: ledger_def on_task_def)

lemma ledger_insert_agent_task: "insert_agent_task E s t c = Inr s' \<Longrightarrow> ledger s' = ledger s"
  by (auto simp: insert_agent_task_def sbind_eq_Inr split: if_splits)

lemma ledger_insert_notice: "insert_lifecycle_notice E s n = Inr r \<Longrightarrow> ledger (fst r) = ledger s"
  by (auto simp: insert_lifecycle_notice_def sbind_eq_Inr sguard_eq_Inr split: option.splits if_splits sum.splits)

lemma ledger_terminalize: "terminalize_child E s i x y d now = Inr s' \<Longrightarrow> ledger s' = ledger s"
  by (auto simp: terminalize_child_def Let_def sbind_eq_Inr dest!: ledger_insert_notice split: option.splits if_splits)

lemma view_on_episode [view_simps]:
  "view_of (on_episode i f s) j
    = (if j = i then map_option (\<lambda>v. v\<lparr>vw_episode := f (vw_episode v)\<rparr>) (view_of s j) else view_of s j)"
  by (simp add: on_episode_def view_of_def attempts_for_def dget_dmodify option.map_comp comp_def)

lemma view_on_wrapup [view_simps]:
  "view_of (on_wrapup i f s) j
    = (if j = i then map_option (\<lambda>v. v\<lparr>vw_wrapup := map_option f (vw_wrapup v)\<rparr>) (view_of s j)
       else view_of s j)"
  by (simp add: on_wrapup_def view_of_def attempts_for_def dget_dmodify option.map_comp comp_def)

lemma view_on_attempt:
  assumes "keyed ra_attempt_id (st_attempts s)" and "\<And>r. ra_episode_id (f r) = ra_episode_id r"
  shows "view_of (on_attempt a f s) j
    = map_option (\<lambda>v. v\<lparr>vw_attempts := change_attempt a f (vw_attempts v)\<rparr>) (view_of s j)"
  using filter_dmodify [OF assms(1), of "\<lambda>r. ra_episode_id r = j" f a] assms(2)
  by (simp add: on_attempt_def view_of_def attempts_for_def change_attempt_def option.map_comp comp_def)

lemma view_on_task [view_simps]: "view_of (on_task i f s) = view_of s"
  by (rule view_of_ledger) simp

lemma view_insert_invocation:
  "insert_invocation s n = Inr t \<Longrightarrow> view_of t j = (if iv_episode_id n = j
     then map_option (\<lambda>v. v\<lparr>vw_numbers := vw_numbers v @ [iv_invocation_number n]\<rparr>) (view_of s j)
     else view_of s j)"
  by (auto simp: insert_invocation_def view_of_def attempts_for_def option.map_comp comp_def split: if_splits)

lemma view_insert_wrapup:
  "insert_episode_wrapup s w = Inr t \<Longrightarrow> view_of t j = (if wu_episode_id w = j
     then map_option (\<lambda>v. v\<lparr>vw_wrapup := Some w\<rparr>) (view_of s j) else view_of s j)"
  by (auto simp: insert_episode_wrapup_def view_of_def attempts_for_def option.map_comp comp_def dget_dset
      split: if_splits)

lemma view_insert_attempt:
  "insert_attempt s a = Inr t \<Longrightarrow> view_of t j = (if ra_episode_id a = j
     then map_option (\<lambda>v. v\<lparr>vw_attempts := vw_attempts v @ [a]\<rparr>) (view_of s j) else view_of s j)"
  by (auto simp: insert_attempt_def view_of_def attempts_for_def option.map_comp comp_def dset_fresh
      dvalues_def split: if_splits)

lemma view_insert_report:
  "insert_report s r = Inr t \<Longrightarrow> view_of t j = (if rr_episode_id r = j
     then map_option (\<lambda>v. v\<lparr>vw_reports := vw_reports v @ [r]\<rparr>) (view_of s j) else view_of s j)"
  by (auto simp: insert_report_def view_of_def attempts_for_def option.map_comp comp_def split: if_splits)

end
