(* ===== verification/EpisodeMachine.thy ===== *)
theory EpisodeMachine
  imports EpisodeViews
begin

text \<open>
  The abstract machine of one episode: when its rows agree (\<open>view_ok\<close>), the moves it can make
  (\<open>view_move\<close>), and the phases those moves run through (\<open>phase_step\<close>). Moves keep the rows
  in agreement and follow the phases; phases only go forward.
\<close>

section \<open>Rows that agree\<close>

definition terminal_status :: "episode_status \<Rightarrow> bool" where
  "terminal_status x \<longleftrightarrow> x \<in> {ENeedsAction, ECompleted, EStopped, EFailed}"

definition status_agrees :: "episode_record \<Rightarrow> bool" where
  "status_agrees e \<longleftrightarrow>
     (ep_status e \<in> {EQueued, ERunning} \<longrightarrow>
        ep_ending e = None \<and> ep_wrapup_state e = WNotStarted \<and> ep_stop_requested_at e = None)
     \<and> (ep_status e = EStopping \<longrightarrow>
        ep_ending e = None \<and> ep_wrapup_state e = WNotStarted \<and> ep_stop_requested_at e \<noteq> None)
     \<and> (ep_status e = EWrappingUp \<longrightarrow>
        ep_ending e \<notin> {None, Some EndStopped} \<and> ep_wrapup_state e \<in> {WNotStarted, WPending, WRunning}
        \<and> ep_stop_requested_at e = None)
     \<and> (terminal_status (ep_status e) \<longrightarrow> status_for_ending (ep_ending e) = Inr (ep_status e)
        \<and> ep_wrapup_state e \<in> {WNotStarted, WReady, WFailed, WSkipped})"

definition wrapup_agrees :: "episode_view \<Rightarrow> bool" where
  "wrapup_agrees v \<longleftrightarrow> (case vw_wrapup v of
       None \<Rightarrow> ep_wrapup_state (vw_episode v) = WNotStarted \<and> vw_attempts v = []
     | Some w \<Rightarrow> wu_state w = ep_wrapup_state (vw_episode v) \<and> wu_ending w = ep_ending (vw_episode v)
         \<and> wu_state w \<in> {WPending, WRunning, WReady, WFailed, WSkipped}
         \<and> (wu_state w \<in> {WPending, WRunning} \<longrightarrow> wu_allocation_operation_id w \<noteq> None))"

definition attempts_agree :: "episode_view \<Rightarrow> bool" where
  "attempts_agree v \<longleftrightarrow>
     map ra_attempt_number (vw_attempts v) = [1..ep_report_attempts_used (vw_episode v)]
     \<and> length (live_attempts (vw_attempts v)) \<le> 1
     \<and> (live_attempts (vw_attempts v) \<noteq> [] \<longrightarrow>
          ep_status (vw_episode v) = EWrappingUp \<and> ep_wrapup_state (vw_episode v) \<in> {WPending, WRunning})"

definition view_ok :: "episode_view \<Rightarrow> bool" where
  "view_ok v \<longleftrightarrow> episode_coherent (vw_episode v)
     \<and> vw_numbers v = [1..ep_invocations_used (vw_episode v)]
     \<and> status_agrees (vw_episode v) \<and> wrapup_agrees v \<and> attempts_agree v
     \<and> (vw_reports v \<noteq> [] \<longleftrightarrow> ep_wrapup_state (vw_episode v) = WReady)"

section \<open>Moves\<close>

text \<open>
  One constructor per write of the store. The time stamps, diagnostics and error texts are
  arbitrary. \<open>f\<close> stands for the failure written into the attempt \<open>a\<close>.
\<close>

definition failure :: "(report_attempt \<Rightarrow> report_attempt) \<Rightarrow> bool" where
  "failure f \<longleftrightarrow> (\<forall>r. ra_status (f r) = AFailed \<and> ra_attempt_number (f r) = ra_attempt_number r
     \<and> ra_attempt_id (f r) = ra_attempt_id r \<and> ra_episode_id (f r) = ra_episode_id r)"

inductive view_move :: "episode_view \<Rightarrow> episode_view \<Rightarrow> bool" where
  spend: "ep_status (vw_episode v) \<in> {EQueued, ERunning} \<Longrightarrow> n = ep_invocations_used (vw_episode v) + 1
    \<Longrightarrow> n \<le> ep_invocation_ceiling (vw_episode v)
    \<Longrightarrow> view_move v (v\<lparr>vw_episode := (vw_episode v)\<lparr>ep_root_operation_id := root_op, ep_status := ERunning,
      ep_invocations_used := n, ep_updated_at := now\<rparr>, vw_numbers := vw_numbers v @ [n]\<rparr>)"
| activate: "ep_status (vw_episode v) = EQueued \<Longrightarrow> view_move v (v\<lparr>vw_episode := (vw_episode v)\<lparr>ep_status := ERunning,
      ep_updated_at := now\<rparr>\<rparr>)"
| stop: "ep_status (vw_episode v) \<in> {EQueued, ERunning, EStopping}
    \<Longrightarrow> view_move v (v\<lparr>vw_episode := (vw_episode v)\<lparr>ep_status := EStopping,
      ep_stop_requested_at := Some now, ep_updated_at := now\<rparr>\<rparr>)"
| fence: "ep_status (vw_episode v) \<in> {EQueued, ERunning} \<Longrightarrow> x \<noteq> EndStopped
    \<Longrightarrow> view_move v (v\<lparr>vw_episode := (vw_episode v)\<lparr>ep_status := EWrappingUp, ep_ending := Some x,
      ep_ending_diagnostic := d, ep_updated_at := now\<rparr>\<rparr>)"
| wrapup: "ep_status (vw_episode v) \<in> {EQueued, ERunning, EWrappingUp} \<Longrightarrow> vw_wrapup v = None
    \<Longrightarrow> wu_state w = WPending \<Longrightarrow> wu_ending w \<notin> {None, Some EndStopped}
    \<Longrightarrow> ep_ending (vw_episode v) \<in> {None, wu_ending w} \<Longrightarrow> wu_allocation_operation_id w \<noteq> None
    \<Longrightarrow> view_move v (v\<lparr>vw_wrapup := Some w, vw_episode := (vw_episode v)\<lparr>ep_status := EWrappingUp,
      ep_ending := wu_ending w, ep_ending_diagnostic := d, ep_wrapup_state := WPending,
      ep_wrapup_error := None, ep_updated_at := now\<rparr>\<rparr>)"
| unreported: "ep_status (vw_episode v) \<in> {EQueued, ERunning, EWrappingUp} \<Longrightarrow> vw_wrapup v = None
    \<Longrightarrow> x \<noteq> EndStopped \<Longrightarrow> ep_ending (vw_episode v) \<in> {None, Some x} \<Longrightarrow> status_for_ending (Some x) = Inr final
    \<Longrightarrow> view_move v (v\<lparr>vw_episode := (vw_episode v)\<lparr>ep_status := final, ep_ending := Some x,
      ep_ending_diagnostic := d, ep_wrapup_state := WNotStarted, ep_wrapup_error := None,
      ep_updated_at := now, ep_ended_at := ended\<rparr>\<rparr>)"
| unlaunchable: "ep_status (vw_episode v) \<in> {EQueued, ERunning, EWrappingUp} \<Longrightarrow> vw_wrapup v = None
    \<Longrightarrow> x \<noteq> EndStopped \<Longrightarrow> wu_state w = WFailed \<Longrightarrow> wu_ending w = Some x
    \<Longrightarrow> status_for_ending (Some x) = Inr final
    \<Longrightarrow> view_move v (v\<lparr>vw_wrapup := Some w, vw_episode := (vw_episode v)\<lparr>ep_status := final,
      ep_ending := Some x, ep_ending_diagnostic := d, ep_wrapup_state := WFailed, ep_wrapup_error := err,
      ep_updated_at := now, ep_ended_at := ended\<rparr>\<rparr>)"
| settle: "ep_status (vw_episode v) \<in> {EQueued, ERunning, EStopping} \<Longrightarrow> vw_wrapup v = None
    \<Longrightarrow> wu_state w = WSkipped \<Longrightarrow> wu_ending w = Some EndStopped
    \<Longrightarrow> view_move v (v\<lparr>vw_wrapup := Some w, vw_episode := stopped_episode d now (vw_episode v)\<rparr>)"
| attempt: "ep_status (vw_episode v) = EWrappingUp \<Longrightarrow> ep_wrapup_state (vw_episode v) \<in> {WPending, WRunning}
    \<Longrightarrow> vw_wrapup v = Some w \<Longrightarrow> live_attempts (vw_attempts v) = []
    \<Longrightarrow> ra_attempt_number a = ep_report_attempts_used (vw_episode v) + 1
    \<Longrightarrow> ra_attempt_number a \<le> 3 \<Longrightarrow> ra_status a = AQueued
    \<Longrightarrow> view_move v (v\<lparr>vw_attempts := vw_attempts v @ [a],
      vw_episode := (vw_episode v)\<lparr>ep_wrapup_state := WRunning,
        ep_report_attempts_used := ra_attempt_number a, ep_updated_at := now\<rparr>,
      vw_wrapup := Some (w\<lparr>wu_state := WRunning, wu_updated_at := now\<rparr>)\<rparr>)"
| running: "(\<And>r. r \<in> set (vw_attempts v) \<Longrightarrow> ra_attempt_id r = a \<Longrightarrow> is_live_attempt r)
    \<Longrightarrow> view_move v (v\<lparr>vw_attempts := change_attempt a
      (\<lambda>r. r\<lparr>ra_status := ARunning, ra_updated_at := now\<rparr>) (vw_attempts v)\<rparr>)"
| retry: "ep_status (vw_episode v) = EWrappingUp \<Longrightarrow> ep_wrapup_state (vw_episode v) \<in> {WPending, WRunning}
    \<Longrightarrow> vw_wrapup v = Some w \<Longrightarrow> attempts = vw_attempts v \<or> (failure f \<and> attempts = change_attempt a f (vw_attempts v))
    \<Longrightarrow> view_move v (v\<lparr>vw_attempts := attempts, vw_wrapup := Some (w\<lparr>wu_state := WPending,
        wu_diagnostic := d, wu_updated_at := now, wu_finished_at := fin\<rparr>),
      vw_episode := (vw_episode v)\<lparr>ep_wrapup_state := WPending, ep_wrapup_error := None,
        ep_updated_at := now\<rparr>\<rparr>)"
| giveup: "ep_status (vw_episode v) = EWrappingUp \<Longrightarrow> vw_wrapup v = Some w
    \<Longrightarrow> status_for_ending (ep_ending (vw_episode v)) = Inr final
    \<Longrightarrow> map ra_attempt_number attempts = map ra_attempt_number (vw_attempts v) \<Longrightarrow> live_attempts attempts = []
    \<Longrightarrow> view_move v (v\<lparr>vw_attempts := attempts, vw_wrapup := Some (failed_wrapup err now w),
      vw_episode := failed_report_episode final err now (vw_episode v)\<rparr>)"
| publish: "ep_status (vw_episode v) = EWrappingUp \<Longrightarrow> vw_wrapup v = Some w
    \<Longrightarrow> status_for_ending (ep_ending (vw_episode v)) = Inr final
    \<Longrightarrow> (\<And>r. r \<in> set (vw_attempts v) \<Longrightarrow> is_live_attempt r \<Longrightarrow> ra_attempt_id r = a)
    \<Longrightarrow> live_attempts (vw_attempts v) \<noteq> []
    \<Longrightarrow> view_move v (v\<lparr>vw_attempts := change_attempt a (\<lambda>x. x\<lparr>ra_status := ASucceeded, ra_error := None,
        ra_updated_at := now, ra_finished_at := Some now\<rparr>) (vw_attempts v),
      vw_reports := vw_reports v @ [q],
      vw_wrapup := Some (w\<lparr>wu_state := WReady, wu_diagnostic := None, wu_updated_at := now,
        wu_finished_at := Some now\<rparr>),
      vw_episode := (vw_episode v)\<lparr>ep_status := final, ep_wrapup_state := WReady, ep_wrapup_error := None,
        ep_updated_at := now, ep_ended_at := ended\<rparr>\<rparr>)"
| detach: "map ra_attempt_number attempts = map ra_attempt_number (vw_attempts v) \<Longrightarrow> live_attempts attempts = []
    \<Longrightarrow> vw_wrapup v = None \<and> w = None \<or> (\<exists>x y. vw_wrapup v = Some x \<and> w = Some y \<and> wu_state x = wu_state y
          \<and> wu_ending x = wu_ending y \<and> wu_allocation_operation_id x = wu_allocation_operation_id y)
    \<Longrightarrow> view_move v (v\<lparr>vw_attempts := attempts, vw_wrapup := w\<rparr>)"
| restored: "is_live (vw_episode v) \<Longrightarrow> live_attempts (vw_attempts v) = []
    \<Longrightarrow> wu_state w = WSkipped \<Longrightarrow> wu_ending w = Some EndStopped
    \<Longrightarrow> view_move v (v\<lparr>vw_wrapup := Some w, vw_episode := stopped_episode d now (vw_episode v)\<rparr>)"

lemma live_append [simp]: "live_attempts (xs @ [a]) = live_attempts xs @ (if is_live_attempt a then [a] else [])"
  by (simp add: live_attempts_def)

lemma live_change_le:
  assumes "\<And>r. r \<in> set xs \<Longrightarrow> ra_attempt_id r = a \<Longrightarrow> is_live_attempt (f r) \<Longrightarrow> is_live_attempt r"
  shows "length (live_attempts (change_attempt a f xs)) \<le> length (live_attempts xs)"
  using assms by (induction xs) (auto simp: live_attempts_def change_attempt_def)

lemma live_change_Nil:
  assumes "\<And>r. r \<in> set xs \<Longrightarrow> ra_attempt_id r = a \<Longrightarrow> is_live_attempt (f r) \<Longrightarrow> is_live_attempt r"
  shows "live_attempts xs = [] \<Longrightarrow> live_attempts (change_attempt a f xs) = []"
  using live_change_le [OF assms, of xs] by simp

lemma live_change_same:
  assumes "\<And>r. r \<in> set xs \<Longrightarrow> ra_attempt_id r = a \<Longrightarrow> is_live_attempt (f r) = is_live_attempt r"
  shows "live_attempts (change_attempt a f xs) = [] \<longleftrightarrow> live_attempts xs = []"
  using assms by (induction xs) (auto simp: live_attempts_def change_attempt_def)

lemma numbers_change [simp]:
  "(\<And>r. ra_attempt_number (f r) = ra_attempt_number r)
    \<Longrightarrow> map ra_attempt_number (change_attempt a f xs) = map ra_attempt_number xs"
  by (simp add: change_attempt_def)

lemma failed_not_live: "failure f \<Longrightarrow> \<not> is_live_attempt (f r)"
  by (auto simp: failure_def is_live_attempt_def)

lemma live_change_failed:
  assumes "failure f" and "\<And>r. r \<in> set xs \<Longrightarrow> is_live_attempt r \<Longrightarrow> ra_attempt_id r = a"
  shows "live_attempts (change_attempt a f xs) = []"
  using assms(2) failed_not_live [OF assms(1)]
  by (auto simp: live_attempts_def change_attempt_def filter_empty_conv)

lemma ending_of_status: "status_for_ending x = Inr y \<Longrightarrow> x \<noteq> None \<and> terminal_status y \<and> (y = EStopped \<longleftrightarrow> x = Some EndStopped)"
  by (auto simp: status_for_ending_def terminal_status_def split: option.splits episode_ending.splits)

lemma upto_snoc: "0 \<le> n \<Longrightarrow> [1..n] @ [n + 1] = [1..n + (1 :: int)]"
  by (simp add: upto_rec2)

text \<open>What is fixed when an episode is created, its counters, and the pairing of ending and wrap-up.\<close>

definition static_ok :: "episode_record \<Rightarrow> bool" where
  "static_ok e \<longleftrightarrow> (ep_mode e = ExperimentLoopMode \<longrightarrow> ep_control_node_id e \<notin> {None, Some []})
     \<and> (ep_mode e = AutoResearchMode \<longrightarrow> ep_control_node_id e = None)
     \<and> (is_main (ep_graph_target e) \<longrightarrow> ep_graph_base_head e = None)
     \<and> (\<not> is_main (ep_graph_target e) \<longrightarrow>
          (case ep_graph_base_head e of None \<Rightarrow> False | Some h \<Rightarrow> gh_target h = MainTarget)
          \<and> (ep_mode e = AutoResearchMode \<longrightarrow> ep_graph_target e = BranchTarget (ep_episode_id e)))"

definition counters_ok :: "episode_record \<Rightarrow> bool" where
  "counters_ok e \<longleftrightarrow> 1 \<le> ep_invocation_ceiling e \<and> 0 \<le> ep_invocations_used e
     \<and> ep_invocations_used e \<le> ep_invocation_ceiling e
     \<and> 0 \<le> ep_report_attempts_used e \<and> ep_report_attempts_used e \<le> 3"

definition endings_ok :: "episode_record \<Rightarrow> bool" where
  "endings_ok e \<longleftrightarrow> (ep_ending e = Some EndStopped \<longleftrightarrow> ep_wrapup_state e = WSkipped)
     \<and> (ep_wrapup_state e \<in> {WReady, WFailed} \<longrightarrow> ep_ending e \<noteq> None)"

lemma episode_coherent_iff: "episode_coherent e \<longleftrightarrow> static_ok e \<and> counters_ok e \<and> endings_ok e"
  unfolding episode_coherent_def static_ok_def counters_ok_def endings_ok_def by blast

lemma static_ok_frames [simp]:
  "static_ok (e\<lparr>ep_root_operation_id := a\<rparr>) = static_ok e" "static_ok (e\<lparr>ep_status := b\<rparr>) = static_ok e"
  "static_ok (e\<lparr>ep_invocations_used := c\<rparr>) = static_ok e" "static_ok (e\<lparr>ep_stop_requested_at := d\<rparr>) = static_ok e"
  "static_ok (e\<lparr>ep_stop_settled_at := f\<rparr>) = static_ok e" "static_ok (e\<lparr>ep_ending := g\<rparr>) = static_ok e"
  "static_ok (e\<lparr>ep_ending_diagnostic := h\<rparr>) = static_ok e" "static_ok (e\<lparr>ep_wrapup_state := i\<rparr>) = static_ok e"
  "static_ok (e\<lparr>ep_wrapup_error := j\<rparr>) = static_ok e" "static_ok (e\<lparr>ep_report_attempts_used := k\<rparr>) = static_ok e"
  "static_ok (e\<lparr>ep_updated_at := l\<rparr>) = static_ok e" "static_ok (e\<lparr>ep_ended_at := m\<rparr>) = static_ok e"
  by (simp_all add: static_ok_def)

lemma no_numbers: "[] = [1..n] \<Longrightarrow> 0 \<le> n \<Longrightarrow> n = (0 :: int)"
  by (cases "1 \<le> n") auto

lemma unfenced_view:
  assumes "view_ok v" and "vw_wrapup v = None"
  shows "ep_wrapup_state (vw_episode v) = WNotStarted" "vw_attempts v = []"
    "ep_report_attempts_used (vw_episode v) = 0" "vw_reports v = []"
  using assms no_numbers [of "ep_report_attempts_used (vw_episode v)"]
  by (auto simp: view_ok_def wrapup_agrees_def attempts_agree_def episode_coherent_iff counters_ok_def)

lemma idle_view:
  assumes "view_ok v" and "ep_status (vw_episode v) \<in> {EQueued, ERunning, EStopping}"
  shows "ep_ending (vw_episode v) = None" "vw_wrapup v = None"
proof -
  have sa: "status_agrees (vw_episode v)" and wa: "wrapup_agrees v"
    using assms(1) by (auto simp: view_ok_def)
  have n: "ep_ending (vw_episode v) = None \<and> ep_wrapup_state (vw_episode v) = WNotStarted"
    using sa assms(2) unfolding status_agrees_def by blast
  then show "ep_ending (vw_episode v) = None" by simp
  show "vw_wrapup v = None" using n wa by (auto simp: wrapup_agrees_def split: option.splits)
qed

lemma open_view:
  assumes "view_ok v" and "ep_status (vw_episode v) \<in> {EQueued, ERunning}"
  shows "ep_stop_requested_at (vw_episode v) = None"
  using assms by (auto simp: view_ok_def status_agrees_def)

lemma wrapping_view:
  assumes "view_ok v" and "ep_status (vw_episode v) = EWrappingUp"
  shows "ep_ending (vw_episode v) \<notin> {None, Some EndStopped}"
    "ep_wrapup_state (vw_episode v) \<in> {WNotStarted, WPending, WRunning}"
    "ep_stop_requested_at (vw_episode v) = None" "vw_reports v = []"
  using assms by (auto simp: view_ok_def status_agrees_def)

lemma fenced_view:
  assumes "view_ok v" and "vw_wrapup v = Some w"
  shows "wu_state w = ep_wrapup_state (vw_episode v)" "wu_ending w = ep_ending (vw_episode v)"
    "wu_state w \<in> {WPending, WRunning, WReady, WFailed, WSkipped}"
    "wu_state w \<in> {WPending, WRunning} \<Longrightarrow> wu_allocation_operation_id w \<noteq> None"
  using assms by (auto simp: view_ok_def wrapup_agrees_def)

lemma view_parts:
  assumes "view_ok v"
  shows "static_ok (vw_episode v)" "counters_ok (vw_episode v)"
    "vw_numbers v = [1..ep_invocations_used (vw_episode v)]"
    "map ra_attempt_number (vw_attempts v) = [1..ep_report_attempts_used (vw_episode v)]"
    "length (live_attempts (vw_attempts v)) \<le> 1" "attempts_agree v"
  using assms by (simp_all add: view_ok_def episode_coherent_iff attempts_agree_def)

lemma live_Nil [simp]: "live_attempts [] = []"
  by (simp add: live_attempts_def)

lemmas new_view = view_ok_def episode_coherent_iff counters_ok_def endings_ok_def status_agrees_def
  wrapup_agrees_def attempts_agree_def terminal_status_def

lemma move_keeps_rows:
  assumes "view_move v w" and ok: "view_ok v"
  shows "view_ok w"
  using assms(1)
proof (cases rule: view_move.cases)
  case (spend n now root_op)
  have idle: "ep_ending (vw_episode v) = None" "vw_wrapup v = None" "ep_stop_requested_at (vw_episode v) = None"
    using idle_view [OF ok] open_view [OF ok] spend(2) by auto
  show ?thesis unfolding spend(1) using spend(3-) view_parts [OF ok] idle unfenced_view [OF ok idle(2)]
    by (simp add: new_view upto_snoc)
next
  case (activate now)
  have idle: "ep_ending (vw_episode v) = None" "vw_wrapup v = None" "ep_stop_requested_at (vw_episode v) = None"
    using idle_view [OF ok] open_view [OF ok] activate(2) by auto
  show ?thesis unfolding activate(1) using view_parts [OF ok] idle unfenced_view [OF ok idle(2)]
    by (simp add: new_view)
next
  case (stop now)
  note idle = idle_view [OF ok stop(2)]
  show ?thesis unfolding stop(1) using view_parts [OF ok] idle unfenced_view [OF ok idle(2)]
    by (simp add: new_view)
next
  case (fence x now d)
  have idle: "ep_ending (vw_episode v) = None" "vw_wrapup v = None" "ep_stop_requested_at (vw_episode v) = None"
    using idle_view [OF ok] open_view [OF ok fence(2)] fence(2) by auto
  show ?thesis unfolding fence(1) using fence(3) view_parts [OF ok] idle unfenced_view [OF ok idle(2)]
    by (simp add: new_view)
next
  case (wrapup w now d)
  have "ep_stop_requested_at (vw_episode v) = None"
    using wrapup(2) open_view [OF ok] wrapping_view(3) [OF ok] by auto
  then show ?thesis unfolding wrapup(1)
    using wrapup(3-) view_parts [OF ok] unfenced_view [OF ok wrapup(3)] by (simp add: new_view)
next
  case (unreported x final ended now d)
  note e = ending_of_status [OF unreported(6)]
  show ?thesis unfolding unreported(1)
    using unreported(3-) e view_parts [OF ok] unfenced_view [OF ok unreported(3)]
    by (auto simp: new_view)
next
  case (unlaunchable x w final ended now err d)
  note e = ending_of_status [OF unlaunchable(7)]
  show ?thesis unfolding unlaunchable(1)
    using unlaunchable(3-) e view_parts [OF ok] unfenced_view [OF ok unlaunchable(3)]
    by (auto simp: new_view)
next
  case (settle w d now)
  show ?thesis unfolding settle(1) using settle(3-) view_parts [OF ok] unfenced_view [OF ok settle(3)]
    by (simp add: new_view stopped_episode_def status_for_ending_def)
next
  case (attempt w a now)
  note f = wrapping_view [OF ok attempt(2)] fenced_view [OF ok attempt(4)]
  show ?thesis unfolding attempt(1) using attempt(2-) f view_parts [OF ok]
    by (auto simp: new_view is_live_attempt_def upto_snoc)
next
  case (running a now)
  let ?f = "\<lambda>r. r\<lparr>ra_status := ARunning, ra_updated_at := now\<rparr>"
  have live: "length (live_attempts (change_attempt a ?f (vw_attempts v))) \<le> length (live_attempts (vw_attempts v))"
    using running(2) by (rule live_change_le)
  then have "attempts_agree w" using view_parts [OF ok] unfolding running(1)
    by (auto simp: attempts_agree_def)
  moreover have "wrapup_agrees w" using ok unfolding running(1)
    by (auto simp: view_ok_def wrapup_agrees_def change_attempt_def split: option.splits)
  ultimately show ?thesis using ok unfolding running(1) by (auto simp: view_ok_def)
next
  case (retry w attempts f a now fin d)
  then have "map ra_attempt_number attempts = map ra_attempt_number (vw_attempts v)"
      "length (live_attempts attempts) \<le> length (live_attempts (vw_attempts v))"
    using live_change_le [of "vw_attempts v" a f] failed_not_live [of f] by (auto simp: failure_def)
  then show ?thesis unfolding retry(1)
    using retry(2-4) view_parts [OF ok] wrapping_view [OF ok retry(2)] fenced_view [OF ok retry(4)]
    by (auto simp: new_view)
next
  case (giveup w final attempts err now)
  show ?thesis unfolding giveup(1)
    using giveup(2-) view_parts [OF ok] wrapping_view [OF ok giveup(2)] fenced_view [OF ok giveup(3)]
      ending_of_status [OF giveup(4)]
    by (auto simp: new_view failed_wrapup_def failed_report_episode_def)
next
  case (publish w final a ended now q)
  let ?f = "\<lambda>x. x\<lparr>ra_status := ASucceeded, ra_error := None, ra_updated_at := now, ra_finished_at := Some now\<rparr>"
  have "live_attempts (change_attempt a ?f (vw_attempts v)) = []"
    using publish(5) by (auto simp: live_attempts_def change_attempt_def filter_empty_conv is_live_attempt_def)
  then show ?thesis unfolding publish(1)
    using publish(2-4) view_parts [OF ok] wrapping_view [OF ok publish(2)] fenced_view [OF ok publish(3)]
      ending_of_status [OF publish(4)]
    by (auto simp: new_view)
next
  case (detach attempts w)
  then show ?thesis using ok by (auto simp: view_ok_def wrapup_agrees_def attempts_agree_def)
next
  case (restored w d now)
  have "vw_reports v = []" using ok restored(2)
    by (auto simp: view_ok_def status_agrees_def is_live_def LIVE_EPISODE_STATUSES_def)
  then show ?thesis unfolding restored(1) using restored(3-) view_parts [OF ok]
    by (simp add: new_view stopped_episode_def status_for_ending_def)
qed

section \<open>Phases\<close>

datatype phase =
    Open int int
  | Stopping
  | Fenced episode_ending
  | Reporting episode_ending int bool
  | Closed episode_ending wrapup_state

definition phase_of :: "episode_view \<Rightarrow> phase" where
  "phase_of v = (let e = vw_episode v in
     if ep_status e \<in> {EQueued, ERunning} then Open (ep_invocations_used e) (ep_invocation_ceiling e)
     else if ep_status e = EStopping then Stopping
     else if ep_status e = EWrappingUp then
       (if vw_wrapup v = None then Fenced (the (ep_ending e))
        else Reporting (the (ep_ending e)) (ep_report_attempts_used e) (live_attempts (vw_attempts v) \<noteq> []))
     else Closed (the (ep_ending e)) (ep_wrapup_state e))"

text \<open>
  The lifecycle an episode follows. Spending stays within the ceiling; a stop request leaves
  only the stop settlement; a fenced ending goes to a report or to its end; at most three
  report attempts are made, one at a time.
\<close>

inductive phase_step :: "phase \<Rightarrow> phase \<Rightarrow> bool" where
  p_spend: "u + 1 \<le> c \<Longrightarrow> phase_step (Open u c) (Open (u + 1) c)"
| p_stop: "phase_step (Open u c) Stopping"
| p_fence: "x \<noteq> EndStopped \<Longrightarrow> phase_step (Open u c) (Fenced x)"
| p_begin: "x \<noteq> EndStopped \<Longrightarrow> phase_step (Open u c) (Reporting x 0 False)"
| p_begin_fenced: "phase_step (Fenced x) (Reporting x 0 False)"
| p_end: "x \<noteq> EndStopped \<Longrightarrow> phase_step (Open u c) (Closed x WNotStarted)"
| p_end_fenced: "phase_step (Fenced x) (Closed x WNotStarted)"
| p_unlaunchable: "x \<noteq> EndStopped \<Longrightarrow> phase_step (Open u c) (Closed x WFailed)"
| p_unlaunchable_fenced: "x \<noteq> EndStopped \<Longrightarrow> phase_step (Fenced y) (Closed x WFailed)"
| p_skip: "phase_step (Open u c) (Closed EndStopped WSkipped)"
| p_settle: "phase_step Stopping (Closed EndStopped WSkipped)"
| p_attempt: "n + 1 \<le> 3 \<Longrightarrow> phase_step (Reporting x n False) (Reporting x (n + 1) True)"
| p_retry: "phase_step (Reporting x n True) (Reporting x n False)"
| p_ready: "phase_step (Reporting x n True) (Closed x WReady)"
| p_failed: "phase_step (Reporting x n b) (Closed x WFailed)"
| p_restore_fenced: "phase_step (Fenced x) (Closed EndStopped WSkipped)"
| p_restore: "phase_step (Reporting x n False) (Closed EndStopped WSkipped)"

inductive_cases closed_stepE: "phase_step (Closed x w) q"
inductive_cases stopping_stepE: "phase_step Stopping q"
inductive_cases reporting_stepE: "phase_step (Reporting x n b) q"
inductive_cases fenced_stepE: "phase_step (Fenced x) q"
inductive_cases open_stepE: "phase_step (Open u c) q"

lemma phase_open: "ep_status (vw_episode v) \<in> {EQueued, ERunning}
    \<Longrightarrow> phase_of v = Open (ep_invocations_used (vw_episode v)) (ep_invocation_ceiling (vw_episode v))"
  by (simp add: phase_of_def Let_def)

lemma phase_wrapping: "ep_status (vw_episode v) = EWrappingUp \<Longrightarrow> phase_of v
    = (if vw_wrapup v = None then Fenced (the (ep_ending (vw_episode v)))
       else Reporting (the (ep_ending (vw_episode v))) (ep_report_attempts_used (vw_episode v))
         (live_attempts (vw_attempts v) \<noteq> []))"
  by (simp add: phase_of_def Let_def)

lemma phase_closed: "terminal_status (ep_status (vw_episode v))
    \<Longrightarrow> phase_of v = Closed (the (ep_ending (vw_episode v))) (ep_wrapup_state (vw_episode v))"
  by (auto simp: phase_of_def Let_def terminal_status_def)

lemma phase_stopped:
  "phase_of (v\<lparr>vw_wrapup := w, vw_episode := stopped_episode d now e\<rparr>) = Closed EndStopped WSkipped"
  by (simp add: phase_of_def Let_def stopped_episode_def)

text \<open>A move follows the phases, or leaves the phase as it is.\<close>

lemma move_follows_phases:
  assumes "view_move v w" and ok: "view_ok v"
  shows "phase_step\<^sup>=\<^sup>= (phase_of v) (phase_of w)"
  using assms(1)
proof (cases rule: view_move.cases)
  case (spend n now root_op)
  show ?thesis using spend(3,4) unfolding phase_open [OF spend(2)] unfolding spend(1)
    by (simp add: phase_open p_spend)
next
  case (activate now)
  then show ?thesis by (simp add: phase_open)
next
  case (stop now)
  show ?thesis using stop(2) unfolding stop(1)
    by (auto simp: phase_of_def Let_def intro: p_stop)
next
  case (fence x now d)
  show ?thesis using fence(3) idle_view(2) [OF ok] fence(2) unfolding phase_open [OF fence(2)] unfolding fence(1)
    by (auto simp: phase_wrapping intro: p_fence)
next
  case (wrapup w d now)
  obtain x where x: "wu_ending w = Some x" "x \<noteq> EndStopped" using wrapup(5) by auto
  note u = unfenced_view [OF ok wrapup(3)]
  show ?thesis using wrapup(2,3,6) x u wrapping_view(1) [OF ok] unfolding wrapup(1)
    by (auto simp: phase_of_def Let_def p_begin p_begin_fenced)
next
  case (unreported x final ended now d)
  note e = ending_of_status [OF unreported(6)]
  show ?thesis using unreported(2-5) e wrapping_view(1) [OF ok] unfolding unreported(1)
    by (auto simp: phase_closed p_end p_end_fenced phase_open phase_wrapping)
next
  case (unlaunchable x w final ended now err d)
  note e = ending_of_status [OF unlaunchable(7)]
  show ?thesis using unlaunchable(2-5) e unfolding unlaunchable(1)
    by (auto simp: phase_closed p_unlaunchable p_unlaunchable_fenced phase_open phase_wrapping)
next
  case (settle w d now)
  show ?thesis using settle(2) unfolding settle(1) phase_stopped
    by (auto simp: phase_of_def Let_def p_skip p_settle)
next
  case (attempt w a now)
  show ?thesis using attempt(2-) unfolding attempt(1)
    by (auto simp: phase_wrapping is_live_attempt_def p_attempt)
next
  case (running a now)
  have "live_attempts (change_attempt a (\<lambda>r. r\<lparr>ra_status := ARunning, ra_updated_at := now\<rparr>) (vw_attempts v)) = []
      \<longleftrightarrow> live_attempts (vw_attempts v) = []"
    using running(2) by (intro live_change_same) (simp add: is_live_attempt_def)
  then show ?thesis unfolding running(1) by (simp add: phase_of_def Let_def)
next
  case (retry w attempts f a now fin d)
  then have "live_attempts (vw_attempts v) = [] \<Longrightarrow> live_attempts attempts = []"
    using live_change_Nil [of "vw_attempts v" a f] failed_not_live [of f] by auto
  then show ?thesis using retry(2,4) unfolding retry(1)
    by (cases "live_attempts (vw_attempts v) = []"; cases "live_attempts attempts = []")
       (simp_all add: phase_wrapping p_retry)
next
  case (giveup w final attempts err now)
  note e = ending_of_status [OF giveup(4)]
  show ?thesis using giveup(2,3) e unfolding giveup(1)
    by (auto simp: phase_wrapping phase_closed failed_report_episode_def p_failed)
next
  case (publish w final a ended now q)
  note e = ending_of_status [OF publish(4)]
  show ?thesis using publish(2,3,6) e unfolding publish(1)
    by (auto simp: phase_wrapping phase_closed p_ready)
next
  case (detach attempts w)
  then show ?thesis unfolding detach(1)
    by (cases "live_attempts (vw_attempts v) = []") (auto simp: phase_of_def Let_def p_retry)
next
  case (restored w d now)
  show ?thesis using restored(2,3) unfolding restored(1) phase_stopped
    by (auto simp: phase_of_def Let_def is_live_def LIVE_EPISODE_STATUSES_def p_skip p_settle p_restore p_restore_fenced)
qed

end
