(* ===== verification/EpisodeSteps.thy ===== *)
theory EpisodeSteps
  imports EpisodeMachine
begin

text \<open>
  Every operation of the store moves every episode along the abstract machine: it keeps the
  tables well formed, changes no view but by moves, and creates only views that agree.
\<close>

section \<open>Well-formed stores\<close>

definition store_shape :: "store \<Rightarrow> bool" where
  "store_shape s \<longleftrightarrow> keyed ep_episode_id (st_episodes s) \<and> keyed ra_attempt_id (st_attempts s)
     \<and> keyed wu_episode_id (st_wrapups s)
     \<and> (\<forall>n \<in> set (st_invocations s). dhas (iv_episode_id n) (st_episodes s))
     \<and> (\<forall>a \<in> set (dvalues (st_attempts s)). dhas (ra_episode_id a) (st_episodes s))
     \<and> (\<forall>kv \<in> set (st_wrapups s). dhas (fst kv) (st_episodes s))
     \<and> (\<forall>r \<in> set (st_reports s). dhas (rr_episode_id r) (st_episodes s))"

definition store_ok :: "store \<Rightarrow> bool" where
  "store_ok s \<longleftrightarrow> store_shape s \<and> (\<forall>i v. view_of s i = Some v \<longrightarrow> view_ok v)"

definition step_ok :: "store \<Rightarrow> store \<Rightarrow> bool" where
  "step_ok s t \<longleftrightarrow> store_shape t \<and> (\<forall>i. case view_of s i of
       Some v \<Rightarrow> (\<exists>w. view_of t i = Some w \<and> view_move\<^sup>*\<^sup>* v w)
     | None \<Rightarrow> view_of t i = None)"

lemma store_shape_ledger: "ledger s = ledger t \<Longrightarrow> store_shape s = store_shape t"
  by (simp add: ledger_def store_shape_def)

lemma shape_on_episode:
  "store_shape s \<Longrightarrow> (\<And>e. ep_episode_id (f e) = ep_episode_id e) \<Longrightarrow> store_shape (on_episode i f s)"
  by (auto simp: store_shape_def on_episode_def intro: keyed_dmodify)

lemma shape_on_wrapup:
  assumes "store_shape s" and "\<And>w. wu_episode_id (f w) = wu_episode_id w"
  shows "store_shape (on_wrapup i f s)"
proof -
  have "keyed wu_episode_id (dmodify i f (st_wrapups s))"
    using assms by (intro keyed_dmodify) (auto simp: store_shape_def)
  then show ?thesis using assms(1) unfolding store_shape_def on_wrapup_def by (auto simp: dmodify_def)
qed

lemma shape_on_attempt:
  assumes "store_shape s" and "\<And>a. ra_attempt_id (f a) = ra_attempt_id a"
    and "\<And>a. ra_episode_id (f a) = ra_episode_id a"
  shows "store_shape (on_attempt i f s)"
proof -
  have k: "keyed ra_attempt_id (st_attempts s)" using assms(1) by (simp add: store_shape_def)
  have "dvalues (dmodify i f (st_attempts s)) = map (\<lambda>v. if ra_attempt_id v = i then f v else v) (dvalues (st_attempts s))"
    by (rule dvalues_dmodify [OF k])
  then show ?thesis using assms keyed_dmodify [OF k assms(2)] by (auto simp: store_shape_def on_attempt_def)
qed

lemma shape_on_task: "store_shape (on_task i f s) = store_shape s"
  by (rule store_shape_ledger) simp

lemma shape_insert_invocation:
  "store_shape s \<Longrightarrow> insert_invocation s n = Inr t \<Longrightarrow> dhas (iv_episode_id n) (st_episodes s) \<Longrightarrow> store_shape t"
  by (fastforce simp: store_shape_def insert_invocation_def split: if_splits)

lemma shape_insert_wrapup:
  "store_shape s \<Longrightarrow> insert_episode_wrapup s w = Inr t \<Longrightarrow> dhas (wu_episode_id w) (st_episodes s) \<Longrightarrow> store_shape t"
  using keyed_row_dset [of wu_episode_id "st_wrapups s" w]
  by (fastforce simp: store_shape_def insert_episode_wrapup_def dset_fresh split: if_splits)

lemma shape_insert_attempt:
  "store_shape s \<Longrightarrow> insert_attempt s a = Inr t \<Longrightarrow> dhas (ra_episode_id a) (st_episodes s) \<Longrightarrow> store_shape t"
  using keyed_row_dset [of ra_attempt_id "st_attempts s" a]
  by (fastforce simp: store_shape_def insert_attempt_def dset_fresh dvalues_def split: if_splits)

lemma shape_insert_report:
  "store_shape s \<Longrightarrow> insert_report s r = Inr t \<Longrightarrow> dhas (rr_episode_id r) (st_episodes s) \<Longrightarrow> store_shape t"
  by (fastforce simp: store_shape_def insert_report_def split: if_splits)

lemma step_ok_refl: "store_ok s \<Longrightarrow> step_ok s s"
  by (auto simp: step_ok_def store_ok_def split: option.splits)

lemma step_ok_ledger: "ledger t = ledger t' \<Longrightarrow> step_ok s t \<Longrightarrow> step_ok s t'"
  unfolding step_ok_def by (metis store_shape_ledger view_of_ledger)

lemma step_keeps_ok:
  assumes "store_ok s" and "step_ok s t"
  shows "store_ok t"
  unfolding store_ok_def
proof (intro conjI allI impI)
  show "store_shape t" using assms(2) by (simp add: step_ok_def)
next
  fix i w assume w: "view_of t i = Some w"
  show "view_ok w"
  proof (cases "view_of s i")
    case None
    then show ?thesis using assms(2) w by (auto simp: step_ok_def dest: spec [of _ i])
  next
    case (Some v)
    then have "view_move\<^sup>*\<^sup>* v w" "view_ok v"
      using assms w by (force simp: step_ok_def store_ok_def dest: spec [of _ i])+
    then show ?thesis by (induction rule: rtranclp_induct) (auto intro: move_keeps_rows)
  qed
qed

lemma step_one:
  assumes "store_ok s" and "store_shape t" and "view_of s i = Some v" and "view_of t i = Some w"
    and "view_move v w" and "\<And>j. j \<noteq> i \<Longrightarrow> view_of t j = view_of s j"
  shows "step_ok s t"
proof -
  have "case view_of s j of Some v \<Rightarrow> (\<exists>w. view_of t j = Some w \<and> view_move\<^sup>*\<^sup>* v w)
      | None \<Rightarrow> view_of t j = None" for j
    using assms by (cases "j = i") (auto split: option.splits)
  then show ?thesis using assms(2) by (auto simp: step_ok_def)
qed

lemma step_on_episode:
  assumes "store_ok s" and "view_of s i = Some v" and "\<And>e. ep_episode_id (f e) = ep_episode_id e"
    and "view_move v (v\<lparr>vw_episode := f (vw_episode v)\<rparr>)"
  shows "step_ok s (on_episode i f s)"
proof (rule step_one [OF assms(1) _ assms(2) _ assms(4)])
  show "store_shape (on_episode i f s)"
    using assms(1,3) by (intro shape_on_episode) (simp_all add: store_ok_def)
qed (simp_all add: view_simps assms(2))

lemma transact_commits:
  assumes "store_ok s" and "\<And>t x. body = Inr (t, x) \<Longrightarrow> step_ok s t"
  shows "step_ok s (fst (transact s body after))"
  using assms step_ok_refl [OF assms(1)] by (auto simp: transact_state split: sum.splits)

lemma load_episode_Inr: "load_episode s i = Inr e \<longleftrightarrow> dget (st_episodes s) i = Some e \<and> episode_coherent e"
  by (auto simp: load_episode_def episode_row_def split: option.splits if_splits)

lemma episode_row_Inr [simp]: "episode_row x = Inr e \<longleftrightarrow> x = e \<and> episode_coherent e"
  by (auto simp: episode_row_def)

lemma wrapup_row_Inr [simp]: "wrapup_row x = Inr w \<longleftrightarrow> x = w \<and> wrapup_coherent w"
  by (auto simp: wrapup_row_def)

lemma view_of_row:
  assumes "dget (st_episodes s) i = Some e"
  obtains v where "view_of s i = Some v" and "vw_episode v = e" and "vw_wrapup v = dget (st_wrapups s) i"
    and "vw_attempts v = attempts_for s i"
  using assms that by (auto simp: view_of_def)

lemma store_shape_ok: "store_ok s \<Longrightarrow> store_shape s"
  by (simp add: store_ok_def)

lemma view_is_ok: "store_ok s \<Longrightarrow> view_of s i = Some v \<Longrightarrow> view_ok v"
  by (simp add: store_ok_def)

lemma guarded_results:
  "(if P then Inl e else m) = Inr t \<longleftrightarrow> \<not> P \<and> m = Inr t"
  "(if P then m else Inl e) = Inr t \<longleftrightarrow> P \<and> m = Inr t"
  "(if P then Inr a else m) = Inr t \<longleftrightarrow> (P \<and> a = t) \<or> (\<not> P \<and> m = Inr t)"
  "(case r of None \<Rightarrow> Inl e | Some x \<Rightarrow> f x) = Inr t \<longleftrightarrow> (\<exists>x. r = Some x \<and> f x = Inr t)"
  "(case r of None \<Rightarrow> m | Some x \<Rightarrow> f x) = Inr t
     \<longleftrightarrow> (r = None \<and> m = Inr t) \<or> (\<exists>x. r = Some x \<and> f x = Inr t)"
  "Inl e = Inr t \<longleftrightarrow> False"
  by (auto split: option.splits)

lemmas result_simps = sbind_eq_Inr load_episode_Inr episode_row_Inr wrapup_row_Inr guarded_results
  sum.inject sum.distinct prod.inject sguard_eq_Inr

section \<open>Stop and ending fences\<close>

lemma stop_result:
  assumes "request_episode_stop_in_connection s i now = Inr t"
  obtains (same) "t = s"
  | (changed) e where "dget (st_episodes s) i = Some e" "ep_status e \<in> {EQueued, ERunning, EStopping}"
      "t = on_episode i (\<lambda>e. e\<lparr>ep_status := EStopping, ep_stop_requested_at := Some now,
        ep_updated_at := now\<rparr>) s"
  using assms that unfolding request_episode_stop_in_connection_def
  by (simp only: result_simps) blast

lemma stop_steps:
  assumes ok: "store_ok s"
  shows "step_ok s (fst (request_episode_stop s i now))"
  unfolding request_episode_stop_def
proof (rule transact_commits [OF ok])
  fix t x
  assume "sbind (request_episode_stop_in_connection s i now) (\<lambda>s1. Inr (s1, ())) = Inr (t, x)"
  then have "request_episode_stop_in_connection s i now = Inr t" by (simp only: result_simps) blast
  then show "step_ok s t"
  proof (cases rule: stop_result)
    case same
    then show ?thesis by (simp add: step_ok_refl [OF ok])
  next
    case (changed e)
    obtain v where v: "view_of s i = Some v" "vw_episode v = e" by (rule view_of_row [OF changed(1)])
    show ?thesis unfolding changed(3)
      by (rule step_on_episode [OF ok v(1)], simp, rule view_move.stop) (simp only: v(2) changed(2))
  qed
qed

lemma fence_result:
  assumes "fence_episode_ending_in_connection s i x d now = Inr t"
  obtains (same) "t = s"
  | (changed) e where "dget (st_episodes s) i = Some e" "ep_status e \<in> {EQueued, ERunning}" "x \<noteq> EndStopped"
      "t = on_episode i (\<lambda>e. e\<lparr>ep_status := EWrappingUp, ep_ending := Some x, ep_ending_diagnostic := d,
        ep_updated_at := now\<rparr>) s"
  using assms that unfolding fence_episode_ending_in_connection_def
  by (simp only: result_simps split: if_splits) blast+

lemma fence_steps:
  assumes ok: "store_ok s"
  shows "step_ok s (fst (fence_episode_ending s i x d now))"
  unfolding fence_episode_ending_def
proof (rule transact_commits [OF ok])
  fix t u
  assume "sbind (fence_episode_ending_in_connection s i x d now) (\<lambda>s1. Inr (s1, ())) = Inr (t, u)"
  then have "fence_episode_ending_in_connection s i x d now = Inr t" by (simp only: result_simps) blast
  then show "step_ok s t"
  proof (cases rule: fence_result)
    case same
    then show ?thesis by (simp add: step_ok_refl [OF ok])
  next
    case (changed e)
    obtain v where v: "view_of s i = Some v" "vw_episode v = e" by (rule view_of_row [OF changed(1)])
    show ?thesis unfolding changed(4)
      by (rule step_on_episode [OF ok v(1)], simp, rule view_move.fence) (simp_all only: v(2) changed(2,3) not_False_eq_True)
  qed
qed

section \<open>Invocations and the wrap-up\<close>

lemma spend_result:
  assumes "spend_invocation E s i t cause now = Inr (s3, n)"
  obtains e s1 s2 where "dget (st_episodes s) i = Some e" "ep_status e \<in> {EQueued, ERunning}"
    "ep_invocations_used e + 1 \<le> ep_invocation_ceiling e" "ledger s1 = ledger s" "insert_invocation s1 n = Inr s2"
    "iv_episode_id n = i" "iv_invocation_number n = ep_invocations_used e + 1"
    "s3 = on_episode i (\<lambda>e. e\<lparr>ep_root_operation_id := coalesce (ep_root_operation_id e) (tk_operation_id t),
      ep_status := ERunning, ep_invocations_used := iv_invocation_number n, ep_updated_at := now\<rparr>) s2"
  using assms that unfolding spend_invocation_def Let_def
  by (simp only: result_simps) (force dest: ledger_insert_agent_task)

lemma shape_ledger_trans: "store_ok s \<Longrightarrow> ledger s1 = ledger s \<Longrightarrow> store_shape s1"
  using store_shape_ledger [of s1 s] by (simp add: store_ok_def)

lemma row_present: "dget (st_episodes s) i = Some e \<Longrightarrow> ledger s1 = ledger s \<Longrightarrow> dhas i (st_episodes s1)"
  by (auto simp: ledger_def dhas_iff)

lemma spend_steps:
  assumes ok: "store_ok s" and r: "spend_invocation E s i t cause now = Inr (s3, n)"
  shows "step_ok s s3"
proof (rule spend_result [OF r])
  fix e s1 s2
  assume e: "dget (st_episodes s) i = Some e" "ep_status e \<in> {EQueued, ERunning}"
      "ep_invocations_used e + 1 \<le> ep_invocation_ceiling e"
    and l: "ledger s1 = ledger s" and ins: "insert_invocation s1 n = Inr s2"
    and n: "iv_episode_id n = i" "iv_invocation_number n = ep_invocations_used e + 1"
    and s3: "s3 = on_episode i (\<lambda>e. e\<lparr>ep_root_operation_id := coalesce (ep_root_operation_id e) (tk_operation_id t),
      ep_status := ERunning, ep_invocations_used := iv_invocation_number n, ep_updated_at := now\<rparr>) s2"
  obtain v where v: "view_of s i = Some v" "vw_episode v = e" by (rule view_of_row [OF e(1)])
  have mv: "view_move v (v\<lparr>vw_episode := (vw_episode v)\<lparr>ep_root_operation_id :=
        coalesce (ep_root_operation_id e) (tk_operation_id t), ep_status := ERunning,
        ep_invocations_used := iv_invocation_number n, ep_updated_at := now\<rparr>,
      vw_numbers := vw_numbers v @ [iv_invocation_number n]\<rparr>)"
    by (rule view_move.spend) (simp_all only: v(2) e(2,3) n(2))
  have sh: "store_shape s2"
    using shape_insert_invocation [OF shape_ledger_trans [OF ok l] ins] row_present [OF e(1) l] n(1) by simp
  show ?thesis
  proof (rule step_one [OF ok _ v(1) _ mv])
    show "store_shape s3" unfolding s3 by (rule shape_on_episode [OF sh]) simp
  qed (simp_all add: s3 view_simps view_insert_invocation [OF ins] view_of_ledger [OF l] n(1) v)
qed

lemma invoke_steps:
  assumes ok: "store_ok s"
  shows "step_ok s (fst (allocate_episode_invocation E s i t cause now))"
  unfolding allocate_episode_invocation_def
proof (rule transact_commits [OF ok])
  fix s3 n
  assume "(if tk_kind t = EpisodeReportTask \<or> \<not> tk_visible t then Inl StoreValueError
      else if tk_episode_id t \<noteq> Some i then Inl StoreValueError
      else case find (\<lambda>j. iv_operation_id j = tk_operation_id t) (st_invocations s) of
        Some j \<Rightarrow>
          if iv_episode_id j \<noteq> i then Inl StoreValueError
          else if \<not> dhas (tk_operation_id t) (st_tasks s) then Inl StoreRuntimeError
          else sbind (invocation_row j) (\<lambda>spent. Inr (s, spent))
      | None \<Rightarrow> spend_invocation E s i t cause now) = Inr (s3, n)"
  then have "s3 = s \<or> spend_invocation E s i t cause now = Inr (s3, n)"
    by (simp only: result_simps split: option.splits) blast+
  then show "step_ok s s3" using step_ok_refl [OF ok] spend_steps [OF ok] by blast
qed

lemma no_wrapup_row: "\<not> dhas i (st_wrapups s) \<longleftrightarrow> dget (st_wrapups s) i = None"
  by (auto simp: dhas_iff)

text \<open>An insertion of a wrap-up row followed by an update of its episode.\<close>

lemma step_wrapup_episode:
  assumes ok: "store_ok s" and l: "ledger s1 = ledger s" and ins: "insert_episode_wrapup s1 w = Inr s2"
    and id: "wu_episode_id w = i" and v: "view_of s i = Some v"
    and f: "\<And>e. ep_episode_id (f e) = ep_episode_id e"
    and mv: "view_move v (v\<lparr>vw_wrapup := Some w, vw_episode := f (vw_episode v)\<rparr>)"
  shows "step_ok s (on_episode i f s2)"
proof (rule step_one [OF ok _ v _ mv])
  have "dhas i (st_episodes s1)" using v l by (auto simp: view_of_def ledger_def dhas_iff)
  then have "store_shape s2" using shape_insert_wrapup [OF shape_ledger_trans [OF ok l] ins] id by simp
  then show "store_shape (on_episode i f s2)" by (rule shape_on_episode [OF _ f])
qed (simp_all add: view_simps view_insert_wrapup [OF ins] view_of_ledger [OF l] id v)

lemma begin_result:
  assumes "begin_new_wrapup E s e w t now = Inr s3"
  obtains s1 s2 where "ep_ending e \<in> {None, wu_ending w}" "ledger s1 = ledger s"
    "insert_episode_wrapup s1 w = Inr s2"
    "s3 = on_episode (ep_episode_id e) (\<lambda>e. e\<lparr>ep_status := EWrappingUp, ep_ending := wu_ending w,
         ep_ending_diagnostic := wu_diagnostic w, ep_wrapup_state := WPending,
         ep_wrapup_error := None, ep_updated_at := now\<rparr>) s2"
  using assms that unfolding begin_new_wrapup_def
  by (simp only: result_simps) (force dest: ledger_insert_agent_task)

lemma begin_steps:
  assumes ok: "store_ok s" and w: "wrapup_coherent w"
  shows "step_ok s (fst (begin_episode_wrapup E s i w t now))"
  unfolding begin_episode_wrapup_def
proof (rule transact_commits [OF ok])
  fix s3 x
  assume body: "sbind (validate_new_wrapup i w t) (\<lambda>_.
      sbind (load_episode s i) (\<lambda>e.
      if ep_status e \<notin> {EQueued, ERunning, EWrappingUp} then Inl EpisodeNotRunning
      else if tk_project_id t \<noteq> ep_project_id e then Inl StoreValueError
      else case dget (st_wrapups s) i of
        Some row \<Rightarrow> sbind (wrapup_row row) (\<lambda>stored.
          if \<not> wrapup_fence_matches stored w then Inl EpisodeReportConflict
          else case wu_allocation_operation_id stored of
            None \<Rightarrow> Inl StoreAssertionError | Some op \<Rightarrow> Inr (s, stored, op))
      | None \<Rightarrow> sbind (begin_new_wrapup E s e w t now) (\<lambda>s1. Inr (s1, w, tk_operation_id t)))) = Inr (s3, x)"
  obtain u e where val: "validate_new_wrapup i w t = Inr u" and e: "dget (st_episodes s) i = Some e"
    and st: "ep_status e \<in> {EQueued, ERunning, EWrappingUp}"
    and res: "s3 = s \<or> dget (st_wrapups s) i = None \<and> begin_new_wrapup E s e w t now = Inr s3"
    using body [unfolded result_simps] by blast
  have fresh: "wu_episode_id w = i" "wu_state w = WPending" "wu_ending w \<noteq> Some EndStopped"
      "wu_allocation_operation_id w \<noteq> None"
    using val by (auto simp: validate_new_wrapup_def filled_def)
  then have ending: "wu_ending w \<notin> {None, Some EndStopped}" using w by (simp add: wrapup_coherent_def)
  obtain v where v: "view_of s i = Some v" "vw_episode v = e" "vw_wrapup v = dget (st_wrapups s) i"
    by (rule view_of_row [OF e])
  have eid: "ep_episode_id e = i" using keyed_dget [OF _ e] store_shape_ok [OF ok] by (simp add: store_shape_def)
  show "step_ok s s3" using res
  proof (elim disjE conjE)
    assume none: "dget (st_wrapups s) i = None" and "begin_new_wrapup E s e w t now = Inr s3"
    then show ?thesis
    proof (elim begin_result)
      fix s1 s2
      assume en: "ep_ending e \<in> {None, wu_ending w}" and l: "ledger s1 = ledger s"
        and ins: "insert_episode_wrapup s1 w = Inr s2"
        and s3: "s3 = on_episode (ep_episode_id e) (\<lambda>e. e\<lparr>ep_status := EWrappingUp, ep_ending := wu_ending w,
         ep_ending_diagnostic := wu_diagnostic w, ep_wrapup_state := WPending,
         ep_wrapup_error := None, ep_updated_at := now\<rparr>) s2"
      show ?thesis unfolding s3 eid
        by (rule step_wrapup_episode [OF ok l ins fresh(1) v(1)], simp, rule view_move.wrapup)
           (simp_all only: v(2,3) st none fresh ending en not_False_eq_True)
    qed
  qed (simp add: step_ok_refl [OF ok])
qed

lemma unreported_steps:
  assumes ok: "store_ok s"
  shows "step_ok s (fst (end_episode_without_report E s i x d now))"
  unfolding end_episode_without_report_def
proof (rule transact_commits [OF ok])
  fix t u
  assume body: "(if x = EndStopped then Inl StoreValueError
      else sbind (load_episode s i) (\<lambda>e.
        if dhas i (st_wrapups s) then Inl EpisodeReportConflict
        else if ep_ending e \<noteq> None \<and> (ep_ending e \<noteq> Some x \<or> ep_ending_diagnostic e \<noteq> d)
        then Inl EpisodeReportConflict
        else if ep_stop_requested_at e \<noteq> None \<or> ep_status e = EStopping then Inl EpisodeNotRunning
        else sbind (status_for_ending (Some x)) (\<lambda>final.
          if ep_status e = final then Inr (s, ())
          else if ep_status e \<notin> {EQueued, ERunning, EWrappingUp} then Inl EpisodeNotRunning
          else
            sbind (terminalize_child E (on_episode i (\<lambda>e. e\<lparr>ep_status := final, ep_ending := Some x,
                ep_ending_diagnostic := d, ep_wrapup_state := WNotStarted,
                ep_wrapup_error := None, ep_updated_at := now,
                ep_ended_at := coalesce (ep_ended_at e) now\<rparr>) s) i final x d now)
              (\<lambda>s1. Inr (s1, ()))))) = Inr (t, u)"
  obtain e final where e: "dget (st_episodes s) i = Some e" and nw: "\<not> dhas i (st_wrapups s)"
    and x: "x \<noteq> EndStopped" "status_for_ending (Some x) = Inr final" and en: "ep_ending e \<in> {None, Some x}"
    and res: "t = s \<or> ep_status e \<in> {EQueued, ERunning, EWrappingUp} \<and> terminalize_child E (on_episode i
      (\<lambda>e. e\<lparr>ep_status := final, ep_ending := Some x, ep_ending_diagnostic := d, ep_wrapup_state := WNotStarted,
        ep_wrapup_error := None, ep_updated_at := now, ep_ended_at := coalesce (ep_ended_at e) now\<rparr>) s)
      i final x d now = Inr t"
    using body [unfolded result_simps] by (elim exE conjE disjE) (rule that; fast)+
  obtain v where v: "view_of s i = Some v" "vw_episode v = e" "vw_wrapup v = dget (st_wrapups s) i"
    by (rule view_of_row [OF e])
  have none: "vw_wrapup v = None" using nw v(3) by (simp add: no_wrapup_row)
  show "step_ok s t" using res
  proof (elim disjE conjE)
    assume st: "ep_status e \<in> {EQueued, ERunning, EWrappingUp}" and closed: "terminalize_child E (on_episode i
      (\<lambda>e. e\<lparr>ep_status := final, ep_ending := Some x, ep_ending_diagnostic := d, ep_wrapup_state := WNotStarted,
        ep_wrapup_error := None, ep_updated_at := now, ep_ended_at := coalesce (ep_ended_at e) now\<rparr>) s)
      i final x d now = Inr t"
    show ?thesis
      by (rule step_ok_ledger [OF ledger_terminalize [OF closed, symmetric]],
          rule step_on_episode [OF ok v(1)], simp, rule view_move.unreported)
         (simp_all only: v(2) none st x en not_False_eq_True)
  qed (simp add: step_ok_refl [OF ok])
qed

lemma unlaunchable_steps:
  assumes ok: "store_ok s"
  shows "step_ok s (fst (fail_episode_wrapup_unlaunchable E s i w d now))"
  unfolding fail_episode_wrapup_unlaunchable_def
proof (rule transact_commits [OF ok])
  fix t u
  assume body: "(case wu_ending w of
        None \<Rightarrow> Inl StoreValueError
      | Some ending \<Rightarrow>
        if wu_episode_id w \<noteq> i \<or> ending = EndStopped \<or> wu_state w \<noteq> WFailed
          \<or> wu_allocation_operation_id w \<noteq> None \<or> \<not> filled (wu_diagnostic w) \<or> wu_finished_at w = None
        then Inl StoreValueError
        else sbind (load_episode s i) (\<lambda>e.
          case dget (st_wrapups s) i of
            Some row \<Rightarrow> sbind (wrapup_row row) (\<lambda>stored.
              if stored \<noteq> w then Inl EpisodeReportConflict else Inr (s, w))
          | None \<Rightarrow>
              if ep_status e \<notin> {EQueued, ERunning, EWrappingUp} then Inl EpisodeNotRunning
              else if \<not> concluding_visible s i (wu_concluding_operation_id w) then Inl StoreValueError
              else
                sbind (insert_episode_wrapup s w) (\<lambda>s1.
                sbind (status_for_ending (Some ending)) (\<lambda>final.
                sbind (terminalize_child E (on_episode i (\<lambda>e. e\<lparr>ep_status := final, ep_ending := Some ending,
                    ep_ending_diagnostic := d, ep_wrapup_state := WFailed,
                    ep_wrapup_error := wu_diagnostic w, ep_updated_at := now,
                    ep_ended_at := coalesce (ep_ended_at e) now\<rparr>) s1) i final ending
                    (wu_diagnostic w) now) (\<lambda>s2. Inr (s2, w)))))) = Inr (t, u)"
  show "step_ok s t"
  proof (cases "t = s")
    case False
    obtain x e s1 final where x: "wu_ending w = Some x" "x \<noteq> EndStopped" "wu_state w = WFailed" "wu_episode_id w = i"
      and e: "dget (st_episodes s) i = Some e" "ep_status e \<in> {EQueued, ERunning, EWrappingUp}"
      and none: "dget (st_wrapups s) i = None" and ins: "insert_episode_wrapup s w = Inr s1"
      and fin: "status_for_ending (Some x) = Inr final"
      and closed: "terminalize_child E (on_episode i (\<lambda>e. e\<lparr>ep_status := final, ep_ending := Some x,
                    ep_ending_diagnostic := d, ep_wrapup_state := WFailed,
                    ep_wrapup_error := wu_diagnostic w, ep_updated_at := now,
                    ep_ended_at := coalesce (ep_ended_at e) now\<rparr>) s1) i final x (wu_diagnostic w) now = Inr t"
      using body [unfolded result_simps] False by (elim exE conjE disjE) (rule that; fast)+
    obtain v where v: "view_of s i = Some v" "vw_episode v = e" "vw_wrapup v = dget (st_wrapups s) i"
      by (rule view_of_row [OF e(1)])
    show ?thesis
      by (rule step_ok_ledger [OF ledger_terminalize [OF closed, symmetric]],
          rule step_wrapup_episode [OF ok refl ins x(4) v(1)], simp, rule view_move.unlaunchable)
         (simp_all only: v(2,3) none e(2) x fin not_False_eq_True)
  qed (simp add: step_ok_refl [OF ok])
qed

lemma skipped_wrapup_fields [simp]:
  "wu_episode_id (skipped_wrapup i c r d now) = i" "wu_state (skipped_wrapup i c r d now) = WSkipped"
  "wu_ending (skipped_wrapup i c r d now) = Some EndStopped"
  by (simp_all add: skipped_wrapup_def)

lemma stopped_episode_id [simp]: "ep_episode_id (stopped_episode d now e) = ep_episode_id e"
  by (simp add: stopped_episode_def)

lemma skip_steps:
  assumes ok: "store_ok s"
  shows "step_ok s (fst (mark_episode_stop_skipped E s i d now))"
  unfolding mark_episode_stop_skipped_def
proof (rule transact_commits [OF ok])
  fix t u
  let ?w = "skipped_wrapup i (concluding_operation s i)
            (compact_episode_receipt E [(''diagnostic'', vopt_str d), (''ending'', VStr ''stopped''),
               (''episode_id'', VStr i)]) d now"
  assume body: "sbind (load_episode s i) (\<lambda>e.
      if ep_ending e = Some EndStopped \<and> ep_wrapup_state e = WSkipped then Inr (s, ())
      else if dhas i (st_wrapups s) then Inl EpisodeNotRunning
      else if ep_status e \<notin> {EQueued, ERunning, EStopping} then Inl EpisodeNotRunning
      else
        sbind (insert_episode_wrapup s ?w) (\<lambda>s1.
        sbind (terminalize_child E (on_episode i (stopped_episode d now) s1)
            i EStopped EndStopped d now) (\<lambda>s2. Inr (s2, ())))) = Inr (t, u)"
  show "step_ok s t"
  proof (cases "t = s")
    case False
    obtain e s1 where e: "dget (st_episodes s) i = Some e" "ep_status e \<in> {EQueued, ERunning, EStopping}"
      and nw: "\<not> dhas i (st_wrapups s)" and ins: "insert_episode_wrapup s ?w = Inr s1"
      and closed: "terminalize_child E (on_episode i (stopped_episode d now) s1) i EStopped EndStopped d now = Inr t"
      using body [unfolded result_simps] False by (elim exE conjE disjE) (rule that; fast)+
    obtain v where v: "view_of s i = Some v" "vw_episode v = e" "vw_wrapup v = dget (st_wrapups s) i"
      by (rule view_of_row [OF e(1)])
    show ?thesis
      by (rule step_ok_ledger [OF ledger_terminalize [OF closed, symmetric]],
          rule step_wrapup_episode [OF ok refl ins _ v(1)], simp, simp, rule view_move.settle)
         (use v(2,3) nw [unfolded no_wrapup_row] e(2) in simp_all)
  qed (simp add: step_ok_refl [OF ok])
qed

section \<open>Creating\<close>

lemma fresh_rows:
  assumes "store_shape s" and "\<not> dhas i (st_episodes s)"
  shows "filter (\<lambda>j. iv_episode_id j = i) (st_invocations s) = []" "attempts_for s i = []"
    "dget (st_wrapups s) i = None" "filter (\<lambda>r. rr_episode_id r = i) (st_reports s) = []" "view_of s i = None"
proof -
  show "dget (st_wrapups s) i = None"
    using assms by (cases "dget (st_wrapups s) i") (auto simp: store_shape_def dest!: map_of_SomeD)
qed (use assms in \<open>auto simp: store_shape_def attempts_for_def filter_empty_conv view_of_def dhas_iff\<close>)

lemma insert_episode_result:
  assumes "insert_episode s e = Inr t"
  shows "\<not> dhas (ep_episode_id e) (st_episodes s)"
    "t = s\<lparr>st_episodes := st_episodes s @ [(ep_episode_id e, e)]\<rparr>"
  using assms by (auto simp: insert_episode_def dset_fresh split: if_splits)

lemma shape_insert_episode:
  assumes "store_shape s" and "insert_episode s e = Inr t"
  shows "store_shape t"
proof -
  note r = insert_episode_result [OF assms(2)]
  have "keyed ep_episode_id (st_episodes s @ [(ep_episode_id e, e)])"
    using keyed_row_dset [of ep_episode_id "st_episodes s" e] assms(1) dset_fresh [OF r(1), of e] by (simp add: store_shape_def)
  then show ?thesis using assms(1) unfolding r(2) by (simp add: store_shape_def dhas_def)
qed

lemma view_insert_episode:
  assumes "store_shape s" and "insert_episode s e = Inr t"
  shows "view_of t j = (if j = ep_episode_id e then Some \<lparr>vw_episode = e, vw_numbers = [], vw_attempts = [],
      vw_wrapup = None, vw_reports = []\<rparr> else view_of s j)"
proof -
  note r = insert_episode_result [OF assms(2)]
  show ?thesis unfolding r(2) using fresh_rows [OF assms(1) r(1)] r(1)
    by (auto simp: view_of_def attempts_for_def map_add_def dhas_iff split: option.splits)
qed

text \<open>A store with one more episode, opened while no live episode had its key.\<close>

definition birth :: "store \<Rightarrow> store \<Rightarrow> bool" where
  "birth s t \<longleftrightarrow> store_shape t \<and> (\<exists>i v. view_of s i = None \<and> view_of t = (view_of s)(i \<mapsto> v) \<and> view_ok v
     \<and> \<not> live_episode_row s (vw_episode v))"

lemma birth_keeps_ok: "store_ok s \<Longrightarrow> birth s t \<Longrightarrow> store_ok t"
  by (auto simp: birth_def store_ok_def split: if_splits)

lemma transact_grows:
  assumes "store_ok s" and "\<And>t x. body = Inr (t, x) \<Longrightarrow> step_ok s t \<or> birth s t"
  shows "step_ok s (fst (transact s body after)) \<or> birth s (fst (transact s body after))"
  using assms step_ok_refl [OF assms(1)] by (auto simp: transact_state split: sum.splits)

lemma birthI:
  assumes "store_ok s" and "\<not> dhas i (st_episodes s)" and "store_shape t" and "view_ok v"
    and "\<And>j. view_of t j = (if j = i then Some v else view_of s j)" and "\<not> live_episode_row s (vw_episode v)"
  shows "birth s t"
proof -
  have "view_of s i = None" by (rule fresh_rows(5) [OF store_shape_ok [OF assms(1)] assms(2)])
  moreover have "view_of t = (view_of s)(i \<mapsto> v)" using assms(5) by (simp add: fun_eq_iff)
  ultimately show ?thesis using assms(3,4,6) by (auto simp: birth_def)
qed

lemma new_episode_ok:
  assumes "validate_new_episode e = Inr u" and "episode_coherent e"
  shows "view_ok \<lparr>vw_episode = e, vw_numbers = [], vw_attempts = [], vw_wrapup = None, vw_reports = []\<rparr>"
    "view_ok \<lparr>vw_episode = started_episode e t, vw_numbers = [1], vw_attempts = [], vw_wrapup = None, vw_reports = []\<rparr>"
  using assms by (simp_all add: validate_new_episode_def new_view started_episode_def)

lemma create_steps:
  assumes ok: "store_ok s" and coh: "episode_coherent e"
  shows "step_ok s (fst (create_episode s e)) \<or> birth s (fst (create_episode s e))"
  unfolding create_episode_def
proof (rule transact_grows [OF ok])
  fix t u
  assume body: "sbind (validate_new_episode e) (\<lambda>_.
      sbind (require_project_accepts_new_work s (ep_project_id e)) (\<lambda>_.
      if live_episode_row s e then Inl StoreValueError
      else case insert_episode s e of
          Inl x \<Rightarrow> Inl (if x = StoreIntegrityError then StoreValueError else x)
        | Inr s1 \<Rightarrow> Inr (s1, ()))) = Inr (t, u)"
  then obtain x where x: "validate_new_episode e = Inr x" and ins: "insert_episode s e = Inr t"
    and free: "\<not> live_episode_row s e"
    by (auto simp: sbind_eq_Inr split: if_splits sum.splits)
  have "birth s t"
    by (rule birthI [OF ok insert_episode_result(1) [OF ins] shape_insert_episode [OF store_shape_ok [OF ok] ins]
          new_episode_ok(1) [OF x coh] view_insert_episode [OF store_shape_ok [OF ok] ins]]) (simp add: free)
  then show "step_ok s t \<or> birth s t" ..
qed

lemma create_with_steps:
  assumes ok: "store_ok s" and coh: "episode_coherent e"
  shows "step_ok s (fst (create_episode_with_invocation E s e t))
    \<or> birth s (fst (create_episode_with_invocation E s e t))"
  unfolding create_episode_with_invocation_def
proof (rule transact_grows [OF ok])
  fix s3 u
  let ?n = "\<lparr>iv_episode_id = ep_episode_id e, iv_operation_id = tk_operation_id t, iv_invocation_number = 1,
                iv_created_at = tk_created_at t\<rparr>"
  assume body: "sbind (validate_new_episode e) (\<lambda>_.
      if ep_mode e = AutoResearchMode then Inl StoreValueError
      else if \<not> root_task_shape e t then Inl StoreValueError
      else case dget (st_episodes s) (ep_episode_id e) of
        Some row \<Rightarrow>
          sbind (episode_row row) (\<lambda>stored.
          if created_episode_pair_matches s stored e (first_invocation s (ep_episode_id e)) t
          then Inr (s, stored) else Inl EpisodeReportConflict)
      | None \<Rightarrow>
          sbind (require_project_accepts_new_work s (ep_project_id e)) (\<lambda>_.
          if live_episode_row s e then Inl StoreValueError
          else
            sbind (insert_episode s (started_episode e t)) (\<lambda>s1.
            sbind (insert_agent_task E s1 t ''fresh'') (\<lambda>s2.
            sbind (insert_invocation s2 ?n) (\<lambda>s3. Inr (s3, started_episode e t)))))) = Inr (s3, u)"
  show "step_ok s s3 \<or> birth s s3"
  proof (cases "s3 = s")
    case False
    then obtain x s1 s2 where x: "validate_new_episode e = Inr x" and ins: "insert_episode s (started_episode e t) = Inr s1"
      and tk: "insert_agent_task E s1 t ''fresh'' = Inr s2" and inv': "insert_invocation s2 ?n = Inr s3"
      and free: "\<not> live_episode_row s e"
      using body by (auto simp: sbind_eq_Inr split: option.splits if_splits)
    have id: "ep_episode_id (started_episode e t) = ep_episode_id e" by (simp add: started_episode_def)
    note l = ledger_insert_agent_task [OF tk]
    have sh1: "store_shape s1" by (rule shape_insert_episode [OF store_shape_ok [OF ok] ins])
    have sh2: "store_shape s2" using sh1 store_shape_ledger [OF l] by simp
    have "dhas (ep_episode_id e) (st_episodes s2)"
      using insert_episode_result(2) [OF ins] l by (simp add: ledger_def dhas_def id)
    then have sh3: "store_shape s3" using shape_insert_invocation [OF sh2 inv'] by simp
    have fresh: "\<not> dhas (ep_episode_id e) (st_episodes s)" using insert_episode_result(1) [OF ins] id by simp
    have view: "view_of s3 j = (if j = ep_episode_id e then Some \<lparr>vw_episode = started_episode e t, vw_numbers = [1],
        vw_attempts = [], vw_wrapup = None, vw_reports = []\<rparr> else view_of s j)" for j
      by (simp add: view_insert_invocation [OF inv'] view_of_ledger [OF l]
          view_insert_episode [OF store_shape_ok [OF ok] ins] id)
    have "\<not> live_episode_row s (started_episode e t)"
      using free by (simp add: live_episode_row_def same_live_key_def started_episode_def)
    then have "birth s s3" by (intro birthI [OF ok fresh sh3 new_episode_ok(2) [OF x coh] view]) simp
    then show ?thesis ..
  qed (simp add: step_ok_refl [OF ok])
qed

end
