(* ===== verification/EpisodeReports.thy ===== *)
theory EpisodeReports
  imports EpisodeSteps
begin

text \<open>
  The report ledger: allocating, running, retrying, failing and publishing report attempts,
  and detaching the episodes of a restored store. Each of these operations moves every
  episode along the abstract machine.
\<close>

section \<open>Report attempts\<close>

lemma current_attempt_cases:
  "current_attempt s i = None \<Longrightarrow> live_attempts (attempts_for s i) = []"
  "current_attempt s i = Some a \<Longrightarrow> a \<in> set (live_attempts (attempts_for s i))"
proof -
  have eq: "set (filter (\<lambda>a. ra_status a \<in> {AQueued, ARunning}) (episode_attempts s i))
      = set (live_attempts (attempts_for s i))"
    by (auto simp: episode_attempts_def attempts_for_def live_attempts_def is_live_attempt_def)
  show "live_attempts (attempts_for s i) = []" if "current_attempt s i = None"
  proof -
    have "filter (\<lambda>a. ra_status a \<in> {AQueued, ARunning}) (episode_attempts s i) = []"
      using that by (simp add: current_attempt_def split: list.splits)
    then show ?thesis using eq by (metis set_empty)
  qed
  show "a \<in> set (live_attempts (attempts_for s i))" if "current_attempt s i = Some a"
  proof -
    have "a \<in> set (filter (\<lambda>a. ra_status a \<in> {AQueued, ARunning}) (episode_attempts s i))"
      using that unfolding current_attempt_def
      by (cases "filter (\<lambda>a. ra_status a \<in> {AQueued, ARunning}) (episode_attempts s i)") (auto split: if_splits)
    then show ?thesis unfolding eq .
  qed
qed

lemma attempt_steps:
  assumes ok: "store_ok s"
  shows "step_ok s (fst (allocate_episode_report_attempt s i fresh_id now))"
  unfolding allocate_episode_report_attempt_def
proof (rule transact_commits [OF ok])
  fix t u
  assume body: "sbind (load_episode s i) (\<lambda>e.
      case dget (st_wrapups s) i of
        None \<Rightarrow> Inl EpisodeNotRunning
      | Some row \<Rightarrow> sbind (wrapup_row row) (\<lambda>w.
          case (if ep_status e = EWrappingUp \<and> ep_wrapup_state e \<in> {WPending, WRunning}
                  \<and> wu_state w \<in> {WPending, WRunning} then wu_allocation_operation_id w else None) of
            None \<Rightarrow> Inl EpisodeNotRunning
          | Some op \<Rightarrow> (case current_attempt s i of
              Some a \<Rightarrow> Inr (s, ra_attempt_id a)
            | None \<Rightarrow>
                if ep_report_attempts_used e \<ge> REPORT_ATTEMPT_LIMIT
                then Inl EpisodeReportAttemptLimitReached
                else
                  (let number = ep_report_attempts_used e + 1 in
                   sbind (insert_attempt s (new_attempt fresh_id i number op now)) (\<lambda>s1.
                   Inr (on_wrapup i (\<lambda>w. w\<lparr>wu_state := WRunning, wu_updated_at := now\<rparr>)
                     (on_episode i (\<lambda>e. e\<lparr>ep_wrapup_state := WRunning,
                       ep_report_attempts_used := number, ep_updated_at := now\<rparr>) s1), fresh_id)))))) = Inr (t, u)"
  show "step_ok s t"
  proof (cases "t = s")
    case False
    obtain e w op s1 where e: "dget (st_episodes s) i = Some e" and w: "dget (st_wrapups s) i = Some w"
      and op: "(if ep_status e = EWrappingUp \<and> ep_wrapup_state e \<in> {WPending, WRunning}
           \<and> wu_state w \<in> {WPending, WRunning} then wu_allocation_operation_id w else None) = Some op"
      and none: "current_attempt s i = None" and lim: "\<not> ep_report_attempts_used e \<ge> REPORT_ATTEMPT_LIMIT"
      and ins: "insert_attempt s (new_attempt fresh_id i (ep_report_attempts_used e + 1) op now) = Inr s1"
      and t: "on_wrapup i (\<lambda>w. w\<lparr>wu_state := WRunning, wu_updated_at := now\<rparr>)
        (on_episode i (\<lambda>r. r\<lparr>ep_wrapup_state := WRunning,
          ep_report_attempts_used := ep_report_attempts_used e + 1, ep_updated_at := now\<rparr>) s1) = t"
      using body [unfolded result_simps Let_def] False by (elim exE conjE disjE) (rule that; fast)+
    let ?a = "new_attempt fresh_id i (ep_report_attempts_used e + 1) op now"
    obtain v where v: "view_of s i = Some v" "vw_episode v = e" "vw_wrapup v = dget (st_wrapups s) i"
        "vw_attempts v = attempts_for s i"
      by (rule view_of_row [OF e])
    have a: "ra_attempt_number ?a = ep_report_attempts_used e + 1" "ra_status ?a = AQueued" "ra_episode_id ?a = i"
      by (simp_all add: new_attempt_def)
    have st: "ep_status e = EWrappingUp" "ep_wrapup_state e \<in> {WPending, WRunning}" using op by (auto split: if_splits)
    have mv: "view_move v (v\<lparr>vw_attempts := vw_attempts v @ [?a],
      vw_episode := (vw_episode v)\<lparr>ep_wrapup_state := WRunning,
        ep_report_attempts_used := ra_attempt_number ?a, ep_updated_at := now\<rparr>,
      vw_wrapup := Some (w\<lparr>wu_state := WRunning, wu_updated_at := now\<rparr>)\<rparr>)"
      by (rule view_move.attempt)
         (use v w st a lim current_attempt_cases(1) [OF none] in \<open>simp_all add: REPORT_ATTEMPT_LIMIT_def\<close>)
    have "store_shape s1" using shape_insert_attempt [OF store_shape_ok [OF ok] ins] e a(3) by (auto simp: dhas_iff)
    then have sh: "store_shape t" unfolding t [symmetric] by (intro shape_on_wrapup shape_on_episode) simp_all
    show ?thesis
      by (rule step_one [OF ok sh v(1) _ mv])
         (simp_all add: t [symmetric] view_simps view_insert_attempt [OF ins] a v w)
  qed (simp add: step_ok_refl [OF ok])
qed

lemma running_steps:
  assumes ok: "store_ok s"
  shows "step_ok s (fst (mark_episode_report_attempt_running s a now))"
  unfolding mark_episode_report_attempt_running_def
proof (rule transact_commits [OF ok])
  fix t u
  let ?f = "\<lambda>r. r\<lparr>ra_status := ARunning, ra_updated_at := now\<rparr>"
  assume body: "(case dget (st_attempts s) a of
        None \<Rightarrow> Inl StoreKeyError
      | Some r \<Rightarrow>
          if ra_status r \<notin> {AQueued, ARunning} then Inl EpisodeNotRunning
          else Inr (on_task (ra_allocation_operation_id r)
              (\<lambda>t. t\<lparr>tk_status := TRunning, tk_started_at := coalesce (tk_started_at t) now,
                tk_updated_at := now, tk_phase := ''running''\<rparr>) (on_attempt a ?f s), ())) = Inr (t, u)"
  obtain r where r: "dget (st_attempts s) a = Some r" "ra_status r \<in> {AQueued, ARunning}"
    and l: "ledger t = ledger (on_attempt a ?f s)"
    using body [unfolded result_simps] by auto
  have k: "keyed ra_attempt_id (st_attempts s)" using store_shape_ok [OF ok] by (simp add: store_shape_def)
  have one: "is_live_attempt q" if q: "q \<in> set (attempts_for s j)" "ra_attempt_id q = a" for q j
  proof -
    have "dget (st_attempts s) a = Some q" using keyed_value [OF k, of q] q by (simp add: attempts_for_def)
    then show ?thesis using r by (simp add: is_live_attempt_def)
  qed
  have "step_ok s (on_attempt a ?f s)" unfolding step_ok_def
  proof (intro conjI allI)
    show "store_shape (on_attempt a ?f s)" by (rule shape_on_attempt [OF store_shape_ok [OF ok]]) simp_all
  next
    fix j
    show "case view_of s j of None \<Rightarrow> view_of (on_attempt a ?f s) j = None
        | Some v \<Rightarrow> \<exists>w. view_of (on_attempt a ?f s) j = Some w \<and> view_move\<^sup>*\<^sup>* v w"
    proof (cases "view_of s j")
      case (Some v)
      have "vw_attempts v = attempts_for s j" using Some by (auto simp: view_of_def)
      then have "view_move v (v\<lparr>vw_attempts := change_attempt a ?f (vw_attempts v)\<rparr>)"
        using one by (intro view_move.running) simp
      then show ?thesis by (auto simp: view_on_attempt [OF k] Some)
    qed (simp add: view_on_attempt [OF k])
  qed
  then show "step_ok s t" by (rule step_ok_ledger [OF l [symmetric]])
qed

text \<open>Writing to one attempt shows only in the view of its episode.\<close>

lemma attempt_elsewhere:
  assumes "keyed ra_attempt_id (st_attempts s)" and "dget (st_attempts s) a = Some r" and "ra_episode_id r \<noteq> j"
  shows "change_attempt a f (attempts_for s j) = attempts_for s j"
  unfolding change_attempt_def
proof (rule map_idI)
  fix q assume q: "q \<in> set (attempts_for s j)"
  have "ra_attempt_id q \<noteq> a"
    using keyed_value [OF assms(1), of q] q assms(2,3) by (auto simp: attempts_for_def)
  then show "(if ra_attempt_id q = a then f q else q) = q" by simp
qed

lemma view_attempt_elsewhere:
  assumes "keyed ra_attempt_id (st_attempts s)" and "dget (st_attempts s) a = Some r" and "ra_episode_id r \<noteq> j"
    and "\<And>r. ra_episode_id (f r) = ra_episode_id r"
  shows "view_of (on_attempt a f s) j = view_of s j"
proof (cases "view_of s j")
  case (Some v)
  then have "vw_attempts v = attempts_for s j" by (auto simp: view_of_def)
  then show ?thesis using Some attempt_elsewhere [OF assms(1-3), of f]
    by (simp add: view_on_attempt [OF assms(1,4)])
qed (simp add: view_on_attempt [OF assms(1,4)])

lemma only_live:
  assumes "view_ok v" and "r \<in> set (vw_attempts v)" "is_live_attempt r"
    and "q \<in> set (vw_attempts v)" "is_live_attempt q"
  shows "q = r"
proof -
  have "length (live_attempts (vw_attempts v)) \<le> 1" by (rule view_parts(5) [OF assms(1)])
  moreover have "r \<in> set (live_attempts (vw_attempts v))" "q \<in> set (live_attempts (vw_attempts v))"
    using assms by (simp_all add: live_attempts_def)
  ultimately show ?thesis by (cases "live_attempts (vw_attempts v)") auto
qed

lemma live_wrapping:
  assumes "view_ok v" and "r \<in> set (vw_attempts v)" "is_live_attempt r"
  obtains w where "ep_status (vw_episode v) = EWrappingUp" "ep_wrapup_state (vw_episode v) \<in> {WPending, WRunning}"
    "vw_wrapup v = Some w"
proof -
  have "live_attempts (vw_attempts v) \<noteq> []" using assms(2,3) by (auto simp: live_attempts_def filter_empty_conv)
  then have "ep_status (vw_episode v) = EWrappingUp \<and> ep_wrapup_state (vw_episode v) \<in> {WPending, WRunning}"
    using view_parts(6) [OF assms(1)] by (simp add: attempts_agree_def)
  moreover have "vw_wrapup v \<noteq> None" using unfenced_view(2) [OF assms(1)] assms(2) by fastforce
  ultimately show thesis using that by blast
qed

lemma failed_attempt_failure: "failure (failed_attempt error now)"
  by (simp add: failure_def failed_attempt_def)

lemma close_result:
  assumes "close_report_failed E s i x upd error now = Inr t" and "\<And>z. ledger (upd z) = ledger z"
  obtains final where "status_for_ending x = Inr final"
    "ledger t = ledger (on_wrapup i (failed_wrapup error now) (on_episode i (failed_report_episode final error now) s))"
  using assms that unfolding close_report_failed_def sbind_eq_Inr by (metis ledger_terminalize)

text \<open>Closing a wrap-up as failed, once the attempts of its episode are over.\<close>

lemma giveup_steps:
  assumes ok: "store_ok s" and v: "view_of s i = Some v" and sh: "store_shape s1"
    and views: "view_of s1 i = Some (v\<lparr>vw_attempts := attempts\<rparr>)" "\<And>j. j \<noteq> i \<Longrightarrow> view_of s1 j = view_of s j"
    and over: "map ra_attempt_number attempts = map ra_attempt_number (vw_attempts v)" "live_attempts attempts = []"
    and st: "ep_status (vw_episode v) = EWrappingUp" "vw_wrapup v = Some w"
    and close: "close_report_failed E s1 i (ep_ending (vw_episode v)) upd error now = Inr t"
    and upd: "\<And>z. ledger (upd z) = ledger z"
  shows "step_ok s t"
proof (rule close_result [OF close upd])
  fix final
  assume fin: "status_for_ending (ep_ending (vw_episode v)) = Inr final"
  let ?t = "on_wrapup i (failed_wrapup error now) (on_episode i (failed_report_episode final error now) s1)"
  assume l: "ledger t = ledger ?t"
  have "store_shape ?t" using sh
    by (intro shape_on_wrapup shape_on_episode) (simp_all add: failed_wrapup_def failed_report_episode_def)
  then have "step_ok s ?t"
    by (rule step_one [OF ok _ v _ view_move.giveup [OF st fin over, of error now]])
       (simp_all add: view_simps views st(2))
  then show ?thesis by (rule step_ok_ledger [OF l [symmetric]])
qed

text \<open>Failing one live attempt leaves its episode without a live attempt.\<close>

lemma failed_views:
  assumes ok: "store_ok s" and r: "dget (st_attempts s) a = Some r" "is_live_attempt r" and f: "failure f"
  obtains v w where "view_of s (ra_episode_id r) = Some v" "ep_status (vw_episode v) = EWrappingUp"
    "ep_wrapup_state (vw_episode v) \<in> {WPending, WRunning}" "vw_wrapup v = Some w"
    "store_shape (on_attempt a f s)"
    "view_of (on_attempt a f s) (ra_episode_id r) = Some (v\<lparr>vw_attempts := change_attempt a f (vw_attempts v)\<rparr>)"
    "\<And>j. j \<noteq> ra_episode_id r \<Longrightarrow> view_of (on_attempt a f s) j = view_of s j"
    "live_attempts (change_attempt a f (vw_attempts v)) = []"
proof -
  have k: "keyed ra_attempt_id (st_attempts s)" using store_shape_ok [OF ok] by (simp add: store_shape_def)
  have fe: "\<And>r. ra_episode_id (f r) = ra_episode_id r" "\<And>r. ra_attempt_id (f r) = ra_attempt_id r"
    using f by (simp_all add: failure_def)
  have "dhas (ra_episode_id r) (st_episodes s)"
    using store_shape_ok [OF ok] dget_value [OF r(1)] by (simp add: store_shape_def)
  then obtain e where e: "dget (st_episodes s) (ra_episode_id r) = Some e" by (auto simp: dhas_iff)
  obtain v where v: "view_of s (ra_episode_id r) = Some v" "vw_attempts v = attempts_for s (ra_episode_id r)"
    by (rule view_of_row [OF e])
  have vok: "view_ok v" by (rule view_is_ok [OF ok v(1)])
  have rv: "r \<in> set (vw_attempts v)" using dget_value [OF r(1)] v(2) by (simp add: attempts_for_def)
  have id: "ra_attempt_id r = a" by (rule keyed_dget [OF k r(1)])
  have none: "live_attempts (change_attempt a f (vw_attempts v)) = []"
    using only_live [OF vok rv r(2)] id by (intro live_change_failed [OF f]) blast
  show thesis
    using that [OF v(1) _ _ _ shape_on_attempt [OF store_shape_ok [OF ok] fe(2,1)] _
        view_attempt_elsewhere [OF k r(1) _ fe(1)] none]
      live_wrapping [OF vok rv r(2)] view_on_attempt [OF k fe(1), of a "ra_episode_id r"] v(1)
    by (metis (no_types, lifting) option.simps(9))
qed

lemma error_steps:
  assumes ok: "store_ok s" and live: "\<And>r. dget (st_attempts s) a = Some r \<Longrightarrow> is_live_attempt r"
  shows "step_ok s (fst (finish_episode_report_attempt_error E s a error force now))"
  unfolding finish_episode_report_attempt_error_def
proof (rule transact_commits [OF ok])
  fix t i
  assume body: "(if py_strip error = [] then Inl StoreValueError
      else case dget (st_attempts s) a of
        None \<Rightarrow> Inl StoreKeyError
      | Some r \<Rightarrow>
          if ra_status r = ASucceeded then Inl EpisodeReportConflict
          else
            (let i = ra_episode_id r;
                 s1 = (if ra_status r \<noteq> AFailed then on_attempt a (failed_attempt error now) s else s) in
             if force \<or> ra_attempt_number r \<ge> REPORT_ATTEMPT_LIMIT
             then (case dget (st_episodes s1) i of
                 None \<Rightarrow> Inl StoreRuntimeError
               | Some e \<Rightarrow> sbind (close_report_failed E s1 i (ep_ending e)
                   (on_task (ra_allocation_operation_id r) (failed_report_task False error now)) error now)
                   (\<lambda>s2. Inr (s2, i)))
             else Inr (on_wrapup i (\<lambda>w. w\<lparr>wu_state := WPending, wu_updated_at := now\<rparr>)
                 (on_episode i (\<lambda>e. e\<lparr>ep_wrapup_state := WPending, ep_wrapup_error := None,
                   ep_updated_at := now\<rparr>) s1), i))) = Inr (t, i)"
  obtain r where r: "dget (st_attempts s) a = Some r" using body by (auto split: if_splits option.splits)
  have lr: "is_live_attempt r" by (rule live [OF r])
  let ?s1 = "on_attempt a (failed_attempt error now) s"
  have eps: "st_episodes ?s1 = st_episodes s" by (simp add: on_attempt_def)
  obtain v w where v: "view_of s (ra_episode_id r) = Some v" and st: "ep_status (vw_episode v) = EWrappingUp"
    "ep_wrapup_state (vw_episode v) \<in> {WPending, WRunning}" "vw_wrapup v = Some w"
    and sh: "store_shape ?s1" and views: "view_of ?s1 (ra_episode_id r)
      = Some (v\<lparr>vw_attempts := change_attempt a (failed_attempt error now) (vw_attempts v)\<rparr>)"
      "\<And>j. j \<noteq> ra_episode_id r \<Longrightarrow> view_of ?s1 j = view_of s j"
    and none: "live_attempts (change_attempt a (failed_attempt error now) (vw_attempts v)) = []"
    using failed_views [OF ok r lr failed_attempt_failure] by metis
  have nr: "ra_status r \<noteq> ASucceeded" "ra_status r \<noteq> AFailed" using lr by (auto simp: is_live_attempt_def)
  have ev: "dget (st_episodes s) (ra_episode_id r) = Some (vw_episode v)" using v by (auto simp: view_of_def)
  have "close_report_failed E ?s1 (ra_episode_id r) (ep_ending (vw_episode v))
        (on_task (ra_allocation_operation_id r) (failed_report_task False error now)) error now = Inr t
      \<or> t = on_wrapup (ra_episode_id r) (\<lambda>w. w\<lparr>wu_state := WPending, wu_updated_at := now\<rparr>)
        (on_episode (ra_episode_id r) (\<lambda>e. e\<lparr>ep_wrapup_state := WPending, ep_wrapup_error := None,
          ep_updated_at := now\<rparr>) ?s1)"
    using body by (auto simp: r nr Let_def eps ev sbind_eq_Inr split: if_splits)
  then show "step_ok s t"
  proof
    assume c: "close_report_failed E ?s1 (ra_episode_id r) (ep_ending (vw_episode v))
        (on_task (ra_allocation_operation_id r) (failed_report_task False error now)) error now = Inr t"
    show ?thesis
      by (rule giveup_steps [OF ok v sh views _ none st(1,3) c]) (simp_all add: failed_attempt_def)
  next
    let ?t = "on_wrapup (ra_episode_id r) (\<lambda>w. w\<lparr>wu_state := WPending, wu_updated_at := now\<rparr>)
        (on_episode (ra_episode_id r) (\<lambda>e. e\<lparr>ep_wrapup_state := WPending, ep_wrapup_error := None,
          ep_updated_at := now\<rparr>) ?s1)"
    let ?as = "change_attempt a (failed_attempt error now) (vw_attempts v)"
    assume t: "t = ?t"
    have fl: "?as = vw_attempts v \<or> failure (failed_attempt error now) \<and> ?as = change_attempt a (failed_attempt error now) (vw_attempts v)"
      using failed_attempt_failure by simp
    have "store_shape ?t" using sh by (intro shape_on_wrapup shape_on_episode) simp_all
    then show ?thesis unfolding t
      by (rule step_one [OF ok _ v _ view_move.retry [OF st fl,
            where d = "wu_diagnostic w" and fin = "wu_finished_at w" and now = now]])
         (simp_all add: view_simps views st(3))
  qed
qed

lemma retried_views:
  assumes ok: "store_ok s" and v: "view_of s i = Some v" and st: "ep_status (vw_episode v) = EWrappingUp"
      "ep_wrapup_state (vw_episode v) \<in> {WPending, WRunning}" "vw_wrapup v = Some w"
    and sh: "store_shape s1" and views: "view_of s1 i = Some (v\<lparr>vw_attempts := attempts\<rparr>)"
      "\<And>j. j \<noteq> i \<Longrightarrow> view_of s1 j = view_of s j"
    and fl: "attempts = vw_attempts v \<or> failure f \<and> attempts = change_attempt a f (vw_attempts v)"
    and l: "ledger s2 = ledger s1"
  shows "step_ok s (on_wrapup i (\<lambda>w. w\<lparr>wu_state := WPending, wu_diagnostic := None,
            wu_updated_at := now, wu_finished_at := None\<rparr>)
          (on_episode i (\<lambda>e. e\<lparr>ep_wrapup_state := WPending, ep_wrapup_error := None,
            ep_updated_at := now\<rparr>) s2))"
proof (rule step_one [OF ok _ v _ view_move.retry [OF st fl, where d = None and fin = None and now = now]])
  have "store_shape s2" using sh store_shape_ledger [OF l] by simp
  then show "store_shape (on_wrapup i (\<lambda>w. w\<lparr>wu_state := WPending, wu_diagnostic := None,
            wu_updated_at := now, wu_finished_at := None\<rparr>)
          (on_episode i (\<lambda>e. e\<lparr>ep_wrapup_state := WPending, ep_wrapup_error := None,
            ep_updated_at := now\<rparr>) s2))"
    by (intro shape_on_wrapup shape_on_episode) simp_all
qed (simp_all add: view_simps view_of_ledger [OF l] views st(3))

lemma allocated_wrapup:
  assumes "wrapup_allocation s i = Inr op"
  obtains w where "dget (st_wrapups s) i = Some w"
  using assms by (auto simp: wrapup_allocation_def split: option.splits)

lemma current_attempt_row:
  assumes ok: "store_ok s" and "current_attempt s i = Some a"
  shows "dget (st_attempts s) (ra_attempt_id a) = Some a" "is_live_attempt a" "ra_episode_id a = i"
  using current_attempt_cases(2) [OF assms(2)] store_shape_ok [OF ok] keyed_value [of ra_attempt_id "st_attempts s" a]
  by (auto simp: live_attempts_def attempts_for_def store_shape_def)

lemma restart_steps:
  assumes ok: "store_ok s" and e: "dget (st_episodes s) i = Some e" and w: "dget (st_wrapups s) i = Some w"
    and st: "ep_status e = EWrappingUp" "ep_wrapup_state e \<in> {WPending, WRunning}"
    and r: "restart_report E s i e op prior now = Inr t"
  shows "step_ok s t"
proof -
  let ?d = "interruption_diagnostic prior"
  obtain v where v: "view_of s i = Some v" "vw_episode v = e" "vw_wrapup v = dget (st_wrapups s) i"
    by (rule view_of_row [OF e])
  have self: "view_of s i = Some (v\<lparr>vw_attempts := vw_attempts v\<rparr>)" using v by simp
  note keep = retried_views [OF ok v(1) _ _ _ store_shape_ok [OF ok] self refl disjI1 [OF refl]]
  have st': "ep_status (vw_episode v) = EWrappingUp" "ep_wrapup_state (vw_episode v) \<in> {WPending, WRunning}"
      "vw_wrapup v = Some w" using st v w by simp_all
  show ?thesis
  proof (cases "current_attempt s i")
    case None
    then show ?thesis using r keep [OF st'] by (auto simp: restart_report_def Let_def split: if_splits)
  next
    case (Some a)
    note a = current_attempt_row [OF ok Some]
    let ?f = "failed_attempt ?d now"
    let ?s1 = "on_attempt (ra_attempt_id a) ?f s"
    obtain w' where sh: "store_shape ?s1"
      and views: "view_of ?s1 i = Some (v\<lparr>vw_attempts := change_attempt (ra_attempt_id a) ?f (vw_attempts v)\<rparr>)"
        "\<And>j. j \<noteq> i \<Longrightarrow> view_of ?s1 j = view_of s j"
      and none: "live_attempts (change_attempt (ra_attempt_id a) ?f (vw_attempts v)) = []"
      using failed_views [OF ok a(1,2) failed_attempt_failure [of ?d now]] v(1) unfolding a(3)
      by (metis option.inject)
    have fl: "change_attempt (ra_attempt_id a) ?f (vw_attempts v) = vw_attempts v
        \<or> failure ?f \<and> change_attempt (ra_attempt_id a) ?f (vw_attempts v) = change_attempt (ra_attempt_id a) ?f (vw_attempts v)"
      using failed_attempt_failure by simp
    let ?T = "\<lambda>z. on_wrapup i (\<lambda>w. w\<lparr>wu_state := WPending, wu_diagnostic := None,
            wu_updated_at := now, wu_finished_at := None\<rparr>)
          (on_episode i (\<lambda>e. e\<lparr>ep_wrapup_state := WPending, ep_wrapup_error := None, ep_updated_at := now\<rparr>) z)"
    let ?q = "\<lambda>z. (on_task op (requeued_task now) z)\<lparr>st_receipts := st_receipts z @ [(op, ''operation_dispatch_reset'')]\<rparr>"
    show ?thesis
    proof (cases "ep_report_attempts_used e \<ge> REPORT_ATTEMPT_LIMIT \<and> ra_status a \<noteq> AQueued")
      case True
      then have c: "close_report_failed E ?s1 i (ep_ending (vw_episode v))
          (on_task op (failed_report_task True ?d now)) ?d now = Inr t"
        using r by (simp add: restart_report_def Some v(2) Let_def)
      show ?thesis
        by (rule giveup_steps [OF ok v(1) sh views _ none st'(1,3) c]) (simp_all add: failed_attempt_def)
    next
      case False
      then have "t = (if ra_status a = ARunning then ?T (?q ?s1) else ?T (?q s))"
        using r by (auto simp: restart_report_def Some Let_def split: if_splits)
      then show ?thesis
        using retried_views [OF ok v(1) st' sh views fl, of "?q ?s1" now] keep [OF st', of "?q s" now] by simp
    qed
  qed
qed

lemma requeue_steps:
  assumes ok: "store_ok s"
  shows "step_ok s (fst (requeue_interrupted_episode_report_allocation E s i now))"
  unfolding requeue_interrupted_episode_report_allocation_def
proof (rule transact_commits [OF ok])
  fix t u
  assume body: "(case dget (st_episodes s) i of
        None \<Rightarrow> Inl StoreKeyError
      | Some row \<Rightarrow>
        sbind (wrapup_allocation s i) (\<lambda>op.
        sbind (episode_row row) (\<lambda>e.
        if ep_status e \<noteq> EWrappingUp \<or> ep_wrapup_state e \<notin> {WPending, WRunning} then Inl EpisodeNotRunning
        else sbind (hidden_allocation s i op) (\<lambda>t.
          if tk_status t = TQueued then Inr (s, op)
          else if tk_status t \<notin> {TInterrupted, TPaused} then Inl EpisodeNotRunning
          else sbind (restart_report E s i e op (tk_status t) now) (\<lambda>s1. Inr (s1, op)))))) = Inr (t, u)"
  show "step_ok s t"
  proof (cases "t = s")
    case False
    then obtain e op prior where e: "dget (st_episodes s) i = Some e" and al: "wrapup_allocation s i = Inr op"
      and st: "ep_status e = EWrappingUp" "ep_wrapup_state e \<in> {WPending, WRunning}"
      and r: "restart_report E s i e op prior now = Inr t"
      using body unfolding guarded_results sbind_eq_Inr by (auto split: if_splits)
    show ?thesis by (rule allocated_wrapup [OF al]) (rule restart_steps [OF ok e _ st r])
  qed (simp add: step_ok_refl [OF ok])
qed

lemma values_map_rows: "dvalues (map (\<lambda>kv. if P (snd kv) then (fst kv, f (snd kv)) else kv) d)
    = map (\<lambda>v. if P v then f v else v) (dvalues d)"
  by (auto simp: dvalues_def)

lemma keyed_map_rows: "keyed key d \<Longrightarrow> (\<And>v. key (f v) = key v)
    \<Longrightarrow> keyed key (map (\<lambda>kv. if P (snd kv) then (fst kv, f (snd kv)) else kv) d)"
  by (auto simp: keyed_def comp_def if_distrib cong: if_cong)

text \<open>An update of many attempts that keeps their identity.\<close>

lemma shape_map_attempts:
  assumes "store_shape s" and "\<And>a. ra_attempt_id (f a) = ra_attempt_id a" "\<And>a. ra_episode_id (f a) = ra_episode_id a"
  shows "store_shape (s\<lparr>st_attempts := map (\<lambda>kv. if P (snd kv) then (fst kv, f (snd kv)) else kv) (st_attempts s)\<rparr>)"
  using assms keyed_map_rows [of ra_attempt_id "st_attempts s" f P]
  by (auto simp: store_shape_def values_map_rows)

lemma view_map_attempts:
  assumes "\<And>a. ra_episode_id (f a) = ra_episode_id a"
  shows "view_of (s\<lparr>st_attempts := map (\<lambda>kv. if P (snd kv) then (fst kv, f (snd kv)) else kv) (st_attempts s)\<rparr>) j
    = map_option (\<lambda>v. v\<lparr>vw_attempts := map (\<lambda>a. if P a then f a else a) (vw_attempts v)\<rparr>) (view_of s j)"
proof -
  have "filter (\<lambda>a. ra_episode_id a = j) (map (\<lambda>v. if P v then f v else v) xs)
      = map (\<lambda>v. if P v then f v else v) (filter (\<lambda>a. ra_episode_id a = j) xs)" for xs
    by (induction xs) (auto simp: assms)
  then show ?thesis by (simp add: view_of_def attempts_for_def values_map_rows option.map_comp comp_def)
qed

lemma failed_attempt_ids [simp]:
  "ra_attempt_id (failed_attempt e n a) = ra_attempt_id a" "ra_episode_id (failed_attempt e n a) = ra_episode_id a"
  "ra_attempt_number (failed_attempt e n a) = ra_attempt_number a" "ra_status (failed_attempt e n a) = AFailed"
  by (simp_all add: failed_attempt_def)

lemma fail_allocation_steps:
  assumes ok: "store_ok s" and e: "dget (st_episodes s) i = Some e" and w: "dget (st_wrapups s) i = Some w"
    and r: "fail_allocation E s i e w t d now = Inr s'"
  shows "step_ok s s'"
proof (cases "s' = s")
  case False
  let ?P = "\<lambda>a. ra_episode_id a = i \<and> ra_status a = AQueued"
  let ?s1 = "fail_queued_attempts i d now s"
  have b: "between_provider_calls s e" and st: "ep_status e = EWrappingUp" "ep_wrapup_state e \<in> {WPending, WRunning}"
    and c: "close_report_failed E ?s1 i (ep_ending e) (on_task (tk_operation_id t) (failed_report_task True d now)) d now = Inr s'"
    using r False by (auto simp: fail_allocation_def split: if_splits)
  obtain v where v: "view_of s i = Some v" "vw_episode v = e" "vw_wrapup v = dget (st_wrapups s) i"
      "vw_attempts v = attempts_for s i"
    by (rule view_of_row [OF e])
  have eid: "ep_episode_id e = i" using keyed_dget [OF _ e] store_shape_ok [OF ok] by (simp add: store_shape_def)
  have sh: "store_shape ?s1" unfolding fail_queued_attempts_def
    by (rule shape_map_attempts [OF store_shape_ok [OF ok]]) simp_all
  have view: "view_of ?s1 j = map_option (\<lambda>v. v\<lparr>vw_attempts := map (\<lambda>a. if ?P a then failed_attempt d now a else a)
      (vw_attempts v)\<rparr>) (view_of s j)" for j
    unfolding fail_queued_attempts_def by (rule view_map_attempts) simp
  have other: "view_of ?s1 j = view_of s j" if "j \<noteq> i" for j
  proof (cases "view_of s j")
    case (Some z)
    have "vw_attempts z = attempts_for s j" using Some by (auto simp: view_of_def)
    then have "map (\<lambda>a. if ?P a then failed_attempt d now a else a) (vw_attempts z) = vw_attempts z"
      using that by (auto simp: attempts_for_def intro!: map_idI)
    then show ?thesis by (simp add: view Some)
  qed (simp add: view)
  have "list_all (\<lambda>a. ra_status a \<notin> {ARunning, ASucceeded}) (episode_attempts s i)"
    using b by (simp add: between_provider_calls_def Let_def eid)
  then have "\<forall>a \<in> set (vw_attempts v). ra_status a \<noteq> ARunning \<and> ra_episode_id a = i"
    by (auto simp: v(4) episode_attempts_def attempts_for_def list_all_iff)
  then have none: "live_attempts (map (\<lambda>a. if ?P a then failed_attempt d now a else a) (vw_attempts v)) = []"
    by (auto simp: live_attempts_def is_live_attempt_def filter_empty_conv)
  have "map ra_attempt_number (map (\<lambda>a. if ?P a then failed_attempt d now a else a) (vw_attempts v))
      = map ra_attempt_number (vw_attempts v)" by simp
  then show ?thesis using st w v(2,3)
    by (intro giveup_steps [OF ok v(1) sh _ other _ none _ _ c [folded v(2)]]) (simp_all add: view v(1))
qed (simp add: step_ok_refl [OF ok])

lemma report_rows_store: "report_rows s i op = Inr (t, x) \<Longrightarrow> t = s"
  by (auto simp: report_rows_def sbind_eq_Inr split: option.splits)

lemma unlaunched_steps:
  assumes ok: "store_ok s"
  shows "step_ok s (fst (fail_episode_report_allocation_unlaunchable E s i raw now))"
  unfolding fail_episode_report_allocation_unlaunchable_def
proof (rule transact_commits [OF ok])
  fix t u
  assume body: "(if py_strip raw = [] then Inl StoreValueError
     else case dget (st_episodes s) i of
        None \<Rightarrow> Inl StoreKeyError
      | Some row \<Rightarrow>
        sbind (wrapup_allocation s i) (\<lambda>op.
        sbind (episode_row row) (\<lambda>e.
        sbind (hidden_allocation s i op) (\<lambda>t.
        case dget (st_wrapups s) i of
          None \<Rightarrow> Inl EpisodeNotRunning
        | Some w \<Rightarrow>
            sbind (fail_allocation E s i e w t (py_strip raw) now) (\<lambda>s1. report_rows s1 i op))))) = Inr (t, u)"
  obtain e w tk s1 op where "dget (st_episodes s) i = Some e" "dget (st_wrapups s) i = Some w"
    "fail_allocation E s i e w tk (py_strip raw) now = Inr s1" "report_rows s1 i op = Inr (t, u)"
    using body [unfolded result_simps] by blast
  then show "step_ok s t" using fail_allocation_steps [OF ok] report_rows_store by metis
qed

section \<open>Publishing\<close>

lemma publish_steps:
  assumes ok: "store_ok s" and a: "dget (st_attempts s) a = Some row" "is_live_attempt row"
    and e: "dget (st_episodes s) (ra_episode_id row) = Some e" and q: "rr_episode_id q = ra_episode_id row"
      "Some (rr_ending q) = ep_ending e"
    and p: "publish_report E s a e q now = Inr t"
  shows "step_ok s t"
proof -
  let ?i = "ra_episode_id row"
  let ?succ = "\<lambda>x. x\<lparr>ra_status := ASucceeded, ra_error := None, ra_updated_at := now, ra_finished_at := Some now\<rparr>"
  have k: "keyed ra_attempt_id (st_attempts s)" and eid: "ep_episode_id e = ?i"
    using store_shape_ok [OF ok] keyed_dget [OF _ e] by (simp_all add: store_shape_def)
  obtain v where v: "view_of s ?i = Some v" "vw_episode v = e" "vw_attempts v = attempts_for s ?i"
    by (rule view_of_row [OF e])
  have vok: "view_ok v" by (rule view_is_ok [OF ok v(1)])
  have rv: "row \<in> set (vw_attempts v)" using dget_value [OF a(1)] v(3) by (simp add: attempts_for_def)
  have id: "ra_attempt_id row = a" by (rule keyed_dget [OF k a(1)])
  obtain w where st: "ep_status (vw_episode v) = EWrappingUp" "vw_wrapup v = Some w"
    by (rule live_wrapping [OF vok rv a(2)])
  have live: "live_attempts (vw_attempts v) \<noteq> []" using rv a(2) by (auto simp: live_attempts_def filter_empty_conv)
  obtain s1 final where ins: "insert_report s q = Inr s1" and fin: "status_for_ending (Some (rr_ending q)) = Inr final"
    and closed: "terminalize_child E
       (on_episode (ep_episode_id e) (\<lambda>e. e\<lparr>ep_status := final, ep_wrapup_state := WReady,
          ep_wrapup_error := None, ep_updated_at := now, ep_ended_at := coalesce (ep_ended_at e) now\<rparr>)
       (on_wrapup (ep_episode_id e) (\<lambda>w. w\<lparr>wu_state := WReady, wu_diagnostic := None,
          wu_updated_at := now, wu_finished_at := Some now\<rparr>)
       (on_task (rr_allocation_operation_id q) (\<lambda>t. t\<lparr>tk_status := TSucceeded,
          tk_status_message := ''Report ready'', tk_error := None, tk_updated_at := now,
          tk_finished_at := Some now, tk_phase := ''completed''\<rparr>)
       (on_attempt a ?succ s1)))) (ep_episode_id e) final (rr_ending q) (ep_ending_diagnostic e) now = Inr t"
    using p unfolding publish_report_def sbind_eq_Inr by blast
  have sa: "st_attempts s1 = st_attempts s" using ins by (auto simp: insert_report_def split: if_splits)
  have "store_shape s1"
    using shape_insert_report [OF store_shape_ok [OF ok] ins] q(1) e by (auto simp: dhas_iff)
  note sh = shape_on_attempt [OF this, of ?succ a]
  have att: "view_of (on_attempt a ?succ s1) j = map_option (\<lambda>v. v\<lparr>vw_attempts := change_attempt a ?succ (vw_attempts v)\<rparr>)
      (view_of s1 j)" for j
    using view_on_attempt [of s1 ?succ a j] k sa by simp
  have other: "view_of (on_attempt a ?succ s1) j = view_of s j" if j: "j \<noteq> ?i" for j
    using view_attempt_elsewhere [of s1 a row j ?succ] j k sa a(1) view_insert_report [OF ins, of j] q(1) by simp
  have mv: "view_move v (v\<lparr>vw_attempts := change_attempt a ?succ (vw_attempts v), vw_reports := vw_reports v @ [q],
      vw_wrapup := Some (w\<lparr>wu_state := WReady, wu_diagnostic := None, wu_updated_at := now,
        wu_finished_at := Some now\<rparr>),
      vw_episode := (vw_episode v)\<lparr>ep_status := final, ep_wrapup_state := WReady, ep_wrapup_error := None,
        ep_updated_at := now, ep_ended_at := coalesce (ep_ended_at e) now\<rparr>\<rparr>)"
    using only_live [OF vok rv a(2)] id fin q(2) v(2)
    by (intro view_move.publish [OF st _ _ live]) auto
  show ?thesis
  proof (rule step_ok_ledger [OF ledger_terminalize [OF closed, symmetric]], rule step_one [OF ok _ v(1) _ mv],
      goal_cases shape new others)
    case shape
    show ?case using sh by (simp add: shape_on_episode shape_on_wrapup shape_on_task)
  next
    case new
    show ?case by (simp add: eid view_simps att view_insert_report [OF ins] q(1) v st(2))
  next
    case (others j)
    then show ?case by (simp add: eid view_simps other)
  qed
qed

lemma ready_steps:
  assumes ok: "store_ok s"
  shows "step_ok s (fst (finish_episode_report_ready E s a q now))"
  unfolding finish_episode_report_ready_def
proof (rule transact_commits [OF ok])
  fix t u
  assume body: "(case dget (st_attempts s) a of
        None \<Rightarrow> Inl StoreKeyError
      | Some row \<Rightarrow> (case (dget (st_episodes s) (ra_episode_id row), dget (st_wrapups s) (ra_episode_id row)) of
          (Some e0, Some w0) \<Rightarrow>
            sbind (episode_row e0) (\<lambda>e.
            sbind (wrapup_row w0) (\<lambda>w.
            if rr_attempt_id q \<noteq> a \<or> rr_episode_id q \<noteq> ep_episode_id e
              \<or> rr_allocation_operation_id q \<noteq> ra_allocation_operation_id row
              \<or> Some (rr_allocation_operation_id q) \<noteq> wu_allocation_operation_id w
              \<or> Some (rr_ending q) \<noteq> ep_ending e
            then Inl EpisodeReportConflict
            else if ep_ending e = Some EndStopped then Inl EpisodeReportConflict
            else case episode_report s (ep_episode_id e) of
              Some stored \<Rightarrow> if stored \<noteq> q then Inl EpisodeReportConflict else Inr (s, ())
            | None \<Rightarrow>
                if ra_status row \<notin> {AQueued, ARunning} then Inl EpisodeReportConflict
                else sbind (publish_report E s a e q now) (\<lambda>s1. Inr (s1, ()))))
        | _ \<Rightarrow> Inl StoreRuntimeError)) = Inr (t, u)"
  show "step_ok s t"
  proof (cases "t = s")
    case False
    then obtain row e where a: "dget (st_attempts s) a = Some row" "ra_status row \<in> {AQueued, ARunning}"
      and e: "dget (st_episodes s) (ra_episode_id row) = Some e"
      and q: "rr_episode_id q = ep_episode_id e" "Some (rr_ending q) = ep_ending e"
      and p: "publish_report E s a e q now = Inr t"
      using body by (auto simp: sbind_eq_Inr split: option.splits if_splits)
    have "ep_episode_id e = ra_episode_id row"
      using store_shape_ok [OF ok] keyed_dget [OF _ e] by (simp add: store_shape_def)
    then show ?thesis using publish_steps [OF ok a(1) _ e _ q(2) p] a(2) q(1) by (simp add: is_live_attempt_def)
  qed (simp add: step_ok_refl [OF ok])
qed

section \<open>Restoring\<close>

lemma step_ok_trans:
  assumes "step_ok s t" and "step_ok t u"
  shows "step_ok s u"
proof -
  have "case view_of s i of Some v \<Rightarrow> (\<exists>w. view_of u i = Some w \<and> view_move\<^sup>*\<^sup>* v w)
      | None \<Rightarrow> view_of u i = None" for i
  proof (cases "view_of s i")
    case None
    then show ?thesis using assms by (auto simp: step_ok_def dest!: spec [of _ i])
  next
    case (Some v)
    then obtain w where w: "view_of t i = Some w" "view_move\<^sup>*\<^sup>* v w"
      using assms(1) by (force simp: step_ok_def dest: spec [of _ i])
    then obtain x where "view_of u i = Some x" "view_move\<^sup>*\<^sup>* w x"
      using assms(2) by (force simp: step_ok_def dest: spec [of _ i])
    with w Some show ?thesis by auto
  qed
  then show ?thesis using assms(2) by (simp add: step_ok_def)
qed

lemma dget_map_rows: "dget (map (\<lambda>kv. if P (snd kv) then (fst kv, f (snd kv)) else kv) d) k
    = map_option (\<lambda>v. if P v then f v else v) (dget d k)"
  by (induction d) auto

lemma shape_map_wrapups:
  assumes "store_shape s" and "\<And>w. wu_episode_id (f w) = wu_episode_id w"
  shows "store_shape (s\<lparr>st_wrapups := map (\<lambda>kv. if P (snd kv) then (fst kv, f (snd kv)) else kv) (st_wrapups s)\<rparr>)"
  using assms keyed_map_rows [of wu_episode_id "st_wrapups s" f P] by (auto simp: store_shape_def)

lemma view_map_wrapups:
  "view_of (s\<lparr>st_wrapups := map (\<lambda>kv. if P (snd kv) then (fst kv, f (snd kv)) else kv) (st_wrapups s)\<rparr>) j
    = map_option (\<lambda>v. v\<lparr>vw_wrapup := map_option (\<lambda>w. if P w then f w else w) (vw_wrapup v)\<rparr>) (view_of s j)"
  by (simp add: view_of_def attempts_for_def dget_map_rows option.map_comp comp_def)

text \<open>No attempt of the store is live.\<close>

definition quiet :: "store \<Rightarrow> bool" where
  "quiet s \<longleftrightarrow> live_attempts (dvalues (st_attempts s)) = []"

lemma quiet_view: "quiet s \<Longrightarrow> view_of s i = Some v \<Longrightarrow> live_attempts (vw_attempts v) = []"
  by (auto simp: quiet_def view_of_def attempts_for_def live_attempts_def filter_empty_conv)

lemma detach_reports_steps:
  assumes ok: "store_ok s" and d: "detach_episode_reports_for_restore E s diagnostic now = Inr t"
  shows "step_ok s t" "quiet t" "st_episodes t = st_episodes s"
proof -
  let ?f = "\<lambda>a. a\<lparr>ra_status := AFailed, ra_error := Some (restore_detail diagnostic), ra_updated_at := now,
    ra_finished_at := coalesce (ra_finished_at a) now\<rparr>"
  let ?P = "\<lambda>a. ra_status a \<in> {AQueued, ARunning}"
  let ?g = "\<lambda>w. w\<lparr>wu_native_session_id := None, wu_stage_host := None, wu_stage_root := None, wu_updated_at := now\<rparr>"
  let ?Q = "\<lambda>w. wu_state w \<in> {WPending, WRunning}
    \<and> (wu_native_session_id w \<noteq> None \<or> wu_stage_host w \<noteq> None \<or> wu_stage_root w \<noteq> None)"
  let ?s1 = "s\<lparr>st_attempts := map (\<lambda>kv. if ?P (snd kv) then (fst kv, ?f (snd kv)) else kv) (st_attempts s)\<rparr>"
  have t: "t = ?s1\<lparr>st_wrapups := map (\<lambda>kv. if ?Q (snd kv) then (fst kv, ?g (snd kv)) else kv) (st_wrapups ?s1)\<rparr>"
    using d by (simp add: detach_episode_reports_for_restore_def Let_def split: if_splits)
  have dead: "live_attempts (map (\<lambda>a. if ?P a then ?f a else a) xs) = []" for xs
    by (induction xs) (auto simp: live_attempts_def is_live_attempt_def)
  have numbers: "map ra_attempt_number (map (\<lambda>a. if ?P a then ?f a else a) xs) = map ra_attempt_number xs" for xs
    by (induction xs) auto
  have v1: "view_of ?s1 j = map_option (\<lambda>v. v\<lparr>vw_attempts := map (\<lambda>a. if ?P a then ?f a else a) (vw_attempts v)\<rparr>)
      (view_of s j)" for j
    by (rule view_map_attempts [where P = ?P and f = ?f]) simp
  define M where "M v = v\<lparr>vw_attempts := map (\<lambda>a. if ?P a then ?f a else a) (vw_attempts v),
      vw_wrapup := map_option (\<lambda>w. if ?Q w then ?g w else w) (vw_wrapup v)\<rparr>" for v :: episode_view
  have v: "view_of t j = map_option M (view_of s j)" for j
    unfolding t
    by (rule trans [OF view_map_wrapups [where P = ?Q and f = ?g]], unfold v1)
       (cases "view_of s j"; simp add: M_def)
  have mv: "view_move v (M v)" for v
    unfolding M_def by (rule view_move.detach [OF numbers dead]) (cases "vw_wrapup v"; simp)
  have "store_shape t"
    unfolding t
    by (rule shape_map_wrapups [where P = ?Q and f = ?g], rule shape_map_attempts [where P = ?P and f = ?f])
       (simp_all add: store_shape_ok [OF ok])
  then show "step_ok s t" using r_into_rtranclp [of view_move, OF mv] by (simp add: step_ok_def v split: option.splits)
  have "dvalues (st_attempts t) = map (\<lambda>a. if ?P a then ?f a else a) (dvalues (st_attempts s))"
    using values_map_rows [where P = ?P and f = ?f] unfolding t by simp
  then show "quiet t" unfolding quiet_def by (simp only: dead)
  show "st_episodes t = st_episodes s" unfolding t by simp
qed

lemma live_wrapup:
  assumes "view_ok v" and live: "is_live (vw_episode v)" and "vw_wrapup v = Some w"
  shows "wu_state w \<in> {WPending, WRunning}"
proof -
  have "ep_status (vw_episode v) = EWrappingUp"
    using live idle_view(2) [OF assms(1)] assms(3) by (auto simp: is_live_def LIVE_EPISODE_STATUSES_def)
  then show ?thesis using wrapping_view(2) [OF assms(1)] fenced_view(1,3) [OF assms(1,3)] by auto
qed

lemma stop_restored_steps:
  assumes ok: "store_ok s" and q: "quiet s" and v: "view_of s i = Some v" and live: "is_live (vw_episode v)"
  obtains t w where "stop_restored E detail now i s = Inr t" "step_ok s t" "quiet t"
    "view_of t i = Some (v\<lparr>vw_wrapup := Some w, vw_episode := stopped_episode (Some detail) now (vw_episode v)\<rparr>)"
    "\<forall>j. j \<noteq> i \<longrightarrow> view_of t j = view_of s j"
proof -
  have vok: "view_ok v" by (rule view_is_ok [OF ok v])
  let ?receipt = "compact_episode_receipt E [(''diagnostic'', VStr detail), (''ending'', VStr ''stopped''),
           (''episode_id'', VStr i), (''reason'', VStr ''restore'')]"
  let ?w0 = "skipped_wrapup i (concluding_operation s i) ?receipt (Some detail) now"
  let ?f = "\<lambda>w. w\<lparr>wu_ending := Some EndStopped, wu_partial := True,
             wu_native_session_id := None, wu_stage_host := None, wu_stage_root := None,
             wu_receipt_json := fst ?receipt, wu_receipt_sha256 := snd ?receipt, wu_state := WSkipped,
             wu_diagnostic := Some detail, wu_updated_at := now,
             wu_finished_at := coalesce (wu_finished_at w) now\<rparr>"
  let ?g = "stopped_episode (Some detail) now"
  have row: "vw_wrapup v = dget (st_wrapups s) i" "dhas i (st_episodes s)"
    using v by (auto simp: view_of_def dhas_iff)
  obtain s1 w where w: "wu_state w = WSkipped" "wu_ending w = Some EndStopped"
    and r: "stop_restored E detail now i s = Inr (on_episode i ?g s1)"
    and s1: "store_shape s1" "st_attempts s1 = st_attempts s"
    and vs: "\<And>j. view_of s1 j = (if j = i then Some (v\<lparr>vw_wrapup := Some w\<rparr>) else view_of s j)"
  proof (cases "dget (st_wrapups s) i")
    case None
    have ins: "insert_episode_wrapup s ?w0 = Inr (s\<lparr>st_wrapups := dset i ?w0 (st_wrapups s)\<rparr>)"
      using None by (simp add: insert_episode_wrapup_def no_wrapup_row skipped_wrapup_def)
    show ?thesis
    proof (rule that)
      show "stop_restored E detail now i s = Inr (on_episode i ?g (s\<lparr>st_wrapups := dset i ?w0 (st_wrapups s)\<rparr>))"
        using None ins by (simp add: stop_restored_def Let_def)
    qed (use shape_insert_wrapup [OF store_shape_ok [OF ok] ins] row(2) view_insert_wrapup [OF ins] v in auto)
  next
    case (Some w)
    then have st: "wu_state w \<in> {WPending, WRunning}"
      using live_wrapup [OF vok live] row(1) by simp
    show ?thesis
    proof (rule that)
      show "stop_restored E detail now i s = Inr (on_episode i ?g (on_wrapup i ?f s))"
        using Some st by (simp add: stop_restored_def Let_def)
      show "view_of (on_wrapup i ?f s) j = (if j = i then Some (v\<lparr>vw_wrapup := Some (?f w)\<rparr>) else view_of s j)" for j
        using v row(1) Some by (simp add: view_simps)
      show "st_attempts (on_wrapup i ?f s) = st_attempts s" by (simp add: on_wrapup_def)
    qed (simp_all add: shape_on_wrapup [OF store_shape_ok [OF ok]])
  qed
  have mv: "view_move v (v\<lparr>vw_wrapup := Some w, vw_episode := ?g (vw_episode v)\<rparr>)"
    by (rule view_move.restored [OF live quiet_view [OF q v] w])
  show ?thesis
  proof (rule that [OF r])
    show "step_ok s (on_episode i ?g s1)"
      by (rule step_one [OF ok _ v _ mv]) (simp_all add: shape_on_episode s1(1) view_simps vs)
    show "quiet (on_episode i ?g s1)" using q s1(2) by (simp add: quiet_def on_episode_def)
  qed (simp_all add: view_simps vs)
qed


lemma stopped_not_live [simp]: "\<not> is_live (stopped_episode d now e)"
  by (simp add: stopped_episode_def is_live_def LIVE_EPISODE_STATUSES_def)

lemma restore_loop:
  assumes "store_ok s" and "quiet s" and "distinct is"
    and "\<And>i. i \<in> set is \<Longrightarrow> \<exists>v. view_of s i = Some v \<and> is_live (vw_episode v)"
  shows "\<exists>t. sfold (stop_restored E detail now) is s = Inr t \<and> step_ok s t \<and> quiet t
    \<and> (\<forall>i \<in> set is. \<exists>v. view_of t i = Some v \<and> \<not> is_live (vw_episode v))
    \<and> (\<forall>j. j \<notin> set is \<longrightarrow> view_of t j = view_of s j)"
  using assms
proof (induction "is" arbitrary: s)
  case Nil
  then show ?case by (simp add: step_ok_refl)
next
  case (Cons i "is")
  obtain v where v: "view_of s i = Some v" "is_live (vw_episode v)" using Cons.prems(4) by auto
  obtain t w where t: "stop_restored E detail now i s = Inr t" "step_ok s t" "quiet t"
    "view_of t i = Some (v\<lparr>vw_wrapup := Some w, vw_episode := stopped_episode (Some detail) now (vw_episode v)\<rparr>)"
    "\<forall>j. j \<noteq> i \<longrightarrow> view_of t j = view_of s j"
    by (rule stop_restored_steps [OF Cons.prems(1,2) v, where E = E and detail = detail and now = now])
  have "\<exists>v. view_of t j = Some v \<and> is_live (vw_episode v)" if "j \<in> set is" for j
    using Cons.prems(3) Cons.prems(4) [of j] that t(5) by auto
  then obtain u where u: "sfold (stop_restored E detail now) is t = Inr u" "step_ok t u" "quiet u"
      "\<forall>i \<in> set is. \<exists>v. view_of u i = Some v \<and> \<not> is_live (vw_episode v)"
      "\<forall>j. j \<notin> set is \<longrightarrow> view_of u j = view_of t j"
    using Cons.IH [OF step_keeps_ok [OF Cons.prems(1) t(2)] t(3)] Cons.prems(3) by auto
  show ?case
    using Cons.prems(3) t u step_ok_trans [OF t(2) u(2)] by (intro exI [of _ u]) simp
qed

lemma live_experiment_view:
  assumes "store_shape s"
    and "i \<in> set (map ep_episode_id (filter (\<lambda>e. ep_mode e = ExperimentLoopMode \<and> is_live e) (dvalues (st_episodes s))))"
  obtains v where "view_of s i = Some v" "is_live (vw_episode v)"
proof -
  obtain e where e: "e \<in> set (dvalues (st_episodes s))" "is_live e" "i = ep_episode_id e" using assms(2) by auto
  then have "dget (st_episodes s) i = Some e" using keyed_value assms(1) by (auto simp: store_shape_def)
  then show ?thesis using view_of_row e(2) that by metis
qed

lemma keyed_ids: "keyed key d \<Longrightarrow> map key (dvalues d) = map fst d"
  by (auto simp: keyed_def dvalues_def)

lemma distinct_filtered_ids: "keyed key d \<Longrightarrow> distinct (map key (filter P (dvalues d)))"
  using keyed_ids [of key d] by (auto simp: keyed_def intro!: distinct_map_filter)

lemma restore_succeeds:
  assumes ok: "store_ok s" and q: "quiet s" and d: "restore_detail diagnostic \<noteq> []" "se_timestamp E now"
  obtains t where "detach_experiment_episodes_for_restore E s diagnostic now = Inr t" "step_ok s t" "quiet t"
    "\<And>i v. view_of t i = Some v \<Longrightarrow> ep_mode (vw_episode v) = ExperimentLoopMode \<Longrightarrow> \<not> is_live (vw_episode v)"
proof -
  let ?ids = "map ep_episode_id (filter (\<lambda>e. ep_mode e = ExperimentLoopMode \<and> is_live e) (dvalues (st_episodes s)))"
  let ?s = "detach_bindings now s"
  have l: "ledger ?s = ledger s" by (simp add: detach_bindings_def)
  have same: "view_of ?s = view_of s" "store_shape ?s" "quiet ?s"
    using view_of_ledger [OF l] store_shape_ledger [OF l] store_shape_ok [OF ok] q
    by (simp_all add: quiet_def detach_bindings_def)
  have ok': "store_ok ?s" using ok same by (simp add: store_ok_def)
  have "distinct ?ids" using store_shape_ok [OF ok] by (intro distinct_filtered_ids) (simp add: store_shape_def)
  moreover have "\<exists>v. view_of ?s i = Some v \<and> is_live (vw_episode v)" if "i \<in> set ?ids" for i
    using live_experiment_view [OF store_shape_ok [OF ok] that] same(1) by metis
  ultimately obtain t where t: "sfold (stop_restored E (restore_detail diagnostic) now) (sort ?ids) ?s = Inr t"
      "step_ok ?s t" "quiet t" "\<forall>i \<in> set ?ids. \<exists>v. view_of t i = Some v \<and> \<not> is_live (vw_episode v)"
      "\<forall>j. j \<notin> set ?ids \<longrightarrow> view_of t j = view_of ?s j"
    using restore_loop [OF ok' same(3), of "sort ?ids" E "restore_detail diagnostic" now] by auto
  show ?thesis
  proof (rule that)
    show "detach_experiment_episodes_for_restore E s diagnostic now = Inr t"
      using t(1) d by (simp add: detach_experiment_episodes_for_restore_def Let_def)
    show "step_ok s t" using t(2) same(1) by (simp add: step_ok_def)
    show "\<not> is_live (vw_episode v)" if v: "view_of t i = Some v" "ep_mode (vw_episode v) = ExperimentLoopMode" for i v
    proof (cases "i \<in> set ?ids")
      case True
      then show ?thesis using t(4) v(1) by auto
    next
      case False
      then have "view_of s i = Some v" using t(5) same(1) v(1) by simp
      then have e: "dget (st_episodes s) i = Some (vw_episode v)" by (auto simp: view_of_def)
      have "ep_episode_id (vw_episode v) = i"
        using keyed_dget [OF _ e] store_shape_ok [OF ok] by (simp add: store_shape_def)
      then show ?thesis using False v(2) dget_value [OF e] by force
    qed
  qed (rule t(3))
qed

end
