(* ===== verification/Inbox.thy ===== *)
theory Inbox
  imports Episodes
begin

text \<open>
  The lifecycle inbox of \<open>storage/auto_research_children.py\<close>: notices RCP writes for an
  Auto-research parent wait until a wake claims them or the orchestrator harvests or clears
  them. A keyed inbox command keeps a receipt of the exact notices it acknowledged, chosen so
  that the response fits the command ledger.
\<close>

section \<open>Pending notices\<close>

definition AUTO_RESEARCH_LIFECYCLE_MAX_NOTICES :: int where
  "AUTO_RESEARCH_LIFECYCLE_MAX_NOTICES = 50"

definition unread :: "lifecycle_notice \<Rightarrow> bool" where
  "unread n \<longleftrightarrow> ln_delivered_at n = None \<and> ln_acknowledged_at n = None"

definition notice_order :: "lifecycle_notice list \<Rightarrow> lifecycle_notice list" where
  "notice_order ns = sort_key ln_created_at (sort_key ln_notice_id ns)"

definition pending_rows :: "store \<Rightarrow> string \<Rightarrow> lifecycle_notice list" where
  "pending_rows s i = notice_order (filter (\<lambda>n. ln_episode_id n = i \<and> unread n) (st_notices s))"

definition batch_size :: "int \<Rightarrow> nat" where
  "batch_size limit = nat (max 1 (min limit AUTO_RESEARCH_LIFECYCLE_MAX_NOTICES))"

definition pending_auto_research_lifecycle_notices :: "store \<Rightarrow> string \<Rightarrow> int \<Rightarrow> lifecycle_notice list sres" where
  "pending_auto_research_lifecycle_notices s i limit =
     smap notice_row (take (batch_size limit) (pending_rows s i))"

definition wake_eligible :: "episode_record \<Rightarrow> bool" where
  "wake_eligible e \<longleftrightarrow> ep_mode e = AutoResearchMode \<and> ep_status e = ERunning \<and> ep_ending e = None
     \<and> ep_stop_requested_at e = None"

definition pending_auto_research_lifecycle_episode_ids :: "store \<Rightarrow> string option \<Rightarrow> string list" where
  "pending_auto_research_lifecycle_episode_ids s i = sorted_set (map ep_episode_id (filter
     (\<lambda>e. wake_eligible e \<and> (\<exists>n \<in> set (st_notices s). ln_episode_id n = ep_episode_id e \<and> unread n)
        \<and> (i = None \<or> i = Some (ep_episode_id e))) (dvalues (st_episodes s))))"

definition auto_research_lifecycle_notices :: "store \<Rightarrow> string \<Rightarrow> lifecycle_notice list sres" where
  "auto_research_lifecycle_notices s i =
     smap notice_row (notice_order (filter (\<lambda>n. ln_episode_id n = i) (st_notices s)))"

definition auto_research_lifecycle_delivery :: "store \<Rightarrow> string \<Rightarrow> lifecycle_notice list sres" where
  "auto_research_lifecycle_delivery s op =
     smap notice_row (notice_order (filter (\<lambda>n. ln_delivery_operation_id n = Some op) (st_notices s)))"

definition record_auto_research_lifecycle_notice ::
  "store_env \<Rightarrow> store \<Rightarrow> lifecycle_notice \<Rightarrow> store \<times> lifecycle_notice sres" where
  "record_auto_research_lifecycle_notice E s n = transact s (insert_lifecycle_notice E s n) (\<lambda>_ m. Inr m)"

section \<open>Handing notices over\<close>

text \<open>\<open>UPDATE auto_research_lifecycle_notices SET ... WHERE notice_id IN (...) AND ...\<close>.\<close>

definition on_notices ::
  "(lifecycle_notice \<Rightarrow> bool) \<Rightarrow> (lifecycle_notice \<Rightarrow> lifecycle_notice) \<Rightarrow> store \<Rightarrow> store" where
  "on_notices P f s = s\<lparr>st_notices := map (\<lambda>n. if P n then f n else n) (st_notices s)\<rparr>"

definition delivered :: "string \<Rightarrow> string \<Rightarrow> lifecycle_notice \<Rightarrow> lifecycle_notice" where
  "delivered now op n = n\<lparr>ln_state := NoticeDelivered, ln_delivered_at := Some now,
     ln_delivery_operation_id := Some op\<rparr>"

definition acknowledged :: "string \<Rightarrow> string \<Rightarrow> lifecycle_notice \<Rightarrow> lifecycle_notice" where
  "acknowledged now actor n = n\<lparr>ln_state := NoticeAcknowledged, ln_acknowledged_at := Some now,
     ln_acknowledged_by := Some actor\<rparr>"

definition claim_notices ::
  "store \<Rightarrow> string \<Rightarrow> string \<Rightarrow> string \<Rightarrow> int \<Rightarrow> (store \<times> lifecycle_notice list) sres" where
  "claim_notices s i op now limit =
    (let rows = take (batch_size limit) (pending_rows s i) in
     if rows = [] then Inr (s, [])
     else let s1 = on_notices (\<lambda>n. ln_notice_id n \<in> set (map ln_notice_id rows) \<and> unread n) (delivered now op) s in
       sbind (smap notice_row rows) (\<lambda>ns. Inr (s1, map (delivered now op) ns)))"

definition claim_auto_research_lifecycle_notices ::
  "store \<Rightarrow> string \<Rightarrow> string \<Rightarrow> int \<Rightarrow> string \<Rightarrow> store \<times> lifecycle_notice list sres" where
  "claim_auto_research_lifecycle_notices s i op limit now =
     transact s (claim_notices s i op now limit) (\<lambda>_ ns. Inr ns)"

definition acknowledge_lifecycle_rows :: "store \<Rightarrow> lifecycle_notice list \<Rightarrow> string \<Rightarrow> string \<Rightarrow> store" where
  "acknowledge_lifecycle_rows s ns now actor = on_notices
     (\<lambda>n. ln_notice_id n \<in> set (map ln_notice_id ns) \<and> ln_acknowledged_at n = None) (acknowledged now actor) s"

definition harvest_auto_research_lifecycle_notices ::
  "store \<Rightarrow> string \<Rightarrow> string \<Rightarrow> int \<Rightarrow> string \<Rightarrow> store \<times> lifecycle_notice list sres" where
  "harvest_auto_research_lifecycle_notices s i actor limit now =
    (if py_strip actor = [] then (s, Inl StoreValueError)
     else transact s (sbind (smap notice_row (take (batch_size limit) (pending_rows s i))) (\<lambda>ns.
         Inr (acknowledge_lifecycle_rows s ns now actor, ns)))
       (\<lambda>_ ns. Inr (map (acknowledged now actor) ns)))"

definition clear_auto_research_lifecycle_notices ::
  "store \<Rightarrow> string \<Rightarrow> string \<Rightarrow> string \<Rightarrow> store \<times> string list sres" where
  "clear_auto_research_lifecycle_notices s i actor now =
    (if py_strip actor = [] then (s, Inl StoreValueError)
     else transact s (sbind (smap notice_row (pending_rows s i)) (\<lambda>ns.
         Inr (acknowledge_lifecycle_rows s ns now actor, ns)))
       (\<lambda>_ ns. Inr (map ln_notice_id ns)))"

section \<open>Keyed inbox commands\<close>

text \<open>The longest prefix found by adding one notice at a time while the response still fits.\<close>

fun fitting_prefix ::
  "(lifecycle_notice list \<Rightarrow> bool) \<Rightarrow> lifecycle_notice list \<Rightarrow> lifecycle_notice list \<Rightarrow> lifecycle_notice list" where
  "fitting_prefix fits selected [] = selected"
| "fitting_prefix fits selected (n # ns) =
    (if fits (selected @ [n]) then fitting_prefix fits (selected @ [n]) ns else selected)"

definition bounded_auto_research_inbox_snapshot ::
  "store_env \<Rightarrow> lifecycle_notice list \<Rightarrow> inbox_mode \<Rightarrow> string \<Rightarrow> string \<Rightarrow> bool option
    \<Rightarrow> lifecycle_notice list sres" where
  "bounded_auto_research_inbox_snapshot E pending mode now actor clear_fits =
    (let acks = map (acknowledged now actor) pending in
     if mode = Clear
     then (if inbox_effect_fits E Clear acks then Inr acks else Inl AutoResearchInboxClearTooLarge)
     else let selected = fitting_prefix (inbox_effect_fits E Harvest) [] acks in
       if acks \<noteq> [] \<and> selected = []
       then (if clear_fits \<noteq> Some True then Inl AutoResearchInboxNoticeUnacknowledgeable
             else Inl AutoResearchInboxHarvestTooLarge)
       else if \<not> inbox_effect_fits E Harvest selected then Inl StoreRuntimeError
       else Inr selected)"

text \<open>The validator of a receipt, also run on the row read back.\<close>

definition inbox_receipt_row :: "inbox_receipt \<Rightarrow> inbox_receipt sres" where
  "inbox_receipt_row r =
    (if ir_count r = length (ir_notice_ids r) \<and> distinct (ir_notice_ids r)
       \<and> (ir_mode r = Clear \<longrightarrow> ir_notices r = [])
       \<and> (ir_mode r = Harvest \<longrightarrow> map ln_notice_id (ir_notices r) = ir_notice_ids r)
     then Inr r else Inl StoreValidationError)"

definition auto_research_inbox_receipt :: "store \<Rightarrow> string \<Rightarrow> inbox_receipt option sres" where
  "auto_research_inbox_receipt s effect = (case dget (st_inbox_receipts s) effect of
       None \<Rightarrow> Inr None | Some r \<Rightarrow> sbind (inbox_receipt_row r) (\<lambda>r. Inr (Some r)))"

definition clear_would_fit :: "store_env \<Rightarrow> store \<Rightarrow> string \<Rightarrow> string \<Rightarrow> string \<Rightarrow> bool sres" where
  "clear_would_fit E s i now actor = sbind (smap notice_row (pending_rows s i)) (\<lambda>ns.
     Inr (inbox_effect_fits E Clear (map (acknowledged now actor) ns)))"

definition inbox_snapshot ::
  "store_env \<Rightarrow> store \<Rightarrow> string \<Rightarrow> inbox_mode \<Rightarrow> string \<Rightarrow> int \<Rightarrow> string \<Rightarrow> lifecycle_notice list sres" where
  "inbox_snapshot E s i mode actor limit now =
    sbind (smap notice_row ((if mode = Harvest then take (batch_size limit) else id) (pending_rows s i))) (\<lambda>pending.
    sbind (case pending of
        n # _ \<Rightarrow> if mode = Harvest \<and> \<not> inbox_effect_fits E Harvest [acknowledged now actor n]
          then sbind (clear_would_fit E s i now actor) (\<lambda>b. Inr (Some b)) else Inr None
      | [] \<Rightarrow> Inr None) (\<lambda>clear_fits.
    bounded_auto_research_inbox_snapshot E pending mode now actor clear_fits))"

definition new_inbox_receipt ::
  "string \<Rightarrow> string \<Rightarrow> inbox_mode \<Rightarrow> lifecycle_notice list \<Rightarrow> string \<Rightarrow> string \<Rightarrow> inbox_receipt" where
  "new_inbox_receipt effect i mode notices actor now =
    (let acks = map (acknowledged now actor) notices in
     \<lparr>ir_effect_id = effect, ir_episode_id = i, ir_mode = mode, ir_notice_ids = map ln_notice_id acks,
      ir_count = length acks, ir_notices = (if mode = Harvest then acks else []),
      ir_acknowledged_by = actor, ir_created_at = now\<rparr>)"

definition process_auto_research_lifecycle_inbox ::
  "store_env \<Rightarrow> store \<Rightarrow> string \<Rightarrow> string \<Rightarrow> inbox_mode \<Rightarrow> string \<Rightarrow> int \<Rightarrow> string \<Rightarrow> store \<times> inbox_receipt sres" where
  "process_auto_research_lifecycle_inbox E s i effect mode actor limit now =
    (if py_strip effect = [] \<or> py_strip actor = [] then (s, Inl StoreValueError)
     else transact s
      (case dget (st_inbox_receipts s) effect of
         Some row \<Rightarrow> sbind (inbox_receipt_row row) (\<lambda>r.
           if ir_episode_id r \<noteq> i \<or> ir_mode r \<noteq> mode \<or> ir_acknowledged_by r \<noteq> actor then Inl StoreValueError
           else Inr (s, r))
       | None \<Rightarrow>
           sbind (load_auto_research_episode s i) (\<lambda>_.
           sbind (inbox_snapshot E s i mode actor limit now) (\<lambda>notices.
           sbind (inbox_receipt_row (new_inbox_receipt effect i mode notices actor now)) (\<lambda>r.
           let s1 = acknowledge_lifecycle_rows s notices now actor in
           Inr (s1\<lparr>st_inbox_receipts := dset effect r (st_inbox_receipts s1)\<rparr>, r)))))
      (\<lambda>_ r. Inr r))"

end
