(* ===== verification/Children.thy ===== *)
theory Children
  imports Inbox
begin

text \<open>
  The ordinary children of an Auto-research episode (\<open>storage/auto_research_children.py\<close>): the
  durable admission of a child command, the routes of child Experiments with their states, the
  allowance of paid Experiment invocations, the detachment of restored children, and the
  guarded Finish that reports every open obligation or fences the episode.
\<close>

section \<open>Admissions\<close>

definition validate_auto_research_parent_admission :: "episode_record \<Rightarrow> unit sres" where
  "validate_auto_research_parent_admission e =
     sguard (ep_status e = ERunning \<and> ep_ending e = None \<and> ep_stop_requested_at e = None) EpisodeNotRunning"

definition insert_auto_research_child_admission ::
  "store \<Rightarrow> child_admission \<Rightarrow> (store \<times> child_admission) sres" where
  "insert_auto_research_child_admission s a =
     sbind (sguard (ca_state a = Accepted) StoreValueError) (\<lambda>_.
     sbind (load_auto_research_episode s (ca_episode_id a)) (\<lambda>e.
     sbind (sguard (ep_project_id e = ca_project_id a) StoreValueError) (\<lambda>_.
     case dget (st_admissions s) (ca_admission_id a) of
       Some stored \<Rightarrow> if stored \<noteq> a then Inl StoreValueError else Inr (s, stored)
     | None \<Rightarrow>
         sbind (validate_auto_research_parent_admission e) (\<lambda>_.
         sbind (sguard (\<not> (\<exists>b \<in> set (dvalues (st_admissions s)). ca_episode_id b = ca_episode_id a
             \<and> ca_child_kind b = ca_child_kind a \<and> ca_child_id b = ca_child_id a)) StoreIntegrityError) (\<lambda>_.
         Inr (s\<lparr>st_admissions := dset (ca_admission_id a) a (st_admissions s)\<rparr>, a))))))"

definition auto_research_child_admission :: "store \<Rightarrow> string \<Rightarrow> child_admission option" where
  "auto_research_child_admission s i = dget (st_admissions s) i"

definition record_auto_research_child_admission ::
  "store \<Rightarrow> child_admission \<Rightarrow> store \<times> child_admission sres" where
  "record_auto_research_child_admission s a =
    (if ca_state a \<noteq> Accepted then (s, Inl StoreValueError)
     else transact s (insert_auto_research_child_admission s a)
       (\<lambda>s1 _. reread (Inr (auto_research_child_admission s1 (ca_admission_id a)))))"

definition pending_auto_research_child_admissions :: "store \<Rightarrow> string option \<Rightarrow> child_admission list" where
  "pending_auto_research_child_admissions s i = sort_key ca_created_at (sort_key ca_admission_id
     (filter (\<lambda>a. ca_state a = Accepted \<and> (i = None \<or> i = Some (ca_episode_id a))) (dvalues (st_admissions s))))"

definition on_admission :: "string \<Rightarrow> (child_admission \<Rightarrow> child_admission) \<Rightarrow> store \<Rightarrow> store" where
  "on_admission i f s = s\<lparr>st_admissions := dmodify i f (st_admissions s)\<rparr>"

definition settled_admission :: "admission_state \<Rightarrow> string \<Rightarrow> child_admission \<Rightarrow> child_admission" where
  "settled_admission x now a = (if ca_state a = Accepted then a\<lparr>ca_state := x, ca_updated_at := now\<rparr> else a)"

definition cancel_auto_research_child_admission :: "store \<Rightarrow> string \<Rightarrow> string \<Rightarrow> store \<times> child_admission sres" where
  "cancel_auto_research_child_admission s i now = transact s
     (case dget (st_admissions s) i of
        None \<Rightarrow> Inl StoreKeyError
      | Some a \<Rightarrow> if ca_state a = Reflected then Inl StoreValueError
          else Inr (on_admission i (settled_admission AdmissionCancelled now) s, ()))
     (\<lambda>s1 _. reread (Inr (auto_research_child_admission s1 i)))"

definition reflect_auto_research_child_admission ::
  "store \<Rightarrow> string option \<Rightarrow> string \<Rightarrow> admission_kind \<Rightarrow> string \<Rightarrow> string \<Rightarrow> store sres" where
  "reflect_auto_research_child_admission s admission i kind child now = (case admission of
       None \<Rightarrow> Inr s
     | Some k \<Rightarrow> (case dget (st_admissions s) k of
           None \<Rightarrow> Inl StoreValueError
         | Some a \<Rightarrow>
             if ca_episode_id a \<noteq> i \<or> ca_child_kind a \<noteq> kind \<or> ca_child_id a \<noteq> child
               \<or> ca_state a \<notin> {Accepted, Reflected} then Inl StoreValueError
             else Inr (on_admission k (settled_admission Reflected now) s)))"

section \<open>Child Experiment routes\<close>

definition validate_auto_research_experiment_route :: "store \<Rightarrow> child_route \<Rightarrow> unit sres" where
  "validate_auto_research_experiment_route s r =
     sbind (load_auto_research_episode s (cr_parent_episode_id r)) (\<lambda>e.
     sbind (validate_auto_research_parent_admission e) (\<lambda>_.
     sbind (sguard (ep_project_id e = cr_project_id r) StoreValueError) (\<lambda>_.
     sguard (case dget (st_auto_invocations s) (cr_parent_operation_id r) of
         Some a \<Rightarrow> ai_episode_id a = cr_parent_episode_id r \<and> ai_role a = OrchestratorRole
       | None \<Rightarrow> False) StoreValueError)))"

text \<open>The primary key and the unique index on the pending route of a node.\<close>

definition insert_route :: "store \<Rightarrow> child_route \<Rightarrow> store sres" where
  "insert_route s r = sbind (sguard (\<not> dhas (cr_child_episode_id r) (st_routes s)
       \<and> \<not> (cr_state r = ChildPending \<and> (\<exists>q \<in> set (dvalues (st_routes s)). cr_state q = ChildPending
           \<and> cr_project_id q = cr_project_id r \<and> cr_control_node_id q = cr_control_node_id r)))
     StoreIntegrityError) (\<lambda>_. Inr (s\<lparr>st_routes := dset (cr_child_episode_id r) r (st_routes s)\<rparr>))"

definition auto_research_child_experiment :: "store \<Rightarrow> string \<Rightarrow> child_route option" where
  "auto_research_child_experiment s i = dget (st_routes s) i"

definition reserve_auto_research_experiment_replacement ::
  "store \<Rightarrow> child_route \<Rightarrow> string option \<Rightarrow> store \<times> child_route sres" where
  "reserve_auto_research_experiment_replacement s r admission =
    (if cr_state r \<noteq> ChildPending \<or> \<not> filled (cr_replaces_episode_id r) then (s, Inl StoreValueError)
     else transact s
       (sbind (validate_auto_research_experiment_route s r) (\<lambda>_.
        sbind (insert_route s r) (\<lambda>s1.
        sbind (reflect_auto_research_child_admission s1 admission (cr_parent_episode_id r) ExperimentChild
          (cr_child_episode_id r) (cr_updated_at r)) (\<lambda>s2. Inr (s2, ())))))
       (\<lambda>s1 _. reread (Inr (auto_research_child_experiment s1 (cr_child_episode_id r)))))"

definition pending_auto_research_experiment_replacement :: "store \<Rightarrow> string \<Rightarrow> string \<Rightarrow> child_route option" where
  "pending_auto_research_experiment_replacement s p n =
     find (\<lambda>r. cr_project_id r = p \<and> cr_control_node_id r = n \<and> cr_state r = ChildPending) (dvalues (st_routes s))"

definition auto_research_child_experiments :: "store \<Rightarrow> string \<Rightarrow> child_route list" where
  "auto_research_child_experiments s i = sort_key cr_created_at (sort_key cr_child_episode_id
     (filter (\<lambda>r. cr_parent_episode_id r = i) (dvalues (st_routes s))))"

definition on_route :: "string \<Rightarrow> (child_route \<Rightarrow> child_route) \<Rightarrow> store \<Rightarrow> store" where
  "on_route i f s = s\<lparr>st_routes := dmodify i f (st_routes s)\<rparr>"

definition settled_route :: "child_state \<Rightarrow> string option \<Rightarrow> string \<Rightarrow> child_route \<Rightarrow> child_route" where
  "settled_route x diagnostic now r =
     r\<lparr>cr_state := x, cr_terminal_diagnostic := diagnostic, cr_updated_at := now\<rparr>"

definition settle_auto_research_child_experiment ::
  "store \<Rightarrow> string \<Rightarrow> child_state \<Rightarrow> child_state \<Rightarrow> string option \<Rightarrow> string \<Rightarrow> store \<times> child_route sres" where
  "settle_auto_research_child_experiment s child source target diagnostic now = transact s
     (case dget (st_routes s) child of
        None \<Rightarrow> Inl StoreKeyError
      | Some r \<Rightarrow>
          if cr_state r = target then Inr (s, ())
          else if cr_state r \<noteq> source then Inl StoreValueError
          else Inr (on_route child (settled_route target diagnostic now) s, ()))
     (\<lambda>s1 _. reread (Inr (auto_research_child_experiment s1 child)))"

definition terminalize_auto_research_child_experiment ::
  "store \<Rightarrow> string \<Rightarrow> string option \<Rightarrow> string \<Rightarrow> store \<times> child_route sres" where
  "terminalize_auto_research_child_experiment s child diagnostic now =
     settle_auto_research_child_experiment s child ChildRunning ChildTerminal diagnostic now"

text \<open>Two launches with the same intent differ at most in their state and their last change.\<close>

definition same_child_experiment_intent :: "child_route \<Rightarrow> child_route \<Rightarrow> bool" where
  "same_child_experiment_intent q r \<longleftrightarrow> py_eq (VDict (cr_request q)) (VDict (cr_request r))
     \<and> q\<lparr>cr_request := [], cr_state := ChildPending, cr_updated_at := []\<rparr>
       = r\<lparr>cr_request := [], cr_state := ChildPending, cr_updated_at := []\<rparr>"

definition activate_auto_research_child_experiment ::
  "store_env \<Rightarrow> store \<Rightarrow> child_route \<Rightarrow> string option \<Rightarrow> store sres" where
  "activate_auto_research_child_experiment E s r admission =
     sbind (validate_auto_research_experiment_route s r) (\<lambda>_.
     sbind (case dget (st_routes s) (cr_child_episode_id r) of
         None \<Rightarrow> sbind (sguard (cr_state r = ChildRunning) StoreValueError) (\<lambda>_. insert_route s r)
       | Some q \<Rightarrow>
           if cr_state q \<noteq> ChildPending \<or> \<not> same_child_experiment_intent q r then Inl StoreValueError
           else (case cr_replaces_episode_id q of
               None \<Rightarrow> Inl StoreAssertionError
             | Some predecessor \<Rightarrow>
                 sbind (insert_lifecycle_notice E
                   (on_route (cr_child_episode_id r) (\<lambda>q. q\<lparr>cr_state := ChildRunning, cr_updated_at := cr_updated_at r\<rparr>) s)
                   (new_notice E (cr_parent_episode_id r) ''experiment_replacement'' (cr_child_episode_id r) ''advanced''
                     [(''episode_id'', VStr (cr_child_episode_id r)), (''status'', VStr ''running''),
                      (''replaces_episode_id'', VStr predecessor)] (cr_updated_at r))) (\<lambda>p. Inr (fst p)))) (\<lambda>s1.
     reflect_auto_research_child_admission s1 admission (cr_parent_episode_id r) ExperimentChild
       (cr_child_episode_id r) (cr_updated_at r)))"

text \<open>
  Settling a replacement that never ran. At most one notice of a replacement exists, so the
  first row found is the prior outcome.
\<close>

definition settle_auto_research_experiment_replacement ::
  "store_env \<Rightarrow> store \<Rightarrow> string \<Rightarrow> string \<Rightarrow> string \<Rightarrow> string \<Rightarrow> store \<times> child_route sres" where
  "settle_auto_research_experiment_replacement E s child event diagnostic now =
    (let detail = restore_detail diagnostic in
     if detail = [] then (s, Inl StoreValueError)
     else transact s
       (case dget (st_routes s) child of
          None \<Rightarrow> Inl StoreKeyError
        | Some r \<Rightarrow>
            sbind (if cr_state r = ChildPending then Inr (on_route child (settled_route ChildCancelled (Some detail) now) s)
              else if cr_state r \<noteq> ChildCancelled \<or> cr_terminal_diagnostic r \<noteq> Some detail then Inl StoreValueError
              else Inr s) (\<lambda>s1.
            sbind (case find (\<lambda>n. ln_episode_id n = cr_parent_episode_id r
                \<and> ln_source_kind n = ''experiment_replacement'' \<and> ln_source_id n = child) (st_notices s1) of
                Some n \<Rightarrow> sguard (ln_source_event n = event) StoreValueError | None \<Rightarrow> Inr ()) (\<lambda>_.
            sbind (insert_lifecycle_notice E s1 (new_notice E (cr_parent_episode_id r) ''experiment_replacement'' child event
              ([(''episode_id'', VStr child), (''status'', VStr event), (''diagnostic'', VStr detail)]
                @ (case cr_replaces_episode_id r of Some p \<Rightarrow> [(''replaces_episode_id'', VStr p)] | None \<Rightarrow> [])) now)) (\<lambda>p.
            sbind (reread (Inr (auto_research_child_experiment (fst p) child))) (\<lambda>q. Inr (fst p, q))))))
       (\<lambda>_ q. Inr q))"

definition cancel_auto_research_experiment_replacement ::
  "store_env \<Rightarrow> store \<Rightarrow> string \<Rightarrow> string \<Rightarrow> string \<Rightarrow> store \<times> child_route sres" where
  "cancel_auto_research_experiment_replacement E s child diagnostic now =
     settle_auto_research_experiment_replacement E s child ''cancelled'' diagnostic now"

definition fail_auto_research_experiment_replacement ::
  "store_env \<Rightarrow> store \<Rightarrow> string \<Rightarrow> string \<Rightarrow> string \<Rightarrow> store \<times> child_route sres" where
  "fail_auto_research_experiment_replacement E s child diagnostic now =
     settle_auto_research_experiment_replacement E s child ''failed'' diagnostic now"

section \<open>The allowance of Experiment invocations\<close>

record experiment_allowance =
  al_total :: int
  al_used :: int
  al_remaining :: int

definition spent :: "store \<Rightarrow> string \<Rightarrow> spend_row list" where
  "spent s i = filter (\<lambda>r. sp_parent_episode_id r = i) (dvalues (st_spend s))"

definition auto_research_experiment_allowance :: "store \<Rightarrow> string \<Rightarrow> experiment_allowance sres" where
  "auto_research_experiment_allowance s i = (case dget (st_episodes s) i of
       Some e \<Rightarrow>
         if dhas i (st_auto_research s) \<and> ep_mode e = AutoResearchMode
         then (let total = ep_invocation_ceiling e * 5; used = int (length (spent s i)) in
           if 5 \<le> total \<and> used \<le> total
           then Inr \<lparr>al_total = total, al_used = used, al_remaining = total - used\<rparr> else Inl StoreValidationError)
         else Inl StoreKeyError
     | None \<Rightarrow> Inl StoreKeyError)"

definition claim_auto_research_experiment_allowance ::
  "store \<Rightarrow> string \<Rightarrow> string \<Rightarrow> string \<Rightarrow> string \<Rightarrow> (store \<times> experiment_allowance) sres" where
  "claim_auto_research_experiment_allowance s parent child op now = (case dget (st_spend s) op of
       Some r \<Rightarrow>
         if sp_parent_episode_id r \<noteq> parent \<or> sp_child_episode_id r \<noteq> child then Inl StoreValueError
         else sbind (auto_research_experiment_allowance s parent) (\<lambda>a. Inr (s, a))
     | None \<Rightarrow>
         sbind (load_auto_research_episode s parent) (\<lambda>e.
         sbind (validate_auto_research_parent_admission e) (\<lambda>_.
         sbind (sguard (case dget (st_routes s) child of
             Some r \<Rightarrow> cr_parent_episode_id r = parent \<and> cr_state r = ChildRunning | None \<Rightarrow> False) StoreValueError) (\<lambda>_.
         sbind (auto_research_experiment_allowance s parent) (\<lambda>a.
         if al_remaining a = 0 then Inl AutoResearchExperimentAllowanceReached
         else Inr (s\<lparr>st_spend := dset op \<lparr>sp_operation_id = op, sp_parent_episode_id = parent,
             sp_child_episode_id = child, sp_created_at = now\<rparr> (st_spend s)\<rparr>,
           a\<lparr>al_used := al_used a + 1, al_remaining := al_remaining a - 1\<rparr>))))))"

section \<open>Detaching restored children\<close>

definition detach_auto_research_children_for_restore ::
  "store_env \<Rightarrow> store \<Rightarrow> string \<Rightarrow> string \<Rightarrow> string \<Rightarrow> store sres" where
  "detach_auto_research_children_for_restore E s diagnostic confirmed_by now =
    (let detail = restore_detail diagnostic; confirmer = take 500 (spaced (py_words [] confirmed_by)) in
     if detail = [] \<or> confirmer = [] \<or> \<not> se_timestamp E now then Inl StoreValueError
     else Inr (on_notices unread (acknowledged now confirmer) (s\<lparr>
       st_routes := map (\<lambda>kv. if cr_state (snd kv) \<in> {ChildPending, ChildRunning}
         then (fst kv, settled_route ChildCancelled (Some detail) now (snd kv)) else kv) (st_routes s),
       st_admissions := map (\<lambda>kv. (fst kv, settled_admission AdmissionCancelled now (snd kv))) (st_admissions s)\<rparr>)))"

end
