(* ===== verification/Finish.thy ===== *)
theory Finish
  imports Children
begin

text \<open>
  The guarded Finish of an Auto-research episode: every open obligation is listed as a blocker,
  in the order the queries return them; with none left the episode is fenced as completed and
  its watchers are retired. Each decision is kept as the receipt of its command.
\<close>

section \<open>Blockers\<close>

record finish_blocker =
  fb_kind :: string
  fb_blocker_id :: string
  fb_state :: string
  fb_action :: string

definition task_status_name :: "task_status \<Rightarrow> string" where
  "task_status_name x = (case x of TQueued \<Rightarrow> ''queued'' | TRunning \<Rightarrow> ''running'' | TPausing \<Rightarrow> ''pausing''
     | TPaused \<Rightarrow> ''paused'' | TSucceeded \<Rightarrow> ''succeeded'' | TFailed \<Rightarrow> ''failed'' | TInterrupted \<Rightarrow> ''interrupted'')"

definition notice_state_name :: "notice_state \<Rightarrow> string" where
  "notice_state_name x = (case x of NoticePending \<Rightarrow> ''pending'' | NoticeDelivered \<Rightarrow> ''delivered''
     | NoticeAcknowledged \<Rightarrow> ''acknowledged'')"

definition ACTIVE_AGENT_TASK_STATUSES :: "task_status list" where
  "ACTIVE_AGENT_TASK_STATUSES = [TQueued, TRunning, TPausing]"

definition active_workers :: "store \<Rightarrow> string \<Rightarrow> (child_work \<times> agent_task) list" where
  "active_workers s i = List.map_filter (\<lambda>w. case dget (st_tasks s) (cw_current_operation_id w) of
       Some t \<Rightarrow> if tk_status t \<in> set ACTIVE_AGENT_TASK_STATUSES then Some (w, t) else None | None \<Rightarrow> None)
     (sort_key cw_created_at (sort_key cw_worker_id
       (filter (\<lambda>w. cw_episode_id w = i) (dvalues (st_child_work s)))))"

definition live_children :: "store \<Rightarrow> string \<Rightarrow> (child_route \<times> episode_record) list" where
  "live_children s i = List.map_filter (\<lambda>r. case dget (st_episodes s) (cr_child_episode_id r) of
       Some e \<Rightarrow> if cr_state r = ChildRunning \<and> is_live e then Some (r, e) else None | None \<Rightarrow> None)
     (auto_research_child_experiments s i)"

definition pending_children :: "store \<Rightarrow> string \<Rightarrow> child_route list" where
  "pending_children s i = filter (\<lambda>r. cr_state r = ChildPending) (auto_research_child_experiments s i)"

definition stop_child_action :: "string \<Rightarrow> string" where
  "stop_child_action i = ''episode --key <key> --stop '' @ i"

definition auto_research_finish_blockers :: "store \<Rightarrow> string \<Rightarrow> finish_blocker list sres" where
  "auto_research_finish_blockers s i = sbind (load_auto_research_episode s i) (\<lambda>_. Inr (
     map (\<lambda>(w, t). \<lparr>fb_kind = ''spawned_work'', fb_blocker_id = cw_worker_id w,
         fb_state = task_status_name (tk_status t), fb_action = ''stop --key <key> '' @ cw_worker_id w\<rparr>)
       (active_workers s i)
     @ map (\<lambda>(r, e). \<lparr>fb_kind = ''experiment_episode'', fb_blocker_id = cr_child_episode_id r,
         fb_state = status_name (ep_status e),
         fb_action = (if ep_status e = EWrappingUp then ''wait for report settlement''
           else stop_child_action (cr_child_episode_id r))\<rparr>) (live_children s i)
     @ map (\<lambda>r. \<lparr>fb_kind = ''experiment_replacement'', fb_blocker_id = cr_child_episode_id r,
         fb_state = ''pending'', fb_action = stop_child_action (cr_child_episode_id r)\<rparr>) (pending_children s i)
     @ map (\<lambda>n. \<lparr>fb_kind = ''lifecycle_notice'', fb_blocker_id = ln_notice_id n,
         fb_state = notice_state_name (ln_state n),
         fb_action = ''inbox --key <key> --harvest or inbox --key <key> --clear''\<rparr>) (pending_rows s i)
     @ map (\<lambda>a. \<lparr>fb_kind = ''child_admission'', fb_blocker_id = ca_admission_id a, fb_state = ''accepted'',
         fb_action = ''wait for child admission reconciliation''\<rparr>)
       (pending_auto_research_child_admissions s (Some i))))"

section \<open>Retiring watchers\<close>

definition retired_watcher :: "string \<Rightarrow> string \<Rightarrow> watcher_origin \<Rightarrow> watcher_origin" where
  "retired_watcher reason stopped_at w = w\<lparr>wo_status := WatcherStopped, wo_notified := True, wo_next_check_at := None,
     wo_stopped_by := coalesce (wo_stopped_by w) ''loop'', wo_stop_reason := coalesce (wo_stop_reason w) reason,
     wo_stopped_at := coalesce (wo_stopped_at w) stopped_at\<rparr>"

definition settle_auto_research_watchers :: "store \<Rightarrow> string \<Rightarrow> string \<Rightarrow> store sres" where
  "settle_auto_research_watchers s i now =
     sbind (load_auto_research_episode s i) (\<lambda>e.
     sbind (sguard (ep_stop_requested_at e \<noteq> None \<or> ep_ending e \<noteq> None) EpisodeNotRunning) (\<lambda>_.
     let stopped_at = (if filled (ep_stop_requested_at e) then or_empty (ep_stop_requested_at e)
           else if ep_updated_at e \<noteq> [] then ep_updated_at e else now);
         reason = (if ep_stop_requested_at e \<noteq> None then ''Auto-research episode stopped.''
           else ''Auto-research episode ended ('' @ ending_name (the (ep_ending e)) @ '').'') in
     Inr (s\<lparr>st_watchers := map (\<lambda>w. if wo_episode_id w = Some i \<and> wo_origin_task_kind w = AutoResearchTask
         \<and> wo_status w \<in> {WatcherActive, WatcherDegraded, WatcherCompleted}
       then retired_watcher reason stopped_at w else w) (st_watchers s)\<rparr>)))"

definition settle_auto_research_watchers_now :: "store \<Rightarrow> string \<Rightarrow> string \<Rightarrow> store \<times> unit sres" where
  "settle_auto_research_watchers_now s i now = transact s
     (sbind (settle_auto_research_watchers s i now) (\<lambda>s1. Inr (s1, ()))) (\<lambda>_ _. Inr ())"

definition request_auto_research_stop_and_settle_watchers ::
  "store \<Rightarrow> string \<Rightarrow> string \<Rightarrow> store \<times> episode_record sres" where
  "request_auto_research_stop_and_settle_watchers s i now = transact s
     (sbind (request_episode_stop_in_connection s i now) (\<lambda>s1.
      sbind (load_episode s1 i) (\<lambda>e.
      sbind (settle_auto_research_watchers s1 i now) (\<lambda>s2. Inr (s2, e)))))
     (\<lambda>_ e. Inr e)"

definition fence_auto_research_ending_and_settle_watchers ::
  "store \<Rightarrow> string \<Rightarrow> episode_ending \<Rightarrow> string option \<Rightarrow> string \<Rightarrow> store \<times> episode_record sres" where
  "fence_auto_research_ending_and_settle_watchers s i ending diagnostic now = transact s
     (sbind (fence_episode_ending_in_connection s i ending diagnostic now) (\<lambda>s1.
      sbind (load_episode s1 i) (\<lambda>e.
      sbind (settle_auto_research_watchers s1 i now) (\<lambda>s2. Inr (s2, e)))))
     (\<lambda>_ e. Inr e)"

section \<open>The decision\<close>

definition blocker_doc :: "finish_blocker \<Rightarrow> pyval" where
  "blocker_doc b = VDict [(''kind'', VStr (fb_kind b)), (''blocker_id'', VStr (fb_blocker_id b)),
     (''state'', VStr (fb_state b)), (''action'', VStr (fb_action b))]"

definition blocked_result :: "string \<Rightarrow> finish_blocker list \<Rightarrow> doc" where
  "blocked_result i bs = [(''episode_id'', VStr i), (''blockers'', VList (map blocker_doc bs))]"

definition completed_result :: "episode_record \<Rightarrow> doc" where
  "completed_result e = [(''episode_id'', VStr (ep_episode_id e)), (''status'', VStr (status_name (ep_status e))),
     (''ending'', case ep_ending e of Some x \<Rightarrow> VStr (ending_name x) | None \<Rightarrow> VNone)]"

text \<open>
  The digest of a result and the validator of a receipt. Blockers are parsed by their field
  types only; a digest of \<open>hashlib\<close> has the length the column asks for.
\<close>

definition finish_digest :: "store_env \<Rightarrow> doc \<Rightarrow> string sres" where
  "finish_digest E d = (case json_text (se_str E) False None (json_sorted (VDict d)) of
       Some t \<Rightarrow> Inr (se_sha256 E t) | None \<Rightarrow> Inl StoreTypeError)"

definition is_blocker_doc :: "pyval \<Rightarrow> bool" where
  "is_blocker_doc v = (case v of
       VDict d \<Rightarrow> set (map fst d) = {''kind'', ''blocker_id'', ''state'', ''action''}
         \<and> (\<forall>kv \<in> set d. is_text (snd kv))
         \<and> dget d ''kind'' \<in> Some ` VStr ` {''spawned_work'', ''experiment_episode'', ''experiment_replacement'',
             ''lifecycle_notice'', ''child_admission''}
     | _ \<Rightarrow> False)"

definition finish_result_ok :: "finish_receipt \<Rightarrow> bool" where
  "finish_result_ok r \<longleftrightarrow> fr_actor_operation_id r \<noteq> [] \<and> dget (fr_result r) ''episode_id'' = Some (VStr (fr_episode_id r))
     \<and> (case fr_disposition r of
          Blocked \<Rightarrow> set (map fst (fr_result r)) = {''episode_id'', ''blockers''}
            \<and> (case dget (fr_result r) ''blockers'' of
                 Some (VList bs) \<Rightarrow> list_all is_blocker_doc bs \<and> fr_blocker_count r \<noteq> 0 \<and> length bs = fr_blocker_count r
               | _ \<Rightarrow> False)
        | Completed \<Rightarrow> set (map fst (fr_result r)) = {''episode_id'', ''status'', ''ending''}
            \<and> fr_blocker_count r = 0 \<and> dget (fr_result r) ''ending'' = Some (VStr ''completed''))"

definition finish_receipt_row :: "store_env \<Rightarrow> finish_receipt \<Rightarrow> finish_receipt sres" where
  "finish_receipt_row E r = (if finish_digest E (fr_result r) = Inr (fr_result_sha256 r) \<and> finish_result_ok r
     then Inr r else Inl StoreValidationError)"

definition auto_research_finish_receipt :: "store_env \<Rightarrow> store \<Rightarrow> string \<Rightarrow> finish_receipt option sres" where
  "auto_research_finish_receipt E s effect = (case dget (st_finish_receipts s) effect of
       None \<Rightarrow> Inr None | Some r \<Rightarrow> sbind (finish_receipt_row E r) (\<lambda>r. Inr (Some r)))"

definition keep_finish_receipt ::
  "store_env \<Rightarrow> store \<Rightarrow> string \<Rightarrow> string \<Rightarrow> string \<Rightarrow> string \<Rightarrow> finish_disposition \<times> nat \<times> doc \<Rightarrow> (store \<times> finish_receipt) sres" where
  "keep_finish_receipt E s effect i actor now decision =
     sbind (finish_digest E (snd (snd decision))) (\<lambda>digest.
     sbind (finish_receipt_row E \<lparr>fr_effect_id = effect, fr_episode_id = i, fr_actor_operation_id = actor,
         fr_disposition = fst decision, fr_blocker_count = fst (snd decision), fr_result = snd (snd decision),
         fr_result_sha256 = digest, fr_created_at = now\<rparr>) (\<lambda>r.
     Inr (s\<lparr>st_finish_receipts := dset effect r (st_finish_receipts s)\<rparr>, r)))"

definition fenced_complete :: "string option \<Rightarrow> string \<Rightarrow> episode_record \<Rightarrow> episode_record" where
  "fenced_complete diagnostic now e = e\<lparr>ep_status := EWrappingUp, ep_ending := Some EndCompleted,
     ep_ending_diagnostic := diagnostic, ep_updated_at := now\<rparr>"

definition decide_finish ::
  "store \<Rightarrow> string \<Rightarrow> string option \<Rightarrow> string \<Rightarrow> (store \<times> finish_disposition \<times> nat \<times> doc) sres" where
  "decide_finish s i diagnostic now =
     sbind (load_auto_research_episode s i) (\<lambda>e.
     if ep_ending e \<noteq> None
     then if ep_ending e \<noteq> Some EndCompleted \<or> ep_ending_diagnostic e \<noteq> diagnostic then Inl EpisodeReportConflict
       else sbind (settle_auto_research_watchers s i now) (\<lambda>s1. Inr (s1, Completed, 0, completed_result e))
     else if ep_stop_requested_at e \<noteq> None \<or> ep_status e = EStopping then Inl EpisodeNotRunning
     else if ep_status e \<notin> {EQueued, ERunning} then Inl EpisodeNotRunning
     else sbind (auto_research_finish_blockers s i) (\<lambda>bs.
       if bs \<noteq> [] then Inr (s, Blocked, length bs, blocked_result i bs)
       else let s1 = on_episode i (fenced_complete diagnostic now) s in
         sbind (settle_auto_research_watchers s1 i now) (\<lambda>s2.
         sbind (load_episode s2 i) (\<lambda>e2. Inr (s2, Completed, 0, completed_result e2)))))"

definition guard_auto_research_finish ::
  "store_env \<Rightarrow> store \<Rightarrow> string \<Rightarrow> string \<Rightarrow> string \<Rightarrow> string option \<Rightarrow> string \<Rightarrow> store \<times> finish_receipt sres" where
  "guard_auto_research_finish E s i effect actor diagnostic now =
    (if py_strip effect = [] \<or> py_strip actor = [] then (s, Inl StoreValueError)
     else transact s
       (case dget (st_finish_receipts s) effect of
          Some row \<Rightarrow> sbind (finish_receipt_row E row) (\<lambda>r.
            if fr_episode_id r \<noteq> i \<or> fr_actor_operation_id r \<noteq> actor then Inl StoreValueError else Inr (s, r))
        | None \<Rightarrow> sbind (decide_finish s i diagnostic now) (\<lambda>d.
            keep_finish_receipt E (fst d) effect i actor now (snd d)))
       (\<lambda>_ r. Inr r))"

end
