(* ===== verification/Research.thy ===== *)
theory Research
  imports Finish
begin

text \<open>
  The turns of an Auto-research episode (\<open>storage/auto_research.py\<close>): the atomic start with its root
  task, the activation of a reserved root, paid continuations, recoveries that reuse the
  allocation of their parent, and the binding of each turn to one actor. An actor is named by its
  first task; it has one unresolved turn at a time.
\<close>

section \<open>Actors\<close>

definition role_name :: "auto_research_role \<Rightarrow> string" where
  "role_name x = (case x of OrchestratorRole \<Rightarrow> ''orchestrator'' | WorkerRole \<Rightarrow> ''worker'')"

text \<open>The tasks of an actor joined with their invocation rows, in the order of \<open>rowid\<close>.\<close>

definition actor_rows :: "store \<Rightarrow> string \<Rightarrow> string \<Rightarrow> (agent_task \<times> auto_invocation) list" where
  "actor_rows s i actor = List.map_filter (\<lambda>q. case dget (st_auto_invocations s) (tk_operation_id q) of
       Some a \<Rightarrow> if ai_episode_id a = i \<and> ai_actor_operation_id a = actor then Some (q, a) else None
     | None \<Rightarrow> None) (dvalues (st_tasks s))"

definition auto_research_actor_latest_row :: "store \<Rightarrow> string \<Rightarrow> string \<Rightarrow> agent_task option" where
  "auto_research_actor_latest_row s i actor = (case actor_rows s i actor of
       [] \<Rightarrow> None | rows \<Rightarrow> Some (fst (last rows)))"

text \<open>The next attempt of a turn by the same actor. A null episode equals no other.\<close>

definition has_successor :: "store \<Rightarrow> agent_task \<Rightarrow> auto_invocation \<Rightarrow> bool" where
  "has_successor s q a \<longleftrightarrow> (\<exists>c \<in> set (dvalues (st_tasks s)). tk_parent_operation_id c = Some (tk_operation_id q)
     \<and> tk_episode_id c \<noteq> None \<and> tk_episode_id c = tk_episode_id q \<and> tk_attempt c = tk_attempt q + 1
     \<and> (case dget (st_auto_invocations s) (tk_operation_id c) of
          Some b \<Rightarrow> ai_actor_operation_id b = ai_actor_operation_id a | None \<Rightarrow> False))"

definition abandoned :: "store \<Rightarrow> string \<Rightarrow> bool" where
  "abandoned s op \<longleftrightarrow> (op, ''auto_research_recovery_abandoned'') \<in> set (st_receipts s)"

text \<open>A turn that still runs, or waits for a recovery other than the one being made now.\<close>

definition unresolved :: "store \<Rightarrow> string option \<Rightarrow> agent_task \<times> auto_invocation \<Rightarrow> bool" where
  "unresolved s recovered r \<longleftrightarrow>
     (tk_status (fst r) \<in> {TQueued, TRunning, TPausing}
      \<or> (tk_status (fst r) \<in> {TPaused, TInterrupted, TFailed} \<and> recovered \<noteq> Some (tk_operation_id (fst r))
         \<and> \<not> abandoned s (tk_operation_id (fst r))))
     \<and> \<not> has_successor s (fst r) (snd r)"

definition requested_actor :: "doc \<Rightarrow> string option sres" where
  "requested_actor r = (case rget r ''actor_operation_id'' of
       VNone \<Rightarrow> Inr None
     | VStr x \<Rightarrow> if py_strip x = [] then Inl StoreValueError else Inr (Some (py_strip x))
     | _ \<Rightarrow> Inl StoreValueError)"

definition keeps_stage :: "agent_task \<Rightarrow> agent_task \<Rightarrow> bool" where
  "keeps_stage t q \<longleftrightarrow> or_empty (tk_stage_host t) = or_empty (tk_stage_host q) \<and> tk_stage_root t = tk_stage_root q"

definition sessionless :: "agent_task \<Rightarrow> bool" where
  "sessionless t \<longleftrightarrow> tk_native_session_id t = None \<and> rget (tk_request t) ''session_id'' = VNone"

text \<open>
  A turn of an existing actor stays in that actor's lineage, control seat, session and stage. Only
  the clean retry of an orchestrator may drop the session.
\<close>

definition continued_seat ::
  "store \<Rightarrow> string \<Rightarrow> agent_task \<Rightarrow> auto_research_role \<Rightarrow> bool \<Rightarrow> auto_invocation \<Rightarrow> string \<Rightarrow> (string \<times> pyval) sres" where
  "continued_seat s i t role recovering parent actor = (case dget (st_auto_invocations s) actor of
       None \<Rightarrow> Inl StoreValueError
     | Some b \<Rightarrow>
         if ai_episode_id b \<noteq> i then Inl StoreValueError
         else if ai_role b \<noteq> role \<or> ai_role parent \<noteq> role \<or> ai_actor_operation_id parent \<noteq> actor
         then Inl StoreValueError
         else if \<not> py_eq (rget (tk_request t) ''control_node_id'') (vopt_str (ai_control_node_id b))
         then Inl StoreValueError
         else sbind (case auto_research_actor_latest_row s i actor of
             None \<Rightarrow> Inr ()
           | Some l \<Rightarrow>
               (let clean_retry = recovering \<and> role = OrchestratorRole \<and> sessionless t \<and> keeps_stage t l in
                sguard (\<not> ((tk_native_session_id l \<noteq> None \<or> tk_stage_root l \<noteq> None) \<and> \<not> clean_retry
                  \<and> (tk_native_session_id t \<noteq> tk_native_session_id l \<or> \<not> keeps_stage t l))) StoreValueError)) (\<lambda>_.
           Inr (actor, vopt_str (ai_control_node_id b))))"

definition actor_seat ::
  "store \<Rightarrow> episode_record \<Rightarrow> agent_task \<Rightarrow> auto_research_role \<Rightarrow> bool \<Rightarrow> string option \<Rightarrow> (string \<times> pyval) sres" where
  "actor_seat s e t role recovering asked = (case tk_parent_operation_id t of
       None \<Rightarrow>
         if ep_root_operation_id e = Some (tk_operation_id t)
         then (if role \<noteq> OrchestratorRole \<or> asked \<notin> {None, Some (tk_operation_id t)} then Inl StoreValueError
               else Inr (tk_operation_id t, VNone))
         else Inl StoreValueError
     | Some p \<Rightarrow> (case auto_row s p (ep_episode_id e) of
         None \<Rightarrow> Inl StoreValueError
       | Some (_, a) \<Rightarrow>
           (let chosen = (case asked of
                Some x \<Rightarrow> Some x
              | None \<Rightarrow> if role = OrchestratorRole then ep_root_operation_id e
                  else if ai_role a = role then Some (ai_actor_operation_id a) else Some (tk_operation_id t)) in
            case chosen of
              None \<Rightarrow> Inl StoreValueError
            | Some actor \<Rightarrow>
                if actor = tk_operation_id t
                then (if role \<noteq> WorkerRole \<or> ai_role a \<noteq> OrchestratorRole then Inl StoreValueError
                      else if rget (tk_request t) ''wake_cause'' \<noteq> VNone then Inl StoreValueError
                      else Inr (actor, rget (tk_request t) ''control_node_id''))
                else continued_seat s (ep_episode_id e) t role recovering a actor)))"

definition seat_ok :: "episode_record \<Rightarrow> agent_task \<Rightarrow> auto_research_role \<Rightarrow> string \<times> pyval \<Rightarrow> bool" where
  "seat_ok e t role seat \<longleftrightarrow>
     (if role = OrchestratorRole
      then ep_root_operation_id e = Some (fst seat) \<and> rget (tk_request t) ''control_node_id'' = VNone
      else case snd seat of VStr n \<Rightarrow> n \<noteq> [] | _ \<Rightarrow> False)"

text \<open>The task with its actor filled in, the actor and its control seat.\<close>

definition bind_auto_research_actor ::
  "store \<Rightarrow> episode_record \<Rightarrow> agent_task \<Rightarrow> auto_research_role \<Rightarrow> bool \<Rightarrow> (agent_task \<times> string \<times> string option) sres" where
  "bind_auto_research_actor s e t role recovering =
     sbind (sguard (has_text (tk_request t) ''episode_id'' (ep_episode_id e)) StoreValueError) (\<lambda>_.
     sbind (sguard (has_text (tk_request t) ''role'' (role_name role)) StoreValueError) (\<lambda>_.
     sbind (requested_actor (tk_request t)) (\<lambda>asked.
     sbind (actor_seat s e t role recovering asked) (\<lambda>seat.
     sbind (sguard (seat_ok e t role seat) StoreValueError) (\<lambda>_.
     case filter (unresolved s (if recovering then Some (or_empty (tk_parent_operation_id t)) else None))
         (actor_rows s (ep_episode_id e) (fst seat)) of
       [] \<Rightarrow> Inr (t\<lparr>tk_request := dset ''actor_operation_id'' (VStr (fst seat)) (tk_request t)\<rparr>, fst seat,
         case snd seat of VStr n \<Rightarrow> Some n | _ \<Rightarrow> None)
     | rows \<Rightarrow> Inl (AutoResearchActorBusy (fst seat) (tk_operation_id (fst (last rows)))))))))"

definition insert_auto_research_invocation :: "store \<Rightarrow> auto_invocation \<Rightarrow> store sres" where
  "insert_auto_research_invocation s a =
     (if dhas (ai_operation_id a) (st_auto_invocations s) then Inl StoreIntegrityError
      else Inr (s\<lparr>st_auto_invocations := dset (ai_operation_id a) a (st_auto_invocations s)\<rparr>))"

definition turn_row ::
  "string \<Rightarrow> agent_task \<Rightarrow> string \<Rightarrow> auto_research_role \<Rightarrow> string \<Rightarrow> string option \<Rightarrow> auto_invocation" where
  "turn_row i t allocation role actor seat = \<lparr>ai_episode_id = i, ai_operation_id = tk_operation_id t,
     ai_allocation_operation_id = allocation, ai_role = role, ai_actor_operation_id = actor,
     ai_control_node_id = seat, ai_handoffs_cleared_at = None, ai_created_at = tk_created_at t\<rparr>"

definition paid_row :: "string \<Rightarrow> agent_task \<Rightarrow> int \<Rightarrow> invocation_record" where
  "paid_row i t n = \<lparr>iv_episode_id = i, iv_operation_id = tk_operation_id t, iv_invocation_number = n,
     iv_created_at = tk_created_at t\<rparr>"

text \<open>\<open>except sqlite3.IntegrityError as exc: raise ValueError(...) from exc\<close>.\<close>

definition integrity_refused :: "'a sres \<Rightarrow> 'a sres" where
  "integrity_refused m = (case m of
       Inl e \<Rightarrow> Inl (if e = StoreIntegrityError then StoreValueError else e) | Inr x \<Rightarrow> Inr x)"

section \<open>Starting an episode\<close>

definition research_root_shape :: "episode_record \<Rightarrow> auto_research_state \<Rightarrow> agent_task \<Rightarrow> bool" where
  "research_root_shape e st t \<longleftrightarrow> ep_mode e = AutoResearchMode \<and> ep_control_node_id e = None
     \<and> as_episode_id st = ep_episode_id e
     \<and> tk_episode_id t = Some (ep_episode_id e) \<and> tk_project_id t = ep_project_id e
     \<and> tk_kind t = AutoResearchTask \<and> tk_parent_operation_id t = None
     \<and> tk_status t = TQueued \<and> tk_visible t \<and> tk_authorized_by t = ep_authorized_by e
     \<and> ep_root_operation_id e \<in> {None, Some (tk_operation_id t)}"

definition rooted_episode :: "episode_record \<Rightarrow> agent_task \<Rightarrow> bool \<Rightarrow> episode_record" where
  "rooted_episode e t active = e\<lparr>ep_root_operation_id := Some (tk_operation_id t),
     ep_status := (if active then ERunning else EQueued)\<rparr>"

definition insert_auto_research_state :: "store \<Rightarrow> auto_research_state \<Rightarrow> store sres" where
  "insert_auto_research_state s st =
     (if dhas (as_episode_id st) (st_auto_research s) then Inl StoreIntegrityError
      else Inr (s\<lparr>st_auto_research := dset (as_episode_id st) st (st_auto_research s)\<rparr>))"

definition start_research ::
  "store_env \<Rightarrow> store \<Rightarrow> episode_record \<Rightarrow> auto_research_state \<Rightarrow> agent_task \<Rightarrow> store sres" where
  "start_research E s e st t =
     sbind (require_project_accepts_new_work s (ep_project_id e)) (\<lambda>_.
     sbind (insert_episode s e) (\<lambda>s1.
     sbind (insert_auto_research_state s1 st) (\<lambda>s2.
     sbind (bind_auto_research_actor s2 e t OrchestratorRole False) (\<lambda>(u, actor, seat).
     sbind (insert_agent_task E s2 u ''fresh'') (\<lambda>s3.
     sbind (insert_invocation s3 (paid_row (ep_episode_id e) t 1)) (\<lambda>s4.
     sbind (insert_auto_research_invocation s4
       (turn_row (ep_episode_id e) t (tk_operation_id t) OrchestratorRole actor seat)) (\<lambda>s5.
     Inr (on_episode (ep_episode_id e) (\<lambda>e. if ep_invocations_used e = 0
       then e\<lparr>ep_invocations_used := 1, ep_updated_at := tk_created_at t\<rparr> else e) s5))))))))"

definition create_auto_research_episode_with_root_task ::
  "store_env \<Rightarrow> store \<Rightarrow> episode_record \<Rightarrow> auto_research_state \<Rightarrow> agent_task \<Rightarrow> bool
     \<Rightarrow> store \<times> (episode_record \<times> agent_task) sres" where
  "create_auto_research_episode_with_root_task E s e st t active = transact s
     (sbind (validate_new_episode e) (\<lambda>_.
      if \<not> research_root_shape e st t then Inl StoreValueError
      else sbind (integrity_refused (start_research E s (rooted_episode e t active) st t)) (\<lambda>s1. Inr (s1, ()))))
     (\<lambda>s1 _. sbind (reread (episode s1 (ep_episode_id e))) (\<lambda>r.
        sbind (reread_task s1 (tk_operation_id t)) (\<lambda>u. Inr (r, u))))"

definition reservation_bound :: "episode_record \<Rightarrow> agent_task \<Rightarrow> string \<Rightarrow> string \<Rightarrow> bool" where
  "reservation_bound e t i op \<longleftrightarrow> ep_mode e = AutoResearchMode \<and> ep_root_operation_id e = Some op
     \<and> tk_episode_id t = Some i \<and> tk_kind t = AutoResearchTask \<and> tk_parent_operation_id t = None
     \<and> tk_status t = TQueued"

definition activate_auto_research_reservation ::
  "store \<Rightarrow> string \<Rightarrow> string \<Rightarrow> string \<Rightarrow> store \<times> episode_record sres" where
  "activate_auto_research_reservation s i op now = transact s
     (case (dget (st_episodes s) i, dget (st_tasks s) op) of
        (Some row, Some t) \<Rightarrow> sbind (episode_row row) (\<lambda>e.
          if \<not> reservation_bound e t i op then Inl StoreValueError
          else if ep_status e = ERunning then Inr (s, ())
          else if ep_status e \<noteq> EQueued \<or> ep_ending e \<noteq> None then Inl StoreValueError
          else Inr (on_episode i (\<lambda>e. e\<lparr>ep_status := ERunning, ep_updated_at := now\<rparr>) s, ()))
      | _ \<Rightarrow> Inl StoreKeyError)
     (\<lambda>s1 _. reread (episode s1 i))"

definition auto_research_state_of :: "store \<Rightarrow> string \<Rightarrow> auto_research_state option" where
  "auto_research_state_of s i = dget (st_auto_research s) i"

section \<open>Paid turns\<close>

definition open_for_spending :: "int \<Rightarrow> episode_record \<Rightarrow> bool" where
  "open_for_spending n e \<longleftrightarrow> ep_invocations_used e = n \<and> ep_status e = ERunning \<and> ep_ending e = None
     \<and> ep_stop_requested_at e = None"

definition insert_paid_auto_research_task ::
  "store_env \<Rightarrow> store \<Rightarrow> episode_record \<Rightarrow> agent_task \<Rightarrow> auto_research_role \<Rightarrow> string \<Rightarrow> store sres" where
  "insert_paid_auto_research_task E s e t role cause =
    (if ep_status e \<noteq> ERunning \<or> ep_ending e \<noteq> None then Inl EpisodeNotRunning
     else if ep_stop_requested_at e \<noteq> None then Inl EpisodeNotRunning
     else if ep_invocations_used e \<ge> ep_invocation_ceiling e then Inl EpisodeInvocationCeilingReached
     else if tk_episode_id t \<noteq> Some (ep_episode_id e) \<or> tk_project_id t \<noteq> ep_project_id e then Inl StoreValueError
     else if tk_kind t \<noteq> AutoResearchTask then Inl StoreValueError
     else if tk_authorized_by t \<noteq> ep_authorized_by e then Inl StoreValueError
     else sbind (bind_auto_research_actor s e t role False) (\<lambda>(u, actor, seat).
       sbind (insert_agent_task E s u cause) (\<lambda>s1.
       sbind (insert_invocation s1 (paid_row (ep_episode_id e) t (ep_invocations_used e + 1))) (\<lambda>s2.
       sbind (insert_auto_research_invocation s2
         (turn_row (ep_episode_id e) t (tk_operation_id t) role actor seat)) (\<lambda>s3.
       case dget (st_episodes s3) (ep_episode_id e) of
         None \<Rightarrow> Inl StoreValueError
       | Some r \<Rightarrow>
           if open_for_spending (ep_invocations_used e) r
           then Inr (on_episode (ep_episode_id e) (\<lambda>e. e\<lparr>ep_invocations_used := ep_invocations_used e + 1,
             ep_updated_at := tk_created_at t\<rparr>) s3)
           else Inl StoreValueError)))))"

definition create_auto_research_agent_task ::
  "store_env \<Rightarrow> store \<Rightarrow> agent_task \<Rightarrow> auto_research_role \<Rightarrow> string \<Rightarrow> store \<times> agent_task sres" where
  "create_auto_research_agent_task E s t role cause = transact s
     (case tk_episode_id t of
        None \<Rightarrow> Inl StoreValueError
      | Some i \<Rightarrow> integrity_refused (sbind (load_auto_research_episode s i) (\<lambda>e.
          sbind (insert_paid_auto_research_task E s e t role cause) (\<lambda>s1. Inr (s1, ())))))
     (\<lambda>s1 _. reread_task s1 (tk_operation_id t))"

section \<open>Recoveries\<close>

text \<open>What a recovery \<open>t\<close> of the parent \<open>q\<close> must keep.\<close>

definition recovers_session :: "episode_record \<Rightarrow> agent_task \<Rightarrow> agent_task \<Rightarrow> auto_invocation \<Rightarrow> bool" where
  "recovers_session e t q a \<longleftrightarrow>
     (if ai_role a = OrchestratorRole \<and> sessionless t \<and> Some (ai_actor_operation_id a) = ep_root_operation_id e
      then keeps_stage t q
      else filled (tk_native_session_id q) \<and> filled (tk_stage_root q)
        \<and> tk_native_session_id t = tk_native_session_id q \<and> keeps_stage t q
        \<and> py_eq (rget (tk_request t) ''session_id'') (vopt_str (tk_native_session_id q)))"

definition recovery_child :: "store \<Rightarrow> agent_task \<Rightarrow> bool" where
  "recovery_child s t \<longleftrightarrow> (\<exists>c \<in> set (dvalues (st_tasks s)). tk_parent_operation_id c = tk_parent_operation_id t
     \<and> tk_episode_id c = tk_episode_id t \<and> tk_attempt c = tk_attempt t
     \<and> dhas (tk_operation_id c) (st_auto_invocations s))"

definition recovery_open :: "store \<Rightarrow> episode_record \<Rightarrow> agent_task \<Rightarrow> agent_task \<Rightarrow> string \<Rightarrow> unit sres" where
  "recovery_open s e t q p =
     sbind (sguard (tk_status q \<in> {TPaused, TInterrupted, TFailed}) StoreValueError) (\<lambda>_.
     sbind (sguard (tk_project_id t = tk_project_id q \<and> tk_kind t = tk_kind q) StoreValueError) (\<lambda>_.
     sbind (sguard (tk_attempt t = tk_attempt q + 1) StoreValueError) (\<lambda>_.
     sbind (sguard (tk_authorized_by t = ep_authorized_by e) StoreValueError) (\<lambda>_.
     sbind (sguard (\<not> (ep_status e = EStopping \<and> tk_status q \<noteq> TPaused)) EpisodeNotRunning) (\<lambda>_.
     sbind (sguard (ep_status e \<in> {ERunning, EStopping}) EpisodeNotRunning) (\<lambda>_.
     sbind (sguard (ep_wrapup_state e \<notin> {WRunning, WReady, WFailed, WSkipped}) EpisodeNotRunning) (\<lambda>_.
     sbind (sguard (\<not> recovery_child s t) StoreValueError) (\<lambda>_.
     sguard (\<not> abandoned s p) StoreValueError))))))))"

definition insert_recovery_task ::
  "store_env \<Rightarrow> store \<Rightarrow> agent_task \<Rightarrow> string \<Rightarrow> string \<Rightarrow> string \<Rightarrow> store sres" where
  "insert_recovery_task E s t i p cause =
     sbind (load_auto_research_episode s i) (\<lambda>e.
     case auto_row s p i of
       None \<Rightarrow> Inl StoreValueError
     | Some (q, a) \<Rightarrow>
         sbind (recovery_open s e t q p) (\<lambda>_.
         sbind (sguard (recovers_session e t q a) StoreValueError) (\<lambda>_.
         sbind (bind_auto_research_actor s e t (ai_role a) True) (\<lambda>(u, actor, seat).
         sbind (insert_agent_task E s u cause) (\<lambda>s1.
         insert_auto_research_invocation s1
           (turn_row (ep_episode_id e) t (ai_allocation_operation_id a) (ai_role a) actor seat))))))"

definition create_auto_research_recovery_task ::
  "store_env \<Rightarrow> store \<Rightarrow> agent_task \<Rightarrow> string \<Rightarrow> store \<times> agent_task sres" where
  "create_auto_research_recovery_task E s t cause = transact s
     (case (tk_episode_id t, tk_parent_operation_id t) of
        (Some i, Some p) \<Rightarrow> integrity_refused (sbind (insert_recovery_task E s t i p cause) (\<lambda>s1. Inr (s1, ())))
      | _ \<Rightarrow> Inl StoreValueError)
     (\<lambda>s1 _. reread_task s1 (tk_operation_id t))"

section \<open>Reading actors, clearing handoffs\<close>

record actor_binding =
  ab_episode_id :: string
  ab_actor_operation_id :: string
  ab_role :: auto_research_role
  ab_control_node_id :: "string option"
  ab_current_operation_id :: string
  ab_native_session_id :: "string option"
  ab_stage_host :: "string option"
  ab_stage_root :: "string option"

definition auto_research_invocation :: "store \<Rightarrow> string \<Rightarrow> auto_invocation option" where
  "auto_research_invocation s op = dget (st_auto_invocations s) op"

definition auto_research_invocation_role :: "store \<Rightarrow> string \<Rightarrow> auto_research_role option" where
  "auto_research_invocation_role s op = map_option ai_role (auto_research_invocation s op)"

definition auto_research_actor_binding :: "store \<Rightarrow> string \<Rightarrow> actor_binding sres" where
  "auto_research_actor_binding s op = (case dget (st_auto_invocations s) op of
       None \<Rightarrow> Inl StoreKeyError
     | Some a \<Rightarrow> (case auto_research_actor_latest_row s (ai_episode_id a) (ai_actor_operation_id a) of
         None \<Rightarrow> Inl StoreRuntimeError
       | Some q \<Rightarrow> Inr \<lparr>ab_episode_id = ai_episode_id a, ab_actor_operation_id = ai_actor_operation_id a,
           ab_role = ai_role a, ab_control_node_id = ai_control_node_id a, ab_current_operation_id = tk_operation_id q,
           ab_native_session_id = tk_native_session_id q, ab_stage_host = tk_stage_host q,
           ab_stage_root = tk_stage_root q\<rparr>))"

definition auto_research_tasks :: "store \<Rightarrow> string \<Rightarrow> agent_task list" where
  "auto_research_tasks s i = sort_key tk_created_at (sort_key tk_operation_id (filter
     (\<lambda>q. case dget (st_auto_invocations s) (tk_operation_id q) of Some a \<Rightarrow> ai_episode_id a = i | None \<Rightarrow> False)
     (dvalues (st_tasks s))))"

definition paid_allocation_row :: "store \<Rightarrow> string \<Rightarrow> auto_invocation sres" where
  "paid_allocation_row s op = (case (dget (st_auto_invocations s) op, dget (st_tasks s) op) of
       (Some a, Some q) \<Rightarrow>
         if ai_operation_id a \<noteq> ai_allocation_operation_id a \<or> tk_attempt q \<noteq> 1 then Inl StoreValueError else Inr a
     | _ \<Rightarrow> Inl StoreKeyError)"

definition auto_research_handoffs_cleared :: "store \<Rightarrow> string \<Rightarrow> bool sres" where
  "auto_research_handoffs_cleared s op = sbind (paid_allocation_row s op) (\<lambda>a. Inr (ai_handoffs_cleared_at a \<noteq> None))"

definition mark_auto_research_handoffs_cleared :: "store \<Rightarrow> string \<Rightarrow> string \<Rightarrow> store \<times> unit sres" where
  "mark_auto_research_handoffs_cleared s op now = transact s
     (sbind (paid_allocation_row s op) (\<lambda>_. Inr (s\<lparr>st_auto_invocations := dmodify op
        (\<lambda>a. a\<lparr>ai_handoffs_cleared_at := coalesce (ai_handoffs_cleared_at a) now\<rparr>) (st_auto_invocations s)\<rparr>, ())))
     (\<lambda>_ _. Inr ())"

end
