(* ===== verification/Mail.thy ===== *)
theory Mail
  imports Research
begin

text \<open>
  The mail of an Auto-research episode and the wakes it pays for (\<open>storage/auto_research.py\<close>): who
  may write to whom, the pending messages of a recipient in order, and the turns that spend one
  invocation and hand over an exact prefix of the pending messages and notices in one transaction.
\<close>

section \<open>Messages\<close>

definition AUTO_RESEARCH_MAIL_MAX_MESSAGES :: nat where
  "AUTO_RESEARCH_MAIL_MAX_MESSAGES = 64"

text \<open>The validator of a message, also run on the row read back; it strips the body.\<close>

definition message_row :: "auto_message \<Rightarrow> auto_message sres" where
  "message_row m =
    (if am_body m = [] \<or> 16000 < length (am_body m) \<or> py_strip (am_body m) = []
        \<or> (am_sender_role m \<noteq> HumanSender \<and> am_authorized_by m \<noteq> None)
     then Inl StoreValidationError else Inr (m\<lparr>am_body := py_strip (am_body m)\<rparr>))"

definition sender_name :: "message_role \<Rightarrow> string" where
  "sender_name x = (case x of HumanSender \<Rightarrow> ''human'' | OrchestratorSender \<Rightarrow> ''orchestrator'' | WorkerSender \<Rightarrow> ''worker'')"

definition episode_actor_row :: "store \<Rightarrow> string \<Rightarrow> string \<Rightarrow> auto_invocation option" where
  "episode_actor_row s i op = (case dget (st_auto_invocations s) op of
       Some a \<Rightarrow> if ai_episode_id a = i then Some a else None | None \<Rightarrow> None)"

definition episode_worker :: "store \<Rightarrow> string \<Rightarrow> string \<Rightarrow> child_work option" where
  "episode_worker s i w = (case dget (st_child_work s) w of
       Some c \<Rightarrow> if cw_episode_id c = i then Some c else None | None \<Rightarrow> None)"

text \<open>The worker behind an attempt of an ordinary child task.\<close>

definition attempt_worker :: "store \<Rightarrow> string \<Rightarrow> string \<Rightarrow> child_work option" where
  "attempt_worker s i op = Option.bind (dget (st_work_attempts s) op) (\<lambda>a. episode_worker s i (wa_worker_id a))"

definition human_mail_ok :: "episode_record \<Rightarrow> auto_message \<Rightarrow> unit sres" where
  "human_mail_ok e m =
     sbind (sguard (ep_status e = ERunning \<and> ep_ending e = None) EpisodeNotRunning) (\<lambda>_.
     sguard (am_sender_task_id m = None \<and> am_authorized_by m \<noteq> None
       \<and> ep_root_operation_id e = Some (am_recipient_task_id m)) StoreValueError)"

definition orchestrator_mail_ok ::
  "episode_record \<Rightarrow> auto_message \<Rightarrow> auto_invocation option \<Rightarrow> child_work option \<Rightarrow> auto_invocation \<Rightarrow> unit sres" where
  "orchestrator_mail_ok e m recipient worker sender =
     sbind (sguard (ep_status e = ERunning \<and> ep_ending e = None \<and> ep_stop_requested_at e = None) EpisodeNotRunning) (\<lambda>_.
     sbind (sguard (ep_root_operation_id e = Some (ai_actor_operation_id sender)) StoreValueError) (\<lambda>_.
     case worker of
       Some c \<Rightarrow> sguard (am_control_node_id m \<in> {None, Some (cw_control_node_id c)}) StoreValueError
     | None \<Rightarrow> sguard (case recipient of Some a \<Rightarrow> ai_role a = WorkerRole | None \<Rightarrow> False) StoreValueError))"

definition agent_mail_ok ::
  "store \<Rightarrow> episode_record \<Rightarrow> auto_message \<Rightarrow> auto_invocation option \<Rightarrow> child_work option \<Rightarrow> unit sres" where
  "agent_mail_ok s e m recipient worker = (case am_sender_task_id m of
       None \<Rightarrow> Inl StoreValueError
     | Some op \<Rightarrow>
         (let to_root = (ep_root_operation_id e = Some (am_recipient_task_id m)) in
          case (attempt_worker s (am_episode_id m) op, episode_actor_row s (am_episode_id m) op) of
            (Some _, Some _) \<Rightarrow> Inl StoreValueError
          | (Some c, None) \<Rightarrow> sguard (am_sender_role m = WorkerSender \<and> to_root
              \<and> am_control_node_id m \<in> {None, Some (cw_control_node_id c)}) StoreValueError
          | (None, None) \<Rightarrow> Inl StoreValueError
          | (None, Some a) \<Rightarrow>
              if role_name (ai_role a) \<noteq> sender_name (am_sender_role m) then Inl StoreValueError
              else if am_sender_role m = WorkerSender then sguard to_root StoreValueError
              else if am_sender_role m = OrchestratorSender then orchestrator_mail_ok e m recipient worker a
              else Inr ()))"

definition auto_research_message :: "store \<Rightarrow> string \<Rightarrow> auto_message option sres" where
  "auto_research_message s k = (case find (\<lambda>m. am_message_id m = k) (st_messages s) of
       None \<Rightarrow> Inr None | Some m \<Rightarrow> sbind (message_row m) (\<lambda>r. Inr (Some r)))"

definition admit_message :: "store \<Rightarrow> auto_message \<Rightarrow> store sres" where
  "admit_message s m = (case dget (st_episodes s) (am_episode_id m) of
       None \<Rightarrow> Inl StoreKeyError
     | Some e \<Rightarrow>
         if ep_mode e \<noteq> AutoResearchMode then Inl StoreKeyError
         else
           (let recipient = episode_actor_row s (am_episode_id m) (am_recipient_task_id m);
                worker = episode_worker s (am_episode_id m) (am_recipient_task_id m) in
            sbind (sguard (recipient \<noteq> None \<or> worker \<noteq> None) StoreValueError) (\<lambda>_.
            sbind (sguard (recipient = None \<or> worker = None) StoreValueError) (\<lambda>_.
            sbind (if am_sender_role m = HumanSender then human_mail_ok e m
              else agent_mail_ok s e m recipient worker) (\<lambda>_.
            if \<exists>n \<in> set (st_messages s). am_message_id n = am_message_id m then Inl StoreIntegrityError
            else Inr (s\<lparr>st_messages := st_messages s @ [m]\<rparr>))))))"

definition record_auto_research_message :: "store \<Rightarrow> auto_message \<Rightarrow> store \<times> auto_message sres" where
  "record_auto_research_message s m = transact s
     (sbind (admit_message s m) (\<lambda>s1. Inr (s1, ())))
     (\<lambda>s1 _. reread (auto_research_message s1 (am_message_id m)))"

section \<open>Reading and delivering\<close>

definition message_order :: "auto_message list \<Rightarrow> auto_message list" where
  "message_order ms = sort_key am_created_at (sort_key am_message_id ms)"

definition auto_research_messages :: "store \<Rightarrow> string \<Rightarrow> auto_message list sres" where
  "auto_research_messages s i = smap message_row (message_order (filter (\<lambda>m. am_episode_id m = i) (st_messages s)))"

text \<open>The newest \<open>limit\<close> messages in order, with the number of all of them.\<close>

definition auto_research_message_history :: "store \<Rightarrow> string \<Rightarrow> int \<Rightarrow> (nat \<times> auto_message list) sres" where
  "auto_research_message_history s i limit =
    (if limit < 1 then Inl StoreValueError
     else let ms = message_order (filter (\<lambda>m. am_episode_id m = i) (st_messages s)) in
       sbind (smap message_row (rev (take (nat limit) (rev ms)))) (\<lambda>rs. Inr (length ms, rs)))"

definition pending_auto_research_messages :: "store \<Rightarrow> string \<Rightarrow> string \<Rightarrow> auto_message list sres" where
  "pending_auto_research_messages s i recipient = smap message_row (message_order
     (filter (\<lambda>m. am_episode_id m = i \<and> am_recipient_task_id m = recipient \<and> am_delivered_at m = None) (st_messages s)))"

definition handed_over :: "string \<Rightarrow> string \<Rightarrow> auto_message \<Rightarrow> auto_message" where
  "handed_over now op m = m\<lparr>am_delivered_at := Some now, am_delivery_operation_id := Some op\<rparr>"

definition on_messages :: "(auto_message \<Rightarrow> bool) \<Rightarrow> (auto_message \<Rightarrow> auto_message) \<Rightarrow> store \<Rightarrow> store" where
  "on_messages P f s = s\<lparr>st_messages := map (\<lambda>m. if P m then f m else m) (st_messages s)\<rparr>"

definition mark_auto_research_messages_delivered ::
  "store \<Rightarrow> string list \<Rightarrow> string \<Rightarrow> string \<Rightarrow> store \<times> unit sres" where
  "mark_auto_research_messages_delivered s ks op now = transact s
     (if ks = [] then Inr (s, ())
      else if \<not> distinct ks then Inl StoreValueError
      else if set (map am_message_id (filter (\<lambda>m. am_message_id m \<in> set ks \<and> am_delivered_at m = None) (st_messages s))) \<noteq> set ks
      then Inl StoreValueError
      else Inr (on_messages (\<lambda>m. am_message_id m \<in> set ks) (handed_over now op) s, ()))
     (\<lambda>_ _. Inr ())"

section \<open>Wakes\<close>

definition unclaimed :: "auto_message \<Rightarrow> bool" where
  "unclaimed m \<longleftrightarrow> am_delivered_at m = None \<and> am_delivery_operation_id m = None"

definition pending_mail :: "store \<Rightarrow> string \<Rightarrow> string \<Rightarrow> auto_message list" where
  "pending_mail s i recipient = message_order
     (filter (\<lambda>m. am_episode_id m = i \<and> am_recipient_task_id m = recipient \<and> unclaimed m) (st_messages s))"

text \<open>
  Whether a wake may claim these messages: an error when one is missing or is another's mail,
  false when they are no longer the oldest pending ones.
\<close>

definition mail_claimable :: "store \<Rightarrow> string \<Rightarrow> string \<Rightarrow> string list \<Rightarrow> bool sres" where
  "mail_claimable s i recipient ks =
    (let rows = filter (\<lambda>m. am_message_id m \<in> set ks) (st_messages s) in
     sbind (sguard (set (map am_message_id rows) = set ks) StoreValueError) (\<lambda>_.
     sbind (sguard (list_all (\<lambda>m. am_episode_id m = i \<and> am_recipient_task_id m = recipient) rows) StoreValueError) (\<lambda>_.
     Inr (list_all unclaimed rows \<and> map am_message_id (take (length ks) (pending_mail s i recipient)) = ks))))"

definition message_wake ::
  "store_env \<Rightarrow> store \<Rightarrow> agent_task \<Rightarrow> auto_research_role \<Rightarrow> string \<Rightarrow> string list \<Rightarrow> string \<Rightarrow> (store \<times> bool) sres" where
  "message_wake E s t role recipient ks i =
     sbind (load_auto_research_episode s i) (\<lambda>e.
     sbind (mail_claimable s i recipient ks) (\<lambda>claimable.
     if \<not> claimable then Inr (s, False)
     else sbind (insert_paid_auto_research_task E s e t role ''message_wake'') (\<lambda>s1.
       Inr (on_messages (\<lambda>m. am_message_id m \<in> set ks) (handed_over (tk_created_at t) (tk_operation_id t)) s1, True))))"

definition wake_result :: "agent_task \<Rightarrow> store \<Rightarrow> bool \<Rightarrow> agent_task option sres" where
  "wake_result t s woken = (if woken then sbind (reread_task s (tk_operation_id t)) (\<lambda>u. Inr (Some u)) else Inr None)"

definition create_auto_research_message_wake_task ::
  "store_env \<Rightarrow> store \<Rightarrow> agent_task \<Rightarrow> auto_research_role \<Rightarrow> string \<Rightarrow> string list
     \<Rightarrow> store \<times> agent_task option sres" where
  "create_auto_research_message_wake_task E s t role recipient ks = transact s
     (case tk_episode_id t of
        None \<Rightarrow> Inl StoreValueError
      | Some i \<Rightarrow>
          if recipient = [] \<or> ks = [] \<or> \<not> distinct ks \<or> AUTO_RESEARCH_MAIL_MAX_MESSAGES < length ks
          then Inl StoreValueError
          else integrity_refused (message_wake E s t role recipient ks i))
     (wake_result t)"

definition notices_claimable :: "store \<Rightarrow> string \<Rightarrow> string list \<Rightarrow> bool sres" where
  "notices_claimable s i ks =
    (let rows = filter (\<lambda>n. ln_notice_id n \<in> set ks) (st_notices s) in
     sbind (sguard (set (map ln_notice_id rows) = set ks) StoreValueError) (\<lambda>_.
     sbind (sguard (list_all (\<lambda>n. ln_episode_id n = i) rows) StoreValueError) (\<lambda>_.
     Inr (list_all (\<lambda>n. unread n \<and> ln_delivery_operation_id n = None) rows
       \<and> map ln_notice_id (take (length ks) (pending_rows s i)) = ks))))"

text \<open>The root task of the episode with its identifier, or an error when it has none yet.\<close>

definition root_recipient :: "episode_record \<Rightarrow> string sres" where
  "root_recipient e = (case ep_root_operation_id e of None \<Rightarrow> Inl StoreValueError | Some op \<Rightarrow> Inr op)"

definition lifecycle_wake ::
  "store_env \<Rightarrow> store \<Rightarrow> agent_task \<Rightarrow> string list \<Rightarrow> string list \<Rightarrow> string \<Rightarrow> (store \<times> bool) sres" where
  "lifecycle_wake E s t ns ks i =
     sbind (load_auto_research_episode s i) (\<lambda>e.
     sbind (root_recipient e) (\<lambda>recipient.
     sbind (notices_claimable s i ns) (\<lambda>notices_ready.
     if \<not> notices_ready then Inr (s, False)
     else sbind (if ks = [] then Inr True else mail_claimable s i recipient ks) (\<lambda>mail_ready.
       if \<not> mail_ready then Inr (s, False)
       else sbind (insert_paid_auto_research_task E s e t OrchestratorRole ''lifecycle_wake'') (\<lambda>s1.
         Inr (on_messages (\<lambda>m. am_message_id m \<in> set ks \<and> am_delivered_at m = None)
             (handed_over (tk_created_at t) (tk_operation_id t))
           (on_notices (\<lambda>n. ln_notice_id n \<in> set ns \<and> unread n)
             (delivered (tk_created_at t) (tk_operation_id t)) s1), True))))))"

definition create_auto_research_lifecycle_wake_task ::
  "store_env \<Rightarrow> store \<Rightarrow> agent_task \<Rightarrow> string list \<Rightarrow> string list \<Rightarrow> store \<times> agent_task option sres" where
  "create_auto_research_lifecycle_wake_task E s t ns ks = transact s
     (case tk_episode_id t of
        None \<Rightarrow> Inl StoreValueError
      | Some i \<Rightarrow>
          if ns = [] \<or> \<not> distinct ns \<or> AUTO_RESEARCH_LIFECYCLE_MAX_NOTICES < int (length ns)
             \<or> \<not> distinct ks \<or> AUTO_RESEARCH_MAIL_MAX_MESSAGES < length ks
          then Inl StoreValueError
          else integrity_refused (lifecycle_wake E s t ns ks i))
     (wake_result t)"

end
