(* ===== verification/TaskStatus.thy ===== *)
theory TaskStatus
  imports Research
begin

text \<open>
  The durable status of a task (\<open>storage/agent_tasks.py\<close>): one table of allowed transitions, the guarded
  update every status change goes through, and the operations that keep a running task's session
  and message. The event log and the bounding of a result are not modelled: what else a
  transition writes is a parameter, as in the source.
\<close>

text \<open>A conversation has one active task at a time.\<close>

definition has_active_chat_overlap :: "store \<Rightarrow> agent_task \<Rightarrow> bool" where
  "has_active_chat_overlap s t \<longleftrightarrow> tk_kind t \<in> {NodeChatTask, ProjectChatTask}
     \<and> (case nonempty_str (dget (tk_request t) ''chat_id'') of
          None \<Rightarrow> False
        | Some chat \<Rightarrow> list_ex (\<lambda>q. same_chat t q \<and> dget (tk_request q) ''chat_id'' = Some (VStr chat)
            \<and> tk_status q \<in> {TQueued, TRunning, TPausing}) (dvalues (st_tasks s)))"

definition create_agent_task :: "store_env \<Rightarrow> store \<Rightarrow> agent_task \<Rightarrow> string \<Rightarrow> store \<times> agent_task sres" where
  "create_agent_task E s t cause = transact s
     (if tk_kind t = EpisodeReportTask \<or> tk_episode_id t \<noteq> None then Inl StoreValueError
      else integrity_refused (
        sbind (if cause = ''fresh'' then require_project_accepts_new_work s (tk_project_id t) else Inr ()) (\<lambda>_.
        if has_active_chat_overlap s t then Inl StoreValueError
        else sbind (insert_agent_task E s t cause) (\<lambda>s1. Inr (s1, ())))))
     (\<lambda>s1 _. reread_task s1 (tk_operation_id t))"

text \<open>The statuses a task may leave for a target; no task is queued again.\<close>

definition AGENT_TASK_TRANSITIONS :: "task_status \<Rightarrow> task_status list" where
  "AGENT_TASK_TRANSITIONS target = (case target of
       TQueued \<Rightarrow> []
     | TRunning \<Rightarrow> [TQueued]
     | TPausing \<Rightarrow> [TQueued, TRunning]
     | _ \<Rightarrow> [TQueued, TRunning, TPausing])"

datatype transition_outcome = TaskMissing | TaskRefused task_status | TaskApplied task_status

text \<open>\<open>assignments\<close> is the rest of the \<open>SET\<close> clause.\<close>

definition transition_agent_task ::
  "store \<Rightarrow> string \<Rightarrow> task_status \<Rightarrow> (agent_task \<Rightarrow> agent_task) \<Rightarrow> store \<times> transition_outcome" where
  "transition_agent_task s op target assignments = (case dget (st_tasks s) op of
       None \<Rightarrow> (s, TaskMissing)
     | Some q \<Rightarrow>
         if tk_status q \<notin> set (AGENT_TASK_TRANSITIONS target) then (s, TaskRefused (tk_status q))
         else (on_task op (\<lambda>t. assignments (t\<lparr>tk_status := target\<rparr>)) s, TaskApplied (tk_status q)))"

definition running_columns :: "string \<Rightarrow> agent_task \<Rightarrow> agent_task" where
  "running_columns now t = t\<lparr>tk_started_at := Some now, tk_updated_at := now, tk_last_activity_at := Some now,
     tk_phase := ''preparing'', tk_status_message := ''Preparing agent task.''\<rparr>"

definition mark_agent_task_running :: "store \<Rightarrow> string \<Rightarrow> string \<Rightarrow> store \<times> unit sres" where
  "mark_agent_task_running s op now =
    (case transition_agent_task s op TRunning (running_columns now) of
       (s1, TaskMissing) \<Rightarrow> (s, Inl StoreKeyError) | (s1, _) \<Rightarrow> (s1, Inr ()))"

definition pausing_columns :: "string \<Rightarrow> agent_task \<Rightarrow> agent_task" where
  "pausing_columns now t = t\<lparr>tk_updated_at := now, tk_last_activity_at := Some now, tk_phase := ''pausing'',
     tk_status_message := ''Pausing at the current checkpoint.''\<rparr>"

definition request_agent_task_pause :: "store \<Rightarrow> string \<Rightarrow> string \<Rightarrow> store \<times> agent_task sres" where
  "request_agent_task_pause s op now =
    (case transition_agent_task s op TPausing (pausing_columns now) of
       (s1, TaskMissing) \<Rightarrow> (s, Inl StoreKeyError)
     | (s1, TaskRefused _) \<Rightarrow> (s, Inl StoreValueError)
     | (s1, TaskApplied _) \<Rightarrow> (s1, reread_task s1 op))"

definition request_auto_research_worker_pause :: "store \<Rightarrow> string \<Rightarrow> string \<Rightarrow> string \<Rightarrow> store \<times> agent_task sres" where
  "request_auto_research_worker_pause s op i now = transact s
     (case (dget (st_tasks s) op, dget (st_auto_invocations s) op, dget (st_episodes s) i) of
        (Some q, Some a, Some e) \<Rightarrow>
          if tk_episode_id q = Some i \<and> tk_status q \<in> {TQueued, TRunning} \<and> ai_role a = WorkerRole
             \<and> ep_mode e = AutoResearchMode \<and> ep_status e = ERunning \<and> ep_ending e = None
             \<and> ep_stop_requested_at e = None
          then Inr (on_task op (\<lambda>t. pausing_columns now (t\<lparr>tk_status := TPausing\<rparr>)) s, ())
          else Inl EpisodeNotRunning
      | _ \<Rightarrow> Inl EpisodeNotRunning)
     (\<lambda>s1 _. reread_task s1 op)"

definition update_agent_task_message ::
  "store \<Rightarrow> string \<Rightarrow> string \<Rightarrow> string option \<Rightarrow> string \<Rightarrow> store \<times> unit sres" where
  "update_agent_task_message s op message phase now =
    (if \<not> dhas op (st_tasks s) then (s, Inl StoreKeyError)
     else (on_task op (\<lambda>t. if tk_status t \<in> {TRunning, TPausing}
       then t\<lparr>tk_status_message := message, tk_updated_at := now, tk_last_activity_at := Some now,
         tk_phase := (case phase of Some p \<Rightarrow> p | None \<Rightarrow> tk_phase t)\<rparr> else t) s, Inr ()))"

definition or_else :: "'a option \<Rightarrow> 'a option \<Rightarrow> 'a option" where
  "or_else x y = (case x of None \<Rightarrow> y | Some v \<Rightarrow> Some v)"

definition checkpoint_agent_task ::
  "store \<Rightarrow> string \<Rightarrow> string option \<Rightarrow> string option \<Rightarrow> string option \<Rightarrow> string \<Rightarrow> store \<times> unit sres" where
  "checkpoint_agent_task s op session host stage now = (case dget (st_tasks s) op of
       None \<Rightarrow> (s, Inl StoreKeyError)
     | Some q \<Rightarrow>
         if session = None \<or> tk_native_session_id q = None \<or> tk_native_session_id q = session
         then (on_task op (\<lambda>t. t\<lparr>tk_native_session_id := or_else session (tk_native_session_id t),
           tk_stage_host := or_else host (tk_stage_host t), tk_stage_root := or_else stage (tk_stage_root t),
           tk_updated_at := now, tk_last_activity_at := Some now\<rparr>) s, Inr ())
         else (s, Inl StoreValueError))"

definition clear_agent_task_stage :: "store \<Rightarrow> string \<Rightarrow> string \<Rightarrow> store" where
  "clear_agent_task_stage s op now =
     on_task op (\<lambda>t. t\<lparr>tk_stage_host := None, tk_stage_root := None, tk_updated_at := now\<rparr>) s"

text \<open>The rows an offline restore interrupts.\<close>

definition interrupted_columns :: "string \<Rightarrow> string \<Rightarrow> agent_task \<Rightarrow> agent_task" where
  "interrupted_columns detail now t = t\<lparr>tk_status := TInterrupted, tk_updated_at := now,
     tk_finished_at := coalesce (tk_finished_at t) now, tk_status_message := detail, tk_error := Some detail,
     tk_phase := ''interrupted'', tk_last_activity_at := Some now\<rparr>"

definition interrupt_restored_tasks :: "store_env \<Rightarrow> store \<Rightarrow> string \<Rightarrow> string \<Rightarrow> store sres" where
  "interrupt_restored_tasks E s diagnostic now =
    (let detail = restore_detail diagnostic;
         live = (\<lambda>q. tk_status q \<notin> {TSucceeded, TFailed, TInterrupted}) in
     if detail = [] \<or> \<not> se_timestamp E now then Inl StoreValueError
     else Inr (s\<lparr>st_tasks := map (\<lambda>kv. if live (snd kv) then (fst kv, interrupted_columns detail now (snd kv)) else kv)
         (st_tasks s),
       st_receipts := st_receipts s @ map (\<lambda>q. (tk_operation_id q, ''operation_interrupted''))
         (sort_key tk_operation_id (filter live (dvalues (st_tasks s))))\<rparr>))"

end
