(* ===== verification/ChildWork.thy ===== *)
theory ChildWork
  imports Finish Mail TaskStatus
begin

text \<open>
  The Work tasks an Auto-research orchestrator spawns (\<open>storage/auto_research_children.py\<close>): the admission of
  a worker, which spends one invocation of the parent, the free recovery of its saved session, and the
  wake that spends an invocation to hand over an exact prefix of the worker's mail.
\<close>

section \<open>Routes and attempts\<close>

text \<open>The validator of a route, also run on the row read back.\<close>

definition child_work_row :: "store_env \<Rightarrow> child_work \<Rightarrow> child_work sres" where
  "child_work_row E c =
    (if cw_instruction c = [] \<or> 16000 < int (length (cw_instruction c)) \<or> py_strip (cw_instruction c) = []
        \<or> se_sha256 E (cw_instruction c) \<noteq> cw_instruction_sha256 c
     then Inl StoreValidationError else Inr c)"

definition auto_research_child_work :: "store_env \<Rightarrow> store \<Rightarrow> string \<Rightarrow> child_work option sres" where
  "auto_research_child_work E s w = (case dget (st_child_work s) w of
       None \<Rightarrow> Inr None | Some c \<Rightarrow> sbind (child_work_row E c) (\<lambda>c. Inr (Some c)))"

definition auto_research_child_work_for_operation :: "store_env \<Rightarrow> store \<Rightarrow> string \<Rightarrow> child_work option sres" where
  "auto_research_child_work_for_operation E s op = (case dget (st_work_attempts s) op of
       None \<Rightarrow> Inr None | Some a \<Rightarrow> auto_research_child_work E s (wa_worker_id a))"

definition auto_research_child_works :: "store_env \<Rightarrow> store \<Rightarrow> string \<Rightarrow> child_work list sres" where
  "auto_research_child_works E s i = smap (child_work_row E) (sort_key cw_created_at (sort_key cw_worker_id
     (filter (\<lambda>c. cw_episode_id c = i) (dvalues (st_child_work s)))))"

definition load_child_work :: "store_env \<Rightarrow> store \<Rightarrow> string \<Rightarrow> child_work sres" where
  "load_child_work E s w = (case dget (st_child_work s) w of
       None \<Rightarrow> Inl StoreKeyError | Some c \<Rightarrow> child_work_row E c)"

text \<open>The primary key and the unique columns of the table.\<close>

definition insert_child_work :: "store \<Rightarrow> child_work \<Rightarrow> store sres" where
  "insert_child_work s c =
    (if dhas (cw_worker_id c) (st_child_work s)
        \<or> list_ex (\<lambda>d. cw_root_operation_id d = cw_root_operation_id c
             \<or> cw_current_operation_id d = cw_current_operation_id c) (dvalues (st_child_work s))
     then Inl StoreIntegrityError
     else Inr (s\<lparr>st_child_work := dset (cw_worker_id c) c (st_child_work s)\<rparr>))"

definition insert_work_attempt :: "store \<Rightarrow> string \<Rightarrow> agent_task \<Rightarrow> string \<Rightarrow> store sres" where
  "insert_work_attempt s w t allocation =
    (if dhas (tk_operation_id t) (st_work_attempts s) then Inl StoreIntegrityError
     else Inr (s\<lparr>st_work_attempts := dset (tk_operation_id t)
       \<lparr>wa_operation_id = tk_operation_id t, wa_worker_id = w, wa_allocation_operation_id = allocation,
        wa_created_at = tk_created_at t\<rparr> (st_work_attempts s)\<rparr>))"

text \<open>\<open>UPDATE ... SET current_operation_id = ?\<close>, a unique column.\<close>

definition advance_work :: "store \<Rightarrow> string \<Rightarrow> agent_task \<Rightarrow> store sres" where
  "advance_work s w t =
    (if list_ex (\<lambda>d. cw_worker_id d \<noteq> w \<and> cw_current_operation_id d = tk_operation_id t) (dvalues (st_child_work s))
     then Inl StoreIntegrityError
     else Inr (s\<lparr>st_child_work := dmodify w (\<lambda>c. c\<lparr>cw_current_operation_id := tk_operation_id t,
       cw_updated_at := tk_created_at t\<rparr>) (st_child_work s)\<rparr>))"

definition current_work_task :: "store \<Rightarrow> child_work \<Rightarrow> agent_task sres" where
  "current_work_task s c = (case dget (st_tasks s) (cw_current_operation_id c) of
       None \<Rightarrow> Inl StoreRuntimeError | Some q \<Rightarrow> Inr q)"

text \<open>One invocation of the parent, and its meter.\<close>

definition spend_for_work :: "store \<Rightarrow> episode_record \<Rightarrow> agent_task \<Rightarrow> store sres" where
  "spend_for_work s e t =
     sbind (insert_invocation s (paid_row (ep_episode_id e) t (ep_invocations_used e + 1))) (\<lambda>s1.
     case dget (st_episodes s1) (ep_episode_id e) of
       None \<Rightarrow> Inl StoreValueError
     | Some r \<Rightarrow>
         if open_for_spending (ep_invocations_used e) r
         then Inr (on_episode (ep_episode_id e) (\<lambda>e. e\<lparr>ep_invocations_used := ep_invocations_used e + 1,
           ep_updated_at := tk_created_at t\<rparr>) s1)
         else Inl StoreValueError)"

section \<open>Spawning\<close>

definition child_work_shape :: "child_work \<Rightarrow> agent_task \<Rightarrow> bool" where
  "child_work_shape c t \<longleftrightarrow> cw_root_operation_id c = tk_operation_id t \<and> cw_current_operation_id c = tk_operation_id t
     \<and> Some (cw_episode_id c) = tk_episode_id t \<and> cw_project_id c = tk_project_id t \<and> tk_kind t = NodeChatTask
     \<and> tk_status t = TQueued \<and> tk_visible t \<and> tk_parent_operation_id t = None
     \<and> rget (tk_request t) ''mode'' = VStr ''work'' \<and> rget (tk_request t) ''trigger'' = VStr ''orchestrator''
     \<and> rget (tk_request t) ''node_id'' = VStr (cw_control_node_id c)"

text \<open>The admitting turn is one of the orchestrator's, in the same project.\<close>

definition admitted_by_orchestrator :: "store \<Rightarrow> child_work \<Rightarrow> bool" where
  "admitted_by_orchestrator s c \<longleftrightarrow>
    (case (dget (st_auto_invocations s) (cw_admitted_by_operation_id c), dget (st_tasks s) (cw_admitted_by_operation_id c)) of
       (Some a, Some q) \<Rightarrow> ai_episode_id a = cw_episode_id c \<and> tk_project_id q = cw_project_id c
         \<and> ai_role a = OrchestratorRole
     | _ \<Rightarrow> False)"

definition spawn_work :: "store_env \<Rightarrow> store \<Rightarrow> child_work \<Rightarrow> agent_task \<Rightarrow> string option \<Rightarrow> store sres" where
  "spawn_work E s c t admission =
     sbind (load_auto_research_episode s (cw_episode_id c)) (\<lambda>e.
     sbind (validate_auto_research_parent_admission e) (\<lambda>_.
     sbind (sguard (ep_project_id e = cw_project_id c \<and> tk_authorized_by t = ep_authorized_by e) StoreValueError) (\<lambda>_.
     sbind (sguard (admitted_by_orchestrator s c) StoreValueError) (\<lambda>_.
     sbind (sguard (ep_invocations_used e < ep_invocation_ceiling e) EpisodeInvocationCeilingReached) (\<lambda>_.
     sbind (sguard (\<not> has_active_chat_overlap s t) StoreValueError) (\<lambda>_.
     sbind (insert_agent_task E s t ''fresh'') (\<lambda>s1.
     sbind (insert_child_work s1 c) (\<lambda>s2.
     sbind (insert_work_attempt s2 (cw_worker_id c) t (tk_operation_id t)) (\<lambda>s3.
     sbind (spend_for_work s3 e t) (\<lambda>s4.
     reflect_auto_research_child_admission s4 admission (cw_episode_id c) WorkChild (cw_worker_id c)
       (tk_created_at t)))))))))))"

definition create_auto_research_child_work ::
  "store_env \<Rightarrow> store \<Rightarrow> child_work \<Rightarrow> agent_task \<Rightarrow> string option \<Rightarrow> store \<times> (child_work \<times> agent_task) sres" where
  "create_auto_research_child_work E s c t admission = transact s
     (if \<not> child_work_shape c t then Inl StoreValueError
      else integrity_refused (sbind (spawn_work E s c t admission) (\<lambda>s1. Inr (s1, ()))))
     (\<lambda>s1 _. sbind (reread (auto_research_child_work E s1 (cw_worker_id c))) (\<lambda>d.
        sbind (reread_task s1 (tk_operation_id t)) (\<lambda>u. Inr (d, u))))"

section \<open>Continuing\<close>

text \<open>The next attempt \<open>t\<close> of the task \<open>q\<close>, in its saved session and stage.\<close>

definition continues_work :: "child_work \<Rightarrow> episode_record \<Rightarrow> agent_task \<Rightarrow> agent_task \<Rightarrow> bool" where
  "continues_work c e q t \<longleftrightarrow> tk_status t = TQueued \<and> tk_visible t \<and> tk_kind t = NodeChatTask
     \<and> tk_project_id t = cw_project_id c \<and> tk_episode_id t = Some (cw_episode_id c)
     \<and> tk_parent_operation_id t = Some (tk_operation_id q) \<and> tk_attempt t = tk_attempt q + 1
     \<and> tk_authorized_by t = ep_authorized_by e \<and> filled (tk_native_session_id q) \<and> filled (tk_stage_root q)
     \<and> tk_native_session_id t = tk_native_session_id q \<and> keeps_stage t q
     \<and> rget (tk_request t) ''session_id'' = VStr (or_empty (tk_native_session_id q))"

definition resume_work :: "store_env \<Rightarrow> store \<Rightarrow> string \<Rightarrow> agent_task \<Rightarrow> store sres" where
  "resume_work E s w t =
     sbind (load_child_work E s w) (\<lambda>c.
     sbind (load_auto_research_episode s (cw_episode_id c)) (\<lambda>e.
     sbind (validate_auto_research_parent_admission e) (\<lambda>_.
     sbind (current_work_task s c) (\<lambda>q.
     case dget (st_work_attempts s) (tk_operation_id q) of
       None \<Rightarrow> Inl StoreRuntimeError
     | Some a \<Rightarrow>
         sbind (sguard (wa_worker_id a = w) StoreRuntimeError) (\<lambda>_.
         sbind (sguard (tk_status q \<in> {TPaused, TInterrupted, TFailed}) StoreValueError) (\<lambda>_.
         sbind (sguard (continues_work c e q t
           \<and> py_eq (rget (tk_request t) ''chat_id'') (rget (tk_request q) ''chat_id'')) StoreValueError) (\<lambda>_.
         sbind (sguard (\<not> has_active_chat_overlap s t) StoreValueError) (\<lambda>_.
         sbind (insert_agent_task E s t ''resume'') (\<lambda>s1.
         sbind (insert_work_attempt s1 w t (wa_allocation_operation_id a)) (\<lambda>s2.
         advance_work s2 w t))))))))))"

definition create_auto_research_child_work_recovery ::
  "store_env \<Rightarrow> store \<Rightarrow> string \<Rightarrow> agent_task \<Rightarrow> store \<times> (child_work \<times> agent_task) sres" where
  "create_auto_research_child_work_recovery E s w t = transact s
     (sbind (resume_work E s w t) (\<lambda>s1. Inr (s1, ())))
     (\<lambda>s1 _. sbind (reread (auto_research_child_work E s1 w)) (\<lambda>d.
        sbind (reread_task s1 (tk_operation_id t)) (\<lambda>u. Inr (d, u))))"

definition pinned_request_fields :: "string list" where
  "pinned_request_fields = [''provider'', ''model'', ''reasoning'', ''run_on'', ''run_truth_scope'', ''chat_scope'',
     ''node_id'', ''chat_id'', ''mode'', ''patch_kind'']"

definition wakes_work :: "child_work \<Rightarrow> episode_record \<Rightarrow> agent_task \<Rightarrow> agent_task \<Rightarrow> bool" where
  "wakes_work c e q t \<longleftrightarrow> continues_work c e q t \<and> rget (tk_request t) ''trigger'' = VStr ''orchestrator''
     \<and> rget (tk_request t) ''mode'' = VStr ''work'' \<and> rget (tk_request t) ''patch_kind'' = VStr ''work''
     \<and> rget (tk_request t) ''message'' = VNone \<and> rget (tk_request t) ''watcher_ids'' \<in> {VNone, VList []}
     \<and> rget (tk_request t) ''result_view'' = VNone
     \<and> list_all (\<lambda>k. py_eq (rget (tk_request t) k) (rget (tk_request q) k)) pinned_request_fields"

text \<open>The claimed messages are counted, as \<open>rowcount\<close> is.\<close>

definition claim_work_mail :: "store \<Rightarrow> agent_task \<Rightarrow> string list \<Rightarrow> store sres" where
  "claim_work_mail s t ks =
    (if length (filter (\<lambda>m. am_message_id m \<in> set ks \<and> unclaimed m) (st_messages s)) \<noteq> length ks then Inl StoreValueError
     else Inr (on_messages (\<lambda>m. am_message_id m \<in> set ks \<and> unclaimed m)
       (handed_over (tk_created_at t) (tk_operation_id t)) s))"

definition admit_work_wake ::
  "store_env \<Rightarrow> store \<Rightarrow> episode_record \<Rightarrow> string \<Rightarrow> agent_task \<Rightarrow> string list \<Rightarrow> store sres" where
  "admit_work_wake E s e w t ks =
     sbind (sguard (ep_invocations_used e < ep_invocation_ceiling e) EpisodeInvocationCeilingReached) (\<lambda>_.
     sbind (insert_agent_task E s t ''message_wake'') (\<lambda>s1.
     sbind (insert_work_attempt s1 w t (tk_operation_id t)) (\<lambda>s2.
     sbind (spend_for_work s2 e t) (\<lambda>s3.
     sbind (advance_work s3 w t) (\<lambda>s4.
     claim_work_mail s4 t ks)))))"

definition wake_work ::
  "store_env \<Rightarrow> store \<Rightarrow> string \<Rightarrow> agent_task \<Rightarrow> string list \<Rightarrow> (store \<times> bool) sres" where
  "wake_work E s w t ks =
     sbind (load_child_work E s w) (\<lambda>c.
     sbind (load_auto_research_episode s (cw_episode_id c)) (\<lambda>e.
     sbind (validate_auto_research_parent_admission e) (\<lambda>_.
     sbind (sguard (cw_stop_requested_at c = None) EpisodeNotRunning) (\<lambda>_.
     sbind (mail_claimable s (cw_episode_id c) w ks) (\<lambda>claimable.
     if \<not> claimable then Inr (s, False)
     else sbind (current_work_task s c) (\<lambda>q.
       if tk_status q \<noteq> TSucceeded then Inr (s, False)
       else sbind (sguard (wakes_work c e q t) StoreValueError) (\<lambda>_.
         if has_active_chat_overlap s t then Inr (s, False)
         else sbind (admit_work_wake E s e w t ks) (\<lambda>s1. Inr (s1, True)))))))))"

definition create_auto_research_child_work_message_wake_task ::
  "store_env \<Rightarrow> store \<Rightarrow> string \<Rightarrow> agent_task \<Rightarrow> string list \<Rightarrow> store \<times> agent_task option sres" where
  "create_auto_research_child_work_message_wake_task E s w t ks = transact s
     (if w = [] \<or> ks = [] \<or> \<not> distinct ks \<or> AUTO_RESEARCH_MAIL_MAX_MESSAGES < length ks then Inl StoreValueError
      else integrity_refused (wake_work E s w t ks))
     (wake_result t)"

section \<open>Stopping\<close>

definition request_auto_research_child_work_stop ::
  "store_env \<Rightarrow> store \<Rightarrow> string \<Rightarrow> string \<Rightarrow> store \<times> child_work sres" where
  "request_auto_research_child_work_stop E s w now = transact s
     (if \<not> dhas w (st_child_work s) then Inl StoreKeyError
      else Inr (s\<lparr>st_child_work := dmodify w (\<lambda>c. c\<lparr>cw_stop_requested_at := coalesce (cw_stop_requested_at c) now,
        cw_updated_at := now\<rparr>) (st_child_work s)\<rparr>, ()))
     (\<lambda>s1 _. reread (auto_research_child_work E s1 w))"

end
