(* ===== verification/ResearchSteps.thy ===== *)
theory ResearchSteps
  imports EpisodeSteps ChildWork
begin

text \<open>
  The turns of an Auto-research episode move it along the abstract machine of an episode: a start
  opens an agreeing view, a paid turn is a spend, the activation of a reservation a move of
  its own, and a recovery leaves the ledger alone.
\<close>

section \<open>Outcomes\<close>

lemma integrity_refused_Inr [simp]: "integrity_refused m = Inr x \<longleftrightarrow> m = Inr x"
  by (simp add: integrity_refused_def split: sum.splits)

text \<open>An admitted task is a new row; only its stage may be filled in.\<close>

definition unstaged_row :: "agent_task \<Rightarrow> agent_task" where
  "unstaged_row t = t\<lparr>tk_stage_host := None, tk_stage_root := None\<rparr>"

lemma staged_columns:
  assumes "unstaged_row u = unstaged_row t"
  shows "tk_operation_id u = tk_operation_id t" "tk_episode_id u = tk_episode_id t" "tk_status u = tk_status t"
    "tk_parent_operation_id u = tk_parent_operation_id t" "tk_attempt u = tk_attempt t"
  using assms by (cases u; cases t; simp add: unstaged_row_def)+

lemma bind_chat_stage_row: "bind_chat_stage s t = Inr u \<Longrightarrow> unstaged_row u = unstaged_row t"
proof -
  have "bind_saved t runs = Inr u \<Longrightarrow> unstaged_row u = unstaged_row t" for runs
    unfolding bind_saved_def unstaged_row_def by (auto split: list.splits)
  then show "bind_chat_stage s t = Inr u \<Longrightarrow> unstaged_row u = unstaged_row t"
    unfolding bind_chat_stage_def Let_def by (auto split: if_splits option.splits)
qed

lemma insert_agent_task_row:
  assumes "insert_agent_task E s t cause = Inr s'"
  obtains u where "unstaged_row u = unstaged_row t" "\<not> dhas (tk_operation_id t) (st_tasks s)"
    "st_auto_invocations s' = st_auto_invocations s" "st_tasks s' = st_tasks s @ [(tk_operation_id t, u)]"
proof -
  obtain u where u: "bind_chat_stage s t = Inr u" "\<not> dhas (tk_operation_id u) (st_tasks s)"
    "s' = s\<lparr>st_tasks := dset (tk_operation_id u) u (st_tasks s),
         st_receipts := st_receipts s @ [(tk_operation_id u, ''operation_admitted'')]\<rparr>"
    using assms by (auto simp: insert_agent_task_def sbind_eq_Inr split: if_splits)
  have g: "unstaged_row u = unstaged_row t" by (rule bind_chat_stage_row [OF u(1)])
  show ?thesis by (rule that [OF g]) (use u staged_columns(1) [OF g] in \<open>simp_all add: dset_fresh\<close>)
qed

lemma ledger_insert_auto_research_invocation: "insert_auto_research_invocation s a = Inr t \<Longrightarrow> ledger t = ledger s"
  by (auto simp: insert_auto_research_invocation_def ledger_def split: if_splits)

lemma ledger_insert_auto_research_state: "insert_auto_research_state s a = Inr t \<Longrightarrow> ledger t = ledger s"
  by (auto simp: insert_auto_research_state_def ledger_def split: if_splits)

lemma ledger_handed_over [simp]: "ledger (on_notices P f s) = ledger s" "ledger (on_messages Q g s) = ledger s"
  by (simp_all add: on_notices_def on_messages_def ledger_def)

lemma load_auto_Inr:
  "load_auto_research_episode s i = Inr e \<longleftrightarrow> dget (st_episodes s) i = Some e \<and> dhas i (st_auto_research s)
     \<and> ep_mode e = AutoResearchMode \<and> episode_coherent e"
  by (auto simp: load_auto_research_episode_def episode_row_def split: option.splits if_splits)

lemma paid_result:
  assumes "insert_paid_auto_research_task E s e t role cause = Inr s4"
  obtains u actor seat s1 s2 s3 r where "ep_status e = ERunning" "ep_ending e = None" "ep_stop_requested_at e = None"
    "ep_invocations_used e < ep_invocation_ceiling e" "tk_episode_id t = Some (ep_episode_id e)"
    "bind_auto_research_actor s e t role False = Inr (u, actor, seat)" "insert_agent_task E s u cause = Inr s1"
    "insert_invocation s1 (paid_row (ep_episode_id e) t (ep_invocations_used e + 1)) = Inr s2"
    "insert_auto_research_invocation s2 (turn_row (ep_episode_id e) t (tk_operation_id t) role actor seat) = Inr s3"
    "dget (st_episodes s3) (ep_episode_id e) = Some r" "open_for_spending (ep_invocations_used e) r"
    "s4 = on_episode (ep_episode_id e) (\<lambda>e. e\<lparr>ep_invocations_used := ep_invocations_used e + 1,
       ep_updated_at := tk_created_at t\<rparr>) s3"
  using assms that unfolding insert_paid_auto_research_task_def
  by (auto simp: sbind_eq_Inr not_le split: if_splits option.splits)

lemma paid_steps:
  assumes ok: "store_ok s" and load: "load_auto_research_episode s i = Inr e"
    and paid: "insert_paid_auto_research_task E s e t role cause = Inr s4"
  shows "step_ok s s4"
proof (rule paid_result [OF paid])
  fix u actor seat s1 s2 s3 r
  assume st: "ep_status e = ERunning" and ceil: "ep_invocations_used e < ep_invocation_ceiling e"
    and tk: "insert_agent_task E s u cause = Inr s1"
    and iv: "insert_invocation s1 (paid_row (ep_episode_id e) t (ep_invocations_used e + 1)) = Inr s2"
    and ai: "insert_auto_research_invocation s2 (turn_row (ep_episode_id e) t (tk_operation_id t) role actor seat) = Inr s3"
    and s4: "s4 = on_episode (ep_episode_id e) (\<lambda>e. e\<lparr>ep_invocations_used := ep_invocations_used e + 1,
       ep_updated_at := tk_created_at t\<rparr>) s3"
  have row: "dget (st_episodes s) i = Some e" using load by (simp add: load_auto_Inr)
  have id: "ep_episode_id e = i" using ok row keyed_dget by (fastforce simp: store_ok_def store_shape_def)
  note l1 = ledger_insert_agent_task [OF tk] and l3 = ledger_insert_auto_research_invocation [OF ai]
  obtain v where v: "view_of s i = Some v" "vw_episode v = e" by (rule view_of_row [OF row])
  have same: "e\<lparr>ep_invocations_used := ep_invocations_used e + 1, ep_updated_at := tk_created_at t\<rparr>
      = e\<lparr>ep_root_operation_id := ep_root_operation_id e, ep_status := ERunning,
        ep_invocations_used := ep_invocations_used e + 1, ep_updated_at := tk_created_at t\<rparr>"
    using st by (cases e) simp
  have mv: "view_move v (v\<lparr>vw_episode := (vw_episode v)\<lparr>ep_invocations_used := ep_invocations_used (vw_episode v) + 1,
      ep_updated_at := tk_created_at t\<rparr>, vw_numbers := vw_numbers v @ [ep_invocations_used (vw_episode v) + 1]\<rparr>)"
    unfolding v(2) same using view_move.spend [of v _ "tk_created_at t" "ep_root_operation_id e"] v(2) st ceil by simp
  have "dhas i (st_episodes s1)" by (rule row_present [OF row l1])
  then have "store_shape s2" using shape_insert_invocation [OF shape_ledger_trans [OF ok l1] iv] by (simp add: paid_row_def id)
  then have sh: "store_shape s3" using store_shape_ledger [OF l3] by simp
  show ?thesis
  proof (rule step_one [OF ok _ v(1) _ mv])
    show "store_shape s4" unfolding s4 by (rule shape_on_episode [OF sh]) simp
  qed (simp_all add: s4 view_simps view_of_ledger [OF l3] view_insert_invocation [OF iv] view_of_ledger [OF l1]
      paid_row_def id v)
qed

lemma paid_task_steps:
  assumes ok: "store_ok s"
  shows "step_ok s (fst (create_auto_research_agent_task E s t role cause))"
  unfolding create_auto_research_agent_task_def
  by (rule transact_commits [OF ok]) (auto simp: sbind_eq_Inr intro: paid_steps [OF ok] split: option.splits)

text \<open>A wake is a paid turn that also hands notices or messages over, or nothing at all.\<close>

lemma step_ok_hand_over: "step_ok s t \<Longrightarrow> step_ok s (on_messages P f (on_notices Q g t))" "step_ok s t \<Longrightarrow> step_ok s (on_messages P f t)"
  by (erule step_ok_ledger [rotated], simp)+

lemma lifecycle_wake_result:
  assumes "lifecycle_wake E s t ns ks i = Inr (u, b)"
  obtains (asleep) "u = s" "\<not> b"
  | (woken) e s1 where "load_auto_research_episode s i = Inr e" "notices_claimable s i ns = Inr True"
      "insert_paid_auto_research_task E s e t OrchestratorRole ''lifecycle_wake'' = Inr s1" "b"
      "u = on_messages (\<lambda>m. am_message_id m \<in> set ks \<and> am_delivered_at m = None)
             (handed_over (tk_created_at t) (tk_operation_id t))
           (on_notices (\<lambda>n. ln_notice_id n \<in> set ns \<and> unread n)
             (delivered (tk_created_at t) (tk_operation_id t)) s1)"
      "ks \<noteq> [] \<Longrightarrow> mail_claimable s i (the (ep_root_operation_id e)) ks = Inr True"
  using assms that
  by (auto simp: lifecycle_wake_def root_recipient_def sbind_eq_Inr split: if_splits option.splits)

lemma message_wake_result:
  assumes "message_wake E s t role recipient ks i = Inr (u, b)"
  obtains (asleep) "u = s" "\<not> b"
  | (woken) e s1 where "load_auto_research_episode s i = Inr e" "mail_claimable s i recipient ks = Inr True"
      "insert_paid_auto_research_task E s e t role ''message_wake'' = Inr s1" "b"
      "u = on_messages (\<lambda>m. am_message_id m \<in> set ks) (handed_over (tk_created_at t) (tk_operation_id t)) s1"
  using assms that by (auto simp: message_wake_def sbind_eq_Inr split: if_splits)

lemma message_wake_steps:
  assumes ok: "store_ok s"
  shows "step_ok s (fst (create_auto_research_message_wake_task E s t role recipient ks))"
  unfolding create_auto_research_message_wake_task_def
  by (rule transact_commits [OF ok])
     (auto simp: message_wake_def sbind_eq_Inr step_ok_refl [OF ok]
       intro: step_ok_hand_over(2) [OF paid_steps [OF ok]] split: option.splits if_splits)

lemma lifecycle_wake_steps:
  assumes ok: "store_ok s"
  shows "step_ok s (fst (create_auto_research_lifecycle_wake_task E s t ns ks))"
  unfolding create_auto_research_lifecycle_wake_task_def
  by (rule transact_commits [OF ok])
     (auto simp: lifecycle_wake_def sbind_eq_Inr step_ok_refl [OF ok]
       intro: step_ok_hand_over(1) [OF paid_steps [OF ok]] split: option.splits if_splits)

lemma recovery_ledger: "insert_recovery_task E s t i p cause = Inr u \<Longrightarrow> ledger u = ledger s"
  by (auto simp: insert_recovery_task_def sbind_eq_Inr
      dest!: ledger_insert_agent_task ledger_insert_auto_research_invocation split: option.splits)

lemma recovery_task_ledger: "ledger (fst (create_auto_research_recovery_task E s t cause)) = ledger s"
  by (auto simp: create_auto_research_recovery_task_def transact_state sbind_eq_Inr integrity_refused_def
      dest: recovery_ledger split: option.splits sum.splits if_splits)

lemma activation_steps:
  assumes ok: "store_ok s"
  shows "step_ok s (fst (activate_auto_research_reservation s i op now))"
  unfolding activate_auto_research_reservation_def
proof (rule transact_commits [OF ok])
  fix t x
  assume "(case (dget (st_episodes s) i, dget (st_tasks s) op) of
        (Some row, Some t) \<Rightarrow> sbind (episode_row row) (\<lambda>e.
          if \<not> reservation_bound e t i op then Inl StoreValueError
          else if ep_status e = ERunning then Inr (s, ())
          else if ep_status e \<noteq> EQueued \<or> ep_ending e \<noteq> None then Inl StoreValueError
          else Inr (on_episode i (\<lambda>e. e\<lparr>ep_status := ERunning, ep_updated_at := now\<rparr>) s, ()))
      | _ \<Rightarrow> Inl StoreKeyError) = Inr (t, x)"
  then obtain e where e: "dget (st_episodes s) i = Some e"
    and t: "t = s \<or> ep_status e = EQueued \<and> t = on_episode i (\<lambda>e. e\<lparr>ep_status := ERunning, ep_updated_at := now\<rparr>) s"
    by (auto simp: sbind_eq_Inr split: option.splits if_splits)
  obtain v where v: "view_of s i = Some v" "vw_episode v = e" by (rule view_of_row [OF e])
  have "step_ok s (on_episode i (\<lambda>e. e\<lparr>ep_status := ERunning, ep_updated_at := now\<rparr>) s)" if "ep_status e = EQueued"
    by (rule step_on_episode [OF ok v(1)], simp, rule view_move.activate) (simp add: v(2) that)
  then show "step_ok s t" using t step_ok_refl [OF ok] by blast
qed

section \<open>Spawned Work\<close>

lemma ledger_work_rows:
  "insert_child_work s c = Inr u \<Longrightarrow> ledger u = ledger s"
  "insert_work_attempt s w t k = Inr u \<Longrightarrow> ledger u = ledger s"
  "advance_work s w t = Inr u \<Longrightarrow> ledger u = ledger s"
  "claim_work_mail s t ks = Inr u \<Longrightarrow> ledger u = ledger s"
  "reflect_auto_research_child_admission s b i kind child now = Inr u \<Longrightarrow> ledger u = ledger s"
  by (auto simp: insert_child_work_def insert_work_attempt_def advance_work_def claim_work_mail_def
      reflect_auto_research_child_admission_def on_admission_def ledger_def on_messages_def split: if_splits option.splits)

lemma work_spend_result:
  assumes "spend_for_work s e t = Inr s2"
  obtains s1 where "insert_invocation s (paid_row (ep_episode_id e) t (ep_invocations_used e + 1)) = Inr s1"
    "s2 = on_episode (ep_episode_id e) (\<lambda>e. e\<lparr>ep_invocations_used := ep_invocations_used e + 1,
       ep_updated_at := tk_created_at t\<rparr>) s1"
  using assms that by (auto simp: spend_for_work_def sbind_eq_Inr split: option.splits if_splits)

lemma work_spend_steps:
  assumes ok: "store_ok s" and row: "dget (st_episodes s) i = Some e" and st: "ep_status e = ERunning"
    and ceil: "ep_invocations_used e < ep_invocation_ceiling e" and l: "ledger s1 = ledger s"
    and spend: "spend_for_work s1 e t = Inr s3"
  shows "step_ok s s3"
proof (rule work_spend_result [OF spend])
  fix s2
  assume iv: "insert_invocation s1 (paid_row (ep_episode_id e) t (ep_invocations_used e + 1)) = Inr s2"
    and s3: "s3 = on_episode (ep_episode_id e) (\<lambda>e. e\<lparr>ep_invocations_used := ep_invocations_used e + 1,
       ep_updated_at := tk_created_at t\<rparr>) s2"
  have id: "ep_episode_id e = i" using ok row keyed_dget by (fastforce simp: store_ok_def store_shape_def)
  obtain v where v: "view_of s i = Some v" "vw_episode v = e" by (rule view_of_row [OF row])
  have same: "e\<lparr>ep_invocations_used := ep_invocations_used e + 1, ep_updated_at := tk_created_at t\<rparr>
      = e\<lparr>ep_root_operation_id := ep_root_operation_id e, ep_status := ERunning,
        ep_invocations_used := ep_invocations_used e + 1, ep_updated_at := tk_created_at t\<rparr>"
    using st by (cases e) simp
  have mv: "view_move v (v\<lparr>vw_episode := (vw_episode v)\<lparr>ep_invocations_used := ep_invocations_used (vw_episode v) + 1,
      ep_updated_at := tk_created_at t\<rparr>, vw_numbers := vw_numbers v @ [ep_invocations_used (vw_episode v) + 1]\<rparr>)"
    unfolding v(2) same using view_move.spend [of v _ "tk_created_at t" "ep_root_operation_id e"] v(2) st ceil by simp
  have "dhas i (st_episodes s1)" by (rule row_present [OF row l])
  then have sh: "store_shape s2" using shape_insert_invocation [OF shape_ledger_trans [OF ok l] iv] by (simp add: paid_row_def id)
  show ?thesis
  proof (rule step_one [OF ok _ v(1) _ mv])
    show "store_shape s3" unfolding s3 by (rule shape_on_episode [OF sh]) simp
  qed (simp_all add: s3 view_simps view_insert_invocation [OF iv] view_of_ledger [OF l] paid_row_def id v)
qed

lemma parent_accepts: "validate_auto_research_parent_admission e = Inr x
    \<longleftrightarrow> ep_status e = ERunning \<and> ep_ending e = None \<and> ep_stop_requested_at e = None"
  by (auto simp: validate_auto_research_parent_admission_def)

lemma spawn_result:
  assumes "spawn_work E s c t b = Inr s5"
  obtains e s1 s2 s3 s4 where "load_auto_research_episode s (cw_episode_id c) = Inr e" "ep_status e = ERunning"
    "ep_invocations_used e < ep_invocation_ceiling e" "insert_agent_task E s t ''fresh'' = Inr s1"
    "insert_child_work s1 c = Inr s2" "insert_work_attempt s2 (cw_worker_id c) t (tk_operation_id t) = Inr s3"
    "spend_for_work s3 e t = Inr s4"
    "reflect_auto_research_child_admission s4 b (cw_episode_id c) WorkChild (cw_worker_id c) (tk_created_at t) = Inr s5"
  using assms that by (auto simp: spawn_work_def sbind_eq_Inr parent_accepts)

lemma resume_result:
  assumes "resume_work E s w t = Inr s3"
  obtains c e q a s1 s2 where "dget (st_child_work s) w = Some c" "dget (st_tasks s) (cw_current_operation_id c) = Some q"
    "dget (st_work_attempts s) (tk_operation_id q) = Some a" "wa_worker_id a = w"
    "tk_status q \<in> {TPaused, TInterrupted, TFailed}" "continues_work c e q t"
    "insert_agent_task E s t ''resume'' = Inr s1" "insert_work_attempt s1 w t (wa_allocation_operation_id a) = Inr s2"
    "advance_work s2 w t = Inr s3"
  using assms that
  by (auto simp: resume_work_def load_child_work_def child_work_row_def current_work_task_def sbind_eq_Inr split: option.splits if_splits)

lemma wake_work_result:
  assumes "wake_work E s w t ks = Inr (u, b)"
  obtains (asleep) "u = s" "\<not> b"
  | (woken) c e q s1 s2 s3 s4 where "dget (st_child_work s) w = Some c" "dget (st_tasks s) (cw_current_operation_id c) = Some q"
      "load_auto_research_episode s (cw_episode_id c) = Inr e" "ep_status e = ERunning"
      "ep_invocations_used e < ep_invocation_ceiling e" "tk_status q = TSucceeded" "wakes_work c e q t"
      "insert_agent_task E s t ''message_wake'' = Inr s1" "insert_work_attempt s1 w t (tk_operation_id t) = Inr s2"
      "spend_for_work s2 e t = Inr s3" "advance_work s3 w t = Inr s4" "claim_work_mail s4 t ks = Inr u" "b"
  using assms that
  by (auto simp: wake_work_def admit_work_wake_def load_child_work_def child_work_row_def current_work_task_def sbind_eq_Inr
      parent_accepts split: option.splits if_splits)

lemma spawn_steps:
  assumes ok: "store_ok s"
  shows "step_ok s (fst (create_auto_research_child_work E s c t b))"
  unfolding create_auto_research_child_work_def
proof (rule transact_commits [OF ok])
  fix u x
  assume "(if \<not> child_work_shape c t then Inl StoreValueError
      else integrity_refused (sbind (spawn_work E s c t b) (\<lambda>s1. Inr (s1, ())))) = Inr (u, x)"
  then have "spawn_work E s c t b = Inr u" by (auto simp: sbind_eq_Inr split: if_splits)
  then show "step_ok s u"
  proof (rule spawn_result)
    fix e s1 s2 s3 s4
    assume load: "load_auto_research_episode s (cw_episode_id c) = Inr e" and st: "ep_status e = ERunning"
      "ep_invocations_used e < ep_invocation_ceiling e" and "insert_agent_task E s t ''fresh'' = Inr s1"
      "insert_child_work s1 c = Inr s2" "insert_work_attempt s2 (cw_worker_id c) t (tk_operation_id t) = Inr s3"
      and spend: "spend_for_work s3 e t = Inr s4"
      and refl: "reflect_auto_research_child_admission s4 b (cw_episode_id c) WorkChild (cw_worker_id c) (tk_created_at t) = Inr u"
    then have "ledger s3 = ledger s" by (simp add: ledger_insert_agent_task ledger_work_rows)
    then have "step_ok s s4" using load st spend by (intro work_spend_steps [OF ok, of "cw_episode_id c"]) (simp_all add: load_auto_Inr)
    then show ?thesis using ledger_work_rows(5) [OF refl] by (metis step_ok_ledger)
  qed
qed

lemma work_wake_steps:
  assumes ok: "store_ok s"
  shows "step_ok s (fst (create_auto_research_child_work_message_wake_task E s w t ks))"
  unfolding create_auto_research_child_work_message_wake_task_def
proof (rule transact_commits [OF ok])
  fix u x
  assume "(if w = [] \<or> ks = [] \<or> \<not> distinct ks \<or> AUTO_RESEARCH_MAIL_MAX_MESSAGES < length ks then Inl StoreValueError
      else integrity_refused (wake_work E s w t ks)) = Inr (u, x)"
  then have "wake_work E s w t ks = Inr (u, x)" by (auto split: if_splits)
  then show "step_ok s u"
  proof (cases rule: wake_work_result)
    case asleep
    then show ?thesis by (simp add: step_ok_refl [OF ok])
  next
    case (woken c e q s1 s2 s3 s4)
    then have "ledger s2 = ledger s" by (simp add: ledger_insert_agent_task ledger_work_rows)
    then have "step_ok s s3" using woken by (intro work_spend_steps [OF ok, of "cw_episode_id c"]) (simp_all add: load_auto_Inr)
    moreover have "ledger u = ledger s3" using woken by (simp add: ledger_work_rows)
    ultimately show ?thesis by (metis step_ok_ledger)
  qed
qed

lemma resume_ledger: "ledger (fst (create_auto_research_child_work_recovery E s w t)) = ledger s"
proof -
  have "ledger u = ledger s" if "resume_work E s w t = Inr u" for u
    using that by (rule resume_result) (simp add: ledger_insert_agent_task ledger_work_rows)
  then show ?thesis
    by (auto simp: create_auto_research_child_work_recovery_def transact_state sbind_eq_Inr split: sum.splits)
qed

section \<open>Starting\<close>

lemma start_result:
  assumes "start_research E s e st t = Inr s6"
  obtains u actor seat s1 s2 s3 s4 s5 where "insert_episode s e = Inr s1" "insert_auto_research_state s1 st = Inr s2"
    "bind_auto_research_actor s2 e t OrchestratorRole False = Inr (u, actor, seat)" "insert_agent_task E s2 u ''fresh'' = Inr s3"
    "insert_invocation s3 (paid_row (ep_episode_id e) t 1) = Inr s4"
    "insert_auto_research_invocation s4 (turn_row (ep_episode_id e) t (tk_operation_id t) OrchestratorRole actor seat) = Inr s5"
    "s6 = on_episode (ep_episode_id e) (\<lambda>e. if ep_invocations_used e = 0
       then e\<lparr>ep_invocations_used := 1, ep_updated_at := tk_created_at t\<rparr> else e) s5"
  using assms that by (auto simp: start_research_def sbind_eq_Inr)

lemma start_steps:
  assumes ok: "store_ok s" and coh: "episode_coherent e"
  shows "step_ok s (fst (create_auto_research_episode_with_root_task E s e st t active))
    \<or> birth s (fst (create_auto_research_episode_with_root_task E s e st t active))"
  unfolding create_auto_research_episode_with_root_task_def
proof (rule transact_grows [OF ok])
  fix s6 x
  let ?r = "rooted_episode e t active"
  let ?e = "?r\<lparr>ep_invocations_used := 1, ep_updated_at := tk_created_at t\<rparr>"
  assume "sbind (validate_new_episode e) (\<lambda>_.
      if \<not> research_root_shape e st t then Inl StoreValueError
      else sbind (integrity_refused (start_research E s ?r st t)) (\<lambda>s1. Inr (s1, ()))) = Inr (s6, x)"
  then obtain y where new: "validate_new_episode e = Inr y" and run: "start_research E s ?r st t = Inr s6"
    by (auto simp: sbind_eq_Inr split: if_splits)
  obtain u actor seat s1 s2 s3 s4 s5 where ins: "insert_episode s ?r = Inr s1" and st: "insert_auto_research_state s1 st = Inr s2"
    and tk: "insert_agent_task E s2 u ''fresh'' = Inr s3"
    and iv: "insert_invocation s3 (paid_row (ep_episode_id ?r) t 1) = Inr s4"
    and ai: "insert_auto_research_invocation s4 (turn_row (ep_episode_id ?r) t (tk_operation_id t) OrchestratorRole actor seat) = Inr s5"
    and s6: "s6 = on_episode (ep_episode_id ?r) (\<lambda>e. if ep_invocations_used e = 0
       then e\<lparr>ep_invocations_used := 1, ep_updated_at := tk_created_at t\<rparr> else e) s5"
    by (rule start_result [OF run])
  have l: "ledger s3 = ledger s1" "ledger s5 = ledger s4"
    using ledger_insert_agent_task [OF tk] ledger_insert_auto_research_state [OF st] ledger_insert_auto_research_invocation [OF ai]
    by simp_all
  have id: "ep_episode_id ?r = ep_episode_id e" and unused: "ep_invocations_used ?r = 0"
    using new by (simp_all add: rooted_episode_def validate_new_episode_def)
  have sh: "store_shape s3"
    using shape_insert_episode [OF store_shape_ok [OF ok] ins] store_shape_ledger [OF l(1)] by simp
  have "dhas (ep_episode_id e) (st_episodes s3)"
    using insert_episode_result(2) [OF ins] l(1) by (simp add: ledger_def dhas_def id)
  then have "store_shape s4" using shape_insert_invocation [OF sh iv] by (simp add: paid_row_def id)
  then have "store_shape s5" using store_shape_ledger [OF l(2)] by simp
  then have shape: "store_shape s6" unfolding s6 by (rule shape_on_episode) simp
  have view: "view_of s6 j = (if j = ep_episode_id e then Some \<lparr>vw_episode = ?e, vw_numbers = [1],
      vw_attempts = [], vw_wrapup = None, vw_reports = []\<rparr> else view_of s j)" for j
    unfolding s6
    by (simp add: view_simps view_of_ledger [OF l(2)] view_insert_invocation [OF iv] view_of_ledger [OF l(1)]
        view_insert_episode [OF store_shape_ok [OF ok] ins] paid_row_def id unused)
  have good: "view_ok \<lparr>vw_episode = ?e, vw_numbers = [1], vw_attempts = [], vw_wrapup = None, vw_reports = []\<rparr>"
    using new coh by (simp add: rooted_episode_def validate_new_episode_def new_view)
  have fresh: "\<not> dhas (ep_episode_id e) (st_episodes s)" using insert_episode_result(1) [OF ins] id by simp
  have "\<not> live_episode_row s ?r"
    using ins by (auto simp: insert_episode_def rooted_episode_def is_live_def LIVE_EPISODE_STATUSES_def split: if_splits)
  then have "\<not> live_episode_row s ?e" by (simp add: live_episode_row_def same_live_key_def)
  then have "birth s s6" by (intro birthI [OF ok fresh shape good view]) simp
  then show "step_ok s s6 \<or> birth s s6" ..
qed

end
