(* ===== verification/EpisodeRuns.thy ===== *)
theory EpisodeRuns
  imports EpisodeReports ResearchSteps
begin

text \<open>
  Sequences of ledger operations without late report errors: the steps a store can take, the reachable stores, what
  the moves of an episode keep, and the invariant of the reachable stores. A locale carries
  what a single step shows to whole runs, once for the rows of an episode and once for its phases.
\<close>

section \<open>Steps of the store\<close>

text \<open>
  The store itself accepts a report error for an attempt that has already failed, whatever became of
  its episode since. The runs below are those without such late errors: an error is recorded only
  for an attempt that is still queued or running, as the report task does with the attempt it has
  just launched or found running. What a late error does is shown apart from them.
\<close>

definition report_error_in_time :: "store \<Rightarrow> string \<Rightarrow> bool" where
  "report_error_in_time s a \<longleftrightarrow> (\<forall>r. dget (st_attempts s) a = Some r \<longrightarrow> is_live_attempt r)"

text \<open>
  One rule per operation of \<open>EpisodeStoreMixin\<close> that writes, and one per operation of
  \<open>AutoResearchStoreMixin\<close> that starts, activates or charges an episode: starts, activations, turns,
  wakes and spawned workers. Records are built through their validators and report errors are in
  time. The restore rule runs the two detachments of \<open>EpisodeStoreMixin\<close>, of the reports and then of the
  experiments. The last rule is any write to the tables outside the ledger, a recovery among them.
  Not among the steps are the other writers of the episode tables: the Auto-research detachment of a
  restore, the creation of a child Experiment and its watcher invocations, deleting or re-homing a
  project, and importing a transferred one.
\<close>

inductive lifecycle_step :: "store_env \<Rightarrow> store \<Rightarrow> store \<Rightarrow> bool" for E where
  l_create: "episode_coherent e \<Longrightarrow> lifecycle_step E s (fst (create_episode s e))"
| l_create_with: "episode_coherent e \<Longrightarrow> lifecycle_step E s (fst (create_episode_with_invocation E s e t))"
| l_invoke: "lifecycle_step E s (fst (allocate_episode_invocation E s i t cause now))"
| l_stop: "lifecycle_step E s (fst (request_episode_stop s i now))"
| l_fence: "lifecycle_step E s (fst (fence_episode_ending s i x d now))"
| l_begin: "wrapup_coherent w \<Longrightarrow> lifecycle_step E s (fst (begin_episode_wrapup E s i w t now))"
| l_unreported: "lifecycle_step E s (fst (end_episode_without_report E s i x d now))"
| l_unlaunchable: "lifecycle_step E s (fst (fail_episode_wrapup_unlaunchable E s i w d now))"
| l_skip: "lifecycle_step E s (fst (mark_episode_stop_skipped E s i d now))"
| l_attempt: "lifecycle_step E s (fst (allocate_episode_report_attempt s i fresh_id now))"
| l_running: "lifecycle_step E s (fst (mark_episode_report_attempt_running s a now))"
| l_error: "report_error_in_time s a
    \<Longrightarrow> lifecycle_step E s (fst (record_episode_report_attempt_error E s a error now))"
| l_final_error: "report_error_in_time s a
    \<Longrightarrow> lifecycle_step E s (fst (finish_episode_report_error E s a error now))"
| l_requeue: "lifecycle_step E s (fst (requeue_interrupted_episode_report_allocation E s i now))"
| l_unlaunched: "lifecycle_step E s (fst (fail_episode_report_allocation_unlaunchable E s i raw now))"
| l_ready: "lifecycle_step E s (fst (finish_episode_report_ready E s a q now))"
| l_start: "episode_coherent e
    \<Longrightarrow> lifecycle_step E s (fst (create_auto_research_episode_with_root_task E s e st t active))"
| l_activate: "lifecycle_step E s (fst (activate_auto_research_reservation s i op now))"
| l_turn: "lifecycle_step E s (fst (create_auto_research_agent_task E s t role cause))"
| l_message_wake: "lifecycle_step E s (fst (create_auto_research_message_wake_task E s t role recipient ks))"
| l_lifecycle_wake: "lifecycle_step E s (fst (create_auto_research_lifecycle_wake_task E s t ns ks))"
| l_spawn: "lifecycle_step E s (fst (create_auto_research_child_work E s c t admission))"
| l_work_wake: "lifecycle_step E s (fst (create_auto_research_child_work_message_wake_task E s w t ks))"
| l_restore: "detach_episode_reports_for_restore E s d now = Inr t
    \<Longrightarrow> detach_experiment_episodes_for_restore E t d now = Inr u \<Longrightarrow> lifecycle_step E s u"
| l_other: "ledger t = ledger s \<Longrightarrow> lifecycle_step E s t"

inductive reachable :: "store_env \<Rightarrow> store \<Rightarrow> bool" for E where
  r_empty: "ledger s = ([], [], [], [], []) \<Longrightarrow> reachable E s"
| r_step: "reachable E s \<Longrightarrow> lifecycle_step E s t \<Longrightarrow> reachable E t"

lemma restore_steps:
  assumes ok: "store_ok s" and r: "detach_episode_reports_for_restore E s d now = Inr t"
    and x: "detach_experiment_episodes_for_restore E t d now = Inr u"
  shows "step_ok s u"
proof -
  note a = detach_reports_steps [OF ok r]
  have d: "restore_detail d \<noteq> []" "se_timestamp E now" using r by (auto simp: detach_episode_reports_for_restore_def Let_def split: if_splits)
  show ?thesis
    using restore_succeeds [OF step_keeps_ok [OF ok a(1)] a(2) d] x step_ok_trans [OF a(1)]
    by (metis sum.inject(2))
qed

lemma lifecycle_steps:
  assumes "lifecycle_step E s t" and ok: "store_ok s"
  shows "step_ok s t \<or> birth s t"
  using assms(1)
proof cases
  case (l_create e)
  then show ?thesis using create_steps [OF ok] by simp
next
  case (l_create_with e t)
  then show ?thesis using create_with_steps [OF ok] by simp
next
  case (l_start e st t active)
  then show ?thesis using start_steps [OF ok] by simp
next
  case (l_restore d now t)
  then show ?thesis using restore_steps [OF ok] by blast
next
  case l_other
  then show ?thesis using step_ok_ledger [OF _ step_ok_refl [OF ok]] by metis
qed (simp_all add: ok stop_steps fence_steps invoke_steps begin_steps unreported_steps unlaunchable_steps
    skip_steps activation_steps paid_task_steps message_wake_steps lifecycle_wake_steps spawn_steps work_wake_steps
    attempt_steps running_steps error_steps requeue_steps unlaunched_steps ready_steps
    report_error_in_time_def record_episode_report_attempt_error_def finish_episode_report_error_def)

section \<open>What moves keep\<close>

text \<open>What is fixed for the life of an episode.\<close>

definition identity :: "episode_record \<Rightarrow> string \<times> string \<times> episode_mode \<times> string option \<times> graph_target
    \<times> graph_head option \<times> int \<times> authorized_human option \<times> string" where
  "identity e = (ep_episode_id e, ep_project_id e, ep_mode e, ep_control_node_id e, ep_graph_target e,
     ep_graph_base_head e, ep_invocation_ceiling e, ep_authorized_by e, ep_created_at e)"

lemma move_keeps_identity: "view_move v w \<Longrightarrow> identity (vw_episode w) = identity (vw_episode v)"
  by (cases rule: view_move.cases) (auto simp: identity_def stopped_episode_def failed_report_episode_def)

lemma terminal_not_live: "is_live e \<longleftrightarrow> \<not> terminal_status (ep_status e)"
  by (cases "ep_status e") (simp_all add: is_live_def LIVE_EPISODE_STATUSES_def terminal_status_def)

text \<open>A closed episode keeps its row, its invocations and its report.\<close>

lemma move_keeps_closed:
  assumes "view_move v w" and t: "terminal_status (ep_status (vw_episode v))"
  shows "vw_episode w = vw_episode v \<and> vw_numbers w = vw_numbers v \<and> vw_reports w = vw_reports v"
  using assms(1) by cases (use t in \<open>auto simp: terminal_not_live terminal_status_def\<close>)

text \<open>A stopping episode only settles.\<close>

lemma move_keeps_stopping:
  assumes "view_move v w" and ok: "view_ok v" and t: "ep_status (vw_episode v) \<in> {EStopping, EStopped}"
  shows "ep_status (vw_episode w) \<in> {EStopping, EStopped} \<and> vw_numbers w = vw_numbers v
    \<and> map ra_attempt_number (vw_attempts w) = map ra_attempt_number (vw_attempts v) \<and> vw_reports w = vw_reports v"
  using assms(1) by cases (use t in \<open>auto simp: stopped_episode_def comp_def change_attempt_def if_distrib cong: if_cong\<close>)

section \<open>Observed systems\<close>

text \<open>
  A system whose states show an observation under each key. Every step keeps the good states
  good and moves each observation along its own relation.
\<close>

locale traced_system =
  fixes step :: "'s \<Rightarrow> 's \<Rightarrow> bool" and good :: "'s \<Rightarrow> bool"
    and obs :: "'s \<Rightarrow> 'k \<Rightarrow> 'o option" and move :: "'o \<Rightarrow> 'o \<Rightarrow> bool"
  assumes step_good: "good s \<Longrightarrow> step s t \<Longrightarrow> good t"
    and step_obs: "good s \<Longrightarrow> step s t \<Longrightarrow> obs s i = Some p \<Longrightarrow> \<exists>q. obs t i = Some q \<and> move\<^sup>*\<^sup>* p q"
begin

lemma run_good: "step\<^sup>*\<^sup>* s t \<Longrightarrow> good s \<Longrightarrow> good t"
  by (induction rule: rtranclp_induct) (auto intro: step_good)

lemma run_obs:
  assumes "step\<^sup>*\<^sup>* s t" and "good s" and "obs s i = Some p"
  shows "\<exists>q. obs t i = Some q \<and> move\<^sup>*\<^sup>* p q"
  using assms(1)
proof (induction rule: rtranclp_induct)
  case base
  then show ?case using assms(3) by auto
next
  case (step t u)
  then show ?case using step_obs [OF run_good [OF _ assms(2)]] by (metis rtranclp_trans)
qed

end

text \<open>A measure that every move lowers bounds the number of observations along a run.\<close>

locale ranked_system = traced_system step good obs move
  for step :: "'s \<Rightarrow> 's \<Rightarrow> bool" and good :: "'s \<Rightarrow> bool"
    and obs :: "'s \<Rightarrow> 'k \<Rightarrow> 'o option" and move :: "'o \<Rightarrow> 'o \<Rightarrow> bool" +
  fixes rank :: "'o \<Rightarrow> nat"
  assumes move_rank: "move p q \<Longrightarrow> rank q < rank p"
begin

lemma moves_rank: "move\<^sup>*\<^sup>* p q \<Longrightarrow> p = q \<or> rank q < rank p"
  by (induction rule: rtranclp_induct) (auto dest: move_rank)

lemma run_bounded:
  assumes "successively step ss" and "ss \<noteq> []" and "good (hd ss)" and "obs (hd ss) i = Some p"
  shows "length (remdups_adj (map (\<lambda>s. obs s i) ss)) \<le> rank p + 1"
  using assms
proof (induction ss arbitrary: p rule: induct_list012)
  case (3 s t ss)
  have st: "step s t" using "3.prems"(1) by simp
  obtain q where q: "obs t i = Some q" "move\<^sup>*\<^sup>* p q" using step_obs [OF _ st] "3.prems"(3,4) by auto
  have "length (remdups_adj (map (\<lambda>s. obs s i) (t # ss))) \<le> rank q + 1"
    using "3.IH"(2) [of q] "3.prems"(1,3) step_good [OF _ st] q(1) by simp
  then show ?case using moves_rank [OF q(2)] q(1) "3.prems"(4) by auto
qed simp_all

end

section \<open>The invariant\<close>

definition one_live :: "store \<Rightarrow> bool" where
  "one_live s \<longleftrightarrow> (\<forall>i j v w. view_of s i = Some v \<longrightarrow> view_of s j = Some w \<longrightarrow> is_live (vw_episode v)
     \<longrightarrow> same_live_key (vw_episode v) (vw_episode w) \<longrightarrow> i = j)"

definition reach_ok :: "store \<Rightarrow> bool" where
  "reach_ok s \<longleftrightarrow> store_ok s \<and> one_live s"

lemma moves_keep:
  assumes "view_move\<^sup>*\<^sup>* v w"
  shows "identity (vw_episode w) = identity (vw_episode v)"
    "terminal_status (ep_status (vw_episode v))
      \<Longrightarrow> vw_episode w = vw_episode v \<and> vw_numbers w = vw_numbers v \<and> vw_reports w = vw_reports v"
    "view_ok v \<Longrightarrow> view_ok w"
  using assms
  by (induction rule: rtranclp_induct)
     (auto simp: move_keeps_identity dest: move_keeps_closed intro: move_keeps_rows)

lemma same_live_key_identity:
  "identity e' = identity e \<Longrightarrow> identity f' = identity f \<Longrightarrow> (is_live f' \<Longrightarrow> is_live f)
    \<Longrightarrow> same_live_key e' f' \<Longrightarrow> same_live_key e f"
  by (auto simp: same_live_key_def identity_def)

lemma view_origin:
  assumes "step_ok s t" and "view_of t i = Some w"
  obtains v where "view_of s i = Some v" "view_move\<^sup>*\<^sup>* v w"
  using assms by (cases "view_of s i") (auto simp: step_ok_def dest!: spec [of _ i])

lemma one_live_step:
  assumes "one_live s" and "step_ok s t"
  shows "one_live t"
  unfolding one_live_def
proof (intro allI impI)
  fix i j v w
  assume a: "view_of t i = Some v" "view_of t j = Some w" "is_live (vw_episode v)"
    "same_live_key (vw_episode v) (vw_episode w)"
  obtain v0 where v0: "view_of s i = Some v0" "view_move\<^sup>*\<^sup>* v0 v" by (rule view_origin [OF assms(2) a(1)])
  obtain w0 where w0: "view_of s j = Some w0" "view_move\<^sup>*\<^sup>* w0 w" by (rule view_origin [OF assms(2) a(2)])
  have live: "is_live (vw_episode x)" if "view_move\<^sup>*\<^sup>* x y" "is_live (vw_episode y)" for x y
    using that moves_keep(2) [OF that(1)] by (auto simp: terminal_not_live)
  have "same_live_key (vw_episode v0) (vw_episode w0)"
    by (rule same_live_key_identity [OF moves_keep(1) [OF v0(2)] moves_keep(1) [OF w0(2)] live [OF w0(2)] a(4)])
  then show "i = j" using assms(1) v0(1) w0(1) live [OF v0(2) a(3)] unfolding one_live_def by blast
qed

lemma row_of_view: "view_of s i = Some v \<Longrightarrow> vw_episode v \<in> set (dvalues (st_episodes s))"
  by (auto simp: view_of_def intro: dget_value)

lemma same_live_key_sym: "is_live e \<Longrightarrow> same_live_key e f \<Longrightarrow> same_live_key f e"
  unfolding same_live_key_def by metis

lemma one_live_birth:
  assumes "one_live s" and "birth s t"
  shows "one_live t"
proof -
  obtain k x where t: "view_of t = (view_of s)(k \<mapsto> x)" and free: "\<not> live_episode_row s (vw_episode x)"
    using assms(2) by (auto simp: birth_def)
  have none: "\<not> same_live_key (vw_episode x) (vw_episode w)" if "view_of s j = Some w" for j w
    using free row_of_view [OF that] by (auto simp: live_episode_row_def)
  show ?thesis
    using assms(1) none same_live_key_sym by (fastforce simp: one_live_def t split: if_splits)
qed

lemma step_reach_ok: "reach_ok s \<Longrightarrow> lifecycle_step E s t \<Longrightarrow> reach_ok t"
  using lifecycle_steps [of E s t]
  by (auto simp: reach_ok_def intro: step_keeps_ok birth_keeps_ok one_live_step one_live_birth)

lemma empty_reach_ok: "ledger s = ([], [], [], [], []) \<Longrightarrow> reach_ok s"
  by (auto simp: ledger_def reach_ok_def store_ok_def store_shape_def keyed_def view_of_def one_live_def dvalues_def)

lemma reachable_ok: "reachable E s \<Longrightarrow> reach_ok s"
  by (induction rule: reachable.induct) (auto intro: empty_reach_ok step_reach_ok)

lemma step_view:
  assumes "reach_ok s" and "lifecycle_step E s t" and "view_of s i = Some v"
  shows "\<exists>w. view_of t i = Some w \<and> view_move\<^sup>*\<^sup>* v w"
  using lifecycle_steps [OF assms(2)] assms(1,3)
  by (fastforce simp: reach_ok_def step_ok_def birth_def dest: spec [of _ i])

interpretation views: traced_system "lifecycle_step E" reach_ok view_of view_move for E
  by unfold_locales (auto intro: step_reach_ok step_view)

text \<open>How many phases an episode still has before it.\<close>

fun phase_rank :: "phase \<Rightarrow> nat" where
  "phase_rank (Open u c) = nat (c - u) + 9"
| "phase_rank (Fenced x) = 8"
| "phase_rank (Reporting x n b) = 2 * nat (3 - n) + (if b then 1 else 0) + 1"
| "phase_rank Stopping = 1"
| "phase_rank (Closed x w) = 0"

lemma phase_rank_less: "phase_step p q \<Longrightarrow> phase_rank q < phase_rank p"
  by (induction rule: phase_step.induct) auto

definition phase_in :: "store \<Rightarrow> string \<Rightarrow> phase option" where
  "phase_in s i = map_option phase_of (view_of s i)"

lemma moves_follow_phases:
  assumes "view_move\<^sup>*\<^sup>* v w" and ok: "view_ok v"
  shows "phase_step\<^sup>*\<^sup>* (phase_of v) (phase_of w)"
  using assms(1)
proof (induction rule: rtranclp_induct)
  case (step w x)
  then have "phase_step\<^sup>=\<^sup>= (phase_of w) (phase_of x)"
    using move_follows_phases moves_keep(3) [OF _ ok] by blast
  then show ?case using step.IH by auto
qed simp

interpretation phases: ranked_system "lifecycle_step E" reach_ok phase_in phase_step phase_rank for E
proof unfold_locales
  show "\<exists>q. phase_in t i = Some q \<and> phase_step\<^sup>*\<^sup>* p q"
    if "reach_ok s" "lifecycle_step E s t" "phase_in s i = Some p" for s t i p
    using that step_view [OF that(1,2)] moves_follow_phases view_is_ok [of s]
    by (fastforce simp: phase_in_def reach_ok_def)
qed (auto intro: step_reach_ok phase_rank_less)

section \<open>Reading a view\<close>

lemma view_at:
  assumes "view_of s i = Some v"
  shows "dget (st_episodes s) i = Some (vw_episode v)" "attempts_for s i = vw_attempts v"
    "map iv_invocation_number (filter (\<lambda>j. iv_episode_id j = i) (st_invocations s)) = vw_numbers v"
    "dget (st_wrapups s) i = vw_wrapup v" "filter (\<lambda>r. rr_episode_id r = i) (st_reports s) = vw_reports v"
  using assms by (auto simp: view_of_def)

lemma view_reads:
  assumes "reachable E s" and "dget (st_episodes s) i = Some e"
  obtains v where "view_of s i = Some v" "vw_episode v = e" "view_ok v" "vw_attempts v = attempts_for s i"
    "vw_numbers v = map iv_invocation_number (filter (\<lambda>j. iv_episode_id j = i) (st_invocations s))"
    "vw_wrapup v = dget (st_wrapups s) i" "vw_reports v = filter (\<lambda>r. rr_episode_id r = i) (st_reports s)"
proof -
  obtain v where v: "view_of s i = Some v" by (rule view_of_row [OF assms(2)])
  then have "view_ok v" using view_is_ok reachable_ok [OF assms(1)] by (auto simp: reach_ok_def)
  then show ?thesis using view_at [OF v] v assms(2) by (intro that [OF v]) simp_all
qed

lemma report_of_view: "view_of s i = Some v \<Longrightarrow> (episode_report s i = None) = (vw_reports v = [])"
  using view_at(5) [of s i v] by (auto simp: episode_report_def find_None_iff filter_empty_conv)

lemma run_view:
  assumes "reachable E s" and "(lifecycle_step E)\<^sup>*\<^sup>* s t" and "view_of s i = Some v"
  obtains w where "view_of t i = Some w" "view_move\<^sup>*\<^sup>* v w"
  using views.run_obs [OF assms(2) reachable_ok [OF assms(1)] assms(3)] by auto

lemma moves_keep_stopping:
  assumes "view_move\<^sup>*\<^sup>* v w" and ok: "view_ok v" and st: "ep_status (vw_episode v) \<in> {EStopping, EStopped}"
  shows "ep_status (vw_episode w) \<in> {EStopping, EStopped} \<and> vw_numbers w = vw_numbers v
    \<and> map ra_attempt_number (vw_attempts w) = map ra_attempt_number (vw_attempts v) \<and> vw_reports w = vw_reports v"
  using assms(1)
proof (induction rule: rtranclp_induct)
  case (step w x)
  then show ?case using move_keeps_stopping [OF step.hyps(2)] moves_keep(3) [OF step.hyps(1) ok] by simp
qed (use st in simp)

lemma phase_rank_episode:
  "view_ok v \<Longrightarrow> phase_rank (phase_of v)
    \<le> nat (ep_invocation_ceiling (vw_episode v) - ep_invocations_used (vw_episode v)) + 9"
  using view_parts(2) [of v] no_numbers by (auto simp: phase_of_def Let_def counters_ok_def)

end
