(* ===== verification/EpisodeProps.thy ===== *)
theory EpisodeProps
  imports EpisodeRuns
begin

text \<open>
  What the episode ledger guarantees along the runs of \<open>lifecycle_step\<close>, in which a report error is
  recorded only for an attempt that is still queued or running, with a small history of one
  experiment loop on which each property is applied; and what a late report error does.
\<close>

section \<open>A sample history\<close>

definition demo_env :: store_env where
  "demo_env = \<lparr>se_str = \<lambda>_. [], se_sha256 = \<lambda>_. ''0'', se_uuid5 = id, se_timestamp = \<lambda>_. True\<rparr>"

definition demo_episode :: episode_record where
  "demo_episode = \<lparr>ep_episode_id = ''e1'', ep_project_id = ''p'', ep_mode = ExperimentLoopMode,
     ep_control_node_id = Some ''n1'', ep_graph_target = MainTarget, ep_graph_base_head = None,
     ep_root_operation_id = None, ep_status = EQueued, ep_invocation_ceiling = 2, ep_invocations_used = 0,
     ep_authorized_by = Some \<lparr>ah_space_id = ''s'', ah_user_id = ''u'', ah_display_name = ''U''\<rparr>,
     ep_stop_requested_at = None, ep_stop_settled_at = None, ep_ending = None, ep_ending_diagnostic = None,
     ep_wrapup_state = WNotStarted, ep_wrapup_error = None, ep_report_attempts_used = 0,
     ep_created_at = ''t0'', ep_updated_at = ''t0'', ep_ended_at = None\<rparr>"

definition demo_task :: "string \<Rightarrow> task_kind \<Rightarrow> agent_task" where
  "demo_task op k = \<lparr>tk_operation_id = op, tk_project_id = ''p'', tk_episode_id = Some ''e1'', tk_kind = k,
     tk_status = TQueued, tk_request = [], tk_created_at = ''t0'', tk_updated_at = ''t0'', tk_started_at = None,
     tk_finished_at = None, tk_status_message = ''Queued'', tk_error = None, tk_attempt = 1,
     tk_parent_operation_id = None, tk_native_session_id = None, tk_stage_host = None, tk_stage_root = None,
     tk_graph_target = MainTarget, tk_write_scope_fingerprint = None, tk_phase = ''queued'',
     tk_last_activity_at = None, tk_dispatch_authority = None, tk_authorized_by = None, tk_visible = True,
     tk_result = None, tk_rest = []\<rparr>"

definition demo_wrapup :: wrapup_record where
  "demo_wrapup = \<lparr>wu_episode_id = ''e1'', wu_ending = Some EndCompleted, wu_partial = False,
     wu_concluding_operation_id = Some ''o1'', wu_allocation_operation_id = Some ''r1'',
     wu_provider = Some ''codex'', wu_run_on = Some ''local'', wu_execution_host = Some ''h'',
     wu_native_session_id = Some ''n'', wu_stage_host = None, wu_stage_root = Some ''/s'',
     wu_skill_id = Some ''k'', wu_skill_version = Some ''1'', wu_output_name = Some ''report.html'',
     wu_output_path = Some ''/s/report.html'', wu_receipt_json = ''{}'', wu_receipt_sha256 = ''0'',
     wu_state = WPending, wu_diagnostic = None, wu_created_at = ''t2'', wu_updated_at = ''t2'',
     wu_finished_at = None\<rparr>"

definition demo_report_task :: agent_task where
  "demo_report_task = (demo_task ''r1'' EpisodeReportTask)\<lparr>tk_visible := False, tk_parent_operation_id := Some ''o1'',
     tk_native_session_id := Some ''n'', tk_stage_root := Some ''/s'',
     tk_request := [(''provider'', VStr ''codex''), (''run_on'', VStr ''local''), (''execution_host'', VStr ''h'')]\<rparr>"

text \<open>Opened with its first invocation, then stopped; or reported on, with a failed report.\<close>

definition demo_open :: store where
  "demo_open = fst (create_episode_with_invocation demo_env empty_store demo_episode (demo_task ''o1'' ProjectChatTask))"

definition demo_stopping :: store where
  "demo_stopping = fst (request_episode_stop demo_open ''e1'' ''t1'')"

definition demo_reporting :: store where
  "demo_reporting = fst (allocate_episode_report_attempt
     (fst (begin_episode_wrapup demo_env demo_open ''e1'' demo_wrapup demo_report_task ''t2'')) ''e1'' ''a1'' ''t3'')"

definition demo_failed :: store where
  "demo_failed = fst (finish_episode_report_error demo_env demo_reporting ''a1'' ''no output'' ''t4'')"

definition demo_row :: "store \<Rightarrow> episode_record" where
  "demo_row s = the (dget (st_episodes s) ''e1'')"

lemma demo_open_reachable: "reachable demo_env demo_open"
proof -
  have "reachable demo_env empty_store" by (rule r_empty) (simp add: empty_store_def ledger_def)
  moreover have "episode_coherent demo_episode" by code_simp
  ultimately show ?thesis unfolding demo_open_def by (blast intro: r_step l_create_with)
qed

lemma demo_stopping_reachable: "reachable demo_env demo_stopping"
  unfolding demo_stopping_def by (rule r_step [OF demo_open_reachable l_stop])

lemma demo_reporting_reachable: "reachable demo_env demo_reporting"
proof -
  have "wrapup_coherent demo_wrapup" by code_simp
  then show ?thesis unfolding demo_reporting_def by (blast intro: r_step demo_open_reachable l_begin l_attempt)
qed

lemma demo_error_in_time: "report_error_in_time demo_reporting ''a1''"
proof -
  have "map_option is_live_attempt (dget (st_attempts demo_reporting) ''a1'') = Some True" by code_simp
  then show ?thesis by (auto simp: report_error_in_time_def)
qed

lemma demo_failed_reachable: "reachable demo_env demo_failed"
  unfolding demo_failed_def by (rule r_step [OF demo_reporting_reachable l_final_error [OF demo_error_in_time]])

lemma demo_settles: "(lifecycle_step demo_env)\<^sup>*\<^sup>* demo_stopping
    (fst (mark_episode_stop_skipped demo_env demo_stopping ''e1'' None ''t5''))"
  by (rule r_into_rtranclp, rule l_skip)

definition demo_spent :: store where
  "demo_spent = fst (allocate_episode_invocation demo_env demo_open ''e1'' (demo_task ''o2'' ProjectChatTask)
     ''fresh'' ''t1'')"

lemma demo_failed_attempt:
  obtains r where "dget (st_attempts demo_failed) ''a1'' = Some r" "ra_status r = AFailed" "ra_attempt_number r < 3"
    "ra_episode_id r = ''e1''"
proof -
  have "map_option (\<lambda>r. (ra_status r, ra_attempt_number r, ra_episode_id r)) (dget (st_attempts demo_failed) ''a1'')
      = Some (AFailed, 1, ''e1'')" by code_simp
  then show ?thesis using that by auto
qed

lemma find_append_None: "find P xs = None \<Longrightarrow> find P (xs @ ys) = find P ys"
  by (induction xs) (auto split: if_splits)

lemma charged_row:
  assumes "find (\<lambda>j. iv_operation_id j = tk_operation_id t) (st_invocations s) = None"
    and "spend_invocation E s i t cause now = Inr (s1, n)"
  shows "find (\<lambda>j. iv_operation_id j = tk_operation_id t) (st_invocations s1) = Some n \<and> iv_episode_id n = i
    \<and> invocation_row n = Inr n"
proof -
  obtain s2 s3 where l: "ledger s2 = ledger s" and ins: "insert_invocation s2 n = Inr s3"
    and n: "iv_episode_id n = i" "iv_operation_id n = tk_operation_id t" and s1: "st_invocations s1 = st_invocations s3"
    using assms(2) unfolding spend_invocation_def Let_def on_episode_def
    by (simp only: result_simps) (force dest: ledger_insert_agent_task)
  have "st_invocations s3 = st_invocations s @ [n]" "1 \<le> iv_invocation_number n"
    using ins l by (auto simp: insert_invocation_def ledger_def split: if_splits)
  then show ?thesis using assms(1) n s1 by (simp add: find_append_None invocation_row_def)
qed

lemma charged_invocation:
  assumes "allocate_episode_invocation E s i t cause now = (s1, Inr (e, n, u))"
  shows "tk_kind t \<noteq> EpisodeReportTask" "tk_visible t" "tk_episode_id t = Some i"
    "sbind (reread (episode s1 i)) (\<lambda>e. sbind (reread_task s1 (tk_operation_id t)) (\<lambda>u. Inr (e, n, u))) = Inr (e, n, u)"
    "find (\<lambda>j. iv_operation_id j = tk_operation_id t) (st_invocations s1) = Some n" "iv_episode_id n = i"
    "invocation_row n = Inr n"
proof -
  show a: "tk_kind t \<noteq> EpisodeReportTask" "tk_visible t" "tk_episode_id t = Some i"
    using assms by (auto simp: allocate_episode_invocation_def transact_def split: if_splits)
  obtain m where b: "(case find (\<lambda>j. iv_operation_id j = tk_operation_id t) (st_invocations s) of
        Some j \<Rightarrow>
          if iv_episode_id j \<noteq> i then Inl StoreValueError
          else if \<not> dhas (tk_operation_id t) (st_tasks s) then Inl StoreRuntimeError
          else sbind (invocation_row j) (\<lambda>spent. Inr (s, spent))
      | None \<Rightarrow> spend_invocation E s i t cause now) = Inr (s1, m)"
    and r: "sbind (reread (episode s1 i)) (\<lambda>e. sbind (reread_task s1 (tk_operation_id t)) (\<lambda>u. Inr (e, m, u))) = Inr (e, n, u)"
    using assms a unfolding allocate_episode_invocation_def transact_def by (auto split: sum.splits)
  have m: "m = n" using r by (auto simp: sbind_eq_Inr)
  show "sbind (reread (episode s1 i)) (\<lambda>e. sbind (reread_task s1 (tk_operation_id t)) (\<lambda>u. Inr (e, n, u))) = Inr (e, n, u)"
    using r m by simp
  have "find (\<lambda>j. iv_operation_id j = tk_operation_id t) (st_invocations s1) = Some n \<and> iv_episode_id n = i
      \<and> invocation_row n = Inr n"
  proof (cases "find (\<lambda>j. iv_operation_id j = tk_operation_id t) (st_invocations s)")
    case None
    then show ?thesis using charged_row b m by simp
  next
    case (Some j)
    then show ?thesis using b m by (auto simp: sbind_eq_Inr invocation_row_def split: if_splits)
  qed
  then show "find (\<lambda>j. iv_operation_id j = tk_operation_id t) (st_invocations s1) = Some n" "iv_episode_id n = i"
    "invocation_row n = Inr n" by simp_all
qed

lemma demo_rows:
  "dget (st_episodes demo_open) ''e1'' = Some (demo_row demo_open)"
  "dget (st_episodes demo_stopping) ''e1'' = Some (demo_row demo_stopping)"
  "dget (st_episodes demo_reporting) ''e1'' = Some (demo_row demo_reporting)"
  "dget (st_episodes demo_failed) ''e1'' = Some (demo_row demo_failed)"
  by (code_simp, code_simp, code_simp, code_simp)

section \<open>Properties\<close>

text \<open>C12: The operational budget of an episode: in every store reached by the operations of the episode
  store and the Auto-research starts, activations, turns, wakes and worker spawns, report errors
  being recorded only for attempts still queued or running, the invocations of an episode are
  numbered from one without a gap, there are as many as its row counts, never more than its
  ceiling, and the row is one its validator accepts.\<close>

theorem episode_budget_respected:
  assumes "reachable E s" and "dget (st_episodes s) i = Some e"
  shows "map iv_invocation_number (filter (\<lambda>j. iv_episode_id j = i) (st_invocations s)) = [1..ep_invocations_used e]
    \<and> ep_invocations_used e \<le> ep_invocation_ceiling e \<and> episode s i = Inr (Some e)"
proof (intro conjI)
  obtain v where v: "view_ok v" "vw_episode v = e"
    "vw_numbers v = map iv_invocation_number (filter (\<lambda>j. iv_episode_id j = i) (st_invocations s))"
    by (rule view_reads [OF assms])
  show "map iv_invocation_number (filter (\<lambda>j. iv_episode_id j = i) (st_invocations s)) = [1..ep_invocations_used e]"
    using view_parts(3) [OF v(1)] v by simp
  show "ep_invocations_used e \<le> ep_invocation_ceiling e"
    using view_parts(2) [OF v(1)] v by (simp add: counters_ok_def)
  show "episode s i = Inr (Some e)"
    using v(1,2) assms(2) by (simp add: episode_def view_ok_def episode_row_def)
qed

theorem episode_budget_respected_witness:
  "map iv_invocation_number (filter (\<lambda>j. iv_episode_id j = ''e1'') (st_invocations demo_open))
      = [1..ep_invocations_used (demo_row demo_open)]
    \<and> ep_invocations_used (demo_row demo_open) = 1 \<and> ep_invocation_ceiling (demo_row demo_open) = 2"
proof -
  have "ep_invocations_used (demo_row demo_open) = 1 \<and> ep_invocation_ceiling (demo_row demo_open) = 2" by code_simp
  then show ?thesis using episode_budget_respected [OF demo_open_reachable demo_rows(1)] by blast
qed

text \<open>C25: The report ledger of an episode agrees with its row, as long as report errors are recorded
  only for attempts still queued or running: in every store reached by such runs of the episode
  store and the Auto-research starts, activations, turns, wakes and worker spawns, attempts are
  numbered from one and at most three, at most one is live, the wrap-up row carries the state and
  the ending of the episode row, and a report is published exactly when the wrap-up is ready.\<close>

theorem report_ledger_agrees:
  assumes "reachable E s" and "dget (st_episodes s) i = Some e"
  shows "map ra_attempt_number (attempts_for s i) = [1..ep_report_attempts_used e]
      \<and> ep_report_attempts_used e \<le> 3 \<and> length (filter is_live_attempt (attempts_for s i)) \<le> 1
      \<and> (case dget (st_wrapups s) i of
            None \<Rightarrow> ep_wrapup_state e = WNotStarted
          | Some w \<Rightarrow> wu_state w = ep_wrapup_state e \<and> wu_ending w = ep_ending e)
      \<and> (episode_report s i \<noteq> None) = (ep_wrapup_state e = WReady)"
proof -
  obtain v where v: "view_of s i = Some v" "vw_episode v = e" "view_ok v" "vw_attempts v = attempts_for s i"
    "vw_wrapup v = dget (st_wrapups s) i"
    by (rule view_reads [OF assms])
  have "(episode_report s i \<noteq> None) = (ep_wrapup_state e = WReady)"
    using report_of_view [OF v(1)] v(2,3) by (simp add: view_ok_def)
  moreover have "wrapup_agrees v" using v(3) by (simp add: view_ok_def)
  ultimately show ?thesis
    using view_parts [OF v(3)] unfolding v(2,4) live_attempts_def
    by (auto simp: counters_ok_def wrapup_agrees_def v(2,5) split: option.splits)
qed

theorem report_ledger_agrees_witness:
  "length (filter is_live_attempt (attempts_for demo_reporting ''e1'')) \<le> 1
    \<and> map ra_attempt_number (attempts_for demo_reporting ''e1'') = [1..ep_report_attempts_used (demo_row demo_reporting)]
    \<and> ep_report_attempts_used (demo_row demo_reporting) = 1"
proof -
  have "ep_report_attempts_used (demo_row demo_reporting) = 1" by code_simp
  then show ?thesis using report_ledger_agrees [OF demo_reporting_reachable demo_rows(3)] by blast
qed

text \<open>C28: At most one live episode: two live Auto-research episodes of a project, or two live
  experiment loops on the same control node, are the same episode.\<close>

theorem one_live_episode:
  assumes "reachable E s" and "dget (st_episodes s) i = Some e" and "dget (st_episodes s) j = Some f"
    and "is_live e" and "is_live f" and "ep_project_id e = ep_project_id f" and "ep_mode e = ep_mode f"
    and "ep_mode e = ExperimentLoopMode \<longrightarrow> ep_control_node_id e = ep_control_node_id f"
  shows "i = j"
proof -
  obtain v where v: "view_of s i = Some v" "vw_episode v = e" "view_ok v" by (rule view_reads [OF assms(1,2)])
  obtain w where w: "view_of s j = Some w" "vw_episode w = f" by (rule view_reads [OF assms(1,3)])
  have "same_live_key e f"
    using view_parts(1) [OF v(3)] assms(5-8) v(2)
    by (cases "ep_mode e") (auto simp: same_live_key_def static_ok_def)
  then show ?thesis using reachable_ok [OF assms(1)] v(1,2) w assms(4) by (auto simp: reach_ok_def one_live_def)
qed

theorem one_live_episode_witness:
  "is_live (demo_row demo_reporting) \<and> ''e1'' = ''e1''"
proof -
  have live: "is_live (demo_row demo_reporting)" by code_simp
  show ?thesis
    using one_live_episode [OF demo_reporting_reachable demo_rows(3) demo_rows(3) live live refl refl] live by blast
qed

text \<open>C11: The store refines the lifecycle, as long as report errors are recorded only for attempts
  still queued or running: along every such run of the operations of the episode store and the
  Auto-research starts, activations, turns, wakes and worker spawns, in whatever order and on
  whatever episodes, each episode that exists goes from its phase to its later phase by steps of
  the abstract machine only.\<close>

theorem episode_follows_lifecycle:
  assumes "reachable E s" and "(lifecycle_step E)\<^sup>*\<^sup>* s t" and "phase_in s i = Some p"
  shows "\<exists>q. phase_in t i = Some q \<and> phase_step\<^sup>*\<^sup>* p q"
  by (rule phases.run_obs [OF assms(2) reachable_ok [OF assms(1)] assms(3)])

theorem episode_follows_lifecycle_witness:
  "\<exists>q. phase_in demo_failed ''e1'' = Some q \<and> phase_step\<^sup>*\<^sup>* (Reporting EndCompleted 1 True) q"
proof -
  have "phase_in demo_reporting ''e1'' = Some (Reporting EndCompleted 1 True)" by code_simp
  moreover have "lifecycle_step demo_env demo_reporting demo_failed"
    unfolding demo_failed_def by (rule l_final_error [OF demo_error_in_time])
  ultimately show ?thesis by (intro episode_follows_lifecycle [OF demo_reporting_reachable]) auto
qed

text \<open>C26: A closed episode stays closed, as long as report errors are recorded only for attempts still
  queued or running: once its status is terminal, no operation of the episode store and no
  Auto-research start, activation, turn, wake or worker spawn changes its row, its charged
  invocations or its report along such a run. A late report error does, and so do deleting or
  re-homing its project, which are not among these operations.\<close>

theorem closed_episode_final:
  assumes "reachable E s" and "dget (st_episodes s) i = Some e" and "\<not> is_live e"
    and "(lifecycle_step E)\<^sup>*\<^sup>* s t"
  shows "dget (st_episodes t) i = Some e
    \<and> map iv_invocation_number (filter (\<lambda>j. iv_episode_id j = i) (st_invocations t))
        = map iv_invocation_number (filter (\<lambda>j. iv_episode_id j = i) (st_invocations s))
    \<and> filter (\<lambda>r. rr_episode_id r = i) (st_reports t) = filter (\<lambda>r. rr_episode_id r = i) (st_reports s)"
proof -
  obtain v where v: "view_of s i = Some v" "vw_episode v = e" by (rule view_reads [OF assms(1,2)])
  obtain w where w: "view_of t i = Some w" "view_move\<^sup>*\<^sup>* v w" by (rule run_view [OF assms(1,4) v(1)])
  show ?thesis
    using moves_keep(2) [OF w(2)] assms(3) v(2) unfolding view_at [OF v(1)] view_at [OF w(1)]
    by (simp add: terminal_not_live)
qed

theorem closed_episode_final_witness:
  "dget (st_episodes (fst (request_episode_stop demo_failed ''e1'' ''t9''))) ''e1'' = Some (demo_row demo_failed)
    \<and> ep_status (demo_row demo_failed) = ECompleted"
proof -
  have st: "ep_status (demo_row demo_failed) = ECompleted" and closed: "\<not> is_live (demo_row demo_failed)" by (code_simp, code_simp)
  have "(lifecycle_step demo_env)\<^sup>*\<^sup>* demo_failed (fst (request_episode_stop demo_failed ''e1'' ''t9''))"
    by (rule r_into_rtranclp, rule l_stop)
  then show ?thesis using closed_episode_final [OF demo_failed_reachable demo_rows(4) closed] st by blast
qed

text \<open>C27: A stop request is a fence: from then on the episode is only stopping or stopped. It is
  charged no further invocation and never gets a report attempt or a report.\<close>

theorem stop_fences_episode:
  assumes "reachable E s" and "dget (st_episodes s) i = Some e" and "ep_status e = EStopping"
    and "(lifecycle_step E)\<^sup>*\<^sup>* s t"
  shows "\<exists>f. dget (st_episodes t) i = Some f \<and> ep_status f \<in> {EStopping, EStopped}
    \<and> map iv_invocation_number (filter (\<lambda>j. iv_episode_id j = i) (st_invocations t))
        = map iv_invocation_number (filter (\<lambda>j. iv_episode_id j = i) (st_invocations s))
    \<and> attempts_for t i = [] \<and> episode_report t i = None"
proof -
  obtain v where v: "view_of s i = Some v" "vw_episode v = e" "view_ok v" by (rule view_reads [OF assms(1,2)])
  have st: "ep_status (vw_episode v) \<in> {EStopping, EStopped}" using v(2) assms(3) by simp
  obtain w where w: "view_of t i = Some w" "view_move\<^sup>*\<^sup>* v w" by (rule run_view [OF assms(1,4) v(1)])
  have "vw_wrapup v = None" using idle_view(2) [OF v(3)] v(2) assms(3) by simp
  note none = unfenced_view [OF v(3) this]
  show ?thesis
    using moves_keep_stopping [OF w(2) v(3) st] none unfolding view_at [OF v(1)] view_at [OF w(1)]
    by (simp add: report_of_view [OF w(1)])
qed

theorem stop_fences_episode_witness:
  "ep_status (demo_row demo_stopping) = EStopping
    \<and> attempts_for (fst (mark_episode_stop_skipped demo_env demo_stopping ''e1'' None ''t5'')) ''e1'' = []"
proof -
  have st: "ep_status (demo_row demo_stopping) = EStopping" by code_simp
  show ?thesis
    using stop_fences_episode [OF demo_stopping_reachable demo_rows(2) st demo_settles] st by blast
qed

text \<open>C29: Every episode comes to rest, as long as report errors are recorded only for attempts still
  queued or running: along every such run of the operations of the episode store and the
  Auto-research starts, activations, turns, wakes and worker spawns, an episode changes its phase
  at most as often as it has invocations left, plus nine times.\<close>

theorem episode_phases_bounded:
  assumes "successively (lifecycle_step E) ss" and "ss \<noteq> []" and "reachable E (hd ss)"
    and "dget (st_episodes (hd ss)) i = Some e"
  shows "length (remdups_adj (map (\<lambda>s. phase_in s i) ss))
    \<le> nat (ep_invocation_ceiling e - ep_invocations_used e) + 10"
proof -
  obtain v where v: "view_of (hd ss) i = Some v" "vw_episode v = e" "view_ok v" by (rule view_reads [OF assms(3,4)])
  have "length (remdups_adj (map (\<lambda>s. phase_in s i) ss)) \<le> phase_rank (phase_of v) + 1"
    by (rule phases.run_bounded [OF assms(1,2) reachable_ok [OF assms(3)]]) (simp add: phase_in_def v(1))
  also have "\<dots> \<le> nat (ep_invocation_ceiling e - ep_invocations_used e) + 10"
    using phase_rank_episode [OF v(3)] v(2) by simp
  finally show ?thesis .
qed

theorem episode_phases_bounded_witness:
  "length (remdups_adj (map (\<lambda>s. phase_in s ''e1'') [demo_open, demo_stopping])) \<le> 11
    \<and> phase_in demo_open ''e1'' \<noteq> phase_in demo_stopping ''e1''"
proof -
  have left: "nat (ep_invocation_ceiling (demo_row demo_open) - ep_invocations_used (demo_row demo_open)) = 1" by code_simp
  have "phase_in demo_open ''e1'' \<noteq> phase_in demo_stopping ''e1''" by code_simp
  moreover have "successively (lifecycle_step demo_env) [demo_open, demo_stopping]"
    unfolding demo_stopping_def by (simp add: l_stop)
  ultimately show ?thesis
    using episode_phases_bounded [of demo_env "[demo_open, demo_stopping]" "''e1''" "demo_row demo_open"]
      demo_open_reachable demo_rows(1) left by simp
qed

text \<open>C30: The report and the experiment detachment of a restore succeed on every reachable store
  (report errors having been recorded only for attempts still queued or running), given a diagnostic that is
  not blank and a time that parses: run one after the other they leave no report attempt live and no experiment
  loop. The other detachments of a restore are not part of this.\<close>

theorem restore_settles:
  assumes "reachable E s" and "restore_detail d \<noteq> []" and "se_timestamp E now"
  shows "\<exists>t u. detach_episode_reports_for_restore E s d now = Inr t
    \<and> detach_experiment_episodes_for_restore E t d now = Inr u
    \<and> filter is_live_attempt (dvalues (st_attempts u)) = []
    \<and> filter (\<lambda>e. ep_mode e = ExperimentLoopMode \<and> is_live e) (dvalues (st_episodes u)) = []"
proof -
  have ok: "store_ok s" using reachable_ok [OF assms(1)] by (simp add: reach_ok_def)
  obtain t where t: "detach_episode_reports_for_restore E s d now = Inr t"
    using assms(2,3) by (simp add: detach_episode_reports_for_restore_def Let_def)
  note a = detach_reports_steps [OF ok t]
  obtain u where u: "detach_experiment_episodes_for_restore E t d now = Inr u" "step_ok t u" "quiet u"
    and none: "\<And>i v. view_of u i = Some v \<Longrightarrow> ep_mode (vw_episode v) = ExperimentLoopMode \<Longrightarrow> \<not> is_live (vw_episode v)"
    using restore_succeeds [OF step_keeps_ok [OF ok a(1)] a(2) assms(2,3)] by metis
  have "\<not> is_live e" if e: "e \<in> set (dvalues (st_episodes u))" "ep_mode e = ExperimentLoopMode" for e
  proof -
    have "keyed ep_episode_id (st_episodes u)" using u(2) by (simp add: step_ok_def store_shape_def)
    then obtain v where "view_of u (ep_episode_id e) = Some v" "vw_episode v = e"
      using view_of_row [OF keyed_value [OF _ e(1)]] by metis
    then show ?thesis using none e(2) by blast
  qed
  then show ?thesis using t u(1,3) by (auto simp: quiet_def live_attempts_def filter_empty_conv)
qed

theorem restore_settles_witness:
  "\<exists>t u. detach_episode_reports_for_restore demo_env demo_reporting ''restored'' ''t8'' = Inr t
    \<and> detach_experiment_episodes_for_restore demo_env t ''restored'' ''t8'' = Inr u
    \<and> filter is_live_attempt (dvalues (st_attempts u)) = []
    \<and> filter (\<lambda>e. ep_mode e = ExperimentLoopMode \<and> is_live e) (dvalues (st_episodes u)) = []"
proof -
  have "restore_detail ''restored'' \<noteq> []" "se_timestamp demo_env ''t8''" by code_simp+
  then show ?thesis by (rule restore_settles [OF demo_reporting_reachable])
qed

text \<open>An invocation is charged once: after a dispatch has been charged, dispatching the same
  operation again leaves the store as it is and gives the same episode, invocation and task.\<close>

theorem invocation_charged_once:
  assumes "allocate_episode_invocation E s i t cause now = (s1, Inr (e, n, u))"
  shows "allocate_episode_invocation E s1 i t cause' now' = (s1, Inr (e, n, u))"
proof -
  have shape: "tk_kind t \<noteq> EpisodeReportTask" "tk_visible t" "tk_episode_id t = Some i"
    and reads: "sbind (reread (episode s1 i)) (\<lambda>e. sbind (reread_task s1 (tk_operation_id t)) (\<lambda>u. Inr (e, n, u))) = Inr (e, n, u)"
    and body: "find (\<lambda>j. iv_operation_id j = tk_operation_id t) (st_invocations s1) = Some n" "iv_episode_id n = i"
      "invocation_row n = Inr n"
    using charged_invocation [OF assms] by auto
  have "dhas (tk_operation_id t) (st_tasks s1)"
    using reads by (auto simp: sbind_eq_Inr reread_task_def dhas_iff split: option.splits)
  then show ?thesis
    using shape reads body by (simp add: allocate_episode_invocation_def transact_def)
qed

theorem invocation_charged_once_witness:
  "allocate_episode_invocation demo_env demo_spent ''e1'' (demo_task ''o2'' ProjectChatTask) ''resume'' ''t7''
    = (demo_spent, Inr (demo_row demo_spent, \<lparr>iv_episode_id = ''e1'', iv_operation_id = ''o2'',
        iv_invocation_number = 2, iv_created_at = ''t0''\<rparr>, demo_task ''o2'' ProjectChatTask))"
proof -
  have "allocate_episode_invocation demo_env demo_open ''e1'' (demo_task ''o2'' ProjectChatTask) ''fresh'' ''t1''
      = (demo_spent, Inr (demo_row demo_spent, \<lparr>iv_episode_id = ''e1'', iv_operation_id = ''o2'',
        iv_invocation_number = 2, iv_created_at = ''t0''\<rparr>, demo_task ''o2'' ProjectChatTask))"
    by code_simp
  then show ?thesis by (rule invocation_charged_once)
qed

text \<open>The two outcomes of an error for an attempt that has already failed.\<close>

lemma late_error_state:
  assumes "dget (st_attempts s) a = Some r" and "ra_status r = AFailed"
    and "dget (st_episodes s) (ra_episode_id r) = Some e" and "py_strip error \<noteq> []"
    and "t = fst (finish_episode_report_attempt_error E s a error force now)"
  shows "\<not> force \<Longrightarrow> ra_attempt_number r < 3 \<Longrightarrow>
      dget (st_episodes t) (ra_episode_id r) = Some (e\<lparr>ep_wrapup_state := WPending, ep_wrapup_error := None, ep_updated_at := now\<rparr>)
      \<and> st_attempts t = st_attempts s \<and> st_reports t = st_reports s"
    and "force \<or> 3 \<le> ra_attempt_number r \<Longrightarrow> status_for_ending (ep_ending e) = Inr (ep_status e) \<Longrightarrow>
      dget (st_episodes t) (ra_episode_id r) \<in> {Some e, Some (failed_report_episode (ep_status e) error now e)}
      \<and> st_attempts t = st_attempts s \<and> st_reports t = st_reports s"
proof -
  show "dget (st_episodes t) (ra_episode_id r) = Some (e\<lparr>ep_wrapup_state := WPending, ep_wrapup_error := None, ep_updated_at := now\<rparr>)
      \<and> st_attempts t = st_attempts s \<and> st_reports t = st_reports s" if "\<not> force" "ra_attempt_number r < 3"
    using assms that by (simp add: finish_episode_report_attempt_error_def transact_state REPORT_ATTEMPT_LIMIT_def
        on_wrapup_def on_episode_def dget_dmodify Let_def)
  assume fin: "force \<or> 3 \<le> ra_attempt_number r" and st: "status_for_ending (ep_ending e) = Inr (ep_status e)"
  let ?c = "close_report_failed E s (ra_episode_id r) (ep_ending e)
    (on_task (ra_allocation_operation_id r) (failed_report_task False error now)) error now"
  have t: "t = (case ?c of Inl _ \<Rightarrow> s | Inr u \<Rightarrow> u)"
    using assms fin by (simp add: finish_episode_report_attempt_error_def transact_state REPORT_ATTEMPT_LIMIT_def
        Let_def sbind_def split: sum.splits)
  show "dget (st_episodes t) (ra_episode_id r) \<in> {Some e, Some (failed_report_episode (ep_status e) error now e)}
      \<and> st_attempts t = st_attempts s \<and> st_reports t = st_reports s"
  proof (cases ?c)
    case (Inl x)
    then show ?thesis using t assms(3) by simp
  next
    case (Inr u)
    then have "ledger u = ledger (on_task (ra_allocation_operation_id r) (failed_report_task False error now)
        (on_wrapup (ra_episode_id r) (failed_wrapup error now)
          (on_episode (ra_episode_id r) (failed_report_episode (ep_status e) error now) s)))"
      using st by (auto simp: close_report_failed_def dest: ledger_terminalize)
    then show ?thesis
      using t Inr assms(3) by (simp add: ledger_def on_task_def on_wrapup_def on_episode_def dget_dmodify)
  qed
qed

lemma closed_phases_final: "phase_step\<^sup>*\<^sup>* (Closed x w) q \<Longrightarrow> q = Closed x w"
  using phases.moves_rank by fastforce

text \<open>C31: What a late report error does to a closed episode. Take a store reached without late errors and a
  report error that is not blank, for an attempt that has already failed, of an episode that is closed. No
  row of the attempts or reports changes. Recorded as retryable for the first or the second attempt, it sets
  the wrap-up of the closed episode back to pending with its error erased: that is no step of the lifecycle,
  and where the episode was ended by a stop its row no longer validates and cannot be read. Recorded as
  final, or as retryable for the third attempt, it either leaves the episode row as it is or overwrites the wrap-up as
  failed with the new error, keeping the status.\<close>

theorem late_report_error_reopens:
  assumes "reachable E s" and "dget (st_attempts s) a = Some r" and "ra_status r = AFailed"
    and "dget (st_episodes s) (ra_episode_id r) = Some e" and "\<not> is_live e" and "py_strip error \<noteq> []"
  shows "(\<forall>t. t = fst (record_episode_report_attempt_error E s a error now) \<and> ra_attempt_number r < 3 \<longrightarrow>
       dget (st_episodes t) (ra_episode_id r)
         = Some (e\<lparr>ep_wrapup_state := WPending, ep_wrapup_error := None, ep_updated_at := now\<rparr>)
       \<and> st_attempts t = st_attempts s \<and> st_reports t = st_reports s
       \<and> (\<exists>p q. phase_in s (ra_episode_id r) = Some p \<and> phase_in t (ra_episode_id r) = Some q \<and> \<not> phase_step\<^sup>*\<^sup>* p q)
       \<and> (ep_ending e = Some EndStopped \<longrightarrow> isl (episode t (ra_episode_id r))))
    \<and> (\<forall>t. t = fst (finish_episode_report_error E s a error now)
         \<or> t = fst (record_episode_report_attempt_error E s a error now) \<and> 3 \<le> ra_attempt_number r \<longrightarrow>
       dget (st_episodes t) (ra_episode_id r) \<in> {Some e, Some (e\<lparr>ep_wrapup_state := WFailed,
         ep_wrapup_error := Some error, ep_updated_at := now, ep_ended_at := coalesce (ep_ended_at e) now\<rparr>)}
       \<and> st_attempts t = st_attempts s \<and> st_reports t = st_reports s)"
proof -
  let ?i = "ra_episode_id r"
  let ?row = "e\<lparr>ep_wrapup_state := WPending, ep_wrapup_error := None, ep_updated_at := now\<rparr>"
  obtain v where v: "view_of s ?i = Some v" "vw_episode v = e" "view_ok v" by (rule view_reads [OF assms(1,4)])
  have closed: "terminal_status (ep_status e)" using assms(5) by (simp add: terminal_not_live)
  then have st: "status_for_ending (ep_ending e) = Inr (ep_status e)" "ep_wrapup_state e \<noteq> WPending"
    using v(2,3) by (auto simp: view_ok_def status_agrees_def)
  have p: "phase_in s ?i = Some (Closed (the (ep_ending e)) (ep_wrapup_state e))"
    using v phase_closed [of v] closed by (simp add: phase_in_def)
  have reopened: "(\<exists>p q. phase_in s ?i = Some p \<and> phase_in t ?i = Some q \<and> \<not> phase_step\<^sup>*\<^sup>* p q)
      \<and> (ep_ending e = Some EndStopped \<longrightarrow> isl (episode t ?i))" if row: "dget (st_episodes t) ?i = Some ?row" for t
  proof
    obtain w where w: "view_of t ?i = Some w" by (rule view_of_row [OF row])
    then have "vw_episode w = ?row" using view_at(1) [OF w] row by simp
    then have "phase_in t ?i = Some (Closed (the (ep_ending e)) WPending)"
      using w phase_closed [of w] closed by (simp add: phase_in_def)
    then show "\<exists>p q. phase_in s ?i = Some p \<and> phase_in t ?i = Some q \<and> \<not> phase_step\<^sup>*\<^sup>* p q"
      using p closed_phases_final st(2) by (metis phase.inject(4))
    show "ep_ending e = Some EndStopped \<longrightarrow> isl (episode t ?i)"
      using row by (simp add: episode_def episode_row_def episode_coherent_iff endings_ok_def)
  qed
  note late = late_error_state [OF assms(2-4,6)]
  have retry: "dget (st_episodes t) ?i = Some ?row \<and> st_attempts t = st_attempts s \<and> st_reports t = st_reports s"
    if "t = fst (record_episode_report_attempt_error E s a error now)" "ra_attempt_number r < 3" for t
    using late(1) [of t E False now] that by (simp add: record_episode_report_attempt_error_def)
  have "failed_report_episode (ep_status e) error now e = e\<lparr>ep_wrapup_state := WFailed,
      ep_wrapup_error := Some error, ep_updated_at := now, ep_ended_at := coalesce (ep_ended_at e) now\<rparr>"
    by (cases e) (simp add: failed_report_episode_def)
  then have final: "dget (st_episodes t) ?i \<in> {Some e, Some (e\<lparr>ep_wrapup_state := WFailed,
        ep_wrapup_error := Some error, ep_updated_at := now, ep_ended_at := coalesce (ep_ended_at e) now\<rparr>)}
      \<and> st_attempts t = st_attempts s \<and> st_reports t = st_reports s"
    if "t = fst (finish_episode_report_error E s a error now)
      \<or> t = fst (record_episode_report_attempt_error E s a error now) \<and> 3 \<le> ra_attempt_number r" for t
    using that late(2) [of t E True now] late(2) [of t E False now] st(1)
    unfolding record_episode_report_attempt_error_def finish_episode_report_error_def by metis
  show ?thesis using retry reopened final by blast
qed

theorem late_report_error_reopens_witness:
  "ep_status (demo_row demo_failed) = ECompleted
    \<and> dget (st_episodes (fst (record_episode_report_attempt_error demo_env demo_failed ''a1'' ''late'' ''t9''))) ''e1''
      = Some ((demo_row demo_failed)\<lparr>ep_wrapup_state := WPending, ep_wrapup_error := None, ep_updated_at := ''t9''\<rparr>)"
proof -
  obtain r where r: "dget (st_attempts demo_failed) ''a1'' = Some r" "ra_status r = AFailed" "ra_attempt_number r < 3"
    "ra_episode_id r = ''e1''"
    by (rule demo_failed_attempt)
  have row: "dget (st_episodes demo_failed) (ra_episode_id r) = Some (demo_row demo_failed)" using demo_rows(4) r(4) by simp
  have "py_strip ''late'' \<noteq> []" "ep_status (demo_row demo_failed) = ECompleted" "\<not> is_live (demo_row demo_failed)"
    by (code_simp, code_simp, code_simp)
  then show ?thesis
    using late_report_error_reopens [OF demo_failed_reachable r(1,2) row, of "''late''" "''t9''"] r(3,4) by simp
qed

text \<open>
  The fenced ending of an episode is not compared when its report cannot be launched: the
  episode is closed with the ending of the failed wrap-up record, even where another ending
  had been fenced.
\<close>

lemma unlaunchable_overrides_fence:
  assumes "dget (st_episodes s) i = Some e" and "episode_coherent e" and "ep_status e = EWrappingUp"
    and "ep_ending e = Some x" and "dget (st_wrapups s) i = None" and "dget (st_routes s) i = None"
    and "wu_episode_id w = i" and "wu_ending w = Some y" and "y \<notin> {x, EndStopped}" and "wu_state w = WFailed"
    and "wu_allocation_operation_id w = None" and "filled (wu_diagnostic w)" and "wu_finished_at w \<noteq> None"
    and "wu_concluding_operation_id w = None"
  shows "map_option ep_ending (dget (st_episodes (fst (fail_episode_wrapup_unlaunchable E s i w d now))) i)
    = Some (Some y)"
proof -
  obtain final where final: "status_for_ending (Some y) = Inr final"
    by (cases y) (simp_all add: status_for_ending_def)
  show ?thesis
    using assms final
    by (auto simp: fail_episode_wrapup_unlaunchable_def transact_state load_episode_def episode_row_def
        concluding_visible_def insert_episode_wrapup_def dhas_iff terminalize_child_def on_episode_def dget_dmodify)
qed

end
