(* ===== verification/TaskProps.thy ===== *)
theory TaskProps
  imports EpisodeSteps
begin

text \<open>
  What the admission of agent tasks guarantees over the life of the task table: the rounds of
  a bounded experiment loop are numbered in sequence under one pinned configuration, and the
  authority of an Auto-research task never exceeds its root's.
\<close>

section \<open>The life of the task table\<close>

text \<open>
  Tasks enter the table by \<open>insert_agent_task\<close> only. Running a task updates its row but not what
  it was admitted with; a row of \<open>auto_research_invocations\<close> is written for an Auto-research task;
  the other tables change freely.
\<close>

definition admitted_with :: "agent_task \<Rightarrow> string \<times> string \<times> string option \<times> task_kind \<times> doc \<times> string option
    \<times> dispatch_authority option" where
  "admitted_with t = (tk_operation_id t, tk_project_id t, tk_episode_id t, tk_kind t, tk_request t,
     tk_parent_operation_id t, tk_dispatch_authority t)"

inductive task_step :: "store_env \<Rightarrow> store \<Rightarrow> store \<Rightarrow> bool" for E where
  t_insert: "insert_agent_task E s t cause = Inr s' \<Longrightarrow> task_step E s s'"
| t_update: "(\<And>q. admitted_with (f q) = admitted_with q) \<Longrightarrow> task_step E s (on_task i f s)"
| t_actor: "dget (st_tasks s) op = Some q \<Longrightarrow> tk_kind q = AutoResearchTask
    \<Longrightarrow> task_step E s (s\<lparr>st_auto_invocations := dset op a (st_auto_invocations s)\<rparr>)"
| t_other: "st_tasks s' = st_tasks s \<Longrightarrow> st_auto_invocations s' = st_auto_invocations s \<Longrightarrow> task_step E s s'"

inductive task_reachable :: "store_env \<Rightarrow> store \<Rightarrow> bool" for E where
  tr_empty: "st_tasks s = [] \<Longrightarrow> st_auto_invocations s = [] \<Longrightarrow> task_reachable E s"
| tr_step: "task_reachable E s \<Longrightarrow> task_step E s t \<Longrightarrow> task_reachable E t"

lemma text_results:
  "(case v of VStr x \<Rightarrow> f x | VList _ \<Rightarrow> Inl a | VDict _ \<Rightarrow> Inl b | _ \<Rightarrow> Inl c) = Inr u
    \<longleftrightarrow> (\<exists>x. v = VStr x \<and> f x = Inr u)"
  "(case w of Some (VStr x) \<Rightarrow> f x | _ \<Rightarrow> Inl e) = Inr u \<longleftrightarrow> (\<exists>x. w = Some (VStr x) \<and> f x = Inr u)"
  "(case m of Inl _ \<Rightarrow> Inl e | Inr x \<Rightarrow> g x) = Inr u \<longleftrightarrow> (\<exists>x. m = Inr x \<and> g x = Inr u)"
  by (cases v; simp) (auto split: option.splits pyval.splits sum.splits)

lemma bind_saved_keeps: "bind_saved t runs = Inr u \<Longrightarrow> admitted_with u = admitted_with t"
  by (auto simp: bind_saved_def admitted_with_def split: list.splits)

lemma bind_chat_stage_keeps: "bind_chat_stage s t = Inr u \<Longrightarrow> admitted_with u = admitted_with t"
  by (auto simp: bind_chat_stage_def Let_def dest: bind_saved_keeps split: if_splits option.splits)

lemma insert_agent_task_result:
  assumes "insert_agent_task E s t cause = Inr s'"
  obtains u where "admitted_with u = admitted_with t" "validate_dispatch_authority_insert s t = Inr ()"
    "validate_experiment_task_insert E s u = Inr ()" "\<not> dhas (tk_operation_id u) (st_tasks s)"
    "st_tasks s' = st_tasks s @ [(tk_operation_id u, u)]" "st_auto_invocations s' = st_auto_invocations s"
proof -
  obtain u where u: "bind_chat_stage s t = Inr u" "validate_dispatch_authority_insert s t = Inr ()"
    "validate_experiment_task_insert E s u = Inr ()" "\<not> dhas (tk_operation_id u) (st_tasks s)"
    "s' = s\<lparr>st_tasks := dset (tk_operation_id u) u (st_tasks s),
         st_receipts := st_receipts s @ [(tk_operation_id u, ''operation_admitted'')]\<rparr>"
    using assms by (auto simp: insert_agent_task_def sbind_eq_Inr split: if_splits)
  then show ?thesis by (intro that [OF bind_chat_stage_keeps [OF u(1)]]) (simp_all add: dset_fresh)
qed

lemma filter_updated:
  assumes "\<And>q. h (f q) = h q" and "\<And>q. P (f q) = P q"
  shows "map h (filter P (dvalues (dmodify i f d))) = map h (filter P (dvalues d))"
  by (induction d) (auto simp: dmodify_def dvalues_def assms)

section \<open>Rounds of a loop\<close>

definition round_ok :: "doc \<Rightarrow> bool" where
  "round_ok r \<longleftrightarrow> (case (dget r ''control_invocation'', dget r ''control_invocation_ceiling'') of
     (Some (VInt k), Some (VInt c)) \<Rightarrow> k \<le> c | _ \<Rightarrow> False)"

definition rounds :: "store \<Rightarrow> string \<Rightarrow> string \<Rightarrow> string \<Rightarrow> doc list" where
  "rounds s p n x = map tk_request (episode_roots s p n x)"

definition in_sequence :: "store_env \<Rightarrow> doc list \<Rightarrow> bool" where
  "in_sequence E rs \<longleftrightarrow> map (\<lambda>r. dget r ''control_invocation'') rs = map (\<lambda>k. Some (VInt k)) [1..int (length rs)]
     \<and> sorted_wrt (same_pinned E EXPERIMENT_EPISODE_PINNED_FIELDS) rs \<and> list_all round_ok rs"

lemma rounds_filter: "rounds s p n x = map tk_request (filter (\<lambda>q. tk_project_id q = p \<and> tk_parent_operation_id q = None
    \<and> is_loop (tk_request q) \<and> has_text (tk_request q) ''control_node_id'' n
    \<and> has_text (tk_request q) ''control_episode_id'' x) (dvalues (st_tasks s)))"
  unfolding rounds_def episode_roots_def loop_roots_def loop_tasks_def filter_filter
  by (rule arg_cong [where f = "map tk_request"], rule filter_cong) auto

lemma smap_rounds:
  assumes "map (\<lambda>r. dget r k) rs = map (\<lambda>n. Some (VInt n)) ns"
  shows "smap (\<lambda>q. int_of q k) rs = Inr ns"
  using assms by (induction rs arbitrary: ns) (auto simp: smap_def int_of_def)

lemma fold_max_upto: "m \<le> n \<Longrightarrow> fold max [m + 1..n] m = (n :: int)"
proof (induction "nat (n - m)" arbitrary: m)
  case (Suc k)
  have "fold max [m + 1 + 1..n] (m + 1) = n" using Suc.hyps(2) by (intro Suc.hyps(1)) simp_all
  moreover have "[m + 1..n] = (m + 1) # [m + 1 + 1..n]" using Suc.hyps(2) by (intro upto_rec1) simp
  ultimately show ?case by (simp add: max_def)
qed simp

lemma expected_upto: "expected_invocation [1..int m] = int m + 1"
  using fold_max_upto [of 1 "int m"] by (cases "m = 0") (auto simp: expected_invocation_def upto_rec1)

lemma in_sequence_snoc:
  assumes seq: "in_sequence E rs" and new: "dget r ''control_invocation'' = Some (VInt (int (length rs) + 1))"
    and "list_all (\<lambda>q. same_pinned E EXPERIMENT_EPISODE_PINNED_FIELDS q r) rs" and "round_ok r"
  shows "in_sequence E (rs @ [r])"
proof -
  have "[1..int (length (rs @ [r]))] = [1..int (length rs)] @ [int (length rs) + 1]"
    using upto_snoc [of "int (length rs)"] by (simp add: add.commute)
  then show ?thesis using assms by (simp add: in_sequence_def sorted_wrt_append list_all_iff)
qed

lemma shape_cases:
  "(case w of Some (VStr x) \<Rightarrow> P x | _ \<Rightarrow> False) \<longleftrightarrow> (\<exists>x. w = Some (VStr x) \<and> P x)"
  "(case w of Some (VInt n) \<Rightarrow> Q n | _ \<Rightarrow> False) \<longleftrightarrow> (\<exists>n. w = Some (VInt n) \<and> Q n)"
  "(case (w, z) of (Some (VInt n), Some (VInt c)) \<Rightarrow> R n c | _ \<Rightarrow> False)
    \<longleftrightarrow> (\<exists>n c. w = Some (VInt n) \<and> z = Some (VInt c) \<and> R n c)"
proof -
  show "(case w of Some (VStr x) \<Rightarrow> P x | _ \<Rightarrow> False) \<longleftrightarrow> (\<exists>x. w = Some (VStr x) \<and> P x)"
    by (cases w; simp split: pyval.splits)
  show "(case w of Some (VInt n) \<Rightarrow> Q n | _ \<Rightarrow> False) \<longleftrightarrow> (\<exists>n. w = Some (VInt n) \<and> Q n)"
    by (cases w; simp split: pyval.splits)
  show "(case (w, z) of (Some (VInt n), Some (VInt c)) \<Rightarrow> R n c | _ \<Rightarrow> False)
      \<longleftrightarrow> (\<exists>n c. w = Some (VInt n) \<and> z = Some (VInt c) \<and> R n c)"
    by (cases w; cases z; simp split: pyval.splits)
qed

lemma loop_shape_fields:
  assumes "loop_shape t"
  shows "dget (tk_request t) ''control_node_id'' = Some (VStr (str_field (tk_request t) ''control_node_id''))"
    "dget (tk_request t) ''control_episode_id'' = Some (VStr (str_field (tk_request t) ''control_episode_id''))"
    "dget (tk_request t) ''control_invocation'' = Some (VInt (int_field (tk_request t) ''control_invocation''))"
    "round_ok (tk_request t)"
proof -
  obtain n x k c where f: "dget (tk_request t) ''control_node_id'' = Some (VStr n)"
      "dget (tk_request t) ''control_episode_id'' = Some (VStr x)"
      "dget (tk_request t) ''control_invocation'' = Some (VInt k)"
      "dget (tk_request t) ''control_invocation_ceiling'' = Some (VInt c)" "k \<le> c"
    using assms unfolding loop_shape_def Let_def shape_cases by blast
  then show "dget (tk_request t) ''control_node_id'' = Some (VStr (str_field (tk_request t) ''control_node_id''))"
    "dget (tk_request t) ''control_episode_id'' = Some (VStr (str_field (tk_request t) ''control_episode_id''))"
    "dget (tk_request t) ''control_invocation'' = Some (VInt (int_field (tk_request t) ''control_invocation''))"
    "round_ok (tk_request t)"
    by (simp_all add: str_field_def int_field_def round_ok_def)
qed

lemma root_validated:
  assumes "validate_experiment_task_insert E s t = Inr ()" and "is_loop (tk_request t)"
    and "tk_parent_operation_id t = None"
  obtains ns where "loop_shape t"
    "list_all (\<lambda>q. same_pinned E EXPERIMENT_EPISODE_PINNED_FIELDS q (tk_request t))
       (rounds s (tk_project_id t) (str_field (tk_request t) ''control_node_id'') (str_field (tk_request t) ''control_episode_id''))"
    "smap (\<lambda>q. int_of q ''control_invocation'')
       (rounds s (tk_project_id t) (str_field (tk_request t) ''control_node_id'') (str_field (tk_request t) ''control_episode_id''))
       = Inr ns"
    "int_field (tk_request t) ''control_invocation'' = expected_invocation ns"
proof -
  obtain trigger where shape: "loop_shape t" and r: "validate_loop_root E s t trigger = Inr ()"
    using assms unfolding validate_experiment_task_insert_def
    by (simp add: filled_def guarded_results text_results) blast
  obtain ns where "smap (\<lambda>q. int_of q ''control_invocation'') (rounds s (tk_project_id t)
        (str_field (tk_request t) ''control_node_id'') (str_field (tk_request t) ''control_episode_id'')) = Inr ns"
      "int_field (tk_request t) ''control_invocation'' = expected_invocation ns"
      "\<not> list_ex (\<lambda>q. \<not> same_pinned E EXPERIMENT_EPISODE_PINNED_FIELDS q (tk_request t)) (rounds s (tk_project_id t)
        (str_field (tk_request t) ''control_node_id'') (str_field (tk_request t) ''control_episode_id''))"
    using r unfolding validate_loop_root_def Let_def rounds_def [symmetric] guarded_results(1) sbind_eq_Inr not_not
    by (elim exE conjE) (rule that; assumption)
  then show ?thesis using shape by (intro that [of ns]) (simp_all add: list_ex_iff list_all_iff)
qed

lemma insert_keeps_sequence:
  assumes ok: "in_sequence E (rounds s p n x)" and ins: "insert_agent_task E s t cause = Inr s'"
  shows "in_sequence E (rounds s' p n x)"
proof -
  obtain u where u: "validate_experiment_task_insert E s u = Inr ()" "st_tasks s' = st_tasks s @ [(tk_operation_id u, u)]"
    by (rule insert_agent_task_result [OF ins])
  let ?r = "tk_request u"
  show ?thesis
  proof (cases "tk_project_id u = p \<and> tk_parent_operation_id u = None \<and> is_loop ?r
      \<and> has_text ?r ''control_node_id'' n \<and> has_text ?r ''control_episode_id'' x")
    case True
    then have ids: "p = tk_project_id u" "n = str_field ?r ''control_node_id''" "x = str_field ?r ''control_episode_id''"
      by (simp_all add: has_text_def str_field_def)
    obtain ns where r: "loop_shape u" "list_all (\<lambda>q. same_pinned E EXPERIMENT_EPISODE_PINNED_FIELDS q ?r) (rounds s p n x)"
        "smap (\<lambda>q. int_of q ''control_invocation'') (rounds s p n x) = Inr ns"
        "int_field ?r ''control_invocation'' = expected_invocation ns"
      using root_validated [OF u(1)] True unfolding ids by blast
    have "ns = [1..int (length (rounds s p n x))]"
      using r(3) smap_rounds [of "''control_invocation''" "rounds s p n x"] ok by (auto simp: in_sequence_def)
    then have "dget ?r ''control_invocation'' = Some (VInt (int (length (rounds s p n x)) + 1))"
      using loop_shape_fields(3) [OF r(1)] r(4) expected_upto by simp
    then have "in_sequence E (rounds s p n x @ [?r])"
      by (rule in_sequence_snoc [OF ok _ r(2) loop_shape_fields(4) [OF r(1)]])
    moreover have "rounds s' p n x = rounds s p n x @ [?r]" using True by (simp add: rounds_filter u(2) dvalues_def)
    ultimately show ?thesis by simp
  next
    case False
    then have "rounds s' p n x = rounds s p n x" by (auto simp: rounds_filter u(2) dvalues_def)
    then show ?thesis using ok by simp
  qed
qed

lemma step_keeps_sequence:
  assumes "task_step E s s'" and ok: "in_sequence E (rounds s p n x)"
  shows "in_sequence E (rounds s' p n x)"
  using assms(1)
proof cases
  case (t_insert t cause)
  then show ?thesis using insert_keeps_sequence [OF ok] by blast
next
  case (t_update f i)
  have same: "tk_request (f q) = tk_request q" "tk_project_id (f q) = tk_project_id q"
    "tk_parent_operation_id (f q) = tk_parent_operation_id q" for q
    using t_update(2) [of q] by (simp_all add: admitted_with_def)
  have "rounds s' p n x = rounds s p n x"
    unfolding t_update(1) rounds_filter
    using filter_updated [of tk_request f _ i "st_tasks s"] by (simp add: on_task_def same)
  then show ?thesis using ok by simp
qed (use ok in \<open>simp_all add: rounds_filter\<close>)

lemma empty_in_sequence: "st_tasks s = [] \<Longrightarrow> in_sequence E (rounds s p n x)"
  by (simp add: rounds_filter in_sequence_def dvalues_def)

lemma reachable_in_sequence: "task_reachable E s \<Longrightarrow> in_sequence E (rounds s p n x)"
  by (induction rule: task_reachable.induct) (auto intro: step_keeps_sequence empty_in_sequence)

section \<open>Authority of Auto-research actors\<close>






lemma expected_authority_scope [simp]:
  "ds_run_truth_scope (da_scope (expected_authority role x i)) = x"
  "ds_episode_id (da_scope (expected_authority role x i)) = Some i"
  by (simp_all add: expected_authority_def)

lemma expected_authority_inject [simp]:
  "expected_authority a x i = expected_authority b y j \<longleftrightarrow> a = b \<and> x = y \<and> i = j"
  by (cases a; cases b) (auto simp: expected_authority_def)








section \<open>A sample loop\<close>

definition round_request :: "int \<Rightarrow> doc" where
  "round_request k = [(''patch_kind'', VStr ''experiment_loop''), (''control_node_id'', VStr ''n1''),
     (''control_revision'', VInt 4), (''control_decision_bundle'', VList []), (''control_completion_criteria'', VList []),
     (''control_episode_id'', VStr ''00000000-0000-4000-8000-000000000001''), (''control_invocation'', VInt k),
     (''control_invocation_ceiling'', VInt 3), (''trigger'', VStr ''experiment_run'')]"

definition loop_task :: agent_task where
  "loop_task = \<lparr>tk_operation_id = ''o1'', tk_project_id = ''p'',
     tk_episode_id = Some ''00000000-0000-4000-8000-000000000001'', tk_kind = NodeChatTask,
     tk_status = TQueued, tk_request = round_request 1, tk_created_at = ''t0'', tk_updated_at = ''t0'', tk_started_at = None,
     tk_finished_at = None, tk_status_message = ''Queued'', tk_error = None, tk_attempt = 1,
     tk_parent_operation_id = None, tk_native_session_id = None, tk_stage_host = None, tk_stage_root = None,
     tk_graph_target = MainTarget, tk_write_scope_fingerprint = None, tk_phase = ''queued'',
     tk_last_activity_at = None, tk_dispatch_authority = None, tk_authorized_by = None, tk_visible = True,
     tk_result = None, tk_rest = []\<rparr>"

definition orchestrator_task :: agent_task where
  "orchestrator_task = loop_task\<lparr>tk_operation_id := ''a1'', tk_episode_id := Some ''e2'', tk_kind := AutoResearchTask,
     tk_request := [(''role'', VStr ''orchestrator''), (''actor_operation_id'', VStr ''a1''),
       (''run_truth_scope'', VList [VStr ''repo''])],
     tk_dispatch_authority := Some (expected_authority OrchestratorRole [''repo''] ''e2'')\<rparr>"

definition bare_episode :: "string \<Rightarrow> episode_mode \<Rightarrow> episode_record" where
  "bare_episode i mode = \<lparr>ep_episode_id = i, ep_project_id = ''p'', ep_mode = mode,
     ep_control_node_id = None, ep_graph_target = MainTarget, ep_graph_base_head = None,
     ep_root_operation_id = None, ep_status = ERunning, ep_invocation_ceiling = 3, ep_invocations_used = 1,
     ep_authorized_by = None, ep_stop_requested_at = None, ep_stop_settled_at = None, ep_ending = None,
     ep_ending_diagnostic = None, ep_wrapup_state = WNotStarted, ep_wrapup_error = None,
     ep_report_attempts_used = 0, ep_created_at = ''t0'', ep_updated_at = ''t0'', ep_ended_at = None\<rparr>"

definition task_env :: store_env where
  "task_env = \<lparr>se_str = \<lambda>_. [], se_sha256 = \<lambda>_. [], se_uuid5 = id, se_timestamp = \<lambda>_. True\<rparr>"

definition no_tasks :: store where
  "no_tasks = empty_store\<lparr>st_episodes := [(''00000000-0000-4000-8000-000000000001'',
       bare_episode ''00000000-0000-4000-8000-000000000001'' ExperimentLoopMode), (''e2'', bare_episode ''e2'' AutoResearchMode)],
     st_auto_research := [(''e2'', \<lparr>as_episode_id = ''e2'', as_starting_instruction = None, as_created_at = ''t0'', as_updated_at = ''t0''\<rparr>)]\<rparr>"

definition two_tasks :: store where
  "two_tasks = projr (insert_agent_task task_env (projr (insert_agent_task task_env no_tasks loop_task ''fresh''))
     orchestrator_task ''fresh'')"

lemma two_tasks_reachable: "task_reachable task_env two_tasks"
proof -
  have "\<not> isl (insert_agent_task task_env no_tasks loop_task ''fresh'')" by code_simp
  then obtain s1 where s1: "insert_agent_task task_env no_tasks loop_task ''fresh'' = Inr s1" by (metis sum.collapse(2))
  have "\<not> isl (insert_agent_task task_env (projr (insert_agent_task task_env no_tasks loop_task ''fresh''))
      orchestrator_task ''fresh'')" by code_simp
  then have s2: "insert_agent_task task_env s1 orchestrator_task ''fresh'' = Inr two_tasks"
    unfolding two_tasks_def s1 by (simp add: sum.collapse(2))
  have "task_reachable task_env no_tasks" by (rule tr_empty) (simp_all add: no_tasks_def empty_store_def)
  then show ?thesis using s1 s2 by (blast intro: tr_step t_insert)
qed

section \<open>Properties\<close>

text \<open>C13: The rounds of a bounded experiment loop are admitted in sequence: in every task table that
  admission built, the root tasks of a loop episode carry the invocation numbers one, two, three
  and so on in the order they were admitted, each within its pinned ceiling, and any two of them
  pin the same machine, scope, conversation, control node and revision, ceiling, decisions and
  completion criteria.\<close>

theorem loop_rounds_in_sequence:
  assumes "task_reachable E s"
  shows "map (\<lambda>q. dget (tk_request q) ''control_invocation'') (episode_roots s p n x)
      = map (\<lambda>k. Some (VInt k)) [1..int (length (episode_roots s p n x))]
    \<and> sorted_wrt (\<lambda>q q'. same_pinned E EXPERIMENT_EPISODE_PINNED_FIELDS (tk_request q) (tk_request q')) (episode_roots s p n x)
    \<and> list_all (\<lambda>q. round_ok (tk_request q)) (episode_roots s p n x)"
  using reachable_in_sequence [OF assms, of p n x]
  by (simp add: in_sequence_def rounds_def comp_def sorted_wrt_map list_all_length)

theorem loop_rounds_in_sequence_witness:
  "map (\<lambda>q. dget (tk_request q) ''control_invocation'')
      (episode_roots two_tasks ''p'' ''n1'' ''00000000-0000-4000-8000-000000000001'') = [Some (VInt 1)]"
proof -
  have one: "length (episode_roots two_tasks ''p'' ''n1'' ''00000000-0000-4000-8000-000000000001'') = 1" by code_simp
  show ?thesis
    using loop_rounds_in_sequence [OF two_tasks_reachable, of "''p''" "''n1''" "''00000000-0000-4000-8000-000000000001''"]
    unfolding one by simp
qed






end
