(* ===== verification/InboxMachine.thy ===== *)
theory InboxMachine
  imports Children EpisodeRuns
begin

text \<open>
  The inbox as a machine. Every operation that touches the notices either adds one unread notice
  that fits a response, or hands unread notices over: to a wake, to an actor, or to the receipt
  of a command. The invariant says what the table of notices and the table of receipts hold.
\<close>

section \<open>Reading rows\<close>

lemma smap_Nil [simp]: "smap f [] = Inr []"
  by (simp add: smap_def)

lemma smap_Cons [simp]: "smap f (x # xs) = sbind (f x) (\<lambda>y. sbind (smap f xs) (\<lambda>ys. Inr (y # ys)))"
  by (simp add: smap_def)

lemma smap_notice_row: "smap notice_row ns = Inr ms \<longleftrightarrow> ms = ns \<and> list_all notice_coherent ns"
  by (induction ns arbitrary: ms) (auto simp: sbind_eq_Inr notice_row_def)

lemma smap_coherent: "list_all notice_coherent ns \<Longrightarrow> smap notice_row ns = Inr ns"
  by (simp add: smap_notice_row)

lemma set_pending: "set (pending_rows s i) = {n \<in> set (st_notices s). ln_episode_id n = i \<and> unread n}"
  by (auto simp: pending_rows_def notice_order_def)

lemma distinct_pending:
  "distinct (map ln_notice_id (st_notices s)) \<Longrightarrow> distinct (map ln_notice_id (pending_rows s i))"
  by (simp add: pending_rows_def notice_order_def distinct_map inj_on_def)

text \<open>Handing over changes neither the identity of a notice nor how it is shown.\<close>

lemma handed_fields [simp]:
  "ln_notice_id (delivered now op n) = ln_notice_id n" "ln_notice_id (acknowledged now a n) = ln_notice_id n"
  "ln_episode_id (delivered now op n) = ln_episode_id n" "ln_episode_id (acknowledged now a n) = ln_episode_id n"
  "\<not> unread (delivered now op n)" "\<not> unread (acknowledged now a n)"
  "notice_projection (delivered now op n) = notice_projection n"
  "notice_projection (acknowledged now a n) = notice_projection n"
  by (simp_all add: delivered_def acknowledged_def unread_def notice_projection_def)

lemma handed_coherent [simp]:
  "notice_coherent n \<Longrightarrow> unread n \<Longrightarrow> notice_coherent (delivered now op n)"
  "notice_coherent n \<Longrightarrow> notice_coherent (acknowledged now a n)"
  by (auto simp: notice_coherent_def delivered_def acknowledged_def unread_def)

lemma fits_projection:
  assumes "map notice_projection ns = map notice_projection ms" and "map ln_notice_id ns = map ln_notice_id ms"
  shows "inbox_effect_fits E m ns = inbox_effect_fits E m ms"
proof -
  have "map (VStr \<circ> ln_notice_id) ns = map (VStr \<circ> ln_notice_id) ms"
    using arg_cong [OF assms(2), of "map VStr"] by (simp only: map_map)
  then have "inbox_projection m ns = inbox_projection m ms"
    using assms(1) map_eq_imp_length_eq [OF assms(2)]
    by (cases m) (simp_all add: inbox_projection_def)
  then show ?thesis by (simp add: inbox_effect_fits_def)
qed

lemma fits_acknowledged [simp]: "inbox_effect_fits E m (map (acknowledged now a) ns) = inbox_effect_fits E m ns"
  by (rule fits_projection) simp_all

section \<open>Moves\<close>

definition hand_over ::
  "string set \<Rightarrow> (lifecycle_notice \<Rightarrow> lifecycle_notice) \<Rightarrow> lifecycle_notice list \<Rightarrow> lifecycle_notice list" where
  "hand_over K f = map (\<lambda>n. if unread n \<and> ln_notice_id n \<in> K then f n else n)"

definition receipt_rows :: "inbox_receipt \<Rightarrow> lifecycle_notice list \<Rightarrow> lifecycle_notice list" where
  "receipt_rows r ns = filter (\<lambda>n. ln_notice_id n \<in> set (ir_notice_ids r)) ns"

inductive inbox_move :: "store_env \<Rightarrow> store \<Rightarrow> store \<Rightarrow> bool" for E where
  m_same: "st_notices t = st_notices s \<Longrightarrow> st_inbox_receipts t = st_inbox_receipts s \<Longrightarrow> inbox_move E s t"
| m_new: "notice_coherent b \<Longrightarrow> unread b \<Longrightarrow> inbox_effect_fits E Harvest [b]
    \<Longrightarrow> ln_notice_id b \<notin> set (map ln_notice_id (st_notices s)) \<Longrightarrow> st_notices t = st_notices s @ [b]
    \<Longrightarrow> st_inbox_receipts t = st_inbox_receipts s \<Longrightarrow> inbox_move E s t"
| m_deliver: "st_notices t = hand_over K (delivered now op) (st_notices s)
    \<Longrightarrow> st_inbox_receipts t = st_inbox_receipts s \<Longrightarrow> inbox_move E s t"
| m_acknowledge: "st_notices t = hand_over K (acknowledged now actor) (st_notices s)
    \<Longrightarrow> st_inbox_receipts t = st_inbox_receipts s \<Longrightarrow> inbox_move E s t"
| m_receipt: "inbox_receipt_row r = Inr r \<Longrightarrow> \<not> dhas (ir_effect_id r) (st_inbox_receipts s)
    \<Longrightarrow> (\<And>k. k \<in> set (ir_notice_ids r) \<Longrightarrow> k \<in> set (map ln_notice_id (pending_rows s (ir_episode_id r))))
    \<Longrightarrow> st_notices t = hand_over (set (ir_notice_ids r)) (acknowledged (ir_created_at r) (ir_acknowledged_by r)) (st_notices s)
    \<Longrightarrow> set (ir_notices r) \<subseteq> set (st_notices t)
    \<Longrightarrow> st_inbox_receipts t = dset (ir_effect_id r) r (st_inbox_receipts s) \<Longrightarrow> inbox_move E s t"

section \<open>The invariant\<close>

definition receipt_holds :: "store \<Rightarrow> inbox_receipt \<Rightarrow> bool" where
  "receipt_holds s r \<longleftrightarrow> inbox_receipt_row r = Inr r \<and> set (ir_notices r) \<subseteq> set (st_notices s)
     \<and> (\<forall>k \<in> set (ir_notice_ids r). \<exists>n \<in> set (st_notices s). ln_notice_id n = k
         \<and> ln_episode_id n = ir_episode_id r \<and> ln_delivered_at n = None
         \<and> ln_acknowledged_at n = Some (ir_created_at r) \<and> ln_acknowledged_by n = Some (ir_acknowledged_by r))"

definition inbox_ok :: "store_env \<Rightarrow> store \<Rightarrow> bool" where
  "inbox_ok E s \<longleftrightarrow> distinct (map ln_notice_id (st_notices s))
     \<and> (\<forall>n \<in> set (st_notices s). notice_coherent n \<and> inbox_effect_fits E Harvest [n])
     \<and> keyed ir_effect_id (st_inbox_receipts s)
     \<and> (\<forall>r \<in> set (dvalues (st_inbox_receipts s)). receipt_holds s r)
     \<and> distinct (concat (map ir_notice_ids (dvalues (st_inbox_receipts s))))"

lemma hand_over_ids:
  "(\<And>n. ln_notice_id (f n) = ln_notice_id n) \<Longrightarrow> map ln_notice_id (hand_over K f ns) = map ln_notice_id ns"
  by (simp add: hand_over_def comp_def if_distrib cong: if_cong)

lemma hand_over_kept: "n \<in> set ns \<Longrightarrow> \<not> unread n \<Longrightarrow> n \<in> set (hand_over K f ns)"
  by (force simp: hand_over_def image_iff)

lemma hand_over_handed:
  "n \<in> set ns \<Longrightarrow> unread n \<Longrightarrow> ln_notice_id n \<in> K \<Longrightarrow> f n \<in> set (hand_over K f ns)"
  by (force simp: hand_over_def image_iff)

lemma fits_single:
  "notice_projection m = notice_projection n \<Longrightarrow> inbox_effect_fits E Harvest [m] = inbox_effect_fits E Harvest [n]"
  by (simp add: inbox_effect_fits_def inbox_projection_def)

lemma hand_over_good:
  assumes "\<forall>n \<in> set ns. notice_coherent n \<and> inbox_effect_fits E Harvest [n]"
    and "\<And>n. notice_coherent n \<Longrightarrow> unread n \<Longrightarrow> notice_coherent (f n)"
    and "\<And>n. notice_projection (f n) = notice_projection n"
  shows "\<forall>n \<in> set (hand_over K f ns). notice_coherent n \<and> inbox_effect_fits E Harvest [n]"
  using assms(1,2) fits_single [OF assms(3), of E] by (auto simp: hand_over_def)

text \<open>A receipt's rows are acknowledged, and acknowledged rows are never written again.\<close>

lemma receipt_holds_kept:
  assumes "receipt_holds s r" and "\<And>n. n \<in> set (st_notices s) \<Longrightarrow> \<not> unread n \<Longrightarrow> n \<in> set (st_notices t)"
    and "\<And>n. n \<in> set (ir_notices r) \<Longrightarrow> \<not> unread n"
  shows "receipt_holds t r"
proof -
  have "\<exists>n \<in> set (st_notices t). ln_notice_id n = k \<and> ln_episode_id n = ir_episode_id r \<and> ln_delivered_at n = None
      \<and> ln_acknowledged_at n = Some (ir_created_at r) \<and> ln_acknowledged_by n = Some (ir_acknowledged_by r)"
    if "k \<in> set (ir_notice_ids r)" for k
    using assms(1) that unfolding receipt_holds_def by (force simp: unread_def intro: assms(2))
  moreover have "set (ir_notices r) \<subseteq> set (st_notices t)"
    using assms by (auto simp: receipt_holds_def)
  ultimately show ?thesis using assms(1) by (simp add: receipt_holds_def)
qed

lemma same_notice:
  "distinct (map ln_notice_id ns) \<Longrightarrow> n \<in> set ns \<Longrightarrow> m \<in> set ns \<Longrightarrow> ln_notice_id n = ln_notice_id m \<Longrightarrow> n = m"
  by (auto simp: distinct_map dest: inj_onD)

lemma receipt_bodies:
  assumes "inbox_receipt_row r = Inr q" and "n \<in> set (ir_notices r)"
  shows "ln_notice_id n \<in> set (ir_notice_ids r)"
proof (cases "ir_mode r")
  case Harvest
  then have "map ln_notice_id (ir_notices r) = ir_notice_ids r"
    using assms(1) by (simp add: inbox_receipt_row_def split: if_splits)
  then show ?thesis using assms(2) by (metis image_eqI list.set_map)
qed (use assms in \<open>simp add: inbox_receipt_row_def split: if_splits\<close>)

lemma receipt_read:
  assumes ok: "inbox_ok E s" and r: "r \<in> set (dvalues (st_inbox_receipts s))" and n: "n \<in> set (ir_notices r)"
  shows "\<not> unread n"
proof -
  have h: "receipt_holds s r" using ok r by (simp add: inbox_ok_def)
  then have m: "n \<in> set (st_notices s)" and "ln_notice_id n \<in> set (ir_notice_ids r)"
    using n receipt_bodies [of r r n] by (auto simp: receipt_holds_def)
  then obtain m where "m \<in> set (st_notices s)" "ln_notice_id m = ln_notice_id n" "\<not> unread m"
    using h by (force simp: receipt_holds_def unread_def)
  then show ?thesis using same_notice [OF _ m] ok by (metis inbox_ok_def)
qed

lemma receipts_kept:
  assumes "inbox_ok E s" and "\<And>n. n \<in> set (st_notices s) \<Longrightarrow> \<not> unread n \<Longrightarrow> n \<in> set (st_notices t)"
    and "r \<in> set (dvalues (st_inbox_receipts s))"
  shows "receipt_holds t r"
  by (rule receipt_holds_kept [of s]) (use assms receipt_read [OF assms(1,3)] in \<open>simp_all add: inbox_ok_def\<close>)

lemma receipt_ids_read:
  assumes "inbox_ok E s" and "r \<in> set (dvalues (st_inbox_receipts s))" and "k \<in> set (ir_notice_ids r)"
  shows "k \<notin> set (map ln_notice_id (pending_rows s i))"
proof
  assume "k \<in> set (map ln_notice_id (pending_rows s i))"
  then obtain n where n: "n \<in> set (st_notices s)" "unread n" "ln_notice_id n = k" by (auto simp: set_pending)
  obtain m where m: "m \<in> set (st_notices s)" "\<not> unread m" "ln_notice_id m = k"
    using assms by (force simp: inbox_ok_def receipt_holds_def unread_def)
  show False using same_notice [OF _ n(1) m(1)] assms(1) n(2,3) m(2,3) by (metis inbox_ok_def)
qed

lemma dvalues_dset_fresh: "\<not> dhas k d \<Longrightarrow> dvalues (dset k v d) = dvalues d @ [v]"
  by (simp add: dset_fresh dvalues_def)

lemma new_receipt_holds:
  assumes "inbox_receipt_row r = Inr r" and "set (ir_notices r) \<subseteq> set (st_notices t)"
    and pend: "\<And>k. k \<in> set (ir_notice_ids r) \<Longrightarrow> k \<in> set (map ln_notice_id (pending_rows s (ir_episode_id r)))"
    and t: "st_notices t = hand_over (set (ir_notice_ids r)) (acknowledged (ir_created_at r) (ir_acknowledged_by r)) (st_notices s)"
  shows "receipt_holds t r"
  unfolding receipt_holds_def
proof (intro conjI ballI assms(1,2))
  fix k assume k: "k \<in> set (ir_notice_ids r)"
  then obtain n where n: "n \<in> set (st_notices s)" "unread n" "ln_notice_id n = k" "ln_episode_id n = ir_episode_id r"
    using pend by (force simp: set_pending)
  have "acknowledged (ir_created_at r) (ir_acknowledged_by r) n \<in> set (st_notices t)"
    unfolding t using n k by (intro hand_over_handed) simp_all
  then show "\<exists>n \<in> set (st_notices t). ln_notice_id n = k \<and> ln_episode_id n = ir_episode_id r \<and> ln_delivered_at n = None
      \<and> ln_acknowledged_at n = Some (ir_created_at r) \<and> ln_acknowledged_by n = Some (ir_acknowledged_by r)"
    by (rule bexI [rotated]) (use n in \<open>simp add: acknowledged_def unread_def\<close>)
qed

lemma hand_over_rows:
  assumes ok: "inbox_ok E s" and t: "st_notices t = hand_over K f (st_notices s)"
    and f: "\<And>n. notice_coherent n \<Longrightarrow> unread n \<Longrightarrow> notice_coherent (f n)"
      "\<And>n. notice_projection (f n) = notice_projection n" "\<And>n. ln_notice_id (f n) = ln_notice_id n"
  shows "distinct (map ln_notice_id (st_notices t))"
    "\<forall>n \<in> set (st_notices t). notice_coherent n \<and> inbox_effect_fits E Harvest [n]"
    "r \<in> set (dvalues (st_inbox_receipts s)) \<Longrightarrow> receipt_holds t r"
proof -
  show "distinct (map ln_notice_id (st_notices t))" using ok unfolding t hand_over_ids [OF f(3)] by (simp add: inbox_ok_def)
  show "\<forall>n \<in> set (st_notices t). notice_coherent n \<and> inbox_effect_fits E Harvest [n]"
    unfolding t by (rule hand_over_good [OF _ f(1,2)]) (use ok in \<open>simp add: inbox_ok_def\<close>)
  show "receipt_holds t r" if "r \<in> set (dvalues (st_inbox_receipts s))"
    by (rule receipts_kept [OF ok _ that]) (simp add: t hand_over_kept)
qed

lemma move_keeps_inbox:
  assumes ok: "inbox_ok E s" and "inbox_move E s t"
  shows "inbox_ok E t"
  using assms(2)
proof cases
  case m_same
  then show ?thesis using ok by (simp add: inbox_ok_def receipt_holds_def)
next
  case (m_new b)
  then show ?thesis using ok receipts_kept [OF ok, of t] by (auto simp: inbox_ok_def)
next
  case (m_deliver K now op)
  then show ?thesis using ok hand_over_rows [OF ok m_deliver(1) handed_coherent(1)] by (simp add: inbox_ok_def)
next
  case (m_acknowledge K now actor)
  then show ?thesis using ok hand_over_rows [OF ok m_acknowledge(1) handed_coherent(2)] by (simp add: inbox_ok_def)
next
  case (m_receipt r)
  let ?f = "acknowledged (ir_created_at r) (ir_acknowledged_by r)"
  have rows: "dvalues (st_inbox_receipts t) = dvalues (st_inbox_receipts s) @ [r]"
    using m_receipt by (simp add: dvalues_dset_fresh)
  have "keyed ir_effect_id (st_inbox_receipts t)"
    using ok m_receipt by (simp add: inbox_ok_def keyed_dset)
  moreover note kept = hand_over_rows [OF ok m_receipt(4) handed_coherent(2)]
  moreover have "receipt_holds t q" if "q \<in> set (dvalues (st_inbox_receipts t))" for q
    using that rows new_receipt_holds [OF m_receipt(1,5,3,4)] kept(3) by auto
  moreover have "distinct (concat (map ir_notice_ids (dvalues (st_inbox_receipts t))))"
  proof -
    have "distinct (ir_notice_ids r)" using m_receipt(1) by (simp add: inbox_receipt_row_def split: if_splits)
    moreover have "set (concat (map ir_notice_ids (dvalues (st_inbox_receipts s)))) \<inter> set (ir_notice_ids r) = {}"
    proof -
      have "k \<notin> set (ir_notice_ids r)" if "q \<in> set (dvalues (st_inbox_receipts s))" "k \<in> set (ir_notice_ids q)" for q k
        using receipt_ids_read [OF ok that] m_receipt(3) by blast
      then show ?thesis by auto
    qed
    ultimately show ?thesis using ok unfolding rows by (simp add: inbox_ok_def)
  qed
  ultimately show ?thesis by (simp add: inbox_ok_def)
qed


section \<open>The operations\<close>

text \<open>
  The operations on the inbox, and every other one as a step that leaves both tables alone. A
  notice given to be recorded is a record that passed its validator.
\<close>

inductive inbox_step :: "store_env \<Rightarrow> store \<Rightarrow> store \<Rightarrow> bool" for E where
  i_record: "notice_coherent n \<Longrightarrow> inbox_step E s (fst (record_auto_research_lifecycle_notice E s n))"
| i_close: "terminalize_child E s i x y d now = Inr t \<Longrightarrow> inbox_step E s t"
| i_activate: "activate_auto_research_child_experiment E s r admission = Inr t \<Longrightarrow> inbox_step E s t"
| i_settle: "inbox_step E s (fst (settle_auto_research_experiment_replacement E s child event d now))"
| i_claim: "inbox_step E s (fst (claim_auto_research_lifecycle_notices s i op limit now))"
| i_wake: "inbox_step E s (fst (create_auto_research_lifecycle_wake_task E s t ns ks))"
| i_harvest: "inbox_step E s (fst (harvest_auto_research_lifecycle_notices s i actor limit now))"
| i_clear: "inbox_step E s (fst (clear_auto_research_lifecycle_notices s i actor now))"
| i_process: "inbox_step E s (fst (process_auto_research_lifecycle_inbox E s i effect mode actor limit now))"
| i_detach: "detach_auto_research_children_for_restore E s d confirmer now = Inr t \<Longrightarrow> inbox_step E s t"
| i_other: "st_notices t = st_notices s \<Longrightarrow> st_inbox_receipts t = st_inbox_receipts s \<Longrightarrow> inbox_step E s t"

inductive inbox_reachable :: "store_env \<Rightarrow> store \<Rightarrow> bool" for E where
  ir_empty: "st_notices s = [] \<Longrightarrow> st_inbox_receipts s = [] \<Longrightarrow> inbox_reachable E s"
| ir_step: "inbox_reachable E s \<Longrightarrow> inbox_step E s t \<Longrightarrow> inbox_reachable E t"

lemma bounded_fits:
  assumes "bounded_notice E n = Inr b"
  shows "inbox_effect_fits E Harvest [b]" "\<exists>p. b = n\<lparr>ln_payload := p\<rparr>"
proof -
  have "inbox_effect_fits E Harvest [b] \<and> (b = n \<or> (\<exists>p. b = n\<lparr>ln_payload := p\<rparr>))"
    using assms by (auto simp: bounded_notice_def Let_def split: if_splits option.splits pyval.splits)
  moreover have "n = n\<lparr>ln_payload := ln_payload n\<rparr>" by simp
  ultimately show "inbox_effect_fits E Harvest [b]" "\<exists>p. b = n\<lparr>ln_payload := p\<rparr>" by metis+
qed

lemma insert_moves:
  assumes "insert_lifecycle_notice E s n = Inr p" and n: "notice_coherent n"
  shows "inbox_move E s (fst p)"
proof (cases "find (same_source n) (st_notices s)")
  case None
  then obtain b where b: "bounded_notice E n = Inr b" and new: "\<not> (\<exists>m \<in> set (st_notices s). ln_notice_id m = ln_notice_id b)"
    and st: "ln_state n = NoticePending"
    and p: "fst p = s\<lparr>st_notices := st_notices s @ [b\<lparr>ln_delivered_at := None, ln_delivery_operation_id := None,
           ln_acknowledged_at := None, ln_acknowledged_by := None\<rparr>]\<rparr>"
    using assms(1) by (auto simp: insert_lifecycle_notice_def sbind_eq_Inr)
  let ?b = "b\<lparr>ln_delivered_at := None, ln_delivery_operation_id := None, ln_acknowledged_at := None, ln_acknowledged_by := None\<rparr>"
  obtain q where q: "b = n\<lparr>ln_payload := q\<rparr>" using bounded_fits(2) [OF b] by blast
  have "notice_coherent ?b" "unread ?b" using n st by (auto simp: q notice_coherent_def unread_def)
  moreover have "inbox_effect_fits E Harvest [?b]"
    using bounded_fits(1) [OF b] fits_single [of ?b b E] by (simp add: notice_projection_def)
  ultimately show ?thesis using new unfolding p by (intro m_new) auto
next
  case (Some m)
  then have "fst p = s"
    using assms(1) by (auto simp: insert_lifecycle_notice_def sbind_eq_Inr split: if_splits sum.splits)
  then show ?thesis by (simp add: m_same)
qed

lemma pending_frame: "st_notices s = st_notices t \<Longrightarrow> pending_rows s i = pending_rows t i"
  by (simp add: pending_rows_def)

lemma move_frame:
  assumes "inbox_move E s t" and f: "st_notices s = st_notices s'" "st_inbox_receipts s = st_inbox_receipts s'"
    "st_notices t' = st_notices t" "st_inbox_receipts t' = st_inbox_receipts t"
  shows "inbox_move E s' t'"
  using assms(1)
proof cases
  case (m_receipt r)
  then show ?thesis using f pending_frame [OF f(1)] by (intro inbox_move.m_receipt [of r]) simp_all
qed (use f in \<open>auto intro: inbox_move.intros\<close>)

text \<open>Writes of the other tables of a route.\<close>

definition same_inbox :: "store \<Rightarrow> store \<Rightarrow> bool" where
  "same_inbox s t \<longleftrightarrow> st_notices t = st_notices s \<and> st_inbox_receipts t = st_inbox_receipts s"

lemma route_frames:
  "insert_route s r = Inr t \<Longrightarrow> same_inbox s t"
  "reflect_auto_research_child_admission s a i k c now = Inr t \<Longrightarrow> same_inbox s t"
  "same_inbox s (on_route i f s)" "same_inbox s s"
  by (auto simp: insert_route_def reflect_auto_research_child_admission_def on_admission_def on_route_def
      same_inbox_def sbind_eq_Inr split: option.splits if_splits)

lemma new_notice_coherent [simp]: "notice_coherent (new_notice E p k s e d now)"
  by (simp add: notice_coherent_def new_notice_def)

lemma insert_between:
  assumes "insert_lifecycle_notice E s1 (new_notice E p k x e d now) = Inr q" and "same_inbox s s1" and "same_inbox (fst q) t"
  shows "inbox_move E s t"
  using move_frame [OF insert_moves [OF assms(1) new_notice_coherent], of s t] assms(2,3) by (simp add: same_inbox_def)

lemma insert_direct:
  "insert_lifecycle_notice E s1 (new_notice E p k x e d now) = Inr (u, b) \<Longrightarrow> same_inbox s s1 \<Longrightarrow> inbox_move E s u"
  using insert_between [of E s1 p k x e d now "(u, b)" s u] by (simp add: route_frames(4))

lemma close_moves: "terminalize_child E s i x y d now = Inr t \<Longrightarrow> inbox_move E s t"
  by (auto simp: terminalize_child_def Let_def sbind_eq_Inr same_inbox_def m_same
      intro!: insert_between [of E _ _ _ _ _ _ _ _ s] split: option.splits if_splits)

lemma activate_moves:
  assumes "activate_auto_research_child_experiment E s r a = Inr t"
  shows "inbox_move E s t"
proof (cases "dget (st_routes s) (cr_child_episode_id r)")
  case None
  then have "same_inbox s t"
    using assms by (auto simp: activate_auto_research_child_experiment_def sbind_eq_Inr same_inbox_def
        dest!: route_frames(1,2))
  then show ?thesis by (simp add: m_same same_inbox_def)
next
  case (Some q)
  then show ?thesis
    using assms by (auto simp: activate_auto_research_child_experiment_def sbind_eq_Inr dest!: route_frames(2)
        intro: insert_between [OF _ route_frames(3)] split: if_splits option.splits)
qed

lemma transact_moves:
  "(\<And>t x. body = Inr (t, x) \<Longrightarrow> inbox_move E s t) \<Longrightarrow> inbox_move E s (fst (transact s body after))"
  by (auto simp: transact_state m_same split: sum.splits)

lemma settle_moves: "inbox_move E s (fst (settle_auto_research_experiment_replacement E s c e d now))"
  unfolding settle_auto_research_experiment_replacement_def Let_def
  by (cases "dget (st_routes s) c")
     (auto simp: sbind_eq_Inr m_same route_frames(3,4) intro!: transact_moves dest!: insert_direct [where s = s]
        split: if_splits)

text \<open>Handing over by identifier touches unread rows only, since identifiers are unique.\<close>

lemma ok_distinct: "inbox_ok E s \<Longrightarrow> distinct (map ln_notice_id (st_notices s))"
  by (simp add: inbox_ok_def)

lemma acknowledge_hands:
  assumes ids: "distinct (map ln_notice_id (st_notices s))" and "set (map ln_notice_id ns) \<subseteq> set (map ln_notice_id (pending_rows s i))"
  shows "st_notices (acknowledge_lifecycle_rows s ns now a)
    = hand_over (set (map ln_notice_id ns)) (acknowledged now a) (st_notices s)"
proof -
  have "ln_notice_id n \<in> set (map ln_notice_id ns) \<and> ln_acknowledged_at n = None
      \<longleftrightarrow> unread n \<and> ln_notice_id n \<in> set (map ln_notice_id ns)" if n: "n \<in> set (st_notices s)" for n
  proof -
    have "unread n" if "ln_notice_id n \<in> set (map ln_notice_id ns)"
    proof -
      have "ln_notice_id n \<in> set (map ln_notice_id (pending_rows s i))" using assms(2) that by (rule subsetD)
      then obtain m where m: "m \<in> set (st_notices s)" "unread m" "ln_notice_id m = ln_notice_id n"
        by (auto simp: set_pending)
      show ?thesis using same_notice [OF ids m(1) n m(3)] m(2) by simp
    qed
    then show ?thesis by (auto simp: unread_def)
  qed
  then show ?thesis by (auto simp: acknowledge_lifecycle_rows_def on_notices_def hand_over_def intro!: map_cong)
qed

lemma acknowledge_receipts [simp]: "st_inbox_receipts (acknowledge_lifecycle_rows s ns now a) = st_inbox_receipts s"
  by (simp add: acknowledge_lifecycle_rows_def on_notices_def)

lemma acknowledge_moves:
  "inbox_ok E s \<Longrightarrow> set ns \<subseteq> set (pending_rows s i) \<Longrightarrow> inbox_move E s (acknowledge_lifecycle_rows s ns now a)"
  by (rule m_acknowledge [OF acknowledge_hands [OF ok_distinct]]) (auto simp: image_mono)

lemma claim_moves: "inbox_move E s (fst (claim_auto_research_lifecycle_notices s i op limit now))"
proof -
  have "inbox_move E s t" if "claim_notices s i op now limit = Inr (t, ns)" for t ns
    using that by (auto simp: claim_notices_def Let_def sbind_eq_Inr m_same on_notices_def hand_over_def conj_commute
        intro!: m_deliver [where K = "set (map ln_notice_id (take (batch_size limit) (pending_rows s i)))"] split: if_splits)
  then show ?thesis
    by (auto simp: claim_auto_research_lifecycle_notices_def transact_state m_same split: sum.splits)
qed

text \<open>What a paid turn leaves alone.\<close>

definition correspondence :: "store \<Rightarrow> lifecycle_notice list \<times> inbox_receipt dict \<times> auto_message list" where
  "correspondence s = (st_notices s, st_inbox_receipts s, st_messages s)"

lemma correspondence_frames:
  "insert_agent_task E s t cause = Inr u \<Longrightarrow> correspondence u = correspondence s"
  "insert_invocation s n = Inr u \<Longrightarrow> correspondence u = correspondence s"
  "insert_auto_research_invocation s a = Inr u \<Longrightarrow> correspondence u = correspondence s"
  "correspondence (on_episode i f s) = correspondence s"
  by (auto simp: insert_agent_task_def insert_invocation_def insert_auto_research_invocation_def on_episode_def
      correspondence_def sbind_eq_Inr split: if_splits)

lemma paid_frames:
  assumes "insert_paid_auto_research_task E s e t role cause = Inr u"
  shows "st_notices u = st_notices s" "st_inbox_receipts u = st_inbox_receipts s" "st_messages u = st_messages s"
proof -
  have "correspondence u = correspondence s"
  proof (rule paid_result [OF assms])
    fix v actor seat s1 s2 s3
    assume tk: "insert_agent_task E s v cause = Inr s1"
      and iv: "insert_invocation s1 (paid_row (ep_episode_id e) t (ep_invocations_used e + 1)) = Inr s2"
      and ai: "insert_auto_research_invocation s2 (turn_row (ep_episode_id e) t (tk_operation_id t) role actor seat) = Inr s3"
      and u: "u = on_episode (ep_episode_id e) (\<lambda>e. e\<lparr>ep_invocations_used := ep_invocations_used e + 1,
         ep_updated_at := tk_created_at t\<rparr>) s3"
    show ?thesis
      unfolding u correspondence_frames(4) correspondence_frames(3) [OF ai] correspondence_frames(2) [OF iv]
      by (rule correspondence_frames(1) [OF tk])
  qed
  then show "st_notices u = st_notices s" "st_inbox_receipts u = st_inbox_receipts s" "st_messages u = st_messages s"
    by (simp_all add: correspondence_def)
qed

lemma wake_moves: "inbox_move E s (fst (create_auto_research_lifecycle_wake_task E s t ns ks))"
proof -
  have "inbox_move E s u" if "lifecycle_wake E s t ns ks i = Inr (u, b)" for i u b
    using that
  proof (cases rule: lifecycle_wake_result)
    case (woken e s1)
    then have "st_notices u = hand_over (set ns) (delivered (tk_created_at t) (tk_operation_id t)) (st_notices s)"
        "st_inbox_receipts u = st_inbox_receipts s"
      using paid_frames [OF woken(3)] by (simp_all add: on_notices_def on_messages_def hand_over_def conj_commute)
    then show ?thesis by (rule m_deliver)
  qed (simp add: m_same)
  then show ?thesis
    unfolding create_auto_research_lifecycle_wake_task_def
    by (auto intro!: transact_moves split: option.splits if_splits)
qed

lemma harvest_moves: "inbox_ok E s \<Longrightarrow> inbox_move E s (fst (harvest_auto_research_lifecycle_notices s i a limit now))"
  by (auto simp: harvest_auto_research_lifecycle_notices_def transact_state m_same sbind_eq_Inr smap_notice_row
      intro: acknowledge_moves [OF _ set_take_subset] split: sum.splits)

lemma clear_moves: "inbox_ok E s \<Longrightarrow> inbox_move E s (fst (clear_auto_research_lifecycle_notices s i a now))"
  by (auto simp: clear_auto_research_lifecycle_notices_def transact_state m_same sbind_eq_Inr smap_notice_row
      intro: acknowledge_moves split: sum.splits)

lemma detach_moves:
  assumes "detach_auto_research_children_for_restore E s d c now = Inr t"
  shows "inbox_move E s t"
proof -
  have "st_notices t = map (\<lambda>n. if unread n then acknowledged now (take 500 (spaced (py_words [] c))) n else n) (st_notices s)"
    "st_inbox_receipts t = st_inbox_receipts s"
    using assms by (auto simp: detach_auto_research_children_for_restore_def Let_def on_notices_def split: if_splits)
  then show ?thesis
    by (intro m_acknowledge [where K = UNIV and now = now and actor = "take 500 (spaced (py_words [] c))"]) (simp_all add: hand_over_def)
qed


section \<open>Keyed commands\<close>

lemma fitting_prefix_take: "\<exists>k. fitting_prefix fits sel ns = sel @ take k ns"
proof (induction ns arbitrary: sel)
  case (Cons n ns)
  obtain k where "fitting_prefix fits (sel @ [n]) ns = (sel @ [n]) @ take k ns" using Cons by blast
  then have "fits (sel @ [n]) \<Longrightarrow> fitting_prefix fits sel (n # ns) = sel @ take (Suc k) (n # ns)" by simp
  moreover have "\<not> fits (sel @ [n]) \<Longrightarrow> fitting_prefix fits sel (n # ns) = sel @ take 0 (n # ns)" by simp
  ultimately show ?case by blast
qed simp

lemma fitting_prefix_fits: "fits sel \<Longrightarrow> fits (fitting_prefix fits sel ns)"
  by (induction ns arbitrary: sel) auto

text \<open>A snapshot is an acknowledged prefix of the pending notices, all of them for Clear.\<close>

lemma snapshot_prefix:
  assumes "inbox_snapshot E s i mode a limit now = Inr ns"
  obtains k where "ns = map (acknowledged now a) (take k (pending_rows s i))"
proof -
  let ?p = "(if mode = Harvest then take (batch_size limit) else id) (pending_rows s i)"
  obtain c where b: "bounded_auto_research_inbox_snapshot E ?p mode now a c = Inr ns"
    using assms by (auto simp: inbox_snapshot_def sbind_eq_Inr smap_notice_row)
  show ?thesis
  proof (cases mode)
    case Harvest
    obtain k where "fitting_prefix (inbox_effect_fits E Harvest) [] (map (acknowledged now a) ?p)
        = [] @ take k (map (acknowledged now a) ?p)" using fitting_prefix_take by blast
    then have "ns = map (acknowledged now a) (take (min k (batch_size limit)) (pending_rows s i))"
      using b Harvest by (auto simp: bounded_auto_research_inbox_snapshot_def Let_def take_map split: if_splits)
    then show ?thesis by (rule that)
  next
    case Clear
    then have "ns = map (acknowledged now a) (take (length (pending_rows s i)) (pending_rows s i))"
      using b by (auto simp: bounded_auto_research_inbox_snapshot_def Let_def split: if_splits)
    then show ?thesis by (rule that)
  qed
qed

lemma acknowledged_twice [simp]: "acknowledged now a (acknowledged now a n) = acknowledged now a n"
  by (simp add: acknowledged_def)


lemma fresh_receipt_moves:
  assumes ok: "inbox_ok E s" and new: "\<not> dhas effect (st_inbox_receipts s)"
    and ns: "ns = map (acknowledged now a) (take k (pending_rows s i))"
    and r: "inbox_receipt_row (new_inbox_receipt effect i mode ns a now) = Inr r"
    and t: "t = (acknowledge_lifecycle_rows s ns now a)\<lparr>st_inbox_receipts := dset effect r (st_inbox_receipts s)\<rparr>"
  shows "inbox_move E s t"
proof -
  let ?p = "take k (pending_rows s i)"
  have r': "r = new_inbox_receipt effect i mode ns a now" and row: "inbox_receipt_row r = Inr r"
    using r by (simp_all add: inbox_receipt_row_def split: if_splits)
  have fields: "ir_effect_id r = effect" "ir_episode_id r = i" "ir_created_at r = now" "ir_acknowledged_by r = a"
    "ir_notice_ids r = map ln_notice_id ?p" "set (ir_notices r) \<subseteq> acknowledged now a ` set ?p"
    by (auto simp: r' new_inbox_receipt_def Let_def ns)
  have sub: "set ?p \<subseteq> set (pending_rows s i)" by (rule set_take_subset)
  have ids: "set (map ln_notice_id ns) = set (map ln_notice_id ?p)" by (simp add: ns image_image)
  have "st_notices t = st_notices (acknowledge_lifecycle_rows s ns now a)" by (simp add: t)
  also have "\<dots> = hand_over (set (map ln_notice_id ?p)) (acknowledged now a) (st_notices s)"
    unfolding ids [symmetric] by (rule acknowledge_hands [OF ok_distinct [OF ok], of _ i]) (use ids sub in auto)
  finally have n: "st_notices t = hand_over (set (map ln_notice_id ?p)) (acknowledged now a) (st_notices s)" .
  show ?thesis
  proof (rule m_receipt [of r])
    show "k \<in> set (map ln_notice_id (pending_rows s (ir_episode_id r)))" if "k \<in> set (ir_notice_ids r)" for k
      using that sub by (auto simp: fields)
    show "set (ir_notices r) \<subseteq> set (st_notices t)"
      using fields(6) sub unfolding n by (force simp: set_pending intro: hand_over_handed)
    show "st_notices t = hand_over (set (ir_notice_ids r)) (acknowledged (ir_created_at r) (ir_acknowledged_by r)) (st_notices s)"
      unfolding fields n ..
  qed (use row new in \<open>simp_all add: fields t\<close>)
qed

lemma process_moves:
  assumes ok: "inbox_ok E s"
  shows "inbox_move E s (fst (process_auto_research_lifecycle_inbox E s i effect mode a limit now))"
proof (cases "dget (st_inbox_receipts s) effect")
  case None
  then have new: "\<not> dhas effect (st_inbox_receipts s)" by (simp add: dhas_iff)
  have "inbox_move E s t"
    if "inbox_snapshot E s i mode a limit now = Inr ns"
      "inbox_receipt_row (new_inbox_receipt effect i mode ns a now) = Inr r"
      "t = (acknowledge_lifecycle_rows s ns now a)\<lparr>st_inbox_receipts := dset effect r (st_inbox_receipts s)\<rparr>" for ns r t
    using fresh_receipt_moves [OF ok new _ that(2,3)] by (rule snapshot_prefix [OF that(1)])
  then show ?thesis
    unfolding process_auto_research_lifecycle_inbox_def
    by (auto simp: None sbind_eq_Inr Let_def m_same intro!: transact_moves)
next
  case (Some r)
  then show ?thesis
    unfolding process_auto_research_lifecycle_inbox_def
    by (auto simp: sbind_eq_Inr m_same intro!: transact_moves split: if_splits)
qed

lemma record_moves: "notice_coherent n \<Longrightarrow> inbox_move E s (fst (record_auto_research_lifecycle_notice E s n))"
  unfolding record_auto_research_lifecycle_notice_def by (rule transact_moves) (use insert_moves in fastforce)

lemma step_moves: "inbox_step E s t \<Longrightarrow> inbox_ok E s \<Longrightarrow> inbox_move E s t"
  by (induction rule: inbox_step.induct)
     (simp_all add: record_moves close_moves activate_moves settle_moves claim_moves wake_moves harvest_moves clear_moves
        process_moves detach_moves m_same)

lemma step_keeps_inbox: "inbox_ok E s \<Longrightarrow> inbox_step E s t \<Longrightarrow> inbox_ok E t"
  by (blast intro: move_keeps_inbox step_moves)

lemma empty_inbox: "st_notices s = [] \<Longrightarrow> st_inbox_receipts s = [] \<Longrightarrow> inbox_ok E s"
  by (simp add: inbox_ok_def keyed_def dvalues_def)

lemma inbox_reachable_ok: "inbox_reachable E s \<Longrightarrow> inbox_ok E s"
  by (induction rule: inbox_reachable.induct) (auto intro: empty_inbox step_keeps_inbox)

section \<open>What a run keeps\<close>

text \<open>The hand-over of one notice: to a wake or to an actor, and nothing after.\<close>

inductive notice_move :: "lifecycle_notice \<Rightarrow> lifecycle_notice \<Rightarrow> bool" where
  n_deliver: "unread n \<Longrightarrow> notice_move n (delivered now op n)"
| n_acknowledge: "unread n \<Longrightarrow> notice_move n (acknowledged now a n)"

definition notice_at :: "store \<Rightarrow> string \<Rightarrow> lifecycle_notice option" where
  "notice_at s k = find (\<lambda>n. ln_notice_id n = k) (st_notices s)"

lemma notice_at_row: "notice_at s k = Some n \<Longrightarrow> n \<in> set (st_notices s) \<and> ln_notice_id n = k"
  by (auto simp: notice_at_def find_Some_iff)

lemma find_hand_over:
  "(\<And>n. ln_notice_id (f n) = ln_notice_id n) \<Longrightarrow> find (\<lambda>n. ln_notice_id n = k) (hand_over K f ns)
    = map_option (\<lambda>n. if unread n \<and> k \<in> K then f n else n) (find (\<lambda>n. ln_notice_id n = k) ns)"
  by (induction ns) (auto simp: hand_over_def)

lemma find_append_Some: "find P xs = Some x \<Longrightarrow> find P (xs @ ys) = Some x"
  by (induction xs) (auto split: if_splits)

lemma move_notice:
  assumes "inbox_move E s t" and "notice_at s k = Some n"
  shows "\<exists>m. notice_at t k = Some m \<and> notice_move\<^sup>*\<^sup>* n m"
  using assms(1)
proof cases
  case m_same
  then show ?thesis using assms(2) by (auto simp: notice_at_def)
next
  case (m_new b)
  then show ?thesis using assms(2) by (auto simp: notice_at_def dest: find_append_Some)
qed (use assms(2) in \<open>auto simp: notice_at_def find_hand_over intro: n_deliver n_acknowledge\<close>)

lemma move_receipt:
  "inbox_move E s t \<Longrightarrow> dget (st_inbox_receipts s) k = Some r \<Longrightarrow> dget (st_inbox_receipts t) k = Some r"
  by (induction rule: inbox_move.induct) (auto simp: dhas_iff)

text \<open>Whether a notice may still be handed over bounds how often it changes.\<close>

lemma notice_move_read: "notice_move n m \<Longrightarrow> unread n \<and> \<not> unread m"
  by (induction rule: notice_move.induct) simp_all

interpretation notices: ranked_system "inbox_step E" "inbox_ok E" notice_at notice_move
    "\<lambda>n. if unread n then 1 else 0" for E
  by unfold_locales (auto intro: step_keeps_inbox move_notice [OF step_moves] dest: notice_move_read)

interpretation receipts: traced_system "inbox_step E" "inbox_ok E" "\<lambda>s. dget (st_inbox_receipts s)" "\<lambda>r q. False" for E
  by unfold_locales (auto intro: step_keeps_inbox dest: move_receipt [OF step_moves])

end
