(* ===== verification/InboxProps.thy ===== *)
theory InboxProps
  imports InboxMachine EpisodeProps
begin

text \<open>
  What the lifecycle inbox guarantees: a notice is handed over once, a repeated command returns
  its receipt, repeated harvests empty the inbox in order, and a refusal names a command that
  works.
\<close>

section \<open>Draining\<close>

text \<open>A harvest per effect, and the identifiers the receipts name, in order.\<close>

fun harvests ::
  "store_env \<Rightarrow> string \<Rightarrow> string \<Rightarrow> int \<Rightarrow> string \<Rightarrow> string list \<Rightarrow> store \<Rightarrow> store \<times> string list" where
  "harvests E i a limit now [] s = (s, [])"
| "harvests E i a limit now (x # xs) s =
    (case process_auto_research_lifecycle_inbox E s i x Harvest a limit now of
       (t, Inr r) \<Rightarrow> (case harvests E i a limit now xs t of (u, ks) \<Rightarrow> (u, ir_notice_ids r @ ks))
     | (t, Inl _) \<Rightarrow> harvests E i a limit now xs t)"

lemma notice_order_filter: "notice_order (filter P ns) = filter P (notice_order ns)"
  by (simp add: notice_order_def filter_sort)

lemma filter_handed:
  assumes "\<And>n. \<not> unread (f n)"
  shows "filter (\<lambda>n. ln_episode_id n = i \<and> unread n) (hand_over K f ns)
    = filter (\<lambda>n. ln_notice_id n \<notin> K) (filter (\<lambda>n. ln_episode_id n = i \<and> unread n) ns)"
  using assms by (induction ns) (auto simp: hand_over_def)

lemma filter_rest:
  assumes "distinct (map key xs)"
  shows "filter (\<lambda>x. key x \<notin> set (map key (take k xs))) xs = drop k xs"
proof -
  have "set (map key (take k xs)) \<inter> set (map key (drop k xs)) = {}"
    using assms by (metis append_take_drop_id distinct_append map_append)
  then have "filter (\<lambda>x. key x \<notin> set (map key (take k xs))) (take k xs @ drop k xs) = drop k xs"
    by (subst filter_append) (auto simp: filter_id_conv filter_empty_conv)
  then show ?thesis by simp
qed

lemma pending_rest:
  assumes "distinct (map ln_notice_id (st_notices s))" and "st_notices t = hand_over (set (map ln_notice_id (take k (pending_rows s i)))) (acknowledged now a) (st_notices s)"
  shows "pending_rows t i = drop k (pending_rows s i)"
proof -
  have "pending_rows t i = filter (\<lambda>n. ln_notice_id n \<notin> set (map ln_notice_id (take k (pending_rows s i)))) (pending_rows s i)"
    by (simp only: pending_rows_def [of t] assms(2) filter_handed [OF handed_fields(6)] notice_order_filter
        [of "\<lambda>n. ln_notice_id n \<notin> _"]) (simp add: pending_rows_def)
  then show ?thesis using filter_rest [OF distinct_pending [OF assms(1)]] by simp
qed

text \<open>A harvest of pending notices takes at least the oldest.\<close>

lemma harvest_snapshot:
  assumes ok: "inbox_ok E s" and some: "pending_rows s i \<noteq> []"
  obtains k where "0 < k" "k \<le> length (pending_rows s i)"
    "inbox_snapshot E s i Harvest a limit now = Inr (map (acknowledged now a) (take k (pending_rows s i)))"
proof -
  let ?p = "take (batch_size limit) (pending_rows s i)" and ?fits = "inbox_effect_fits E Harvest"
  have good: "\<forall>n \<in> set (pending_rows s i). notice_coherent n \<and> ?fits [n]"
    using ok by (auto simp: inbox_ok_def set_pending)
  have "batch_size limit \<noteq> 0" by (simp add: batch_size_def)
  with some obtain n ns where p: "?p = n # ns" by (cases ?p) auto
  then have n: "n \<in> set (pending_rows s i)" by (metis in_set_takeD list.set_intros(1))
  have fits: "?fits [acknowledged now a n]" using good n fits_single [of "acknowledged now a n" n E] by simp
  have "smap notice_row ?p = Inr ?p" using good by (auto simp: smap_notice_row list_all_iff dest: in_set_takeD)
  moreover obtain k where k: "fitting_prefix ?fits [acknowledged now a n] (map (acknowledged now a) ns)
      = [acknowledged now a n] @ take k (map (acknowledged now a) ns)" using fitting_prefix_take by blast
  moreover have "?fits (fitting_prefix ?fits [acknowledged now a n] (map (acknowledged now a) ns))"
    by (rule fitting_prefix_fits [of "inbox_effect_fits E Harvest", OF fits])
  ultimately have snap: "inbox_snapshot E s i Harvest a limit now = Inr (map (acknowledged now a) (take (Suc k) ?p))"
    using fits by (simp add: p inbox_snapshot_def bounded_auto_research_inbox_snapshot_def Let_def take_map)
  show ?thesis
  proof (rule that [of "min (length (pending_rows s i)) (min (Suc k) (batch_size limit))"])
    show "inbox_snapshot E s i Harvest a limit now = Inr (map (acknowledged now a)
        (take (min (length (pending_rows s i)) (min (Suc k) (batch_size limit))) (pending_rows s i)))"
      unfolding snap by (simp add: min_def)
  qed (use some \<open>batch_size limit \<noteq> 0\<close> in auto)
qed


text \<open>A fresh command commits the snapshot it takes, with its receipt.\<close>

lemma process_fresh:
  assumes ok: "distinct (map ln_notice_id (st_notices s))" and fresh: "\<not> dhas x (st_inbox_receipts s)" "py_strip x \<noteq> []" "py_strip a \<noteq> []"
    and e: "load_auto_research_episode s i = Inr e"
    and snap: "inbox_snapshot E s i mode a limit now = Inr (map (acknowledged now a) (take k (pending_rows s i)))"
  obtains t r where "process_auto_research_lifecycle_inbox E s i x mode a limit now = (t, Inr r)"
    "ir_notice_ids r = map ln_notice_id (take k (pending_rows s i))"
    "pending_rows t i = drop k (pending_rows s i)"
    "st_episodes t = st_episodes s" "st_auto_research t = st_auto_research s"
    "st_inbox_receipts t = dset x r (st_inbox_receipts s)"
proof -
  let ?ns = "map (acknowledged now a) (take k (pending_rows s i))"
  let ?r = "new_inbox_receipt x i mode ?ns a now"
  let ?t = "(acknowledge_lifecycle_rows s ?ns now a)\<lparr>st_inbox_receipts := dset x ?r (st_inbox_receipts s)\<rparr>"
  have ids: "ir_notice_ids ?r = map ln_notice_id (take k (pending_rows s i))"
    by (simp add: new_inbox_receipt_def Let_def)
  have "distinct (map ln_notice_id (pending_rows s i))" by (rule distinct_pending [OF ok])
  then have "distinct (take k (map ln_notice_id (pending_rows s i)))" by (rule distinct_take)
  then have "distinct (ir_notice_ids ?r)" unfolding ids take_map .
  then have row: "inbox_receipt_row ?r = Inr ?r" by (simp add: inbox_receipt_row_def new_inbox_receipt_def Let_def)
  have sub: "set (map ln_notice_id ?ns) \<subseteq> set (map ln_notice_id (pending_rows s i))"
    using set_take_subset [of k "pending_rows s i"] by auto
  have "st_notices ?t = hand_over (set (map ln_notice_id ?ns)) (acknowledged now a) (st_notices s)"
    using acknowledge_hands [OF ok sub] by simp
  then have "st_notices ?t = hand_over (set (map ln_notice_id (take k (pending_rows s i)))) (acknowledged now a) (st_notices s)"
    by (simp add: image_image)
  then have rest: "pending_rows ?t i = drop k (pending_rows s i)" by (rule pending_rest [OF ok])
  have "process_auto_research_lifecycle_inbox E s i x mode a limit now = (?t, Inr ?r)"
    using fresh e snap row by (simp add: process_auto_research_lifecycle_inbox_def transact_def dhas_iff Let_def)
  then show ?thesis
    by (rule that [OF _ ids rest]) (simp_all add: acknowledge_lifecycle_rows_def on_notices_def)
qed

lemma load_frame:
  "st_episodes t = st_episodes s \<Longrightarrow> st_auto_research t = st_auto_research s
    \<Longrightarrow> load_auto_research_episode t i = load_auto_research_episode s i"
  by (simp add: load_auto_research_episode_def split: option.splits)

lemma harvests_empty: "pending_rows s i = [] \<Longrightarrow> inbox_ok E s \<Longrightarrow> (\<forall>x \<in> set xs. \<not> dhas x (st_inbox_receipts s)) \<Longrightarrow> distinct xs
    \<Longrightarrow> pending_rows (fst (harvests E i a limit now xs s)) i = [] \<and> snd (harvests E i a limit now xs s) = []"
proof (induction xs arbitrary: s)
  case (Cons x xs)
  obtain t q where p: "process_auto_research_lifecycle_inbox E s i x Harvest a limit now = (t, q)" by fastforce
  have new: "dget (st_inbox_receipts s) x = None" using Cons.prems by (simp add: dhas_iff)
  have cases: "t = s \<and> isl q \<or> (\<exists>r. q = Inr r \<and> ir_notice_ids r = [] \<and> st_notices t = st_notices s
      \<and> st_inbox_receipts t = dset x r (st_inbox_receipts s))"
    using p Cons.prems(1) new
    by (auto simp: process_auto_research_lifecycle_inbox_def transact_def inbox_snapshot_def sbind_def Let_def
        bounded_auto_research_inbox_snapshot_def inbox_receipt_row_def new_inbox_receipt_def acknowledge_lifecycle_rows_def
        on_notices_def split: if_splits sum.splits)
  have "inbox_ok E t" using step_keeps_inbox [OF Cons.prems(2) i_process, of i x Harvest a limit now] p by simp
  moreover have "pending_rows t i = []" using cases Cons.prems(1) by (auto simp: pending_rows_def)
  moreover have "\<forall>y \<in> set xs. \<not> dhas y (st_inbox_receipts t)" using cases Cons.prems(3,4) by auto
  ultimately have "pending_rows (fst (harvests E i a limit now xs t)) i = [] \<and> snd (harvests E i a limit now xs t) = []"
    using Cons.IH Cons.prems(4) by simp
  then show ?case using p cases by (auto split: sum.splits prod.splits)
qed simp


lemma harvests_drain:
  assumes "inbox_ok E s" and "load_auto_research_episode s i = Inr e" and "py_strip a \<noteq> []"
    and "\<forall>x \<in> set xs. py_strip x \<noteq> [] \<and> \<not> dhas x (st_inbox_receipts s)" and "distinct xs"
    and "length (pending_rows s i) \<le> length xs"
  shows "pending_rows (fst (harvests E i a limit now xs s)) i = []
    \<and> snd (harvests E i a limit now xs s) = map ln_notice_id (pending_rows s i)"
  using assms
proof (induction xs arbitrary: s)
  case (Cons x xs)
  show ?case
  proof (cases "pending_rows s i = []")
    case True
    then show ?thesis using harvests_empty [OF True Cons.prems(1) _ Cons.prems(5)] Cons.prems(4) by simp
  next
    case False
    obtain k where k: "0 < k" "k \<le> length (pending_rows s i)"
        "inbox_snapshot E s i Harvest a limit now = Inr (map (acknowledged now a) (take k (pending_rows s i)))"
      by (rule harvest_snapshot [OF Cons.prems(1) False])
    have fresh: "\<not> dhas x (st_inbox_receipts s)" "py_strip x \<noteq> []" using Cons.prems(4) by simp_all
    obtain t r where p: "process_auto_research_lifecycle_inbox E s i x Harvest a limit now = (t, Inr r)"
      and r: "ir_notice_ids r = map ln_notice_id (take k (pending_rows s i))"
      and t: "pending_rows t i = drop k (pending_rows s i)" "st_episodes t = st_episodes s"
        "st_auto_research t = st_auto_research s" "st_inbox_receipts t = dset x r (st_inbox_receipts s)"
      by (rule process_fresh [OF ok_distinct [OF Cons.prems(1)] fresh Cons.prems(3,2) k(3)])
    have "inbox_ok E t" using step_keeps_inbox [OF Cons.prems(1) i_process, of i x Harvest a limit now] p by simp
    moreover have "load_auto_research_episode t i = Inr e" using load_frame [OF t(2,3)] Cons.prems(2) by simp
    moreover have "\<forall>y \<in> set xs. py_strip y \<noteq> [] \<and> \<not> dhas y (st_inbox_receipts t)"
      using Cons.prems(4,5) by (auto simp: t(4))
    moreover have "length (pending_rows t i) \<le> length xs" using k(1) Cons.prems(6) by (simp add: t(1))
    ultimately have "pending_rows (fst (harvests E i a limit now xs t)) i = []
        \<and> snd (harvests E i a limit now xs t) = map ln_notice_id (drop k (pending_rows s i))"
      using Cons.IH Cons.prems(3,5) t(1) by simp
    moreover have "map ln_notice_id (take k (pending_rows s i)) @ map ln_notice_id (drop k (pending_rows s i))
        = map ln_notice_id (pending_rows s i)" by (simp flip: map_append)
    ultimately show ?thesis using p r by (cases "harvests E i a limit now xs t") simp
  qed
qed simp

section \<open>Receipts\<close>

lemma notice_at_member:
  assumes "distinct (map ln_notice_id (st_notices s))" and "n \<in> set (st_notices s)" and "ln_notice_id n = k"
  shows "notice_at s k = Some n"
proof -
  have "notice_at s k \<noteq> None" using assms(2,3) by (auto simp: notice_at_def find_None_iff)
  then obtain m where m: "notice_at s k = Some m" by blast
  have "m = n" using notice_at_row [OF m] same_notice [OF assms(1) _ assms(2)] assms(3) by simp
  then show ?thesis using m by simp
qed

text \<open>The receipt a command returns is the one its store keeps under its effect.\<close>

lemma process_receipt:
  assumes "process_auto_research_lifecycle_inbox E s i x mode a limit now = (t, Inr r)"
  shows "dget (st_inbox_receipts t) x = Some r \<and> inbox_receipt_row r = Inr r \<and> py_strip x \<noteq> [] \<and> py_strip a \<noteq> []
    \<and> ir_episode_id r = i \<and> ir_mode r = mode \<and> ir_acknowledged_by r = a"
proof (cases "dget (st_inbox_receipts s) x")
  case None
  then show ?thesis
    using assms by (auto simp: process_auto_research_lifecycle_inbox_def transact_def sbind_eq_Inr Let_def inbox_receipt_row_def
        new_inbox_receipt_def split: if_splits sum.splits)
next
  case (Some q)
  then show ?thesis
    using assms by (auto simp: process_auto_research_lifecycle_inbox_def transact_def sbind_eq_Inr inbox_receipt_row_def
        split: if_splits sum.splits)
qed

section \<open>Sizes of responses\<close>

text \<open>A response is never shorter than the strings in it, which decides when one cannot fit.\<close>

fun text_bytes :: "pyval \<Rightarrow> nat" where
  "text_bytes (VStr s) = length s"
| "text_bytes (VList xs) = sum_list (map text_bytes xs)"
| "text_bytes (VDict d) = sum_list (map (\<lambda>kv. text_bytes (snd kv)) d)"
| "text_bytes v = 0"

lemma separated_length: "sum_list (map utf8_length ts) \<le> utf8_length (separated sep ts)"
  by (induction sep ts rule: separated.induct) auto

lemma enclosed_length: "sum_list (map utf8_length ts) \<le> utf8_length (enclosed a b l ts)"
  using separated_length [of ts "'','' @ line_break (map_option Suc l)"] by (auto simp: enclosed_def)

lemma json_text_length: "json_text F ascii l v = Some t \<Longrightarrow> text_bytes v \<le> utf8_length t"
proof (induction F ascii l v arbitrary: t rule: json_text.induct)
  case (7 F ascii l xs)
  then obtain ts where ts: "those (map (json_text F ascii (map_option Suc l)) xs) = Some ts" "t = enclosed ''['' '']'' l ts"
    by auto
  have "sum_list (map text_bytes xs) \<le> sum_list (map utf8_length ts)" by (rule those_bound [OF ts(1)]) (rule "7.IH")
  then show ?case using enclosed_length [of ts "''[''" "'']''" l] ts(2) by simp
next
  case (8 F ascii l d)
  then obtain ts where ts: "those (map (\<lambda>kv. map_option (\<lambda>t. json_string ascii (fst kv) @ key_separator l @ t)
        (json_text F ascii (map_option Suc l) (snd kv))) d) = Some ts" "t = enclosed ''{'' ''}'' l ts"
    by auto
  have "sum_list (map (\<lambda>kv. text_bytes (snd kv)) d) \<le> sum_list (map utf8_length ts)"
    by (rule those_bound [OF ts(1)]) (use "8.IH" in \<open>fastforce intro: le_trans [OF _ le_add2]\<close>)
  then show ?case using enclosed_length [of ts "''{''" "''}''" l] ts(2) by simp
qed (auto simp: json_string_length)


lemma too_large:
  assumes "AGENT_COMMAND_EVENT_MAX_BYTES < int (text_bytes (VDict (ln_payload n)))"
  shows "\<not> inbox_effect_fits E Harvest [n]"
proof
  let ?p = "inbox_projection Harvest [n]"
  assume "inbox_effect_fits E Harvest [n]"
  then obtain t where t: "json_text (se_str E) False (Some 0) (response_document ?p) = Some t"
      "int (utf8_length t) + 1 \<le> AGENT_COMMAND_EVENT_MAX_BYTES"
    unfolding inbox_effect_fits_def effect_fits_def by (auto split: option.splits)
  have "text_bytes (VDict (ln_payload n)) \<le> text_bytes (response_document ?p)"
    by (simp add: inbox_projection_def notice_projection_def response_document_def)
  then show False using json_text_length [OF t(1)] t(2) assms by linarith
qed

section \<open>Refusals\<close>

lemma smap_notice_error: "smap notice_row ns = Inl e \<Longrightarrow> e = StoreValidationError"
  by (induction ns) (auto simp: sbind_def notice_row_def split: if_splits sum.splits)

lemma load_auto_error: "load_auto_research_episode s i = Inl e \<Longrightarrow> e \<in> {StoreKeyError, StoreValidationError}"
  by (auto simp: load_auto_research_episode_def episode_row_def split: option.splits if_splits)

lemma sbind_eq_Inl: "sbind m f = Inl e \<longleftrightarrow> m = Inl e \<or> (\<exists>x. m = Inr x \<and> f x = Inl e)"
  by (cases m) auto

lemma fitting_prefix_first:
  "fits [n] \<Longrightarrow> fitting_prefix fits [] (n # ns) \<noteq> []"
  using fitting_prefix_take [of fits "[n]" ns] by auto

lemma snapshot_refused:
  assumes "inbox_snapshot E s i Harvest a limit now = Inl err"
    and "err \<in> {AutoResearchInboxHarvestTooLarge, AutoResearchInboxNoticeUnacknowledgeable}"
  shows "list_all notice_coherent (pending_rows s i)
    \<and> inbox_effect_fits E Clear (pending_rows s i) = (err = AutoResearchInboxHarvestTooLarge)"
proof -
  let ?p = "take (batch_size limit) (pending_rows s i)"
  have p: "smap notice_row ?p = Inr ?p"
    using assms by (cases "smap notice_row ?p") (auto simp: inbox_snapshot_def smap_notice_row dest: smap_notice_error)
  show ?thesis
  proof (cases ?p)
    case Nil
    then show ?thesis using assms by (auto simp: inbox_snapshot_def bounded_auto_research_inbox_snapshot_def Let_def split: if_splits)
  next
    case (Cons n ns)
    show ?thesis
    proof (cases "inbox_effect_fits E Harvest [acknowledged now a n]")
      case True
      then show ?thesis
        using assms p Cons fitting_prefix_first [of "inbox_effect_fits E Harvest", OF True, of "map (acknowledged now a) ns"]
        by (auto simp: inbox_snapshot_def bounded_auto_research_inbox_snapshot_def Let_def split: if_splits)
    next
      case False
      then show ?thesis
        using assms p Cons
        by (auto simp: inbox_snapshot_def clear_would_fit_def bounded_auto_research_inbox_snapshot_def Let_def
            sbind_eq_Inl sbind_eq_Inr smap_notice_row dest: smap_notice_error split: if_splits)
    qed
  qed
qed

lemma process_refused:
  assumes "process_auto_research_lifecycle_inbox E s i x Harvest a limit now = (t, Inl err)"
    and "err \<in> {AutoResearchInboxHarvestTooLarge, AutoResearchInboxNoticeUnacknowledgeable}"
  shows "t = s" "\<exists>e. load_auto_research_episode s i = Inr e" "inbox_snapshot E s i Harvest a limit now = Inl err"
proof -
  show "t = s" using assms(1) by (auto simp: process_auto_research_lifecycle_inbox_def transact_def split: if_splits sum.splits)
  have "(\<exists>e. load_auto_research_episode s i = Inr e) \<and> inbox_snapshot E s i Harvest a limit now = Inl err"
    using assms by (auto simp: process_auto_research_lifecycle_inbox_def transact_def sbind_eq_Inl inbox_receipt_row_def Let_def
        dest!: load_auto_error split: if_splits sum.splits option.splits)
  then show "\<exists>e. load_auto_research_episode s i = Inr e" "inbox_snapshot E s i Harvest a limit now = Inl err" by simp_all
qed

lemma clear_snapshot:
  assumes "list_all notice_coherent (pending_rows s i)"
  shows "inbox_snapshot E s i Clear a limit now = (if inbox_effect_fits E Clear (pending_rows s i)
    then Inr (map (acknowledged now a) (take (length (pending_rows s i)) (pending_rows s i)))
    else Inl AutoResearchInboxClearTooLarge)"
  using smap_coherent [OF assms]
  by (auto simp: inbox_snapshot_def bounded_auto_research_inbox_snapshot_def Let_def split: list.splits)


section \<open>A sample inbox\<close>

definition research_episode :: episode_record where
  "research_episode = demo_episode\<lparr>ep_mode := AutoResearchMode, ep_control_node_id := None, ep_status := ERunning\<rparr>"

definition research_store :: store where
  "research_store = empty_store\<lparr>st_episodes := [(''e1'', research_episode)], st_auto_research := [(''e1'', \<lparr>as_episode_id = ''e1'', as_starting_instruction = None, as_created_at = ''t0'', as_updated_at = ''t0''\<rparr>)]\<rparr>"

definition demo_notice :: "string \<Rightarrow> string \<Rightarrow> lifecycle_notice" where
  "demo_notice child now = new_notice demo_env ''e1'' ''experiment_episode'' child ''completed''
     [(''episode_id'', VStr child), (''status'', VStr ''completed''), (''ending'', VStr ''completed'')] now"

definition demo_inbox :: store where
  "demo_inbox = fst (record_auto_research_lifecycle_notice demo_env
     (fst (record_auto_research_lifecycle_notice demo_env research_store (demo_notice ''c2'' ''t2''))) (demo_notice ''c1'' ''t1''))"

definition demo_harvested :: store where
  "demo_harvested = fst (process_auto_research_lifecycle_inbox demo_env demo_inbox ''e1'' ''k1'' Harvest ''o1'' 1 ''t3'')"

lemma demo_inbox_reachable: "inbox_reachable demo_env demo_inbox"
proof -
  have "inbox_reachable demo_env research_store" by (rule ir_empty) (simp_all add: research_store_def empty_store_def)
  moreover have "notice_coherent (demo_notice c now)" for c now by (simp add: demo_notice_def)
  ultimately show ?thesis unfolding demo_inbox_def by (intro ir_step [OF _ i_record])
qed

lemma demo_harvested_reachable: "inbox_reachable demo_env demo_harvested"
  unfolding demo_harvested_def by (rule ir_step [OF demo_inbox_reachable i_process])

text \<open>A stored notice too large for a response, as one written before notices were bounded.\<close>

definition demo_oversized :: store where
  "demo_oversized = research_store\<lparr>st_notices := [new_notice demo_env ''e1'' ''work'' ''w1'' ''failed''
     [(''diagnostic'', VStr (replicate 40000 CHR ''x''))] ''t1'']\<rparr>"

section \<open>Properties\<close>

text \<open>C19: A lifecycle notice is handed over once. In every store the operations reach, each identifier a
  receipt names belongs to a notice of the receipt's episode that was never delivered to a wake and
  was acknowledged by that receipt's actor at its time, and no identifier is named twice, within a
  receipt or by two of them.\<close>

theorem notices_handed_over_once:
  assumes "inbox_reachable E s"
  shows "distinct (concat (map ir_notice_ids (dvalues (st_inbox_receipts s))))
    \<and> (\<forall>r \<in> set (dvalues (st_inbox_receipts s)). \<forall>k \<in> set (ir_notice_ids r). \<exists>n. notice_at s k = Some n
        \<and> ln_episode_id n = ir_episode_id r \<and> ln_delivered_at n = None
        \<and> ln_acknowledged_at n = Some (ir_created_at r) \<and> ln_acknowledged_by n = Some (ir_acknowledged_by r))"
proof (intro conjI ballI)
  have ok: "inbox_ok E s" by (rule inbox_reachable_ok [OF assms])
  then show "distinct (concat (map ir_notice_ids (dvalues (st_inbox_receipts s))))" by (simp add: inbox_ok_def)
  fix r k
  assume r: "r \<in> set (dvalues (st_inbox_receipts s))" "k \<in> set (ir_notice_ids r)"
  then obtain n where n: "n \<in> set (st_notices s)" "ln_notice_id n = k" "ln_episode_id n = ir_episode_id r"
      "ln_delivered_at n = None" "ln_acknowledged_at n = Some (ir_created_at r)"
      "ln_acknowledged_by n = Some (ir_acknowledged_by r)"
    using ok by (force simp: inbox_ok_def receipt_holds_def)
  have "notice_at s k = Some n" by (rule notice_at_member [OF ok_distinct [OF ok] n(1,2)])
  then show "\<exists>n. notice_at s k = Some n \<and> ln_episode_id n = ir_episode_id r \<and> ln_delivered_at n = None
        \<and> ln_acknowledged_at n = Some (ir_created_at r) \<and> ln_acknowledged_by n = Some (ir_acknowledged_by r)"
    using n(3-) by simp
qed

theorem notices_handed_over_once_witness:
  "distinct (concat (map ir_notice_ids (dvalues (st_inbox_receipts demo_harvested))))
    \<and> map ir_count (dvalues (st_inbox_receipts demo_harvested)) = [1]"
proof -
  have "map ir_count (dvalues (st_inbox_receipts demo_harvested)) = [1]" by code_simp
  then show ?thesis using notices_handed_over_once [OF demo_harvested_reachable] by simp
qed

text \<open>A repeated inbox command changes nothing. Once a command committed a receipt, the same command
  (effect, episode, mode and actor) returns that receipt in every later store and leaves the store
  as it is, whatever its limit and its time.\<close>

theorem inbox_command_replays:
  assumes "inbox_reachable E s"
    and "process_auto_research_lifecycle_inbox E s i x mode a limit now = (t, Inr r)"
    and "(inbox_step E)\<^sup>*\<^sup>* t u"
  shows "process_auto_research_lifecycle_inbox E u i x mode a limit' now' = (u, Inr r)"
proof -
  have ok: "inbox_ok E s" by (rule inbox_reachable_ok [OF assms(1)])
  then have ok': "inbox_ok E t" using step_keeps_inbox [OF ok i_process, of i x mode a limit now] assms(2) by simp
  have kept: "dget (st_inbox_receipts t) x = Some r" "inbox_receipt_row r = Inr r" "py_strip x \<noteq> []" "py_strip a \<noteq> []"
    "ir_episode_id r = i" "ir_mode r = mode" "ir_acknowledged_by r = a"
    using process_receipt [OF assms(2)] by simp_all
  have "dget (st_inbox_receipts u) x = Some r" using receipts.run_obs [OF assms(3) ok' kept(1)] by (auto elim: rtranclp.cases)
  then show ?thesis using kept by (simp add: process_auto_research_lifecycle_inbox_def transact_def)
qed

theorem inbox_command_replays_witness:
  "\<exists>r. process_auto_research_lifecycle_inbox demo_env demo_inbox ''e1'' ''k1'' Harvest ''o1'' 1 ''t3'' = (demo_harvested, Inr r)
    \<and> process_auto_research_lifecycle_inbox demo_env
      (fst (clear_auto_research_lifecycle_notices demo_harvested ''e1'' ''o1'' ''t4'')) ''e1'' ''k1'' Harvest ''o1'' 50 ''t9''
      = (fst (clear_auto_research_lifecycle_notices demo_harvested ''e1'' ''o1'' ''t4''), Inr r)"
proof -
  have "\<not> isl (snd (process_auto_research_lifecycle_inbox demo_env demo_inbox ''e1'' ''k1'' Harvest ''o1'' 1 ''t3''))" by code_simp
  then obtain r where r: "process_auto_research_lifecycle_inbox demo_env demo_inbox ''e1'' ''k1'' Harvest ''o1'' 1 ''t3''
      = (demo_harvested, Inr r)" unfolding demo_harvested_def by (metis prod.collapse sum.collapse(2))
  have "(inbox_step demo_env)\<^sup>*\<^sup>* demo_harvested (fst (clear_auto_research_lifecycle_notices demo_harvested ''e1'' ''o1'' ''t4''))"
    by (rule r_into_rtranclp, rule i_clear)
  then show ?thesis using inbox_command_replays [OF demo_inbox_reachable r] r by blast
qed


text \<open>C21: Harvesting drains the inbox in order, in the stores the operations reach: there every pending notice
  alone fits a response, because insertion bounds it. For an episode of such a store that loads, as many harvests as
  there are pending notices (each under a new effect identifier) leave none pending, and their receipts name exactly
  the notices that were pending, oldest first, whatever the limit of a harvest. A store with an older, oversized
  notice is not such a store; there a harvest may be refused.\<close>

theorem harvests_drain_the_inbox:
  assumes "inbox_reachable E s" and "load_auto_research_episode s i = Inr e" and "py_strip a \<noteq> []"
    and "list_all (\<lambda>x. py_strip x \<noteq> [] \<and> \<not> dhas x (st_inbox_receipts s)) xs" and "distinct xs"
    and "length (pending_rows s i) \<le> length xs"
  shows "pending_rows (fst (harvests E i a limit now xs s)) i = []
    \<and> snd (harvests E i a limit now xs s) = map ln_notice_id (pending_rows s i)"
  by (rule harvests_drain [OF inbox_reachable_ok [OF assms(1)] assms(2,3) _ assms(5,6)])
     (use assms(4) in \<open>simp add: list_all_iff\<close>)

theorem harvests_drain_the_inbox_witness:
  "length (pending_rows demo_inbox ''e1'') = 2
    \<and> pending_rows (fst (harvests demo_env ''e1'' ''o1'' 1 ''t3'' [''k1'', ''k2''] demo_inbox)) ''e1'' = []
    \<and> snd (harvests demo_env ''e1'' ''o1'' 1 ''t3'' [''k1'', ''k2''] demo_inbox) = map ln_notice_id (pending_rows demo_inbox ''e1'')"
proof -
  have two: "length (pending_rows demo_inbox ''e1'') = 2" by code_simp
  have "\<not> isl (load_auto_research_episode demo_inbox ''e1'')" by code_simp
  then obtain e where e: "load_auto_research_episode demo_inbox ''e1'' = Inr e" by (metis sum.collapse(2))
  have "py_strip ''o1'' \<noteq> []" "distinct [''k1'', ''k2'']"
    "list_all (\<lambda>x. py_strip x \<noteq> [] \<and> \<not> dhas x (st_inbox_receipts demo_inbox)) [''k1'', ''k2'']" by code_simp+
  then show ?thesis using harvests_drain_the_inbox [OF demo_inbox_reachable e, of "''o1''" "[''k1'', ''k2'']" 1 "''t3''"] two
    by (simp add: numeral_2_eq_2)
qed

text \<open>C24: A refused harvest says truly what to do. It changes nothing; if it reports that only the oldest
  body is too large, a Clear under a new effect identifier succeeds, names every pending notice and empties the inbox; if it
  reports that nothing can be acknowledged, that Clear is refused as too large and changes nothing.\<close>

theorem harvest_refusals_are_truthful:
  assumes "distinct (map ln_notice_id (st_notices s))"
    and "process_auto_research_lifecycle_inbox E s i x Harvest a limit now = (t, Inl err)"
    and "\<not> dhas y (st_inbox_receipts s)" and "py_strip y \<noteq> []" and "py_strip b \<noteq> []"
  shows "(err = AutoResearchInboxHarvestTooLarge \<longrightarrow> t = s
      \<and> (\<exists>u r. process_auto_research_lifecycle_inbox E s i y Clear b m later = (u, Inr r)
          \<and> ir_notice_ids r = map ln_notice_id (pending_rows s i) \<and> pending_rows u i = []))
    \<and> (err = AutoResearchInboxNoticeUnacknowledgeable \<longrightarrow> t = s
      \<and> process_auto_research_lifecycle_inbox E s i y Clear b m later = (s, Inl AutoResearchInboxClearTooLarge))"
proof (intro conjI impI)
  assume err: "err = AutoResearchInboxHarvestTooLarge"
  note refused = process_refused [OF assms(2)]
  show "t = s" using refused(1) err by simp
  obtain e where e: "load_auto_research_episode s i = Inr e" using refused(2) err by blast
  have "inbox_snapshot E s i Clear b m later
      = Inr (map (acknowledged later b) (take (length (pending_rows s i)) (pending_rows s i)))"
    using snapshot_refused [OF refused(3)] err clear_snapshot [of s i E b m later] by simp
  from process_fresh [OF assms(1,3-5) e this]
  show "\<exists>u r. process_auto_research_lifecycle_inbox E s i y Clear b m later = (u, Inr r)
      \<and> ir_notice_ids r = map ln_notice_id (pending_rows s i) \<and> pending_rows u i = []"
    by (metis drop_all le_refl take_all)
next
  assume err: "err = AutoResearchInboxNoticeUnacknowledgeable"
  note refused = process_refused [OF assms(2)]
  show "t = s" using refused(1) err by simp
  obtain e where e: "load_auto_research_episode s i = Inr e" using refused(2) err by blast
  have "inbox_snapshot E s i Clear b m later = Inl AutoResearchInboxClearTooLarge"
    using snapshot_refused [OF refused(3)] err clear_snapshot [of s i E b m later] by simp
  then show "process_auto_research_lifecycle_inbox E s i y Clear b m later = (s, Inl AutoResearchInboxClearTooLarge)"
    using assms(3-5) e by (simp add: process_auto_research_lifecycle_inbox_def transact_def dhas_iff)
qed

text \<open>The oversized notice cannot be harvested, and its identifier alone fits a response.\<close>

lemma oversized_pending:
  "pending_rows demo_oversized ''e1'' = st_notices demo_oversized" "list_all notice_coherent (st_notices demo_oversized)"
  "distinct (map ln_notice_id (st_notices demo_oversized))" "st_inbox_receipts demo_oversized = []"
  by (simp_all add: demo_oversized_def pending_rows_def notice_order_def unread_def research_store_def empty_store_def)
     (simp_all add: new_notice_def)

lemma oversized_refused:
  "process_auto_research_lifecycle_inbox demo_env demo_oversized ''e1'' ''k1'' Harvest ''o1'' 50 ''t3''
    = (demo_oversized, Inl AutoResearchInboxHarvestTooLarge)"
proof -
  let ?n = "new_notice demo_env ''e1'' ''work'' ''w1'' ''failed'' [(''diagnostic'', VStr (replicate 40000 CHR ''x''))] ''t1''"
  have rows: "st_notices demo_oversized = [?n]" by (simp add: demo_oversized_def)
  have "\<not> inbox_effect_fits demo_env Harvest [?n]"
    by (rule too_large) (simp add: new_notice_def AGENT_COMMAND_EVENT_MAX_BYTES_def)
  then have big: "\<not> inbox_effect_fits demo_env Harvest [acknowledged ''t3'' ''o1'' ?n]"
    using fits_single [of "acknowledged ''t3'' ''o1'' ?n" ?n demo_env] by simp
  have "inbox_effect_fits demo_env Clear [new_notice demo_env ''e1'' ''work'' ''w1'' ''failed'' [] ''t1'']" by code_simp
  then have small: "inbox_effect_fits demo_env Clear [?n]" by (simp add: inbox_effect_fits_def inbox_projection_def new_notice_def)
  have "\<not> isl (load_auto_research_episode research_store ''e1'')" by code_simp
  then obtain e where "load_auto_research_episode research_store ''e1'' = Inr e" by (metis sum.collapse(2))
  then have e: "load_auto_research_episode demo_oversized ''e1'' = Inr e"
    using load_frame [of demo_oversized research_store] by (simp add: demo_oversized_def)
  have args: "py_strip ''k1'' \<noteq> []" "py_strip ''o1'' \<noteq> []" by code_simp+
  have batch: "batch_size 50 = Suc 49" by (simp add: batch_size_def AUTO_RESEARCH_LIFECYCLE_MAX_NOTICES_def)
  have "smap notice_row [?n] = Inr [?n]" by (simp add: notice_row_def)
  then have "inbox_snapshot demo_env demo_oversized ''e1'' Harvest ''o1'' 50 ''t3'' = Inl AutoResearchInboxHarvestTooLarge"
    using big small oversized_pending(1) fits_acknowledged [of demo_env Clear "''t3''" "''o1''" "[?n]"]
    by (simp add: inbox_snapshot_def clear_would_fit_def bounded_auto_research_inbox_snapshot_def Let_def rows batch)
  then show ?thesis using args e oversized_pending(4) by (simp add: process_auto_research_lifecycle_inbox_def transact_def)
qed

theorem harvest_refusals_are_truthful_witness:
  "\<exists>u r. process_auto_research_lifecycle_inbox demo_env demo_oversized ''e1'' ''k2'' Clear ''o1'' 50 ''t4'' = (u, Inr r)
      \<and> ir_notice_ids r = map ln_notice_id (pending_rows demo_oversized ''e1'') \<and> pending_rows u ''e1'' = []"
proof -
  have "py_strip ''k2'' \<noteq> []" "py_strip ''o1'' \<noteq> []" by code_simp+
  then show ?thesis
    using harvest_refusals_are_truthful [OF oversized_pending(3) oversized_refused, of "''k2''" "''o1''" 50 "''t4''"]
      oversized_pending(4) by (simp add: dhas_def)
qed

end
