(* ===== verification/TurnMachine.thy ===== *)
theory TurnMachine
  imports TaskStatus EpisodeRuns
begin

text \<open>
  The turns of the Auto-research actors as a machine: starts, paid turns, wakes and recoveries admit
  a turn; the task lifecycle moves its status; everything else leaves the turns alone. The
  invariant says what each turn is charged to, and that an actor has one running turn.
\<close>

section \<open>The machine\<close>

definition active :: "agent_task \<Rightarrow> bool" where
  "active q \<longleftrightarrow> tk_status q \<in> {TQueued, TRunning, TPausing}"

text \<open>The columns that tie a turn to its episode, its parent and its attempt; no update writes them.\<close>

definition turn_key :: "agent_task \<Rightarrow> string \<times> string option \<times> string option \<times> int" where
  "turn_key q = (tk_operation_id q, tk_episode_id q, tk_parent_operation_id q, tk_attempt q)"

text \<open>No row is lost, and no turn that has ended becomes active again.\<close>

definition rows_kept :: "store \<Rightarrow> store \<Rightarrow> bool" where
  "rows_kept s t \<longleftrightarrow> keyed tk_operation_id (st_tasks t)
     \<and> (\<forall>k q. dget (st_tasks s) k = Some q \<longrightarrow> (\<exists>q'. dget (st_tasks t) k = Some q' \<and> turn_key q' = turn_key q
          \<and> (dhas k (st_auto_invocations s) \<longrightarrow> active q' \<longrightarrow> active q)))
     \<and> set (st_invocations s) \<subseteq> set (st_invocations t)"

inductive turn_step :: "store_env \<Rightarrow> store \<Rightarrow> store \<Rightarrow> bool" for E where
  t_start: "episode_coherent e
    \<Longrightarrow> turn_step E s (fst (create_auto_research_episode_with_root_task E s e st t on))"
| t_turn: "turn_step E s (fst (create_auto_research_agent_task E s t role cause))"
| t_message_wake: "turn_step E s (fst (create_auto_research_message_wake_task E s t role recipient ks))"
| t_lifecycle_wake: "turn_step E s (fst (create_auto_research_lifecycle_wake_task E s t ns ks))"
| t_recover: "turn_step E s (fst (create_auto_research_recovery_task E s t cause))"
| t_transition: "(\<And>q. turn_key (f q) = turn_key q \<and> tk_status (f q) = tk_status q)
    \<Longrightarrow> turn_step E s (fst (transition_agent_task s op target f))"
| t_worker_pause: "turn_step E s (fst (request_auto_research_worker_pause s op i now))"
| t_columns: "(\<And>q. turn_key (f q) = turn_key q \<and> tk_status (f q) = tk_status q) \<Longrightarrow> turn_step E s (on_task op f s)"
| t_restore: "interrupt_restored_tasks E s d now = Inr t \<Longrightarrow> turn_step E s t"
| t_handoffs: "turn_step E s (fst (mark_auto_research_handoffs_cleared s op now))"
| t_other: "lifecycle_step E s t \<Longrightarrow> rows_kept s t \<Longrightarrow> st_auto_invocations t = st_auto_invocations s \<Longrightarrow> turn_step E s t"

inductive turn_reachable :: "store_env \<Rightarrow> store \<Rightarrow> bool" for E where
  tr_none: "ledger s = ([], [], [], [], []) \<Longrightarrow> st_tasks s = [] \<Longrightarrow> st_auto_invocations s = [] \<Longrightarrow> turn_reachable E s"
| tr_next: "turn_reachable E s \<Longrightarrow> turn_step E s t \<Longrightarrow> turn_reachable E t"

section \<open>The invariant\<close>

definition charged :: "store \<Rightarrow> auto_invocation \<Rightarrow> bool" where
  "charged s a \<longleftrightarrow> (\<exists>b. dget (st_auto_invocations s) (ai_allocation_operation_id a) = Some b
       \<and> ai_allocation_operation_id b = ai_allocation_operation_id a \<and> ai_episode_id b = ai_episode_id a
       \<and> ai_actor_operation_id b = ai_actor_operation_id a \<and> ai_role b = ai_role a)
     \<and> (\<exists>j \<in> set (st_invocations s). iv_operation_id j = ai_allocation_operation_id a \<and> iv_episode_id j = ai_episode_id a)"

definition turn_of :: "store \<Rightarrow> auto_invocation \<Rightarrow> agent_task \<Rightarrow> bool" where
  "turn_of s a q \<longleftrightarrow> dget (st_tasks s) (ai_operation_id a) = Some q \<and> tk_episode_id q = Some (ai_episode_id a)
     \<and> (\<forall>p. tk_parent_operation_id q = Some p \<longrightarrow> dhas p (st_tasks s))"

definition turns_ok :: "store \<Rightarrow> bool" where
  "turns_ok s \<longleftrightarrow> keyed tk_operation_id (st_tasks s) \<and> keyed ai_operation_id (st_auto_invocations s)
     \<and> (\<forall>a \<in> set (dvalues (st_auto_invocations s)). charged s a \<and> (\<exists>q. turn_of s a q
          \<and> (active q \<longrightarrow> \<not> has_successor s q a \<and> (\<forall>b r. b \<in> set (dvalues (st_auto_invocations s)) \<longrightarrow> turn_of s b r
              \<longrightarrow> active r \<longrightarrow> ai_episode_id b = ai_episode_id a \<longrightarrow> ai_actor_operation_id b = ai_actor_operation_id a
              \<longrightarrow> b = a))))"

lemma turns_okD:
  assumes "turns_ok s" and "a \<in> set (dvalues (st_auto_invocations s))"
  shows "charged s a" "\<exists>q. turn_of s a q" "turn_of s a q \<Longrightarrow> active q \<Longrightarrow> \<not> has_successor s q a"
    "turn_of s a q \<Longrightarrow> active q \<Longrightarrow> b \<in> set (dvalues (st_auto_invocations s)) \<Longrightarrow> turn_of s b r \<Longrightarrow> active r
      \<Longrightarrow> ai_episode_id b = ai_episode_id a \<Longrightarrow> ai_actor_operation_id b = ai_actor_operation_id a \<Longrightarrow> b = a"
    "dget (st_auto_invocations s) (ai_operation_id a) = Some a" "dhas (ai_operation_id a) (st_auto_invocations s)"
proof -
  obtain q where q: "turn_of s a q" "active q \<longrightarrow> \<not> has_successor s q a \<and> (\<forall>b r. b \<in> set (dvalues (st_auto_invocations s))
      \<longrightarrow> turn_of s b r \<longrightarrow> active r \<longrightarrow> ai_episode_id b = ai_episode_id a \<longrightarrow> ai_actor_operation_id b = ai_actor_operation_id a
      \<longrightarrow> b = a)"
    using assms unfolding turns_ok_def by blast
  have u: "q' = q" if "turn_of s a q'" for q' using that q(1) by (simp add: turn_of_def)
  show "charged s a" using assms by (simp add: turns_ok_def)
  show "\<exists>q. turn_of s a q" using q(1) by blast
  show "turn_of s a q \<Longrightarrow> active q \<Longrightarrow> \<not> has_successor s q a" for q using u q(2) by blast
  show "turn_of s a q \<Longrightarrow> active q \<Longrightarrow> b \<in> set (dvalues (st_auto_invocations s)) \<Longrightarrow> turn_of s b r \<Longrightarrow> active r
      \<Longrightarrow> ai_episode_id b = ai_episode_id a \<Longrightarrow> ai_actor_operation_id b = ai_actor_operation_id a \<Longrightarrow> b = a" for q
    using u q(2) by blast
  show g: "dget (st_auto_invocations s) (ai_operation_id a) = Some a"
    using assms by (intro keyed_value) (simp_all add: turns_ok_def)
  then show "dhas (ai_operation_id a) (st_auto_invocations s)" by (simp add: dhas_iff)
qed

lemma kept_turn:
  assumes "rows_kept s t" and "turns_ok s" and "a \<in> set (dvalues (st_auto_invocations s))" and "turn_of s a q"
  obtains r where "turn_of t a r" "turn_key r = turn_key q" "active r \<Longrightarrow> active q"
proof -
  have q: "dget (st_tasks s) (ai_operation_id a) = Some q" using assms(4) by (simp add: turn_of_def)
  obtain r where r: "dget (st_tasks t) (ai_operation_id a) = Some r" "turn_key r = turn_key q" "active r \<longrightarrow> active q"
    using assms(1) q turns_okD(6) [OF assms(2,3)] unfolding rows_kept_def by blast
  have "dhas p (st_tasks t)" if "dhas p (st_tasks s)" for p
    using assms(1) that unfolding rows_kept_def dhas_iff by (metis option.exhaust option.distinct(1))
  then have "turn_of t a r" using r(1,2) assms(4) by (simp add: turn_of_def turn_key_def)
  then show ?thesis using r(2,3) by (intro that [of r]) simp_all
qed

lemma kept_turn_back:
  assumes "rows_kept s t" and "turns_ok s" and "a \<in> set (dvalues (st_auto_invocations s))" and "turn_of t a r"
  obtains q where "turn_of s a q" "turn_key r = turn_key q" "active r \<Longrightarrow> active q"
proof -
  obtain q where q: "turn_of s a q" using turns_okD(2) [OF assms(2,3)] by blast
  obtain r' where r': "turn_of t a r'" "turn_key r' = turn_key q" "active r' \<Longrightarrow> active q"
    by (rule kept_turn [OF assms(1-3) q]) blast
  have "r' = r" using r'(1) assms(4) by (simp add: turn_of_def)
  then show ?thesis using that [OF q] r'(2,3) by blast
qed

text \<open>The successor of a kept turn was its successor before.\<close>

lemma kept_successor:
  assumes k: "rows_kept s t" and ok: "turns_ok s" and same: "st_auto_invocations t = st_auto_invocations s"
    and key: "turn_key r = turn_key q" and "has_successor t r a"
  shows "has_successor s q a"
proof -
  obtain c b where c: "c \<in> set (dvalues (st_tasks t))" "tk_parent_operation_id c = Some (tk_operation_id r)"
      "tk_episode_id c \<noteq> None" "tk_episode_id c = tk_episode_id r" "tk_attempt c = tk_attempt r + 1"
      "dget (st_auto_invocations s) (tk_operation_id c) = Some b" "ai_actor_operation_id b = ai_actor_operation_id a"
    using assms(5) same by (auto simp: has_successor_def split: option.splits)
  have b: "b \<in> set (dvalues (st_auto_invocations s))" "ai_operation_id b = tk_operation_id c"
    using dget_value [OF c(6)] ok keyed_dget [OF _ c(6)] by (auto simp: turns_ok_def)
  have "dget (st_tasks t) (tk_operation_id c) = Some c" using k c(1) by (intro keyed_value) (simp_all add: rows_kept_def)
  moreover obtain c0 where c0: "turn_of s b c0" using turns_okD(2) [OF ok b(1)] by blast
  moreover obtain c1 where "turn_of t b c1" "turn_key c1 = turn_key c0" by (rule kept_turn [OF k ok b(1) c0]) blast
  ultimately have "turn_key c = turn_key c0" "c0 \<in> set (dvalues (st_tasks s))"
    using b(2) dget_value by (auto simp: turn_of_def)
  then show ?thesis
    using c key unfolding has_successor_def by (intro bexI [of _ c0]) (auto simp: turn_key_def)
qed

lemma kept_turns_ok:
  assumes k: "rows_kept s t" and ok: "turns_ok s" and same: "st_auto_invocations t = st_auto_invocations s"
  shows "turns_ok t"
proof -
  have "\<exists>q. turn_of t a q \<and> (active q \<longrightarrow> \<not> has_successor t q a \<and> (\<forall>b r. b \<in> set (dvalues (st_auto_invocations s))
      \<longrightarrow> turn_of t b r \<longrightarrow> active r \<longrightarrow> ai_episode_id b = ai_episode_id a \<longrightarrow> ai_actor_operation_id b = ai_actor_operation_id a
      \<longrightarrow> b = a))" if a: "a \<in> set (dvalues (st_auto_invocations s))" for a
  proof -
    obtain q where q: "turn_of s a q" using turns_okD(2) [OF ok a] by blast
    obtain r where r: "turn_of t a r" "turn_key r = turn_key q" "active r \<Longrightarrow> active q"
      by (rule kept_turn [OF k ok a q]) blast
    have "\<not> has_successor t r a" if "active r"
      using kept_successor [OF k ok same r(2)] turns_okD(3) [OF ok a q r(3) [OF that]] by blast
    moreover have "b = a" if h: "active r" "b \<in> set (dvalues (st_auto_invocations s))" "turn_of t b x" "active x"
        "ai_episode_id b = ai_episode_id a" "ai_actor_operation_id b = ai_actor_operation_id a" for b x
    proof -
      obtain y where "turn_of s b y" "active y" by (rule kept_turn_back [OF k ok h(2,3)]) (use h(4) in blast)
      then show ?thesis using turns_okD(4) [OF ok a q r(3) [OF h(1)] h(2) _ _ h(5,6)] by blast
    qed
    ultimately show ?thesis using r(1) by blast
  qed
  moreover have "charged t a" if "a \<in> set (dvalues (st_auto_invocations s))" for a
    using turns_okD(1) [OF ok that] k unfolding charged_def same rows_kept_def by blast
  ultimately show ?thesis using k ok by (simp add: turns_ok_def same rows_kept_def)
qed

section \<open>Admitting a turn\<close>

lemma actor_row_in:
  assumes "turns_ok s" and "a \<in> set (dvalues (st_auto_invocations s))" and "turn_of s a q"
  shows "(q, a) \<in> set (actor_rows s (ai_episode_id a) (ai_actor_operation_id a))"
proof -
  have q: "q \<in> set (dvalues (st_tasks s))" "tk_operation_id q = ai_operation_id a"
    using assms(1,3) dget_value keyed_dget by (fastforce simp: turn_of_def turns_ok_def)+
  then show ?thesis using turns_okD(5) [OF assms(1,2)]
    by (auto simp: actor_rows_def map_filter_def image_iff intro!: bexI [of _ q])
qed

lemma auto_row_Some: "auto_row s p i = Some (q, a)
    \<longleftrightarrow> dget (st_tasks s) p = Some q \<and> dget (st_auto_invocations s) p = Some a \<and> tk_episode_id q = Some i"
  by (auto simp: auto_row_def split: option.splits if_splits)

lemma empty_result: "(case xs of [] \<Rightarrow> Inr a | y # ys \<Rightarrow> Inl (f y ys)) = Inr b \<longleftrightarrow> xs = [] \<and> a = b"
  by (cases xs) auto

text \<open>A bound turn belongs to an actor with nothing unresolved, and descends from a turn of the episode.\<close>

lemma bind_result:
  assumes "bind_auto_research_actor s e t role recovering = Inr (u, actor, seat)"
  obtains req where "u = t\<lparr>tk_request := req\<rparr>"
    "\<And>r. r \<in> set (actor_rows s (ep_episode_id e) actor)
      \<Longrightarrow> \<not> unresolved s (if recovering then Some (or_empty (tk_parent_operation_id t)) else None) r"
    "\<And>p. tk_parent_operation_id t = Some p \<Longrightarrow> \<exists>q a. auto_row s p (ep_episode_id e) = Some (q, a)
      \<and> (if actor = tk_operation_id t then role = WorkerRole \<and> ai_role a = OrchestratorRole
         else ai_actor_operation_id a = actor \<and> ai_role a = role)"
proof -
  obtain asked c where seat: "actor_seat s e t role recovering asked = Inr (actor, c)"
    and none: "filter (unresolved s (if recovering then Some (or_empty (tk_parent_operation_id t)) else None))
         (actor_rows s (ep_episode_id e) actor) = []"
    and u: "u = t\<lparr>tk_request := dset ''actor_operation_id'' (VStr actor) (tk_request t)\<rparr>"
    using assms unfolding bind_auto_research_actor_def sbind_eq_Inr empty_result by auto
  have "\<exists>q a. auto_row s p (ep_episode_id e) = Some (q, a)
      \<and> (if actor = tk_operation_id t then role = WorkerRole \<and> ai_role a = OrchestratorRole
         else ai_actor_operation_id a = actor \<and> ai_role a = role)" if "tk_parent_operation_id t = Some p" for p
    using seat that
    by (auto simp: actor_seat_def continued_seat_def Let_def sbind_eq_Inr split: option.splits if_splits)
  then show ?thesis using that [OF u] none by (auto simp: filter_empty_conv)
qed

lemma actor_quiet:
  assumes ok: "turns_ok s" and bind: "bind_auto_research_actor s e t role recovering = Inr (u, actor, seat)"
    and a: "a \<in> set (dvalues (st_auto_invocations s))" and q: "turn_of s a q"
    and same: "ai_episode_id a = ep_episode_id e" "ai_actor_operation_id a = actor"
  shows "\<not> active q"
proof
  assume act: "active q"
  have "(q, a) \<in> set (actor_rows s (ep_episode_id e) actor)" using actor_row_in [OF ok a q] same by simp
  then have "\<not> unresolved s (if recovering then Some (or_empty (tk_parent_operation_id t)) else None) (q, a)"
    using bind_result [OF bind] by metis
  then have "has_successor s q a" using act by (auto simp: unresolved_def active_def)
  then show False using turns_okD(3) [OF ok a q act] by blast
qed

text \<open>The task \<open>t\<close> of \<open>actor\<close> was bound in \<open>s\<close>, and \<open>s1\<close> has its row \<open>x\<close>.\<close>

definition admits :: "store \<Rightarrow> episode_record \<Rightarrow> agent_task \<Rightarrow> string \<Rightarrow> store \<Rightarrow> agent_task \<Rightarrow> bool" where
  "admits s e t actor s1 x \<longleftrightarrow> turns_ok s
     \<and> (\<exists>role recovering u seat. bind_auto_research_actor s e t role recovering = Inr (u, actor, seat))
     \<and> st_tasks s1 = st_tasks s @ [(tk_operation_id t, x)] \<and> \<not> dhas (tk_operation_id t) (st_tasks s)
     \<and> turn_key x = turn_key t \<and> tk_episode_id t = Some (ep_episode_id e)"

lemma admitsD:
  assumes "admits s e t actor s1 x"
  shows "turns_ok s" "\<exists>role recovering u seat. bind_auto_research_actor s e t role recovering = Inr (u, actor, seat)"
    "st_tasks s1 = st_tasks s @ [(tk_operation_id t, x)]" "\<not> dhas (tk_operation_id t) (st_tasks s)"
    "tk_operation_id x = tk_operation_id t" "tk_parent_operation_id x = tk_parent_operation_id t"
    "tk_episode_id x = Some (ep_episode_id e)"
  using assms by (simp_all add: admits_def turn_key_def)

lemma old_turn:
  assumes h: "admits s e t actor s1 x" and "a \<in> set (dvalues (st_auto_invocations s))"
  shows "turn_of s1 a q \<longleftrightarrow> turn_of s a q"
proof -
  note tasks = admitsD(3) [OF h] and fresh = admitsD(4) [OF h]
  obtain q' where q': "turn_of s a q'" using turns_okD(2) [OF admitsD(1) [OF h] assms(2)] by blast
  then have "dget (st_tasks s1) (ai_operation_id a) = Some q'"
    using fresh by (auto simp: turn_of_def tasks map_add_def dhas_iff split: option.splits)
  moreover have "dhas p (st_tasks s1)" if "dhas p (st_tasks s)" for p using that by (simp add: tasks dhas_def)
  ultimately show ?thesis using q' by (auto simp: turn_of_def)
qed

lemma parent_old:
  assumes h: "admits s e t actor s1 x" and p: "tk_parent_operation_id t = Some p"
  shows "dhas p (st_tasks s)" "p \<noteq> tk_operation_id t"
proof -
  obtain role recovering u seat where bind: "bind_auto_research_actor s e t role recovering = Inr (u, actor, seat)"
    using admitsD(2) [OF h] by blast
  obtain q a where "auto_row s p (ep_episode_id e) = Some (q, a)" by (rule bind_result [OF bind]) (use p in blast)
  then show "dhas p (st_tasks s)" by (simp add: auto_row_Some dhas_iff)
  then show "p \<noteq> tk_operation_id t" using admitsD(4) [OF h] by auto
qed

lemma new_turn:
  assumes h: "admits s e t actor s1 x" and "ai_operation_id a = tk_operation_id t" and "ai_episode_id a = ep_episode_id e"
  shows "turn_of s1 a q \<longleftrightarrow> q = x"
proof -
  have "dget (st_tasks s1) (tk_operation_id t) = Some x"
    using admitsD(3,4) [OF h] by (auto simp: map_add_def dhas_iff split: option.splits)
  moreover have "dhas p (st_tasks s1)" if "tk_parent_operation_id t = Some p" for p
    using parent_old(1) [OF h that] admitsD(3) [OF h] by (simp add: dhas_def)
  ultimately show ?thesis using assms(2,3) admitsD(6,7) [OF h] by (auto simp: turn_of_def)
qed

lemma task_cases:
  "admits s e t actor s1 x \<Longrightarrow> c \<in> set (dvalues (st_tasks s1)) \<longleftrightarrow> c = x \<or> c \<in> set (dvalues (st_tasks s))"
  by (auto simp: admits_def dvalues_def)

lemma bound_turn:
  assumes "turns_ok s" and "dget (st_auto_invocations s) k = Some a"
  shows "a \<in> set (dvalues (st_auto_invocations s))" "ai_operation_id a = k" "dhas k (st_tasks s)"
proof -
  show a: "a \<in> set (dvalues (st_auto_invocations s))" by (rule dget_value [OF assms(2)])
  show k: "ai_operation_id a = k" using assms keyed_dget by (fastforce simp: turns_ok_def)
  show "dhas k (st_tasks s)" using turns_okD(2) [OF assms(1) a] k by (auto simp: turn_of_def dhas_iff)
qed

lemma unbound: "admits s e t actor s1 x \<Longrightarrow> \<not> dhas (tk_operation_id t) (st_auto_invocations s)"
  using bound_turn(3) admitsD(1,4) by (fastforce simp: dhas_iff)

lemma old_task_key:
  "admits s e t actor s1 x \<Longrightarrow> c \<in> set (dvalues (st_tasks s)) \<Longrightarrow> tk_operation_id c \<noteq> tk_operation_id t"
  using keyed_value [of tk_operation_id "st_tasks s" c] by (auto simp: admits_def turns_ok_def dhas_iff)

lemma admitted:
  assumes h: "admits s e t actor s1 x" and row: "ai_operation_id a = tk_operation_id t" "ai_episode_id a = ep_episode_id e" "ai_actor_operation_id a = actor"
    and s2: "st_tasks s2 = st_tasks s1" "st_auto_invocations s2 = st_auto_invocations s @ [(tk_operation_id t, a)]"
      "set (st_invocations s) \<subseteq> set (st_invocations s2)" and pay: "charged s2 a"
  shows "turns_ok s2"
proof -
  note ok = admitsD(1) [OF h] and tasks = admitsD(3) [OF h] and fresh = admitsD(4) [OF h] and new_key = admitsD(5-7) [OF h]
  note unbound = unbound [OF h] and old_task_key = old_task_key [OF h] and parent_old = parent_old [OF h]
  have turn: "turn_of s2 b q \<longleftrightarrow> turn_of s1 b q" for b q by (simp add: turn_of_def s2(1))
  have vals: "set (dvalues (st_auto_invocations s2)) = insert a (set (dvalues (st_auto_invocations s)))"
    by (auto simp: s2(2) dvalues_def)
  have get: "dget (st_auto_invocations s2) k = (if k = tk_operation_id t then Some a else dget (st_auto_invocations s) k)" for k
    using unbound by (auto simp: s2(2) map_add_def dhas_iff split: option.splits)
  have keyed: "keyed tk_operation_id (st_tasks s2)" "keyed ai_operation_id (st_auto_invocations s2)"
    using keyed_row_dset [of tk_operation_id "st_tasks s" x] keyed_row_dset [of ai_operation_id "st_auto_invocations s" a]
      ok fresh unbound by (simp_all add: turns_ok_def s2 tasks new_key(1) row(1) dset_fresh)
  have quiet: "\<not> active q" if "b \<in> set (dvalues (st_auto_invocations s))" "turn_of s b q" "ai_episode_id b = ep_episode_id e"
      "ai_actor_operation_id b = actor" for b q
    using admitsD(2) [OF h] actor_quiet [OF ok _ that] by blast
  have succ_old: "\<not> has_successor s2 q b" if b: "b \<in> set (dvalues (st_auto_invocations s))" "turn_of s b q" "active q" for b q
  proof
    assume "has_successor s2 q b"
    then obtain c r where c: "c = x \<or> c \<in> set (dvalues (st_tasks s))" "tk_parent_operation_id c = Some (tk_operation_id q)"
      "tk_episode_id c = tk_episode_id q" "tk_attempt c = tk_attempt q + 1" "tk_episode_id c \<noteq> None"
      "dget (st_auto_invocations s2) (tk_operation_id c) = Some r" "ai_actor_operation_id r = ai_actor_operation_id b"
      by (auto simp: has_successor_def s2(1) task_cases [OF h] split: option.splits)
    show False
    proof (cases "c = x")
      case True
      then have "r = a" using c(6) new_key(1) get by simp
      then show False using quiet [OF b(1,2)] b c(3,7) True new_key(3) row(3) by (auto simp: turn_of_def)
    next
      case False
      then have "c \<in> set (dvalues (st_tasks s))" "dget (st_auto_invocations s) (tk_operation_id c) = Some r"
        using c(1,6) old_task_key get by auto
      then have "has_successor s q b" using c unfolding has_successor_def by (intro bexI [of _ c]) auto
      then show False using turns_okD(3) [OF ok b] by blast
    qed
  qed
  have succ_new: "\<not> has_successor s2 x a"
  proof
    assume "has_successor s2 x a"
    then obtain c r where c: "c = x \<or> c \<in> set (dvalues (st_tasks s))" "tk_parent_operation_id c = Some (tk_operation_id t)"
      "dget (st_auto_invocations s2) (tk_operation_id c) = Some r"
      by (auto simp: has_successor_def s2(1) task_cases [OF h] new_key(1) split: option.splits)
    have "c \<noteq> x" using c(2) new_key(2) parent_old by auto
    then have old: "c \<in> set (dvalues (st_tasks s))" "dget (st_auto_invocations s) (tk_operation_id c) = Some r"
      using c(1,3) old_task_key get by auto
    then have r: "r \<in> set (dvalues (st_auto_invocations s))" "ai_operation_id r = tk_operation_id c"
      using dget_value ok keyed_dget by (fastforce simp: turns_ok_def)+
    obtain q where "turn_of s r q" using turns_okD(2) [OF ok r(1)] by blast
    moreover have "dget (st_tasks s) (tk_operation_id c) = Some c"
      using ok old(1) by (intro keyed_value) (simp_all add: turns_ok_def)
    ultimately show False using c(2) fresh r(2) by (auto simp: turn_of_def)
  qed
  have charged: "charged s2 b" if "b \<in> set (dvalues (st_auto_invocations s))" for b
    using turns_okD(1) [OF ok that] s2(3) get unbound unfolding charged_def
    by (metis (no_types, lifting) dhas_iff option.distinct(1) subsetD)
  have old: "b \<in> set (dvalues (st_auto_invocations s)) \<and> turn_of s b q"
    if "b \<in> set (dvalues (st_auto_invocations s2))" "turn_of s2 b q" "b \<noteq> a" for b q
    using that vals turn old_turn [OF h, of b q] by simp
  have one: "c = b" if g: "b \<in> set (dvalues (st_auto_invocations s2))" "turn_of s2 b q" "active q"
      "c \<in> set (dvalues (st_auto_invocations s2))" "turn_of s2 c r" "active r"
      "ai_episode_id c = ai_episode_id b" "ai_actor_operation_id c = ai_actor_operation_id b" for b c q r
  proof (rule ccontr)
    assume ne: "c \<noteq> b"
    consider (left) "b = a" "c \<noteq> a" | (right) "b \<noteq> a" "c = a" | (neither) "b \<noteq> a" "c \<noteq> a" using ne by blast
    then show False
    proof cases
      case left
      then show False using old [OF g(4,5)] quiet [of c r] g(6-8) row(2,3) by simp
    next
      case right
      then show False using old [OF g(1,2)] quiet [of b q] g(3,7,8) row(2,3) by simp
    next
      case neither
      then show False using old [OF g(1,2)] old [OF g(4,5)] turns_okD(4) [OF ok, of b q c r] g(3,6-8) ne by blast
    qed
  qed
  have "\<exists>q. turn_of s2 b q \<and> (active q \<longrightarrow> \<not> has_successor s2 q b)" if b: "b \<in> set (dvalues (st_auto_invocations s2))" for b
  proof (cases "b = a")
    case True
    then show ?thesis using succ_new new_turn [OF h row(1,2)] turn by blast
  next
    case False
    then have o: "b \<in> set (dvalues (st_auto_invocations s))" using b vals by simp
    then obtain q where "turn_of s b q" using turns_okD(2) [OF ok] by blast
    then show ?thesis using succ_old [OF o] turn old_turn [OF h o] by blast
  qed
  then show ?thesis using keyed charged pay one unfolding turns_ok_def vals by (metis insert_iff)
qed

section \<open>The steps\<close>

lemma turns_frame:
  assumes "st_tasks t = st_tasks s" and "st_auto_invocations t = st_auto_invocations s" and "st_invocations t = st_invocations s"
  shows "turns_ok t = turns_ok s"
  unfolding turns_ok_def turn_of_def charged_def has_successor_def assms ..

lemma admitsI:
  assumes "turns_ok s" and bind: "bind_auto_research_actor s e t role recovering = Inr (u, actor, seat)"
    and ins: "insert_agent_task E s u cause = Inr s1" and "tk_episode_id t = Some (ep_episode_id e)"
  obtains x where "admits s e t actor s1 x" "st_auto_invocations s1 = st_auto_invocations s"
proof -
  obtain req where u: "u = t\<lparr>tk_request := req\<rparr>" by (rule bind_result [OF bind])
  obtain x where x: "unstaged_row x = unstaged_row u" "\<not> dhas (tk_operation_id u) (st_tasks s)"
    "st_auto_invocations s1 = st_auto_invocations s" "st_tasks s1 = st_tasks s @ [(tk_operation_id u, x)]"
    by (rule insert_agent_task_row [OF ins])
  have "turn_key x = turn_key t" using staged_columns [OF x(1)] by (simp add: turn_key_def u)
  then show ?thesis using that [of x] assms(1,4) bind x(2-) by (auto simp: admits_def u)
qed

lemma invocation_result:
  "insert_invocation s n = Inr t \<Longrightarrow> st_tasks t = st_tasks s \<and> st_auto_invocations t = st_auto_invocations s
     \<and> st_invocations t = st_invocations s @ [n]"
  "insert_auto_research_invocation s a = Inr t \<Longrightarrow> st_tasks t = st_tasks s \<and> st_invocations t = st_invocations s
     \<and> st_auto_invocations t = st_auto_invocations s @ [(ai_operation_id a, a)]"
  by (auto simp: insert_invocation_def insert_auto_research_invocation_def dset_fresh split: if_splits)

lemma task_keeps_invocations: "insert_agent_task E s t cause = Inr u \<Longrightarrow> st_invocations u = st_invocations s"
  using ledger_insert_agent_task by (simp add: ledger_def)

text \<open>A paid turn is its own allocation.\<close>

lemma paid_admission:
  assumes ok: "turns_ok s" and bind: "bind_auto_research_actor s e t role recovering = Inr (u, actor, seat)"
    and ins: "insert_agent_task E s u cause = Inr s1" and own: "tk_episode_id t = Some (ep_episode_id e)"
    and iv: "insert_invocation s1 (paid_row (ep_episode_id e) t n) = Inr s2"
    and ai: "insert_auto_research_invocation s2 (turn_row (ep_episode_id e) t (tk_operation_id t) role actor seat) = Inr s3"
  shows "turns_ok (on_episode i f s3)"
proof -
  let ?a = "turn_row (ep_episode_id e) t (tk_operation_id t) role actor seat"
  obtain x where h: "admits s e t actor s1 x" and a1: "st_auto_invocations s1 = st_auto_invocations s"
    by (rule admitsI [OF ok bind ins own])
  note r = invocation_result(1) [OF iv] invocation_result(2) [OF ai] task_keeps_invocations [OF ins]
  have new: "st_auto_invocations s3 = st_auto_invocations s @ [(tk_operation_id t, ?a)]"
    using r a1 by (simp add: turn_row_def)
  have "dget (st_auto_invocations s3) (tk_operation_id t) = Some ?a"
    using unbound [OF h] by (auto simp: new map_add_def dhas_iff split: option.splits)
  then have "charged s3 ?a" using r by (auto simp: charged_def turn_row_def paid_row_def)
  then have "turns_ok s3" using r by (intro admitted [OF h _ _ _ _ new]) (auto simp: turn_row_def)
  then show ?thesis using turns_frame [of "on_episode i f s3" s3] by (simp add: on_episode_def)
qed

lemma paid_turns_ok:
  assumes ok: "turns_ok s" and paid: "insert_paid_auto_research_task E s e t role cause = Inr s4"
  shows "turns_ok s4"
proof (rule paid_result [OF paid])
  fix u actor seat s1 s2 s3
  assume "tk_episode_id t = Some (ep_episode_id e)" "bind_auto_research_actor s e t role False = Inr (u, actor, seat)"
    "insert_agent_task E s u cause = Inr s1"
    "insert_invocation s1 (paid_row (ep_episode_id e) t (ep_invocations_used e + 1)) = Inr s2"
    "insert_auto_research_invocation s2 (turn_row (ep_episode_id e) t (tk_operation_id t) role actor seat) = Inr s3"
    and s4: "s4 = on_episode (ep_episode_id e) (\<lambda>e. e\<lparr>ep_invocations_used := ep_invocations_used e + 1,
       ep_updated_at := tk_created_at t\<rparr>) s3"
  then show ?thesis unfolding s4 using paid_admission [OF ok] by blast
qed

lemma transact_turns:
  "turns_ok s \<Longrightarrow> (\<And>t x. body = Inr (t, x) \<Longrightarrow> turns_ok t) \<Longrightarrow> turns_ok (fst (transact s body after))"
  by (auto simp: transact_state split: sum.splits)

lemma start_turns_ok:
  assumes ok: "turns_ok s" and shape: "research_root_shape e st t"
    and run: "start_research E s (rooted_episode e t on) st t = Inr s6"
  shows "turns_ok s6"
proof (rule start_result [OF run])
  let ?e = "rooted_episode e t on"
  fix u actor seat s1 s2 s3 s4 s5
  assume ins: "insert_episode s ?e = Inr s1" and st: "insert_auto_research_state s1 st = Inr s2"
    and rest: "bind_auto_research_actor s2 ?e t OrchestratorRole False = Inr (u, actor, seat)"
      "insert_agent_task E s2 u ''fresh'' = Inr s3" "insert_invocation s3 (paid_row (ep_episode_id ?e) t 1) = Inr s4"
      "insert_auto_research_invocation s4 (turn_row (ep_episode_id ?e) t (tk_operation_id t) OrchestratorRole actor seat) = Inr s5"
    and s6: "s6 = on_episode (ep_episode_id ?e) (\<lambda>e. if ep_invocations_used e = 0
       then e\<lparr>ep_invocations_used := 1, ep_updated_at := tk_created_at t\<rparr> else e) s5"
  have "turns_ok s2" using ins st ok turns_frame [of s2 s]
    by (auto simp: insert_episode_def insert_auto_research_state_def split: if_splits)
  moreover have "tk_episode_id t = Some (ep_episode_id ?e)" using shape by (simp add: research_root_shape_def rooted_episode_def)
  ultimately show ?thesis unfolding s6 using paid_admission rest by blast
qed

text \<open>A recovery is charged to the allocation of its parent, for the same actor in the same role.\<close>

lemma recovery_turns_ok:
  assumes ok: "turns_ok s" and own: "tk_episode_id t = Some i" and par: "tk_parent_operation_id t = Some p"
    and id: "\<And>e. load_auto_research_episode s i = Inr e \<Longrightarrow> ep_episode_id e = i"
    and run: "insert_recovery_task E s t i p cause = Inr s2"
  shows "turns_ok s2"
proof -
  obtain e q a u actor seat s1 where load: "load_auto_research_episode s i = Inr e" and row: "auto_row s p i = Some (q, a)"
    and bind: "bind_auto_research_actor s e t (ai_role a) True = Inr (u, actor, seat)"
    and ins: "insert_agent_task E s u cause = Inr s1"
    and ai: "insert_auto_research_invocation s1
           (turn_row (ep_episode_id e) t (ai_allocation_operation_id a) (ai_role a) actor seat) = Inr s2"
    using run by (auto simp: insert_recovery_task_def sbind_eq_Inr split: option.splits)
  let ?a = "turn_row (ep_episode_id e) t (ai_allocation_operation_id a) (ai_role a) actor seat"
  have e: "ep_episode_id e = i" by (rule id [OF load])
  obtain x where h: "admits s e t actor s1 x" and a1: "st_auto_invocations s1 = st_auto_invocations s"
    by (rule admitsI [OF ok bind ins]) (use own e in simp)
  obtain q' a' where "auto_row s p i = Some (q', a')"
      "if actor = tk_operation_id t then ai_role a = WorkerRole \<and> ai_role a' = OrchestratorRole
       else ai_actor_operation_id a' = actor \<and> ai_role a' = ai_role a"
    using bind_result [OF bind] par e by metis
  then have actor: "ai_actor_operation_id a = actor" using row by (auto split: if_splits)
  have p: "dget (st_auto_invocations s) p = Some a" "tk_episode_id q = Some i" "dget (st_tasks s) p = Some q"
    using row by (auto simp: auto_row_Some)
  note a = bound_turn [OF ok p(1)]
  have ep: "ai_episode_id a = i" using turns_okD(2) [OF ok a(1)] a(2) p(2,3) by (auto simp: turn_of_def)
  note r = invocation_result(2) [OF ai] task_keeps_invocations [OF ins]
  have new: "st_auto_invocations s2 = st_auto_invocations s @ [(tk_operation_id t, ?a)]"
    using r a1 by (simp add: turn_row_def)
  obtain b where b: "dget (st_auto_invocations s) (ai_allocation_operation_id a) = Some b"
      "ai_allocation_operation_id b = ai_allocation_operation_id a" "ai_episode_id b = i"
      "ai_actor_operation_id b = actor" "ai_role b = ai_role a"
    and j: "\<exists>j \<in> set (st_invocations s). iv_operation_id j = ai_allocation_operation_id a \<and> iv_episode_id j = i"
    using turns_okD(1) [OF ok a(1)] actor ep by (auto simp: charged_def)
  have "dget (st_auto_invocations s2) (ai_allocation_operation_id a) = Some b"
    using b(1) unbound [OF h] by (auto simp: new map_add_def dhas_iff split: option.splits)
  then have "charged s2 ?a" using b j r e by (simp add: charged_def turn_row_def)
  then show ?thesis using r by (intro admitted [OF h _ _ _ _ new]) (auto simp: turn_row_def)
qed

lemma on_task_kept:
  assumes "turns_ok s" and "\<And>q. turn_key (f q) = turn_key q"
    and "\<And>q. dget (st_tasks s) op = Some q \<Longrightarrow> active (f q) \<Longrightarrow> active q"
  shows "rows_kept s (on_task op f s)"
proof -
  have "keyed tk_operation_id (dmodify op f (st_tasks s))"
    using assms(1,2) by (intro keyed_dmodify) (auto simp: turns_ok_def turn_key_def)
  then show ?thesis using assms(2,3) by (auto simp: rows_kept_def on_task_def dget_dmodify)
qed

lemma on_task_ok:
  assumes "turns_ok s" and "\<And>q. turn_key (f q) = turn_key q"
    and "\<And>q. dget (st_tasks s) op = Some q \<Longrightarrow> active (f q) \<Longrightarrow> active q"
  shows "turns_ok (on_task op f s)"
proof -
  have "rows_kept s (on_task op f s)" using assms by (rule on_task_kept)
  then show ?thesis using assms(1) by (rule kept_turns_ok) (simp add: on_task_def)
qed

lemma transition_from_active: "x \<in> set (AGENT_TASK_TRANSITIONS target) \<Longrightarrow> x \<in> {TQueued, TRunning, TPausing}"
  by (cases target) (auto simp: AGENT_TASK_TRANSITIONS_def)

lemma transition_turns_ok:
  assumes ok: "turns_ok s" and f: "\<And>q. turn_key (f q) = turn_key q"
  shows "turns_ok (fst (transition_agent_task s op target f))"
proof -
  have "turn_key (f (q\<lparr>tk_status := target\<rparr>)) = turn_key q" for q using f by (simp add: turn_key_def)
  moreover have "active q" if "dget (st_tasks s) op = Some q" "tk_status q \<in> set (AGENT_TASK_TRANSITIONS target)" for q
    using transition_from_active [OF that(2)] by (simp add: active_def)
  ultimately have "turns_ok (on_task op (\<lambda>q. f (q\<lparr>tk_status := target\<rparr>)) s)"
    if "dget (st_tasks s) op = Some q" "tk_status q \<in> set (AGENT_TASK_TRANSITIONS target)" for q
    using that by (intro on_task_ok [OF ok]) auto
  then show ?thesis using ok by (auto simp: transition_agent_task_def split: option.splits)
qed

lemma pause_turns_ok:
  assumes ok: "turns_ok s"
  shows "turns_ok (fst (request_auto_research_worker_pause s op i now))"
  unfolding request_auto_research_worker_pause_def
proof (rule transact_turns [OF ok])
  fix t x
  assume "(case (dget (st_tasks s) op, dget (st_auto_invocations s) op, dget (st_episodes s) i) of
        (Some q, Some a, Some e) \<Rightarrow>
          if tk_episode_id q = Some i \<and> tk_status q \<in> {TQueued, TRunning} \<and> ai_role a = WorkerRole
             \<and> ep_mode e = AutoResearchMode \<and> ep_status e = ERunning \<and> ep_ending e = None
             \<and> ep_stop_requested_at e = None
          then Inr (on_task op (\<lambda>t. pausing_columns now (t\<lparr>tk_status := TPausing\<rparr>)) s, ())
          else Inl EpisodeNotRunning
      | _ \<Rightarrow> Inl EpisodeNotRunning) = Inr (t, x)"
  then obtain q where q: "dget (st_tasks s) op = Some q" "tk_status q \<in> {TQueued, TRunning}"
    and t: "t = on_task op (\<lambda>t. pausing_columns now (t\<lparr>tk_status := TPausing\<rparr>)) s"
    by (auto split: option.splits if_splits)
  show "turns_ok t" unfolding t
    by (rule on_task_ok [OF ok]) (use q in \<open>auto simp: turn_key_def pausing_columns_def active_def\<close>)
qed

lemma restore_turns_ok:
  assumes ok: "turns_ok s" and r: "interrupt_restored_tasks E s d now = Inr t"
  shows "turns_ok t"
proof -
  let ?P = "\<lambda>q. tk_status q \<notin> {TSucceeded, TFailed, TInterrupted}" and ?f = "interrupted_columns (restore_detail d) now"
  have tasks: "st_tasks t = map (\<lambda>kv. if ?P (snd kv) then (fst kv, ?f (snd kv)) else kv) (st_tasks s)"
    and same: "st_auto_invocations t = st_auto_invocations s" "st_invocations t = st_invocations s"
    using r by (auto simp: interrupt_restored_tasks_def Let_def split: if_splits)
  have "keyed tk_operation_id (st_tasks t)" unfolding tasks
    using ok by (intro keyed_map_rows) (auto simp: turns_ok_def interrupted_columns_def)
  moreover have "dget (st_tasks t) k = Some (if ?P q then ?f q else q)" if "dget (st_tasks s) k = Some q" for k q
    unfolding tasks using dget_map_rows [of ?P ?f "st_tasks s" k] by (simp only: that option.map)
  moreover have "turn_key (if ?P q then ?f q else q) = turn_key q" "active (if ?P q then ?f q else q) \<Longrightarrow> active q" for q
    by (auto simp: interrupted_columns_def turn_key_def active_def split: if_splits)
  ultimately have "rows_kept s t" unfolding rows_kept_def same(2) by blast
  then show ?thesis by (rule kept_turns_ok [OF _ ok same(1)])
qed

text \<open>Clearing the handoffs of an allocation writes a column no turn depends on.\<close>

definition cleared :: "string \<Rightarrow> string \<Rightarrow> auto_invocation \<Rightarrow> auto_invocation" where
  "cleared op now a = (if ai_operation_id a = op then a\<lparr>ai_handoffs_cleared_at := coalesce (ai_handoffs_cleared_at a) now\<rparr> else a)"

lemma cleared_fields [simp]:
  "ai_operation_id (cleared op now a) = ai_operation_id a" "ai_episode_id (cleared op now a) = ai_episode_id a"
  "ai_allocation_operation_id (cleared op now a) = ai_allocation_operation_id a" "ai_role (cleared op now a) = ai_role a"
  "ai_actor_operation_id (cleared op now a) = ai_actor_operation_id a"
  by (simp_all add: cleared_def)

lemma handoff_turns_ok:
  assumes ok: "turns_ok s"
  shows "turns_ok (fst (mark_auto_research_handoffs_cleared s op now))"
  unfolding mark_auto_research_handoffs_cleared_def
proof (rule transact_turns [OF ok])
  fix t x
  let ?g = "\<lambda>a. a\<lparr>ai_handoffs_cleared_at := coalesce (ai_handoffs_cleared_at a) now\<rparr>" and ?h = "cleared op now"
  assume "sbind (paid_allocation_row s op) (\<lambda>_. Inr (s\<lparr>st_auto_invocations := dmodify op ?g (st_auto_invocations s)\<rparr>, ()))
    = Inr (t, x)"
  then have t: "t = s\<lparr>st_auto_invocations := dmodify op ?g (st_auto_invocations s)\<rparr>" by (auto simp: sbind_eq_Inr)
  have k: "keyed ai_operation_id (st_auto_invocations s)" using ok by (simp add: turns_ok_def)
  have vals: "dvalues (st_auto_invocations t) = map ?h (dvalues (st_auto_invocations s))"
    using dvalues_dmodify [OF k, of op ?g] by (simp add: t cleared_def [abs_def])
  have get: "dget (st_auto_invocations t) j = map_option ?h (dget (st_auto_invocations s) j)" for j
    using bound_turn(2) [OF ok, of j] by (cases "dget (st_auto_invocations s) j") (auto simp: t dget_dmodify cleared_def)
  have same: "st_tasks t = st_tasks s" "st_invocations t = st_invocations s" by (simp_all add: t)
  have turn: "turn_of t (?h a) q = turn_of s a q" for a q by (simp add: turn_of_def same)
  have succ: "has_successor t q (?h a) = has_successor s q a" for a q
    unfolding has_successor_def same get by (intro bex_cong refl) (simp split: option.split)
  have pay: "charged s a \<Longrightarrow> charged t (?h a)" for a by (auto simp: charged_def get same)
  have "keyed tk_operation_id (st_tasks t)" "keyed ai_operation_id (st_auto_invocations t)"
    using ok keyed_dmodify [OF k, of ?g op] by (simp_all add: t turns_ok_def)
  then show "turns_ok t"
    using ok pay unfolding turns_ok_def vals by (fastforce simp: turn succ)
qed

lemma row_id: "reach_ok s \<Longrightarrow> load_auto_research_episode s i = Inr e \<Longrightarrow> ep_episode_id e = i"
  using keyed_dget by (fastforce simp: reach_ok_def store_ok_def store_shape_def load_auto_Inr)

lemma turn_step_lifecycle: "turn_step E s t \<Longrightarrow> lifecycle_step E s t"
proof (induction rule: turn_step.induct)
  case (t_recover s t cause)
  then show ?case by (intro l_other recovery_task_ledger)
next
  case (t_transition f s op target)
  then show ?case by (intro l_other) (simp add: transition_agent_task_def split: option.splits)
next
  case (t_worker_pause s op i now)
  then show ?case
    by (intro l_other) (auto simp: request_auto_research_worker_pause_def transact_state split: option.splits sum.splits if_splits)
next
  case (t_columns f op s)
  then show ?case by (intro l_other) simp
next
  case (t_handoffs s op now)
  then show ?case
    by (intro l_other) (auto simp: mark_auto_research_handoffs_cleared_def transact_state sbind_eq_Inr ledger_def split: sum.splits)
next
  case (t_restore s d now t)
  then show ?case by (intro l_other) (auto simp: interrupt_restored_tasks_def Let_def ledger_def split: if_splits)
qed (auto intro: l_start l_turn l_message_wake l_lifecycle_wake)

lemma wake_turns_ok:
  assumes ok: "turns_ok s"
  shows "turns_ok (fst (create_auto_research_message_wake_task E s t role recipient ks))"
    "turns_ok (fst (create_auto_research_lifecycle_wake_task E s t ns ks))"
proof -
  have handed: "turns_ok (on_messages P f x) = turns_ok x" "turns_ok (on_notices Q g x) = turns_ok x" for P f Q g x
    using turns_frame [of "on_messages P f x" x] turns_frame [of "on_notices Q g x" x]
    by (simp_all add: on_messages_def on_notices_def)
  have "turns_ok u" if "message_wake E s t role recipient ks i = Inr (u, b)" for u b i
    using that by (cases rule: message_wake_result) (simp_all add: ok handed paid_turns_ok [OF ok])
  then show "turns_ok (fst (create_auto_research_message_wake_task E s t role recipient ks))"
    unfolding create_auto_research_message_wake_task_def
    by (intro transact_turns [OF ok]) (auto split: option.splits if_splits)
  have "turns_ok u" if "lifecycle_wake E s t ns ks i = Inr (u, b)" for u b i
    using that by (cases rule: lifecycle_wake_result) (simp_all add: ok handed paid_turns_ok [OF ok])
  then show "turns_ok (fst (create_auto_research_lifecycle_wake_task E s t ns ks))"
    unfolding create_auto_research_lifecycle_wake_task_def
    by (intro transact_turns [OF ok]) (auto split: option.splits if_splits)
qed

lemma turn_step_ok:
  assumes "turn_step E s t" and r: "reach_ok s" and ok: "turns_ok s"
  shows "turns_ok t"
  using assms(1)
proof cases
  case (t_start e st t on)
  show ?thesis unfolding t_start(1) create_auto_research_episode_with_root_task_def
    by (rule transact_turns [OF ok]) (auto simp: sbind_eq_Inr split: if_splits intro: start_turns_ok [OF ok])
next
  case (t_turn t role cause)
  show ?thesis unfolding t_turn create_auto_research_agent_task_def
    by (rule transact_turns [OF ok]) (auto simp: sbind_eq_Inr split: option.splits intro: paid_turns_ok [OF ok])
next
  case (t_recover t cause)
  show ?thesis unfolding t_recover create_auto_research_recovery_task_def
    by (rule transact_turns [OF ok])
       (auto simp: sbind_eq_Inr split: option.splits intro: recovery_turns_ok [OF ok _ _ row_id [OF r]])
next
  case (t_columns f op)
  then show ?thesis by (auto intro: on_task_ok [OF ok] simp: active_def)
next
  case t_other
  then show ?thesis using kept_turns_ok [OF _ ok] by blast
qed (use ok in \<open>auto intro: wake_turns_ok transition_turns_ok pause_turns_ok restore_turns_ok handoff_turns_ok\<close>)

lemma turn_reachable_ok: "turn_reachable E s \<Longrightarrow> reachable E s \<and> turns_ok s"
proof (induction rule: turn_reachable.induct)
  case (tr_none s)
  then show ?case by (simp add: r_empty turns_ok_def keyed_def dvalues_def)
next
  case (tr_next s t)
  then show ?case using turn_step_ok reachable_ok turn_step_lifecycle r_step by blast
qed

end
