(* ===== verification/TurnProps.thy ===== *)
theory TurnProps
  imports TurnMachine InboxMachine EpisodeProps
begin

text \<open>
  What the turns of an Auto-research episode guarantee: one running turn per actor, a budget that
  recoveries do not touch, and wakes that spend and hand over together or not at all.
\<close>

section \<open>Counting turns\<close>

lemma in_map_filter: "y \<in> set (List.map_filter f xs) \<longleftrightarrow> (\<exists>x \<in> set xs. f x = Some y)"
  by (induction xs) (auto simp: map_filter_simps split: option.splits)

lemma actor_rows_elem:
  assumes ok: "turns_ok s" and r: "(q, a) \<in> set (actor_rows s i actor)"
  shows "a \<in> set (dvalues (st_auto_invocations s))" "turn_of s a q" "ai_episode_id a = i" "ai_actor_operation_id a = actor"
proof -
  have q: "q \<in> set (dvalues (st_tasks s))" "dget (st_auto_invocations s) (tk_operation_id q) = Some a"
    and i: "ai_episode_id a = i" "ai_actor_operation_id a = actor"
    using r unfolding actor_rows_def in_map_filter by (auto split: option.splits if_splits)
  show "ai_episode_id a = i" "ai_actor_operation_id a = actor" by fact+
  note b = bound_turn [OF ok q(2)]
  show "a \<in> set (dvalues (st_auto_invocations s))" by (rule b(1))
  have "dget (st_tasks s) (tk_operation_id q) = Some q" using ok q(1) by (intro keyed_value) (simp_all add: turns_ok_def)
  then show "turn_of s a q" using turns_okD(2) [OF ok b(1)] b(2) by (auto simp: turn_of_def)
qed

lemma distinct_actor_rows:
  assumes "turns_ok s"
  shows "distinct (actor_rows s i actor)"
proof -
  let ?f = "\<lambda>q. case dget (st_auto_invocations s) (tk_operation_id q) of
       Some a \<Rightarrow> if ai_episode_id a = i \<and> ai_actor_operation_id a = actor then Some (q, a) else None | None \<Rightarrow> None"
  have "map tk_operation_id (dvalues (st_tasks s)) = map fst (st_tasks s)" "distinct (map fst (st_tasks s))"
    using assms keyed_ids by (auto simp: turns_ok_def keyed_def)
  then have d: "distinct (dvalues (st_tasks s))" by (metis distinct_map)
  have "inj_on (the \<circ> ?f) {q. ?f q \<noteq> None}" by (rule inj_onI) (auto split: option.splits if_splits)
  then show ?thesis using d unfolding actor_rows_def map_filter_def distinct_map by (auto intro: inj_on_subset)
qed

text \<open>Every allocation of an episode is one of its paid invocations.\<close>

definition paid_operations :: "store \<Rightarrow> string \<Rightarrow> string set" where
  "paid_operations s i = iv_operation_id ` set (filter (\<lambda>j. iv_episode_id j = i) (st_invocations s))"

lemma finite_paid_operations [simp]: "finite (paid_operations s i)"
  by (simp add: paid_operations_def)

lemma paid_operations_card:
  assumes r: "reachable E s" and e: "dget (st_episodes s) i = Some e"
  shows "card (paid_operations s i) \<le> nat (ep_invocations_used e)" "ep_invocations_used e \<le> ep_invocation_ceiling e"
proof -
  obtain v where v: "vw_episode v = e" "view_ok v"
    "vw_numbers v = map iv_invocation_number (filter (\<lambda>j. iv_episode_id j = i) (st_invocations s))"
    by (rule view_reads [OF r e])
  have "length (filter (\<lambda>j. iv_episode_id j = i) (st_invocations s)) = nat (ep_invocations_used e)"
    using view_parts(3) [OF v(2)] v(1,3) by (metis length_map length_upto diff_add_cancel)
  then show "card (paid_operations s i) \<le> nat (ep_invocations_used e)"
    unfolding paid_operations_def by (metis card_image_le card_length finite_set order_trans)
  show "ep_invocations_used e \<le> ep_invocation_ceiling e" using view_parts(2) [OF v(2)] v(1) by (simp add: counters_ok_def)
qed

lemma allocations_paid:
  assumes r: "turn_reachable E s" and e: "dget (st_episodes s) i = Some e"
  shows "card (ai_allocation_operation_id ` {a \<in> set (dvalues (st_auto_invocations s)). ai_episode_id a = i})
    \<le> nat (ep_invocations_used e)" "ep_invocations_used e \<le> ep_invocation_ceiling e"
proof -
  note ok = turn_reachable_ok [OF r]
  have "ai_allocation_operation_id ` {a \<in> set (dvalues (st_auto_invocations s)). ai_episode_id a = i} \<subseteq> paid_operations s i"
    using turns_okD(1) [OF conjunct2 [OF ok]] by (force simp: charged_def paid_operations_def)
  then show "card (ai_allocation_operation_id ` {a \<in> set (dvalues (st_auto_invocations s)). ai_episode_id a = i})
    \<le> nat (ep_invocations_used e)" "ep_invocations_used e \<le> ep_invocation_ceiling e"
    using paid_operations_card [OF conjunct1 [OF ok] e] by (meson card_mono finite_paid_operations le_trans)+
qed

section \<open>Wakes\<close>

lemma claimed_notices:
  assumes "notices_claimable s i ns = Inr True" and "n \<in> set (st_notices s)" and "ln_notice_id n \<in> set ns"
  shows "unread n"
  using assms by (auto simp: notices_claimable_def Let_def sbind_eq_Inr list_all_iff)

lemma claimed_mail:
  assumes "mail_claimable s i k ks = Inr True" and "m \<in> set (st_messages s)" and "am_message_id m \<in> set ks"
  shows "am_delivered_at m = None"
  using assms by (auto simp: mail_claimable_def Let_def sbind_eq_Inr list_all_iff unclaimed_def)

lemma paid_effect:
  assumes ok: "turns_ok s" and paid: "insert_paid_auto_research_task E s e t role cause = Inr u"
    and e: "dget (st_episodes s) (ep_episode_id e) = Some e"
  shows "dget (st_episodes u) (ep_episode_id e) = Some (e\<lparr>ep_invocations_used := ep_invocations_used e + 1,
      ep_updated_at := tk_created_at t\<rparr>)" "dhas (tk_operation_id t) (st_tasks u)"
proof -
  have "dget (st_episodes u) (ep_episode_id e) = Some (e\<lparr>ep_invocations_used := ep_invocations_used e + 1,
      ep_updated_at := tk_created_at t\<rparr>) \<and> dhas (tk_operation_id t) (st_tasks u)"
  proof (rule paid_result [OF paid])
    fix v actor seat s1 s2 s3
    assume own: "tk_episode_id t = Some (ep_episode_id e)" and bind: "bind_auto_research_actor s e t role False = Inr (v, actor, seat)"
      and ins: "insert_agent_task E s v cause = Inr s1"
      and iv: "insert_invocation s1 (paid_row (ep_episode_id e) t (ep_invocations_used e + 1)) = Inr s2"
      and ai: "insert_auto_research_invocation s2 (turn_row (ep_episode_id e) t (tk_operation_id t) role actor seat) = Inr s3"
      and u: "u = on_episode (ep_episode_id e) (\<lambda>e. e\<lparr>ep_invocations_used := ep_invocations_used e + 1,
         ep_updated_at := tk_created_at t\<rparr>) s3"
    obtain x where h: "admits s e t actor s1 x" by (rule admitsI [OF ok bind ins own])
    have "st_episodes s1 = st_episodes s" using ledger_insert_agent_task [OF ins] by (simp add: ledger_def)
    moreover have "st_episodes s2 = st_episodes s1" using iv by (auto simp: insert_invocation_def split: if_splits)
    moreover have "st_episodes s3 = st_episodes s2"
      using ledger_insert_auto_research_invocation [OF ai] by (simp add: ledger_def)
    ultimately show ?thesis
      using e admitsD(3) [OF h] invocation_result(1) [OF iv] invocation_result(2) [OF ai]
      by (simp add: u on_episode_def dget_dmodify dhas_def)
  qed
  then show "dget (st_episodes u) (ep_episode_id e) = Some (e\<lparr>ep_invocations_used := ep_invocations_used e + 1,
      ep_updated_at := tk_created_at t\<rparr>)" "dhas (tk_operation_id t) (st_tasks u)" by blast+
qed

section \<open>A demonstration\<close>

text \<open>An Auto-research episode whose first turn is paused and recovered, or completed and woken by a notice.\<close>

definition study :: episode_record where
  "study = demo_episode\<lparr>ep_mode := AutoResearchMode, ep_control_node_id := None, ep_graph_target := BranchTarget ''e1'',
     ep_graph_base_head := Some \<lparr>gh_target = MainTarget, gh_revision = 0, gh_transition_id = None\<rparr>\<rparr>"

definition study_state :: auto_research_state where
  "study_state = \<lparr>as_episode_id = ''e1'', as_starting_instruction = None, as_created_at = ''t0'', as_updated_at = ''t0''\<rparr>"

definition study_task :: "string \<Rightarrow> string option \<Rightarrow> int \<Rightarrow> agent_task" where
  "study_task op parent attempt = (demo_task op AutoResearchTask)\<lparr>tk_graph_target := BranchTarget ''e1'',
     tk_request := [(''episode_id'', VStr ''e1''), (''role'', VStr ''orchestrator''), (''run_truth_scope'', VList [VStr ''repo''])],
     tk_dispatch_authority := Some (expected_authority OrchestratorRole [''repo''] ''e1''),
     tk_authorized_by := ep_authorized_by demo_episode, tk_parent_operation_id := parent, tk_attempt := attempt\<rparr>"

definition study_started :: store where
  "study_started = fst (create_auto_research_episode_with_root_task demo_env empty_store study study_state
     (study_task ''o1'' None 1) True)"

definition study_moved :: "task_status \<Rightarrow> store" where
  "study_moved x = fst (transition_agent_task study_started ''o1'' x id)"

definition study_recovered :: store where
  "study_recovered = fst (create_auto_research_recovery_task demo_env (study_moved TPaused) (study_task ''o2'' (Some ''o1'') 2) ''resume'')"

definition study_noticed :: store where
  "study_noticed = fst (record_auto_research_lifecycle_notice demo_env (study_moved TSucceeded)
     (new_notice demo_env ''e1'' ''worker'' ''w1'' ''paused'' [] ''t2''))"

definition study_woken :: "store \<times> agent_task option sres" where
  "study_woken = create_auto_research_lifecycle_wake_task demo_env study_noticed (study_task ''o2'' (Some ''o1'') 1)
     [notice_id demo_env ''e1'' ''worker'' ''w1'' ''paused'' 1] []"

lemma study_coherent: "episode_coherent study" by code_simp

lemma study_started_reachable: "turn_reachable demo_env study_started"
  unfolding study_started_def
  by (rule tr_next [OF tr_none t_start [OF study_coherent]]) (simp_all add: empty_store_def ledger_def)

lemma study_moved_reachable: "turn_reachable demo_env (study_moved x)"
  unfolding study_moved_def by (rule tr_next [OF study_started_reachable t_transition]) simp

lemma notice_insert_frame:
  assumes "insert_lifecycle_notice E s n = Inr p"
  shows "ledger (fst p) = ledger s" "st_tasks (fst p) = st_tasks s" "st_auto_invocations (fst p) = st_auto_invocations s"
proof -
  have "\<exists>ns. fst p = s\<lparr>st_notices := ns\<rparr>"
  proof (cases "find (same_source n) (st_notices s)")
    case None
    then show ?thesis using assms by (auto simp: insert_lifecycle_notice_def sbind_eq_Inr)
  next
    case (Some m)
    then have "fst p = s"
      using assms by (auto simp: insert_lifecycle_notice_def sbind_eq_Inr split: if_splits sum.splits)
    then show ?thesis by (intro exI [of _ "st_notices s"]) simp
  qed
  then show "ledger (fst p) = ledger s" "st_tasks (fst p) = st_tasks s" "st_auto_invocations (fst p) = st_auto_invocations s"
    by (auto simp: ledger_def)
qed

lemma study_noticed_reachable: "turn_reachable demo_env study_noticed"
proof -
  have same: "ledger study_noticed = ledger (study_moved TSucceeded)" "st_tasks study_noticed = st_tasks (study_moved TSucceeded)"
    "st_auto_invocations study_noticed = st_auto_invocations (study_moved TSucceeded)"
    unfolding study_noticed_def record_auto_research_lifecycle_notice_def transact_state
    using notice_insert_frame by (auto split: sum.splits)
  have "turns_ok (study_moved TSucceeded)" using turn_reachable_ok [OF study_moved_reachable] by blast
  then have "rows_kept (study_moved TSucceeded) study_noticed"
    using same by (auto simp: rows_kept_def turns_ok_def ledger_def)
  then show ?thesis using tr_next [OF study_moved_reachable t_other [OF l_other]] same by blast
qed

lemma study_recovered_reachable: "turn_reachable demo_env study_recovered"
  unfolding study_recovered_def by (rule tr_next [OF study_moved_reachable t_recover])

section \<open>Properties\<close>

text \<open>C15: An actor of an Auto-research episode has one running turn at a time. In every store reached by
  starts, paid turns, wakes, recoveries, status transitions, restores and other ledger operations, at most one
  task of an actor is queued, running or pausing.\<close>

theorem one_turn_per_actor:
  assumes "turn_reachable E s"
  shows "length (filter (\<lambda>r. tk_status (fst r) \<in> set ACTIVE_AGENT_TASK_STATUSES) (actor_rows s i actor)) \<le> 1"
proof -
  note ok = conjunct2 [OF turn_reachable_ok [OF assms]]
  let ?rows = "filter (\<lambda>r. tk_status (fst r) \<in> set ACTIVE_AGENT_TASK_STATUSES) (actor_rows s i actor)"
  have act: "active q \<longleftrightarrow> tk_status q \<in> set ACTIVE_AGENT_TASK_STATUSES" for q
    by (simp add: active_def ACTIVE_AGENT_TASK_STATUSES_def)
  have one: "x = y" if "x \<in> set ?rows" "y \<in> set ?rows" for x y
  proof -
    obtain q a r b where x: "x = (q, a)" "y = (r, b)" by fastforce
    then have xy: "x = (q, a)" "y = (r, b)" "(q, a) \<in> set (actor_rows s i actor)" "(r, b) \<in> set (actor_rows s i actor)"
        "active q" "active r" using that act by auto
    note l = actor_rows_elem [OF ok xy(3)] and m = actor_rows_elem [OF ok xy(4)]
    have "b = a" using turns_okD(4) [OF ok l(1,2) xy(5) m(1,2) xy(6)] l m by simp
    then show ?thesis using l(2) m(2) xy(1,2) by (simp add: turn_of_def)
  qed
  have "card (set ?rows) \<le> 1" by (cases "set ?rows = {}") (use one in \<open>auto simp: card_le_Suc0_iff_eq\<close>)
  then show ?thesis using distinct_card [of ?rows] distinct_actor_rows [OF ok] by simp
qed

theorem one_turn_per_actor_witness:
  "length (filter (\<lambda>r. tk_status (fst r) \<in> set ACTIVE_AGENT_TASK_STATUSES) (actor_rows study_recovered ''e1'' ''o1'')) \<le> 1
    \<and> map (tk_operation_id \<circ> fst) (actor_rows study_recovered ''e1'' ''o1'') = [''o1'', ''o2'']"
proof -
  have "map (tk_operation_id \<circ> fst) (actor_rows study_recovered ''e1'' ''o1'') = [''o1'', ''o2'']" by code_simp
  then show ?thesis using one_turn_per_actor [OF study_recovered_reachable] by blast
qed

text \<open>Recoveries are free and nothing else is. In every store reached, each turn of an Auto-research
  episode is charged to a paid invocation of that episode, made for the same actor in the same role; so however often its
  turns are recovered, an episode has no more allocations than its meter counts, and the meter stays within
  the ceiling.\<close>

theorem turns_within_budget:
  assumes "turn_reachable E s" and "dget (st_episodes s) i = Some e"
  shows "list_all (charged s) (dvalues (st_auto_invocations s))
    \<and> card (ai_allocation_operation_id ` {a \<in> set (dvalues (st_auto_invocations s)). ai_episode_id a = i})
        \<le> nat (ep_invocations_used e) \<and> ep_invocations_used e \<le> ep_invocation_ceiling e"
  using allocations_paid [OF assms] turns_okD(1) [OF conjunct2 [OF turn_reachable_ok [OF assms(1)]]]
  by (simp add: list_all_iff)

theorem turns_within_budget_witness:
  "\<exists>e. dget (st_episodes study_recovered) ''e1'' = Some e \<and> ep_invocations_used e = 1
    \<and> length (dvalues (st_auto_invocations study_recovered)) = 2
    \<and> list_all (charged study_recovered) (dvalues (st_auto_invocations study_recovered))"
proof -
  have "map_option ep_invocations_used (dget (st_episodes study_recovered) ''e1'') = Some 1"
    "length (dvalues (st_auto_invocations study_recovered)) = 2" by (code_simp, code_simp)
  then show ?thesis using turns_within_budget [OF study_recovered_reachable, of "''e1''"] by auto
qed

text \<open>C23: A lifecycle wake is all or nothing. From every store reached, a wake that returns a task has
  spent exactly one invocation of its episode and delivered to that task exactly the notices it named, which were
  the oldest pending ones, with the messages it named; one that finds them claimed, or fails, leaves
  the store as it was.\<close>

theorem lifecycle_wake_all_or_nothing:
  assumes "turn_reachable E s" and "tk_episode_id t = Some i"
    and "create_auto_research_lifecycle_wake_task E s t ns ks = (u, r)"
  shows "case r of Inr (Some x) \<Rightarrow>
      ns \<noteq> [] \<and> map ln_notice_id (take (length ns) (pending_rows s i)) = ns
      \<and> st_notices u = map (\<lambda>n. if ln_notice_id n \<in> set ns
          then delivered (tk_created_at t) (tk_operation_id t) n else n) (st_notices s)
      \<and> st_messages u = map (\<lambda>m. if am_message_id m \<in> set ks
          then handed_over (tk_created_at t) (tk_operation_id t) m else m) (st_messages s)
      \<and> (\<exists>e. dget (st_episodes s) i = Some e \<and> dget (st_episodes u) i
          = Some (e\<lparr>ep_invocations_used := ep_invocations_used e + 1, ep_updated_at := tk_created_at t\<rparr>))
    | _ \<Rightarrow> u = s"
proof (cases "integrity_refused (lifecycle_wake E s t ns ks i)")
  case (Inl err)
  then show ?thesis using assms(2,3)
    by (auto simp: create_auto_research_lifecycle_wake_task_def transact_def split: if_splits)
next
  case (Inr p)
  obtain v b where p: "p = (v, b)" by fastforce
  then have run: "lifecycle_wake E s t ns ks i = Inr (v, b)" using Inr by simp
  note ok = turn_reachable_ok [OF assms(1)]
  from run show ?thesis
  proof (cases rule: lifecycle_wake_result)
    case asleep
    then show ?thesis using assms(2,3) Inr p
      by (auto simp: integrity_refused_def create_auto_research_lifecycle_wake_task_def transact_def wake_result_def split: if_splits)
  next
    case (woken e s1)
    have id: "ep_episode_id e = i" using row_id [OF reachable_ok [OF conjunct1 [OF ok]] woken(1)] .
    have e: "dget (st_episodes s) (ep_episode_id e) = Some e" using woken(1) by (simp add: load_auto_Inr id)
    note paid = paid_effect [OF conjunct2 [OF ok] woken(3) e] and frames = paid_frames [OF woken(3)]
    have mail: "am_delivered_at m = None" if "m \<in> set (st_messages s)" "am_message_id m \<in> set ks" for m
      using claimed_mail [OF woken(6) that] that(2) by (cases ks) auto
    have n: "st_notices v = map (\<lambda>n. if ln_notice_id n \<in> set ns
        then delivered (tk_created_at t) (tk_operation_id t) n else n) (st_notices s)"
      using claimed_notices [OF woken(2)] by (auto simp: woken(5) on_notices_def on_messages_def frames)
    have m: "st_messages v = map (\<lambda>m. if am_message_id m \<in> set ks
        then handed_over (tk_created_at t) (tk_operation_id t) m else m) (st_messages s)"
      using mail by (auto simp: woken(5) on_notices_def on_messages_def frames)
    have first: "map ln_notice_id (take (length ns) (pending_rows s i)) = ns"
      using woken(2) by (simp add: notices_claimable_def Let_def sbind_eq_Inr)
    have same: "st_episodes v = st_episodes s1" "st_tasks v = st_tasks s1"
      by (simp_all add: woken(5) on_notices_def on_messages_def)
    obtain x where x: "reread_task v (tk_operation_id t) = Inr x"
      using paid(2) by (auto simp: reread_task_def same dhas_iff split: option.splits)
    show ?thesis
      using assms(2,3) Inr p woken(4) x n m first paid(1) e id same(1)
      by (auto simp: integrity_refused_def create_auto_research_lifecycle_wake_task_def transact_def wake_result_def
          split: if_splits)
  qed
qed

theorem lifecycle_wake_all_or_nothing_witness:
  "\<exists>u x. study_woken = (u, Inr (Some x)) \<and> map ln_delivery_operation_id (st_notices u) = [Some ''o2'']
    \<and> map_option ep_invocations_used (dget (st_episodes u) ''e1'') = Some 2"
proof -
  obtain u r where w: "study_woken = (u, r)" by fastforce
  have "map_prod (\<lambda>_. ()) (map_sum id (map_option tk_operation_id)) study_woken = ((), Inr (Some ''o2''))" by code_simp
  then have "map_sum id (map_option tk_operation_id) r = Inr (Some ''o2'')" by (simp add: w)
  then obtain x where r: "r = Inr (Some x)" by (cases r) auto
  have t: "tk_episode_id (study_task ''o2'' (Some ''o1'') 1) = Some ''e1''" by (simp add: study_task_def demo_task_def)
  note effect = lifecycle_wake_all_or_nothing [OF study_noticed_reachable t w [unfolded study_woken_def r]]
  have "map_option ep_invocations_used (dget (st_episodes study_noticed) ''e1'') = Some 1"
    "map ln_notice_id (st_notices study_noticed) = [notice_id demo_env ''e1'' ''worker'' ''w1'' ''paused'' 1]" by (code_simp, code_simp)
  then show ?thesis using effect w r
    by (auto simp: study_task_def demo_task_def delivered_def map_eq_Cons_conv)
qed

end
