(* ===== verification/ChildProps.thy ===== *)
theory ChildProps
  imports Finish InboxProps TurnProps
begin

text \<open>
  The children of an Auto-research episode: the allowance of Experiment invocations is never
  overdrawn, a route only advances, and the guarded Finish fences an episode exactly when nothing
  is left open, as one step of the episode ledger.
\<close>

section \<open>The allowance\<close>

text \<open>Claims, and any step of the episode ledger; no other operation writes the table of claims.\<close>

inductive allowance_step :: "store_env \<Rightarrow> store \<Rightarrow> store \<Rightarrow> bool" for E where
  as_claim: "claim_auto_research_experiment_allowance s parent child op now = Inr (t, a) \<Longrightarrow> allowance_step E s t"
| as_episode: "lifecycle_step E s t \<Longrightarrow> st_spend t = st_spend s \<Longrightarrow> allowance_step E s t"

inductive allowance_reachable :: "store_env \<Rightarrow> store \<Rightarrow> bool" for E where
  ar_start: "reachable E s \<Longrightarrow> st_spend s = [] \<Longrightarrow> allowance_reachable E s"
| ar_step: "allowance_reachable E s \<Longrightarrow> allowance_step E s t \<Longrightarrow> allowance_reachable E t"

definition within_allowance :: "store \<Rightarrow> bool" where
  "within_allowance s \<longleftrightarrow> (\<forall>i. spent s i \<noteq> [] \<longrightarrow> (\<exists>v. view_of s i = Some v
     \<and> int (length (spent s i)) \<le> 5 * ep_invocation_ceiling (vw_episode v)))"

lemma claim_effect:
  assumes "claim_auto_research_experiment_allowance s parent child op now = Inr (t, a)"
  shows "t = s \<or> (\<exists>r e. t = s\<lparr>st_spend := st_spend s @ [(op, r)]\<rparr> \<and> sp_parent_episode_id r = parent
    \<and> dget (st_episodes s) parent = Some e \<and> int (length (spent s parent)) < 5 * ep_invocation_ceiling e)"
proof (cases "dget (st_spend s) op")
  case None
  then have new: "dset op r (st_spend s) = st_spend s @ [(op, r)]" for r by (simp add: dset_fresh dhas_iff)
  obtain b where b: "auto_research_experiment_allowance s parent = Inr b" "al_remaining b \<noteq> 0"
    "t = s\<lparr>st_spend := dset op \<lparr>sp_operation_id = op, sp_parent_episode_id = parent, sp_child_episode_id = child,
      sp_created_at = now\<rparr> (st_spend s)\<rparr>"
    using assms None by (auto simp: claim_auto_research_experiment_allowance_def sbind_eq_Inr split: if_splits)
  then obtain e where "dget (st_episodes s) parent = Some e" "int (length (spent s parent)) < 5 * ep_invocation_ceiling e"
    by (auto simp: auto_research_experiment_allowance_def Let_def split: option.splits if_splits)
  then show ?thesis using b(3) new by auto
next
  case (Some r)
  then show ?thesis
    using assms by (auto simp: claim_auto_research_experiment_allowance_def sbind_eq_Inr split: if_splits)
qed

lemma spent_append: "spent (s\<lparr>st_spend := st_spend s @ [(op, r)]\<rparr>) i = spent s i @ (if sp_parent_episode_id r = i then [r] else [])"
  by (simp add: spent_def dvalues_def)

lemma spent_frame: "st_spend t = st_spend s \<Longrightarrow> spent t = spent s"
  by (simp add: spent_def fun_eq_iff)

lemma allowance_step_ledger: "allowance_step E s t \<Longrightarrow> lifecycle_step E s t"
  by (induction rule: allowance_step.induct) (auto dest!: claim_effect intro!: l_other simp: ledger_def)

lemma view_ceiling:
  assumes "reach_ok s" and "lifecycle_step E s t" and "view_of s i = Some v"
  obtains w where "view_of t i = Some w" "ep_invocation_ceiling (vw_episode w) = ep_invocation_ceiling (vw_episode v)"
proof -
  obtain w where w: "view_of t i = Some w" "view_move\<^sup>*\<^sup>* v w" using step_view [OF assms] by blast
  then show ?thesis using that moves_keep(1) [OF w(2)] by (auto simp: identity_def)
qed

lemma step_within:
  assumes ok: "reach_ok s" and "allowance_step E s t" and w: "within_allowance s"
  shows "within_allowance t"
  unfolding within_allowance_def
proof (intro allI impI)
  fix i assume some: "spent t i \<noteq> []"
  have l: "lifecycle_step E s t" by (rule allowance_step_ledger [OF assms(2)])
  have kept: "\<exists>w. view_of t i = Some w \<and> n \<le> 5 * ep_invocation_ceiling (vw_episode w)"
    if "view_of s i = Some v" "n \<le> 5 * ep_invocation_ceiling (vw_episode v)" for v n
    using view_ceiling [OF ok l that(1)] that(2) by metis
  show "\<exists>v. view_of t i = Some v \<and> int (length (spent t i)) \<le> 5 * ep_invocation_ceiling (vw_episode v)"
  proof (cases "spent t i = spent s i")
    case True
    then show ?thesis using w some kept by (auto simp: within_allowance_def)
  next
    case False
    from assms(2) show ?thesis
    proof cases
      case (as_claim parent child op now a)
      then obtain r e where r: "t = s\<lparr>st_spend := st_spend s @ [(op, r)]\<rparr>" "sp_parent_episode_id r = parent"
          "dget (st_episodes s) parent = Some e" "int (length (spent s parent)) < 5 * ep_invocation_ceiling e"
        using claim_effect [OF as_claim] False by auto
      have i: "parent = i" and n: "length (spent t i) = Suc (length (spent s i))"
        using False r(1,2) spent_append [of s op r i] by (auto split: if_splits)
      obtain v where v: "view_of s i = Some v" "vw_episode v = e" using view_of_row r(3) i by metis
      show ?thesis by (rule kept [OF v(1)]) (use r(4) i n v(2) in simp)
    next
      case as_episode
      then show ?thesis using False spent_frame by metis
    qed
  qed
qed

lemma allowance_reachable_ok: "allowance_reachable E s \<Longrightarrow> reachable E s \<and> within_allowance s"
proof (induction rule: allowance_reachable.induct)
  case (ar_start s)
  then show ?case by (simp add: within_allowance_def spent_def dvalues_def)
next
  case (ar_step s t)
  then show ?case using step_within [OF reachable_ok] allowance_step_ledger by (blast intro: r_step)
qed

section \<open>Finish\<close>

text \<open>What an episode may still have open.\<close>

definition open_work :: "store \<Rightarrow> string \<Rightarrow> bool" where
  "open_work s i \<longleftrightarrow> (\<exists>w \<in> set (dvalues (st_child_work s)). cw_episode_id w = i
     \<and> (\<exists>t. dget (st_tasks s) (cw_current_operation_id w) = Some t \<and> tk_status t \<in> {TQueued, TRunning, TPausing}))"

definition open_experiment :: "store \<Rightarrow> string \<Rightarrow> bool" where
  "open_experiment s i \<longleftrightarrow> (\<exists>r \<in> set (dvalues (st_routes s)). cr_parent_episode_id r = i
     \<and> (cr_state r = ChildPending \<or> cr_state r = ChildRunning
         \<and> (\<exists>e. dget (st_episodes s) (cr_child_episode_id r) = Some e \<and> is_live e)))"

definition open_notice :: "store \<Rightarrow> string \<Rightarrow> bool" where
  "open_notice s i \<longleftrightarrow> (\<exists>n \<in> set (st_notices s). ln_episode_id n = i \<and> unread n)"

definition open_admission :: "store \<Rightarrow> string \<Rightarrow> bool" where
  "open_admission s i \<longleftrightarrow> (\<exists>a \<in> set (dvalues (st_admissions s)). ca_episode_id a = i \<and> ca_state a = Accepted)"

lemma map_filter_Nil: "List.map_filter f xs = [] \<longleftrightarrow> (\<forall>x \<in> set xs. f x = None)"
  by (induction xs) (auto simp: map_filter_simps split: option.splits)

lemma no_blockers:
  assumes "load_auto_research_episode s i = Inr e"
  shows "auto_research_finish_blockers s i = Inr [] \<longleftrightarrow>
    \<not> open_work s i \<and> \<not> open_experiment s i \<and> \<not> open_notice s i \<and> \<not> open_admission s i"
proof -
  have "active_workers s i = [] \<longleftrightarrow> \<not> open_work s i"
    by (auto simp: active_workers_def map_filter_Nil open_work_def ACTIVE_AGENT_TASK_STATUSES_def split: option.splits if_splits)
  moreover have "live_children s i = [] \<and> pending_children s i = [] \<longleftrightarrow> \<not> open_experiment s i"
    unfolding live_children_def pending_children_def map_filter_Nil filter_empty_conv auto_research_child_experiments_def
      open_experiment_def by (auto split: option.splits if_splits)
  moreover have "pending_rows s i = [] \<longleftrightarrow> \<not> open_notice s i"
    using set_pending [of s i] by (auto simp: open_notice_def simp flip: set_empty)
  moreover have "pending_auto_research_child_admissions s (Some i) = [] \<longleftrightarrow> \<not> open_admission s i"
    by (auto simp: pending_auto_research_child_admissions_def open_admission_def filter_empty_conv simp flip: set_empty)
  ultimately show ?thesis by (auto simp: auto_research_finish_blockers_def assms)
qed


text \<open>A decision is kept whenever its result can be printed and passes the validator.\<close>

lemma finish_digest_defined: "jsonable (VDict d) \<Longrightarrow> \<exists>h. finish_digest E d = Inr h"
  using json_text_defined [of "se_str E" False None "json_sorted (VDict d)"]
  unfolding finish_digest_def jsonable_sorted by (metis option.simps(5))

lemma keep_receipt:
  assumes "jsonable (VDict d)" and "\<And>h. finish_result_ok \<lparr>fr_effect_id = x, fr_episode_id = i, fr_actor_operation_id = a,
      fr_disposition = c, fr_blocker_count = n, fr_result = d, fr_result_sha256 = h, fr_created_at = now\<rparr>"
  obtains r where "keep_finish_receipt E s x i a now (c, n, d) = Inr (s\<lparr>st_finish_receipts := dset x r (st_finish_receipts s)\<rparr>, r)"
    "finish_receipt_row E r = Inr r" "fr_disposition r = c" "fr_episode_id r = i" "fr_actor_operation_id r = a"
proof -
  obtain h where h: "finish_digest E d = Inr h" using finish_digest_defined [OF assms(1)] by blast
  show ?thesis
    by (rule that [of "\<lparr>fr_effect_id = x, fr_episode_id = i, fr_actor_operation_id = a, fr_disposition = c,
        fr_blocker_count = n, fr_result = d, fr_result_sha256 = h, fr_created_at = now\<rparr>"])
       (use assms(2) in \<open>simp_all add: keep_finish_receipt_def h finish_receipt_row_def\<close>)
qed

lemma blocker_kinds:
  assumes "auto_research_finish_blockers s i = Inr bs" and "b \<in> set bs"
  shows "is_blocker_doc (blocker_doc b)"
  using assms by (auto simp: auto_research_finish_blockers_def sbind_eq_Inr is_blocker_doc_def blocker_doc_def is_text_def)

lemma blocked_ok:
  assumes "auto_research_finish_blockers s i = Inr bs" and "bs \<noteq> []" and "a \<noteq> []"
  shows "jsonable (VDict (blocked_result i bs))"
    "finish_result_ok \<lparr>fr_effect_id = x, fr_episode_id = i, fr_actor_operation_id = a, fr_disposition = Blocked,
      fr_blocker_count = length bs, fr_result = blocked_result i bs, fr_result_sha256 = h, fr_created_at = now\<rparr>"
  using assms(2,3) blocker_kinds [OF assms(1)]
  by (auto simp: blocked_result_def finish_result_ok_def list_all_iff blocker_doc_def)

lemma completed_ok:
  assumes "ep_episode_id e = i" and "ep_ending e = Some EndCompleted" and "a \<noteq> []"
  shows "jsonable (VDict (completed_result e))"
    "finish_result_ok \<lparr>fr_effect_id = x, fr_episode_id = i, fr_actor_operation_id = a, fr_disposition = Completed,
      fr_blocker_count = 0, fr_result = completed_result e, fr_result_sha256 = h, fr_created_at = now\<rparr>"
  using assms by (auto simp: completed_result_def finish_result_ok_def ending_name_def)

lemma strip_nonempty: "py_strip a \<noteq> [] \<Longrightarrow> a \<noteq> []"
  by (auto simp: py_strip_def)

lemma fenced_coherent: "episode_coherent e \<Longrightarrow> ep_ending e = None \<Longrightarrow> episode_coherent (fenced_complete d now e)"
  by (auto simp: episode_coherent_def fenced_complete_def)

lemma on_episode_simps [simp]:
  "dget (st_episodes (on_episode i f s)) j = (if j = i then map_option f (dget (st_episodes s) j) else dget (st_episodes s) j)"
  "st_auto_research (on_episode i f s) = st_auto_research s" "st_finish_receipts (on_episode i f s) = st_finish_receipts s"
  by (simp_all add: on_episode_def dget_dmodify)

lemma settle_watchers_frame:
  assumes "load_auto_research_episode s i = Inr e" and "ep_ending e \<noteq> None"
  obtains ws where "settle_auto_research_watchers s i now = Inr (s\<lparr>st_watchers := ws\<rparr>)"
proof -
  have "\<exists>ws. settle_auto_research_watchers s i now = Inr (s\<lparr>st_watchers := ws\<rparr>)"
    using assms by (simp add: settle_auto_research_watchers_def sguard_def Let_def) blast
  then show ?thesis using that by blast
qed

text \<open>An undecided episode is fenced when nothing is open and reported as blocked otherwise.\<close>

lemma decide_open:
  assumes e: "load_auto_research_episode s i = Inr e" and none: "ep_ending e = None" "ep_stop_requested_at e = None"
    and live: "ep_status e \<in> {EQueued, ERunning}"
  obtains bs where "auto_research_finish_blockers s i = Inr bs" "bs \<noteq> []"
      "decide_finish s i d now = Inr (s, Blocked, length bs, blocked_result i bs)"
    | ws where "auto_research_finish_blockers s i = Inr []"
      "decide_finish s i d now = Inr ((on_episode i (fenced_complete d now) s)\<lparr>st_watchers := ws\<rparr>, Completed, 0,
         completed_result (fenced_complete d now e))"
proof -
  obtain bs where bs: "auto_research_finish_blockers s i = Inr bs" by (simp add: auto_research_finish_blockers_def e)
  show ?thesis
  proof (cases "bs = []")
    case False
    then show ?thesis using that(1) [OF bs] e none live bs by (auto simp: decide_finish_def)
  next
    case True
    let ?s = "on_episode i (fenced_complete d now) s" and ?e = "fenced_complete d now e"
    have load: "load_auto_research_episode ?s i = Inr ?e" and closed: "ep_ending ?e \<noteq> None"
      using e fenced_coherent [OF _ none(1)] by (auto simp: load_auto_Inr) (simp_all add: fenced_complete_def)
    obtain ws where ws: "settle_auto_research_watchers ?s i now = Inr (?s\<lparr>st_watchers := ws\<rparr>)"
      by (rule settle_watchers_frame [OF load closed])
    have "load_episode (?s\<lparr>st_watchers := ws\<rparr>) i = Inr ?e" using load by (simp add: load_auto_Inr load_episode_Inr)
    then show ?thesis using that(2) bs True e none live ws by (auto simp: decide_finish_def)
  qed
qed


lemma guard_fresh:
  assumes "\<not> dhas x (st_finish_receipts s)" and "py_strip x \<noteq> []" and "py_strip a \<noteq> []"
    and "decide_finish s i d now = Inr (u, c)" and "keep_finish_receipt E u x i a now c = Inr (t, r)"
  shows "guard_auto_research_finish E s i x a d now = (t, Inr r)"
  using assms by (simp add: guard_auto_research_finish_def transact_def dhas_iff)

lemma guard_replay:
  assumes "dget (st_finish_receipts s) x = Some r" and "finish_receipt_row E r = Inr r"
    and "fr_episode_id r = i" and "fr_actor_operation_id r = a" and "py_strip x \<noteq> []" and "py_strip a \<noteq> []"
  shows "guard_auto_research_finish E s i x a d now = (s, Inr r)"
  using assms by (simp add: guard_auto_research_finish_def transact_def)

text \<open>Every outcome of a Finish is one of the generic ending fence, or leaves the ledger alone.\<close>

lemma keep_ledger:
  assumes "keep_finish_receipt E s x i a now c = Inr (t, r)"
  shows "ledger t = ledger s"
  using assms by (auto simp: keep_finish_receipt_def sbind_eq_Inr ledger_def)

lemma settle_ledger: "settle_auto_research_watchers s i now = Inr t \<Longrightarrow> ledger t = ledger s"
  by (auto simp: settle_auto_research_watchers_def sbind_eq_Inr Let_def ledger_def)

lemma fence_is_complete:
  assumes "load_auto_research_episode s i = Inr e" and "ep_ending e = None" and "ep_stop_requested_at e = None"
    and "ep_status e \<in> {EQueued, ERunning}"
  shows "fst (fence_episode_ending s i EndCompleted d now) = on_episode i (fenced_complete d now) s"
  using assms
  by (auto simp: fence_episode_ending_def fence_episode_ending_in_connection_def transact_def load_auto_Inr
      load_episode_def episode_row_def fenced_complete_def [abs_def])

lemma decide_ledger:
  assumes "decide_finish s i d now = Inr (t, c)"
  shows "ledger t = ledger s \<or> ledger t = ledger (fst (fence_episode_ending s i EndCompleted d now))"
proof -
  obtain e where e: "load_auto_research_episode s i = Inr e"
    using assms by (auto simp: decide_finish_def sbind_eq_Inr)
  show ?thesis
  proof (cases "ep_ending e = None")
    case False
    then show ?thesis using assms e settle_ledger by (auto simp: decide_finish_def sbind_eq_Inr split: if_splits)
  next
    case True
    then have live: "ep_stop_requested_at e = None" "ep_status e \<in> {EQueued, ERunning}"
      using assms e by (auto simp: decide_finish_def split: if_splits)
    note fence = fence_is_complete [OF e True live, of d now]
    show ?thesis
      by (rule decide_open [OF e True live, of d now]) (use assms fence in \<open>auto simp: ledger_def\<close>)
  qed
qed

lemma guard_ledger:
  "ledger (fst (guard_auto_research_finish E s i x a d now)) = ledger s
    \<or> ledger (fst (guard_auto_research_finish E s i x a d now)) = ledger (fst (fence_episode_ending s i EndCompleted d now))"
proof (cases "dget (st_finish_receipts s) x")
  case None
  then show ?thesis
    by (auto simp: guard_auto_research_finish_def transact_state sbind_eq_Inr dest!: decide_ledger keep_ledger split: sum.splits)
next
  case (Some r)
  then show ?thesis
    by (auto simp: guard_auto_research_finish_def transact_state sbind_eq_Inr split: sum.splits if_splits)
qed

section \<open>Properties\<close>

text \<open>C22: The allowance of child Experiment invocations is never overdrawn. In every store reached by claims
  and ledger operations, the meter of an Auto-research episode is consistent: what it reports as used is the
  number of claims, used and remaining make five times the ceiling, and nothing is negative.\<close>

theorem experiment_allowance_respected:
  assumes "allowance_reachable E s" and "load_auto_research_episode s i = Inr e"
  shows "\<exists>a. auto_research_experiment_allowance s i = Inr a \<and> al_used a = int (length (spent s i))
    \<and> al_used a + al_remaining a = 5 * ep_invocation_ceiling e \<and> 0 \<le> al_remaining a"
proof -
  have e: "dget (st_episodes s) i = Some e" "dhas i (st_auto_research s)" "ep_mode e = AutoResearchMode"
    "1 \<le> ep_invocation_ceiling e" using assms(2) by (auto simp: load_auto_Inr episode_coherent_def)
  have "int (length (spent s i)) \<le> 5 * ep_invocation_ceiling e"
  proof (cases "spent s i = []")
    case False
    then show ?thesis using allowance_reachable_ok [OF assms(1)] e(1)
      by (auto simp: within_allowance_def view_of_def dest!: spec [of _ i])
  qed (use e(4) in simp)
  then show ?thesis using e by (simp add: auto_research_experiment_allowance_def Let_def)
qed


definition demo_route :: child_route where
  "demo_route = \<lparr>cr_child_episode_id = ''c1'', cr_parent_episode_id = ''e1'', cr_project_id = ''p'', cr_control_node_id = ''n1'',
     cr_state = ChildRunning, cr_replaces_episode_id = None, cr_request = [], cr_goal_sha256 = None,
     cr_parent_operation_id = ''o1'', cr_terminal_diagnostic = None, cr_created_at = ''t0'', cr_updated_at = ''t0''\<rparr>"

text \<open>The started episode with a running child, and one claim for it.\<close>

definition demo_parent :: store where
  "demo_parent = projr (activate_auto_research_child_experiment demo_env study_started demo_route None)"

definition demo_claimed :: store where
  "demo_claimed = fst (projr (claim_auto_research_experiment_allowance demo_parent ''e1'' ''c1'' ''o2'' ''t1''))"

lemma activate_ledger: "activate_auto_research_child_experiment E s r None = Inr t \<Longrightarrow> ledger t = ledger s"
  by (auto simp: activate_auto_research_child_experiment_def insert_route_def on_route_def
      reflect_auto_research_child_admission_def sbind_eq_Inr dest!: ledger_insert_notice split: option.splits if_splits)

lemma demo_parent_reachable: "reachable demo_env demo_parent"
proof -
  have "reachable demo_env study_started" using turn_reachable_ok [OF study_started_reachable] by blast
  moreover have "\<not> isl (activate_auto_research_child_experiment demo_env study_started demo_route None)" by code_simp
  then have "activate_auto_research_child_experiment demo_env study_started demo_route None = Inr demo_parent"
    unfolding demo_parent_def by (metis sum.collapse(2))
  then have "ledger demo_parent = ledger study_started" by (rule activate_ledger)
  ultimately show ?thesis by (rule r_step [OF _ l_other])
qed

lemma demo_parent_loads:
  obtains e where "load_auto_research_episode demo_parent ''e1'' = Inr e" "ep_status e = ERunning" "ep_ending e = None"
    "ep_stop_requested_at e = None"
proof -
  have "map_sum id (\<lambda>e. (ep_status e, ep_ending e, ep_stop_requested_at e)) (load_auto_research_episode demo_parent ''e1'')
      = Inr (ERunning, None, None)" by code_simp
  then show ?thesis using that by (cases "load_auto_research_episode demo_parent ''e1''") auto
qed

lemma demo_claimed_reachable: "allowance_reachable demo_env demo_claimed"
proof -
  have "st_spend demo_parent = []" by code_simp
  then have "allowance_reachable demo_env demo_parent" by (rule ar_start [OF demo_parent_reachable])
  moreover have "\<not> isl (claim_auto_research_experiment_allowance demo_parent ''e1'' ''c1'' ''o2'' ''t1'')" by code_simp
  then have "claim_auto_research_experiment_allowance demo_parent ''e1'' ''c1'' ''o2'' ''t1''
      = Inr (demo_claimed, snd (projr (claim_auto_research_experiment_allowance demo_parent ''e1'' ''c1'' ''o2'' ''t1'')))"
    unfolding demo_claimed_def by (metis prod.collapse sum.collapse(2))
  ultimately show ?thesis by (blast intro: ar_step as_claim)
qed

theorem experiment_allowance_respected_witness:
  "\<exists>a. auto_research_experiment_allowance demo_claimed ''e1'' = Inr a \<and> al_used a = 1 \<and> al_remaining a = 9"
proof -
  have "map_sum id ep_invocation_ceiling (load_auto_research_episode demo_claimed ''e1'') = Inr 2" by code_simp
  then obtain e where e: "load_auto_research_episode demo_claimed ''e1'' = Inr e" "ep_invocation_ceiling e = 2"
    by (cases "load_auto_research_episode demo_claimed ''e1''") auto
  have "length (spent demo_claimed ''e1'') = 1" by code_simp
  then show ?thesis using experiment_allowance_respected [OF demo_claimed_reachable e(1)] e(2) by auto
qed

text \<open>C20: The guarded Finish decides, exactly when it may. For an episode that is queued or running with no
  ending and no stop request, a command under a new effect identifier returns a receipt: blocked, with nothing but the
  receipt written, when a worker is active, an Experiment pending or live, a notice unread or an admission
  unreflected; completed otherwise, with the row of the episode fenced. The same command then returns
  the same receipt and changes nothing.\<close>

theorem guarded_finish_decides:
  assumes "reachable E s" and "load_auto_research_episode s i = Inr e"
    and "ep_status e \<in> {EQueued, ERunning}" and "ep_ending e = None" and "ep_stop_requested_at e = None"
    and "\<not> dhas x (st_finish_receipts s)" and "py_strip x \<noteq> []" and "py_strip a \<noteq> []"
  shows "\<exists>t r. guard_auto_research_finish E s i x a d now = (t, Inr r)
    \<and> (if open_work s i \<or> open_experiment s i \<or> open_notice s i \<or> open_admission s i
       then fr_disposition r = Blocked \<and> t = s\<lparr>st_finish_receipts := dset x r (st_finish_receipts s)\<rparr>
       else fr_disposition r = Completed \<and> dget (st_episodes t) i = Some (fenced_complete d now e))
    \<and> guard_auto_research_finish E t i x a d' later = (t, Inr r)"
proof (rule decide_open [OF assms(2,4,5,3), of d now])
  fix bs assume bs: "auto_research_finish_blockers s i = Inr bs" "bs \<noteq> []"
    and d: "decide_finish s i d now = Inr (s, Blocked, length bs, blocked_result i bs)"
  obtain r where r: "keep_finish_receipt E s x i a now (Blocked, length bs, blocked_result i bs)
        = Inr (s\<lparr>st_finish_receipts := dset x r (st_finish_receipts s)\<rparr>, r)"
      "finish_receipt_row E r = Inr r" "fr_disposition r = Blocked" "fr_episode_id r = i" "fr_actor_operation_id r = a"
    by (rule keep_receipt [OF blocked_ok [OF bs strip_nonempty [OF assms(8)]]])
  have "open_work s i \<or> open_experiment s i \<or> open_notice s i \<or> open_admission s i"
    using no_blockers [OF assms(2)] bs by auto
  then show ?thesis using guard_fresh [OF assms(6-8) d r(1)] r(3) guard_replay [OF _ r(2,4,5) assms(7,8)] by fastforce
next
  fix ws
  let ?s = "(on_episode i (fenced_complete d now) s)\<lparr>st_watchers := ws\<rparr>" and ?e = "fenced_complete d now e"
  assume bs: "auto_research_finish_blockers s i = Inr []"
    and d: "decide_finish s i d now = Inr (?s, Completed, 0, completed_result ?e)"
  have row: "dget (st_episodes s) i = Some e" using assms(2) by (simp add: load_auto_Inr)
  have "keyed ep_episode_id (st_episodes s)"
    using reachable_ok [OF assms(1)] by (simp add: reach_ok_def store_ok_def store_shape_def)
  then have "ep_episode_id ?e = i" "ep_ending ?e = Some EndCompleted"
    using keyed_dget row by (simp_all add: fenced_complete_def)
  note ok = completed_ok [OF this strip_nonempty [OF assms(8)]]
  obtain r where r: "keep_finish_receipt E ?s x i a now (Completed, 0, completed_result ?e)
        = Inr (?s\<lparr>st_finish_receipts := dset x r (st_finish_receipts ?s)\<rparr>, r)"
      "finish_receipt_row E r = Inr r" "fr_disposition r = Completed" "fr_episode_id r = i" "fr_actor_operation_id r = a"
    by (rule keep_receipt [OF ok])
  have "\<not> (open_work s i \<or> open_experiment s i \<or> open_notice s i \<or> open_admission s i)"
    using no_blockers [OF assms(2)] bs by simp
  moreover have "dget (st_episodes ?s) i = Some ?e" using row by simp
  ultimately show ?thesis using guard_fresh [OF assms(6-8) d r(1)] r(3) guard_replay [OF _ r(2,4,5) assms(7,8)] by fastforce
qed

theorem guarded_finish_decides_witness:
  "\<exists>t r. guard_auto_research_finish demo_env demo_parent ''e1'' ''k1'' ''o1'' None ''t5'' = (t, Inr r)
    \<and> fr_disposition r = Completed"
proof -
  obtain e where e: "load_auto_research_episode demo_parent ''e1'' = Inr e" "ep_status e = ERunning" "ep_ending e = None"
      "ep_stop_requested_at e = None" by (rule demo_parent_loads)
  have "\<not> dhas ''k1'' (st_finish_receipts demo_parent)" "py_strip ''k1'' \<noteq> []" "py_strip ''o1'' \<noteq> []" by code_simp+
  note decided = guarded_finish_decides [OF demo_parent_reachable e(1) _ e(3,4) this, of None "''t5''" None "''t5''"]
  have "map_sum id length (auto_research_finish_blockers demo_parent ''e1'') = Inr 0" by code_simp
  then have "auto_research_finish_blockers demo_parent ''e1'' = Inr []"
    by (cases "auto_research_finish_blockers demo_parent ''e1''") auto
  then show ?thesis using decided e(2) no_blockers [OF e(1)] by auto
qed

text \<open>The guarded Finish refines the generic ending fence: from every store the ledger reaches, a Finish
  leaves a store the ledger reaches too, whose episodes, invocations, attempts, wrap-ups and reports are either
  untouched or those the completed fence of the episode leaves.\<close>

theorem guarded_finish_refines_fence:
  assumes "reachable E s"
  shows "reachable E (fst (guard_auto_research_finish E s i x a d now))
    \<and> (ledger (fst (guard_auto_research_finish E s i x a d now)) = ledger s
       \<or> ledger (fst (guard_auto_research_finish E s i x a d now)) = ledger (fst (fence_episode_ending s i EndCompleted d now)))"
proof
  have f: "reachable E (fst (fence_episode_ending s i EndCompleted d now))" by (rule r_step [OF assms l_fence])
  show "reachable E (fst (guard_auto_research_finish E s i x a d now))"
    using guard_ledger [of E s i x a d now] r_step [OF assms l_other] r_step [OF f l_other] by metis
qed (rule guard_ledger)

theorem guarded_finish_refines_fence_witness:
  "reachable demo_env (fst (guard_auto_research_finish demo_env demo_parent ''e1'' ''k1'' ''o1'' None ''t5''))
    \<and> map_option ep_status (dget (st_episodes (fst (guard_auto_research_finish demo_env demo_parent ''e1'' ''k1'' ''o1'' None ''t5''))) ''e1'')
      = Some EWrappingUp"
proof -
  have "map_option ep_status (dget (st_episodes (fst (guard_auto_research_finish demo_env demo_parent ''e1'' ''k1'' ''o1'' None ''t5''))) ''e1'')
      = Some EWrappingUp" by code_simp
  then show ?thesis using guarded_finish_refines_fence [OF demo_parent_reachable] by blast
qed

end
