(* ===== verification/WorkMachine.thy ===== *)
theory WorkMachine
  imports TurnMachine
begin

text \<open>
  The spawned workers of Auto-research episodes as a machine on top of the turns: spawning, resuming
  and waking a worker admit an attempt of its task, a stop request marks its route, and
  everything else leaves routes and attempts alone. The invariant ties each attempt to its route, and
  says that an active attempt is the current one and that each is paid for.
\<close>

section \<open>The machine\<close>

text \<open>Routes and attempts are untouched, and no attempt that has ended becomes active again.\<close>

definition works_kept :: "store \<Rightarrow> store \<Rightarrow> bool" where
  "works_kept s t \<longleftrightarrow> st_child_work t = st_child_work s \<and> st_work_attempts t = st_work_attempts s
     \<and> (\<forall>k q. dhas k (st_work_attempts s) \<longrightarrow> dget (st_tasks s) k = Some q
          \<longrightarrow> (\<exists>q'. dget (st_tasks t) k = Some q' \<and> (active q' \<longrightarrow> active q)))
     \<and> set (st_invocations s) \<subseteq> set (st_invocations t)"

inductive work_step :: "store_env \<Rightarrow> store \<Rightarrow> store \<Rightarrow> bool" for E where
  w_spawn: "work_step E s (fst (create_auto_research_child_work E s c t admission))"
| w_resume: "work_step E s (fst (create_auto_research_child_work_recovery E s w t))"
| w_wake: "work_step E s (fst (create_auto_research_child_work_message_wake_task E s w t ks))"
| w_stop: "work_step E s (fst (request_auto_research_child_work_stop E s w now))"
| w_turn: "turn_step E s t \<Longrightarrow> works_kept s t \<Longrightarrow> work_step E s t"

inductive work_reachable :: "store_env \<Rightarrow> store \<Rightarrow> bool" for E where
  wr_none: "ledger s = ([], [], [], [], []) \<Longrightarrow> st_tasks s = [] \<Longrightarrow> st_auto_invocations s = [] \<Longrightarrow> st_child_work s = []
    \<Longrightarrow> st_work_attempts s = [] \<Longrightarrow> work_reachable E s"
| wr_next: "work_reachable E s \<Longrightarrow> work_step E s t \<Longrightarrow> work_reachable E t"

section \<open>The invariant\<close>

definition work_paid :: "store \<Rightarrow> child_work \<Rightarrow> work_attempt \<Rightarrow> bool" where
  "work_paid s c a \<longleftrightarrow> (\<exists>j \<in> set (st_invocations s).
     iv_operation_id j = wa_allocation_operation_id a \<and> iv_episode_id j = cw_episode_id c)"

definition attempt_ok :: "store \<Rightarrow> work_attempt \<Rightarrow> bool" where
  "attempt_ok s a \<longleftrightarrow> (\<exists>c q. dget (st_child_work s) (wa_worker_id a) = Some c \<and> dget (st_tasks s) (wa_operation_id a) = Some q
     \<and> (active q \<longrightarrow> cw_current_operation_id c = wa_operation_id a) \<and> work_paid s c a)"

definition works_ok :: "store \<Rightarrow> bool" where
  "works_ok s \<longleftrightarrow> keyed cw_worker_id (st_child_work s) \<and> keyed wa_operation_id (st_work_attempts s)
     \<and> (\<forall>a \<in> set (dvalues (st_work_attempts s)). attempt_ok s a)"

lemma dget_snoc: "\<not> dhas k d \<Longrightarrow> dget (d @ [(k, v)]) j = (if j = k then Some v else dget d j)"
  by (auto simp: map_add_def dhas_iff split: option.splits)

lemma transact_works:
  "works_ok s \<Longrightarrow> (\<And>t x. body = Inr (t, x) \<Longrightarrow> works_ok t) \<Longrightarrow> works_ok (fst (transact s body after))"
  by (auto simp: transact_state split: sum.splits)

text \<open>A route may move on from an attempt that is not active.\<close>

lemma attempt_ok_frame:
  assumes a: "attempt_ok s a"
    and routes: "\<And>c. dget (st_child_work s) (wa_worker_id a) = Some c \<Longrightarrow> \<exists>d. dget (st_child_work t) (wa_worker_id a) = Some d
      \<and> cw_episode_id d = cw_episode_id c \<and> (cw_current_operation_id d = cw_current_operation_id c
        \<or> (\<forall>q. dget (st_tasks s) (cw_current_operation_id c) = Some q \<longrightarrow> \<not> active q))"
    and tasks: "\<And>q. dget (st_tasks s) (wa_operation_id a) = Some q
      \<Longrightarrow> \<exists>q'. dget (st_tasks t) (wa_operation_id a) = Some q' \<and> (active q' \<longrightarrow> active q)"
    and paid: "set (st_invocations s) \<subseteq> set (st_invocations t)"
  shows "attempt_ok t a"
proof -
  obtain c q where c: "dget (st_child_work s) (wa_worker_id a) = Some c" "dget (st_tasks s) (wa_operation_id a) = Some q"
      "active q \<Longrightarrow> cw_current_operation_id c = wa_operation_id a" "work_paid s c a"
    using a by (auto simp: attempt_ok_def)
  obtain d where d: "dget (st_child_work t) (wa_worker_id a) = Some d" "cw_episode_id d = cw_episode_id c"
      "cw_current_operation_id d = cw_current_operation_id c \<or> (\<forall>q. dget (st_tasks s) (cw_current_operation_id c) = Some q \<longrightarrow> \<not> active q)"
    using routes [OF c(1)] by blast
  obtain q' where q': "dget (st_tasks t) (wa_operation_id a) = Some q'" "active q' \<longrightarrow> active q" using tasks [OF c(2)] by blast
  have "active q' \<Longrightarrow> cw_current_operation_id d = wa_operation_id a" using c(2,3) d(3) q'(2) by auto
  moreover have "work_paid t d a" using c(4) d(2) paid by (auto simp: work_paid_def)
  ultimately show ?thesis using d(1) q'(1) by (auto simp: attempt_ok_def)
qed

lemma kept_works_ok: "works_kept s t \<Longrightarrow> works_ok s \<Longrightarrow> works_ok t"
proof -
  assume k: "works_kept s t" and ok: "works_ok s"
  have "attempt_ok t a" if a: "a \<in> set (dvalues (st_work_attempts s))" for a
  proof (rule attempt_ok_frame [of s])
    show "attempt_ok s a" using ok a by (simp add: works_ok_def)
    have "dhas (wa_operation_id a) (st_work_attempts s)"
      using ok keyed_value [OF _ a] by (auto simp: works_ok_def dhas_iff)
    then show "\<exists>q'. dget (st_tasks t) (wa_operation_id a) = Some q' \<and> (active q' \<longrightarrow> active q)"
      if "dget (st_tasks s) (wa_operation_id a) = Some q" for q
      using k that by (auto simp: works_kept_def)
  qed (use k in \<open>auto simp: works_kept_def\<close>)
  then show "works_ok t" using ok k by (auto simp: works_ok_def works_kept_def)
qed

text \<open>
  An admitted attempt: a new task row and a new attempt row, charged to a paid invocation, and a route that
  names the attempt as its current one.
\<close>

lemma work_admitted:
  assumes ok: "works_ok s" and tasks: "st_tasks u = st_tasks s @ [(op, x)]" "\<not> dhas op (st_tasks s)"
    and att: "st_work_attempts u = dset op n (st_work_attempts s)" "wa_operation_id n = op"
    and keyed: "keyed cw_worker_id (st_child_work u)"
    and routes: "\<And>w c. dget (st_child_work s) w = Some c \<Longrightarrow> \<exists>d. dget (st_child_work u) w = Some d
      \<and> cw_episode_id d = cw_episode_id c \<and> (cw_current_operation_id d = cw_current_operation_id c
        \<or> (\<forall>q. dget (st_tasks s) (cw_current_operation_id c) = Some q \<longrightarrow> \<not> active q))"
    and new: "dget (st_child_work u) (wa_worker_id n) = Some d" "cw_current_operation_id d = op" "work_paid u d n"
    and paid: "set (st_invocations s) \<subseteq> set (st_invocations u)"
  shows "works_ok u"
proof -
  have get: "dget (st_tasks u) k = (if k = op then Some x else dget (st_tasks s) k)" for k
    unfolding tasks(1) by (rule dget_snoc [OF tasks(2)])
  have "attempt_ok u a" if "a \<in> set (dvalues (st_work_attempts s))" for a
  proof (rule attempt_ok_frame [of s])
    show "attempt_ok s a" using ok that by (simp add: works_ok_def)
    then show "\<exists>q'. dget (st_tasks u) (wa_operation_id a) = Some q' \<and> (active q' \<longrightarrow> active q)"
      if "dget (st_tasks s) (wa_operation_id a) = Some q" for q
      using tasks(2) that by (auto simp: get dhas_iff)
  qed (use routes paid in auto)
  moreover have "attempt_ok u n" using new att(2) by (auto simp: attempt_ok_def get)
  moreover have "set (dvalues (st_work_attempts u)) \<subseteq> insert n (set (dvalues (st_work_attempts s)))"
    unfolding att(1) using set_dset [of op n "st_work_attempts s"] by (auto simp: dvalues_def)
  ultimately show ?thesis using ok keyed keyed_dset [of wa_operation_id "st_work_attempts s" n op] att(2) by (auto simp: works_ok_def att(1))
qed

section \<open>Admitting an attempt\<close>

definition new_attempt_row :: "string \<Rightarrow> agent_task \<Rightarrow> string \<Rightarrow> work_attempt" where
  "new_attempt_row w t k = \<lparr>wa_operation_id = tk_operation_id t, wa_worker_id = w, wa_allocation_operation_id = k,
     wa_created_at = tk_created_at t\<rparr>"

text \<open>What every admission writes besides the routes.\<close>

definition admits_attempt :: "store \<Rightarrow> string \<Rightarrow> agent_task \<Rightarrow> string \<Rightarrow> store \<Rightarrow> bool" where
  "admits_attempt s w t k u \<longleftrightarrow> \<not> dhas (tk_operation_id t) (st_tasks s)
     \<and> (\<exists>x. tk_operation_id x = tk_operation_id t \<and> st_tasks u = st_tasks s @ [(tk_operation_id t, x)])
     \<and> st_work_attempts u = dset (tk_operation_id t) (new_attempt_row w t k) (st_work_attempts s)
     \<and> st_auto_invocations u = st_auto_invocations s \<and> set (st_invocations s) \<subseteq> set (st_invocations u)"

lemma task_inserted:
  assumes "insert_agent_task E s t cause = Inr u"
  shows "\<not> dhas (tk_operation_id t) (st_tasks s)"
    "\<exists>x. tk_operation_id x = tk_operation_id t \<and> st_tasks u = st_tasks s @ [(tk_operation_id t, x)]"
    "st_auto_invocations u = st_auto_invocations s" "st_child_work u = st_child_work s"
    "st_work_attempts u = st_work_attempts s" "st_invocations u = st_invocations s"
proof -
  show "\<not> dhas (tk_operation_id t) (st_tasks s)"
    "\<exists>x. tk_operation_id x = tk_operation_id t \<and> st_tasks u = st_tasks s @ [(tk_operation_id t, x)]"
    "st_auto_invocations u = st_auto_invocations s"
    using insert_agent_task_row [OF assms] staged_columns(1) by metis+
  show "st_child_work u = st_child_work s" "st_work_attempts u = st_work_attempts s" "st_invocations u = st_invocations s"
    using assms by (auto simp: insert_agent_task_def sbind_eq_Inr split: if_splits)
qed

lemma work_rows_inserted:
  "insert_child_work s c = Inr u \<Longrightarrow> \<not> dhas (cw_worker_id c) (st_child_work s)
     \<and> u = s\<lparr>st_child_work := dset (cw_worker_id c) c (st_child_work s)\<rparr>"
  "insert_work_attempt s w t k = Inr u \<Longrightarrow> u = s\<lparr>st_work_attempts := dset (tk_operation_id t) (new_attempt_row w t k) (st_work_attempts s)\<rparr>"
  "advance_work s w t = Inr u \<Longrightarrow> u = s\<lparr>st_child_work := dmodify w (\<lambda>c. c\<lparr>cw_current_operation_id := tk_operation_id t,
     cw_updated_at := tk_created_at t\<rparr>) (st_child_work s)\<rparr>"
  "claim_work_mail s t ks = Inr u \<Longrightarrow> \<exists>ms. u = s\<lparr>st_messages := ms\<rparr>"
  "reflect_auto_research_child_admission s b i kind child now = Inr u \<Longrightarrow> \<exists>as. u = s\<lparr>st_admissions := as\<rparr>"
  by (auto simp: insert_child_work_def insert_work_attempt_def new_attempt_row_def advance_work_def claim_work_mail_def
      on_messages_def split: if_splits)
     (auto simp: reflect_auto_research_child_admission_def on_admission_def split: option.splits if_splits
       intro: exI [of _ "st_admissions s"])

lemma work_spent:
  assumes "spend_for_work s e t = Inr u"
  shows "st_tasks u = st_tasks s" "st_auto_invocations u = st_auto_invocations s" "st_child_work u = st_child_work s"
    "st_work_attempts u = st_work_attempts s"
    "st_invocations u = st_invocations s @ [paid_row (ep_episode_id e) t (ep_invocations_used e + 1)]"
  by (rule work_spend_result [OF assms]; auto simp: insert_invocation_def on_episode_def split: if_splits)+

lemma spawn_effect:
  assumes "spawn_work E s c t b = Inr u"
  obtains e where "load_auto_research_episode s (cw_episode_id c) = Inr e"
    "admits_attempt s (cw_worker_id c) t (tk_operation_id t) u" "\<not> dhas (cw_worker_id c) (st_child_work s)"
    "st_child_work u = dset (cw_worker_id c) c (st_child_work s)"
    "paid_row (ep_episode_id e) t (ep_invocations_used e + 1) \<in> set (st_invocations u)"
proof (rule spawn_result [OF assms])
  fix e s1 s2 s3 s4
  assume load: "load_auto_research_episode s (cw_episode_id c) = Inr e" and ins: "insert_agent_task E s t ''fresh'' = Inr s1"
    and rows: "insert_child_work s1 c = Inr s2" "insert_work_attempt s2 (cw_worker_id c) t (tk_operation_id t) = Inr s3"
    and spend: "spend_for_work s3 e t = Inr s4"
    and refl: "reflect_auto_research_child_admission s4 b (cw_episode_id c) WorkChild (cw_worker_id c) (tk_created_at t) = Inr u"
  obtain as where u: "u = s4\<lparr>st_admissions := as\<rparr>" using work_rows_inserted(5) [OF refl] by blast
  note r = task_inserted [OF ins] work_rows_inserted(1) [OF rows(1)] work_rows_inserted(2) [OF rows(2)] work_spent [OF spend]
  show ?thesis by (rule that [OF load]) (use r in \<open>auto simp: u admits_attempt_def\<close>)
qed

lemma resume_effect:
  assumes "resume_work E s w t = Inr u"
  obtains c q a where "dget (st_child_work s) w = Some c" "dget (st_tasks s) (cw_current_operation_id c) = Some q" "\<not> active q"
    "dget (st_work_attempts s) (tk_operation_id q) = Some a" "wa_worker_id a = w"
    "admits_attempt s w t (wa_allocation_operation_id a) u"
    "st_child_work u = dmodify w (\<lambda>c. c\<lparr>cw_current_operation_id := tk_operation_id t, cw_updated_at := tk_created_at t\<rparr>) (st_child_work s)"
proof (rule resume_result [OF assms])
  fix c e q a s1 s2
  assume h: "dget (st_child_work s) w = Some c" "dget (st_tasks s) (cw_current_operation_id c) = Some q"
    and st: "tk_status q \<in> {TPaused, TInterrupted, TFailed}"
    and a: "dget (st_work_attempts s) (tk_operation_id q) = Some a" "wa_worker_id a = w"
    and ins: "insert_agent_task E s t ''resume'' = Inr s1"
    and rows: "insert_work_attempt s1 w t (wa_allocation_operation_id a) = Inr s2" "advance_work s2 w t = Inr u"
  note r = task_inserted [OF ins] work_rows_inserted(2) [OF rows(1)] work_rows_inserted(3) [OF rows(2)]
  show ?thesis by (rule that [OF h _ a]) (use r st in \<open>auto simp: admits_attempt_def active_def\<close>)
qed

lemma wake_effect:
  assumes "wake_work E s w t ks = Inr (u, b)"
  obtains (asleep) "u = s"
  | (woken) c e q where "dget (st_child_work s) w = Some c" "dget (st_tasks s) (cw_current_operation_id c) = Some q" "\<not> active q"
      "load_auto_research_episode s (cw_episode_id c) = Inr e" "admits_attempt s w t (tk_operation_id t) u"
      "st_child_work u = dmodify w (\<lambda>c. c\<lparr>cw_current_operation_id := tk_operation_id t, cw_updated_at := tk_created_at t\<rparr>) (st_child_work s)"
      "paid_row (ep_episode_id e) t (ep_invocations_used e + 1) \<in> set (st_invocations u)"
  using assms
proof (cases rule: wake_work_result)
  case asleep
  then show ?thesis using that(1) by blast
next
  case (woken c e q s1 s2 s3 s4)
  obtain ms where u: "u = s4\<lparr>st_messages := ms\<rparr>" using work_rows_inserted(4) [OF woken(12)] by blast
  note r = task_inserted [OF woken(8)] work_rows_inserted(2) [OF woken(9)] work_spent [OF woken(10)] work_rows_inserted(3) [OF woken(11)]
  show ?thesis by (rule that(2) [OF woken(1,2) _ woken(3)]) (use r woken(6) in \<open>auto simp: u admits_attempt_def active_def\<close>)
qed

lemma spawn_works_ok:
  assumes ok: "works_ok s" and run: "spawn_work E s c t b = Inr u" and shape: "child_work_shape c t"
    and id: "\<And>i e. load_auto_research_episode s i = Inr e \<Longrightarrow> ep_episode_id e = i"
  shows "works_ok u"
proof (rule spawn_effect [OF run])
  fix e
  assume load: "load_auto_research_episode s (cw_episode_id c) = Inr e"
    and h: "admits_attempt s (cw_worker_id c) t (tk_operation_id t) u" and fresh: "\<not> dhas (cw_worker_id c) (st_child_work s)"
    and routes: "st_child_work u = dset (cw_worker_id c) c (st_child_work s)"
    and paid: "paid_row (ep_episode_id e) t (ep_invocations_used e + 1) \<in> set (st_invocations u)"
  obtain x where x: "st_tasks u = st_tasks s @ [(tk_operation_id t, x)]" "\<not> dhas (tk_operation_id t) (st_tasks s)"
    using h by (auto simp: admits_attempt_def)
  show ?thesis
  proof (rule work_admitted [OF ok x, where n = "new_attempt_row (cw_worker_id c) t (tk_operation_id t)" and d = c])
    show "work_paid u c (new_attempt_row (cw_worker_id c) t (tk_operation_id t))"
      using paid id [OF load] by (force simp: work_paid_def new_attempt_row_def paid_row_def)
    show "keyed cw_worker_id (st_child_work u)"
      unfolding routes using ok by (intro keyed_dset) (simp_all add: works_ok_def)
    show "cw_current_operation_id c = tk_operation_id t" using shape by (simp add: child_work_shape_def)
  qed (use h fresh in \<open>auto simp: admits_attempt_def new_attempt_row_def routes dhas_iff\<close>)
qed

lemma continued_works_ok:
  assumes ok: "works_ok s" and c: "dget (st_child_work s) w = Some c"
    and q: "dget (st_tasks s) (cw_current_operation_id c) = Some q" "\<not> active q"
    and h: "admits_attempt s w t k u"
    and routes: "st_child_work u = dmodify w (\<lambda>c. c\<lparr>cw_current_operation_id := tk_operation_id t, cw_updated_at := tk_created_at t\<rparr>) (st_child_work s)"
    and paid: "\<exists>j \<in> set (st_invocations u). iv_operation_id j = k \<and> iv_episode_id j = cw_episode_id c"
  shows "works_ok u"
proof -
  obtain x where x: "st_tasks u = st_tasks s @ [(tk_operation_id t, x)]" "\<not> dhas (tk_operation_id t) (st_tasks s)"
    using h by (auto simp: admits_attempt_def)
  let ?d = "c\<lparr>cw_current_operation_id := tk_operation_id t, cw_updated_at := tk_created_at t\<rparr>"
  show ?thesis
  proof (rule work_admitted [OF ok x, where n = "new_attempt_row w t k" and d = ?d])
    show "work_paid u ?d (new_attempt_row w t k)" using paid by (simp add: work_paid_def new_attempt_row_def)
    show "keyed cw_worker_id (st_child_work u)"
      unfolding routes using ok by (intro keyed_dmodify) (simp_all add: works_ok_def)
  qed (use h c q in \<open>auto simp: admits_attempt_def new_attempt_row_def routes dget_dmodify\<close>)
qed

section \<open>The operations on turns\<close>

text \<open>Admissions of turns add rows; transitions and restores only end what is active.\<close>

lemma work_rows_kept:
  assumes "st_child_work t = st_child_work s" "st_work_attempts t = st_work_attempts s"
    and "st_tasks t = st_tasks s \<or> (\<exists>k x. \<not> dhas k (st_tasks s) \<and> st_tasks t = st_tasks s @ [(k, x)])"
    and "set (st_invocations s) \<subseteq> set (st_invocations t)"
  shows "works_kept s t"
  using assms(3)
proof
  assume "st_tasks t = st_tasks s"
  then show ?thesis using assms(1,2,4) by (simp add: works_kept_def)
next
  assume "\<exists>k x. \<not> dhas k (st_tasks s) \<and> st_tasks t = st_tasks s @ [(k, x)]"
  then obtain k x where k: "\<not> dhas k (st_tasks s)" "st_tasks t = st_tasks s @ [(k, x)]" by blast
  have "dget (st_tasks t) j = Some q" if "dget (st_tasks s) j = Some q" for j q
    unfolding k(2) dget_snoc [OF k(1)] using that k(1) by (auto simp: dhas_iff)
  then show ?thesis using assms(1,2,4) by (auto simp: works_kept_def)
qed

lemma transact_works_kept:
  "(\<And>t x. body = Inr (t, x) \<Longrightarrow> works_kept s t) \<Longrightarrow> works_kept s (fst (transact s body after))"
  by (auto simp: transact_state works_kept_def split: sum.splits)

lemma invocation_frames:
  "insert_invocation s j = Inr u \<Longrightarrow> u = s\<lparr>st_invocations := st_invocations s @ [j]\<rparr>"
  "insert_auto_research_invocation s a = Inr u \<Longrightarrow> \<exists>as. u = s\<lparr>st_auto_invocations := as\<rparr>"
  "insert_auto_research_state s a' = Inr u \<Longrightarrow> \<exists>as. u = s\<lparr>st_auto_research := as\<rparr>"
  "insert_episode s e = Inr u \<Longrightarrow> \<exists>es. u = s\<lparr>st_episodes := es\<rparr>"
  by (auto simp: insert_invocation_def insert_auto_research_invocation_def insert_auto_research_state_def insert_episode_def
      split: if_splits)

lemma paid_keeps_works:
  assumes "insert_paid_auto_research_task E s e t role cause = Inr u"
  shows "works_kept s u"
proof (rule paid_result [OF assms])
  fix v actor seat s1 s2 s3
  assume ins: "insert_agent_task E s v cause = Inr s1"
    and iv: "insert_invocation s1 (paid_row (ep_episode_id e) t (ep_invocations_used e + 1)) = Inr s2"
    and ai: "insert_auto_research_invocation s2 (turn_row (ep_episode_id e) t (tk_operation_id t) role actor seat) = Inr s3"
    and u: "u = on_episode (ep_episode_id e) (\<lambda>e. e\<lparr>ep_invocations_used := ep_invocations_used e + 1,
       ep_updated_at := tk_created_at t\<rparr>) s3"
  note r = task_inserted [OF ins] invocation_frames(1) [OF iv] invocation_frames(2) [OF ai]
  show ?thesis by (rule work_rows_kept) (use r in \<open>auto simp: u on_episode_def\<close>)
qed

lemma start_keeps_works:
  assumes "start_research E s e st t = Inr u"
  shows "works_kept s u"
proof (rule start_result [OF assms])
  fix v actor seat s1 s2 s3 s4 s5
  assume ins: "insert_episode s e = Inr s1" "insert_auto_research_state s1 st = Inr s2" "insert_agent_task E s2 v ''fresh'' = Inr s3"
    "insert_invocation s3 (paid_row (ep_episode_id e) t 1) = Inr s4"
    "insert_auto_research_invocation s4 (turn_row (ep_episode_id e) t (tk_operation_id t) OrchestratorRole actor seat) = Inr s5"
    and u: "u = on_episode (ep_episode_id e) (\<lambda>e. if ep_invocations_used e = 0
       then e\<lparr>ep_invocations_used := 1, ep_updated_at := tk_created_at t\<rparr> else e) s5"
  note r = invocation_frames(4) [OF ins(1)] invocation_frames(3) [OF ins(2)] task_inserted [OF ins(3)]
    invocation_frames(1) [OF ins(4)] invocation_frames(2) [OF ins(5)]
  show ?thesis by (rule work_rows_kept) (use r in \<open>auto simp: u on_episode_def\<close>)
qed

lemma recovery_keeps_works:
  assumes "insert_recovery_task E s t i p cause = Inr u"
  shows "works_kept s u"
proof -
  obtain v a s1 where ins: "insert_agent_task E s v cause = Inr s1" and ai: "insert_auto_research_invocation s1 a = Inr u"
    using assms by (auto simp: insert_recovery_task_def sbind_eq_Inr split: option.splits)
  show ?thesis
    by (rule work_rows_kept) (use task_inserted [OF ins] invocation_frames(2) [OF ai] in auto)
qed

lemma handed_over_works: "works_kept s u \<Longrightarrow> works_kept s (on_messages P f u)" "works_kept s u \<Longrightarrow> works_kept s (on_notices Q g u)"
  by (simp_all add: works_kept_def on_messages_def on_notices_def)

lemma works_kept_refl: "works_kept s s" by (simp add: works_kept_def)

lemma task_update_keeps_works:
  assumes "\<And>q. dget (st_tasks s) op = Some q \<Longrightarrow> active (f q) \<Longrightarrow> active q"
  shows "works_kept s (on_task op f s)"
  using assms by (auto simp: works_kept_def on_task_def dget_dmodify)

lemma turns_keep_works:
  "works_kept s (fst (create_auto_research_episode_with_root_task E s e st t on))"
  "works_kept s (fst (create_auto_research_agent_task E s t role cause))"
  "works_kept s (fst (create_auto_research_message_wake_task E s t role recipient ks))"
  "works_kept s (fst (create_auto_research_lifecycle_wake_task E s t ns ks))"
  "works_kept s (fst (create_auto_research_recovery_task E s t cause))"
  "(\<And>q. tk_status (f q) = tk_status q) \<Longrightarrow> works_kept s (fst (transition_agent_task s op target f))"
proof -
  show "works_kept s (fst (create_auto_research_episode_with_root_task E s e st t on))"
    unfolding create_auto_research_episode_with_root_task_def
    by (rule transact_works_kept) (auto simp: sbind_eq_Inr split: if_splits intro: start_keeps_works)
  show "works_kept s (fst (create_auto_research_agent_task E s t role cause))"
    unfolding create_auto_research_agent_task_def
    by (rule transact_works_kept) (auto simp: sbind_eq_Inr split: option.splits intro: paid_keeps_works)
  show "works_kept s (fst (create_auto_research_message_wake_task E s t role recipient ks))"
    unfolding create_auto_research_message_wake_task_def
    by (rule transact_works_kept)
       (auto split: option.splits if_splits elim!: message_wake_result intro: handed_over_works paid_keeps_works works_kept_refl)
  show "works_kept s (fst (create_auto_research_lifecycle_wake_task E s t ns ks))"
    unfolding create_auto_research_lifecycle_wake_task_def
    by (rule transact_works_kept)
       (auto split: option.splits if_splits elim!: lifecycle_wake_result intro: handed_over_works paid_keeps_works works_kept_refl)
  show "works_kept s (fst (create_auto_research_recovery_task E s t cause))"
    unfolding create_auto_research_recovery_task_def
    by (rule transact_works_kept) (auto simp: sbind_eq_Inr split: option.splits intro: recovery_keeps_works)
  show "works_kept s (fst (transition_agent_task s op target f))" if "\<And>q. tk_status (f q) = tk_status q"
  proof -
    have "active q" if "tk_status q \<in> set (AGENT_TASK_TRANSITIONS target)" for q
      using transition_from_active [OF that] by (simp add: active_def)
    then have "works_kept s (on_task op (\<lambda>q. f (q\<lparr>tk_status := target\<rparr>)) s)"
      if "dget (st_tasks s) op = Some q" "tk_status q \<in> set (AGENT_TASK_TRANSITIONS target)" for q
      using that by (intro task_update_keeps_works) auto
    then show ?thesis by (auto simp: transition_agent_task_def works_kept_refl split: option.splits)
  qed
qed

section \<open>Steps\<close>

lemma resume_works_ok:
  assumes ok: "works_ok s" and run: "resume_work E s w t = Inr u"
  shows "works_ok u"
proof (rule resume_effect [OF run])
  fix c q a
  assume c: "dget (st_child_work s) w = Some c" and q: "dget (st_tasks s) (cw_current_operation_id c) = Some q" "\<not> active q"
    and a: "dget (st_work_attempts s) (tk_operation_id q) = Some a" "wa_worker_id a = w"
    and h: "admits_attempt s w t (wa_allocation_operation_id a) u"
    and routes: "st_child_work u = dmodify w (\<lambda>c. c\<lparr>cw_current_operation_id := tk_operation_id t, cw_updated_at := tk_created_at t\<rparr>) (st_child_work s)"
  have "attempt_ok s a" using ok dget_value [OF a(1)] by (simp add: works_ok_def)
  then have "work_paid s c a" using c a(2) by (auto simp: attempt_ok_def)
  then show ?thesis using h by (intro continued_works_ok [OF ok c q h routes]) (auto simp: work_paid_def admits_attempt_def)
qed

lemma wake_works_ok:
  assumes ok: "works_ok s" and run: "wake_work E s w t ks = Inr (u, b)"
    and id: "\<And>i e. load_auto_research_episode s i = Inr e \<Longrightarrow> ep_episode_id e = i"
  shows "works_ok u"
  using run
proof (cases rule: wake_effect)
  case asleep
  then show ?thesis using ok by simp
next
  case (woken c e q)
  then show ?thesis using id [OF woken(4)] by (intro continued_works_ok [OF ok woken(1,2,3,5,6)]) (force simp: paid_row_def)
qed

lemma stop_works_ok:
  assumes ok: "works_ok s"
  shows "works_ok (fst (request_auto_research_child_work_stop E s w now))"
  unfolding request_auto_research_child_work_stop_def
proof (rule transact_works [OF ok])
  fix u x
  let ?f = "\<lambda>c. c\<lparr>cw_stop_requested_at := coalesce (cw_stop_requested_at c) now, cw_updated_at := now\<rparr>"
  assume "(if \<not> dhas w (st_child_work s) then Inl StoreKeyError
    else Inr (s\<lparr>st_child_work := dmodify w ?f (st_child_work s)\<rparr>, ())) = Inr (u, x)"
  then have u: "u = s\<lparr>st_child_work := dmodify w ?f (st_child_work s)\<rparr>" by (simp split: if_splits)
  have "attempt_ok u a" if "a \<in> set (dvalues (st_work_attempts s))" for a
    by (rule attempt_ok_frame [of s]) (use ok that in \<open>auto simp: works_ok_def u dget_dmodify\<close>)
  moreover have "keyed cw_worker_id (dmodify w ?f (st_child_work s))" using ok by (intro keyed_dmodify) (simp_all add: works_ok_def)
  ultimately show "works_ok u" using ok by (simp add: works_ok_def u)
qed

lemma work_step_ok:
  assumes "work_step E s t" and r: "reach_ok s" and ok: "works_ok s"
  shows "works_ok t"
  using assms(1)
proof cases
  case (w_spawn c t b)
  show ?thesis unfolding w_spawn create_auto_research_child_work_def
    by (rule transact_works [OF ok]) (auto simp: sbind_eq_Inr split: if_splits intro: spawn_works_ok [OF ok _ _ row_id [OF r]])
next
  case (w_resume w t)
  show ?thesis unfolding w_resume create_auto_research_child_work_recovery_def
    by (rule transact_works [OF ok]) (auto simp: sbind_eq_Inr intro: resume_works_ok [OF ok])
next
  case (w_wake w t ks)
  show ?thesis unfolding w_wake create_auto_research_child_work_message_wake_task_def
    by (rule transact_works [OF ok]) (auto split: if_splits intro: wake_works_ok [OF ok _ row_id [OF r]])
next
  case (w_stop w now)
  then show ?thesis using stop_works_ok [OF ok] by simp
next
  case w_turn
  then show ?thesis using kept_works_ok ok by blast
qed

text \<open>On the turns, a worker's step is one that leaves them alone.\<close>

definition turns_alone :: "store \<Rightarrow> store \<Rightarrow> bool" where
  "turns_alone s t \<longleftrightarrow> rows_kept s t \<and> st_auto_invocations t = st_auto_invocations s"

lemma transact_alone:
  "turns_ok s \<Longrightarrow> (\<And>t x. body = Inr (t, x) \<Longrightarrow> turns_alone s t) \<Longrightarrow> turns_alone s (fst (transact s body after))"
  by (auto simp: transact_state turns_alone_def rows_kept_def turns_ok_def split: sum.splits)

lemma admits_alone:
  assumes ok: "turns_ok s" and h: "admits_attempt s w t k u"
  shows "turns_alone s u"
proof -
  obtain x where x: "tk_operation_id x = tk_operation_id t" "st_tasks u = st_tasks s @ [(tk_operation_id t, x)]"
    and fresh: "\<not> dhas (tk_operation_id t) (st_tasks s)"
    using h by (auto simp: admits_attempt_def)
  have "keyed tk_operation_id (st_tasks u)"
    using keyed_dset [of tk_operation_id "st_tasks s" x] ok x fresh by (simp add: turns_ok_def dset_fresh)
  moreover have "dget (st_tasks u) j = Some q" if "dget (st_tasks s) j = Some q" for j q
    using that fresh by (auto simp: x(2) dget_snoc [OF fresh] dhas_iff simp del: map_of_append)
  ultimately show ?thesis using h by (auto simp: turns_alone_def rows_kept_def admits_attempt_def)
qed

lemma worker_turns:
  assumes ok: "turns_ok s"
  shows "turns_alone s (fst (create_auto_research_child_work E s c t b))"
    "turns_alone s (fst (create_auto_research_child_work_recovery E s w t))"
    "turns_alone s (fst (create_auto_research_child_work_message_wake_task E s w t ks))"
    "turns_alone s (fst (request_auto_research_child_work_stop E s w now))"
proof -
  have self: "turns_alone s s" using ok by (auto simp: turns_alone_def rows_kept_def turns_ok_def)
  show "turns_alone s (fst (create_auto_research_child_work E s c t b))"
    unfolding create_auto_research_child_work_def
    by (rule transact_alone [OF ok]) (auto simp: sbind_eq_Inr split: if_splits elim!: spawn_effect intro: admits_alone [OF ok])
  show "turns_alone s (fst (create_auto_research_child_work_recovery E s w t))"
    unfolding create_auto_research_child_work_recovery_def
    by (rule transact_alone [OF ok]) (auto simp: sbind_eq_Inr elim!: resume_effect intro: admits_alone [OF ok])
  show "turns_alone s (fst (create_auto_research_child_work_message_wake_task E s w t ks))"
    unfolding create_auto_research_child_work_message_wake_task_def
    by (rule transact_alone [OF ok]) (use self in \<open>auto split: if_splits elim!: wake_effect intro: admits_alone [OF ok]\<close>)
  show "turns_alone s (fst (request_auto_research_child_work_stop E s w now))"
    unfolding request_auto_research_child_work_stop_def
    by (rule transact_alone [OF ok]) (use self in \<open>auto simp: turns_alone_def rows_kept_def split: if_splits\<close>)
qed

lemma stop_ledger: "ledger (fst (request_auto_research_child_work_stop E s w now)) = ledger s"
  by (simp add: request_auto_research_child_work_stop_def transact_state ledger_def split: sum.splits if_splits)

lemma work_step_turn:
  assumes "work_step E s t" and ok: "turns_ok s"
  shows "turn_step E s t"
  using assms(1)
proof cases
  case (w_spawn c t b)
  then show ?thesis using worker_turns(1) [OF ok] by (auto simp: turns_alone_def intro: t_other l_spawn)
next
  case (w_resume w t)
  then show ?thesis using worker_turns(2) [OF ok] by (auto simp: turns_alone_def intro: t_other l_other resume_ledger)
next
  case (w_wake w t ks)
  then show ?thesis using worker_turns(3) [OF ok] by (auto simp: turns_alone_def intro: t_other l_work_wake)
next
  case (w_stop w now)
  then show ?thesis using worker_turns(4) [OF ok] by (auto simp: turns_alone_def intro: t_other l_other stop_ledger)
qed

lemma work_reachable_ok: "work_reachable E s \<Longrightarrow> turn_reachable E s \<and> works_ok s"
proof (induction rule: work_reachable.induct)
  case (wr_none s)
  then show ?case by (simp add: tr_none works_ok_def keyed_def dvalues_def)
next
  case (wr_next s t)
  then show ?case using turn_reachable_ok work_step_turn work_step_ok reachable_ok tr_next by blast
qed

end
