(* ===== verification/WorkProps.thy ===== *)
theory WorkProps
  imports ChildProps WorkMachine
begin

text \<open>
  What the spawned workers of an Auto-research episode guarantee: one running attempt per worker, a budget
  shared with the orchestrator's turns that recoveries do not touch, and a Finish that waits for them.
\<close>

section \<open>Attempts\<close>

definition worker_attempts :: "store \<Rightarrow> string \<Rightarrow> work_attempt list" where
  "worker_attempts s w = filter (\<lambda>a. wa_worker_id a = w) (dvalues (st_work_attempts s))"

definition attempt_active :: "store \<Rightarrow> work_attempt \<Rightarrow> bool" where
  "attempt_active s a \<longleftrightarrow> (case dget (st_tasks s) (wa_operation_id a) of
     None \<Rightarrow> False | Some q \<Rightarrow> tk_status q \<in> set ACTIVE_AGENT_TASK_STATUSES)"

text \<open>The allocations of an episode: those of its turns and those of its workers' attempts.\<close>

definition episode_allocations :: "store \<Rightarrow> string \<Rightarrow> string set" where
  "episode_allocations s i =
     ai_allocation_operation_id ` {a \<in> set (dvalues (st_auto_invocations s)). ai_episode_id a = i}
     \<union> wa_allocation_operation_id ` {a \<in> set (dvalues (st_work_attempts s)).
         map_option cw_episode_id (dget (st_child_work s) (wa_worker_id a)) = Some i}"

lemma active_attempt_current:
  assumes "works_ok s" and "a \<in> set (dvalues (st_work_attempts s))" and "attempt_active s a"
  obtains c q where "dget (st_child_work s) (wa_worker_id a) = Some c" "cw_current_operation_id c = wa_operation_id a"
    "dget (st_tasks s) (wa_operation_id a) = Some q" "tk_status q \<in> set ACTIVE_AGENT_TASK_STATUSES"
  using assms that
  by (auto simp: works_ok_def attempt_ok_def attempt_active_def active_def ACTIVE_AGENT_TASK_STATUSES_def split: option.splits)

section \<open>A demonstration\<close>

text \<open>An orchestrator spawns a worker, whose first attempt fails and is resumed.\<close>

definition helper :: child_work where
  "helper = \<lparr>cw_worker_id = ''w1'', cw_episode_id = ''e1'', cw_project_id = ''p'', cw_control_node_id = ''n1'',
     cw_root_operation_id = ''a1'', cw_current_operation_id = ''a1'', cw_admitted_by_operation_id = ''o1'',
     cw_instruction = ''look'', cw_instruction_sha256 = ''0'', cw_stop_requested_at = None, cw_created_at = ''t1'',
     cw_updated_at = ''t1''\<rparr>"

definition helper_task :: "string \<Rightarrow> string option \<Rightarrow> int \<Rightarrow> agent_task" where
  "helper_task op parent attempt = (demo_task op NodeChatTask)\<lparr>tk_graph_target := BranchTarget ''e1'',
     tk_request := [(''mode'', VStr ''work''), (''trigger'', VStr ''orchestrator''), (''node_id'', VStr ''n1''),
       (''session_id'', VStr ''x1'')],
     tk_native_session_id := Some ''x1'', tk_stage_root := Some ''/w'',
     tk_authorized_by := ep_authorized_by demo_episode, tk_parent_operation_id := parent, tk_attempt := attempt\<rparr>"

definition helper_spawned :: store where
  "helper_spawned = fst (create_auto_research_child_work demo_env study_started helper (helper_task ''a1'' None 1) None)"

definition helper_failed :: store where
  "helper_failed = fst (transition_agent_task helper_spawned ''a1'' TFailed id)"

definition helper_resumed :: store where
  "helper_resumed = fst (create_auto_research_child_work_recovery demo_env helper_failed ''w1'' (helper_task ''a2'' (Some ''a1'') 2))"

lemma helper_spawned_reachable: "work_reachable demo_env helper_spawned"
proof -
  have "work_reachable demo_env empty_store" by (rule wr_none) (simp_all add: empty_store_def ledger_def)
  then have "work_reachable demo_env study_started"
    unfolding study_started_def by (rule wr_next [OF _ w_turn [OF t_start [OF study_coherent] turns_keep_works(1)]])
  then show ?thesis unfolding helper_spawned_def by (rule wr_next [OF _ w_spawn])
qed

lemma helper_failed_reachable: "work_reachable demo_env helper_failed"
  unfolding helper_failed_def
  by (rule wr_next [OF helper_spawned_reachable w_turn [OF t_transition turns_keep_works(6)]]) simp_all

lemma helper_resumed_reachable: "work_reachable demo_env helper_resumed"
  unfolding helper_resumed_def by (rule wr_next [OF helper_failed_reachable w_resume])

section \<open>Properties\<close>

text \<open>C16: A worker has one running attempt at a time. In every store reached by spawning, resuming, waking and
  stopping workers, by the turns of the actors and by the task lifecycle, at most one attempt of a
  worker is queued, running or pausing, and it is the one its route names as current.\<close>

theorem one_attempt_per_worker:
  assumes "work_reachable E s"
  shows "length (filter (attempt_active s) (worker_attempts s w)) \<le> 1
    \<and> list_all (\<lambda>a. map_option cw_current_operation_id (dget (st_child_work s) w) = Some (wa_operation_id a))
        (filter (attempt_active s) (worker_attempts s w))"
proof -
  note ok = conjunct2 [OF work_reachable_ok [OF assms]]
  let ?xs = "filter (attempt_active s) (worker_attempts s w)"
  have cur: "map_option cw_current_operation_id (dget (st_child_work s) w) = Some (wa_operation_id a)" if "a \<in> set ?xs" for a
  proof -
    have a: "a \<in> set (dvalues (st_work_attempts s))" "wa_worker_id a = w" "attempt_active s a"
      using that by (auto simp: worker_attempts_def)
    then show ?thesis using active_attempt_current [OF ok a(1,3)] by auto
  qed
  have "distinct (map wa_operation_id ?xs)"
    using ok distinct_filtered_ids [of wa_operation_id "st_work_attempts s" "\<lambda>a. wa_worker_id a = w \<and> attempt_active s a"]
    by (simp add: works_ok_def worker_attempts_def)
  moreover have "set (map wa_operation_id ?xs) \<subseteq> {the (map_option cw_current_operation_id (dget (st_child_work s) w))}"
    using cur by force
  ultimately have "length ?xs \<le> 1"
    by (metis card_mono card.empty card.insert distinct_card empty_iff finite.emptyI finite.insertI length_map One_nat_def)
  then show ?thesis using cur by (simp add: list_all_iff)
qed

theorem one_attempt_per_worker_witness:
  "length (filter (attempt_active helper_resumed) (worker_attempts helper_resumed ''w1'')) \<le> 1
    \<and> map wa_operation_id (worker_attempts helper_resumed ''w1'') = [''a1'', ''a2'']"
proof -
  have "map wa_operation_id (worker_attempts helper_resumed ''w1'') = [''a1'', ''a2'']" by code_simp
  then show ?thesis using one_attempt_per_worker [OF helper_resumed_reachable, of "''w1''"] by blast
qed

text \<open>C17: Recoveries are free and nothing else is. In every store reached, the turns of an episode and the attempts
  of its workers together are charged to no more allocations than the meter of the episode counts, however often
  they are recovered, and the meter stays within the ceiling.\<close>

theorem actors_within_budget:
  assumes "work_reachable E s" and "dget (st_episodes s) i = Some e"
  shows "card (episode_allocations s i) \<le> nat (ep_invocations_used e) \<and> ep_invocations_used e \<le> ep_invocation_ceiling e"
proof -
  note ok = work_reachable_ok [OF assms(1)]
  have turns: "turns_ok s" and reach: "reachable E s" using turn_reachable_ok [OF conjunct1 [OF ok]] by blast+
  have "ai_allocation_operation_id a \<in> paid_operations s i"
    if "a \<in> set (dvalues (st_auto_invocations s))" "ai_episode_id a = i" for a
    using turns_okD(1) [OF turns that(1)] that(2) by (force simp: charged_def paid_operations_def)
  moreover have "wa_allocation_operation_id a \<in> paid_operations s i"
    if "a \<in> set (dvalues (st_work_attempts s))" "map_option cw_episode_id (dget (st_child_work s) (wa_worker_id a)) = Some i" for a
    using that ok by (force simp: works_ok_def attempt_ok_def work_paid_def paid_operations_def)
  ultimately have "episode_allocations s i \<subseteq> paid_operations s i" by (auto simp: episode_allocations_def)
  then show ?thesis using paid_operations_card [OF reach assms(2)] by (meson card_mono finite_paid_operations le_trans)
qed

theorem actors_within_budget_witness:
  "\<exists>e. dget (st_episodes helper_resumed) ''e1'' = Some e \<and> ep_invocations_used e = 2
    \<and> length (dvalues (st_work_attempts helper_resumed)) = 2 \<and> card (episode_allocations helper_resumed ''e1'') \<le> 2"
proof -
  have "map_option ep_invocations_used (dget (st_episodes helper_resumed) ''e1'') = Some 2"
    "length (dvalues (st_work_attempts helper_resumed)) = 2" by (code_simp, code_simp)
  then show ?thesis using actors_within_budget [OF helper_resumed_reachable, of "''e1''"] by auto
qed

text \<open>C18: Finish waits for the workers. When a Finish under a new effect identifier completes an episode that had
  no ending, no attempt of any of its workers was queued, running or pausing.\<close>

theorem finish_waits_for_workers:
  assumes "work_reachable E s" and "load_auto_research_episode s i = Inr e" and "ep_ending e = None"
    and "\<not> dhas x (st_finish_receipts s)" and "guard_auto_research_finish E s i x a d now = (t, Inr r)"
    and "fr_disposition r = Completed" and "dget (st_child_work s) w = Some c" and "cw_episode_id c = i"
  shows "filter (attempt_active s) (worker_attempts s w) = []"
proof -
  note ok = conjunct2 [OF work_reachable_ok [OF assms(1)]]
  obtain u p k n where d: "decide_finish s i d now = Inr (u, p, n)" and keep: "keep_finish_receipt E u x i a now (p, n) = Inr (k, r)"
    using assms(4,5) by (auto simp: guard_auto_research_finish_def transact_def sbind_eq_Inr dhas_iff
        split: option.splits sum.splits if_splits)
  have p: "p = Completed" using keep assms(6) by (auto simp: keep_finish_receipt_def finish_receipt_row_def sbind_eq_Inr split: if_splits prod.splits)
  have live: "ep_stop_requested_at e = None" "ep_status e \<in> {EQueued, ERunning}"
    using d assms(2,3) by (auto simp: decide_finish_def split: if_splits)
  have "auto_research_finish_blockers s i = Inr []"
    by (rule decide_open [OF assms(2,3) live, of d now]) (use d p in auto)
  then have none: "\<not> open_work s i" using no_blockers [OF assms(2)] by blast
  have "\<not> attempt_active s b" if "b \<in> set (worker_attempts s w)" for b
  proof
    assume act: "attempt_active s b"
    have b: "b \<in> set (dvalues (st_work_attempts s))" "wa_worker_id b = w" using that by (auto simp: worker_attempts_def)
    obtain c' q where "dget (st_child_work s) w = Some c'" "cw_current_operation_id c' = wa_operation_id b"
        "dget (st_tasks s) (wa_operation_id b) = Some q" "tk_status q \<in> set ACTIVE_AGENT_TASK_STATUSES"
      using active_attempt_current [OF ok b(1) act] b(2) by metis
    then have "open_work s i"
      using assms(7,8) dget_value by (fastforce simp: open_work_def ACTIVE_AGENT_TASK_STATUSES_def)
    then show False using none by blast
  qed
  then show ?thesis by (simp add: filter_empty_conv)
qed

text \<open>The failed worker does not hold a Finish back.\<close>

theorem finish_waits_for_workers_witness:
  "filter (attempt_active helper_failed) (worker_attempts helper_failed ''w1'') = []
    \<and> map_sum id fr_disposition (snd (guard_auto_research_finish demo_env helper_failed ''e1'' ''k1'' ''o1'' None ''t5'')) = Inr Completed
    \<and> map_sum id fr_disposition (snd (guard_auto_research_finish demo_env helper_resumed ''e1'' ''k1'' ''o1'' None ''t5'')) = Inr Blocked"
proof -
  have outcome: "map_sum id fr_disposition (snd (guard_auto_research_finish demo_env helper_failed ''e1'' ''k1'' ''o1'' None ''t5'')) = Inr Completed"
    "map_sum id fr_disposition (snd (guard_auto_research_finish demo_env helper_resumed ''e1'' ''k1'' ''o1'' None ''t5'')) = Inr Blocked"
    by (code_simp, code_simp)
  obtain t r where g: "guard_auto_research_finish demo_env helper_failed ''e1'' ''k1'' ''o1'' None ''t5'' = (t, Inr r)"
      "fr_disposition r = Completed"
    using outcome(1) by (cases "guard_auto_research_finish demo_env helper_failed ''e1'' ''k1'' ''o1'' None ''t5''"; cases "snd (guard_auto_research_finish demo_env helper_failed ''e1'' ''k1'' ''o1'' None ''t5'')") auto
  have "map_sum id ep_ending (load_auto_research_episode helper_failed ''e1'') = Inr None"
    "map_option cw_episode_id (dget (st_child_work helper_failed) ''w1'') = Some ''e1''"
    "\<not> dhas ''k1'' (st_finish_receipts helper_failed)" by (code_simp, code_simp, code_simp)
  moreover then obtain e c where "load_auto_research_episode helper_failed ''e1'' = Inr e" "ep_ending e = None"
      "dget (st_child_work helper_failed) ''w1'' = Some c" "cw_episode_id c = ''e1''"
    by (cases "load_auto_research_episode helper_failed ''e1''") auto
  ultimately show ?thesis using finish_waits_for_workers [OF helper_failed_reachable _ _ _ g] outcome by blast
qed

end
